(* ===== verification/Phoenix_Prelude.thy ===== *)
theory Phoenix_Prelude
  imports Main "HOL-Library.Word" "HOL-Library.Signed_Division"
begin

text \<open>
  The shared base of the development: the machine integers of the Rust sources as words of their
  width, the checked and saturating operations of the Rust standard library on them, Rust's
  \<open>Result\<close> as a sum (\<open>Inl\<close> the error) with the propagation operator \<open>?\<close> as \<open>and_then\<close>, ASCII
  predicates on byte strings, and the lemma collections the component theories use.
\<close>

section \<open>Machine integers\<close>

type_synonym u8 = "8 word"
type_synonym u16 = "16 word"
type_synonym u32 = "32 word"
type_synonym u64 = "64 word"
type_synonym u128 = "128 word"
type_synonym u256 = "256 word"
type_synonym u512 = "512 word"
type_synonym usize = "64 word"

text \<open>Signed machine integers are integers with an explicit range test at every operation.\<close>

type_synonym i32 = int
type_synonym i64 = int
type_synonym i128 = int

text \<open>Instants of the wall clock (\<^verbatim>\<open>DateTime<Utc>\<close>) in nanoseconds since the epoch.\<close>

type_synonym datetime = int

definition duration_seconds :: "i64 \<Rightarrow> int" where
  "duration_seconds s = s * 1000000000"

definition timestamp :: "datetime \<Rightarrow> i64" where
  "timestamp t = t div 1000000000"

named_theorems checked_simps "reading rules of checked machine arithmetic"
named_theorems result_simps "success rules of Rust results"

definition checked_add :: "'a::len word \<Rightarrow> 'a word \<Rightarrow> 'a word option" where
  "checked_add a b = (if unat a + unat b < 2 ^ LENGTH('a) then Some (a + b) else None)"

definition checked_sub :: "'a::len word \<Rightarrow> 'a word \<Rightarrow> 'a word option" where
  "checked_sub a b = (if b \<le> a then Some (a - b) else None)"

definition checked_mul :: "'a::len word \<Rightarrow> 'a word \<Rightarrow> 'a word option" where
  "checked_mul a b = (if unat a * unat b < 2 ^ LENGTH('a) then Some (a * b) else None)"

definition saturating_sub :: "'a::len word \<Rightarrow> 'a word \<Rightarrow> 'a word" where
  "saturating_sub a b = (if b \<le> a then a - b else 0)"

definition saturating_add :: "'a::len word \<Rightarrow> 'a word \<Rightarrow> 'a word" where
  "saturating_add a b = (if unat a + unat b < 2 ^ LENGTH('a) then a + b else - 1)"

definition saturating_mul :: "'a::len word \<Rightarrow> 'a word \<Rightarrow> 'a word" where
  "saturating_mul a b = (if unat a * unat b < 2 ^ LENGTH('a) then a * b else - 1)"

text \<open>\<open>try_from\<close> between unsigned widths: the value must fit the target.\<close>

definition try_narrow :: "'a::len word \<Rightarrow> 'b::len word option" where
  "try_narrow a = (if unat a < 2 ^ LENGTH('b) then Some (ucast a) else None)"

definition fits_signed :: "nat \<Rightarrow> int \<Rightarrow> bool" where
  "fits_signed n x \<longleftrightarrow> - (2 ^ (n - 1)) \<le> x \<and> x < 2 ^ (n - 1)"

text \<open>The result of a checked signed operation of width \<open>n\<close> whose exact value is \<open>x\<close>.\<close>

definition checked_signed :: "nat \<Rightarrow> int \<Rightarrow> int option" where
  "checked_signed n x = (if fits_signed n x then Some x else None)"

lemma unat_less_exp [simp]: "unat (a :: 'a::len word) < 2 ^ LENGTH('a)"
  by (rule unsigned_less)

lemma unat_ucast_up [simp]:
  "LENGTH('a) \<le> LENGTH('b) \<Longrightarrow> unat (ucast (a :: 'a::len word) :: 'b::len word) = unat a"
  by (simp add: unsigned_ucast_eq take_bit_nat_eq_self order_less_le_trans [OF unat_less_exp])

lemma unat_mult_exact:
  "unat a * unat b < 2 ^ LENGTH('a) \<Longrightarrow> unat (a * b :: 'a::len word) = unat a * unat b"
  by (simp add: unat_word_ariths)

lemma unat_push_bit_exact:
  "unat a * 2 ^ n < 2 ^ LENGTH('a) \<Longrightarrow> unat (push_bit n (a :: 'a::len word)) = unat a * 2 ^ n"
  by (simp only: unsigned_push_bit_eq) (simp add: push_bit_eq_mult take_bit_nat_eq_self)

lemma unat_drop_bit: "unat (drop_bit n (a :: 'a::len word)) = unat a div 2 ^ n"
  by (simp only: unat_drop_bit_eq) (simp add: drop_bit_eq_div)

lemma try_narrow_None [checked_simps]:
  "(try_narrow (a :: 'a::len word) :: 'b::len word option) = None \<longleftrightarrow> 2 ^ LENGTH('b) \<le> unat a"
  by (auto simp: try_narrow_def)

lemma unat_le_representable: "n \<le> unat (w :: 'a::len word) \<Longrightarrow> \<exists>v :: 'a word. unat v = n"
  by (rule exI [of _ "of_nat n"]) (simp add: unsigned_of_nat take_bit_nat_eq_self le_less_trans [OF _ unat_less_exp])

lemma checked_add_Some [checked_simps]:
  "checked_add a b = Some c \<longleftrightarrow> unat c = unat a + unat b"
proof
  assume "checked_add a b = Some c"
  then show "unat c = unat a + unat b"
    by (auto simp: checked_add_def unat_word_ariths split: if_splits)
next
  assume *: "unat c = unat a + unat b"
  have "unat c < 2 ^ LENGTH('a)" by simp
  with * show "checked_add a b = Some c"
    by (simp add: checked_add_def word_unat_eq_iff unat_word_ariths)
qed

lemma checked_sub_Some [checked_simps]:
  "checked_sub a b = Some c \<longleftrightarrow> unat a = unat c + unat b"
proof
  assume "checked_sub a b = Some c"
  then have "b \<le> a" "c = a - b"
    by (auto simp: checked_sub_def split: if_splits)
  then show "unat a = unat c + unat b"
    by (simp add: unat_sub word_le_nat_alt)
next
  assume *: "unat a = unat c + unat b"
  then have "b \<le> a" by (simp add: word_le_nat_alt)
  moreover from * this have "unat (a - b) = unat c" by (simp add: unat_sub)
  ultimately show "checked_sub a b = Some c"
    by (simp add: checked_sub_def word_unat_eq_iff)
qed

lemma checked_mul_Some [checked_simps]:
  "checked_mul a b = Some c \<longleftrightarrow> unat c = unat a * unat b"
proof
  assume "checked_mul a b = Some c"
  then show "unat c = unat a * unat b"
    by (auto simp: checked_mul_def unat_word_ariths split: if_splits)
next
  assume *: "unat c = unat a * unat b"
  have "unat c < 2 ^ LENGTH('a)" by simp
  with * show "checked_mul a b = Some c"
    by (simp add: checked_mul_def word_unat_eq_iff unat_word_ariths)
qed

lemma checked_add_None [checked_simps]:
  "checked_add (a :: 'a::len word) b = None \<longleftrightarrow> 2 ^ LENGTH('a) \<le> unat a + unat b"
  by (auto simp: checked_add_def)

lemma checked_sub_None [checked_simps]: "checked_sub a b = None \<longleftrightarrow> unat a < unat b"
  by (auto simp: checked_sub_def word_le_nat_alt)

lemma checked_mul_None [checked_simps]:
  "checked_mul (a :: 'a::len word) b = None \<longleftrightarrow> 2 ^ LENGTH('a) \<le> unat a * unat b"
  by (auto simp: checked_mul_def)

lemma checked_mul_exact:
  "unat a * unat b < 2 ^ LENGTH('a) \<Longrightarrow> checked_mul (a :: 'a::len word) b = Some (a * b)"
  by (simp add: checked_mul_def)

lemma checked_add_exact:
  "unat a + unat b < 2 ^ LENGTH('a) \<Longrightarrow> checked_add (a :: 'a::len word) b = Some (a + b)"
  by (simp add: checked_add_def)

lemma unat_add_exact:
  "unat a + unat b < 2 ^ LENGTH('a) \<Longrightarrow> unat (a + b :: 'a::len word) = unat a + unat b"
  by (simp add: unat_word_ariths)

lemma checked_sub_exact: "b \<le> a \<Longrightarrow> checked_sub a b = Some (a - b)"
  by (simp add: checked_sub_def)

lemma unat_sub_exact: "b \<le> a \<Longrightarrow> unat (a - b) = unat a - unat b"
  by (simp add: unat_sub)

lemma unat_of_nat_exact: "n < 2 ^ LENGTH('a) \<Longrightarrow> unat (of_nat n :: 'a::len word) = n"
  by (simp add: unsigned_of_nat take_bit_nat_eq_self)

lemma eq_of_unat: "unat (w :: 'a::len word) = n \<Longrightarrow> w = of_nat n"
  by auto

lemma unat_mult_bound:
  "m + n \<le> k \<Longrightarrow> a < 2 ^ m \<Longrightarrow> b < 2 ^ n \<Longrightarrow> a * b < (2 :: nat) ^ k"
proof -
  assume "m + n \<le> k" "a < 2 ^ m" "b < 2 ^ n"
  then have "a * b < 2 ^ m * 2 ^ n" by (intro mult_strict_mono') simp_all
  also have "\<dots> = 2 ^ (m + n)" by (simp add: power_add)
  also have "\<dots> \<le> 2 ^ k" using \<open>m + n \<le> k\<close> by (intro power_increasing) simp_all
  finally show ?thesis .
qed

lemma unat_saturating_sub [simp]: "unat (saturating_sub a b) = unat a - unat b"
  by (auto simp: saturating_sub_def unat_sub word_le_nat_alt)

lemma unat_minus_one_word' [simp]: "unat (- 1 :: 'a::len word) = 2 ^ LENGTH('a) - 1"
  by (simp add: unsigned_minus_1_eq_mask mask_eq_exp_minus_1)

lemma unat_saturating_add [simp]:
  "unat (saturating_add (a :: 'a::len word) b) = min (unat a + unat b) (2 ^ LENGTH('a) - 1)"
  by (auto simp: saturating_add_def unat_word_ariths)

lemma unat_saturating_mul [simp]:
  "unat (saturating_mul (a :: 'a::len word) b) = min (unat a * unat b) (2 ^ LENGTH('a) - 1)"
  by (auto simp: saturating_mul_def unat_word_ariths)

lemma try_narrow_Some [checked_simps]:
  "try_narrow (a :: 'a::len word) = Some (b :: 'b::len word) \<longleftrightarrow> unat b = unat a"
proof
  assume "try_narrow a = Some b"
  then show "unat b = unat a"
    by (auto simp: try_narrow_def unsigned_ucast_eq take_bit_nat_eq_self split: if_splits)
next
  assume *: "unat b = unat a"
  have "unat b < 2 ^ LENGTH('b)" by simp
  with * show "try_narrow a = Some b"
    by (simp add: try_narrow_def word_unat_eq_iff unsigned_ucast_eq take_bit_nat_eq_self)
qed

lemma checked_signed_Some [checked_simps]:
  "checked_signed n x = Some y \<longleftrightarrow> y = x \<and> fits_signed n x"
  by (auto simp: checked_signed_def)

lemma checked_signed_None [checked_simps]: "checked_signed n x = None \<longleftrightarrow> \<not> fits_signed n x"
  by (simp add: checked_signed_def)

subsection \<open>Rounded division\<close>

text \<open>Division rounding up, characterised by the Galois connection \<open>cdiv_le_iff\<close>.\<close>

definition cdiv :: "nat \<Rightarrow> nat \<Rightarrow> nat" where
  "cdiv a b = a div b + of_bool (a mod b \<noteq> 0)"

lemma cdiv_le_iff: "0 < b \<Longrightarrow> cdiv a b \<le> q \<longleftrightarrow> a \<le> q * b"
proof -
  assume b: "0 < b"
  have *: "a = a div b * b + a mod b" by simp
  have "a mod b < b" using b by simp
  show "cdiv a b \<le> q \<longleftrightarrow> a \<le> q * b"
  proof (cases "a mod b = 0")
    case True
    then have "a \<le> q * b \<longleftrightarrow> a div b * b \<le> q * b" using * by simp
    with True b show ?thesis by (simp add: cdiv_def)
  next
    case False
    have "a \<le> q * b \<longleftrightarrow> a div b < q"
    proof
      assume "a \<le> q * b"
      then have "a div b \<le> q" using b by (metis div_le_mono nonzero_mult_div_cancel_right neq0_conv)
      moreover have "\<not> a \<le> a div b * b" using False * by linarith
      then have "a div b \<noteq> q" using \<open>a \<le> q * b\<close> by auto
      ultimately show "a div b < q" by simp
    next
      assume "a div b < q"
      then have "Suc (a div b) * b \<le> q * b" by (intro mult_le_mono1) simp
      then have "a div b * b + b \<le> q * b" by simp
      then show "a \<le> q * b" using * \<open>a mod b < b\<close> by linarith
    qed
    with False show ?thesis by (auto simp: cdiv_def)
  qed
qed

lemma cdiv_upper: "0 < b \<Longrightarrow> a \<le> cdiv a b * b"
  using cdiv_le_iff [of b a "cdiv a b"] by simp

lemma cdiv_le_self: "cdiv a b \<le> a" if "0 < b"
  using that by (simp add: cdiv_le_iff)

lemma unat_of_bool [simp]: "unat (of_bool p :: 'a::len word) = of_bool p"
  by (cases p) simp_all

section \<open>Results\<close>

definition and_then :: "'e + 'a \<Rightarrow> ('a \<Rightarrow> 'e + 'b) \<Rightarrow> 'e + 'b" where
  "and_then r f = (case r of Inl e \<Rightarrow> Inl e | Inr a \<Rightarrow> f a)"

definition ok_or :: "'e \<Rightarrow> 'a option \<Rightarrow> 'e + 'a" where
  "ok_or e x = (case x of None \<Rightarrow> Inl e | Some a \<Rightarrow> Inr a)"

definition map_ok :: "('a \<Rightarrow> 'b) \<Rightarrow> 'e + 'a \<Rightarrow> 'e + 'b" where
  "map_ok f r = (case r of Inl e \<Rightarrow> Inl e | Inr a \<Rightarrow> Inr (f a))"

definition map_err :: "('e \<Rightarrow> 'f) \<Rightarrow> 'e + 'a \<Rightarrow> 'f + 'a" where
  "map_err f r = (case r of Inl e \<Rightarrow> Inl (f e) | Inr a \<Rightarrow> Inr a)"

definition is_ok :: "'e + 'a \<Rightarrow> bool" where
  "is_ok r = (case r of Inl _ \<Rightarrow> False | Inr _ \<Rightarrow> True)"

text \<open>\<open>iter().map(f).collect::<Result<Vec<_>, _>>()\<close>: the first error wins.\<close>

fun collect_results :: "('a \<Rightarrow> 'e + 'b) \<Rightarrow> 'a list \<Rightarrow> 'e + 'b list" where
  "collect_results f [] = Inr []"
| "collect_results f (x # xs) =
     and_then (f x) (\<lambda>y. and_then (collect_results f xs) (\<lambda>ys. Inr (y # ys)))"

lemma and_then_simps [simp]:
  "and_then (Inl e) f = Inl e" "and_then (Inr a) f = f a"
  by (simp_all add: and_then_def)

lemma and_then_Inr [result_simps]:
  "and_then r f = Inr b \<longleftrightarrow> (\<exists>a. r = Inr a \<and> f a = Inr b)"
  by (cases r) auto

lemma and_then_cong [fundef_cong]:
  "r = r' \<Longrightarrow> (\<And>a. r' = Inr a \<Longrightarrow> f a = g a) \<Longrightarrow> and_then r f = and_then r' g"
  by (cases r') auto

lemma and_then_InrE:
  assumes "and_then r f = Inr b"
  obtains a where "r = Inr a" "f a = Inr b"
  using assms by (cases r) auto

lemma and_then_Inl [result_simps]:
  "and_then r f = Inl e \<longleftrightarrow> r = Inl e \<or> (\<exists>a. r = Inr a \<and> f a = Inl e)"
  by (cases r) auto

lemma ok_or_simps [simp]: "ok_or e None = Inl e" "ok_or e (Some a) = Inr a"
  by (simp_all add: ok_or_def)

lemma ok_or_Inr [result_simps]: "ok_or e x = Inr a \<longleftrightarrow> x = Some a"
  by (cases x) auto

lemma ok_or_Inl [result_simps]: "ok_or e x = Inl e' \<longleftrightarrow> x = None \<and> e' = e"
  by (cases x) auto

lemma map_ok_simps [simp]: "map_ok f (Inl e) = Inl e" "map_ok f (Inr a) = Inr (f a)"
  by (simp_all add: map_ok_def)

lemma map_ok_Inr [result_simps]: "map_ok f r = Inr b \<longleftrightarrow> (\<exists>a. r = Inr a \<and> b = f a)"
  by (cases r) auto

lemma map_err_simps [simp]: "map_err f (Inl e) = Inl (f e)" "map_err f (Inr a) = Inr a"
  by (simp_all add: map_err_def)

lemma map_err_Inr [result_simps]: "map_err f r = Inr b \<longleftrightarrow> r = Inr b"
  by (cases r) auto

lemma is_ok_simps [simp]: "\<not> is_ok (Inl e)" "is_ok (Inr a)"
  by (simp_all add: is_ok_def)

lemma is_ok_iff: "is_ok r \<longleftrightarrow> (\<exists>a. r = Inr a)"
  by (cases r) auto

lemma if_Inl_Inr [result_simps]: "(if c then Inl e else r) = Inr b \<longleftrightarrow> \<not> c \<and> r = Inr b"
  by auto

lemma collect_results_Inr:
  "collect_results f xs = Inr ys \<longleftrightarrow> list_all2 (\<lambda>x y. f x = Inr y) xs ys"
  by (induction xs arbitrary: ys) (auto simp: result_simps list_all2_Cons1)

lemma collect_results_map:
  "(\<And>x. x \<in> set xs \<Longrightarrow> f x = Inr (g x)) \<Longrightarrow> collect_results f xs = Inr (map g xs)"
  by (induction xs) simp_all

section \<open>Bytes and strings\<close>

definition is_ascii_digit :: "char \<Rightarrow> bool" where
  "is_ascii_digit c \<longleftrightarrow> 48 \<le> (of_char c :: nat) \<and> (of_char c :: nat) \<le> 57"

definition is_lower_hex :: "char \<Rightarrow> bool" where
  "is_lower_hex c \<longleftrightarrow> is_ascii_digit c \<or> 97 \<le> (of_char c :: nat) \<and> (of_char c :: nat) \<le> 102"

definition is_ascii_hexdigit :: "char \<Rightarrow> bool" where
  "is_ascii_hexdigit c \<longleftrightarrow> is_lower_hex c \<or> 65 \<le> (of_char c :: nat) \<and> (of_char c :: nat) \<le> 70"

definition is_ascii_lowercase :: "char \<Rightarrow> bool" where
  "is_ascii_lowercase c \<longleftrightarrow> 97 \<le> (of_char c :: nat) \<and> (of_char c :: nat) \<le> 122"

definition to_ascii_lower :: "char \<Rightarrow> char" where
  "to_ascii_lower c =
     (if 65 \<le> (of_char c :: nat) \<and> (of_char c :: nat) \<le> 90
      then char_of ((of_char c :: nat) + 32) else c)"

definition to_ascii_upper :: "char \<Rightarrow> char" where
  "to_ascii_upper c =
     (if 97 \<le> (of_char c :: nat) \<and> (of_char c :: nat) \<le> 122
      then char_of ((of_char c :: nat) - 32) else c)"

definition starts_with :: "string \<Rightarrow> string \<Rightarrow> bool" where
  "starts_with p s \<longleftrightarrow> take (length p) s = p"

definition strip_prefix :: "string \<Rightarrow> string \<Rightarrow> string option" where
  "strip_prefix p s = (if starts_with p s then Some (drop (length p) s) else None)"

text \<open>The order of \<open>str\<close>: by bytes, a prefix before its extensions.\<close>

fun string_less :: "string \<Rightarrow> string \<Rightarrow> bool" where
  "string_less a [] = False"
| "string_less [] (c # b) = True"
| "string_less (x # a) (y # b) =
    ((of_char x :: nat) < of_char y \<or> x = y \<and> string_less a b)"

lemma string_less_total: "string_less a b \<or> a = b \<or> string_less b a"
proof (induction a b rule: string_less.induct)
  case (1 a)
  then show ?case by (cases a) auto
next
  case (3 x a y b)
  then show ?case using linorder_less_linear [of "of_char x :: nat" "of_char y"] by (auto simp: of_char_eq_iff)
qed auto

lemma string_less_asym: "string_less a b \<Longrightarrow> \<not> string_less b a"
  by (induction a b rule: string_less.induct) auto

lemma of_char_to_ascii_lower:
  "(of_char (to_ascii_lower c) :: nat) =
     (if 65 \<le> (of_char c :: nat) \<and> (of_char c :: nat) \<le> 90 then of_char c + 32 else of_char c)"
  by (simp add: to_ascii_lower_def of_char_of)

lemma to_ascii_lower_idem [simp]: "to_ascii_lower (to_ascii_lower c) = to_ascii_lower c"
proof -
  have "\<not> (65 \<le> (of_char (to_ascii_lower c) :: nat) \<and> (of_char (to_ascii_lower c) :: nat) \<le> 90)"
    by (auto simp: of_char_to_ascii_lower)
  then show ?thesis by (subst (1) to_ascii_lower_def) presburger
qed

lemma is_ascii_hexdigit_lower: "is_ascii_hexdigit (to_ascii_lower c) \<longleftrightarrow> is_lower_hex (to_ascii_lower c)"
  by (auto simp: is_ascii_hexdigit_def of_char_to_ascii_lower)

section \<open>Decimal numbers\<close>

text \<open>\<open>u128::to_string\<close> and friends: the decimal digits, most significant first.\<close>

fun dec_string :: "nat \<Rightarrow> string" where
  "dec_string n =
     (if n < 10 then [char_of (48 + n)] else dec_string (n div 10) @ [char_of (48 + n mod 10)])"

declare dec_string.simps [simp del]

fun parse_digits :: "string \<Rightarrow> nat \<Rightarrow> nat option" where
  "parse_digits [] acc = Some acc"
| "parse_digits (c # cs) acc =
     (if is_ascii_digit c then parse_digits cs (acc * 10 + (of_char c - 48)) else None)"

text \<open>
  \<open>str::parse::<uN>()\<close>: an optional leading plus sign, at least one digit, only digits, and a
  value that fits the type.
\<close>

definition parse_unsigned :: "string \<Rightarrow> 'a::len word option" where
  "parse_unsigned s =
     (let ds = (case s of CHR ''+'' # c # cs \<Rightarrow> c # cs | _ \<Rightarrow> s) in
      if ds = [] then None
      else case parse_digits ds 0 of
             None \<Rightarrow> None
           | Some n \<Rightarrow> if n < 2 ^ LENGTH('a) then Some (of_nat n) else None)"

lemma of_char_digit: "d < 10 \<Longrightarrow> (of_char (char_of (48 + d :: nat)) :: nat) = 48 + d"
  by (simp add: of_char_of)

lemma is_ascii_digit_digit: "d < 10 \<Longrightarrow> is_ascii_digit (char_of (48 + d :: nat))"
  by (simp add: is_ascii_digit_def of_char_digit del: of_char_of)

lemma parse_digits_dec_string: "parse_digits (dec_string n @ s) 0 = parse_digits s n"
proof (induction n arbitrary: s rule: dec_string.induct)
  case (1 n)
  show ?case
  proof (cases "n < 10")
    case True
    then show ?thesis
      by (simp add: dec_string.simps [of n] is_ascii_digit_digit of_char_digit del: of_char_of)
  next
    case False
    then show ?thesis
      by (subst dec_string.simps)
         (simp add: 1 is_ascii_digit_digit of_char_digit div_mult_mod_eq del: of_char_of)
  qed
qed

lemma hd_dec_string: "is_ascii_digit (hd (dec_string n))" "dec_string n \<noteq> []"
  by (induction n rule: dec_string.induct)
     (subst dec_string.simps; auto simp: is_ascii_digit_digit hd_append split: if_splits)+

lemma parse_unsigned_dec_string [simp]:
  "parse_unsigned (dec_string (unat (w :: 'a::len word))) = Some w"
proof -
  obtain c cs where *: "dec_string (unat w) = c # cs" and "is_ascii_digit c"
    using hd_dec_string [of "unat w"] by (cases "dec_string (unat w)") auto
  then have "c \<noteq> CHR ''+''" by (auto simp: is_ascii_digit_def)
  with * have "(case dec_string (unat w) of CHR ''+'' # c # cs \<Rightarrow> c # cs | _ \<Rightarrow> dec_string (unat w))
      = dec_string (unat w)"
    by (auto split: list.splits char.splits bool.splits)
  then show ?thesis
    using parse_digits_dec_string [of "unat w" "[]"] hd_dec_string(2) [of "unat w"]
    by (simp add: parse_unsigned_def)
qed

end
