(* ===== verification/Money_Path.thy ===== *)
theory Money_Path
  imports Phoenix_Prelude "HOL-Library.Monad_Syntax"
begin

unbundle bit_operations_syntax

text \<open>
  The money-path classifier: the decoder of calls to the reviewed Uniswap routers
  (money-path-classifier/src/uniswap.rs) and the classification of feed transactions by the pools they touch
  (money-path-classifier/src/lib.rs, domain.rs). The ABI library ethabi, the hexadecimal library and the reader
  of the JSON route registry are parameters. Text is ASCII.
\<close>

section \<open>Libraries\<close>

datatype param_type =
    ParamAddress
  | ParamBytes
  | ParamUint nat
  | ParamBool
  | ParamFixedBytes nat
  | ParamArray param_type
  | ParamTuple "param_type list"

datatype token =
    TkAddress "u8 list"
  | TkBytes "u8 list"
  | TkUint u256
  | TkBool bool
  | TkFixedBytes "u8 list"
  | TkArray "token list"
  | TkTuple "token list"

record abi_lib =
  ab_decode :: "param_type list \<Rightarrow> u8 list \<Rightarrow> token list option"
  ab_encode :: "token list \<Rightarrow> u8 list"
  ab_short_signature :: "string \<Rightarrow> param_type list \<Rightarrow> u8 list"
  ab_hex_decode :: "string \<Rightarrow> u8 list option"
  ab_hex_encode :: "u8 list \<Rightarrow> string"

section \<open>Data\<close>

type_synonym mp_address = string
type_synonym mp_pool_id = string

definition mp_address_parse :: "string \<Rightarrow> mp_address option" where
  "mp_address_parse input =
    (let canonical = map to_ascii_lower input in
     if length canonical \<noteq> 42 \<or> \<not> starts_with ''0x'' canonical \<or> \<not> list_all is_lower_hex (drop 2 canonical)
     then None else Some canonical)"

datatype router_kind = LegacySwapRouter | SwapRouter02 | UniversalRouter

datatype outer_selector_kind =
    LegacyExactInputSingle | LegacyExactInput | LegacyExactOutputSingle | LegacyMulticall
  | SwapRouter02ExactInputSingle | UniversalExecute | UniversalExecuteWithDeadline | UnknownSelectorKind

datatype wrapper_kind = DirectCall | MulticallWrapper | UniversalWrapper | NoWrapper

datatype decoded_swap_kind = V3ExactInputSingle | V3ExactInput | NoSwap

datatype unsupported_reason =
    NoReason | ExactOutput | AmbiguousMultiSwap | UnknownSelector | UnknownCommand | UnsupportedSwapFamily
  | NestedSubPlan | OptionalSwap | MissingSwap | MalformedCalldata

datatype origin_metric_kind =
    SupportedDirectV3 | SupportedMulticall | SupportedUniversalRouterV3ExactIn | UnsupportedExactOutput
  | AmbiguousMultiSwapMetric | MalformedRouterCalldata | UnknownOfficialRouterCommand

record origin_evidence =
  oe_router_kind :: "router_kind option"
  oe_outer_selector_kind :: outer_selector_kind
  oe_wrapper_kind :: wrapper_kind
  oe_decoded_swap_kind :: decoded_swap_kind
  oe_command_count :: nat
  oe_v3_hop_count :: nat
  oe_exact_in :: "bool option"
  oe_supported :: bool
  oe_unsupported_reason :: unsupported_reason

definition OriginEvidence_new :: "router_kind \<Rightarrow> outer_selector_kind \<Rightarrow> wrapper_kind \<Rightarrow> origin_evidence" where
  "OriginEvidence_new router_kind outer_selector_kind wrapper_kind =
    \<lparr>oe_router_kind = Some router_kind, oe_outer_selector_kind = outer_selector_kind, oe_wrapper_kind = wrapper_kind,
     oe_decoded_swap_kind = NoSwap, oe_command_count = 1, oe_v3_hop_count = 0, oe_exact_in = None,
     oe_supported = False, oe_unsupported_reason = NoReason\<rparr>"

definition metric_kind :: "origin_evidence \<Rightarrow> origin_metric_kind" where
  "metric_kind e =
    (if oe_supported e then
       (case oe_wrapper_kind e of
          DirectCall \<Rightarrow> SupportedDirectV3
        | MulticallWrapper \<Rightarrow> SupportedMulticall
        | UniversalWrapper \<Rightarrow> SupportedUniversalRouterV3ExactIn
        | NoWrapper \<Rightarrow> MalformedRouterCalldata)
     else
       (case oe_unsupported_reason e of
          ExactOutput \<Rightarrow> UnsupportedExactOutput
        | AmbiguousMultiSwap \<Rightarrow> AmbiguousMultiSwapMetric
        | MalformedCalldata \<Rightarrow> MalformedRouterCalldata
        | _ \<Rightarrow> UnknownOfficialRouterCommand))"

record decoded_swap =
  dw_decoded_commands :: "string list"
  dw_source_command_index :: u16
  dw_swap_path :: "mp_address list"
  dw_encoded_token_path :: string
  dw_fee_path :: "u32 list"
  dw_amount_in :: u128
  dw_touched_pools :: "mp_pool_id list"
  dw_evidence :: origin_evidence

datatype decode_outcome = Supported decoded_swap | Unsupported origin_evidence | Malformed origin_evidence

record v3_path =
  vp_tokens :: "mp_address list"
  vp_encoded_token_path :: string
  vp_fees :: "u32 list"
  vp_touched_pools :: "mp_pool_id list"

record swap_data =
  sd_path :: v3_path
  sd_amount_in :: u128
  sd_kind :: decoded_swap_kind

section \<open>Constants and selectors\<close>

definition MP_MAX_CALLDATA_BYTES :: nat where "MP_MAX_CALLDATA_BYTES = 256 * 1024"
definition MAX_INNER_CALLS :: nat where "MAX_INNER_CALLS = 16"
definition MAX_TOTAL_NESTED_BYTES :: nat where "MAX_TOTAL_NESTED_BYTES = 128 * 1024"
definition MAX_V3_HOPS :: nat where "MAX_V3_HOPS = 8"
definition MAX_V3_PATH_BYTES :: nat where "MAX_V3_PATH_BYTES = 20 + 23 * MAX_V3_HOPS"
definition MAX_PERMIT_DETAILS :: nat where "MAX_PERMIT_DETAILS = 16"
definition MAX_SIGNATURE_BYTES :: nat where "MAX_SIGNATURE_BYTES = 4 * 1024"
definition UNIVERSAL_COMMAND_MASK :: u8 where "UNIVERSAL_COMMAND_MASK = 0x3f"
definition UNIVERSAL_ALLOW_REVERT :: u8 where "UNIVERSAL_ALLOW_REVERT = 0x80"

definition legacy_exact_input_single_type :: param_type where
  "legacy_exact_input_single_type = ParamTuple [ParamAddress, ParamAddress, ParamUint 24, ParamAddress, ParamUint 256,
     ParamUint 256, ParamUint 256, ParamUint 160]"

definition router02_exact_input_single_type :: param_type where
  "router02_exact_input_single_type = ParamTuple [ParamAddress, ParamAddress, ParamUint 24, ParamAddress, ParamUint 256,
     ParamUint 256, ParamUint 160]"

definition exact_path_type :: param_type where
  "exact_path_type = ParamTuple [ParamBytes, ParamAddress, ParamUint 256, ParamUint 256, ParamUint 256]"

definition permit_detail_type :: param_type where
  "permit_detail_type = ParamTuple [ParamAddress, ParamUint 160, ParamUint 48, ParamUint 48]"

definition permit_single_type :: param_type where
  "permit_single_type = ParamTuple [permit_detail_type, ParamAddress, ParamUint 256]"

definition permit_batch_type :: param_type where
  "permit_batch_type = ParamTuple [ParamArray permit_detail_type, ParamAddress, ParamUint 256]"

definition allowance_transfer_detail_type :: param_type where
  "allowance_transfer_detail_type = ParamTuple [ParamAddress, ParamAddress, ParamUint 160, ParamAddress]"

definition self_permit_types :: "param_type list" where
  "self_permit_types = [ParamAddress, ParamUint 256, ParamUint 256, ParamUint 8, ParamFixedBytes 32, ParamFixedBytes 32]"

record selectors =
  sl_legacy_exact_input_single :: "u8 list"
  sl_legacy_exact_input :: "u8 list"
  sl_legacy_exact_output_single :: "u8 list"
  sl_legacy_exact_output :: "u8 list"
  sl_legacy_multicall :: "u8 list"
  sl_router02_exact_input_single :: "u8 list"
  sl_universal_execute :: "u8 list"
  sl_universal_execute_deadline :: "u8 list"
  sl_refund_eth :: "u8 list"
  sl_unwrap_weth9 :: "u8 list"
  sl_sweep_token :: "u8 list"
  sl_unwrap_weth9_with_fee :: "u8 list"
  sl_sweep_token_with_fee :: "u8 list"
  sl_self_permit :: "u8 list"
  sl_self_permit_if_necessary :: "u8 list"
  sl_self_permit_allowed :: "u8 list"
  sl_self_permit_allowed_if_necessary :: "u8 list"

definition known_selectors :: "abi_lib \<Rightarrow> selectors" where
  "known_selectors ab =
    \<lparr>sl_legacy_exact_input_single = ab_short_signature ab ''exactInputSingle'' [legacy_exact_input_single_type],
     sl_legacy_exact_input = ab_short_signature ab ''exactInput'' [exact_path_type],
     sl_legacy_exact_output_single = ab_short_signature ab ''exactOutputSingle'' [legacy_exact_input_single_type],
     sl_legacy_exact_output = ab_short_signature ab ''exactOutput'' [exact_path_type],
     sl_legacy_multicall = ab_short_signature ab ''multicall'' [ParamArray ParamBytes],
     sl_router02_exact_input_single = ab_short_signature ab ''exactInputSingle'' [router02_exact_input_single_type],
     sl_universal_execute = ab_short_signature ab ''execute'' [ParamBytes, ParamArray ParamBytes],
     sl_universal_execute_deadline = ab_short_signature ab ''execute'' [ParamBytes, ParamArray ParamBytes, ParamUint 256],
     sl_refund_eth = ab_short_signature ab ''refundETH'' [],
     sl_unwrap_weth9 = ab_short_signature ab ''unwrapWETH9'' [ParamUint 256, ParamAddress],
     sl_sweep_token = ab_short_signature ab ''sweepToken'' [ParamAddress, ParamUint 256, ParamAddress],
     sl_unwrap_weth9_with_fee =
       ab_short_signature ab ''unwrapWETH9WithFee'' [ParamUint 256, ParamAddress, ParamUint 256, ParamAddress],
     sl_sweep_token_with_fee =
       ab_short_signature ab ''sweepTokenWithFee'' [ParamAddress, ParamUint 256, ParamAddress, ParamUint 256, ParamAddress],
     sl_self_permit = ab_short_signature ab ''selfPermit'' self_permit_types,
     sl_self_permit_if_necessary = ab_short_signature ab ''selfPermitIfNecessary'' self_permit_types,
     sl_self_permit_allowed = ab_short_signature ab ''selfPermitAllowed'' self_permit_types,
     sl_self_permit_allowed_if_necessary = ab_short_signature ab ''selfPermitAllowedIfNecessary'' self_permit_types\<rparr>"

section \<open>Tokens\<close>

text \<open>Results whose error carries nothing are options.\<close>

definition nth_token :: "nat \<Rightarrow> token list \<Rightarrow> token option" where
  "nth_token i ts = (if i < length ts then Some (ts ! i) else None)"

definition decode_canonical :: "abi_lib \<Rightarrow> param_type list \<Rightarrow> u8 list \<Rightarrow> token list option" where
  "decode_canonical ab types data =
    do { tokens \<leftarrow> ab_decode ab types data; if ab_encode ab tokens \<noteq> data then None else Some tokens }"

definition token_tuple :: "token option \<Rightarrow> token list option" where
  "token_tuple t = (case t of Some (TkTuple vs) \<Rightarrow> Some vs | _ \<Rightarrow> None)"

definition token_bytes :: "token option \<Rightarrow> u8 list option" where
  "token_bytes t = (case t of Some (TkBytes v) \<Rightarrow> Some v | _ \<Rightarrow> None)"

fun bytes_of_tokens :: "token list \<Rightarrow> u8 list list option" where
  "bytes_of_tokens [] = Some []"
| "bytes_of_tokens (t # ts) = do { b \<leftarrow> token_bytes (Some t); bs \<leftarrow> bytes_of_tokens ts; Some (b # bs) }"

definition token_bytes_array :: "token option \<Rightarrow> u8 list list option" where
  "token_bytes_array t = (case t of Some (TkArray vs) \<Rightarrow> bytes_of_tokens vs | _ \<Rightarrow> None)"

definition mp_token_address :: "abi_lib \<Rightarrow> token option \<Rightarrow> mp_address option" where
  "mp_token_address ab t = (case t of Some (TkAddress v) \<Rightarrow> mp_address_parse (''0x'' @ ab_hex_encode ab v) | _ \<Rightarrow> None)"

definition ZERO_ADDRESS :: mp_address where
  "ZERO_ADDRESS = ''0x'' @ replicate 40 (CHR ''0'')"

definition required_address :: "abi_lib \<Rightarrow> token option \<Rightarrow> mp_address option" where
  "required_address ab t = do { address \<leftarrow> mp_token_address ab t; if address = ZERO_ADDRESS then None else Some address }"

definition address_from_bytes :: "abi_lib \<Rightarrow> u8 list \<Rightarrow> mp_address option" where
  "address_from_bytes ab bytes =
    (if length bytes \<noteq> 20 \<or> list_all (\<lambda>b. b = 0) bytes then None else mp_address_parse (''0x'' @ ab_hex_encode ab bytes))"

definition bounded_uint :: "token option \<Rightarrow> nat \<Rightarrow> u256 option" where
  "bounded_uint t bits =
    (case t of Some (TkUint v) \<Rightarrow> if bits = 256 \<or> unat v < 2 ^ bits then Some v else None | _ \<Rightarrow> None)"

definition concrete_amount :: "token option \<Rightarrow> u128 option" where
  "concrete_amount t =
    do { v \<leftarrow> bounded_uint t 256; if v = 0 \<or> 2 ^ 128 \<le> unat v then None else Some (ucast v) }"

definition token_bool :: "token option \<Rightarrow> bool option" where
  "token_bool t = (case t of Some (TkBool v) \<Rightarrow> Some v | _ \<Rightarrow> None)"

definition nested_bytes_are_bounded :: "u8 list list \<Rightarrow> bool" where
  "nested_bytes_are_bounded vs \<longleftrightarrow>
     list_all (\<lambda>v. length v \<le> MP_MAX_CALLDATA_BYTES) vs \<and> sum_list (map length vs) \<le> MAX_TOTAL_NESTED_BYTES"

section \<open>Paths\<close>

fun hex_nat :: "nat \<Rightarrow> string" where
  "hex_nat n = (if n < 16 then [''0123456789abcdef'' ! n] else hex_nat (n div 16) @ [''0123456789abcdef'' ! (n mod 16)])"

declare hex_nat.simps [simp del]

definition hex06 :: "nat \<Rightarrow> string" where
  "hex06 n = replicate (6 - length (hex_nat n)) (CHR ''0'') @ hex_nat n"

definition encode_v3_path :: "mp_address \<Rightarrow> u32 \<Rightarrow> mp_address \<Rightarrow> string" where
  "encode_v3_path token_in fee token_out = token_in @ hex06 (unat fee) @ drop 2 token_out"

definition canonical_pool_id :: "mp_address \<Rightarrow> mp_address \<Rightarrow> u32 \<Rightarrow> mp_pool_id" where
  "canonical_pool_id a b fee =
    (let (token0, token1) = (if string_less a b then (a, b) else (b, a))
     in token0 @ '':'' @ token1 @ '':'' @ dec_string (unat fee))"

definition single_hop_swap :: "mp_address \<Rightarrow> mp_address \<Rightarrow> u32 \<Rightarrow> u128 \<Rightarrow> decoded_swap_kind \<Rightarrow> swap_data option" where
  "single_hop_swap token_in token_out fee amount_in kind =
    (if token_in = token_out \<or> fee = 0 then None
     else Some \<lparr>sd_path = \<lparr>vp_tokens = [token_in, token_out], vp_encoded_token_path = encode_v3_path token_in fee token_out,
         vp_fees = [fee], vp_touched_pools = [canonical_pool_id token_in token_out fee]\<rparr>,
       sd_amount_in = amount_in, sd_kind = kind\<rparr>)"

text \<open>The hops of a path behind its first token: the fees, the tokens and the pools.\<close>

definition be24 :: "u8 list \<Rightarrow> u32" where
  "be24 bs = of_nat (unat (bs ! 0) * 65536 + unat (bs ! 1) * 256 + unat (bs ! 2))"

fun path_hops :: "abi_lib \<Rightarrow> nat \<Rightarrow> mp_address \<Rightarrow> u8 list \<Rightarrow> (u32 list \<times> mp_address list \<times> mp_pool_id list) option" where
  "path_hops ab 0 current path = Some ([], [], [])"
| "path_hops ab (Suc n) current path =
    do { let fee = be24 (take 3 path);
         nxt \<leftarrow> address_from_bytes ab (take 20 (drop 3 path));
         if fee = 0 \<or> current = nxt then None
         else do { (fees, tokens, pools) \<leftarrow> path_hops ab n nxt (drop 23 path);
              Some (fee # fees, nxt # tokens, canonical_pool_id current nxt fee # pools) } }"

definition decode_v3_path :: "abi_lib \<Rightarrow> u8 list \<Rightarrow> v3_path option" where
  "decode_v3_path ab path =
    (if length path < 43 \<or> MAX_V3_PATH_BYTES < length path \<or> (length path - 20) mod 23 \<noteq> 0 then None
     else let hop_count = (length path - 20) div 23 in
     if hop_count = 0 \<or> MAX_V3_HOPS < hop_count then None
     else do { first \<leftarrow> address_from_bytes ab (take 20 path);
          (fees, tokens, pools) \<leftarrow> path_hops ab hop_count first (drop 20 path);
          Some \<lparr>vp_tokens = first # tokens, vp_encoded_token_path = ''0x'' @ ab_hex_encode ab path, vp_fees = fees,
            vp_touched_pools = pools\<rparr> })"

section \<open>Swaps\<close>

definition decode_legacy_exact_input_single :: "abi_lib \<Rightarrow> u8 list \<Rightarrow> swap_data option" where
  "decode_legacy_exact_input_single ab data =
    do { tokens \<leftarrow> decode_canonical ab [legacy_exact_input_single_type] data;
         vs \<leftarrow> token_tuple (nth_token 0 tokens);
         if length vs \<noteq> 8 then None
         else do { token_in \<leftarrow> required_address ab (nth_token 0 vs);
              token_out \<leftarrow> required_address ab (nth_token 1 vs);
              fee \<leftarrow> bounded_uint (nth_token 2 vs) 24;
              _ \<leftarrow> required_address ab (nth_token 3 vs);
              _ \<leftarrow> bounded_uint (nth_token 4 vs) 256;
              amount_in \<leftarrow> concrete_amount (nth_token 5 vs);
              _ \<leftarrow> bounded_uint (nth_token 6 vs) 256;
              _ \<leftarrow> bounded_uint (nth_token 7 vs) 160;
              single_hop_swap token_in token_out (ucast fee) amount_in V3ExactInputSingle } }"

definition decode_router02_exact_input_single :: "abi_lib \<Rightarrow> u8 list \<Rightarrow> swap_data option" where
  "decode_router02_exact_input_single ab data =
    do { tokens \<leftarrow> decode_canonical ab [router02_exact_input_single_type] data;
         vs \<leftarrow> token_tuple (nth_token 0 tokens);
         if length vs \<noteq> 7 then None
         else do { token_in \<leftarrow> required_address ab (nth_token 0 vs);
              token_out \<leftarrow> required_address ab (nth_token 1 vs);
              fee \<leftarrow> bounded_uint (nth_token 2 vs) 24;
              _ \<leftarrow> required_address ab (nth_token 3 vs);
              amount_in \<leftarrow> concrete_amount (nth_token 4 vs);
              _ \<leftarrow> bounded_uint (nth_token 5 vs) 256;
              _ \<leftarrow> bounded_uint (nth_token 6 vs) 160;
              single_hop_swap token_in token_out (ucast fee) amount_in V3ExactInputSingle } }"

definition decode_legacy_exact_input :: "abi_lib \<Rightarrow> u8 list \<Rightarrow> swap_data option" where
  "decode_legacy_exact_input ab data =
    do { tokens \<leftarrow> decode_canonical ab [exact_path_type] data;
         vs \<leftarrow> token_tuple (nth_token 0 tokens);
         if length vs \<noteq> 5 then None
         else do { raw \<leftarrow> token_bytes (nth_token 0 vs);
              path \<leftarrow> decode_v3_path ab raw;
              _ \<leftarrow> required_address ab (nth_token 1 vs);
              _ \<leftarrow> bounded_uint (nth_token 2 vs) 256;
              amount_in \<leftarrow> concrete_amount (nth_token 3 vs);
              _ \<leftarrow> bounded_uint (nth_token 4 vs) 256;
              Some \<lparr>sd_path = path, sd_amount_in = amount_in, sd_kind = V3ExactInput\<rparr> } }"

definition decode_universal_v3_exact_in :: "abi_lib \<Rightarrow> u8 list \<Rightarrow> swap_data option" where
  "decode_universal_v3_exact_in ab data =
    do { tokens \<leftarrow> decode_canonical ab [ParamAddress, ParamUint 256, ParamUint 256, ParamBytes, ParamBool] data;
         if length tokens \<noteq> 5 then None
         else do { _ \<leftarrow> mp_token_address ab (nth_token 0 tokens);
              amount_in \<leftarrow> concrete_amount (nth_token 1 tokens);
              _ \<leftarrow> bounded_uint (nth_token 2 tokens) 256;
              raw \<leftarrow> token_bytes (nth_token 3 tokens);
              path \<leftarrow> decode_v3_path ab raw;
              _ \<leftarrow> token_bool (nth_token 4 tokens);
              Some \<lparr>sd_path = path, sd_amount_in = amount_in, sd_kind = V3ExactInput\<rparr> } }"

section \<open>Companions\<close>

text \<open>The name and the parameters of a companion call; \<open>None\<close> when the selector is not one.\<close>

definition legacy_companion :: "abi_lib \<Rightarrow> u8 list \<Rightarrow> (string \<times> param_type list) option" where
  "legacy_companion ab selector =
    (let known = known_selectors ab in
     if selector = sl_refund_eth known then Some (''refundETH'', [])
     else if selector = sl_unwrap_weth9 known then Some (''unwrapWETH9'', [ParamUint 256, ParamAddress])
     else if selector = sl_sweep_token known then Some (''sweepToken'', [ParamAddress, ParamUint 256, ParamAddress])
     else if selector = sl_unwrap_weth9_with_fee known then
       Some (''unwrapWETH9WithFee'', [ParamUint 256, ParamAddress, ParamUint 256, ParamAddress])
     else if selector = sl_sweep_token_with_fee known then
       Some (''sweepTokenWithFee'', [ParamAddress, ParamUint 256, ParamAddress, ParamUint 256, ParamAddress])
     else if selector = sl_self_permit known then Some (''selfPermit'', self_permit_types)
     else if selector = sl_self_permit_if_necessary known then Some (''selfPermitIfNecessary'', self_permit_types)
     else if selector = sl_self_permit_allowed known then Some (''selfPermitAllowed'', self_permit_types)
     else if selector = sl_self_permit_allowed_if_necessary known then Some (''selfPermitAllowedIfNecessary'', self_permit_types)
     else None)"

definition validate_legacy_companion :: "abi_lib \<Rightarrow> u8 list \<Rightarrow> u8 list \<Rightarrow> string option option" where
  "validate_legacy_companion ab selector data =
    (case legacy_companion ab selector of
       None \<Rightarrow> Some None
     | Some (name, types) \<Rightarrow> do { _ \<leftarrow> decode_canonical ab types data; Some (Some name) })"

definition is_universal_companion :: "u8 \<Rightarrow> bool" where
  "is_universal_companion command \<longleftrightarrow> 0x02 \<le> command \<and> command \<le> 0x06 \<or> 0x0a \<le> command \<and> command \<le> 0x0e"

definition universal_companion_name :: "u8 \<Rightarrow> string" where
  "universal_companion_name command =
    (if command = 0x02 then ''PERMIT2_TRANSFER_FROM''
     else if command = 0x03 then ''PERMIT2_PERMIT_BATCH''
     else if command = 0x04 then ''SWEEP''
     else if command = 0x05 then ''TRANSFER''
     else if command = 0x06 then ''PAY_PORTION''
     else if command = 0x0a then ''PERMIT2_PERMIT''
     else if command = 0x0b then ''WRAP_ETH''
     else if command = 0x0c then ''UNWRAP_WETH''
     else if command = 0x0d then ''PERMIT2_TRANSFER_FROM_BATCH''
     else ''BALANCE_CHECK_ERC20'')"

definition bounded_permit_batch :: "token option \<Rightarrow> unit option" where
  "bounded_permit_batch t =
    do { vs \<leftarrow> token_tuple t;
         (case nth_token 0 vs of
            Some (TkArray details) \<Rightarrow> if details = [] \<or> MAX_PERMIT_DETAILS < length details then None else Some ()
          | _ \<Rightarrow> None) }"

definition bounded_signature :: "token option \<Rightarrow> unit option" where
  "bounded_signature t =
    (case t of Some (TkBytes v) \<Rightarrow> if v \<noteq> [] \<and> length v \<le> MAX_SIGNATURE_BYTES then Some () else None | _ \<Rightarrow> None)"

definition validate_universal_companion :: "abi_lib \<Rightarrow> u8 \<Rightarrow> u8 list \<Rightarrow> unit option" where
  "validate_universal_companion ab command data =
    (if command = 0x02 then map_option (\<lambda>_. ()) (decode_canonical ab [ParamAddress, ParamAddress, ParamUint 160] data)
     else if command = 0x03 then
       do { tokens \<leftarrow> decode_canonical ab [permit_batch_type, ParamBytes] data;
            _ \<leftarrow> bounded_permit_batch (nth_token 0 tokens);
            bounded_signature (nth_token 1 tokens) }
     else if 0x04 \<le> command \<and> command \<le> 0x06 \<or> command = 0x0e then
       map_option (\<lambda>_. ()) (decode_canonical ab [ParamAddress, ParamAddress, ParamUint 256] data)
     else if command = 0x0a then
       do { tokens \<leftarrow> decode_canonical ab [permit_single_type, ParamBytes] data;
            bounded_signature (nth_token 1 tokens) }
     else if command = 0x0b \<or> command = 0x0c then
       map_option (\<lambda>_. ()) (decode_canonical ab [ParamAddress, ParamUint 256] data)
     else if command = 0x0d then
       do { tokens \<leftarrow> decode_canonical ab [ParamArray allowance_transfer_detail_type] data;
            (case nth_token 0 tokens of
               Some (TkArray vs) \<Rightarrow> if vs \<noteq> [] \<and> length vs \<le> MAX_PERMIT_DETAILS then Some () else None
             | _ \<Rightarrow> None) }
     else None)"

section \<open>Calls\<close>

definition mark_malformed :: "origin_evidence \<Rightarrow> origin_evidence" where
  "mark_malformed e = e\<lparr>oe_supported := False, oe_unsupported_reason := MalformedCalldata\<rparr>"

definition mark_unsupported :: "origin_evidence \<Rightarrow> unsupported_reason \<Rightarrow> origin_evidence" where
  "mark_unsupported e reason =
    e\<lparr>oe_supported := False,
      oe_exact_in := (case reason of ExactOutput \<Rightarrow> Some False | AmbiguousMultiSwap \<Rightarrow> None | _ \<Rightarrow> oe_exact_in e),
      oe_unsupported_reason := reason\<rparr>"

definition unsupported_evidence ::
  "router_kind \<Rightarrow> outer_selector_kind \<Rightarrow> wrapper_kind \<Rightarrow> unsupported_reason \<Rightarrow> nat \<Rightarrow> origin_evidence" where
  "unsupported_evidence router_kind selector_kind wrapper_kind reason command_count =
    mark_unsupported ((OriginEvidence_new router_kind selector_kind wrapper_kind)\<lparr>oe_command_count := command_count\<rparr>) reason"

definition into_decoded :: "swap_data \<Rightarrow> origin_evidence \<Rightarrow> string list \<Rightarrow> u16 \<Rightarrow> decoded_swap" where
  "into_decoded swap e decoded_commands source_command_index =
    \<lparr>dw_decoded_commands = decoded_commands, dw_source_command_index = source_command_index,
     dw_swap_path = vp_tokens (sd_path swap), dw_encoded_token_path = vp_encoded_token_path (sd_path swap),
     dw_fee_path = vp_fees (sd_path swap), dw_amount_in = sd_amount_in swap,
     dw_touched_pools = vp_touched_pools (sd_path swap),
     dw_evidence = e\<lparr>oe_decoded_swap_kind := sd_kind swap, oe_v3_hop_count := length (vp_touched_pools (sd_path swap)),
       oe_exact_in := Some True, oe_supported := True, oe_unsupported_reason := NoReason\<rparr>\<rparr>"

definition finish_supported :: "swap_data option \<Rightarrow> origin_evidence \<Rightarrow> string list \<Rightarrow> decode_outcome" where
  "finish_supported decoded e commands =
    (case decoded of Some swap \<Rightarrow> Supported (into_decoded swap e commands 0) | None \<Rightarrow> Malformed (mark_malformed e))"

definition is_legacy_swap_selector :: "abi_lib \<Rightarrow> u8 list \<Rightarrow> bool" where
  "is_legacy_swap_selector ab selector \<longleftrightarrow>
     (let known = known_selectors ab in
      selector = sl_legacy_exact_input_single known \<or> selector = sl_legacy_exact_input known \<or>
      selector = sl_legacy_exact_output_single known \<or> selector = sl_legacy_exact_output known)"

text \<open>A loop over the inner calls either ends with an outcome or goes on with the commands and the swap so far.\<close>

type_synonym swap_so_far = "string list \<times> (nat \<times> swap_data) option"

fun multicall_loop ::
  "abi_lib \<Rightarrow> origin_evidence \<Rightarrow> nat \<Rightarrow> (u8 list \<times> u8 list) list \<Rightarrow> swap_so_far \<Rightarrow> decode_outcome + swap_so_far" where
  "multicall_loop ab e index [] (commands, swap) = Inr (commands, swap)"
| "multicall_loop ab e index ((selector, data) # calls) (commands, swap) =
    (let known = known_selectors ab in
     if selector = sl_legacy_exact_input_single known then
       (case decode_legacy_exact_input_single ab data of
          None \<Rightarrow> Inl (Malformed (mark_malformed e))
        | Some s \<Rightarrow> multicall_loop ab e (Suc index) calls (commands @ [''exactInputSingle''], Some (index, s)))
     else if selector = sl_legacy_exact_input known then
       (case decode_legacy_exact_input ab data of
          None \<Rightarrow> Inl (Malformed (mark_malformed e))
        | Some s \<Rightarrow> multicall_loop ab e (Suc index) calls (commands @ [''exactInput''], Some (index, s)))
     else if selector = sl_legacy_exact_output_single known \<or> selector = sl_legacy_exact_output known then
       Inl (Unsupported (mark_unsupported e ExactOutput))
     else if selector = sl_legacy_multicall known then Inl (Unsupported (mark_unsupported e NestedSubPlan))
     else
       (case validate_legacy_companion ab selector data of
          Some (Some name) \<Rightarrow> multicall_loop ab e (Suc index) calls (commands @ [name], swap)
        | Some None \<Rightarrow> Inl (Unsupported (mark_unsupported e UnknownCommand))
        | None \<Rightarrow> Inl (Malformed (mark_malformed e))))"

definition finish_loop :: "origin_evidence \<Rightarrow> decode_outcome + swap_so_far \<Rightarrow> decode_outcome" where
  "finish_loop e r =
    (case r of
       Inl outcome \<Rightarrow> outcome
     | Inr (commands, None) \<Rightarrow> Unsupported (mark_unsupported e MissingSwap)
     | Inr (commands, Some (index, swap)) \<Rightarrow> Supported (into_decoded swap e commands (of_nat index)))"

definition decode_legacy_multicall :: "abi_lib \<Rightarrow> u8 list \<Rightarrow> decode_outcome" where
  "decode_legacy_multicall ab data =
    (let e = OriginEvidence_new LegacySwapRouter LegacyMulticall MulticallWrapper in
     case do { tokens \<leftarrow> decode_canonical ab [ParamArray ParamBytes] data; token_bytes_array (nth_token 0 tokens) } of
       None \<Rightarrow> Malformed (mark_malformed e)
     | Some calls \<Rightarrow>
         let e = e\<lparr>oe_command_count := length calls\<rparr> in
         if calls = [] \<or> MAX_INNER_CALLS < length calls \<or> \<not> nested_bytes_are_bounded calls then Malformed (mark_malformed e)
         else if list_ex (\<lambda>call. length call < 4) calls then Malformed (mark_malformed e)
         else
           let parsed_calls = map (\<lambda>call. (take 4 call, drop 4 call)) calls;
               swap_count = length (filter (\<lambda>(selector, _). is_legacy_swap_selector ab selector) parsed_calls)
           in if 1 < swap_count then Unsupported (mark_unsupported e AmbiguousMultiSwap)
           else finish_loop e (multicall_loop ab e 0 parsed_calls ([''multicall''], None)))"

definition is_swap_command :: "u8 \<Rightarrow> bool" where
  "is_swap_command command \<longleftrightarrow> command \<in> {0x00, 0x01, 0x08, 0x09, 0x10}"

fun universal_loop ::
  "abi_lib \<Rightarrow> origin_evidence \<Rightarrow> nat \<Rightarrow> (u8 \<times> u8 list) list \<Rightarrow> swap_so_far \<Rightarrow> decode_outcome + swap_so_far" where
  "universal_loop ab e index [] (commands, swap) = Inr (commands, swap)"
| "universal_loop ab e index ((command_byte, input) # rest) (commands, swap) =
    (let command = command_byte AND UNIVERSAL_COMMAND_MASK in
     if command = 0x00 then
       if command_byte AND UNIVERSAL_ALLOW_REVERT \<noteq> 0 then Inl (Unsupported (mark_unsupported e OptionalSwap))
       else
         (case decode_universal_v3_exact_in ab input of
            None \<Rightarrow> Inl (Malformed (mark_malformed e))
          | Some s \<Rightarrow> universal_loop ab e (Suc index) rest (commands @ [''V3_SWAP_EXACT_IN''], Some (index, s)))
     else if command = 0x01 then Inl (Unsupported (mark_unsupported e ExactOutput))
     else if command = 0x08 \<or> command = 0x09 \<or> command = 0x10 then Inl (Unsupported (mark_unsupported e UnsupportedSwapFamily))
     else if command = 0x21 then Inl (Unsupported (mark_unsupported e NestedSubPlan))
     else if is_universal_companion command then
       (case validate_universal_companion ab command input of
          None \<Rightarrow> Inl (Malformed (mark_malformed e))
        | Some _ \<Rightarrow> universal_loop ab e (Suc index) rest (commands @ [universal_companion_name command], swap))
     else Inl (Unsupported (mark_unsupported e UnknownCommand)))"

definition execute_universal :: "abi_lib \<Rightarrow> outer_selector_kind \<Rightarrow> param_type list \<Rightarrow> string \<Rightarrow> u8 list \<Rightarrow> decode_outcome" where
  "execute_universal ab selector_kind types name data =
    (let e = OriginEvidence_new UniversalRouter selector_kind UniversalWrapper in
     case do { tokens \<leftarrow> decode_canonical ab types data;
               commands \<leftarrow> token_bytes (nth_token 0 tokens);
               inputs \<leftarrow> token_bytes_array (nth_token 1 tokens);
               Some (commands, inputs) } of
       None \<Rightarrow> Malformed (mark_malformed e)
     | Some (commands, inputs) \<Rightarrow>
         let e = e\<lparr>oe_command_count := length commands\<rparr> in
         if commands = [] \<or> MAX_INNER_CALLS < length commands \<or> length commands \<noteq> length inputs
           \<or> \<not> nested_bytes_are_bounded inputs
         then Malformed (mark_malformed e)
         else if 1 < length (filter (\<lambda>c. is_swap_command (c AND UNIVERSAL_COMMAND_MASK)) commands)
         then Unsupported (mark_unsupported e AmbiguousMultiSwap)
         else finish_loop e (universal_loop ab e 0 (zip commands inputs) ([name], None)))"

definition classify_universal :: "abi_lib \<Rightarrow> u8 list \<Rightarrow> u8 list \<Rightarrow> decode_outcome" where
  "classify_universal ab selector data =
    (if selector = sl_universal_execute (known_selectors ab) then
       execute_universal ab UniversalExecute [ParamBytes, ParamArray ParamBytes] ''execute'' data
     else if selector = sl_universal_execute_deadline (known_selectors ab) then
       execute_universal ab UniversalExecuteWithDeadline [ParamBytes, ParamArray ParamBytes, ParamUint 256]
         ''executeWithDeadline'' data
     else Unsupported (unsupported_evidence UniversalRouter UnknownSelectorKind UniversalWrapper UnknownSelector 1))"

definition classify_router02 :: "abi_lib \<Rightarrow> u8 list \<Rightarrow> u8 list \<Rightarrow> decode_outcome" where
  "classify_router02 ab selector data =
    (if selector \<noteq> sl_router02_exact_input_single (known_selectors ab)
     then Unsupported (unsupported_evidence SwapRouter02 UnknownSelectorKind DirectCall UnknownSelector 1)
     else finish_supported (decode_router02_exact_input_single ab data)
       (OriginEvidence_new SwapRouter02 SwapRouter02ExactInputSingle DirectCall) [''exactInputSingle''])"

definition classify_legacy :: "abi_lib \<Rightarrow> u8 list \<Rightarrow> u8 list \<Rightarrow> decode_outcome" where
  "classify_legacy ab selector data =
    (let known = known_selectors ab in
     if selector = sl_legacy_exact_input_single known then
       finish_supported (decode_legacy_exact_input_single ab data)
         (OriginEvidence_new LegacySwapRouter LegacyExactInputSingle DirectCall) [''exactInputSingle'']
     else if selector = sl_legacy_exact_input known then
       finish_supported (decode_legacy_exact_input ab data)
         (OriginEvidence_new LegacySwapRouter LegacyExactInput DirectCall) [''exactInput'']
     else if selector = sl_legacy_multicall known then decode_legacy_multicall ab data
     else if selector = sl_legacy_exact_output_single known \<or> selector = sl_legacy_exact_output known then
       Unsupported (unsupported_evidence LegacySwapRouter
         (if selector = sl_legacy_exact_output_single known then LegacyExactOutputSingle else UnknownSelectorKind)
         DirectCall ExactOutput 1)
     else Unsupported (unsupported_evidence LegacySwapRouter UnknownSelectorKind DirectCall UnknownSelector 1))"

text \<open>The calldata has at least eight digits, so that the selector is there.\<close>

definition decode_calldata :: "abi_lib \<Rightarrow> string \<Rightarrow> u8 list option" where
  "decode_calldata ab calldata =
    do { encoded \<leftarrow> strip_prefix ''0x'' calldata;
         if length encoded < 8 \<or> MP_MAX_CALLDATA_BYTES * 2 < length encoded \<or> length encoded mod 2 \<noteq> 0
           \<or> \<not> list_all is_ascii_hexdigit encoded
         then None else ab_hex_decode ab encoded }"

definition classify_router :: "abi_lib \<Rightarrow> router_kind \<Rightarrow> string \<Rightarrow> decode_outcome" where
  "classify_router ab router_kind calldata =
    (case decode_calldata ab calldata of
       None \<Rightarrow> Malformed (mark_malformed (OriginEvidence_new router_kind UnknownSelectorKind NoWrapper))
     | Some bytes \<Rightarrow>
         let selector = take 4 bytes; data = drop 4 bytes in
         (case router_kind of
            LegacySwapRouter \<Rightarrow> classify_legacy ab selector data
          | SwapRouter02 \<Rightarrow> classify_router02 ab selector data
          | UniversalRouter \<Rightarrow> classify_universal ab selector data))"

section \<open>Classification\<close>

definition MP_ARBITRUM_ONE_CHAIN_ID :: u64 where "MP_ARBITRUM_ONE_CHAIN_ID = 42161"
definition MAX_ROUTE_CONFIG_BYTES :: nat where "MAX_ROUTE_CONFIG_BYTES = 64 * 1024"
definition MAX_ROUTES :: nat where "MAX_ROUTES = 256"
definition ADMISSION_POLICY_VERSION :: string where "ADMISSION_POLICY_VERSION = ''money_path_v1''"
definition LEGACY_SWAP_ROUTER_ADDRESS :: string where
  "LEGACY_SWAP_ROUTER_ADDRESS = ''0xe592427a0aece92de3edee1f18e0157c05861564''"
definition SWAP_ROUTER_02_ADDRESS :: string where
  "SWAP_ROUTER_02_ADDRESS = ''0x68b3465833fb72a70ecdf485e0e4c7bd8665fc45''"
definition UNIVERSAL_ROUTER_ADDRESS :: string where
  "UNIVERSAL_ROUTER_ADDRESS = ''0xa51afafe0263b40edaef0df8781ea9aa03e381a3''"

definition reviewed_router_kind :: "string \<Rightarrow> router_kind option" where
  "reviewed_router_kind address =
    (if address = LEGACY_SWAP_ROUTER_ADDRESS then Some LegacySwapRouter
     else if address = SWAP_ROUTER_02_ADDRESS then Some SwapRouter02
     else if address = UNIVERSAL_ROUTER_ADDRESS then Some UniversalRouter
     else None)"

datatype ingress_classification = Irrelevant | UnsupportedInteresting | RelevantRouteInput

record decoder_summary =
  ds_router_kind :: "router_kind option"
  ds_outer_selector_kind :: outer_selector_kind
  ds_wrapper_kind :: wrapper_kind
  ds_decoded_swap_kind :: decoded_swap_kind
  ds_unsupported_reason :: unsupported_reason
  ds_command_count :: nat
  ds_v3_hop_count :: nat
  ds_reviewed_pool_matches :: nat

record classification_result =
  cr_classification :: ingress_classification
  cr_detail_class :: string
  cr_summary :: decoder_summary

datatype classifier_error = CE_AdmissionPolicy | CE_RouterRegistry | CE_RouteRegistry | CE_Invariant

record money_path_classifier =
  mc_routers :: "string \<rightharpoonup> router_kind"
  mc_reviewed_pools :: "mp_pool_id set"

definition no_evidence :: origin_evidence where
  "no_evidence = \<lparr>oe_router_kind = None, oe_outer_selector_kind = UnknownSelectorKind, oe_wrapper_kind = NoWrapper,
     oe_decoded_swap_kind = NoSwap, oe_command_count = 0, oe_v3_hop_count = 0, oe_exact_in = None,
     oe_supported = False, oe_unsupported_reason = NoReason\<rparr>"

definition classification :: "ingress_classification \<Rightarrow> string \<Rightarrow> origin_evidence option \<Rightarrow> nat \<Rightarrow> classification_result" where
  "classification kind detail evidence reviewed_pool_matches =
    (let e = (case evidence of None \<Rightarrow> no_evidence | Some e \<Rightarrow> e) in
     \<lparr>cr_classification = kind, cr_detail_class = detail,
      cr_summary = \<lparr>ds_router_kind = oe_router_kind e, ds_outer_selector_kind = oe_outer_selector_kind e,
        ds_wrapper_kind = oe_wrapper_kind e, ds_decoded_swap_kind = oe_decoded_swap_kind e,
        ds_unsupported_reason = oe_unsupported_reason e, ds_command_count = oe_command_count e,
        ds_v3_hop_count = oe_v3_hop_count e, ds_reviewed_pool_matches = reviewed_pool_matches\<rparr>\<rparr>)"

definition mp_classify ::
  "abi_lib \<Rightarrow> money_path_classifier \<Rightarrow> u64 \<Rightarrow> string option \<Rightarrow> string \<Rightarrow> classifier_error + classification_result" where
  "mp_classify ab c chain_id destination calldata =
    (if chain_id \<noteq> MP_ARBITRUM_ONE_CHAIN_ID then Inl CE_Invariant
     else case destination of
       None \<Rightarrow> Inr (classification Irrelevant ''empty_destination'' None 0)
     | Some destination \<Rightarrow>
         and_then (ok_or CE_Invariant (mp_address_parse destination)) (\<lambda>destination.
         case mc_routers c destination of
           None \<Rightarrow>
             if 10 < length calldata then Inr (classification UnsupportedInteresting ''possible_aggregator'' None 0)
             else Inr (classification Irrelevant ''irrelevant_origin'' None 0)
         | Some router_kind \<Rightarrow>
             (case classify_router ab router_kind calldata of
                Supported decoded \<Rightarrow>
                  if dw_touched_pools decoded = [] then Inl CE_Invariant
                  else
                    let matches = length (filter (\<lambda>p. p \<in> mc_reviewed_pools c) (dw_touched_pools decoded)) in
                    if 0 < matches
                    then Inr (classification RelevantRouteInput ''reviewed_route_touched'' (Some (dw_evidence decoded)) matches)
                    else Inr (classification Irrelevant ''no_affected_reviewed_route'' (Some (dw_evidence decoded)) matches)
              | Unsupported e \<Rightarrow>
                  Inr (classification UnsupportedInteresting
                    (case oe_unsupported_reason e of
                       ExactOutput \<Rightarrow> ''known_router_unsupported_exact_output''
                     | AmbiguousMultiSwap \<Rightarrow> ''known_router_ambiguous_multi_swap''
                     | _ \<Rightarrow> ''known_router_unsupported_command'') (Some e) 0)
              | Malformed e \<Rightarrow> Inr (classification UnsupportedInteresting ''malformed_origin_calldata'' (Some e) 0))))"

section \<open>The route registry\<close>

record route_leg_spec =
  lg_pool_id :: string
  lg_state_target :: string
  lg_protocol :: string
  lg_fee :: u32
  lg_token_in :: string
  lg_token_out :: string
  lg_token_in_decimals :: u8
  lg_token_out_decimals :: u8
  lg_tick_spacing :: i32
  lg_direction :: string

record route_spec =
  rt_route_id :: string
  rt_route_fingerprint :: string
  rt_trigger_pool_id :: string
  rt_settlement_asset :: string
  rt_settlement_asset_decimals :: u8
  rt_legs :: "route_leg_spec list"

definition is_control_ascii :: "char \<Rightarrow> bool" where
  "is_control_ascii c \<longleftrightarrow> (of_char c :: nat) < 32 \<or> (of_char c :: nat) = 127"

definition bounded_text :: "string \<Rightarrow> nat \<Rightarrow> nat \<Rightarrow> bool" where
  "bounded_text v minimum maximum \<longleftrightarrow> minimum \<le> length v \<and> length v \<le> maximum \<and> \<not> list_ex is_control_ascii v"

definition decimals_ok :: "u8 \<Rightarrow> bool" where
  "decimals_ok d \<longleftrightarrow> 1 \<le> d \<and> d \<le> 36"

definition validate_leg :: "route_leg_spec \<Rightarrow> classifier_error + mp_address \<times> mp_address" where
  "validate_leg leg =
    and_then (ok_or CE_RouteRegistry (mp_address_parse (lg_token_in leg))) (\<lambda>token_in.
    and_then (ok_or CE_RouteRegistry (mp_address_parse (lg_token_out leg))) (\<lambda>token_out.
    and_then (ok_or CE_RouteRegistry (mp_address_parse (lg_state_target leg))) (\<lambda>_.
    let expected_pool = canonical_pool_id token_in token_out (lg_fee leg);
        direction_matches =
          (if lg_direction leg = ''zero_for_one'' then string_less token_in token_out
           else if lg_direction leg = ''one_for_zero'' then string_less token_out token_in
           else False)
    in
    if lg_protocol leg \<noteq> ''UniswapV3'' \<or> lg_fee leg = 0 \<or> 1000000 \<le> lg_fee leg \<or> token_in = token_out
      \<or> \<not> direction_matches \<or> lg_pool_id leg \<noteq> expected_pool
      \<or> \<not> decimals_ok (lg_token_in_decimals leg) \<or> \<not> decimals_ok (lg_token_out_decimals leg)
      \<or> \<not> (1 \<le> lg_tick_spacing leg \<and> lg_tick_spacing leg \<le> 887272)
    then Inl CE_RouteRegistry
    else Inr (token_in, token_out))))"

definition mp_validate_route :: "route_spec \<Rightarrow> classifier_error + mp_pool_id \<times> mp_pool_id" where
  "mp_validate_route route =
    (case rt_legs route of
       [a, b] \<Rightarrow>
         and_then (validate_leg a) (\<lambda>first.
         and_then (validate_leg b) (\<lambda>second.
         and_then (ok_or CE_RouteRegistry (mp_address_parse (rt_settlement_asset route))) (\<lambda>settlement_asset.
         if rt_trigger_pool_id route \<noteq> lg_pool_id a \<or> snd first \<noteq> fst second \<or> snd second \<noteq> fst first
           \<or> lg_pool_id a = lg_pool_id b \<or> lg_state_target a = lg_state_target b
           \<or> settlement_asset \<noteq> fst first \<or> settlement_asset \<noteq> snd second
           \<or> \<not> decimals_ok (rt_settlement_asset_decimals route)
           \<or> rt_settlement_asset_decimals route \<noteq> lg_token_in_decimals a
           \<or> rt_settlement_asset_decimals route \<noteq> lg_token_out_decimals b
           \<or> lg_token_out_decimals a \<noteq> lg_token_in_decimals b
         then Inl CE_RouteRegistry
         else Inr (lg_pool_id a, lg_pool_id b))))
     | _ \<Rightarrow> Inl CE_RouteRegistry)"

fun collect_routes ::
  "route_spec list \<Rightarrow> string set \<Rightarrow> string set \<Rightarrow> mp_pool_id set \<Rightarrow> classifier_error + mp_pool_id set" where
  "collect_routes [] route_ids fingerprints pools = Inr pools"
| "collect_routes (route # routes) route_ids fingerprints pools =
    (if \<not> bounded_text (rt_route_id route) 1 128 \<or> \<not> bounded_text (rt_route_fingerprint route) 1 256
       \<or> rt_route_id route \<in> route_ids \<or> rt_route_fingerprint route \<in> fingerprints
     then Inl CE_RouteRegistry
     else and_then (mp_validate_route route) (\<lambda>(a, b).
       collect_routes routes (insert (rt_route_id route) route_ids) (insert (rt_route_fingerprint route) fingerprints)
         (insert b (insert a pools))))"

definition reviewed_pools :: "(string \<Rightarrow> route_spec list option) \<Rightarrow> string \<Rightarrow> classifier_error + mp_pool_id set" where
  "reviewed_pools from_json raw =
    (if MAX_ROUTE_CONFIG_BYTES < length raw then Inl CE_RouteRegistry
     else and_then (ok_or CE_RouteRegistry (from_json raw)) (\<lambda>routes.
       if routes = [] \<or> MAX_ROUTES < length routes then Inl CE_RouteRegistry
       else collect_routes routes {} {} {}))"

fun register_routers :: "string list \<Rightarrow> (string \<rightharpoonup> router_kind) \<Rightarrow> classifier_error + (string \<rightharpoonup> router_kind)" where
  "register_routers [] routers = Inr routers"
| "register_routers (raw # rest) routers =
    and_then (ok_or CE_RouterRegistry (mp_address_parse raw)) (\<lambda>address.
    and_then (ok_or CE_RouterRegistry (reviewed_router_kind address)) (\<lambda>kind.
    if routers address \<noteq> None then Inl CE_RouterRegistry
    else register_routers rest (routers(address \<mapsto> kind))))"

definition from_release ::
  "(string \<Rightarrow> route_spec list option) \<Rightarrow> string \<Rightarrow> string list \<Rightarrow> string \<Rightarrow> classifier_error + money_path_classifier" where
  "from_release from_json admission_policy_version router_addresses route_registry_json =
    (if admission_policy_version \<noteq> ADMISSION_POLICY_VERSION then Inl CE_AdmissionPolicy
     else if router_addresses = [] \<or> 3 < length router_addresses then Inl CE_RouterRegistry
     else
     and_then (register_routers router_addresses Map.empty) (\<lambda>routers.
     and_then (reviewed_pools from_json route_registry_json) (\<lambda>pools.
     if pools = {} then Inl CE_RouteRegistry
     else Inr \<lparr>mc_routers = routers, mc_reviewed_pools = pools\<rparr>)))"

section \<open>Pool identifiers\<close>

abbreviation is_mp_address :: "mp_address \<Rightarrow> bool" where
  "is_mp_address a \<equiv> mp_address_parse a = Some a"

lemma mp_address_parse_canonical:
  assumes "mp_address_parse s = Some a"
  shows "is_mp_address a"
  using assms by (auto simp: mp_address_parse_def Let_def comp_def split: if_splits)

lemma mp_address_length: "mp_address_parse s = Some a \<Longrightarrow> length a = 42"
  by (auto simp: mp_address_parse_def Let_def split: if_splits)

lemma dec_string_unat_inj: "dec_string (unat (v :: 'a::len word)) = dec_string (unat w) \<Longrightarrow> v = w"
  by (metis parse_unsigned_dec_string option.inject)

lemma canonical_pool_id_swap: "canonical_pool_id a b fee = canonical_pool_id b a fee"
  using string_less_total [of a b] string_less_asym [of a b] string_less_asym [of b a]
  by (auto simp: canonical_pool_id_def)

lemma canonical_pool_id_eq_iff:
  assumes "is_mp_address a" "is_mp_address b" "is_mp_address a'" "is_mp_address b'"
  shows "canonical_pool_id a b f = canonical_pool_id a' b' f' \<longleftrightarrow> f = f' \<and> {a, b} = {a', b'}"
proof
  note lens = assms [THEN mp_address_length]
  assume "canonical_pool_id a b f = canonical_pool_id a' b' f'"
  then show "f = f' \<and> {a, b} = {a', b'}"
    unfolding canonical_pool_id_def
    by (cases "string_less a b"; cases "string_less a' b'")
       (use lens dec_string_unat_inj [of f f'] in auto)
next
  assume "f = f' \<and> {a, b} = {a', b'}"
  then show "canonical_pool_id a b f = canonical_pool_id a' b' f'"
    by (auto simp: doubleton_eq_iff canonical_pool_id_swap)
qed

section \<open>Decoded swaps\<close>

text \<open>Every hop joins two distinct tokens, has a 24-bit fee other than zero, and touches the pool of the two and the fee.\<close>

fun hops_ok :: "mp_address list \<Rightarrow> u32 list \<Rightarrow> mp_pool_id list \<Rightarrow> bool" where
  "hops_ok [a] [] [] = is_mp_address a"
| "hops_ok (a # b # ts) (f # fs) (p # ps) =
    (is_mp_address a \<and> a \<noteq> b \<and> f \<noteq> 0 \<and> unat f < 2 ^ 24 \<and> p = canonical_pool_id a b f \<and> hops_ok (b # ts) fs ps)"
| "hops_ok _ _ _ = False"

definition swap_ok :: "swap_data \<Rightarrow> bool" where
  "swap_ok s \<longleftrightarrow> hops_ok (vp_tokens (sd_path s)) (vp_fees (sd_path s)) (vp_touched_pools (sd_path s)) \<and>
     1 \<le> length (vp_fees (sd_path s)) \<and> length (vp_fees (sd_path s)) \<le> MAX_V3_HOPS \<and> sd_amount_in s \<noteq> 0 \<and> sd_kind s \<noteq> NoSwap"

lemma hops_ok_lengths:
  "hops_ok ts fs ps \<Longrightarrow> length ts = Suc (length fs) \<and> length ps = length fs"
  by (induction ts fs ps rule: hops_ok.induct) auto

lemma hops_ok_nth:
  "hops_ok ts fs ps \<Longrightarrow> i < length fs \<Longrightarrow>
     is_mp_address (ts ! i) \<and> is_mp_address (ts ! Suc i) \<and> ps ! i = canonical_pool_id (ts ! i) (ts ! Suc i) (fs ! i)"
proof (induction ts fs ps arbitrary: i rule: hops_ok.induct)
  case (2 a b ts f fs p ps)
  have "is_mp_address b" using 2 by (cases "(b # ts, fs, ps)" rule: hops_ok.cases) auto
  with 2 show ?case by (cases i) auto
qed auto

lemma required_address_canonical: "required_address ab t = Some a \<Longrightarrow> is_mp_address a"
  by (auto simp: required_address_def mp_token_address_def dest: mp_address_parse_canonical
           split: Option.bind_splits option.splits token.splits if_splits)

lemma address_from_bytes_canonical: "address_from_bytes ab bs = Some a \<Longrightarrow> is_mp_address a"
  by (auto simp: address_from_bytes_def dest: mp_address_parse_canonical split: if_splits)

lemma concrete_amount_pos:
  assumes "concrete_amount t = Some v"
  shows "v \<noteq> 0"
proof -
  obtain w :: u256 where w: "w \<noteq> 0" "unat w < 2 ^ 128" "v = ucast w"
    using assms by (auto simp: concrete_amount_def split: Option.bind_splits if_splits)
  then have "unat v = unat w" by (simp add: unsigned_ucast_eq take_bit_nat_eq_self)
  with w(1) show ?thesis by (metis unat_0 unat_eq_zero)
qed

lemma bounded_uint_24:
  assumes "bounded_uint t 24 = Some v"
  shows "unat (ucast v :: u32) < 2 ^ 24"
proof -
  have v: "unat v < 2 ^ 24" using assms by (auto simp: bounded_uint_def split: option.splits token.splits if_splits)
  then have "unat (ucast v :: u32) = unat v" by (simp add: unsigned_ucast_eq take_bit_nat_eq_self)
  with v show ?thesis by simp
qed

lemma be24_bound: "unat (be24 bs) < 2 ^ 24"
proof -
  let ?n = "unat (bs ! 0) * 65536 + unat (bs ! 1) * 256 + unat (bs ! 2)"
  have byte: "unat (b :: u8) < 256" for b using unsigned_less [of b] by simp
  have n: "?n < 2 ^ 24" using byte [of "bs ! 0"] byte [of "bs ! 1"] byte [of "bs ! 2"] by simp
  then have "unat (of_nat ?n :: u32) = ?n" by (simp only: unat_of_nat) simp
  with n show ?thesis unfolding be24_def by simp
qed

lemma path_hops_ok:
  "path_hops ab n current path = Some (fees, tokens, pools) \<Longrightarrow> is_mp_address current \<Longrightarrow>
     hops_ok (current # tokens) fees pools \<and> length fees = n"
proof (induction n arbitrary: current path fees tokens pools)
  case (Suc n)
  obtain nxt fees' tokens' pools' where nxt: "address_from_bytes ab (take 20 (drop 3 path)) = Some nxt"
    and hop: "be24 (take 3 path) \<noteq> 0" "current \<noteq> nxt"
    and rest: "path_hops ab n nxt (drop 23 path) = Some (fees', tokens', pools')"
    and out: "fees = be24 (take 3 path) # fees'" "tokens = nxt # tokens'"
      "pools = canonical_pool_id current nxt (be24 (take 3 path)) # pools'"
    using Suc.prems(1) by (auto simp: Let_def split: Option.bind_splits if_splits)
  show ?case
    using Suc.IH [OF rest address_from_bytes_canonical [OF nxt]] hop Suc.prems(2) be24_bound [of "take 3 path"] by (simp add: out)
qed simp

lemma decode_v3_path_ok:
  assumes "decode_v3_path ab raw = Some p"
  shows "hops_ok (vp_tokens p) (vp_fees p) (vp_touched_pools p) \<and> 1 \<le> length (vp_fees p) \<and> length (vp_fees p) \<le> MAX_V3_HOPS"
  using assms unfolding decode_v3_path_def
  by (auto simp: Let_def dest!: path_hops_ok dest: address_from_bytes_canonical split: Option.bind_splits if_splits)

lemma single_hop_swap_ok:
  assumes "single_hop_swap a b f v k = Some s" "is_mp_address a" "is_mp_address b" "unat f < 2 ^ 24" "v \<noteq> 0" "k \<noteq> NoSwap"
  shows "swap_ok s"
  using assms by (auto simp: single_hop_swap_def swap_ok_def MAX_V3_HOPS_def split: if_splits)

lemma decode_legacy_exact_input_single_ok: "decode_legacy_exact_input_single ab data = Some s \<Longrightarrow> swap_ok s"
  unfolding decode_legacy_exact_input_single_def
  by (auto elim!: single_hop_swap_ok dest: required_address_canonical bounded_uint_24 concrete_amount_pos
           split: Option.bind_splits if_splits)

lemma decode_router02_exact_input_single_ok: "decode_router02_exact_input_single ab data = Some s \<Longrightarrow> swap_ok s"
  unfolding decode_router02_exact_input_single_def
  by (auto elim!: single_hop_swap_ok dest: required_address_canonical bounded_uint_24 concrete_amount_pos
           split: Option.bind_splits if_splits)

lemma decode_legacy_exact_input_ok: "decode_legacy_exact_input ab data = Some s \<Longrightarrow> swap_ok s"
  unfolding decode_legacy_exact_input_def swap_ok_def
  by (auto dest!: decode_v3_path_ok concrete_amount_pos split: Option.bind_splits if_splits)

lemma decode_universal_v3_exact_in_ok: "decode_universal_v3_exact_in ab data = Some s \<Longrightarrow> swap_ok s"
  unfolding decode_universal_v3_exact_in_def swap_ok_def
  by (auto dest!: decode_v3_path_ok concrete_amount_pos split: Option.bind_splits if_splits)

lemmas swap_decoders_ok = decode_legacy_exact_input_single_ok decode_router02_exact_input_single_ok
  decode_legacy_exact_input_ok decode_universal_v3_exact_in_ok

definition decoded_ok :: "router_kind \<Rightarrow> decoded_swap \<Rightarrow> bool" where
  "decoded_ok k d \<longleftrightarrow>
     hops_ok (dw_swap_path d) (dw_fee_path d) (dw_touched_pools d) \<and> 1 \<le> length (dw_fee_path d) \<and>
     length (dw_fee_path d) \<le> MAX_V3_HOPS \<and> dw_amount_in d \<noteq> 0 \<and>
     oe_router_kind (dw_evidence d) = Some k \<and> oe_supported (dw_evidence d) \<and> oe_exact_in (dw_evidence d) = Some True \<and>
     oe_decoded_swap_kind (dw_evidence d) \<noteq> NoSwap \<and> oe_v3_hop_count (dw_evidence d) = length (dw_fee_path d)"

lemma into_decoded_ok: "swap_ok s \<Longrightarrow> oe_router_kind e = Some k \<Longrightarrow> decoded_ok k (into_decoded s e cs i)"
  using hops_ok_lengths [of "vp_tokens (sd_path s)" "vp_fees (sd_path s)" "vp_touched_pools (sd_path s)"]
  by (simp add: swap_ok_def decoded_ok_def into_decoded_def)

lemma finish_supported_ok:
  assumes "finish_supported r e cs = Supported d" "\<And>s. r = Some s \<Longrightarrow> swap_ok s" "oe_router_kind e = Some k"
  shows "decoded_ok k d"
  using assms by (auto simp: finish_supported_def into_decoded_ok split: option.splits)

lemma finish_loop_ok:
  assumes "finish_loop e r = Supported d" "\<And>cs i s. r = Inr (cs, Some (i, s)) \<Longrightarrow> swap_ok s" "\<And>d. r \<noteq> Inl (Supported d)"
    and "oe_router_kind e = Some k"
  shows "decoded_ok k d"
  using assms by (auto simp: finish_loop_def into_decoded_ok split: sum.splits prod.splits option.splits)

lemma OriginEvidence_new_router [simp]: "oe_router_kind (OriginEvidence_new k sel w) = Some k"
  by (simp add: OriginEvidence_new_def)

text \<open>A loop never ends early with a supported swap, and the swap it hands on is the one it was given or the one of
  the last swap call.\<close>

lemma multicall_loop_not_Supported: "multicall_loop ab e i calls st \<noteq> Inl (Supported d)"
  by (induction ab e i calls st rule: multicall_loop.induct) (auto simp: Let_def split: option.splits)

lemma multicall_loop_swap:
  "multicall_loop ab e i calls (cs, sw) = Inr (cs', Some (j, s)) \<Longrightarrow>
     sw = Some (j, s) \<or>
     (\<exists>k < length calls. j = i + k \<and> is_legacy_swap_selector ab (fst (calls ! k)) \<and>
        (decode_legacy_exact_input_single ab (snd (calls ! k)) = Some s \<or> decode_legacy_exact_input ab (snd (calls ! k)) = Some s))"
proof (induction calls arbitrary: i cs sw)
  case (Cons c calls)
  obtain sel data where c: "c = (sel, data)" by (cases c)
  obtain cs'' sw'' where go: "multicall_loop ab e (Suc i) calls (cs'', sw'') = Inr (cs', Some (j, s))"
    and sw'': "sw'' = sw \<or> is_legacy_swap_selector ab sel \<and>
       (\<exists>t. sw'' = Some (i, t) \<and> (decode_legacy_exact_input_single ab data = Some t \<or> decode_legacy_exact_input ab data = Some t))"
    using Cons.prems unfolding c
    by (simp add: Let_def is_legacy_swap_selector_def split: if_splits option.splits)
  from Cons.IH [OF go] consider "sw'' = Some (j, s)"
    | k where "k < length calls" "j = Suc i + k" "is_legacy_swap_selector ab (fst (calls ! k))"
      "decode_legacy_exact_input_single ab (snd (calls ! k)) = Some s \<or> decode_legacy_exact_input ab (snd (calls ! k)) = Some s"
    by blast
  then show ?case
  proof cases
    case 1
    with sw'' show ?thesis unfolding c by (auto intro!: exI [of _ 0])
  next
    case (2 k)
    then show ?thesis by (intro disjI2 exI [of _ "Suc k"]) simp
  qed
qed simp

lemma universal_loop_not_Supported: "universal_loop ab e i calls st \<noteq> Inl (Supported d)"
  by (induction ab e i calls st rule: universal_loop.induct) (auto simp: Let_def split: option.splits)

text \<open>The only swap command a loop that comes through has met is an exact-input V3 swap that may not revert.\<close>

definition plain_command :: "u8 \<Rightarrow> bool" where
  "plain_command c \<longleftrightarrow> is_universal_companion (c AND UNIVERSAL_COMMAND_MASK)"

definition v3_exact_in_command :: "u8 \<Rightarrow> bool" where
  "v3_exact_in_command c \<longleftrightarrow> c AND UNIVERSAL_COMMAND_MASK = 0 \<and> c AND UNIVERSAL_ALLOW_REVERT = 0"

lemma universal_loop_swap:
  "universal_loop ab e i calls (cs, sw) = Inr (cs', Some (j, s)) \<Longrightarrow>
     list_all (\<lambda>c. v3_exact_in_command (fst c) \<or> plain_command (fst c)) calls \<and>
     (sw = Some (j, s) \<or>
     (\<exists>k < length calls. j = i + k \<and> v3_exact_in_command (fst (calls ! k)) \<and>
        decode_universal_v3_exact_in ab (snd (calls ! k)) = Some s))"
proof (induction calls arbitrary: i cs sw)
  case (Cons c calls)
  obtain b input where c: "c = (b, input)" by (cases c)
  obtain cs'' sw'' where go: "universal_loop ab e (Suc i) calls (cs'', sw'') = Inr (cs', Some (j, s))"
    and sw'': "sw'' = sw \<and> plain_command b \<or> v3_exact_in_command b \<and>
       (\<exists>t. sw'' = Some (i, t) \<and> decode_universal_v3_exact_in ab input = Some t)"
    using Cons.prems unfolding c
    by (simp add: Let_def plain_command_def v3_exact_in_command_def split: if_splits option.splits)
  from Cons.IH [OF go] have all: "list_all (\<lambda>c. v3_exact_in_command (fst c) \<or> plain_command (fst c)) (c # calls)"
    using sw'' by (auto simp: c)
  from Cons.IH [OF go] consider "sw'' = Some (j, s)"
    | k where "k < length calls" "j = Suc i + k" "v3_exact_in_command (fst (calls ! k))"
      "decode_universal_v3_exact_in ab (snd (calls ! k)) = Some s"
    by blast
  then show ?case
  proof cases
    case 1
    with sw'' show ?thesis using all unfolding c by (auto intro!: exI [of _ 0])
  next
    case (2 k)
    then show ?thesis using all by (intro conjI disjI2 exI [of _ "Suc k"]) simp_all
  qed
qed simp

lemma decode_legacy_multicall_ok: "decode_legacy_multicall ab data = Supported d \<Longrightarrow> decoded_ok LegacySwapRouter d"
  by (auto simp: decode_legacy_multicall_def Let_def multicall_loop_not_Supported
           elim!: finish_loop_ok dest!: multicall_loop_swap intro: swap_decoders_ok split: option.splits if_splits)

lemma execute_universal_ok: "execute_universal ab sel types name data = Supported d \<Longrightarrow> decoded_ok UniversalRouter d"
  by (auto simp: execute_universal_def Let_def universal_loop_not_Supported
           elim!: finish_loop_ok dest!: universal_loop_swap intro: swap_decoders_ok split: option.splits prod.splits if_splits)

lemma classify_router_ok:
  assumes "classify_router ab k calldata = Supported d"
  shows "decoded_ok k d"
  using assms
  by (auto simp: classify_router_def classify_legacy_def classify_router02_def classify_universal_def Let_def
           dest: decode_legacy_multicall_ok execute_universal_ok elim!: finish_supported_ok intro: swap_decoders_ok
           split: option.splits router_kind.splits if_splits)

section \<open>Relevance\<close>

text \<open>A swap touches a leg of the registry when one of its hops trades the two tokens of the leg at the fee of the leg.\<close>

definition touches_leg :: "decoded_swap \<Rightarrow> route_leg_spec \<Rightarrow> bool" where
  "touches_leg d leg \<longleftrightarrow>
     (\<exists>i < length (dw_fee_path d). dw_fee_path d ! i = lg_fee leg \<and>
        {Some (dw_swap_path d ! i), Some (dw_swap_path d ! Suc i)} =
          {mp_address_parse (lg_token_in leg), mp_address_parse (lg_token_out leg)})"

text \<open>The swap of a call to one of the routers of the release.\<close>

definition swap_at_router :: "abi_lib \<Rightarrow> string list \<Rightarrow> string option \<Rightarrow> string \<Rightarrow> decoded_swap \<Rightarrow> bool" where
  "swap_at_router ab routers destination calldata d \<longleftrightarrow>
     (\<exists>dst a k. destination = Some dst \<and> mp_address_parse dst = Some a \<and> Some a \<in> mp_address_parse ` set routers \<and>
        reviewed_router_kind a = Some k \<and> classify_router ab k calldata = Supported d)"

definition leg_validated :: "route_leg_spec \<Rightarrow> bool" where
  "leg_validated leg \<longleftrightarrow> (\<exists>a b. mp_address_parse (lg_token_in leg) = Some a \<and> mp_address_parse (lg_token_out leg) = Some b \<and>
     lg_pool_id leg = canonical_pool_id a b (lg_fee leg))"

lemma validate_leg_validated: "validate_leg leg = Inr ab \<Longrightarrow> leg_validated leg"
  by (auto simp: validate_leg_def leg_validated_def Let_def result_simps split: if_splits)

lemma validate_route_Inr:
  assumes "mp_validate_route route = Inr (p, q)"
  shows "{p, q} = lg_pool_id ` set (rt_legs route)" "list_all leg_validated (rt_legs route)"
  using assms validate_leg_validated
  by (auto simp: mp_validate_route_def result_simps split: list.splits if_splits)

lemma collect_routes_pools:
  "collect_routes routes ids fps pools = Inr P \<Longrightarrow>
     P = pools \<union> (\<Union>route \<in> set routes. lg_pool_id ` set (rt_legs route)) \<and>
     list_all (\<lambda>route. list_all leg_validated (rt_legs route)) routes"
proof (induction routes arbitrary: ids fps pools)
  case (Cons route routes)
  then obtain p q where v: "mp_validate_route route = Inr (p, q)"
    and go: "collect_routes routes (insert (rt_route_id route) ids) (insert (rt_route_fingerprint route) fps)
      (insert q (insert p pools)) = Inr P"
    by (auto simp: result_simps split: if_splits)
  from Cons.IH [OF go] validate_route_Inr [OF v] show ?case by auto
qed simp

lemma register_routers_map:
  "register_routers raws m = Inr m' \<Longrightarrow>
     m' a = (if Some a \<in> mp_address_parse ` set raws then reviewed_router_kind a else m a)"
proof (induction raws arbitrary: m)
  case (Cons raw raws)
  then obtain b k where b: "mp_address_parse raw = Some b" "reviewed_router_kind b = Some k"
    and go: "register_routers raws (m(b \<mapsto> k)) = Inr m'"
    by (auto simp: result_simps split: if_splits)
  from Cons.IH [OF go] b show ?case by auto
qed simp

lemma from_release_Inr:
  assumes "from_release fj v raws json = Inr c"
  obtains routes where "fj json = Some routes" "list_all (\<lambda>route. list_all leg_validated (rt_legs route)) routes"
    "mc_reviewed_pools c = (\<Union>route \<in> set routes. lg_pool_id ` set (rt_legs route))"
    "mc_routers c = (\<lambda>a. if Some a \<in> mp_address_parse ` set raws then reviewed_router_kind a else None)"
proof -
  obtain routers pools where routers: "register_routers raws Map.empty = Inr routers"
    and pools: "reviewed_pools fj json = Inr pools" and c: "c = \<lparr>mc_routers = routers, mc_reviewed_pools = pools\<rparr>"
    using assms by (auto simp: from_release_def result_simps split: if_splits)
  obtain routes where routes: "fj json = Some routes" "collect_routes routes {} {} {} = Inr pools"
    using pools by (auto simp: reviewed_pools_def result_simps split: if_splits)
  show thesis
    using that [of routes] collect_routes_pools [OF routes(2)] routes(1) register_routers_map [OF routers] by (simp add: c fun_eq_iff)
qed

lemma leg_pool_touched_iff:
  assumes "decoded_ok k d" "leg_validated leg"
  shows "lg_pool_id leg \<in> set (dw_touched_pools d) \<longleftrightarrow> touches_leg d leg"
proof -
  obtain a b where leg: "mp_address_parse (lg_token_in leg) = Some a" "mp_address_parse (lg_token_out leg) = Some b"
    "lg_pool_id leg = canonical_pool_id a b (lg_fee leg)"
    using assms(2) by (auto simp: leg_validated_def)
  note ab = leg(1,2) [THEN mp_address_parse_canonical]
  have hops: "hops_ok (dw_swap_path d) (dw_fee_path d) (dw_touched_pools d)" using assms(1) by (simp add: decoded_ok_def)
  have len: "length (dw_touched_pools d) = length (dw_fee_path d)" using hops_ok_lengths [OF hops] by simp
  have hop: "dw_touched_pools d ! i = lg_pool_id leg \<longleftrightarrow> dw_fee_path d ! i = lg_fee leg \<and>
      {Some (dw_swap_path d ! i), Some (dw_swap_path d ! Suc i)} = {Some a, Some b}" if "i < length (dw_fee_path d)" for i
  proof -
    have "dw_touched_pools d ! i = lg_pool_id leg \<longleftrightarrow>
        dw_fee_path d ! i = lg_fee leg \<and> {dw_swap_path d ! i, dw_swap_path d ! Suc i} = {a, b}"
      using hops_ok_nth [OF hops that] canonical_pool_id_eq_iff [OF _ _ ab] leg(3) by simp
    then show ?thesis by (simp add: doubleton_eq_iff)
  qed
  show ?thesis unfolding touches_leg_def in_set_conv_nth leg(1,2) len using hop by blast
qed

lemma mp_classify_relevant:
  assumes "mp_classify ab c chain_id destination calldata = Inr r"
  shows "cr_classification r = RelevantRouteInput \<longleftrightarrow>
    (\<exists>dst a k d p. destination = Some dst \<and> mp_address_parse dst = Some a \<and> mc_routers c a = Some k \<and>
       classify_router ab k calldata = Supported d \<and> p \<in> set (dw_touched_pools d) \<and> p \<in> mc_reviewed_pools c)"
proof (cases destination)
  case None
  with assms show ?thesis by (auto simp: mp_classify_def classification_def split: if_splits)
next
  case (Some dst)
  obtain a where a: "mp_address_parse dst = Some a"
    using assms by (auto simp: Some mp_classify_def result_simps split: if_splits)
  show ?thesis
  proof (cases "mc_routers c a")
    case None
    then show ?thesis using assms by (auto simp: Some a mp_classify_def classification_def split: if_splits)
  next
    case (Some k)
    then show ?thesis using assms
      by (cases "classify_router ab k calldata")
         (auto simp: \<open>destination = Some dst\<close> a mp_classify_def classification_def Let_def filter_empty_conv split: if_splits)
  qed
qed

text \<open>C20: A transaction is passed on as relevant exactly when it calls a router of the release with a supported swap
  one of whose hops trades the two tokens of a leg of the reviewed registry at the fee of the leg: nothing else is
  relevant, and no swap through a reviewed pool is missed, whichever way round it trades.\<close>

theorem relevant_iff_reviewed_leg:
  assumes "from_release fj version routers json = Inr c" "mp_classify ab c chain_id destination calldata = Inr r"
  shows "cr_classification r = RelevantRouteInput \<longleftrightarrow>
    (\<exists>d routes. swap_at_router ab routers destination calldata d \<and> fj json = Some routes \<and>
       (\<exists>route leg. route \<in> set routes \<and> leg \<in> set (rt_legs route) \<and> touches_leg d leg))"
proof -
  obtain routes where routes: "fj json = Some routes" "list_all (\<lambda>route. list_all leg_validated (rt_legs route)) routes"
    and pools: "mc_reviewed_pools c = (\<Union>route \<in> set routes. lg_pool_id ` set (rt_legs route))"
    and regs: "mc_routers c = (\<lambda>a. if Some a \<in> mp_address_parse ` set routers then reviewed_router_kind a else None)"
    by (rule from_release_Inr [OF assms(1)])
  have at: "swap_at_router ab routers destination calldata d \<longleftrightarrow> (\<exists>dst a k. destination = Some dst \<and>
      mp_address_parse dst = Some a \<and> mc_routers c a = Some k \<and> classify_router ab k calldata = Supported d)" for d
    by (simp add: swap_at_router_def regs) blast
  have hit: "(\<exists>p. p \<in> set (dw_touched_pools d) \<and> p \<in> mc_reviewed_pools c) \<longleftrightarrow>
      (\<exists>route leg. route \<in> set routes \<and> leg \<in> set (rt_legs route) \<and> touches_leg d leg)"
    if swap: "swap_at_router ab routers destination calldata d" for d
  proof -
    obtain k where "classify_router ab k calldata = Supported d" using swap by (auto simp: swap_at_router_def)
    then have "lg_pool_id leg \<in> set (dw_touched_pools d) \<longleftrightarrow> touches_leg d leg"
      if "route \<in> set routes" "leg \<in> set (rt_legs route)" for route leg
      using leg_pool_touched_iff [OF classify_router_ok] that routes(2) by (simp add: list_all_iff)
    then show ?thesis unfolding pools by auto
  qed
  have "cr_classification r = RelevantRouteInput \<longleftrightarrow> (\<exists>d. swap_at_router ab routers destination calldata d \<and>
      (\<exists>p. p \<in> set (dw_touched_pools d) \<and> p \<in> mc_reviewed_pools c))"
    unfolding mp_classify_relevant [OF assms(2)] at by (simp only: ex_simps [symmetric]) blast
  then show ?thesis using hit by (simp add: routes(1)) blast
qed

section \<open>Calls to the Universal Router\<close>

text \<open>The commands of a call and their inputs, as the calldata encodes them.\<close>

definition universal_call :: "abi_lib \<Rightarrow> string \<Rightarrow> u8 list \<Rightarrow> u8 list list \<Rightarrow> bool" where
  "universal_call ab calldata commands inputs \<longleftrightarrow>
     (\<exists>bytes tokens deadline. decode_calldata ab calldata = Some bytes \<and> deadline \<in> {[], [ParamUint 256]} \<and>
        decode_canonical ab ([ParamBytes, ParamArray ParamBytes] @ deadline) (drop 4 bytes) = Some tokens \<and>
        token_bytes (nth_token 0 tokens) = Some commands \<and> token_bytes_array (nth_token 1 tokens) = Some inputs)"

lemma two_filtered:
  assumes "i < length xs" "j < length xs" "i \<noteq> j" "P (xs ! i)" "P (xs ! j)"
  shows "1 < length (filter P xs)"
proof -
  have "card {i, j} \<le> card {k. k < length xs \<and> P (xs ! k)}" using assms by (intro card_mono) auto
  with assms(3) show ?thesis by (simp add: length_filter_conv_card)
qed

lemma finish_loop_Supported:
  assumes "finish_loop e r = Supported d" "\<And>d. r \<noteq> Inl (Supported d)"
  obtains cs i s where "r = Inr (cs, Some (i, s))" "d = into_decoded s e cs (of_nat i)"
  using assms by (auto simp: finish_loop_def split: sum.splits prod.splits option.splits)

lemma execute_universal_Supported:
  assumes "execute_universal ab sel types name data = Supported d"
  obtains tokens commands inputs e cs i s where "decode_canonical ab types data = Some tokens"
    "token_bytes (nth_token 0 tokens) = Some commands" "token_bytes_array (nth_token 1 tokens) = Some inputs"
    "length commands = length inputs" "length commands \<le> MAX_INNER_CALLS"
    "length (filter (\<lambda>c. is_swap_command (c AND UNIVERSAL_COMMAND_MASK)) commands) \<le> 1"
    "universal_loop ab e 0 (zip commands inputs) ([name], None) = Inr (cs, Some (i, s))"
    "d = into_decoded s e cs (of_nat i)"
  using assms unfolding execute_universal_def
  by (auto simp: Let_def universal_loop_not_Supported not_less elim!: finish_loop_Supported
           split: option.splits Option.bind_splits prod.splits if_splits)

lemma universal_swap_unique:
  assumes "execute_universal ab sel types name data = Supported d"
  obtains tokens commands inputs i s where "decode_canonical ab types data = Some tokens"
    "token_bytes (nth_token 0 tokens) = Some commands" "token_bytes_array (nth_token 1 tokens) = Some inputs"
    "length commands = length inputs" "i < length commands" "i = unat (dw_source_command_index d)"
    "v3_exact_in_command (commands ! i)" "\<And>j. j < length commands \<Longrightarrow> j \<noteq> i \<Longrightarrow> plain_command (commands ! j)"
    "decode_universal_v3_exact_in ab (inputs ! i) = Some s"
    "dw_swap_path d = vp_tokens (sd_path s)" "dw_fee_path d = vp_fees (sd_path s)" "dw_amount_in d = sd_amount_in s"
proof -
  obtain tokens commands inputs e cs i s where dec: "decode_canonical ab types data = Some tokens"
      "token_bytes (nth_token 0 tokens) = Some commands" "token_bytes_array (nth_token 1 tokens) = Some inputs"
    and len: "length commands = length inputs" "length commands \<le> MAX_INNER_CALLS"
    and one: "length (filter (\<lambda>c. is_swap_command (c AND UNIVERSAL_COMMAND_MASK)) commands) \<le> 1"
    and loop: "universal_loop ab e 0 (zip commands inputs) ([name], None) = Inr (cs, Some (i, s))"
    and d: "d = into_decoded s e cs (of_nat i)"
    by (rule execute_universal_Supported [OF assms])
  have i: "i < length commands" "v3_exact_in_command (commands ! i)" "decode_universal_v3_exact_in ab (inputs ! i) = Some s"
    using universal_loop_swap [OF loop] len(1) by auto
  have "plain_command (commands ! j)" if j: "j < length commands" "j \<noteq> i" for j
  proof (rule ccontr)
    assume "\<not> plain_command (commands ! j)"
    then have "v3_exact_in_command (commands ! j)"
      using universal_loop_swap [OF loop] j(1) len(1) by (auto simp: list_all_length)
    with i j one two_filtered [of i commands j "\<lambda>c. is_swap_command (c AND UNIVERSAL_COMMAND_MASK)"] show False
      by (simp add: v3_exact_in_command_def is_swap_command_def)
  qed
  moreover have "i = unat (of_nat i :: u16)" using i(1) len(2) by (simp add: unat_of_nat MAX_INNER_CALLS_def)
  ultimately show thesis using that [OF dec len(1) i(1) _ i(2) _ i(3)] by (simp add: d into_decoded_def)
qed

text \<open>C24: A call to the Universal Router that is decoded as a supported swap has exactly one swap among its commands,
  the one the result names: an exact-input V3 swap that is not allowed to revert, from whose input the path, the fees
  and the amount are read. Every other command is one of the permit, transfer, wrap and sweep companions.\<close>

theorem universal_single_swap:
  assumes "classify_router ab UniversalRouter calldata = Supported d"
  shows "\<exists>commands inputs s. universal_call ab calldata commands inputs \<and> length commands = length inputs \<and>
    unat (dw_source_command_index d) < length commands \<and>
    v3_exact_in_command (commands ! unat (dw_source_command_index d)) \<and>
    (\<forall>j. j < length commands \<longrightarrow> j \<noteq> unat (dw_source_command_index d) \<longrightarrow> plain_command (commands ! j)) \<and>
    decode_universal_v3_exact_in ab (inputs ! unat (dw_source_command_index d)) = Some s \<and>
    dw_swap_path d = vp_tokens (sd_path s) \<and> dw_fee_path d = vp_fees (sd_path s) \<and> dw_amount_in d = sd_amount_in s"
proof -
  obtain bytes deadline sel name where call: "decode_calldata ab calldata = Some bytes" "deadline \<in> {[], [ParamUint 256]}"
    "execute_universal ab sel ([ParamBytes, ParamArray ParamBytes] @ deadline) name (drop 4 bytes) = Supported d"
    using assms by (auto simp: classify_router_def classify_universal_def Let_def split: option.splits if_splits)
  show ?thesis
    using call(1,2) by (rule_tac universal_swap_unique [OF call(3)]) (unfold universal_call_def, blast)
qed

end
