(* ===== verification/Money_Path_Witnesses.thy ===== *)
theory Money_Path_Witnesses
  imports Money_Path
begin

text \<open>
  A release with one reviewed route, WETH to USDC at 500 and back at 3000, and two calls it sees: a direct swap at
  SwapRouter02 and a Universal Router call that wraps ether and swaps it. The libraries are tables of the values the
  calls need.
\<close>

definition weth_bytes :: "u8 list" where
  "weth_bytes = [0x82, 0xaf, 0x49, 0x44, 0x7d, 0x8a, 0x07, 0xe3, 0xbd, 0x95, 0xbd, 0x0d, 0x56, 0xf3, 0x52, 0x41, 0x52, 0x3f, 0xba, 0xb1]"

definition usdc_bytes :: "u8 list" where
  "usdc_bytes = [0xaf, 0x88, 0xd0, 0x65, 0xe7, 0x7c, 0x8c, 0xc2, 0x23, 0x93, 0x27, 0xc5, 0xed, 0xb3, 0xa4, 0x32, 0x26, 0x8e, 0x58, 0x31]"

definition weth :: string where "weth = ''0x82af49447d8a07e3bd95bd0d56f35241523fbab1''"
definition usdc :: string where "usdc = ''0xaf88d065e77c8cc2239327c5edb3a432268e5831''"

definition mp_sample_path :: "u8 list" where
  "mp_sample_path = weth_bytes @ [0, 1, 0xf4] @ usdc_bytes"

definition mp_sample_decode :: "param_type list \<Rightarrow> u8 list \<Rightarrow> token list option" where
  "mp_sample_decode types data =
    (if types = [router02_exact_input_single_type] \<and> data = [1] then
       Some [TkTuple [TkAddress usdc_bytes, TkAddress weth_bytes, TkUint 500, TkAddress weth_bytes, TkUint 7, TkUint 0, TkUint 0]]
     else if types = [ParamBytes, ParamArray ParamBytes] \<and> data = [2] then
       Some [TkBytes [0x0b, 0], TkArray [TkBytes [3], TkBytes [4]]]
     else if types = [ParamAddress, ParamUint 256] \<and> data = [3] then Some [TkAddress weth_bytes, TkUint 7]
     else if types = [ParamAddress, ParamUint 256, ParamUint 256, ParamBytes, ParamBool] \<and> data = [4] then
       Some [TkAddress weth_bytes, TkUint 7, TkUint 0, TkBytes mp_sample_path, TkBool True]
     else None)"

definition mp_sample_encode :: "token list \<Rightarrow> u8 list" where
  "mp_sample_encode tokens =
    (case tokens of
       [TkTuple _] \<Rightarrow> [1]
     | [TkBytes _, TkArray _] \<Rightarrow> [2]
     | [TkAddress _, TkUint _] \<Rightarrow> [3]
     | _ \<Rightarrow> [4])"

definition mp_sample_abi :: abi_lib where
  "mp_sample_abi =
    \<lparr>ab_decode = mp_sample_decode, ab_encode = mp_sample_encode,
     ab_short_signature = (\<lambda>name types.
       if name = ''exactInputSingle'' then [0x04, 0xe4, 0x5a, 0xaf]
       else if name = ''execute'' \<and> length types = 2 then [0x24, 0x85, 0x6b, 0xc3] else [0, 0, 0, 0]),
     ab_hex_decode = (\<lambda>s.
       if s = ''04e45aaf01'' then Some [0x04, 0xe4, 0x5a, 0xaf, 1]
       else if s = ''24856bc302'' then Some [0x24, 0x85, 0x6b, 0xc3, 2] else None),
     ab_hex_encode = (\<lambda>bs. if bs = weth_bytes then drop 2 weth else if bs = usdc_bytes then drop 2 usdc else [])\<rparr>"

definition mp_sample_leg :: "u32 \<Rightarrow> string \<Rightarrow> string \<Rightarrow> string \<Rightarrow> u8 \<Rightarrow> u8 \<Rightarrow> string \<Rightarrow> route_leg_spec" where
  "mp_sample_leg fee target token_in token_out d_in d_out direction =
    \<lparr>lg_pool_id = weth @ '':'' @ usdc @ '':'' @ dec_string (unat fee), lg_state_target = target, lg_protocol = ''UniswapV3'',
     lg_fee = fee, lg_token_in = token_in, lg_token_out = token_out, lg_token_in_decimals = d_in,
     lg_token_out_decimals = d_out, lg_tick_spacing = 10, lg_direction = direction\<rparr>"

definition mp_sample_routes :: "route_spec list" where
  "mp_sample_routes =
    [\<lparr>rt_route_id = ''r'', rt_route_fingerprint = ''f'', rt_trigger_pool_id = weth @ '':'' @ usdc @ '':500'',
      rt_settlement_asset = weth, rt_settlement_asset_decimals = 18,
      rt_legs = [mp_sample_leg 500 weth weth usdc 18 6 ''zero_for_one'', mp_sample_leg 3000 usdc usdc weth 6 18 ''one_for_zero'']\<rparr>]"

section \<open>Text\<close>

lemma mp_sample_addresses:
  "mp_address_parse weth = Some weth" "mp_address_parse usdc = Some usdc"
  "mp_address_parse SWAP_ROUTER_02_ADDRESS = Some SWAP_ROUTER_02_ADDRESS"
  "CHR ''0'' # CHR ''x'' # drop 2 weth = weth" "CHR ''0'' # CHR ''x'' # drop 2 usdc = usdc"
  by (simp_all add: mp_address_parse_def weth_def usdc_def SWAP_ROUTER_02_ADDRESS_def starts_with_def is_lower_hex_def
    is_ascii_digit_def to_ascii_lower_def of_char_def)

lemma mp_sample_order:
  "string_less weth usdc" "\<not> string_less usdc weth" "weth \<noteq> usdc" "usdc \<noteq> weth" "weth_bytes \<noteq> usdc_bytes" "usdc_bytes \<noteq> weth_bytes"
  by (simp_all add: weth_def usdc_def weth_bytes_def usdc_bytes_def of_char_def)

lemma mp_sample_nonzero: "weth \<noteq> ZERO_ADDRESS" "usdc \<noteq> ZERO_ADDRESS"
  by (simp_all add: weth_def usdc_def ZERO_ADDRESS_def numeral_eq_Suc)

lemma mp_sample_fees:
  "dec_string 500 = ''500''" "dec_string 3000 = ''3000''"
  by (simp_all add: dec_string.simps char_of_def bit_Suc_0_iff)

lemma mp_sample_pool_ids:
  "canonical_pool_id weth usdc 500 = weth @ '':'' @ usdc @ '':500''"
  "canonical_pool_id usdc weth 500 = weth @ '':'' @ usdc @ '':500''"
  "canonical_pool_id usdc weth 3000 = weth @ '':'' @ usdc @ '':3000''"
  by (simp_all add: canonical_pool_id_def mp_sample_order mp_sample_fees)

lemma mp_sample_tokens:
  "mp_token_address mp_sample_abi (Some (TkAddress weth_bytes)) = Some weth"
  "mp_token_address mp_sample_abi (Some (TkAddress usdc_bytes)) = Some usdc"
  "address_from_bytes mp_sample_abi weth_bytes = Some weth"
  "address_from_bytes mp_sample_abi usdc_bytes = Some usdc"
  by (simp_all add: mp_token_address_def address_from_bytes_def mp_sample_abi_def mp_sample_addresses mp_sample_order)
     (simp_all add: weth_bytes_def usdc_bytes_def)

section \<open>The release\<close>

lemma mp_sample_route_valid:
  "validate_leg (mp_sample_leg 500 weth weth usdc 18 6 ''zero_for_one'') = Inr (weth, usdc)"
  "validate_leg (mp_sample_leg 3000 usdc usdc weth 6 18 ''one_for_zero'') = Inr (usdc, weth)"
  by (simp_all add: validate_leg_def mp_sample_leg_def mp_sample_addresses mp_sample_order mp_sample_pool_ids mp_sample_fees decimals_ok_def)

lemma mp_sample_pools: "collect_routes mp_sample_routes {} {} {} =
  Inr {weth @ '':'' @ usdc @ '':3000'', weth @ '':'' @ usdc @ '':500''}"
  by (simp add: mp_sample_routes_def mp_validate_route_def mp_sample_route_valid mp_sample_addresses)
     (simp add: mp_sample_leg_def mp_sample_fees mp_sample_order decimals_ok_def bounded_text_def is_control_ascii_def of_char_def)

lemma mp_sample_kind: "reviewed_router_kind SWAP_ROUTER_02_ADDRESS = Some SwapRouter02"
  by (simp add: reviewed_router_kind_def SWAP_ROUTER_02_ADDRESS_def LEGACY_SWAP_ROUTER_ADDRESS_def)

lemma mp_sample_release:
  "from_release (\<lambda>_. Some mp_sample_routes) ''money_path_v1'' [SWAP_ROUTER_02_ADDRESS] [] =
     Inr \<lparr>mc_routers = [SWAP_ROUTER_02_ADDRESS \<mapsto> SwapRouter02],
       mc_reviewed_pools = {weth @ '':'' @ usdc @ '':3000'', weth @ '':'' @ usdc @ '':500''}\<rparr>"
proof -
  have "mp_sample_routes \<noteq> []" "length mp_sample_routes \<le> MAX_ROUTES" by (simp_all add: mp_sample_routes_def MAX_ROUTES_def)
  then show ?thesis
    using mp_sample_pools mp_sample_kind by (simp add: from_release_def reviewed_pools_def ADMISSION_POLICY_VERSION_def mp_sample_addresses)
qed

section \<open>The calls\<close>

lemma mp_sample_calldata:
  "decode_calldata mp_sample_abi ''0x04e45aaf01'' = Some [0x04, 0xe4, 0x5a, 0xaf, 1]"
  "decode_calldata mp_sample_abi ''0x24856bc302'' = Some [0x24, 0x85, 0x6b, 0xc3, 2]"
  by (simp_all add: decode_calldata_def strip_prefix_def starts_with_def MP_MAX_CALLDATA_BYTES_def is_ascii_hexdigit_def
    is_lower_hex_def is_ascii_digit_def of_char_def mp_sample_abi_def)

lemma mp_sample_canonical:
  "decode_canonical mp_sample_abi [router02_exact_input_single_type] [1] =
     Some [TkTuple [TkAddress usdc_bytes, TkAddress weth_bytes, TkUint 500, TkAddress weth_bytes, TkUint 7, TkUint 0, TkUint 0]]"
  "decode_canonical mp_sample_abi [ParamBytes, ParamArray ParamBytes] [2] =
     Some [TkBytes [0x0b, 0], TkArray [TkBytes [3], TkBytes [4]]]"
  "decode_canonical mp_sample_abi [ParamAddress, ParamUint 256] [3] = Some [TkAddress weth_bytes, TkUint 7]"
  "decode_canonical mp_sample_abi [ParamAddress, ParamUint 256, ParamUint 256, ParamBytes, ParamBool] [4] =
     Some [TkAddress weth_bytes, TkUint 7, TkUint 0, TkBytes mp_sample_path, TkBool True]"
  by (simp_all add: decode_canonical_def mp_sample_abi_def mp_sample_decode_def mp_sample_encode_def router02_exact_input_single_type_def)

lemma mp_sample_amount: "concrete_amount (Some (TkUint 7)) = Some 7"
  by (simp add: concrete_amount_def bounded_uint_def)

lemma mp_sample_direct_swap:
  "decode_router02_exact_input_single mp_sample_abi [1] = single_hop_swap usdc weth 500 7 V3ExactInputSingle"
  by (simp add: decode_router02_exact_input_single_def mp_sample_canonical token_tuple_def nth_token_def required_address_def
    mp_sample_tokens mp_sample_nonzero mp_sample_amount bounded_uint_def)

lemma mp_sample_call:
  "\<exists>d. classify_router mp_sample_abi SwapRouter02 ''0x04e45aaf01'' = Supported d \<and>
     dw_touched_pools d = [weth @ '':'' @ usdc @ '':500''] \<and> dw_swap_path d = [usdc, weth] \<and> dw_fee_path d = [500]"
  by (simp add: classify_router_def mp_sample_calldata classify_router02_def known_selectors_def finish_supported_def
    mp_sample_direct_swap single_hop_swap_def mp_sample_order into_decoded_def mp_sample_pool_ids)
     (simp add: mp_sample_abi_def)

lemma mp_sample_v3_path:
  "\<exists>p. decode_v3_path mp_sample_abi mp_sample_path = Some p \<and> vp_tokens p = [weth, usdc]"
proof -
  have len: "length weth_bytes = 20" "length usdc_bytes = 20" by (simp_all add: weth_bytes_def usdc_bytes_def)
  have "be24 [0, 1, 0xf4] = 500" by (simp add: be24_def)
  then show ?thesis
    by (simp add: decode_v3_path_def mp_sample_path_def len MAX_V3_PATH_BYTES_def MAX_V3_HOPS_def mp_sample_tokens mp_sample_order
      numeral_eq_Suc [of num.One])
qed

lemma mp_sample_universal_swap:
  "\<exists>s. decode_universal_v3_exact_in mp_sample_abi [4] = Some s \<and> vp_tokens (sd_path s) = [weth, usdc]"
  using mp_sample_v3_path
  by (auto simp: decode_universal_v3_exact_in_def mp_sample_canonical nth_token_def mp_sample_tokens mp_sample_amount
    bounded_uint_def token_bytes_def token_bool_def)

lemma mp_sample_wrap: "validate_universal_companion mp_sample_abi 0x0b [3] = Some ()"
  by (simp add: validate_universal_companion_def mp_sample_canonical)

lemma mp_sample_universal_loop:
  "\<exists>cs s. universal_loop mp_sample_abi e 0 [(0x0b, [3]), (0, [4])] (names, None) = Inr (cs, Some (1, s)) \<and>
     vp_tokens (sd_path s) = [weth, usdc]"
  using mp_sample_universal_swap
  by (auto simp: UNIVERSAL_COMMAND_MASK_def UNIVERSAL_ALLOW_REVERT_def is_universal_companion_def mp_sample_wrap)

lemma mp_sample_universal_execute:
  "\<exists>d. execute_universal mp_sample_abi UniversalExecute [ParamBytes, ParamArray ParamBytes] ''execute'' [2] = Supported d \<and>
     dw_swap_path d = [weth, usdc]"
proof -
  define e where "e = (OriginEvidence_new UniversalRouter UniversalExecute UniversalWrapper)\<lparr>oe_command_count := Suc (Suc 0)\<rparr>"
  obtain cs s where
    "universal_loop mp_sample_abi e 0 [(0x0b, [3]), (0, [4])] ([''execute''], None) = Inr (cs, Some (1, s))"
    "vp_tokens (sd_path s) = [weth, usdc]"
    using mp_sample_universal_loop by blast
  then show ?thesis
    by (simp add: execute_universal_def mp_sample_canonical nth_token_def token_bytes_def token_bytes_array_def
      MAX_INNER_CALLS_def nested_bytes_are_bounded_def MP_MAX_CALLDATA_BYTES_def MAX_TOTAL_NESTED_BYTES_def
      UNIVERSAL_COMMAND_MASK_def is_swap_command_def e_def finish_loop_def into_decoded_def
      del: universal_loop.simps)
qed

lemma mp_sample_universal:
  "\<exists>d. classify_router mp_sample_abi UniversalRouter ''0x24856bc302'' = Supported d \<and> dw_swap_path d = [weth, usdc]"
proof -
  have "sl_universal_execute (known_selectors mp_sample_abi) = [0x24, 0x85, 0x6b, 0xc3]"
    by (simp add: known_selectors_def mp_sample_abi_def)
  with mp_sample_universal_execute show ?thesis
    by (simp add: classify_router_def mp_sample_calldata classify_universal_def)
qed

section \<open>Witnesses\<close>

theorem relevant_iff_reviewed_leg_witness:
  "\<exists>c r. from_release (\<lambda>_. Some mp_sample_routes) ''money_path_v1'' [SWAP_ROUTER_02_ADDRESS] [] = Inr c \<and>
     mp_classify mp_sample_abi c MP_ARBITRUM_ONE_CHAIN_ID (Some SWAP_ROUTER_02_ADDRESS) ''0x04e45aaf01'' = Inr r \<and>
     cr_classification r = RelevantRouteInput"
proof -
  obtain d where d: "classify_router mp_sample_abi SwapRouter02 ''0x04e45aaf01'' = Supported d"
    "dw_touched_pools d = [weth @ '':'' @ usdc @ '':500'']" "dw_swap_path d = [usdc, weth]" "dw_fee_path d = [500]"
    using mp_sample_call by blast
  obtain r where r: "mp_classify mp_sample_abi \<lparr>mc_routers = [SWAP_ROUTER_02_ADDRESS \<mapsto> SwapRouter02],
       mc_reviewed_pools = {weth @ '':'' @ usdc @ '':3000'', weth @ '':'' @ usdc @ '':500''}\<rparr>
     MP_ARBITRUM_ONE_CHAIN_ID (Some SWAP_ROUTER_02_ADDRESS) ''0x04e45aaf01'' = Inr r"
    using d by (auto simp: mp_classify_def mp_sample_addresses)
  have "swap_at_router mp_sample_abi [SWAP_ROUTER_02_ADDRESS] (Some SWAP_ROUTER_02_ADDRESS) ''0x04e45aaf01'' d"
    using d(1) mp_sample_kind by (auto simp: swap_at_router_def mp_sample_addresses)
  moreover have "touches_leg d (mp_sample_leg 500 weth weth usdc 18 6 ''zero_for_one'')"
    using d by (auto simp: touches_leg_def mp_sample_leg_def mp_sample_addresses)
  ultimately show ?thesis
    using relevant_iff_reviewed_leg [OF mp_sample_release r] mp_sample_release r by (auto simp: mp_sample_routes_def)
qed

theorem universal_single_swap_witness:
  "\<exists>d commands inputs. classify_router mp_sample_abi UniversalRouter ''0x24856bc302'' = Supported d \<and>
     universal_call mp_sample_abi ''0x24856bc302'' commands inputs \<and>
     v3_exact_in_command (commands ! unat (dw_source_command_index d)) \<and> dw_swap_path d = [weth, usdc]"
proof -
  obtain d where d: "classify_router mp_sample_abi UniversalRouter ''0x24856bc302'' = Supported d" "dw_swap_path d = [weth, usdc]"
    using mp_sample_universal by blast
  show ?thesis using universal_single_swap [OF d(1)] d by blast
qed

end
