(* ===== verification/Domain.thy ===== *)
theory Domain
  imports Phoenix_Prelude "HOL-Library.List_Lexorder" "HOL-Library.Char_ord"
begin

text \<open>
  The vocabulary of the engine (\<open>phoenix-engine/src/domain\<close>, \<open>state\<close>, \<open>profit\<close>,
  \<open>execution\<close>, \<open>config.rs\<close>) and the pool graph (\<open>graph/mod.rs\<close>). Newtype structs are type
  synonyms; the graph is the hash map from pools to the routes that cross them. The locale
  \<open>route_index\<close> is the contract the route registry relies on, interpreted on \<open>add_cycle\<close> and
  \<open>affected_routes\<close>.
\<close>

section \<open>Domain types\<close>

type_synonym chain_id = u64
type_synonym sequence_number = u64
type_synonym tx_hash = string
type_synonym address = string
type_synonym pool_id = string
type_synonym token_address = string
type_synonym amount = u128
type_synonym sqrt_price_x96 = u256
type_synonym tick = i32
type_synonym liquidity = u128
type_synonym opportunity_id = string
type_synonym route_id = string

datatype direction = ZeroForOne | OneForZero

text \<open>
  \<open>Panicked\<close> is not a constructor of the source enum: it is the value of a computation that would
  panic (a division of a \<open>U256\<close> or \<open>U512\<close> by zero), so that freedom from panics is a theorem.
\<close>

datatype domain_error =
    InvalidAddress string
  | InvalidCalldata string
  | ArithmeticOverflow
  | ArithmeticUnderflow
  | StateIncomplete
  | UnsupportedOrigin
  | Panicked

definition address_parse :: "string \<Rightarrow> domain_error + address" where
  "address_parse input =
     (let s = map to_ascii_lower input in
      if length s \<noteq> 42 \<or> \<not> starts_with ''0x'' s \<or> \<not> list_all is_ascii_hexdigit (drop 2 s)
      then Inl (InvalidAddress input) else Inr s)"

definition amount_checked_add :: "amount \<Rightarrow> amount \<Rightarrow> domain_error + amount" where
  "amount_checked_add a b = ok_or ArithmeticOverflow (checked_add a b)"

definition amount_checked_sub :: "amount \<Rightarrow> amount \<Rightarrow> domain_error + amount" where
  "amount_checked_sub a b = ok_or ArithmeticUnderflow (checked_sub a b)"

section \<open>Pool state\<close>

record state_completeness =
  min_tick :: tick
  max_tick :: tick

definition covers :: "state_completeness \<Rightarrow> tick \<Rightarrow> bool" where
  "covers c t \<longleftrightarrow> min_tick c \<le> t \<and> t \<le> max_tick c"

record pool_state =
  ps_pool_id :: pool_id
  ps_token0 :: token_address
  ps_token1 :: token_address
  ps_fee :: u32
  ps_tick :: tick
  ps_liquidity :: liquidity
  ps_sqrt_price_x96 :: sqrt_price_x96
  ps_completeness :: state_completeness
  ps_last_reconciled_block :: u64

definition require_tick :: "pool_state \<Rightarrow> tick \<Rightarrow> domain_error + unit" where
  "require_tick p t = (if covers (ps_completeness p) t then Inr () else Inl StateIncomplete)"

section \<open>Pool graph\<close>

record pool_edge =
  pe_pool_id :: pool_id
  pe_protocol :: string
  pe_fee :: u32
  pe_token_in :: token_address
  pe_token_out :: token_address
  pe_direction :: direction

record route =
  rt_route_id :: route_id
  rt_legs :: "pool_edge list"

type_synonym pool_graph = "pool_id \<rightharpoonup> route list"

definition pool_graph_new :: pool_graph where
  "pool_graph_new = Map.empty"

definition add_leg :: "route \<Rightarrow> pool_graph \<Rightarrow> pool_edge \<Rightarrow> pool_graph" where
  "add_leg r g leg =
     (let routes = (case g (pe_pool_id leg) of None \<Rightarrow> [] | Some rs \<Rightarrow> rs) in
      g(pe_pool_id leg \<mapsto>
          (if list_ex (\<lambda>existing. rt_route_id existing = rt_route_id r) routes then routes
           else sort_key rt_route_id (routes @ [r]))))"

definition add_cycle :: "pool_graph \<Rightarrow> route \<Rightarrow> pool_graph" where
  "add_cycle g r = foldl (add_leg r) g (rt_legs r)"

definition add_two_pool_cycle :: "pool_graph \<Rightarrow> route \<Rightarrow> pool_graph" where
  "add_two_pool_cycle g r = add_cycle g r"

definition affected_routes :: "pool_graph \<Rightarrow> pool_id \<Rightarrow> route list" where
  "affected_routes g p = (case g p of None \<Rightarrow> [] | Some rs \<Rightarrow> rs)"

section \<open>Profit model\<close>

record profit_input =
  pi_final_route_output :: amount
  pi_principal :: amount
  pi_flash_premium :: amount
  pi_expected_execution_cost :: amount
  pi_expected_ordering_cost :: amount
  pi_uncertainty_reserve :: amount

record profit_breakdown =
  pb_gross_profit :: amount
  pb_expected_net_profit :: amount

definition profit_evaluate :: "profit_input \<Rightarrow> domain_error + profit_breakdown" where
  "profit_evaluate i =
     and_then (amount_checked_sub (pi_final_route_output i) (pi_principal i)) (\<lambda>gross.
     and_then (amount_checked_add (pi_flash_premium i) (pi_expected_execution_cost i)) (\<lambda>c1.
     and_then (amount_checked_add c1 (pi_expected_ordering_cost i)) (\<lambda>c2.
     and_then (amount_checked_add c2 (pi_uncertainty_reserve i)) (\<lambda>costs.
     and_then (amount_checked_sub gross costs) (\<lambda>net.
     Inr \<lparr>pb_gross_profit = gross, pb_expected_net_profit = net\<rparr>)))))"

section \<open>Execution mode\<close>

datatype execution_mode = Shadow | Simulate | Live

definition execution_mode_from_env :: "string \<Rightarrow> bool \<Rightarrow> execution_mode" where
  "execution_mode_from_env mode live_execution =
     (let m = map to_ascii_upper mode in
      if m = ''LIVE'' \<and> live_execution then Live
      else if m = ''SIMULATE'' then Simulate else Shadow)"

fun execution_mode_as_str :: "execution_mode \<Rightarrow> string" where
  "execution_mode_as_str Shadow = ''SHADOW''"
| "execution_mode_as_str Simulate = ''SIMULATE''"
| "execution_mode_as_str Live = ''LIVE''"

datatype execution_decision =
  RecordedShadow | ColdSimulationOnly | RequiresSignerAndSequencerSubmit

record execution_coordinator =
  ec_mode :: execution_mode

definition live_allowed :: "execution_coordinator \<Rightarrow> bool" where
  "live_allowed c \<longleftrightarrow> ec_mode c = Live"

definition coordinator_submit :: "execution_coordinator \<Rightarrow> 'o \<Rightarrow> execution_decision" where
  "coordinator_submit c opportunity =
     (case ec_mode c of Shadow \<Rightarrow> RecordedShadow
      | Simulate \<Rightarrow> ColdSimulationOnly
      | Live \<Rightarrow> RequiresSignerAndSequencerSubmit)"

definition parse_chain_id :: "string option \<Rightarrow> u64" where
  "parse_chain_id value =
     (case value of None \<Rightarrow> 42161
      | Some v \<Rightarrow> (case parse_unsigned v of None \<Rightarrow> 0 | Some n \<Rightarrow> n))"

section \<open>Facts\<close>

lemma amount_checked_add_Inr [result_simps]:
  "amount_checked_add a b = Inr c \<longleftrightarrow> unat c = unat a + unat b"
  by (simp add: amount_checked_add_def result_simps checked_simps)

lemma amount_checked_sub_Inr [result_simps]:
  "amount_checked_sub a b = Inr c \<longleftrightarrow> unat a = unat c + unat b"
  by (simp add: amount_checked_sub_def result_simps checked_simps)

lemma require_tick_Inr [result_simps]:
  "require_tick p t = Inr u \<longleftrightarrow> min_tick (ps_completeness p) \<le> t \<and> t \<le> max_tick (ps_completeness p)"
  by (auto simp: require_tick_def covers_def)

lemma address_parse_Inr:
  "address_parse s = Inr a \<longleftrightarrow>
     a = map to_ascii_lower s \<and> length a = 42 \<and> starts_with ''0x'' a \<and> list_all is_lower_hex (drop 2 a)"
  by (auto simp: address_parse_def Let_def drop_map list.pred_map list_all_iff is_ascii_hexdigit_lower)

lemma address_parse_canonical: "address_parse s = Inr a \<Longrightarrow> address_parse a = Inr a"
  by (auto simp: address_parse_Inr)

subsection \<open>The pool graph\<close>

definition route_pools :: "route \<Rightarrow> pool_id set" where
  "route_pools r = pe_pool_id ` set (rt_legs r)"

definition graph_invar :: "pool_graph \<Rightarrow> bool" where
  "graph_invar g \<longleftrightarrow>
     (\<forall>p rs. g p = Some rs \<longrightarrow>
        sorted (map rt_route_id rs) \<and> distinct (map rt_route_id rs) \<and>
        (\<forall>r \<in> set rs. p \<in> route_pools r))"

text \<open>
  What the route registry relies on: an index of routes by pool, kept in route-id order, to which
  a route is added under each of its pools unless its id is already there.
\<close>

locale route_index =
  fixes empty :: "'g"
    and add :: "'g \<Rightarrow> route \<Rightarrow> 'g"
    and lookup :: "'g \<Rightarrow> pool_id \<Rightarrow> route list"
    and invar :: "'g \<Rightarrow> bool"
  assumes invar_empty: "invar empty"
    and lookup_empty: "lookup empty p = []"
    and invar_add: "invar g \<Longrightarrow> invar (add g r)"
    and set_lookup_add: "invar g \<Longrightarrow>
      set (lookup (add g r) p) = set (lookup g p) \<union>
        {r'. r' = r \<and> p \<in> route_pools r \<and> rt_route_id r \<notin> rt_route_id ` set (lookup g p)}"
    and lookup_sorted: "invar g \<Longrightarrow> sorted (map rt_route_id (lookup g p))"
    and lookup_distinct: "invar g \<Longrightarrow> distinct (map rt_route_id (lookup g p))"
begin

definition build :: "route list \<Rightarrow> 'g" where
  "build rs = foldl add empty rs"

lemma build_snoc: "build (rs @ [r]) = add (build rs) r"
  by (simp add: build_def)

lemma invar_build: "invar (build rs)"
  by (induction rs rule: rev_induct) (auto simp: build_def invar_empty invar_add)

lemma set_lookup_build:
  assumes "distinct (map rt_route_id rs)"
  shows "set (lookup (build rs) p) = {r \<in> set rs. p \<in> route_pools r}"
  using assms
proof (induction rs rule: rev_induct)
  case Nil
  then show ?case by (simp add: build_def lookup_empty)
next
  case (snoc r rs)
  then have IH: "set (lookup (build rs) p) = {r \<in> set rs. p \<in> route_pools r}"
    and new: "rt_route_id r \<notin> rt_route_id ` set rs" by auto
  from new have "rt_route_id r \<notin> rt_route_id ` set (lookup (build rs) p)"
    unfolding IH by auto
  then show ?case
    by (auto simp: build_snoc set_lookup_add [OF invar_build] IH)
qed

lemma lookup_build:
  assumes "distinct (map rt_route_id rs)"
  shows "lookup (build rs) p = sort_key rt_route_id (filter (\<lambda>r. p \<in> route_pools r) rs)"
proof -
  let ?xs = "lookup (build rs) p" and ?ys = "sort_key rt_route_id (filter (\<lambda>r. p \<in> route_pools r) rs)"
  have set: "set ?xs = set ?ys" by (simp add: set_lookup_build [OF assms])
  have inj: "inj_on rt_route_id (set ?xs \<union> set ?ys)"
    using assms by (auto simp: set_lookup_build [OF assms] distinct_map inj_on_def)
  have "map rt_route_id ?xs = map rt_route_id ?ys"
  proof (rule sorted_distinct_set_unique)
    show "sorted (map rt_route_id ?xs)" "distinct (map rt_route_id ?xs)"
      by (rule lookup_sorted [OF invar_build], rule lookup_distinct [OF invar_build])
    show "distinct (map rt_route_id ?ys)"
      using assms by (auto simp: distinct_map inj_on_def)
  qed (use set in simp_all)
  then show ?thesis by (rule map_inj_on) (use inj in \<open>simp add: Un_commute\<close>)
qed

end

lemma affected_routes_empty [simp]: "affected_routes pool_graph_new p = []"
  by (simp add: affected_routes_def pool_graph_new_def)

lemma affected_routes_add_leg:
  "affected_routes (add_leg r g leg) p =
     (if p = pe_pool_id leg \<and> rt_route_id r \<notin> rt_route_id ` set (affected_routes g p)
      then sort_key rt_route_id (affected_routes g p @ [r]) else affected_routes g p)"
  by (auto simp: affected_routes_def add_leg_def Let_def list_ex_iff image_iff split: option.splits)

lemma graph_invar_iff:
  "graph_invar g \<longleftrightarrow>
     (\<forall>p. sorted (map rt_route_id (affected_routes g p)) \<and>
          distinct (map rt_route_id (affected_routes g p)) \<and>
          (\<forall>r \<in> set (affected_routes g p). p \<in> route_pools r))"
  by (auto simp: graph_invar_def affected_routes_def split: option.splits)

lemma graph_invar_empty: "graph_invar pool_graph_new"
  by (simp add: graph_invar_iff)

lemma graph_invar_add_leg:
  assumes "graph_invar g" and "leg \<in> set (rt_legs r)"
  shows "graph_invar (add_leg r g leg)"
  using assms by (auto simp: graph_invar_iff affected_routes_add_leg distinct_map route_pools_def)

lemma graph_invar_foldl_add_leg:
  assumes "graph_invar g" and "set legs \<subseteq> set (rt_legs r)"
  shows "graph_invar (foldl (add_leg r) g legs)"
  using assms by (induction legs arbitrary: g) (auto intro: graph_invar_add_leg)

lemma graph_invar_add_cycle: "graph_invar g \<Longrightarrow> graph_invar (add_cycle g r)"
  by (simp add: add_cycle_def graph_invar_foldl_add_leg)

lemma affected_routes_foldl_add_leg:
  "affected_routes (foldl (add_leg r) g legs) p =
     (if p \<in> pe_pool_id ` set legs \<and> rt_route_id r \<notin> rt_route_id ` set (affected_routes g p)
      then sort_key rt_route_id (affected_routes g p @ [r]) else affected_routes g p)"
  by (induction legs arbitrary: g) (auto simp: affected_routes_add_leg)

lemma affected_routes_add_cycle:
  "affected_routes (add_cycle g r) p =
     (if p \<in> route_pools r \<and> rt_route_id r \<notin> rt_route_id ` set (affected_routes g p)
      then sort_key rt_route_id (affected_routes g p @ [r]) else affected_routes g p)"
  by (simp add: add_cycle_def route_pools_def affected_routes_foldl_add_leg)

interpretation pool_graph: route_index pool_graph_new add_cycle affected_routes graph_invar
  by unfold_locales
     (auto simp: graph_invar_empty graph_invar_add_cycle affected_routes_add_cycle,
      auto simp: graph_invar_iff)

section \<open>Properties\<close>

text \<open>The pool graph is an exact index. After any sequence of \<open>add_cycle\<close> calls on routes with
  distinct ids, \<open>affected_routes\<close> on a pool returns exactly the added routes that have a leg on
  that pool, each once, in the order of their ids.\<close>

theorem affected_routes_exact:
  assumes "distinct (map rt_route_id rs)"
  shows "affected_routes (foldl add_cycle pool_graph_new rs) p =
           sort_key rt_route_id (filter (\<lambda>r. p \<in> pe_pool_id ` set (rt_legs r)) rs)"
  using pool_graph.lookup_build [OF assms, of p]
  by (simp add: pool_graph.build_def route_pools_def)

definition sample_edge :: "string \<Rightarrow> pool_edge" where
  "sample_edge p = \<lparr>pe_pool_id = p, pe_protocol = ''UniswapV3'', pe_fee = 500,
     pe_token_in = ''0xa'', pe_token_out = ''0xb'', pe_direction = ZeroForOne\<rparr>"

definition sample_route :: "string \<Rightarrow> string list \<Rightarrow> route" where
  "sample_route i ps = \<lparr>rt_route_id = i, rt_legs = map sample_edge ps\<rparr>"

theorem affected_routes_exact_witness:
  "affected_routes (foldl add_cycle pool_graph_new
       [sample_route ''r2'' [''p1'', ''p2''], sample_route ''r1'' [''p2'', ''p3'']]) ''p2'' =
     [sample_route ''r1'' [''p2'', ''p3''], sample_route ''r2'' [''p1'', ''p2'']]"
proof -
  let ?rs = "[sample_route ''r2'' [''p1'', ''p2''], sample_route ''r1'' [''p2'', ''p3'']]"
  have "distinct (map rt_route_id ?rs)" by (simp add: sample_route_def)
  note affected_routes_exact [OF this, of "''p2''"]
  also have "sort_key rt_route_id (filter (\<lambda>r. ''p2'' \<in> pe_pool_id ` set (rt_legs r)) ?rs) =
     [sample_route ''r1'' [''p2'', ''p3''], sample_route ''r2'' [''p1'', ''p2'']]" 
     by (simp add: sample_route_def sample_edge_def less_char_def)
  finally show ?thesis .
qed

text \<open>The profit model is exact and refuses every loss: \<open>evaluate\<close> succeeds precisely when the
  route output covers the principal and every cost, and then the gross and net profits are the
  exact differences, with no wrap-around in any intermediate sum.\<close>

theorem profit_evaluate_exact:
  "profit_evaluate i = Inr b \<longleftrightarrow>
     unat (pi_final_route_output i) = unat (pi_principal i) + unat (pb_gross_profit b) \<and>
     unat (pb_gross_profit b) =
       unat (pi_flash_premium i) + unat (pi_expected_execution_cost i) +
       unat (pi_expected_ordering_cost i) + unat (pi_uncertainty_reserve i) +
       unat (pb_expected_net_profit b)"
  (is "?l \<longleftrightarrow> ?r")
proof
  assume ?l
  then show ?r by (auto simp: profit_evaluate_def result_simps)
next
  assume r: ?r
  let ?g = "pb_gross_profit b"
  obtain c1 where c1:
      "unat (c1 :: amount) = unat (pi_flash_premium i) + unat (pi_expected_execution_cost i)"
    using unat_le_representable [of "unat (pi_flash_premium i) + unat (pi_expected_execution_cost i)" ?g] r
    by auto
  obtain c2 where c2: "unat (c2 :: amount) = unat c1 + unat (pi_expected_ordering_cost i)"
    using unat_le_representable [of "unat c1 + unat (pi_expected_ordering_cost i)" ?g] r c1 by auto
  obtain costs where "unat (costs :: amount) = unat c2 + unat (pi_uncertainty_reserve i)"
    using unat_le_representable [of "unat c2 + unat (pi_uncertainty_reserve i)" ?g] r c1 c2 by auto
  with r c1 c2 have
    "amount_checked_sub (pi_final_route_output i) (pi_principal i) = Inr (pb_gross_profit b)"
    "amount_checked_add (pi_flash_premium i) (pi_expected_execution_cost i) = Inr c1"
    "amount_checked_add c1 (pi_expected_ordering_cost i) = Inr c2"
    "amount_checked_add c2 (pi_uncertainty_reserve i) = Inr costs"
    "amount_checked_sub (pb_gross_profit b) costs = Inr (pb_expected_net_profit b)"
    by (simp_all add: result_simps)
  then show ?l by (simp add: profit_evaluate_def)
qed

end
