(* ===== verification/Amm_V3.thy ===== *)
theory Amm_V3
  imports Domain
begin

unbundle bit_operations_syntax

text \<open>
  The concentrated-liquidity arithmetic of \<open>phoenix-engine/src/amm/v3/mod.rs\<close>: tick to price,
  next price, token deltas, and the simulation of an exact-input swap inside the current tick
  range. All arithmetic is on words of the source's width; a division by zero is \<open>Panicked\<close>.
\<close>

section \<open>Definitions\<close>

definition FEE_DENOMINATOR :: u128 where "FEE_DENOMINATOR = 1000000"
definition BPS_DENOMINATOR :: u128 where "BPS_DENOMINATOR = 10000"
definition MIN_TICK :: i32 where "MIN_TICK = - 887272"
definition MAX_TICK :: i32 where "MAX_TICK = 887272"

record current_range_swap =
  cs_amount_in :: amount
  cs_amount_in_less_fee :: amount
  cs_fee_amount :: amount
  cs_amount_out :: amount
  cs_spot_amount_out :: amount
  cs_current_range_capacity :: amount
  cs_utilization_bps :: u16
  cs_final_sqrt_price_x96 :: u256

record swap_simulation =
  sw_amount_in :: amount
  sw_amount_out :: amount
  sw_crossed_ticks :: u32
  sw_final_tick :: tick

text \<open>\<open>U256::full_mul\<close> of the integer library: the exact 512-bit product.\<close>

definition full_mul :: "u256 \<Rightarrow> u256 \<Rightarrow> u512" where
  "full_mul a b = ucast a * ucast b"

definition u512_to_u128 :: "u512 \<Rightarrow> domain_error + u128" where
  "u512_to_u128 v = (if v > ucast (- 1 :: u128) then Inl ArithmeticOverflow else Inr (ucast v))"

definition u256_to_u128 :: "u256 \<Rightarrow> domain_error + u128" where
  "u256_to_u128 v = (if v > ucast (- 1 :: u128) then Inl ArithmeticOverflow else Inr (ucast v))"

definition u512_to_u256 :: "u512 \<Rightarrow> domain_error + u256" where
  "u512_to_u256 v = (if drop_bit 256 v \<noteq> 0 then Inl ArithmeticOverflow else Inr (ucast v))"

definition div_rounding_up :: "u512 \<Rightarrow> u512 \<Rightarrow> domain_error + u512" where
  "div_rounding_up n d =
     (if d = 0 then Inl ArithmeticUnderflow
      else ok_or ArithmeticOverflow (checked_add (n div d) (of_bool (n mod d \<noteq> 0))))"

definition amm_ratio_bps_ceil :: "u128 \<Rightarrow> u128 \<Rightarrow> domain_error + u16" where
  "amm_ratio_bps_ceil value denominator =
     and_then (ok_or ArithmeticOverflow (checked_mul (ucast value) (ucast BPS_DENOMINATOR))) (\<lambda>n.
     and_then (div_rounding_up n (ucast denominator)) (\<lambda>ratio.
     and_then (u512_to_u128 ratio) (\<lambda>r.
     ok_or ArithmeticOverflow (try_narrow r))))"

definition spot_output :: "u256 \<Rightarrow> u128 \<Rightarrow> direction \<Rightarrow> domain_error + u128" where
  "spot_output sqrt_price amount_in direction =
     (let price_square = full_mul sqrt_price sqrt_price;
          q192 = push_bit 192 (1 :: u512) in
      and_then
        (case direction of
           ZeroForOne \<Rightarrow>
             and_then (ok_or ArithmeticOverflow (checked_mul (ucast amount_in) price_square)) (\<lambda>n.
             Inr (n div q192))
         | OneForZero \<Rightarrow>
             if price_square = 0 then Inl Panicked
             else Inr (push_bit 192 (ucast amount_in) div price_square))
        u512_to_u128)"

definition amount_1_delta :: "u256 \<Rightarrow> u256 \<Rightarrow> u128 \<Rightarrow> bool \<Rightarrow> domain_error + u256" where
  "amount_1_delta sqrt_a sqrt_b liquidity round_up =
     (let (lower, upper) = (if sqrt_a \<le> sqrt_b then (sqrt_a, sqrt_b) else (sqrt_b, sqrt_a)) in
      and_then (ok_or ArithmeticOverflow (checked_mul (ucast liquidity) (ucast (upper - lower)))) (\<lambda>numerator.
      let denominator = push_bit 96 (1 :: u512) in
      and_then (if round_up then div_rounding_up numerator denominator
                else Inr (numerator div denominator))
        u512_to_u256))"

definition amount_0_delta :: "u256 \<Rightarrow> u256 \<Rightarrow> u128 \<Rightarrow> bool \<Rightarrow> domain_error + u256" where
  "amount_0_delta sqrt_a sqrt_b liquidity round_up =
     (let (lower, upper) = (if sqrt_a \<le> sqrt_b then (sqrt_a, sqrt_b) else (sqrt_b, sqrt_a)) in
      if lower = 0 then Inl ArithmeticUnderflow
      else
      and_then (ok_or ArithmeticOverflow
                 (checked_mul (push_bit 96 (ucast liquidity)) (ucast (upper - lower)))) (\<lambda>numerator.
      and_then (ok_or ArithmeticOverflow (checked_mul (ucast upper) (ucast lower))) (\<lambda>denominator.
      and_then (if round_up then div_rounding_up numerator denominator
                else Inr (numerator div denominator))
        u512_to_u256)))"

definition next_sqrt_price_from_input ::
  "u256 \<Rightarrow> u128 \<Rightarrow> u128 \<Rightarrow> direction \<Rightarrow> domain_error + u256" where
  "next_sqrt_price_from_input sqrt_price liquidity amount_in direction =
     (case direction of
        ZeroForOne \<Rightarrow>
          (let numerator_1 = push_bit 96 (ucast liquidity :: u512) in
           and_then (ok_or ArithmeticOverflow (checked_mul numerator_1 (ucast sqrt_price))) (\<lambda>numerator.
           and_then (ok_or ArithmeticOverflow (checked_mul (ucast amount_in) (ucast sqrt_price))) (\<lambda>product.
           and_then (ok_or ArithmeticOverflow (checked_add numerator_1 product)) (\<lambda>denominator.
           and_then (div_rounding_up numerator denominator) u512_to_u256))))
      | OneForZero \<Rightarrow>
          if liquidity = 0 then Inl Panicked
          else
          and_then (u512_to_u256 (push_bit 96 (ucast amount_in :: u512) div ucast liquidity)) (\<lambda>quotient.
          ok_or ArithmeticOverflow (checked_add sqrt_price quotient)))"

definition tick_ratio_factors :: "u256 list" where
  "tick_ratio_factors =
     [0xfffcb933bd6fad37aa2d162d1a594001,
      0xfff97272373d413259a46990580e213a,
      0xfff2e50f5f656932ef12357cf3c7fdcc,
      0xffe5caca7e10e4e61c3624eaa0941cd0,
      0xffcb9843d60f6159c9db58835c926644,
      0xff973b41fa98c081472e6896dfb254c0,
      0xff2ea16466c96a3843ec78b326b52861,
      0xfe5dee046a99a2a811c461f1969c3053,
      0xfcbe86c7900a88aedcffc83b479aa3a4,
      0xf987a7253ac413176f2b074cf7815e54,
      0xf3392b0822b70005940c7a398e4b70f3,
      0xe7159475a2c29b7443b29c7fa6e889d9,
      0xd097f3bdfd2022b8845ad8f792aa5825,
      0xa9f746462d870fdf8a65dc1f90e061e5,
      0x70d869a156d2a1b890bb3df62baf32f7,
      0x31be135f97d08fd981231505542fcfa6,
      0x9aa508b5b7a84e1c677de54f3e99bc9,
      0x5d6af8dedb81196699c329225ee604,
      0x2216e584f5fa1ea926041bedfe98,
      0x48a170391f7dc42444e8fa2]"

text \<open>The loop over the factors from \<open>index\<close> on.\<close>

fun tick_ratio_loop :: "u32 \<Rightarrow> nat \<Rightarrow> u256 list \<Rightarrow> u256 \<Rightarrow> domain_error + u256" where
  "tick_ratio_loop absolute index [] ratio = Inr ratio"
| "tick_ratio_loop absolute index (factor # factors) ratio =
     (if (absolute AND push_bit index 1) \<noteq> 0
      then and_then (u512_to_u256 (drop_bit 128 (full_mul ratio factor)))
             (tick_ratio_loop absolute (Suc index) factors)
      else tick_ratio_loop absolute (Suc index) factors ratio)"

definition sqrt_ratio_at_tick :: "i32 \<Rightarrow> domain_error + u256" where
  "sqrt_ratio_at_tick t =
     (if \<not> (MIN_TICK \<le> t \<and> t \<le> MAX_TICK) then Inl ArithmeticUnderflow
      else
      let absolute = (word_of_int \<bar>t\<bar> :: u32);
          ratio = (if (absolute AND 1) \<noteq> 0 then tick_ratio_factors ! 0 else push_bit 128 1) in
      and_then (tick_ratio_loop absolute 1 (drop 1 tick_ratio_factors) ratio) (\<lambda>ratio.
      and_then (if 0 < t then (if ratio = 0 then Inl Panicked else Inr (- 1 div ratio))
                else Inr ratio) (\<lambda>ratio.
      let remainder_mask = push_bit 32 (1 :: u256) - 1 in
      and_then (ok_or ArithmeticOverflow
        (checked_add (drop_bit 32 ratio) (of_bool ((ratio AND remainder_mask) \<noteq> 0)))) (\<lambda>rounded.
      if rounded = 0 \<or> drop_bit 160 rounded \<noteq> 0 then Inl ArithmeticOverflow
      else Inr rounded))))"

definition current_range_target_tick :: "i32 \<Rightarrow> i32 \<Rightarrow> direction \<Rightarrow> domain_error + i32" where
  "current_range_target_tick t tick_spacing direction =
     (if \<not> (MIN_TICK \<le> t \<and> t \<le> MAX_TICK) \<or> tick_spacing \<le> 0 then Inl ArithmeticUnderflow
      else
      and_then (if t < 0 \<and> t smod tick_spacing \<noteq> 0
                then ok_or ArithmeticUnderflow (checked_signed 32 (t sdiv tick_spacing - 1))
                else Inr (t sdiv tick_spacing)) (\<lambda>compressed.
      and_then (ok_or ArithmeticOverflow (checked_signed 32 (compressed * tick_spacing))) (\<lambda>lower.
      and_then (case direction of
                  ZeroForOne \<Rightarrow> Inr lower
                | OneForZero \<Rightarrow> ok_or ArithmeticOverflow (checked_signed 32 (lower + tick_spacing))) (\<lambda>target.
      if \<not> (MIN_TICK \<le> target \<and> target \<le> MAX_TICK) then Inl StateIncomplete
      else Inr target))))"

definition quote_spot_exact_input :: "pool_state \<Rightarrow> amount \<Rightarrow> direction \<Rightarrow> domain_error + amount" where
  "quote_spot_exact_input pool amount_in direction =
     spot_output (ps_sqrt_price_x96 pool) amount_in direction"

definition current_range_input_capacity ::
  "pool_state \<Rightarrow> direction \<Rightarrow> i32 \<Rightarrow> domain_error + amount" where
  "current_range_input_capacity pool direction tick_spacing =
     and_then (current_range_target_tick (ps_tick pool) tick_spacing direction) (\<lambda>target_tick.
     and_then (sqrt_ratio_at_tick target_tick) (\<lambda>target_sqrt.
     let current_sqrt = ps_sqrt_price_x96 pool in
     and_then (if direction = ZeroForOne \<and> target_sqrt < current_sqrt
               then amount_0_delta target_sqrt current_sqrt (ps_liquidity pool) True
               else if direction = OneForZero \<and> current_sqrt < target_sqrt
               then amount_1_delta current_sqrt target_sqrt (ps_liquidity pool) True
               else Inl StateIncomplete) u256_to_u128))"

definition amount_less_fee :: "amount \<Rightarrow> u32 \<Rightarrow> domain_error + amount" where
  "amount_less_fee a fee =
     and_then (ok_or ArithmeticUnderflow (checked_sub FEE_DENOMINATOR (ucast fee))) (\<lambda>fee_multiplier.
     and_then (ok_or ArithmeticOverflow (checked_mul a fee_multiplier)) (\<lambda>value.
     Inr (value div FEE_DENOMINATOR)))"

definition simulate_current_range_exact_input ::
  "pool_state \<Rightarrow> amount \<Rightarrow> direction \<Rightarrow> i32 \<Rightarrow> domain_error + current_range_swap" where
  "simulate_current_range_exact_input pool amount_in direction tick_spacing =
     (if amount_in = 0 \<or> ps_liquidity pool = 0 \<or> ps_sqrt_price_x96 pool = 0 \<or>
         \<not> (1 \<le> tick_spacing \<and> tick_spacing \<le> MAX_TICK) then Inl ArithmeticUnderflow
      else
      and_then (amount_less_fee amount_in (ps_fee pool)) (\<lambda>amount_in_less_fee.
      if amount_in_less_fee = 0 then Inl ArithmeticUnderflow
      else
      and_then (current_range_target_tick (ps_tick pool) tick_spacing direction) (\<lambda>target_tick.
      and_then (sqrt_ratio_at_tick target_tick) (\<lambda>target_sqrt.
      let current_sqrt = ps_sqrt_price_x96 pool in
      and_then (current_range_input_capacity pool direction tick_spacing) (\<lambda>capacity.
      if capacity = 0 \<or> capacity \<le> amount_in_less_fee then Inl StateIncomplete
      else
      and_then (next_sqrt_price_from_input current_sqrt (ps_liquidity pool)
                  amount_in_less_fee direction) (\<lambda>final_sqrt.
      if direction = ZeroForOne \<and> final_sqrt \<le> target_sqrt \<or>
         direction = OneForZero \<and> target_sqrt \<le> final_sqrt then Inl StateIncomplete
      else
      and_then (case direction of
                  ZeroForOne \<Rightarrow> amount_1_delta final_sqrt current_sqrt (ps_liquidity pool) False
                | OneForZero \<Rightarrow> amount_0_delta current_sqrt final_sqrt (ps_liquidity pool) False) (\<lambda>delta.
      and_then (u256_to_u128 delta) (\<lambda>amount_out.
      and_then (quote_spot_exact_input pool amount_in_less_fee direction) (\<lambda>spot_amount_out.
      if amount_out = 0 \<or> spot_amount_out < amount_out then Inl ArithmeticUnderflow
      else
      and_then (amm_ratio_bps_ceil amount_in_less_fee capacity) (\<lambda>utilization_bps.
      and_then (ok_or ArithmeticUnderflow (checked_sub amount_in amount_in_less_fee)) (\<lambda>fee_amount.
      Inr \<lparr>cs_amount_in = amount_in,
           cs_amount_in_less_fee = amount_in_less_fee,
           cs_fee_amount = fee_amount,
           cs_amount_out = amount_out,
           cs_spot_amount_out = spot_amount_out,
           cs_current_range_capacity = capacity,
           cs_utilization_bps = utilization_bps,
           cs_final_sqrt_price_x96 = final_sqrt\<rparr>)))))))))))"

definition simulate_exact_input ::
  "pool_state \<Rightarrow> amount \<Rightarrow> direction \<Rightarrow> u32 \<Rightarrow> domain_error + swap_simulation" where
  "simulate_exact_input pool amount_in direction max_tick_crossings =
     (if amount_in = 0
      then Inr \<lparr>sw_amount_in = amount_in, sw_amount_out = 0, sw_crossed_ticks = 0,
                sw_final_tick = ps_tick pool\<rparr>
      else
      let fee_denominator = (1000000 :: u128); fee = ucast (ps_fee pool) in
      and_then (ok_or ArithmeticOverflow
        (checked_mul (ucast amount_in :: u256) (ucast (saturating_sub fee_denominator fee)))) (\<lambda>product.
      let after_fee = product div ucast fee_denominator in
      if after_fee > ucast (- 1 :: u128) then Inl ArithmeticOverflow
      else
      let after_fee = (ucast after_fee :: u128);
          ratio = amount_in div max (ps_liquidity pool) 1;
          crossed = min (case try_narrow ratio of None \<Rightarrow> - 1 | Some c \<Rightarrow> c)
                        (saturating_add max_tick_crossings 1) in
      if crossed > max_tick_crossings then Inl StateIncomplete
      else
      let tick_delta = sint (crossed :: u32) in
      and_then (case direction of
          ZeroForOne \<Rightarrow> ok_or ArithmeticUnderflow (checked_signed 32 (ps_tick pool - tick_delta))
        | OneForZero \<Rightarrow> ok_or ArithmeticOverflow (checked_signed 32 (ps_tick pool + tick_delta))) (\<lambda>final_tick.
      and_then (require_tick pool final_tick) (\<lambda>_.
      if ps_sqrt_price_x96 pool = 0 then Inl ArithmeticUnderflow
      else
      let price_square = full_mul (ps_sqrt_price_x96 pool) (ps_sqrt_price_x96 pool);
          q192 = push_bit 192 (1 :: u512) in
      and_then (case direction of
          ZeroForOne \<Rightarrow>
            and_then (ok_or ArithmeticOverflow (checked_mul (ucast after_fee) price_square)) (\<lambda>n.
            Inr (n, q192))
        | OneForZero \<Rightarrow> Inr (push_bit 192 (ucast after_fee), price_square)) (\<lambda>(numerator, denominator).
      if denominator = 0 then Inl Panicked
      else
      let out = numerator div denominator in
      if out > ucast (- 1 :: u128) then Inl ArithmeticOverflow
      else Inr \<lparr>sw_amount_in = amount_in, sw_amount_out = ucast out,
                sw_crossed_ticks = crossed, sw_final_tick = final_tick\<rparr>)))))"

section \<open>Readings of the arithmetic helpers\<close>

lemma unat_full_mul [simp]: "unat (full_mul a b) = unat a * unat b"
proof -
  have "unat a * unat b < 2 ^ 256 * 2 ^ 256"
    by (rule mult_strict_mono') (use unat_less_exp [of a] unat_less_exp [of b] in simp_all)
  then show ?thesis by (simp add: full_mul_def unat_mult_exact)
qed

lemma u512_to_u256_Inr [result_simps]: "u512_to_u256 v = Inr r \<longleftrightarrow> unat r = unat v"
proof -
  have "u512_to_u256 v = ok_or ArithmeticOverflow (try_narrow v)"
    by (simp add: u512_to_u256_def try_narrow_def unat_drop_bit div_eq_0_iff flip: unat_0_iff)
  then show ?thesis by (simp add: result_simps checked_simps)
qed

lemma u512_to_u128_Inr [result_simps]: "u512_to_u128 v = Inr r \<longleftrightarrow> unat r = unat v"
proof -
  have "u512_to_u128 v = ok_or ArithmeticOverflow (try_narrow v)"
    by (auto simp: u512_to_u128_def try_narrow_def word_less_nat_alt)
  then show ?thesis by (simp add: result_simps checked_simps)
qed

lemma u256_to_u128_Inr [result_simps]: "u256_to_u128 v = Inr r \<longleftrightarrow> unat r = unat v"
proof -
  have "u256_to_u128 v = ok_or ArithmeticOverflow (try_narrow v)"
    by (auto simp: u256_to_u128_def try_narrow_def word_less_nat_alt)
  then show ?thesis by (simp add: result_simps checked_simps)
qed

lemma div_rounding_up_Inr [result_simps]:
  "div_rounding_up n d = Inr q \<longleftrightarrow> d \<noteq> 0 \<and> unat q = cdiv (unat n) (unat d)"
  by (auto simp: div_rounding_up_def cdiv_def result_simps checked_simps unat_div unat_mod
      simp flip: unat_0_iff)

lemma unat_liquidity_q96 [simp]: "unat (push_bit 96 (ucast (l :: u128)) :: u512) = unat l * 2 ^ 96"
  using unat_less_exp [of l] by (simp add: unat_push_bit_exact)

lemma unat_amount_q192 [simp]: "unat (push_bit 192 (ucast (l :: u128)) :: u512) = unat l * 2 ^ 192"
  using unat_less_exp [of l] by (simp add: unat_push_bit_exact)

lemma unat_q96 [simp]: "unat (push_bit 96 1 :: u512) = 2 ^ 96"
  by (simp add: unat_push_bit_exact)

lemma unat_q192 [simp]: "unat (push_bit 192 1 :: u512) = 2 ^ 192"
  by (simp add: unat_push_bit_exact)

lemma unat_u128_bound: "unat (l :: u128) < 2 ^ 128"
  using unat_less_exp [of l] by simp

lemma unat_u256_bound: "unat (p :: u256) < 2 ^ 256"
  using unat_less_exp [of p] by simp

lemma ex_unat_up [intro]: "unat (r :: u256) = n \<Longrightarrow> \<exists>a :: u512. unat a = n \<and> n = unat a"
  by (rule exI [of _ "ucast r"]) simp

lemmas word_bounds = unat_u128_bound unat_u256_bound

lemma u512_product:
  assumes "unat a < 2 ^ m" "unat b < 2 ^ n" "m + n \<le> 512"
  shows "checked_mul a b = Some (a * b)" "unat (a * b :: u512) = unat a * unat b"
  using unat_mult_bound [OF assms(3,1,2)] by (simp_all add: checked_mul_exact unat_mult_exact)

lemma shifted_bound: "unat (l :: u128) * 2 ^ 96 < 2 ^ 224"
  using unat_mult_bound [of 128 96 224 "unat l" "2 ^ 96"] unat_u128_bound [of l] by simp

text \<open>Rounding mode of the deltas: up when the caller pays, down when the pool pays.\<close>

definition rounded_div :: "bool \<Rightarrow> nat \<Rightarrow> nat \<Rightarrow> nat" where
  "rounded_div round_up a b = (if round_up then cdiv a b else a div b)"

lemma amount_1_delta_Inr:
  assumes "a \<le> b"
  shows "amount_1_delta a b l up = Inr d \<longleftrightarrow>
           unat d = rounded_div up (unat l * (unat b - unat a)) (2 ^ 96)"
proof -
  have le: "unat a \<le> unat b" using assms by (simp add: word_le_nat_alt)
  have sub: "unat (b - a) = unat b - unat a" using assms by (simp add: unat_sub)
  have bd: "unat b - unat a < 2 ^ 256" using unat_u256_bound [of b] by linarith
  note prod = u512_product [of "ucast l" 128 "ucast (b - a)" 256]
  have "checked_mul (ucast l) (ucast (b - a)) = Some (ucast l * ucast (b - a) :: u512)"
       "unat (ucast l * ucast (b - a) :: u512) = unat l * (unat b - unat a)"
    using prod word_bounds bd by (simp_all add: sub)
  moreover have "push_bit 96 1 \<noteq> (0 :: u512)" by (simp flip: unat_0_iff)
  ultimately show ?thesis
    using assms
    by (cases up) (auto simp: amount_1_delta_def rounded_div_def result_simps unat_div)
qed

lemma amount_0_delta_Inr:
  assumes "a \<le> b"
  shows "amount_0_delta a b l up = Inr d \<longleftrightarrow>
           a \<noteq> 0 \<and> unat d = rounded_div up (unat l * 2 ^ 96 * (unat b - unat a)) (unat b * unat a)"
proof -
  have sub: "unat (b - a) = unat b - unat a" using assms by (simp add: unat_sub)
  have bd: "unat b - unat a < 2 ^ 256" using unat_u256_bound [of b] by linarith
  have n: "checked_mul (push_bit 96 (ucast l)) (ucast (b - a)) = Some (push_bit 96 (ucast l) * ucast (b - a) :: u512)"
       "unat (push_bit 96 (ucast l) * ucast (b - a) :: u512) = unat l * 2 ^ 96 * (unat b - unat a)"
    using u512_product [of "push_bit 96 (ucast l)" 224 "ucast (b - a)" 256] word_bounds shifted_bound [of l] bd
    by (simp_all add: sub)
  have d: "checked_mul (ucast b) (ucast a) = Some (ucast b * ucast a :: u512)"
       "unat (ucast b * ucast a :: u512) = unat b * unat a"
    using u512_product [of "ucast b" 256 "ucast a" 256] word_bounds by simp_all
  have nz: "a \<noteq> 0 \<Longrightarrow> ucast b * ucast a \<noteq> (0 :: u512)"
    using assms d(2) by (auto simp: word_le_nat_alt simp flip: unat_0_iff)
  show ?thesis
    using assms nz
    by (cases up) (auto simp: amount_0_delta_def rounded_div_def result_simps unat_div n d)
qed

lemma next_sqrt_zero_for_one_Inr:
  "next_sqrt_price_from_input p l x ZeroForOne = Inr q \<longleftrightarrow>
     unat l * 2 ^ 96 + unat x * unat p \<noteq> 0 \<and>
     unat q = cdiv (unat l * 2 ^ 96 * unat p) (unat l * 2 ^ 96 + unat x * unat p)"
proof -
  have n: "checked_mul (push_bit 96 (ucast l)) (ucast p) = Some (push_bit 96 (ucast l) * ucast p :: u512)"
       "unat (push_bit 96 (ucast l) * ucast p :: u512) = unat l * 2 ^ 96 * unat p"
    using u512_product [of "push_bit 96 (ucast l)" 224 "ucast p" 256] word_bounds shifted_bound [of l] by simp_all
  have x: "checked_mul (ucast x) (ucast p) = Some (ucast x * ucast p :: u512)"
       "unat (ucast x * ucast p :: u512) = unat x * unat p"
    using u512_product [of "ucast x" 128 "ucast p" 256] word_bounds by simp_all
  have "unat x * unat p < 2 ^ 384"
    using unat_mult_bound [of 128 256 384 "unat x" "unat p"] word_bounds by simp
  with shifted_bound [of l] have s: "unat l * 2 ^ 96 + unat x * unat p < 2 ^ 512" by simp
  then obtain d :: u512 where d: "checked_add (push_bit 96 (ucast l)) (ucast x * ucast p) = Some d"
       "unat d = unat l * 2 ^ 96 + unat x * unat p"
    by (auto simp: checked_add_def x unat_word_ariths)
  show ?thesis
    by (auto simp: next_sqrt_price_from_input_def n x d result_simps simp flip: unat_0_iff)
qed

lemma next_sqrt_one_for_zero_Inr:
  "next_sqrt_price_from_input p l x OneForZero = Inr q \<longleftrightarrow>
     l \<noteq> 0 \<and> unat q = unat p + unat x * 2 ^ 96 div unat l"
proof
  assume r: "l \<noteq> 0 \<and> unat q = unat p + unat x * 2 ^ 96 div unat l"
  then obtain d :: u256 where "unat d = unat x * 2 ^ 96 div unat l"
    using unat_le_representable [of "unat x * 2 ^ 96 div unat l" q] by auto
  with r have "u512_to_u256 (push_bit 96 (ucast x) div ucast l) = Inr d" "checked_add p d = Some q"
    by (simp_all add: result_simps checked_simps unat_div)
  with r show "next_sqrt_price_from_input p l x OneForZero = Inr q"
    by (simp add: next_sqrt_price_from_input_def)
qed (auto simp: next_sqrt_price_from_input_def result_simps checked_simps unat_div split: if_splits)

lemma spot_output_zero_for_one_Inr:
  "spot_output p x ZeroForOne = Inr out \<longleftrightarrow>
     unat x * (unat p * unat p) < 2 ^ 512 \<and> unat out = unat x * (unat p * unat p) div 2 ^ 192"
  by (auto simp: spot_output_def Let_def result_simps checked_mul_def unat_div unat_mult_exact)

lemma spot_output_one_for_zero_Inr:
  "spot_output p x OneForZero = Inr out \<longleftrightarrow>
     p \<noteq> 0 \<and> unat out = unat x * 2 ^ 192 div (unat p * unat p)"
  by (auto simp: spot_output_def Let_def result_simps unat_div simp flip: unat_0_iff)

lemma amm_ratio_bps_ceil_Inr:
  "amm_ratio_bps_ceil v d = Inr r \<longleftrightarrow> d \<noteq> 0 \<and> unat r = cdiv (unat v * 10000) (unat d)"
proof -
  have m: "checked_mul (ucast v) (ucast BPS_DENOMINATOR) = Some (ucast v * ucast BPS_DENOMINATOR :: u512)"
       "unat (ucast v * ucast BPS_DENOMINATOR :: u512) = unat v * 10000"
    using u512_product [of "ucast v" 128 "ucast BPS_DENOMINATOR" 14] word_bounds
    by (simp_all add: BPS_DENOMINATOR_def)
  show ?thesis
  proof
    assume r: "d \<noteq> 0 \<and> unat r = cdiv (unat v * 10000) (unat d)"
    then have "div_rounding_up (ucast v * ucast BPS_DENOMINATOR) (ucast d) = Inr (ucast r)"
      by (simp add: div_rounding_up_Inr m flip: unat_0_iff)
    moreover have "u512_to_u128 (ucast r) = Inr (ucast r)" by (simp add: result_simps)
    moreover have "try_narrow (ucast r :: u128) = Some r" by (simp add: checked_simps)
    ultimately show "amm_ratio_bps_ceil v d = Inr r" by (simp add: amm_ratio_bps_ceil_def m)
  qed (auto simp: amm_ratio_bps_ceil_def m result_simps checked_simps simp flip: unat_0_iff)
qed

lemma amount_less_fee_Inr:
  "amount_less_fee a fee = Inr r \<longleftrightarrow>
     unat fee \<le> 1000000 \<and> unat a * (1000000 - unat fee) < 2 ^ 128 \<and>
     unat r = unat a * (1000000 - unat fee) div 1000000"
proof -
  have "checked_sub FEE_DENOMINATOR (ucast fee) =
      (if unat fee \<le> 1000000 then Some (FEE_DENOMINATOR - ucast fee) else None)"
    by (simp add: checked_sub_def word_le_nat_alt FEE_DENOMINATOR_def)
  moreover have "unat fee \<le> 1000000 \<Longrightarrow> unat (FEE_DENOMINATOR - ucast fee) = 1000000 - unat fee"
    by (simp add: unat_sub word_le_nat_alt FEE_DENOMINATOR_def)
  ultimately show ?thesis
    by (cases "unat fee \<le> 1000000"; cases "unat a * (1000000 - unat fee) < 2 ^ 128")
       (auto simp: amount_less_fee_def checked_mul_def unat_div unat_mult_exact word_unat_eq_iff,
        simp_all add: FEE_DENOMINATOR_def)
qed

section \<open>Ticks and prices\<close>

lemma floor_div_of_trunc:
  assumes "0 < (s :: int)"
  shows "(if t < 0 \<and> t smod s \<noteq> 0 then t sdiv s - 1 else t sdiv s) = t div s"
proof (cases "t < 0")
  case False
  with assms show ?thesis by (cases "t = 0") (simp_all add: signed_divide_int_def)
next
  case True
  then obtain m where t: "t = - m" and m: "0 < m" by (metis neg_0_less_iff_less minus_minus)
  have d: "t sdiv s = - (m div s)" using m assms by (simp add: t signed_divide_int_def)
  have "t smod s = - (m mod s)" using m assms by (simp add: t signed_modulo_int_def)
  with True d show ?thesis
    using zdiv_zminus1_eq_if [of s m] assms by (simp add: t)
qed

lemma target_tick_floor:
  assumes "MIN_TICK \<le> t" "t \<le> MAX_TICK" "1 \<le> s" "s \<le> MAX_TICK"
  defines "target d \<equiv> (case d of ZeroForOne \<Rightarrow> s * (t div s) | OneForZero \<Rightarrow> s * (t div s) + s)"
  shows "current_range_target_tick t s d =
           (if MIN_TICK \<le> target d \<and> target d \<le> MAX_TICK then Inr (target d) else Inl StateIncomplete)"
proof -
  have s: "0 < s" using assms by simp
  let ?q = "t div s"
  have "s * ?q + t mod s = t" "0 \<le> t mod s" "t mod s < s" using s by simp_all
  then have q: "s * ?q \<le> t" "t < s * ?q + s" by linarith+
  have lo: "- 887272 \<le> ?q"
  proof (rule ccontr)
    assume "\<not> - 887272 \<le> ?q"
    then have "s * ?q \<le> s * (- 887273)" using s by (intro mult_left_mono) simp_all
    with q(2) assms(1,3) show False by (simp add: MIN_TICK_def)
  qed
  have hi: "?q \<le> 887272"
  proof (rule ccontr)
    assume "\<not> ?q \<le> 887272"
    then have "s * 887273 \<le> s * ?q" using s by (intro mult_left_mono) simp_all
    with q(1) assms(2,3) show False by (simp add: MAX_TICK_def)
  qed
  have c: "(if t < 0 \<and> t smod s \<noteq> 0 then ok_or ArithmeticUnderflow (checked_signed 32 (t sdiv s - 1))
            else Inr (t sdiv s)) = Inr ?q"
    using floor_div_of_trunc [OF s, of t] lo hi
    by (auto simp: checked_signed_def fits_signed_def split: if_splits)
  have m: "checked_signed 32 (?q * s) = Some (s * ?q)" "checked_signed 32 (s * ?q + s) = Some (s * ?q + s)"
    using q assms(1-4) by (simp_all add: checked_signed_def fits_signed_def MIN_TICK_def MAX_TICK_def ac_simps)
  show ?thesis
    using assms(1-3) by (cases d) (simp_all add: current_range_target_tick_def c m target_def)
qed

end
