(* ===== verification/Amm_Chain.thy ===== *)
theory Amm_Chain
  imports Amm_V3
begin

unbundle bit_operations_syntax

text \<open>
  Totality and range of \<open>sqrt_ratio_at_tick\<close>. The loop over the twenty tick factors is read as a
  chain of rounded products selected by the bits of the tick; the chain is antitone in the set of
  bits, so its least value over all valid ticks is attained at one of the eleven numbers that
  dominate \<open>887272\<close> bitwise, where it is evaluated.
\<close>

section \<open>The tick ratio as a chain of rounded products\<close>

text \<open>Bit \<open>i\<close> of \<open>n\<close> selects the factor at position \<open>i\<close>.\<close>

fun tick_chain :: "nat \<Rightarrow> nat list \<Rightarrow> nat \<Rightarrow> nat" where
  "tick_chain n [] r = r"
| "tick_chain n (f # fs) r = tick_chain (n div 2) fs (if odd n then r * f div 2 ^ 128 else r)"

lemma bit_of_mask: "(absolute AND push_bit index (1 :: u32)) \<noteq> 0 \<longleftrightarrow> odd (unat absolute div 2 ^ index)"
proof -
  have "bit absolute index \<longleftrightarrow> bit (unat absolute) index" by (simp add: bit_unsigned_iff)
  also have "\<dots> \<longleftrightarrow> odd (unat absolute div 2 ^ index)" by (rule bit_iff_odd)
  finally show ?thesis by (simp add: and_exp_eq_0_iff_not_bit push_bit_eq_mult)
qed

lemma tick_ratio_loop_chain:
  assumes "\<forall>f \<in> set fs. unat f \<le> 2 ^ 128"
  shows "\<exists>r'. tick_ratio_loop a i fs r = Inr r' \<and>
           unat r' = tick_chain (unat a div 2 ^ i) (map unat fs) (unat r)"
  using assms
proof (induction fs arbitrary: i r)
  case (Cons f fs)
  have "unat r * unat f \<le> unat r * 2 ^ 128" using Cons.prems by simp
  then have "unat r * unat f div 2 ^ 128 \<le> unat r"
    by (metis div_le_mono nonzero_mult_div_cancel_right power_not_zero zero_neq_numeral)
  then obtain q :: u256 where q: "unat q = unat r * unat f div 2 ^ 128"
    using unat_le_representable by blast
  then have step: "u512_to_u256 (drop_bit 128 (full_mul r f)) = Inr q"
    by (simp add: result_simps unat_drop_bit)
  have IH: "\<exists>r'. tick_ratio_loop a (Suc i) fs r0 = Inr r' \<and>
      unat r' = tick_chain (unat a div 2 ^ i div 2) (map unat fs) (unat r0)" for r0
    using Cons.IH [of "Suc i" r0] Cons.prems by (simp add: div_mult2_eq [symmetric] mult.commute)
  show ?case
    using step IH [of q] IH [of r] q
    by (cases "odd (unat a div 2 ^ i)") (simp_all only: tick_ratio_loop.simps tick_chain.simps bit_of_mask
        list.map not_False_eq_True if_True if_False and_then_simps)
qed simp

lemma tick_chain_mono:
  assumes "\<forall>i. bit n i \<longrightarrow> bit x i" "r \<le> r'" "\<forall>f \<in> set fs. f \<le> 2 ^ 128"
  shows "tick_chain x fs r \<le> tick_chain n fs r'"
  using assms
proof (induction fs arbitrary: n x r r')
  case (Cons f fs)
  have "r * f \<le> r' * 2 ^ 128" "r * f \<le> r' * f" using Cons.prems by (auto intro: mult_le_mono)
  then have "r * f div 2 ^ 128 \<le> r'" "r * f div 2 ^ 128 \<le> r' * f div 2 ^ 128"
    by (auto intro: div_le_mono dest: div_le_mono [of _ _ "2 ^ 128"])
  moreover have "odd n \<longrightarrow> odd x" "\<forall>i. bit (n div 2) i \<longrightarrow> bit (x div 2) i"
    using Cons.prems(1) by (metis bit_0, metis bit_Suc)
  ultimately show ?case
    using Cons.prems by (auto intro!: Cons.IH)
qed simp

text \<open>
  Every number up to \<open>c\<close> has its bits among those of one of the few candidates \<open>bit_tops c\<close>, the
  numbers obtained from \<open>c\<close> by clearing one set bit and setting all bits below it.
\<close>

fun bit_tops :: "nat \<Rightarrow> nat list" where
  "bit_tops c =
     (if c = 0 then [0]
      else if odd c then map (\<lambda>x. 2 * x + 1) (bit_tops (c div 2))
      else c # map (\<lambda>x. 2 * x + 1) (bit_tops (c div 2 - 1)))"

declare bit_tops.simps [simp del]

lemma bit_tops_covers:
  "n \<le> c \<Longrightarrow> \<exists>x \<in> set (bit_tops c). \<forall>i. bit n i \<longrightarrow> bit x i"
proof (induction c arbitrary: n rule: bit_tops.induct)
  case (1 c)
  have lift: "\<exists>y \<in> (\<lambda>x. 2 * x + 1) ` set (bit_tops k). \<forall>i. bit n i \<longrightarrow> bit y i"
    if ex: "\<exists>x \<in> set (bit_tops k). \<forall>i. bit (n div 2) i \<longrightarrow> bit x i" for k
  proof -
    from ex obtain x where x: "x \<in> set (bit_tops k)" "\<forall>i. bit (n div 2) i \<longrightarrow> bit x i" by blast
    have "bit n i \<longrightarrow> bit (2 * x + 1) i" for i
      using x(2) by (cases i) (auto simp: bit_Suc bit_0)
    with x(1) show ?thesis by auto
  qed
  consider "c = 0" | "odd c" | "c \<noteq> 0" "even c" "n = c" | "c \<noteq> 0" "even c" "n < c"
    using "1.prems" by fastforce
  then show ?case
  proof cases
    case 2
    then show ?thesis using lift 1 by (subst bit_tops.simps) (auto simp: div_le_mono)
  next
    case 4
    then have "n div 2 \<le> c div 2 - 1" by (elim evenE) auto
    then have "\<exists>x \<in> set (bit_tops (c div 2 - 1)). \<forall>i. bit (n div 2) i \<longrightarrow> bit x i"
      using 4 "1.IH"(2) by blast
    then show ?thesis using 4 lift [of "c div 2 - 1"] by (subst bit_tops.simps) auto
  qed (use 1 in \<open>(subst bit_tops.simps, auto)+\<close>)
qed

definition tick_factors :: "nat list" where
  "tick_factors = map unat tick_ratio_factors"

definition chain_at :: "nat \<Rightarrow> nat" where
  "chain_at n = tick_chain n tick_factors (2 ^ 128)"

lemma tick_factors_le: "\<forall>f \<in> set tick_factors. f \<le> 2 ^ 128"
  by (simp add: tick_factors_def tick_ratio_factors_def)

lemma chain_at_mono: "\<forall>i. bit n i \<longrightarrow> bit x i \<Longrightarrow> chain_at x \<le> chain_at n"
  unfolding chain_at_def using tick_chain_mono tick_factors_le by blast

lemma chain_at_0: "chain_at 0 = 2 ^ 128"
  by (simp add: chain_at_def tick_factors_def tick_ratio_factors_def)

lemma chain_at_upper: "chain_at n \<le> 2 ^ 128"
  using chain_at_mono [of 0 n] by (simp add: chain_at_0)

lemma bit_tops_max:
  "bit_tops 887272 = [887272, 887271, 887263, 887231, 887167, 887039, 886783, 884735, 851967, 786431, 524287]"
  by (simp add: bit_tops.simps)

lemma tick_factors_eval: "tick_factors =
     [0xfffcb933bd6fad37aa2d162d1a594001,
      0xfff97272373d413259a46990580e213a,
      0xfff2e50f5f656932ef12357cf3c7fdcc,
      0xffe5caca7e10e4e61c3624eaa0941cd0,
      0xffcb9843d60f6159c9db58835c926644,
      0xff973b41fa98c081472e6896dfb254c0,
      0xff2ea16466c96a3843ec78b326b52861,
      0xfe5dee046a99a2a811c461f1969c3053,
      0xfcbe86c7900a88aedcffc83b479aa3a4,
      0xf987a7253ac413176f2b074cf7815e54,
      0xf3392b0822b70005940c7a398e4b70f3,
      0xe7159475a2c29b7443b29c7fa6e889d9,
      0xd097f3bdfd2022b8845ad8f792aa5825,
      0xa9f746462d870fdf8a65dc1f90e061e5,
      0x70d869a156d2a1b890bb3df62baf32f7,
      0x31be135f97d08fd981231505542fcfa6,
      0x9aa508b5b7a84e1c677de54f3e99bc9,
      0x5d6af8dedb81196699c329225ee604,
      0x2216e584f5fa1ea926041bedfe98,
      0x48a170391f7dc42444e8fa2]"
  by (simp add: tick_factors_def tick_ratio_factors_def)

lemma chain_at_887272: "chain_at 887272 = 18447437462383981825"
  by (simp add: chain_at_def tick_factors_eval)

lemma chain_at_887271: "chain_at 887271 = 18448359811198957089"
  by (simp add: chain_at_def tick_factors_eval)

lemma chain_at_887263: "chain_at 887263 = 18455740262098820628"
  by (simp add: chain_at_def tick_factors_eval)

lemma chain_at_887231: "chain_at 887231 = 18485291603745067557"
  by (simp add: chain_at_def tick_factors_eval)

lemma chain_at_887167: "chain_at 887167 = 18544536315676963054"
  by (simp add: chain_at_def tick_factors_eval)

lemma chain_at_887039: "chain_at 887039 = 18663595979768671374"
  by (simp add: chain_at_def tick_factors_eval)

lemma chain_at_886783: "chain_at 886783 = 18904013376654490350"
  by (simp add: chain_at_def tick_factors_eval)

lemma chain_at_884735: "chain_at 884735 = 20942260016860680455"
  by (simp add: chain_at_def tick_factors_eval)

lemma chain_at_851967: "chain_at 851967 = 107779471964544806931"
  by (simp add: chain_at_def tick_factors_eval)

lemma chain_at_786431: "chain_at 786431 = 2854703843737195601753"
  by (simp add: chain_at_def tick_factors_eval)

lemma chain_at_524287: "chain_at 524287 = 1404950724947776134837143967"
  by (simp add: chain_at_def tick_factors_eval)

lemma chain_at_tops: "\<forall>x \<in> set (bit_tops 887272). 18447437462383981825 \<le> chain_at x"
  by (simp add: bit_tops_max chain_at_887272 chain_at_887271 chain_at_887263 chain_at_887231 chain_at_887167 chain_at_887039 chain_at_886783 chain_at_884735 chain_at_851967 chain_at_786431 chain_at_524287)

end
