(* ===== verification/Amm_Ticks.thy ===== *)
theory Amm_Ticks
  imports Amm_Chain
begin

unbundle bit_operations_syntax

text \<open>
  Totality and range of \<open>sqrt_ratio_at_tick\<close>, from the least value of the factor chain.
\<close>

section \<open>Bounds of the square-root price\<close>

lemma chain_at_lower: "n \<le> 887272 \<Longrightarrow> 18447437462383981825 \<le> chain_at n"
proof -
  assume "n \<le> 887272"
  then obtain x where "x \<in> set (bit_tops 887272)" "\<forall>i. bit n i \<longrightarrow> bit x i"
    using bit_tops_covers by blast
  then show ?thesis using chain_at_tops chain_at_mono order_trans by blast
qed

lemma tick_ratio_loop_at:
  assumes "n \<le> 887272"
  shows "\<exists>r. tick_ratio_loop (of_nat n) 1 (drop 1 tick_ratio_factors)
                (if (of_nat n AND (1 :: u32)) \<noteq> 0 then tick_ratio_factors ! 0 else push_bit 128 1) = Inr r
             \<and> unat r = chain_at n"
proof -
  have n: "unat (of_nat n :: u32) = n"
    using assms by (simp add: unsigned_of_nat take_bit_nat_eq_self)
  have b: "(of_nat n AND (1 :: u32)) \<noteq> 0 \<longleftrightarrow> odd n"
    using bit_of_mask [of "of_nat n" 0] by (simp add: n)
  obtain f fs where fs: "tick_ratio_factors = f # fs" "drop 1 tick_ratio_factors = fs"
    by (simp add: tick_ratio_factors_def)
  have le: "\<forall>f \<in> set fs. unat f \<le> 2 ^ 128" using tick_factors_le by (simp add: tick_factors_def fs)
  have "unat (push_bit 128 1 :: u256) = 2 ^ 128" by (simp add: unat_push_bit_exact)
  then show ?thesis
    using tick_ratio_loop_chain [OF le, of "of_nat n" 1 "if odd n then f else push_bit 128 1"]
    by (cases "odd n") (simp_all add: b fs n chain_at_def tick_factors_def)
qed

lemma unat_low_bits: "((r :: u256) AND (push_bit 32 1 - 1)) \<noteq> 0 \<longleftrightarrow> unat r mod 2 ^ 32 \<noteq> 0"
proof -
  have "push_bit 32 1 - 1 = (mask 32 :: u256)"
    by (simp add: mask_eq_exp_minus_1 push_bit_eq_mult)
  then have "r AND (push_bit 32 1 - 1) = take_bit 32 r" by (simp add: take_bit_eq_mask)
  then show ?thesis
    by (simp add: take_bit_eq_mod unat_mod flip: unat_0_iff)
qed

definition round_price :: "u256 \<Rightarrow> domain_error + u256" where
  "round_price ratio =
     (let remainder_mask = push_bit 32 (1 :: u256) - 1 in
      and_then (ok_or ArithmeticOverflow
        (checked_add (drop_bit 32 ratio) (of_bool ((ratio AND remainder_mask) \<noteq> 0)))) (\<lambda>rounded.
      if rounded = 0 \<or> drop_bit 160 rounded \<noteq> 0 then Inl ArithmeticOverflow else Inr rounded))"

lemma round_price_ok:
  assumes "0 < unat r" "unat r \<le> (2 ^ 160 - 1) * 2 ^ 32"
  shows "\<exists>p. round_price r = Inr p \<and> unat p = cdiv (unat r) (2 ^ 32)"
proof -
  let ?c = "cdiv (unat r) (2 ^ 32)"
  have "?c \<le> unat r" by (rule cdiv_le_self) simp
  then obtain p :: u256 where p: "unat p = ?c" using unat_le_representable by blast
  have "?c \<noteq> 0" using cdiv_upper [of "2 ^ 32" "unat r"] assms(1) by auto
  then have nz: "p \<noteq> 0" using p by auto
  have "?c \<le> 2 ^ 160 - 1" using assms(2) by (subst cdiv_le_iff) simp_all
  then have "unat (drop_bit 160 p) = 0" using p by (simp add: unat_drop_bit)
  then have d: "drop_bit 160 p = 0" by (simp only: unat_0_iff)
  have "checked_add (drop_bit 32 r) (of_bool ((r AND (push_bit 32 1 - 1)) \<noteq> 0)) = Some p"
    unfolding unat_low_bits by (simp only: checked_add_Some p cdiv_def unat_drop_bit unat_of_bool)
  with p nz d show ?thesis by (simp add: round_price_def Let_def)
qed

lemma sqrt_ratio_at_tick_chain:
  assumes "MIN_TICK \<le> t" "t \<le> MAX_TICK"
  shows "\<exists>r. unat r = chain_at (nat \<bar>t\<bar>) \<and> r \<noteq> 0 \<and>
           sqrt_ratio_at_tick t = round_price (if 0 < t then - 1 div r else r)"
proof -
  let ?n = "nat \<bar>t\<bar>"
  have n: "?n \<le> 887272" using assms by (simp add: MIN_TICK_def MAX_TICK_def)
  have w: "(word_of_int \<bar>t\<bar> :: u32) = of_nat ?n" by simp
  obtain r where r: "tick_ratio_loop (of_nat ?n) 1 (drop 1 tick_ratio_factors)
                (if (of_nat ?n AND (1 :: u32)) \<noteq> 0 then tick_ratio_factors ! 0 else push_bit 128 1) = Inr r"
    and c: "unat r = chain_at ?n" using tick_ratio_loop_at [OF n] by blast
  have "r \<noteq> 0" using chain_at_lower [OF n] c by auto
  with c r assms show ?thesis
    by (intro exI [of _ r], cases "0 < t") (simp_all only: sqrt_ratio_at_tick_def w Let_def round_price_def r and_then_simps
        simp_thms if_True if_False)
qed

text \<open>Tick prices are total and in range. For every tick the protocol allows,
  \<open>sqrt_ratio_at_tick\<close> returns a price (no overflow, no panic) between the protocol's minimum and
  maximum square-root ratios; prices of negative ticks are at most one (in Q96) and prices of
  positive ticks at least one.\<close>

theorem sqrt_ratio_at_tick_total:
  assumes "MIN_TICK \<le> t" "t \<le> MAX_TICK"
  shows "\<exists>p. sqrt_ratio_at_tick t = Inr p \<and>
           4295128739 \<le> unat p \<and> unat p \<le> 1461446703485210103287273052203988822378723970342 \<and>
           (t \<le> 0 \<longrightarrow> unat p \<le> 2 ^ 96) \<and> (0 \<le> t \<longrightarrow> 2 ^ 96 \<le> unat p)"
proof -
  let ?c = "chain_at (nat \<bar>t\<bar>)" and ?lo = "18447437462383981825 :: nat"
  have n: "nat \<bar>t\<bar> \<le> 887272" using assms by (simp add: MIN_TICK_def MAX_TICK_def)
  obtain r where r: "unat r = ?c" "sqrt_ratio_at_tick t = round_price (if 0 < t then - 1 div r else r)"
    using sqrt_ratio_at_tick_chain [OF assms] by blast
  have c: "?lo \<le> ?c" "?c \<le> 2 ^ 128" using chain_at_lower [OF n] chain_at_upper by auto
  show ?thesis
  proof (cases "0 < t")
    case False
    obtain p where p: "round_price r = Inr p" "unat p = cdiv ?c (2 ^ 32)"
      using round_price_ok [of r] c by (auto simp: r(1))
    have "cdiv ?c (2 ^ 32) \<le> 2 ^ 96" "\<not> cdiv ?c (2 ^ 32) \<le> 4295128738"
      using c by (simp_all add: cdiv_le_iff)
    moreover have "t = 0 \<longrightarrow> cdiv ?c (2 ^ 32) = 2 ^ 96" by (simp add: chain_at_0 cdiv_def)
    ultimately show ?thesis using False p r(2) by auto
  next
    case True
    let ?q = "(2 ^ 256 - 1) div ?c"
    have u: "unat (- 1 div r) = ?q" by (simp add: unat_div r(1))
    have "?q \<le> (2 ^ 256 - 1) div ?lo" by (rule div_le_mono2 [OF _ c(1)]) simp
    moreover have "(2 ^ 256 - 1) div 2 ^ 128 \<le> ?q" by (rule div_le_mono2 [OF _ c(2)]) (use c(1) in simp)
    ultimately have q: "?q \<le> 6276865796315986613307619852238232712866172378830071145882" "2 ^ 128 - 1 \<le> ?q"
      by simp_all
    then obtain p where p: "round_price (- 1 div r) = Inr p" "unat p = cdiv ?q (2 ^ 32)"
      using round_price_ok [of "- 1 div r"] unfolding u by auto
    have "cdiv ?q (2 ^ 32) \<le> 1461446703485210103287273052203988822378723970342"
      "\<not> cdiv ?q (2 ^ 32) \<le> 2 ^ 96 - 1"
      using q by (simp_all add: cdiv_le_iff)
    then show ?thesis using True p r(2) by auto
  qed
qed

theorem sqrt_ratio_at_tick_total_witness:
  "\<exists>p. sqrt_ratio_at_tick 887272 = Inr p \<and> 4295128739 \<le> unat p"
  using sqrt_ratio_at_tick_total [of 887272]  by (auto simp: MIN_TICK_def MAX_TICK_def)

end
