(* ===== verification/Amm_Swap.thy ===== *)
theory Amm_Swap
  imports Amm_Ticks
begin

text \<open>
  Soundness of the exact-input simulation inside the current tick range: exact fee split, price
  confined to the range, output bounded by the exact constant-liquidity curve, no panic.
\<close>

section \<open>The exact curve\<close>

text \<open>
  With liquidity \<open>l\<close>, price \<open>p\<close> (Q96) and net input \<open>x\<close>, the exact output of the curve is the
  quotient of the first component by the second.
\<close>

fun curve_output :: "nat \<Rightarrow> nat \<Rightarrow> nat \<Rightarrow> direction \<Rightarrow> nat \<times> nat" where
  "curve_output l p x ZeroForOne = (l * x * p * p, 2 ^ 96 * (l * 2 ^ 96 + x * p))"
| "curve_output l p x OneForZero = (x * 2 ^ 192 * l, p * (p * l + x * 2 ^ 96))"

lemma next_price_zero_for_one:
  assumes "next_sqrt_price_from_input p l x ZeroForOne = Inr q"
  shows "unat q \<le> unat p" "(unat p - unat q) * (unat l * 2 ^ 96 + unat x * unat p) \<le> unat x * unat p * unat p"
proof -
  let ?L = "unat l * 2 ^ 96" and ?P = "unat p" and ?X = "unat x" and ?D = "unat l * 2 ^ 96 + unat x * unat p"
  from assms have D: "0 < ?D" and q: "unat q = cdiv (?L * ?P) ?D"
    by (simp_all only: next_sqrt_zero_for_one_Inr) simp_all
  show le: "unat q \<le> ?P" unfolding q cdiv_le_iff [OF D] by (simp add: algebra_simps)
  have "?L * ?P \<le> unat q * ?D" unfolding q by (rule cdiv_upper [OF D])
  moreover have "?P * ?D = ?L * ?P + ?X * ?P * ?P" by (simp add: algebra_simps)
  ultimately have "?P * ?D - unat q * ?D \<le> ?X * ?P * ?P" by linarith
  then show "(?P - unat q) * ?D \<le> ?X * ?P * ?P" by (simp only: diff_mult_distrib)
qed

lemma next_price_one_for_zero:
  assumes "next_sqrt_price_from_input p l x OneForZero = Inr q"
  shows "unat p \<le> unat q" "(unat q - unat p) * unat l \<le> unat x * 2 ^ 96"
  using assms by (auto simp: next_sqrt_one_for_zero_Inr)

lemma output_zero_for_one:
  assumes n: "next_sqrt_price_from_input p l x ZeroForOne = Inr q"
    and d: "amount_1_delta q p l False = Inr out"
  shows "unat out * (2 ^ 96 * (unat l * 2 ^ 96 + unat x * unat p)) \<le> unat l * unat x * unat p * unat p"
proof -
  let ?D = "unat l * 2 ^ 96 + unat x * unat p" and ?e = "unat p - unat q"
  have "q \<le> p" using next_price_zero_for_one(1) [OF n] by (simp add: word_le_nat_alt)
  with d have "unat out = unat l * ?e div 2 ^ 96" by (simp add: amount_1_delta_Inr rounded_div_def)
  then have "unat out * 2 ^ 96 \<le> unat l * ?e" by (metis div_times_less_eq_dividend)
  then have "unat out * 2 ^ 96 * ?D \<le> unat l * ?e * ?D" by (rule mult_le_mono1)
  also have "\<dots> = unat l * (?e * ?D)" by (simp only: mult.assoc)
  also have "\<dots> \<le> unat l * (unat x * unat p * unat p)"
    by (rule mult_le_mono2) (rule next_price_zero_for_one(2) [OF n])
  finally show ?thesis by (simp only: mult.assoc)
qed

lemma output_one_for_zero:
  assumes n: "next_sqrt_price_from_input p l x OneForZero = Inr q"
    and d: "amount_0_delta p q l False = Inr out"
  shows "unat out * (unat p * (unat p * unat l + unat x * 2 ^ 96)) \<le> unat x * 2 ^ 192 * unat l"
proof -
  let ?A = "unat x * 2 ^ 96" and ?P = "unat p" and ?L = "unat l" and ?o = "unat out"
  define e where "e = unat q - unat p"
  have q: "unat q = ?P + e" using next_price_one_for_zero(1) [OF n] by (simp add: e_def)
  then have "p \<le> q" by (simp add: word_le_nat_alt)
  with d have P: "p \<noteq> 0" and o: "?o = ?L * 2 ^ 96 * e div ((?P + e) * ?P)"
    by (simp_all add: amount_0_delta_Inr rounded_div_def q)
  have Le: "e * ?L \<le> ?A" using next_price_one_for_zero(2) [OF n] by (simp add: e_def)
  have "?o * ((?P + e) * ?P) \<le> ?L * 2 ^ 96 * e" unfolding o by (rule div_times_less_eq_dividend)
  then have "?o * ((?P + e) * ?P) * (?P * ?L + ?A) \<le> ?L * 2 ^ 96 * e * (?P * ?L + ?A)"
    by (rule mult_le_mono1)
  also have "\<dots> = ?L * 2 ^ 96 * (?P * (e * ?L) + e * ?A)" by (simp only: algebra_simps)
  also have "\<dots> \<le> ?L * 2 ^ 96 * (?P * ?A + e * ?A)"
    using Le by (intro mult_le_mono2 add_le_mono1)
  also have "\<dots> = ?A * 2 ^ 96 * ?L * (?P + e)" by (simp only: algebra_simps)
  finally have "(?o * (?P * (?P * ?L + ?A))) * (?P + e) \<le> (?A * 2 ^ 96 * ?L) * (?P + e)"
    by (simp only: ac_simps)
  moreover have "0 < ?P + e" using P by (simp flip: unat_0_iff)
  ultimately have "?o * (?P * (?P * ?L + ?A)) \<le> ?A * 2 ^ 96 * ?L" by (simp only: mult_le_cancel2)
  also have "\<dots> = unat x * 2 ^ 192 * ?L" by simp
  finally show ?thesis .
qed

section \<open>Successful simulations\<close>

text \<open>The stages of a successful simulation, in the order the code runs them.\<close>

lemma simulate_stages:
  assumes "simulate_current_range_exact_input pool x d ts = Inr r"
  shows "\<exists>target target_sqrt delta.
    (ps_liquidity pool \<noteq> 0) \<and>
    (ps_sqrt_price_x96 pool \<noteq> 0) \<and>
    (1 \<le> ts) \<and>
    (ts \<le> MAX_TICK) \<and>
    (cs_amount_in r = x) \<and>
    (amount_less_fee x (ps_fee pool) = Inr (cs_amount_in_less_fee r)) \<and>
    (cs_amount_in_less_fee r \<noteq> 0) \<and>
    (current_range_target_tick (ps_tick pool) ts d = Inr target) \<and>
    (sqrt_ratio_at_tick target = Inr target_sqrt) \<and>
    (current_range_input_capacity pool d ts = Inr (cs_current_range_capacity r)) \<and>
    (cs_amount_in_less_fee r < cs_current_range_capacity r) \<and>
    (next_sqrt_price_from_input (ps_sqrt_price_x96 pool) (ps_liquidity pool) (cs_amount_in_less_fee r) d
       = Inr (cs_final_sqrt_price_x96 r)) \<and>
    (d = ZeroForOne \<longrightarrow> target_sqrt < cs_final_sqrt_price_x96 r) \<and>
    (d = OneForZero \<longrightarrow> cs_final_sqrt_price_x96 r < target_sqrt) \<and>
    ((case d of
        ZeroForOne \<Rightarrow> amount_1_delta (cs_final_sqrt_price_x96 r) (ps_sqrt_price_x96 pool) (ps_liquidity pool) False
      | OneForZero \<Rightarrow> amount_0_delta (ps_sqrt_price_x96 pool) (cs_final_sqrt_price_x96 r) (ps_liquidity pool) False)
       = Inr delta) \<and>
    (unat (cs_amount_out r) = unat delta) \<and>
    (quote_spot_exact_input pool (cs_amount_in_less_fee r) d = Inr (cs_spot_amount_out r)) \<and>
    (cs_amount_out r \<noteq> 0) \<and>
    (cs_amount_out r \<le> cs_spot_amount_out r) \<and>
    (amm_ratio_bps_ceil (cs_amount_in_less_fee r) (cs_current_range_capacity r) = Inr (cs_utilization_bps r)) \<and>
    (unat x = unat (cs_fee_amount r) + unat (cs_amount_in_less_fee r))"
  using assms unfolding simulate_current_range_exact_input_def Let_def
  by (clarsimp simp: result_simps checked_simps not_le not_less) (cases d; auto)

lemma simulate_target:
  assumes "current_range_target_tick t ts d = Inr target" "1 \<le> ts" "ts \<le> MAX_TICK"
  shows "ts dvd target" "MIN_TICK \<le> target" "target \<le> MAX_TICK"
    "case d of ZeroForOne \<Rightarrow> target \<le> t \<and> t < target + ts | OneForZero \<Rightarrow> target - ts \<le> t \<and> t < target"
proof -
  have valid: "MIN_TICK \<le> t" "t \<le> MAX_TICK"
    using assms(1) by (auto simp: current_range_target_tick_def split: if_splits)
  have "ts * (t div ts) + t mod ts = t" "0 \<le> t mod ts" "t mod ts < ts" using assms(2) by simp_all
  then have "ts * (t div ts) \<le> t" "t < ts * (t div ts) + ts" by linarith+
  with assms(1) show "ts dvd target" "MIN_TICK \<le> target" "target \<le> MAX_TICK"
    "case d of ZeroForOne \<Rightarrow> target \<le> t \<and> t < target + ts | OneForZero \<Rightarrow> target - ts \<le> t \<and> t < target"
    unfolding target_tick_floor [OF valid assms(2,3)]
    by (cases d; auto split: if_splits)+
qed

text \<open>A successful in-range swap simulation is sound. The gross input splits exactly into fee
  and net input, the net input is the floor of the input less the pool fee and lies strictly below
  the range capacity, the utilisation is between 1 and 10000 basis points, the target is the tick
  boundary of the spacing interval holding the current tick, and the final price has moved in the
  swap direction without reaching the boundary price.\<close>

theorem simulate_current_range_sound:
  assumes "simulate_current_range_exact_input pool x d ts = Inr r"
  shows "unat x = unat (cs_fee_amount r) + unat (cs_amount_in_less_fee r) \<and>
    unat (cs_amount_in_less_fee r) = unat x * (1000000 - unat (ps_fee pool)) div 1000000 \<and>
    0 < cs_amount_in_less_fee r \<and> cs_amount_in_less_fee r < cs_current_range_capacity r \<and>
    1 \<le> unat (cs_utilization_bps r) \<and> unat (cs_utilization_bps r) \<le> 10000 \<and>
    (\<exists>target boundary. ts dvd target \<and> sqrt_ratio_at_tick target = Inr boundary \<and>
       (case d of
          ZeroForOne \<Rightarrow> target \<le> ps_tick pool \<and> ps_tick pool < target + ts \<and>
            boundary < cs_final_sqrt_price_x96 r \<and> cs_final_sqrt_price_x96 r \<le> ps_sqrt_price_x96 pool
        | OneForZero \<Rightarrow> target - ts \<le> ps_tick pool \<and> ps_tick pool < target \<and>
            cs_final_sqrt_price_x96 r < boundary \<and> ps_sqrt_price_x96 pool \<le> cs_final_sqrt_price_x96 r))"
    (is "?split \<and> ?fee \<and> ?pos \<and> ?cap \<and> ?lo \<and> ?hi \<and> ?range")
proof -
  from simulate_stages [OF assms] obtain target boundary where st:
    "1 \<le> ts" "ts \<le> MAX_TICK"
    "amount_less_fee x (ps_fee pool) = Inr (cs_amount_in_less_fee r)" "cs_amount_in_less_fee r \<noteq> 0"
    "current_range_target_tick (ps_tick pool) ts d = Inr target"
    "sqrt_ratio_at_tick target = Inr boundary"
    "cs_amount_in_less_fee r < cs_current_range_capacity r"
    "next_sqrt_price_from_input (ps_sqrt_price_x96 pool) (ps_liquidity pool) (cs_amount_in_less_fee r) d
       = Inr (cs_final_sqrt_price_x96 r)"
    "d = ZeroForOne \<longrightarrow> boundary < cs_final_sqrt_price_x96 r"
    "d = OneForZero \<longrightarrow> cs_final_sqrt_price_x96 r < boundary"
    "amm_ratio_bps_ceil (cs_amount_in_less_fee r) (cs_current_range_capacity r) = Inr (cs_utilization_bps r)"
    "unat x = unat (cs_fee_amount r) + unat (cs_amount_in_less_fee r)"
    by blast
  have ?fee using st by (simp add: amount_less_fee_Inr)
  moreover have pos: ?pos using st by (simp add: word_neq_0_conv)
  moreover from st have u: "unat (cs_utilization_bps r) =
      cdiv (unat (cs_amount_in_less_fee r) * 10000) (unat (cs_current_range_capacity r))"
    and c: "0 < unat (cs_current_range_capacity r)"
    by (auto simp: amm_ratio_bps_ceil_Inr unat_gt_0)
  have "\<not> unat (cs_utilization_bps r) \<le> 0" ?hi
    unfolding u cdiv_le_iff [OF c] using st pos by (auto simp: word_less_nat_alt)
  moreover have "case d of ZeroForOne \<Rightarrow> cs_final_sqrt_price_x96 r \<le> ps_sqrt_price_x96 pool
        | OneForZero \<Rightarrow> ps_sqrt_price_x96 pool \<le> cs_final_sqrt_price_x96 r"
    using st(8) next_price_zero_for_one(1) next_price_one_for_zero(1)
    by (auto simp: word_le_nat_alt split: direction.split)
  then have ?range
    using st simulate_target [OF st(5,1,2)]
    by (intro exI [of _ target] exI [of _ boundary]) (auto split: direction.splits)
  ultimately show ?thesis using st by simp
qed

text \<open>C27: The simulated output never exceeds the exact constant-liquidity curve: rounding of the next
  price and of the token delta is always in the pool's favour. The output is a floor, so it is also
  at most the spot quote of the net input, and it is positive.\<close>

theorem simulate_output_within_curve:
  assumes "simulate_current_range_exact_input pool x d ts = Inr r"
    and "curve_output (unat (ps_liquidity pool)) (unat (ps_sqrt_price_x96 pool))
           (unat (cs_amount_in_less_fee r)) d = (num, den)"
  shows "0 < den \<and> unat (cs_amount_out r) * den \<le> num \<and> 0 < unat (cs_amount_out r) \<and>
         unat (cs_amount_out r) \<le> unat (cs_spot_amount_out r)"
proof -
  from simulate_stages [OF assms(1)] obtain delta where st:
    "ps_liquidity pool \<noteq> 0" "ps_sqrt_price_x96 pool \<noteq> 0"
    "next_sqrt_price_from_input (ps_sqrt_price_x96 pool) (ps_liquidity pool) (cs_amount_in_less_fee r) d
       = Inr (cs_final_sqrt_price_x96 r)"
    "(case d of
        ZeroForOne \<Rightarrow> amount_1_delta (cs_final_sqrt_price_x96 r) (ps_sqrt_price_x96 pool) (ps_liquidity pool) False
      | OneForZero \<Rightarrow> amount_0_delta (ps_sqrt_price_x96 pool) (cs_final_sqrt_price_x96 r) (ps_liquidity pool) False)
       = Inr delta"
    "unat (cs_amount_out r) = unat delta" "cs_amount_out r \<noteq> 0" "cs_amount_out r \<le> cs_spot_amount_out r"
    by blast
  have "unat (cs_amount_out r) * den \<le> num"
    using st assms(2) output_zero_for_one output_one_for_zero by (cases d) auto
  moreover have "0 < den" using st(1,2) assms(2) by (cases d) (auto simp: unat_gt_0)
  moreover have "0 < unat (cs_amount_out r)" "unat (cs_amount_out r) \<le> unat (cs_spot_amount_out r)"
    using st(6,7) by (simp_all add: unat_gt_0 word_le_nat_alt)
  ultimately show ?thesis by blast
qed

section \<open>Freedom from panics\<close>

lemma no_panic_helpers [simp]:
  "u512_to_u128 a \<noteq> Inl Panicked" "u256_to_u128 b \<noteq> Inl Panicked" "u512_to_u256 a \<noteq> Inl Panicked"
  "div_rounding_up a a' \<noteq> Inl Panicked"
  by (simp_all add: u512_to_u128_def u256_to_u128_def u512_to_u256_def div_rounding_up_def ok_or_def
      split: option.split)

lemma no_panic_deltas [simp]:
  "amount_1_delta a b l up \<noteq> Inl Panicked" "amount_0_delta a b l up \<noteq> Inl Panicked"
  "amm_ratio_bps_ceil v w \<noteq> Inl Panicked" "amount_less_fee v fee \<noteq> Inl Panicked"
  "current_range_target_tick t ts d \<noteq> Inl Panicked"
  by (auto simp: amount_1_delta_def amount_0_delta_def amm_ratio_bps_ceil_def amount_less_fee_def
      current_range_target_tick_def result_simps Let_def split: if_splits direction.splits prod.splits)

lemma no_panic_sqrt_ratio [simp]: "sqrt_ratio_at_tick t \<noteq> Inl Panicked"
proof (cases "MIN_TICK \<le> t \<and> t \<le> MAX_TICK")
  case True
  then obtain r where "sqrt_ratio_at_tick t = round_price r"
    using sqrt_ratio_at_tick_chain [of t] by blast
  then show ?thesis by (auto simp: round_price_def result_simps Let_def split: if_splits)
qed (auto simp: sqrt_ratio_at_tick_def)

lemma no_panic_next_price: "l \<noteq> 0 \<Longrightarrow> next_sqrt_price_from_input p l x d \<noteq> Inl Panicked"
  by (cases d) (auto simp: next_sqrt_price_from_input_def result_simps Let_def)

lemma no_panic_spot: "p \<noteq> 0 \<Longrightarrow> spot_output p x d \<noteq> Inl Panicked"
  by (cases d) (auto simp: spot_output_def result_simps Let_def simp flip: unat_0_iff)

text \<open>The in-range swap simulation never panics, whatever the pool state, amount, direction and
  tick spacing: every division has a non-zero divisor.\<close>

theorem simulate_current_range_no_panic:
  "simulate_current_range_exact_input pool x d ts \<noteq> Inl Panicked"
  using no_panic_next_price [of "ps_liquidity pool"] no_panic_spot [of "ps_sqrt_price_x96 pool"]
  by (cases d)
     (auto simp: simulate_current_range_exact_input_def current_range_input_capacity_def
       quote_spot_exact_input_def result_simps Let_def split: if_splits)

section \<open>A concrete swap\<close>

definition sample_pool :: pool_state where
  "sample_pool = \<lparr>ps_pool_id = ''p'', ps_token0 = ''0xa'', ps_token1 = ''0xb'', ps_fee = 3000, ps_tick = 7,
     ps_liquidity = 10 ^ 18, ps_sqrt_price_x96 = 79300000000000000000000000000,
     ps_completeness = \<lparr>min_tick = - 600, max_tick = 600\<rparr>, ps_last_reconciled_block = 1\<rparr>"

lemma sqrt_ratio_at_tick_0: "sqrt_ratio_at_tick 0 = Inr 79228162514264337593543950336"
proof -
  obtain p where "sqrt_ratio_at_tick 0 = Inr p" "unat p = 2 ^ 96"
    using sqrt_ratio_at_tick_chain [of 0] round_price_ok
    by (force simp: MIN_TICK_def MAX_TICK_def chain_at_0 cdiv_def)
  then show ?thesis by (simp add: word_unat_eq_iff)
qed

definition sample_swap :: current_range_swap where
  "sample_swap = \<lparr>cs_amount_in = 1000000, cs_amount_in_less_fee = 997000, cs_fee_amount = 3000,
     cs_amount_out = 998808, cs_spot_amount_out = 998808, cs_current_range_capacity = 905895154295869,
     cs_utilization_bps = 1, cs_final_sqrt_price_x96 = 79299999999920866213085972397\<rparr>"

lemma sample_swap_ok:
  "simulate_current_range_exact_input sample_pool 1000000 ZeroForOne 60 = Inr sample_swap"
proof -
  have f: "amount_less_fee 1000000 3000 = Inr 997000" by (simp add: amount_less_fee_Inr)
  have t: "current_range_target_tick 7 60 ZeroForOne = Inr 0"
    by (subst target_tick_floor) (simp_all add: MIN_TICK_def MAX_TICK_def)
  have c: "amount_0_delta 79228162514264337593543950336 79300000000000000000000000000 1000000000000000000 True
      = Inr 905895154295869"
    by (subst amount_0_delta_Inr) (simp_all add: rounded_div_def cdiv_def)
  have n: "next_sqrt_price_from_input 79300000000000000000000000000 1000000000000000000 997000 ZeroForOne
      = Inr 79299999999920866213085972397"
    by (simp add: next_sqrt_zero_for_one_Inr cdiv_def)
  have o: "amount_1_delta 79299999999920866213085972397 79300000000000000000000000000 1000000000000000000 False = Inr 998808"
    by (subst amount_1_delta_Inr) (simp_all add: rounded_div_def)
  have s: "spot_output 79300000000000000000000000000 997000 ZeroForOne = Inr 998808"
    by (simp add: spot_output_zero_for_one_Inr)
  have u: "amm_ratio_bps_ceil 997000 905895154295869 = Inr 1" by (simp add: amm_ratio_bps_ceil_Inr cdiv_def)
  have w: "u256_to_u128 905895154295869 = Inr 905895154295869" "u256_to_u128 998808 = Inr 998808"
    by (simp_all add: result_simps)
  show ?thesis
    by (simp add: simulate_current_range_exact_input_def current_range_input_capacity_def
        quote_spot_exact_input_def sample_pool_def sample_swap_def MAX_TICK_def f t c n o s u w
        sqrt_ratio_at_tick_0 checked_sub_def)
qed

theorem simulate_current_range_sound_witness:
  "simulate_current_range_exact_input sample_pool 1000000 ZeroForOne 60 = Inr sample_swap \<and>
   unat (1000000 :: amount) = unat (cs_fee_amount sample_swap) + unat (cs_amount_in_less_fee sample_swap)"
  using sample_swap_ok simulate_current_range_sound [OF sample_swap_ok] by blast

theorem simulate_output_within_curve_witness:
  "simulate_current_range_exact_input sample_pool 1000000 ZeroForOne 60 = Inr sample_swap \<and>
   (\<exists>num den. curve_output (unat (ps_liquidity sample_pool)) (unat (ps_sqrt_price_x96 sample_pool))
       (unat (cs_amount_in_less_fee sample_swap)) ZeroForOne = (num, den) \<and>
     unat (cs_amount_out sample_swap) * den \<le> num)"
proof -
  obtain num den where c: "curve_output (unat (ps_liquidity sample_pool)) (unat (ps_sqrt_price_x96 sample_pool))
       (unat (cs_amount_in_less_fee sample_swap)) ZeroForOne = (num, den)" by fastforce
  from simulate_output_within_curve [OF sample_swap_ok this] c sample_swap_ok show ?thesis by blast
qed

end
