(* ===== verification/Opportunity.thy ===== *)
theory Opportunity
  imports Domain
begin

text \<open>
  The evidence records of a detected opportunity (\<open>phoenix-engine/src/opportunity/mod.rs\<close>) and
  the traceability check every recorded opportunity passes.
\<close>

section \<open>Evidence\<close>

definition PROFITABILITY_MODEL_VERSION :: string where
  "PROFITABILITY_MODEL_VERSION = ''shadow-profitability-scale-v1''"

type_synonym signed_amount = i128
type_synonym basis_points = i32

datatype strategy = TwoPoolV3Arbitrage

datatype monetary_unit = SettlementAssetBaseUnits

fun strategy_as_str :: "strategy \<Rightarrow> string" where
  "strategy_as_str TwoPoolV3Arbitrage = ''two_pool_v3_arbitrage''"

record money_context =
  mc_settlement_asset :: token_address
  mc_settlement_asset_decimals :: u8
  mc_input_amount :: amount
  mc_monetary_unit :: monetary_unit

record opportunity_identity =
  oi_opportunity_id :: opportunity_id
  oi_strategy :: strategy
  oi_strategy_version :: string
  oi_detector_version :: string
  oi_code_version :: string
  oi_config_version :: string
  oi_chain_id :: u64
  oi_source_sequence :: u64
  oi_origin_tx_hash :: tx_hash
  oi_origin_router :: address
  oi_observed_block :: u64
  oi_observed_at_unix_ms :: u64
  oi_detected_at_unix_ms :: u64

record route_evidence =
  re_route_id :: route_id
  re_route_fingerprint :: string
  re_token_path :: "token_address list"
  re_pools :: "pool_id list"
  re_pool_addresses :: "address list"
  re_protocols :: "string list"
  re_settlement_asset :: token_address
  re_settlement_asset_decimals :: u8
  re_monetary_unit :: monetary_unit
  re_input_token :: token_address
  re_output_token :: token_address
  re_input_amount :: amount
  re_flash_loan_amount :: amount
  re_expected_output :: amount
  re_expected_leg_outputs :: "amount list"
  re_exact_ordered_legs :: "pool_edge list"

datatype state_source =
    RecordedCheckpoint
  | BlockPinnedRpc

record pool_state_evidence =
  pse_pool :: pool_id
  pse_state_hash :: string
  pse_reserve_or_liquidity_summary :: string

datatype independent_verification_status =
    IV_NotRequested
  | IV_Requested
  | IV_Agreed
  | IV_Disagreed
  | IV_ProviderUnavailable
  | IV_IntegrityFailure

datatype verification_status =
    VS_Incomplete
  | VS_PrimaryOnly
  | VS_Agreed
  | VS_Disagreed
  | VS_SecondaryUnavailable
  | VS_HistoricalEvidence

datatype agreement_state =
    AG_NotChecked
  | AG_Agreed
  | AG_Disagreed
  | AG_Unavailable

datatype verification_skip_reason =
    VSR_PrimaryScreenNoProfitableCandidate
  | VSR_HistoricalEvidence

fun independent_verification_status_as_str :: "independent_verification_status \<Rightarrow> string" where
  "independent_verification_status_as_str IV_NotRequested = ''not_requested''"
| "independent_verification_status_as_str IV_Requested = ''requested''"
| "independent_verification_status_as_str IV_Agreed = ''agreed''"
| "independent_verification_status_as_str IV_Disagreed = ''disagreed''"
| "independent_verification_status_as_str IV_ProviderUnavailable = ''provider_unavailable''"
| "independent_verification_status_as_str IV_IntegrityFailure = ''integrity_failure''"

fun verification_status_as_str :: "verification_status \<Rightarrow> string" where
  "verification_status_as_str VS_Incomplete = ''incomplete''"
| "verification_status_as_str VS_PrimaryOnly = ''primary_only''"
| "verification_status_as_str VS_Agreed = ''agreed''"
| "verification_status_as_str VS_Disagreed = ''disagreed''"
| "verification_status_as_str VS_SecondaryUnavailable = ''secondary_unavailable''"
| "verification_status_as_str VS_HistoricalEvidence = ''historical_evidence''"

fun agreement_state_as_str :: "agreement_state \<Rightarrow> string" where
  "agreement_state_as_str AG_NotChecked = ''not_checked''"
| "agreement_state_as_str AG_Agreed = ''agreed''"
| "agreement_state_as_str AG_Disagreed = ''disagreed''"
| "agreement_state_as_str AG_Unavailable = ''unavailable''"

fun verification_skip_reason_as_str :: "verification_skip_reason \<Rightarrow> string" where
  "verification_skip_reason_as_str VSR_PrimaryScreenNoProfitableCandidate = ''primary_screen_no_profitable_candidate''"
| "verification_skip_reason_as_str VSR_HistoricalEvidence = ''historical_evidence''"

record market_evidence =
  me_pool_states :: "pool_state_evidence list"
  me_state_block :: u64
  me_state_block_hash :: "string option"
  me_route_config_hash :: "string option"
  me_quote_block :: u64
  me_quote_age_ms :: u64
  me_state_source :: state_source
  me_primary_provider_id :: "string option"
  me_primary_response_hash :: "string option"
  me_primary_state_hash :: "string option"
  me_secondary_provider_id :: "string option"
  me_secondary_state_hash :: "string option"
  me_secondary_block_number :: "u64 option"
  me_secondary_block_hash :: "string option"
  me_secondary_route_config_hash :: "string option"
  me_verification_status :: verification_status
  me_independent_verification_status :: independent_verification_status
  me_independent_verification_lifecycle :: "independent_verification_status list"
  me_agreement_state :: agreement_state
  me_verification_skip_reason :: "verification_skip_reason option"
  me_feed_to_detection_latency_ns :: u128

record cost_breakdown =
  cb_gross_spread :: signed_amount
  cb_gross_profit :: signed_amount
  cb_protocol_fees :: amount
  cb_pool_fees :: amount
  cb_price_impact :: amount
  cb_slippage_allowance :: amount
  cb_flash_loan_fee :: amount
  cb_estimated_execution_gas :: u64
  cb_gas_price_wei :: u128
  cb_arbitrum_execution_fee :: amount
  cb_l1_data_fee :: amount
  cb_contract_overhead :: amount
  cb_failure_cost_reserve :: amount
  cb_stale_state_penalty :: amount
  cb_ordering_reserve :: amount
  cb_state_drift_reserve :: amount
  cb_latency_reserve :: amount
  cb_uncertainty_reserve :: amount
  cb_total_cost :: amount
  cb_expected_net_pnl :: signed_amount
  cb_expected_roi_bps :: basis_points
  cb_probability_of_success_bps :: u16
  cb_expected_value_after_success_probability :: signed_amount

datatype primary_profitability_status =
    PP_Incomplete
  | PP_MeetsMinimum
  | PP_BelowMinimum

fun primary_profitability_status_as_str :: "primary_profitability_status \<Rightarrow> string" where
  "primary_profitability_status_as_str PP_Incomplete = ''incomplete''"
| "primary_profitability_status_as_str PP_MeetsMinimum = ''meets_minimum''"
| "primary_profitability_status_as_str PP_BelowMinimum = ''below_minimum''"

record scenario_economics =
  se_money :: money_context
  se_base :: cost_breakdown
  se_conservative :: cost_breakdown
  se_severe :: cost_breakdown
  se_minimum_required_net_pnl :: signed_amount
  se_primary_status :: primary_profitability_status
  se_model_version :: string

datatype simulation_kind =
    StaticQuote
  | StateBased
  | EthCall
  | ContractCall
  | Fork
  | HistoricalReplay
  | HypotheticalInclusion

datatype simulation_classification =
    SC_Passed
  | SC_Reverted
  | SC_AmbiguousBlock
  | SC_ProviderDisagreement
  | SC_StaleState
  | SC_ContractUnavailable
  | SC_UnsafeToken
  | SC_NotRun

record simulation_evidence =
  sm_kind :: simulation_kind
  sm_block_number :: u64
  sm_block_hash :: "string option"
  sm_from_address :: "string option"
  sm_target_contract :: "string option"
  sm_contract_code_hash :: "string option"
  sm_calldata_hash :: string
  sm_value :: amount
  sm_gas_estimate :: "u64 option"
  sm_gas_used :: "u64 option"
  sm_simulated_output :: "amount option"
  sm_simulated_net_pnl :: "signed_amount option"
  sm_revert_reason :: "string option"
  sm_state_overrides_hash :: "string option"
  sm_provider_id :: "string option"
  sm_simulated_at_unix_ms :: u64
  sm_latency_ns :: u128
  sm_state_drift_bps :: basis_points
  sm_classification :: simulation_classification

datatype rejection_reason =
    GrossSpreadInsufficient
  | NetPnlNegative
  | StressPnlNegative
  | LiquidityUnknown
  | LiquidityInsufficient
  | QuoteStale
  | SimulationReverted
  | SimulationEvidenceInsufficient
  | GasTooHigh
  | TokenNotAllowed
  | ProtocolNotAllowed
  | RpcStateDisagreement
  | ConfidenceTooLow
  | OpportunityExpired
  | DuplicateOpportunity
  | RiskBudgetExceeded
  | ContractPathUnavailable
  | SequenceDiscontinuity

fun rejection_reason_as_str :: "rejection_reason \<Rightarrow> string" where
  "rejection_reason_as_str GrossSpreadInsufficient = ''gross_spread_insufficient''"
| "rejection_reason_as_str NetPnlNegative = ''net_pnl_negative''"
| "rejection_reason_as_str StressPnlNegative = ''stress_pnl_negative''"
| "rejection_reason_as_str LiquidityUnknown = ''liquidity_unknown''"
| "rejection_reason_as_str LiquidityInsufficient = ''liquidity_insufficient''"
| "rejection_reason_as_str QuoteStale = ''quote_stale''"
| "rejection_reason_as_str SimulationReverted = ''simulation_reverted''"
| "rejection_reason_as_str SimulationEvidenceInsufficient = ''simulation_evidence_insufficient''"
| "rejection_reason_as_str GasTooHigh = ''gas_too_high''"
| "rejection_reason_as_str TokenNotAllowed = ''token_not_allowed''"
| "rejection_reason_as_str ProtocolNotAllowed = ''protocol_not_allowed''"
| "rejection_reason_as_str RpcStateDisagreement = ''rpc_state_disagreement''"
| "rejection_reason_as_str ConfidenceTooLow = ''confidence_too_low''"
| "rejection_reason_as_str OpportunityExpired = ''opportunity_expired''"
| "rejection_reason_as_str DuplicateOpportunity = ''duplicate_opportunity''"
| "rejection_reason_as_str RiskBudgetExceeded = ''risk_budget_exceeded''"
| "rejection_reason_as_str ContractPathUnavailable = ''contract_path_unavailable''"
| "rejection_reason_as_str SequenceDiscontinuity = ''sequence_discontinuity''"

datatype risk_flag =
    RF_StaleQuote
  | RF_StateDrift
  | RF_RpcDisagreement
  | RF_IncompleteLiquidity
  | RF_SimulationUnavailable
  | RF_ContractUnavailable
  | RF_ConcentrationUnknown

datatype shadow_disposition =
    Accepted
  | Rejected

record decision_evidence =
  de_disposition :: shadow_disposition
  de_primary_rejection_reason :: "rejection_reason option"
  de_secondary_rejection_reasons :: "rejection_reason list"
  de_risk_flags :: "risk_flag list"
  de_confidence_bps :: u16
  de_policy_version :: string
  de_shadow_only :: bool
  de_execution_eligible :: bool
  de_execution_request_created :: bool
  de_decided_at_unix_ms :: u64

record outcome_evidence =
  oe_hypothetical_execution_at_unix_ms :: "u64 option"
  oe_hypothetical_inclusion_block :: "u64 option"
  oe_replay_pnl :: "signed_amount option"
  oe_opportunity_expires_at_unix_ms :: u64
  oe_post_opportunity_market_movement_bps :: "basis_points option"
  oe_missed_opportunity_reason :: "rejection_reason option"

record opportunity =
  op_identity :: opportunity_identity
  op_route :: route_evidence
  op_market :: market_evidence
  op_economics :: scenario_economics
  op_simulation :: simulation_evidence
  op_decision :: decision_evidence
  op_outcome :: outcome_evidence

section \<open>Traceability\<close>

definition validate_traceability :: "opportunity \<Rightarrow> string + unit" where
  "validate_traceability opp =
     (let rt = op_route opp; mk = op_market opp; dc = op_decision opp; mo = se_money (op_economics opp) in
      if oi_chain_id (op_identity opp) \<noteq> 42161 then Inl ''unsupported chain''
      else if length (re_token_path rt) < 2 \<or> re_exact_ordered_legs rt = [] \<or>
              length (re_pool_addresses rt) \<noteq> length (re_exact_ordered_legs rt) \<or>
              length (re_expected_leg_outputs rt) \<noteq> length (re_exact_ordered_legs rt)
      then Inl ''route evidence incomplete''
      else if re_settlement_asset rt \<noteq> re_input_token rt \<or>
              re_settlement_asset rt \<noteq> re_output_token rt \<or>
              re_settlement_asset_decimals rt = 0 \<or>
              re_settlement_asset_decimals rt > 36 \<or>
              re_flash_loan_amount rt \<noteq> re_input_amount rt \<or>
              mc_settlement_asset mo \<noteq> re_settlement_asset rt \<or>
              mc_settlement_asset_decimals mo \<noteq> re_settlement_asset_decimals rt \<or>
              mc_input_amount mo \<noteq> re_input_amount rt \<or>
              mc_monetary_unit mo \<noteq> re_monetary_unit rt
      then Inl ''money unit evidence incomplete''
      else if me_state_block mk = 0 \<or> me_quote_block mk = 0 then Inl ''block context missing''
      else
      let lifecycle = me_independent_verification_lifecycle mk;
          lifecycle_valid =
            (case me_independent_verification_status mk of
               IV_NotRequested \<Rightarrow> lifecycle = [IV_NotRequested]
             | IV_Requested \<Rightarrow> False
             | final_status \<Rightarrow> lifecycle = [IV_Requested, final_status]) in
      if \<not> lifecycle_valid then Inl ''independent verification lifecycle invalid''
      else if de_disposition dc = Rejected \<and> de_primary_rejection_reason dc = None
      then Inl ''rejected decision missing primary reason''
      else if \<not> de_shadow_only dc \<or> de_execution_eligible dc \<or> de_execution_request_created dc
      then Inl ''shadow opportunity violated execution safety''
      else Inr ())"

end
