(* ===== verification/Economics.thy ===== *)
theory Economics
  imports Opportunity
begin

text \<open>
  The cost model of \<open>phoenix-engine/src/economics/mod.rs\<close>: three stress scenarios over one
  economic input, every cost scaled in basis points with checked arithmetic.
\<close>

section \<open>Definitions\<close>

definition ECON_BPS_DENOMINATOR :: u128 where "ECON_BPS_DENOMINATOR = 10000"

record economic_input =
  ei_settlement_asset :: token_address
  ei_settlement_asset_decimals :: u8
  ei_monetary_unit :: monetary_unit
  ei_principal :: amount
  ei_gross_output :: amount
  ei_protocol_fees :: amount
  ei_pool_fees :: amount
  ei_price_impact :: amount
  ei_minimum_slippage_buffer :: amount
  ei_flash_loan_fee :: amount
  ei_estimated_execution_gas :: u64
  ei_gas_price_wei :: u128
  ei_l1_data_fee :: amount
  ei_contract_overhead :: amount
  ei_failed_attempt_gas_cost :: amount
  ei_failure_probability_bps :: u16
  ei_stale_state_loss :: amount
  ei_stale_quote_probability_bps :: u16
  ei_state_drift_reserve :: amount
  ei_latency_reserve :: amount
  ei_uncertainty_reserve :: amount
  ei_replacement_transaction_cost :: amount
  ei_probability_of_success_bps :: u16
  ei_minimum_required_net_pnl :: signed_amount

record scenario_config =
  sc_gas_multiplier_bps :: u32
  sc_l1_fee_multiplier_bps :: u32
  sc_slippage_multiplier_bps :: u32
  sc_price_impact_multiplier_bps :: u32
  sc_failure_multiplier_bps :: u32
  sc_stale_state_multiplier_bps :: u32
  sc_state_drift_multiplier_bps :: u32
  sc_latency_multiplier_bps :: u32
  sc_uncertainty_multiplier_bps :: u32
  sc_replacement_cost_multiplier_bps :: u32

definition SCENARIO_BASE :: scenario_config where
  "SCENARIO_BASE = \<lparr>sc_gas_multiplier_bps = 10000, sc_l1_fee_multiplier_bps = 10000, sc_slippage_multiplier_bps = 10000, sc_price_impact_multiplier_bps = 10000, sc_failure_multiplier_bps = 10000, sc_stale_state_multiplier_bps = 10000, sc_state_drift_multiplier_bps = 10000, sc_latency_multiplier_bps = 10000, sc_uncertainty_multiplier_bps = 10000, sc_replacement_cost_multiplier_bps = 0\<rparr>"

definition SCENARIO_CONSERVATIVE :: scenario_config where
  "SCENARIO_CONSERVATIVE = \<lparr>sc_gas_multiplier_bps = 12500, sc_l1_fee_multiplier_bps = 12500, sc_slippage_multiplier_bps = 15000, sc_price_impact_multiplier_bps = 12500, sc_failure_multiplier_bps = 15000, sc_stale_state_multiplier_bps = 15000, sc_state_drift_multiplier_bps = 15000, sc_latency_multiplier_bps = 15000, sc_uncertainty_multiplier_bps = 15000, sc_replacement_cost_multiplier_bps = 0\<rparr>"

definition SCENARIO_SEVERE :: scenario_config where
  "SCENARIO_SEVERE = \<lparr>sc_gas_multiplier_bps = 20000, sc_l1_fee_multiplier_bps = 20000, sc_slippage_multiplier_bps = 30000, sc_price_impact_multiplier_bps = 20000, sc_failure_multiplier_bps = 20000, sc_stale_state_multiplier_bps = 25000, sc_state_drift_multiplier_bps = 25000, sc_latency_multiplier_bps = 25000, sc_uncertainty_multiplier_bps = 25000, sc_replacement_cost_multiplier_bps = 10000\<rparr>"

datatype economic_error = InvalidProbability | InvalidScenario | EconArithmeticOverflow

definition econ_validate :: "economic_input \<Rightarrow> scenario_config \<Rightarrow> economic_error + unit" where
  "econ_validate i sc =
     (if ei_settlement_asset_decimals i = 0 \<or> ei_settlement_asset_decimals i > 36 \<or>
         ei_failure_probability_bps i > 10000 \<or> ei_stale_quote_probability_bps i > 10000 \<or>
         ei_probability_of_success_bps i > 10000
      then Inl InvalidProbability
      else if ei_minimum_required_net_pnl i < 0 then Inl InvalidScenario
      else if list_ex (\<lambda>value. value > 100000)
        [sc_gas_multiplier_bps sc, sc_l1_fee_multiplier_bps sc, sc_slippage_multiplier_bps sc, sc_price_impact_multiplier_bps sc, sc_failure_multiplier_bps sc, sc_stale_state_multiplier_bps sc, sc_state_drift_multiplier_bps sc, sc_latency_multiplier_bps sc, sc_uncertainty_multiplier_bps sc, sc_replacement_cost_multiplier_bps sc]
      then Inl InvalidScenario
      else Inr ())"

definition as_i128 :: "u128 \<Rightarrow> economic_error + i128" where
  "as_i128 v = ok_or EconArithmeticOverflow (checked_signed 128 (uint v))"

definition signed_difference :: "u128 \<Rightarrow> u128 \<Rightarrow> economic_error + signed_amount" where
  "signed_difference lhs rhs =
     (if rhs \<le> lhs
      then and_then (ok_or EconArithmeticOverflow (checked_sub lhs rhs)) as_i128
      else and_then (and_then (ok_or EconArithmeticOverflow (checked_sub rhs lhs)) as_i128) (\<lambda>d.
           ok_or EconArithmeticOverflow (checked_signed 128 (- d))))"

definition scale :: "u128 \<Rightarrow> u32 \<Rightarrow> economic_error + u128" where
  "scale value multiplier_bps =
     map_ok (\<lambda>scaled. scaled div ECON_BPS_DENOMINATOR)
       (ok_or EconArithmeticOverflow (checked_mul value (ucast multiplier_bps)))"

definition scale_probability :: "u16 \<Rightarrow> u32 \<Rightarrow> economic_error + u16" where
  "scale_probability probability_bps multiplier_bps =
     and_then (ok_or EconArithmeticOverflow
       (checked_mul (ucast probability_bps :: u128) (ucast multiplier_bps))) (\<lambda>product.
     ok_or EconArithmeticOverflow
       (try_narrow (min (product div ECON_BPS_DENOMINATOR) ECON_BPS_DENOMINATOR)))"

definition probability_cost :: "u128 \<Rightarrow> u16 \<Rightarrow> economic_error + u128" where
  "probability_cost value probability_bps = scale value (ucast probability_bps)"

definition checked_sum :: "u128 list \<Rightarrow> economic_error + u128" where
  "checked_sum values =
     foldl (\<lambda>acc v. and_then acc (\<lambda>total. ok_or EconArithmeticOverflow (checked_add total v)))
       (Inr 0) values"

definition econ_evaluate :: "economic_input \<Rightarrow> scenario_config \<Rightarrow> economic_error + cost_breakdown" where
  "econ_evaluate i sc =
     and_then (econ_validate i sc) (\<lambda>_.
     and_then (signed_difference (ei_gross_output i) (ei_principal i)) (\<lambda>gross_spread.
     and_then (ok_or EconArithmeticOverflow
       (checked_mul (ucast (ei_estimated_execution_gas i)) (ei_gas_price_wei i))) (\<lambda>gas_cost.
     and_then (scale gas_cost (sc_gas_multiplier_bps sc)) (\<lambda>arbitrum_execution_fee.
     and_then (scale (ei_l1_data_fee i) (sc_l1_fee_multiplier_bps sc)) (\<lambda>l1_data_fee.
     and_then (scale (ei_minimum_slippage_buffer i) (sc_slippage_multiplier_bps sc)) (\<lambda>slippage.
     and_then (scale (ei_price_impact i) (sc_price_impact_multiplier_bps sc)) (\<lambda>price_impact.
     and_then (scale_probability (ei_failure_probability_bps i) (sc_failure_multiplier_bps sc)) (\<lambda>failure_probability.
     and_then (scale_probability (ei_stale_quote_probability_bps i) (sc_stale_state_multiplier_bps sc)) (\<lambda>stale_probability.
     and_then (probability_cost (ei_failed_attempt_gas_cost i) failure_probability) (\<lambda>failure_cost_reserve.
     and_then (probability_cost (ei_stale_state_loss i) stale_probability) (\<lambda>stale_state_penalty.
     and_then (scale (ei_state_drift_reserve i) (sc_state_drift_multiplier_bps sc)) (\<lambda>state_drift.
     and_then (scale (ei_latency_reserve i) (sc_latency_multiplier_bps sc)) (\<lambda>latency.
     and_then (scale (ei_uncertainty_reserve i) (sc_uncertainty_multiplier_bps sc)) (\<lambda>uncertainty_reserve.
     and_then (scale (ei_replacement_transaction_cost i) (sc_replacement_cost_multiplier_bps sc)) (\<lambda>replacement_cost.
     and_then (checked_sum [ei_protocol_fees i, ei_pool_fees i, price_impact]) (\<lambda>market_cost.
     and_then (as_i128 market_cost) (\<lambda>market_cost_i.
     and_then (ok_or EconArithmeticOverflow (checked_signed 128 (gross_spread - market_cost_i))) (\<lambda>gross_profit.
     and_then (checked_sum [ei_protocol_fees i, ei_pool_fees i, price_impact, slippage, ei_flash_loan_fee i,
        arbitrum_execution_fee, l1_data_fee, ei_contract_overhead i, failure_cost_reserve, stale_state_penalty,
        replacement_cost, state_drift, latency, uncertainty_reserve]) (\<lambda>total_cost.
     and_then (as_i128 total_cost) (\<lambda>total_cost_i.
     and_then (ok_or EconArithmeticOverflow (checked_signed 128 (gross_spread - total_cost_i))) (\<lambda>expected_net_pnl.
     and_then (if ei_principal i = 0 then Inr 0
               else and_then (ok_or EconArithmeticOverflow (checked_signed 128 (expected_net_pnl * 10000))) (\<lambda>product.
                    and_then (as_i128 (ei_principal i)) (\<lambda>principal.
                    Inr (product sdiv principal)))) (\<lambda>roi_bps.
     and_then (ok_or EconArithmeticOverflow
        (checked_signed 128 (expected_net_pnl * uint (ei_probability_of_success_bps i)))) (\<lambda>weighted.
     let expected_value = weighted sdiv 10000 in
     and_then (ok_or EconArithmeticOverflow (checked_signed 32 roi_bps)) (\<lambda>expected_roi_bps.
     Inr \<lparr>cb_gross_spread = gross_spread, cb_gross_profit = gross_profit,
          cb_protocol_fees = ei_protocol_fees i, cb_pool_fees = ei_pool_fees i,
          cb_price_impact = price_impact, cb_slippage_allowance = slippage,
          cb_flash_loan_fee = ei_flash_loan_fee i,
          cb_estimated_execution_gas = ei_estimated_execution_gas i,
          cb_gas_price_wei = ei_gas_price_wei i,
          cb_arbitrum_execution_fee = arbitrum_execution_fee, cb_l1_data_fee = l1_data_fee,
          cb_contract_overhead = ei_contract_overhead i,
          cb_failure_cost_reserve = failure_cost_reserve, cb_stale_state_penalty = stale_state_penalty,
          cb_ordering_reserve = replacement_cost, cb_state_drift_reserve = state_drift,
          cb_latency_reserve = latency, cb_uncertainty_reserve = uncertainty_reserve,
          cb_total_cost = total_cost, cb_expected_net_pnl = expected_net_pnl,
          cb_expected_roi_bps = expected_roi_bps,
          cb_probability_of_success_bps = ei_probability_of_success_bps i,
          cb_expected_value_after_success_probability = expected_value\<rparr>))))))))))))))))))))))))"

definition evaluate_scenarios :: "economic_input \<Rightarrow> economic_error + scenario_economics" where
  "evaluate_scenarios i =
     and_then (econ_evaluate i SCENARIO_BASE) (\<lambda>base.
     and_then (econ_evaluate i SCENARIO_CONSERVATIVE) (\<lambda>conservative.
     and_then (econ_evaluate i SCENARIO_SEVERE) (\<lambda>severe.
     Inr \<lparr>se_money = \<lparr>mc_settlement_asset = ei_settlement_asset i,
             mc_settlement_asset_decimals = ei_settlement_asset_decimals i,
             mc_input_amount = ei_principal i, mc_monetary_unit = ei_monetary_unit i\<rparr>,
          se_base = base, se_conservative = conservative, se_severe = severe,
          se_minimum_required_net_pnl = ei_minimum_required_net_pnl i,
          se_primary_status =
            (if cb_expected_net_pnl conservative > ei_minimum_required_net_pnl i
             then PP_MeetsMinimum else PP_BelowMinimum),
          se_model_version = PROFITABILITY_MODEL_VERSION\<rparr>)))"

section \<open>Readings\<close>

lemma as_i128_Inr [result_simps]: "as_i128 v = Inr x \<longleftrightarrow> x = uint v \<and> uint v < 2 ^ 127"
  by (auto simp: as_i128_def result_simps checked_simps fits_signed_def
      intro: order_trans [OF _ uint_ge_0])

lemma uint_eq_of_unat_sum: "unat a = unat c + unat b \<Longrightarrow> uint c = uint a - uint b"
proof -
  assume h: "unat a = unat c + unat b"
  have "int (unat a) = int (unat c) + int (unat b)" by (simp only: h of_nat_add)
  then show ?thesis by simp
qed

lemma signed_difference_Inr:
  "signed_difference a b = Inr d \<Longrightarrow> d = uint a - uint b"
  by (auto simp: signed_difference_def result_simps checked_simps uint_eq_of_unat_sum split: if_splits)

lemma scale_Inr:
  "scale v m = Inr r \<longleftrightarrow> unat v * unat m < 2 ^ 128 \<and> unat r = unat v * unat m div 10000"
  by (cases "unat v * unat m < 2 ^ 128")
     (auto simp: scale_def checked_mul_def ECON_BPS_DENOMINATOR_def unat_div unat_mult_exact word_unat_eq_iff)

lemma scale_probability_Inr:
  "scale_probability p m = Inr r \<Longrightarrow> unat r = min (unat p * unat m div 10000) 10000"
  by (auto simp: scale_probability_def result_simps checked_simps ECON_BPS_DENOMINATOR_def unat_div
      min_def word_le_nat_alt)

lemma probability_cost_Inr:
  "probability_cost v p = Inr r \<longleftrightarrow> unat v * unat p < 2 ^ 128 \<and> unat r = unat v * unat p div 10000"
  by (simp add: probability_cost_def scale_Inr)

lemma foldl_and_then_Inl: "foldl (\<lambda>acc v. and_then acc (f v)) (Inl e) vs = Inl e"
  by (induction vs) simp_all

lemma checked_sum_Inr: "checked_sum vs = Inr t \<longleftrightarrow> unat t = sum_list (map unat vs)"
proof -
  have "foldl (\<lambda>acc v. and_then acc (\<lambda>total. ok_or EconArithmeticOverflow (checked_add total v))) (Inr a) vs
          = Inr t \<longleftrightarrow> unat t = unat a + sum_list (map unat vs)" for a
  proof (induction vs arbitrary: a)
    case Nil
    then show ?case by (auto simp: word_unat_eq_iff)
  next
    case (Cons v vs)
    show ?case
    proof (cases "checked_add a v")
      case None
      then have "2 ^ 128 \<le> unat a + unat v" by (simp add: checked_add_None)
      then have "unat t \<noteq> unat a + (unat v + sum_list (map unat vs))"
        using unat_less_exp [of t] by simp
      with None show ?thesis by (simp add: foldl_and_then_Inl [where f = "\<lambda>v total. ok_or _ (checked_add total v)"])
    next
      case (Some c)
      then have "unat c = unat a + unat v" by (simp add: checked_simps)
      then show ?thesis using Some Cons.IH [of c] by (simp add: add.assoc)
    qed
  qed
  then show ?thesis by (simp add: checked_sum_def)
qed

section \<open>Exact accounting\<close>

text \<open>The cost components of a breakdown, in the order the code adds them.\<close>

definition cost_components :: "cost_breakdown \<Rightarrow> u128 list" where
  "cost_components b =
     [cb_protocol_fees b, cb_pool_fees b, cb_price_impact b, cb_slippage_allowance b, cb_flash_loan_fee b,
      cb_arbitrum_execution_fee b, cb_l1_data_fee b, cb_contract_overhead b, cb_failure_cost_reserve b,
      cb_stale_state_penalty b, cb_ordering_reserve b, cb_state_drift_reserve b, cb_latency_reserve b,
      cb_uncertainty_reserve b]"

lemma econ_evaluate_stages:
  assumes "econ_evaluate i sc = Inr b"
  shows "(econ_validate i sc = Inr ()) \<and>
    (signed_difference (ei_gross_output i) (ei_principal i) = Inr (cb_gross_spread b)) \<and>
    (checked_sum (cost_components b) = Inr (cb_total_cost b)) \<and>
    (\<exists>m. checked_sum [cb_protocol_fees b, cb_pool_fees b, cb_price_impact b] = Inr m \<and>
       cb_gross_profit b = cb_gross_spread b - uint m) \<and>
    (cb_expected_net_pnl b = cb_gross_spread b - uint (cb_total_cost b)) \<and>
    (\<exists>gas. checked_mul (ucast (ei_estimated_execution_gas i)) (ei_gas_price_wei i) = Some gas \<and>
       scale gas (sc_gas_multiplier_bps sc) = Inr (cb_arbitrum_execution_fee b)) \<and>
    (scale (ei_l1_data_fee i) (sc_l1_fee_multiplier_bps sc) = Inr (cb_l1_data_fee b)) \<and>
    (scale (ei_minimum_slippage_buffer i) (sc_slippage_multiplier_bps sc) = Inr (cb_slippage_allowance b)) \<and>
    (scale (ei_price_impact i) (sc_price_impact_multiplier_bps sc) = Inr (cb_price_impact b)) \<and>
    (\<exists>p. scale_probability (ei_failure_probability_bps i) (sc_failure_multiplier_bps sc) = Inr p \<and>
       probability_cost (ei_failed_attempt_gas_cost i) p = Inr (cb_failure_cost_reserve b)) \<and>
    (\<exists>p. scale_probability (ei_stale_quote_probability_bps i) (sc_stale_state_multiplier_bps sc) = Inr p \<and>
       probability_cost (ei_stale_state_loss i) p = Inr (cb_stale_state_penalty b)) \<and>
    (scale (ei_state_drift_reserve i) (sc_state_drift_multiplier_bps sc) = Inr (cb_state_drift_reserve b)) \<and>
    (scale (ei_latency_reserve i) (sc_latency_multiplier_bps sc) = Inr (cb_latency_reserve b)) \<and>
    (scale (ei_uncertainty_reserve i) (sc_uncertainty_multiplier_bps sc) = Inr (cb_uncertainty_reserve b)) \<and>
    (scale (ei_replacement_transaction_cost i) (sc_replacement_cost_multiplier_bps sc) = Inr (cb_ordering_reserve b)) \<and>
    (cb_protocol_fees b = ei_protocol_fees i) \<and>
    (cb_pool_fees b = ei_pool_fees i) \<and>
    (cb_flash_loan_fee b = ei_flash_loan_fee i) \<and>
    (cb_contract_overhead b = ei_contract_overhead i)"
  using assms unfolding econ_evaluate_def Let_def cost_components_def
  by (elim and_then_InrE) (clarsimp simp: ok_or_Inr as_i128_Inr checked_signed_Some)

text \<open>The cost model is exact. A successful evaluation reports a net PnL equal to output minus
  principal minus the total cost as unbounded integers, a total cost equal to the sum of the
  fourteen reported components, and a gross profit equal to the spread less the market costs; no
  sum or difference wraps.\<close>

theorem econ_evaluate_exact:
  assumes "econ_evaluate i sc = Inr b"
  shows "cb_expected_net_pnl b = uint (ei_gross_output i) - uint (ei_principal i) - uint (cb_total_cost b) \<and>
         uint (cb_total_cost b) = sum_list (map uint (cost_components b)) \<and>
         cb_gross_profit b = uint (ei_gross_output i) - uint (ei_principal i) -
           (uint (cb_protocol_fees b) + uint (cb_pool_fees b) + uint (cb_price_impact b))"
proof -
  note st = econ_evaluate_stages [OF assms]
  have int_sum: "int (sum_list (map unat vs)) = sum_list (map uint vs)" for vs :: "u128 list"
    by (induction vs) simp_all
  have "cb_gross_spread b = uint (ei_gross_output i) - uint (ei_principal i)"
    using st signed_difference_Inr by blast
  moreover have "unat (cb_total_cost b) = sum_list (map unat (cost_components b))"
    using st by (simp add: checked_sum_Inr)
  then have "uint (cb_total_cost b) = sum_list (map uint (cost_components b))"
    by (metis int_sum of_nat_unat)
  moreover obtain m where m: "checked_sum [cb_protocol_fees b, cb_pool_fees b, cb_price_impact b] = Inr m"
      "cb_gross_profit b = cb_gross_spread b - uint m"
    using st by blast
  have "int (unat m) = sum_list (map uint [cb_protocol_fees b, cb_pool_fees b, cb_price_impact b])"
    by (simp only: m(1) [unfolded checked_sum_Inr] int_sum)
  then have "uint m = uint (cb_protocol_fees b) + uint (cb_pool_fees b) + uint (cb_price_impact b)" by simp
  ultimately show ?thesis using st m(2) by linarith
qed

section \<open>Stress scenarios\<close>

definition scenario_le :: "scenario_config \<Rightarrow> scenario_config \<Rightarrow> bool" where
  "scenario_le a b \<longleftrightarrow>
     sc_gas_multiplier_bps a \<le> sc_gas_multiplier_bps b \<and>
     sc_l1_fee_multiplier_bps a \<le> sc_l1_fee_multiplier_bps b \<and>
     sc_slippage_multiplier_bps a \<le> sc_slippage_multiplier_bps b \<and>
     sc_price_impact_multiplier_bps a \<le> sc_price_impact_multiplier_bps b \<and>
     sc_failure_multiplier_bps a \<le> sc_failure_multiplier_bps b \<and>
     sc_stale_state_multiplier_bps a \<le> sc_stale_state_multiplier_bps b \<and>
     sc_state_drift_multiplier_bps a \<le> sc_state_drift_multiplier_bps b \<and>
     sc_latency_multiplier_bps a \<le> sc_latency_multiplier_bps b \<and>
     sc_uncertainty_multiplier_bps a \<le> sc_uncertainty_multiplier_bps b \<and>
     sc_replacement_cost_multiplier_bps a \<le> sc_replacement_cost_multiplier_bps b"

lemma scale_mono: "scale v m = Inr r \<Longrightarrow> scale v m' = Inr r' \<Longrightarrow> m \<le> m' \<Longrightarrow> r \<le> r'"
  by (simp add: scale_Inr word_le_nat_alt div_le_mono)

lemma probability_cost_mono:
  assumes "scale_probability p m = Inr q" "scale_probability p m' = Inr q'" "m \<le> m'"
    and "probability_cost v q = Inr r" "probability_cost v q' = Inr r'"
  shows "r \<le> r'"
proof -
  have "unat q = min (unat p * unat m div 10000) 10000" "unat q' = min (unat p * unat m' div 10000) 10000"
    using assms(1,2) scale_probability_Inr by blast+
  moreover have "unat p * unat m div 10000 \<le> unat p * unat m' div 10000"
    using assms(3) by (intro div_le_mono mult_le_mono2) (simp add: word_le_nat_alt)
  ultimately have "unat q \<le> unat q'" by simp
  then show ?thesis using assms(4,5) by (simp add: probability_cost_Inr word_le_nat_alt div_le_mono)
qed

lemma econ_evaluate_mono:
  assumes a: "econ_evaluate i sc = Inr a" and b: "econ_evaluate i sc' = Inr b" and le: "scenario_le sc sc'"
  shows "list_all2 (\<le>) (cost_components a) (cost_components b)"
proof -
  note sa = econ_evaluate_stages [OF a] and sb = econ_evaluate_stages [OF b]
  note le' = le [unfolded scenario_le_def]
  have "cb_price_impact a \<le> cb_price_impact b" "cb_slippage_allowance a \<le> cb_slippage_allowance b"
    "cb_l1_data_fee a \<le> cb_l1_data_fee b" "cb_ordering_reserve a \<le> cb_ordering_reserve b"
    "cb_state_drift_reserve a \<le> cb_state_drift_reserve b" "cb_latency_reserve a \<le> cb_latency_reserve b"
    "cb_uncertainty_reserve a \<le> cb_uncertainty_reserve b"
    using sa sb le' scale_mono by blast+
  moreover have "cb_arbitrum_execution_fee a \<le> cb_arbitrum_execution_fee b"
    using sa sb le' scale_mono by (metis option.inject)
  moreover have "cb_failure_cost_reserve a \<le> cb_failure_cost_reserve b"
    "cb_stale_state_penalty a \<le> cb_stale_state_penalty b"
    using sa sb le' probability_cost_mono by blast+
  ultimately show ?thesis using sa sb by (simp add: cost_components_def)
qed

lemma net_pnl_antimono:
  assumes "econ_evaluate i sc = Inr a" "econ_evaluate i sc' = Inr b" "scenario_le sc sc'"
  shows "cb_total_cost a \<le> cb_total_cost b \<and> cb_expected_net_pnl b \<le> cb_expected_net_pnl a"
proof -
  note sa = econ_evaluate_stages [OF assms(1)] and sb = econ_evaluate_stages [OF assms(2)]
  have "sum_list (map unat xs) \<le> sum_list (map unat ys)" if "list_all2 (\<le>) xs ys" for xs ys :: "u128 list"
    using that by (induction rule: list_all2_induct) (auto simp: word_le_nat_alt)
  from this [OF econ_evaluate_mono [OF assms]] have "unat (cb_total_cost a) \<le> unat (cb_total_cost b)"
    using sa sb by (simp add: checked_sum_Inr)
  then have c: "cb_total_cost a \<le> cb_total_cost b" by (simp add: word_le_nat_alt)
  then have "uint (cb_total_cost a) \<le> uint (cb_total_cost b)" by (simp add: word_le_def)
  moreover have "cb_gross_spread a = cb_gross_spread b" using sa sb by auto
  ultimately show ?thesis using c sa sb by auto
qed

lemma scenarios_ordered:
  "scenario_le SCENARIO_BASE SCENARIO_CONSERVATIVE" "scenario_le SCENARIO_CONSERVATIVE SCENARIO_SEVERE"
  by (simp_all add: scenario_le_def SCENARIO_BASE_def SCENARIO_CONSERVATIVE_def SCENARIO_SEVERE_def)

text \<open>C30: The stress scenarios are ordered and the primary status is conservative. Whenever the three
  scenarios evaluate, cost grows and net PnL falls from base to conservative to severe, the status
  is \<open>MeetsMinimum\<close> exactly when the conservative net PnL exceeds the required minimum, and in that
  case the base net PnL exceeds it too and is positive.\<close>

theorem evaluate_scenarios_conservative:
  assumes "evaluate_scenarios i = Inr s"
  shows "cb_total_cost (se_base s) \<le> cb_total_cost (se_conservative s) \<and>
         cb_total_cost (se_conservative s) \<le> cb_total_cost (se_severe s) \<and>
         cb_expected_net_pnl (se_severe s) \<le> cb_expected_net_pnl (se_conservative s) \<and>
         cb_expected_net_pnl (se_conservative s) \<le> cb_expected_net_pnl (se_base s) \<and>
         (se_primary_status s = PP_MeetsMinimum \<longleftrightarrow>
            ei_minimum_required_net_pnl i < cb_expected_net_pnl (se_conservative s)) \<and>
         (se_primary_status s = PP_MeetsMinimum \<longrightarrow>
            ei_minimum_required_net_pnl i < cb_expected_net_pnl (se_base s) \<and> 0 < cb_expected_net_pnl (se_base s))"
proof -
  from assms have ev: "econ_evaluate i SCENARIO_BASE = Inr (se_base s)"
      "econ_evaluate i SCENARIO_CONSERVATIVE = Inr (se_conservative s)"
      "econ_evaluate i SCENARIO_SEVERE = Inr (se_severe s)"
    and ps: "se_primary_status s = (if cb_expected_net_pnl (se_conservative s) > ei_minimum_required_net_pnl i
             then PP_MeetsMinimum else PP_BelowMinimum)"
    unfolding evaluate_scenarios_def by (elim and_then_InrE; force)+
  have "econ_validate i SCENARIO_BASE = Inr ()" using econ_evaluate_stages [OF ev(1)] by blast
  then have "0 \<le> ei_minimum_required_net_pnl i" by (auto simp: econ_validate_def split: if_splits)
  with net_pnl_antimono [OF ev(1,2) scenarios_ordered(1)] net_pnl_antimono [OF ev(2,3) scenarios_ordered(2)] ps
  show ?thesis by auto
qed

section \<open>A concrete evaluation\<close>

definition sample_input :: economic_input where
  "sample_input = \<lparr>ei_settlement_asset = ''weth'', ei_settlement_asset_decimals = 18,
     ei_monetary_unit = SettlementAssetBaseUnits, ei_principal = 1000000000, ei_gross_output = 1020000000,
     ei_protocol_fees = 0, ei_pool_fees = 1000000, ei_price_impact = 1000000,
     ei_minimum_slippage_buffer = 1000000, ei_flash_loan_fee = 500000, ei_estimated_execution_gas = 300,
     ei_gas_price_wei = 100, ei_l1_data_fee = 10000, ei_contract_overhead = 0,
     ei_failed_attempt_gas_cost = 10000, ei_failure_probability_bps = 1000, ei_stale_state_loss = 10000,
     ei_stale_quote_probability_bps = 500, ei_state_drift_reserve = 10000, ei_latency_reserve = 10000,
     ei_uncertainty_reserve = 10000, ei_replacement_transaction_cost = 10000,
     ei_probability_of_success_bps = 9000, ei_minimum_required_net_pnl = 1000000\<rparr>"

lemmas econ_eval = econ_evaluate_def econ_validate_def signed_difference_def as_i128_def scale_def
  scale_probability_def probability_cost_def checked_sum_def checked_add_def checked_sub_def
  checked_mul_def try_narrow_def checked_signed_def fits_signed_def ECON_BPS_DENOMINATOR_def
  signed_divide_int_def

lemma sample_evaluates:
  "\<exists>b. econ_evaluate sample_input SCENARIO_BASE = Inr b"
  "\<exists>b. econ_evaluate sample_input SCENARIO_CONSERVATIVE = Inr b"
  "\<exists>b. econ_evaluate sample_input SCENARIO_SEVERE = Inr b"
  by (simp_all add: econ_eval sample_input_def SCENARIO_BASE_def SCENARIO_CONSERVATIVE_def SCENARIO_SEVERE_def)

theorem econ_evaluate_exact_witness:
  "\<exists>b. econ_evaluate sample_input SCENARIO_BASE = Inr b \<and>
       cb_expected_net_pnl b = 20000000 - uint (cb_total_cost b)"
proof -
  obtain b where b: "econ_evaluate sample_input SCENARIO_BASE = Inr b" using sample_evaluates by blast
  from econ_evaluate_exact [OF this] b show ?thesis by (auto simp: sample_input_def)
qed

theorem evaluate_scenarios_conservative_witness:
  "\<exists>s. evaluate_scenarios sample_input = Inr s \<and>
       cb_total_cost (se_base s) \<le> cb_total_cost (se_conservative s) \<and>
       cb_total_cost (se_conservative s) \<le> cb_total_cost (se_severe s)"
proof -
  obtain s where s: "evaluate_scenarios sample_input = Inr s"
    using sample_evaluates by (auto simp: evaluate_scenarios_def)
  from evaluate_scenarios_conservative [OF this] s show ?thesis by blast
qed

end
