(* ===== verification/Optimizer.thy ===== *)
theory Optimizer
  imports Domain
begin

text \<open>
  Candidate sizes, profit thresholds and the two-pass size optimiser of
  \<open>phoenix-engine/src/optimizer/mod.rs\<close>. The evaluator closure of \<open>optimize\<close> is a function
  argument; lengths and counts of type \<open>usize\<close> are compared as natural numbers.
\<close>

section \<open>Definitions\<close>

record optimizer_config =
  oc_min_amount :: amount
  oc_max_amount :: amount
  oc_max_evaluations :: usize
  oc_min_profit :: amount

record optimizer_result =
  or_best_amount :: amount
  or_gross_profit :: i128
  or_flash_premium :: amount
  or_expected_execution_cost :: amount
  or_expected_ordering_cost :: amount
  or_uncertainty_reserve :: amount
  or_expected_net_profit :: i128
  or_meets_minimum :: bool
  or_evaluated_amount_count :: usize

record candidate_evaluation =
  ce_amount :: amount
  ce_gross_profit :: i128
  ce_flash_premium :: amount
  ce_expected_execution_cost :: amount
  ce_expected_ordering_cost :: amount
  ce_uncertainty_reserve :: amount
  ce_expected_net_profit :: i128

record size_ladder_config =
  sl_min_amount :: amount
  sl_max_amount :: amount
  sl_max_evaluations :: usize
  sl_explicit_sizes :: "amount list option"
  sl_geometric_step_bps :: "u32 option"

record profit_threshold_config =
  ptc_absolute_minimum :: amount
  ptc_input_relative_minimum_bps :: u16
  ptc_conservative_cost_multiplier_bps :: u32

record profit_threshold =
  pt_absolute_minimum :: amount
  pt_input_relative_minimum :: amount
  pt_conservative_cost_safety_buffer :: amount
  pt_required :: amount

definition mul_div_ceil :: "u128 \<Rightarrow> u128 \<Rightarrow> u128 \<Rightarrow> domain_error + u128" where
  "mul_div_ceil value multiplier denominator =
     (if denominator = 0 then Inl ArithmeticUnderflow
      else
      and_then (ok_or ArithmeticOverflow (checked_mul value multiplier)) (\<lambda>product.
      ok_or ArithmeticOverflow
        (checked_add (product div denominator) (of_bool (product mod denominator \<noteq> 0)))))"

definition coarse_grid :: "u128 \<Rightarrow> u128 \<Rightarrow> usize \<Rightarrow> domain_error + u128 list" where
  "coarse_grid mn mx count =
     (if count \<le> 1 \<or> mn = mx then Inr [mn]
      else
      and_then (ok_or ArithmeticOverflow (checked_sub mx mn)) (\<lambda>span.
      and_then (ok_or ArithmeticOverflow (checked_sub count 1)) (\<lambda>d.
      let denominator = ucast d in
      collect_results (\<lambda>i.
        let index = of_nat i in
        ok_or ArithmeticOverflow
          (case checked_mul span index of None \<Rightarrow> None
           | Some scaled \<Rightarrow> checked_add mn (scaled div denominator)))
        [0 ..< unat count])))"

definition bounded_coarse_grid :: "u128 \<Rightarrow> u128 \<Rightarrow> usize \<Rightarrow> domain_error + u128 list" where
  "bounded_coarse_grid mn mx count =
     (if count \<le> 1 \<or> mn = mx then Inr [mn]
      else
      and_then (ok_or ArithmeticOverflow (checked_sub mx mn)) (\<lambda>span.
      and_then (ok_or ArithmeticOverflow (checked_sub count 1)) (\<lambda>requested_intervals.
      and_then (if span < ucast requested_intervals
                then and_then (ok_or ArithmeticOverflow (checked_add span 1)) (\<lambda>s.
                     ok_or ArithmeticOverflow (try_narrow s))
                else Inr count) (\<lambda>effective_count.
      and_then (ok_or ArithmeticOverflow (checked_sub effective_count 1)) (\<lambda>d.
      let denominator = ucast (d :: usize) in
      let quotient = span div denominator; remainder = span mod denominator in
      collect_results (\<lambda>i.
        let index = of_nat i in
        and_then (ok_or ArithmeticOverflow (checked_mul quotient index)) (\<lambda>whole.
        and_then (ok_or ArithmeticOverflow (checked_mul remainder index)) (\<lambda>scaled.
        let fraction = scaled div denominator in
        ok_or ArithmeticOverflow
          (case checked_add mn whole of None \<Rightarrow> None | Some value \<Rightarrow> checked_add value fraction))))
        [0 ..< unat effective_count])))))"

text \<open>The \<open>while\<close> loop of the geometric ladder, with the sizes pushed so far.\<close>

function geometric_loop :: "nat \<Rightarrow> u128 \<Rightarrow> u32 \<Rightarrow> amount list \<Rightarrow> domain_error + amount list" where
  "geometric_loop max_evaluations max_amount step_bps sizes =
     (if length sizes < max_evaluations then
        and_then (ok_or ArithmeticUnderflow (if sizes = [] then None else Some (last sizes))) (\<lambda>previous.
        if max_amount \<le> previous then Inr sizes
        else
        and_then (mul_div_ceil previous (ucast step_bps) 10000) (\<lambda>m.
        let next = min m max_amount in
        if next \<le> previous then Inl ArithmeticUnderflow
        else geometric_loop max_evaluations max_amount step_bps (sizes @ [next])))
      else Inr sizes)"
  by pat_completeness auto
termination
  by (relation "measure (\<lambda>(m, _, _, sizes). m - length sizes)") auto

declare geometric_loop.simps [simp del]

definition windows_increasing :: "amount list \<Rightarrow> bool" where
  "windows_increasing xs \<longleftrightarrow> list_all (\<lambda>(a, b). a < b) (zip xs (tl xs))"

definition generate_candidate_sizes :: "size_ladder_config \<Rightarrow> domain_error + amount list" where
  "generate_candidate_sizes c =
     (if sl_min_amount c = 0 \<or> sl_max_amount c < sl_min_amount c \<or> sl_max_evaluations c = 0 \<or>
         sl_explicit_sizes c \<noteq> None \<and> sl_geometric_step_bps c \<noteq> None
      then Inl ArithmeticUnderflow
      else case sl_explicit_sizes c of
        Some explicit \<Rightarrow>
          if explicit = [] \<or> length explicit > unat (sl_max_evaluations c) \<or>
             \<not> windows_increasing explicit \<or>
             list_ex (\<lambda>a. a < sl_min_amount c \<or> sl_max_amount c < a) explicit
          then Inl ArithmeticUnderflow
          else Inr explicit
      | None \<Rightarrow>
          (case sl_geometric_step_bps c of
             Some step_bps \<Rightarrow>
               if step_bps \<le> 10000 then Inl ArithmeticUnderflow
               else geometric_loop (unat (sl_max_evaluations c)) (sl_max_amount c) step_bps [sl_min_amount c]
           | None \<Rightarrow> bounded_coarse_grid (sl_min_amount c) (sl_max_amount c) (sl_max_evaluations c)))"

definition calculate_profit_threshold ::
  "amount \<Rightarrow> amount \<Rightarrow> profit_threshold_config \<Rightarrow> domain_error + profit_threshold" where
  "calculate_profit_threshold input_amount conservative_total_cost c =
     (if input_amount = 0 \<or> ptc_absolute_minimum c = 0 \<or> ptc_input_relative_minimum_bps c = 0 \<or>
         ptc_input_relative_minimum_bps c > 10000 \<or> ptc_conservative_cost_multiplier_bps c < 10000
      then Inl ArithmeticUnderflow
      else
      and_then (mul_div_ceil input_amount (ucast (ptc_input_relative_minimum_bps c)) 10000) (\<lambda>input_relative_minimum.
      and_then (ok_or ArithmeticUnderflow (checked_sub (ptc_conservative_cost_multiplier_bps c) 10000)) (\<lambda>buffer_bps.
      and_then (mul_div_ceil conservative_total_cost (ucast buffer_bps) 10000) (\<lambda>buffer.
      Inr \<lparr>pt_absolute_minimum = ptc_absolute_minimum c,
           pt_input_relative_minimum = input_relative_minimum,
           pt_conservative_cost_safety_buffer = buffer,
           pt_required = max (max (ptc_absolute_minimum c) input_relative_minimum) buffer\<rparr>))))"

text \<open>The pass over the coarse grid: the best candidate and the number of evaluations so far.\<close>

definition better_candidate :: "candidate_evaluation \<Rightarrow> candidate_evaluation option \<Rightarrow> candidate_evaluation option" where
  "better_candidate ev best =
     (case best of None \<Rightarrow> Some ev
      | Some b \<Rightarrow> if ce_expected_net_profit ev > ce_expected_net_profit b then Some ev else best)"

fun coarse_pass ::
  "(amount \<Rightarrow> domain_error + candidate_evaluation) \<Rightarrow> nat \<Rightarrow> amount list \<Rightarrow>
   candidate_evaluation option \<Rightarrow> nat \<Rightarrow> domain_error + (candidate_evaluation option \<times> nat)" where
  "coarse_pass evaluate max_evaluations [] best evaluated = Inr (best, evaluated)"
| "coarse_pass evaluate max_evaluations (a # as) best evaluated =
     (if max_evaluations \<le> evaluated then Inr (best, evaluated)
      else case evaluate a of
        Inl ArithmeticUnderflow \<Rightarrow> coarse_pass evaluate max_evaluations as best (evaluated + 1)
      | Inl err \<Rightarrow> Inl err
      | Inr ev \<Rightarrow> coarse_pass evaluate max_evaluations as (better_candidate ev best) (evaluated + 1))"

text \<open>The refinement \<open>while\<close> loop around the best coarse candidate.\<close>

function fine_pass ::
  "(amount \<Rightarrow> domain_error + candidate_evaluation) \<Rightarrow> nat \<Rightarrow> u128 \<Rightarrow> u128 \<Rightarrow> u128 \<Rightarrow>
   candidate_evaluation option \<Rightarrow> nat \<Rightarrow> domain_error + (candidate_evaluation option \<times> nat)" where
  "fine_pass evaluate max_evaluations step fin a best evaluated =
     (if a \<le> fin \<and> evaluated < max_evaluations then
        (case evaluate a of
           Inl ArithmeticUnderflow \<Rightarrow>
             (case checked_add a step of
                None \<Rightarrow> Inr (best, evaluated + 1)
              | Some next \<Rightarrow> fine_pass evaluate max_evaluations step fin next best (evaluated + 1))
         | Inl err \<Rightarrow> Inl err
         | Inr ev \<Rightarrow>
             (case checked_add a step of
                None \<Rightarrow> Inr (better_candidate ev best, evaluated + 1)
              | Some next \<Rightarrow>
                  fine_pass evaluate max_evaluations step fin next (better_candidate ev best) (evaluated + 1)))
      else Inr (best, evaluated))"
  by pat_completeness auto
termination
  by (relation "measure (\<lambda>(_, m, _, _, _, _, e). m - e)") auto

declare fine_pass.simps [simp del]

definition optimize ::
  "optimizer_config \<Rightarrow> (amount \<Rightarrow> domain_error + candidate_evaluation) \<Rightarrow>
   domain_error + optimizer_result option" where
  "optimize cfg evaluate =
     (if oc_min_amount cfg = 0 \<or> oc_max_amount cfg < oc_min_amount cfg \<or> oc_max_evaluations cfg = 0
      then Inr None
      else
      and_then (ok_or ArithmeticOverflow (checked_signed 128 (uint (oc_min_profit cfg)))) (\<lambda>minimum_profit.
      and_then (coarse_grid (oc_min_amount cfg) (oc_max_amount cfg) (min (oc_max_evaluations cfg) 16)) (\<lambda>candidates.
      and_then (coarse_pass evaluate (unat (oc_max_evaluations cfg)) candidates None 0) (\<lambda>(best, evaluated).
      and_then
        (case best of
           None \<Rightarrow> Inr (best, evaluated)
         | Some best_ev \<Rightarrow>
             and_then (ok_or ArithmeticOverflow (checked_sub (oc_max_amount cfg) (oc_min_amount cfg))) (\<lambda>range.
             let width = max (range div 16) 1;
                 start = max (case checked_sub (ce_amount best_ev) width of
                                None \<Rightarrow> oc_min_amount cfg | Some v \<Rightarrow> v) (oc_min_amount cfg);
                 fin = min (case checked_add (ce_amount best_ev) width of
                              None \<Rightarrow> oc_max_amount cfg | Some v \<Rightarrow> v) (oc_max_amount cfg);
                 step = max (width div 4) 1 in
             fine_pass evaluate (unat (oc_max_evaluations cfg)) step fin start best evaluated))
        (\<lambda>(best, evaluated).
      Inr (map_option (\<lambda>b.
        \<lparr>or_best_amount = ce_amount b, or_gross_profit = ce_gross_profit b,
         or_flash_premium = ce_flash_premium b,
         or_expected_execution_cost = ce_expected_execution_cost b,
         or_expected_ordering_cost = ce_expected_ordering_cost b,
         or_uncertainty_reserve = ce_uncertainty_reserve b,
         or_expected_net_profit = ce_expected_net_profit b,
         or_meets_minimum = (minimum_profit \<le> ce_expected_net_profit b),
         or_evaluated_amount_count = of_nat evaluated\<rparr>) best))))))"

section \<open>Readings\<close>

lemma mul_div_ceil_Inr:
  "mul_div_ceil v m d = Inr r \<longleftrightarrow>
     d \<noteq> 0 \<and> unat v * unat m < 2 ^ 128 \<and> unat r = cdiv (unat v * unat m) (unat d)"
  by (cases "unat v * unat m < 2 ^ 128")
     (auto simp: mul_div_ceil_def checked_mul_def result_simps checked_add_Some unat_mult_exact unat_div unat_mod
       cdiv_def simp flip: unat_0_iff)

lemma windows_increasing_iff: "windows_increasing xs \<longleftrightarrow> sorted_wrt (<) xs"
proof (induction xs)
  case (Cons a xs)
  then show ?case by (cases xs) (auto simp: windows_increasing_def intro: less_trans)
qed (simp add: windows_increasing_def)

text \<open>What every ladder of candidate sizes satisfies.\<close>

definition size_ladder :: "amount \<Rightarrow> amount \<Rightarrow> nat \<Rightarrow> amount list \<Rightarrow> bool" where
  "size_ladder mn mx n xs \<longleftrightarrow>
     xs \<noteq> [] \<and> length xs \<le> n \<and> sorted_wrt (<) xs \<and> (\<forall>x \<in> set xs. mn \<le> x \<and> x \<le> mx)"

lemma size_ladder_snoc:
  assumes "size_ladder mn mx n xs" "length xs < n" "last xs < x" "x \<le> mx"
  shows "size_ladder mn mx n (xs @ [x])"
proof -
  obtain ys y where xs: "xs = ys @ [y]" using assms(1) by (cases xs rule: rev_cases) (auto simp: size_ladder_def)
  with assms have "\<forall>z \<in> set xs. z < x" by (auto simp: size_ladder_def sorted_wrt_append intro: less_trans)
  with assms show ?thesis by (auto simp: size_ladder_def sorted_wrt_append xs intro: less_imp_le order_trans)
qed

lemma geometric_loop_ladder:
  assumes "geometric_loop n mx step xs = Inr ys" "size_ladder mn mx n xs"
  shows "size_ladder mn mx n ys"
  using assms
proof (induction n mx step xs rule: geometric_loop.induct)
  case (1 n mx step xs)
  have ne: "xs \<noteq> []" using "1.prems"(2) by (simp add: size_ladder_def)
  show ?case
  proof (cases "length xs < n \<and> last xs < mx")
    case True
    with "1.prems"(1) ne obtain m where m: "mul_div_ceil (last xs) (ucast step) 10000 = Inr m"
        "last xs < min m mx" "geometric_loop n mx step (xs @ [min m mx]) = Inr ys"
      by (subst (asm) geometric_loop.simps) (auto simp: result_simps Let_def not_le split: if_splits)
    with True ne "1.prems"(2) show ?thesis
      by (intro "1.IH" [OF _ _ _ m(1)]) (auto simp: not_le intro!: size_ladder_snoc)
  next
    case False
    with "1.prems" ne show ?thesis
      by (subst (asm) geometric_loop.simps) (auto simp: not_less split: if_splits)
  qed
qed

section \<open>The bounded grid\<close>

definition grid_offset :: "nat \<Rightarrow> nat \<Rightarrow> nat \<Rightarrow> nat" where
  "grid_offset span d i = span div d * i + span mod d * i div d"

lemma grid_offset_last: "0 < d \<Longrightarrow> grid_offset span d d = span"
  by (simp add: grid_offset_def)

lemma grid_offset_strict_mono:
  assumes "0 < d" "d \<le> span" "i < j"
  shows "grid_offset span d i < grid_offset span d j"
proof -
  have "1 \<le> span div d" using assms by (simp add: div_greater_zero_iff Suc_le_eq)
  then have "span div d * i < span div d * j" using assms(3) by (intro mult_strict_left_mono) simp_all
  moreover have "span mod d * i div d \<le> span mod d * j div d"
    using assms(3) by (intro div_le_mono mult_le_mono2) simp
  ultimately show ?thesis unfolding grid_offset_def by linarith
qed

lemma grid_offset_le:
  assumes "0 < d" "d \<le> span" "i \<le> d"
  shows "grid_offset span d i \<le> span"
  using grid_offset_strict_mono [OF assms(1,2), of i d] grid_offset_last [OF assms(1), of span] assms(3)
  by (cases "i = d") auto

definition grid_point :: "u128 \<Rightarrow> u128 \<Rightarrow> u128 \<Rightarrow> nat \<Rightarrow> domain_error + u128" where
  "grid_point mn span denominator i =
     (let quotient = span div denominator; remainder = span mod denominator; index = of_nat i in
      and_then (ok_or ArithmeticOverflow (checked_mul quotient index)) (\<lambda>whole.
      and_then (ok_or ArithmeticOverflow (checked_mul remainder index)) (\<lambda>scaled.
      let fraction = scaled div denominator in
      ok_or ArithmeticOverflow
        (case checked_add mn whole of None \<Rightarrow> None | Some value \<Rightarrow> checked_add value fraction))))"

lemma grid_point_exact:
  assumes d: "0 < unat d" "unat d \<le> unat span" "unat d < 2 ^ 64" and i: "i \<le> unat d"
    and fit: "unat mn + unat span < 2 ^ 128"
  shows "grid_point mn span d i = Inr (of_nat (unat mn + grid_offset (unat span) (unat d) i))"
proof -
  let ?S = "unat span" and ?D = "unat d"
  have le: "grid_offset ?S ?D i \<le> ?S" using grid_offset_le d i by blast
  have ui: "unat (of_nat i :: u128) = i" using d i by (intro unat_of_nat_exact) simp
  have w: "?S div ?D * i \<le> ?S" and f: "?S div ?D * i + ?S mod ?D * i div ?D \<le> ?S"
    using le by (simp_all add: grid_offset_def)
  have "?S mod ?D * i \<le> ?D * ?D" using d i by (intro mult_le_mono) auto
  also have "\<dots> < 2 ^ 128" using unat_mult_bound [of 64 64 128 ?D ?D] d by simp
  finally have r: "?S mod ?D * i < 2 ^ 128" .
  define whole scaled where "whole = span div d * of_nat i" and "scaled = span mod d * of_nat i"
  have whole: "checked_mul (span div d) (of_nat i) = Some whole" "unat whole = ?S div ?D * i"
    using w fit by (simp_all add: whole_def checked_mul_def unat_div ui unat_mult_exact)
  have scaled: "checked_mul (span mod d) (of_nat i) = Some scaled" "unat scaled = ?S mod ?D * i"
    using r by (simp_all add: scaled_def checked_mul_def unat_mod ui unat_mult_exact)
  have a1: "checked_add mn whole = Some (mn + whole)" "unat (mn + whole) = unat mn + ?S div ?D * i"
    using w fit by (simp_all add: checked_add_def unat_add_exact whole)
  have sd: "unat (scaled div d) = ?S mod ?D * i div ?D" by (simp add: unat_div scaled)
  have fit': "unat mn + ?S div ?D * i + ?S mod ?D * i div ?D < 2 ^ 128" using f fit by linarith
  have "checked_add (mn + whole) (scaled div d) = Some (mn + whole + scaled div d)"
    using fit' by (simp add: checked_add_def a1 sd)
  moreover have "unat (mn + whole + scaled div d) = unat mn + grid_offset ?S ?D i"
    using fit' by (simp add: unat_add_exact a1 sd grid_offset_def)
  then have "mn + whole + scaled div d = of_nat (unat mn + grid_offset ?S ?D i)"
    by (rule eq_of_unat)
  ultimately show ?thesis by (simp add: grid_point_def Let_def whole scaled a1)
qed

lemma bounded_coarse_grid_exact:
  assumes "mn < mx" "1 < count"
  defines "S \<equiv> unat mx - unat mn" and "D \<equiv> min (unat mx - unat mn) (unat count - 1)"
  shows "bounded_coarse_grid mn mx count =
           Inr (map (\<lambda>i. of_nat (unat mn + grid_offset S D i)) [0 ..< Suc D])"
proof -
  have S: "unat (mx - mn) = S" "checked_sub mx mn = Some (mx - mn)" "0 < S"
    using assms(1) less_imp_le [OF assms(1)] by (auto simp: S_def unat_sub_exact checked_sub_exact word_less_nat_alt)
  have c1: "checked_sub count 1 = Some (count - 1)" "unat (count - 1) = unat count - 1" "1 \<le> unat count - 1"
    using assms(2) by (auto simp: checked_sub_def word_less_nat_alt word_le_nat_alt unat_sub_exact)
  define e :: usize where "e = (if S < unat count - 1 then of_nat (S + 1) else count)"
  have cnt: "unat count < 2 ^ 64" using unat_less_exp [of count] by simp
  have "S < unat count - 1 \<Longrightarrow> unat (of_nat (S + 1) :: usize) = S + 1"
    using cnt by (intro unat_of_nat_exact) simp
  then have e: "unat e = Suc D" using c1(3) by (auto simp: e_def D_def S_def simp del: of_nat_add)
  have eff: "(if mx - mn < ucast (count - 1)
      then and_then (ok_or ArithmeticOverflow (checked_add (mx - mn) 1)) (\<lambda>s. ok_or ArithmeticOverflow (try_narrow s))
      else Inr count) = Inr e"
  proof (cases "S < unat count - 1")
    case True
    then have u: "unat (mx - mn + 1) = S + 1" using cnt by (simp add: S unat_add_exact)
    then have "checked_add (mx - mn) 1 = Some (mx - mn + 1)" "try_narrow (mx - mn + 1) = Some e"
      using True cnt e by (auto simp: checked_simps S D_def S_def)
    then show ?thesis using True by (simp add: word_less_nat_alt S c1)
  qed (simp add: word_less_nat_alt S c1 e_def)
  have e1: "checked_sub e 1 = Some (e - 1)" "unat (e - 1) = D"
    using e by (simp_all add: checked_sub_def word_le_nat_alt unat_sub_exact)
  have D: "0 < D" "D \<le> S" "D < 2 ^ 64" using S(3) c1(3) cnt by (auto simp: D_def S_def)
  have "collect_results (grid_point mn (mx - mn) (ucast (e - 1))) [0 ..< unat e] =
      Inr (map (\<lambda>i. of_nat (unat mn + grid_offset S D i)) [0 ..< Suc D])"
  proof (subst e, rule collect_results_map)
    fix i assume "i \<in> set [0 ..< Suc D]"
    then have "i \<le> D" by auto
    moreover have "unat mn + S < 2 ^ 128" using assms(1) unat_less_exp [of mx] by (simp add: S_def word_less_nat_alt)
    ultimately show "grid_point mn (mx - mn) (ucast (e - 1)) i = Inr (of_nat (unat mn + grid_offset S D i))"
      using grid_point_exact [of "ucast (e - 1)" "mx - mn" i mn] D by (simp add: e1 S)
  qed
  moreover have "\<not> count \<le> 1" "mn \<noteq> mx" using assms by auto
  ultimately show ?thesis
    by (simp only: bounded_coarse_grid_def simp_thms if_False S(2) c1(1) e1(1) eff ok_or_simps and_then_simps Let_def
        grid_point_def [abs_def])
qed

lemma bounded_coarse_grid_ladder:
  assumes "mn \<le> mx" "count \<noteq> 0"
  shows "\<exists>xs. bounded_coarse_grid mn mx count = Inr xs \<and> size_ladder mn mx (unat count) xs"
proof (cases "count \<le> 1 \<or> mn = mx")
  case True
  with assms show ?thesis by (auto simp: bounded_coarse_grid_def size_ladder_def unat_gt_0 Suc_le_eq)
next
  case False
  then have lt: "mn < mx" "1 < count" using assms by auto
  define S D where "S = unat mx - unat mn" and "D = min (unat mx - unat mn) (unat count - 1)"
  let ?p = "\<lambda>i. of_nat (unat mn + grid_offset S D i) :: u128"
  have D: "0 < D" "D \<le> S" using lt by (auto simp: S_def D_def word_less_nat_alt)
  have up: "unat (?p i) = unat mn + grid_offset S D i" "unat mn + grid_offset S D i \<le> unat mx" if "i \<le> D" for i
  proof -
    show "unat mn + grid_offset S D i \<le> unat mx"
      using grid_offset_le [OF D that] lt by (simp add: S_def word_less_nat_alt)
    then show "unat (?p i) = unat mn + grid_offset S D i"
      using unat_less_exp [of mx] by (intro unat_of_nat_exact) (simp del: unat_less_exp)
  qed
  have len: "Suc D \<le> unat count" using lt(2) by (auto simp: D_def word_less_nat_alt)
  have step: "?p i < ?p j" if "i < j" "j \<le> D" for i j
    using grid_offset_strict_mono [OF D that(1)] that up(1) by (simp add: word_less_nat_alt del: of_nat_add)
  have within: "mn \<le> ?p i \<and> ?p i \<le> mx" if "i \<le> D" for i
    using up [OF that] by (simp add: word_le_nat_alt del: of_nat_add)
  have "size_ladder mn mx (unat count) (map ?p [0 ..< Suc D])"
    unfolding size_ladder_def sorted_wrt_map sorted_wrt_iff_nth_less
  proof (intro conjI)
    show "\<forall>x \<in> set (map ?p [0 ..< Suc D]). mn \<le> x \<and> x \<le> mx"
      using within by (auto simp del: of_nat_add upt_Suc)
  qed (use len step in \<open>auto simp del: of_nat_add upt_Suc\<close>)
  with bounded_coarse_grid_exact [OF lt] show ?thesis unfolding S_def D_def by blast
qed

section \<open>The optimiser\<close>

definition best_ge :: "candidate_evaluation option \<Rightarrow> candidate_evaluation \<Rightarrow> bool" where
  "best_ge best v \<longleftrightarrow> (\<exists>b. best = Some b \<and> ce_expected_net_profit v \<le> ce_expected_net_profit b)"

lemma best_ge_better [simp]:
  "best_ge (better_candidate v best) v" "best_ge best w \<Longrightarrow> best_ge (better_candidate v best) w"
  by (auto simp: best_ge_def better_candidate_def split: option.split)

text \<open>What a pass keeps: the count stays within the budget, the best candidate comes from the
  evaluator on an amount satisfying \<open>P\<close> or was there before, and it never gets worse.\<close>

definition pass_ok ::
  "(amount \<Rightarrow> domain_error + candidate_evaluation) \<Rightarrow> (amount \<Rightarrow> bool) \<Rightarrow> nat \<Rightarrow>
   candidate_evaluation option \<times> nat \<Rightarrow> candidate_evaluation option \<times> nat \<Rightarrow> bool" where
  "pass_ok evaluate P n s s' \<longleftrightarrow>
     (snd s \<le> n \<longrightarrow> snd s' \<le> n) \<and>
     (\<forall>b. fst s' = Some b \<longrightarrow> fst s = Some b \<or> (\<exists>a. P a \<and> evaluate a = Inr b)) \<and>
     (\<forall>v. best_ge (fst s) v \<longrightarrow> best_ge (fst s') v)"

lemma pass_ok_refl: "pass_ok evaluate P n s s"
  by (simp add: pass_ok_def)

lemma pass_ok_trans:
  "pass_ok evaluate P n s s' \<Longrightarrow> pass_ok evaluate P n s' s'' \<Longrightarrow> pass_ok evaluate P n s s''"
  unfolding pass_ok_def by blast

lemma pass_ok_step:
  assumes "P a" "e < n"
  shows "pass_ok evaluate P n (best, e) (best, e + 1)"
    "evaluate a = Inr v \<Longrightarrow> pass_ok evaluate P n (best, e) (better_candidate v best, e + 1)"
  using assms by (auto simp: pass_ok_def better_candidate_def split: option.splits if_splits)
    (auto simp: best_ge_def)

lemma coarse_pass_ok:
  assumes "coarse_pass evaluate n as best e = Inr s'" "\<forall>a \<in> set as. P a"
  shows "pass_ok evaluate P n (best, e) s' \<and>
         (e + length as \<le> n \<longrightarrow> (\<forall>a \<in> set as. \<forall>v. evaluate a = Inr v \<longrightarrow> best_ge (fst s') v))"
  using assms
proof (induction as arbitrary: best e)
  case Nil
  then show ?case by (auto simp: pass_ok_refl)
next
  case (Cons a as)
  show ?case
  proof (cases "n \<le> e")
    case True
    with Cons.prems show ?thesis by (auto simp: pass_ok_refl)
  next
    case False
    then have step: "\<And>best'. (best' = best \<or> (\<exists>v. evaluate a = Inr v \<and> best' = better_candidate v best)) \<Longrightarrow>
        pass_ok evaluate P n (best, e) (best', e + 1)"
      using pass_ok_step [of P a e n] Cons.prems(2) by auto
    show ?thesis
    proof (cases "evaluate a")
      case (Inl err)
      with False Cons.prems(1) have "coarse_pass evaluate n as best (e + 1) = Inr s'"
        by (cases err) simp_all
      with Cons.IH [of best "e + 1"] Cons.prems(2) step [of best] Inl show ?thesis
        by (auto intro: pass_ok_trans)
    next
      case (Inr v)
      with False Cons.prems(1) have "coarse_pass evaluate n as (better_candidate v best) (e + 1) = Inr s'" by simp
      note IH = Cons.IH [OF this] Cons.prems(2)
      from IH have "pass_ok evaluate P n (better_candidate v best, e + 1) s'" by simp
      then have "best_ge (fst s') v" by (simp add: pass_ok_def)
      with IH Inr step [of "better_candidate v best"] show ?thesis by (auto intro: pass_ok_trans)
    qed
  qed
qed

lemma fine_pass_ok:
  assumes "fine_pass evaluate n step fin a best e = Inr s'" "\<And>x. a \<le> x \<Longrightarrow> x \<le> fin \<Longrightarrow> P x"
  shows "pass_ok evaluate P n (best, e) s'"
  using assms
proof (induction evaluate n step fin a best e rule: fine_pass.induct)
  case (1 evaluate n step fin a best e)
  show ?case
  proof (cases "a \<le> fin \<and> e < n")
    case False
    with "1.prems"(1) show ?thesis by (subst (asm) fine_pass.simps) (auto simp: pass_ok_refl)
  next
    case True
    then have "P a" "e < n" using "1.prems"(2) by auto
    note st = pass_ok_step [where P = P and a = a and evaluate = evaluate and best = best, OF this]
    have mono: "P y" if "checked_add a step = Some x" "x \<le> y" "y \<le> fin" for x y
      using that "1.prems"(2) by (auto simp: checked_add_Some word_le_nat_alt)
    show ?thesis
    proof (cases "evaluate a")
      case (Inl err)
      have u: "err = ArithmeticUnderflow"
        using "1.prems"(1) True Inl by (subst (asm) fine_pass.simps) (cases err; simp)
      show ?thesis
      proof (cases "checked_add a step")
        case None
        with "1.prems"(1) True Inl u st(1) show ?thesis by (subst (asm) fine_pass.simps) simp
      next
        case (Some x)
        have "fine_pass evaluate n step fin x best (e + 1) = Inr s'"
          using "1.prems"(1) True Inl u Some by (subst (asm) fine_pass.simps) simp
        then show ?thesis
          using "1.IH"(1) [OF True Inl u Some] mono [OF Some] st(1) by (auto intro: pass_ok_trans)
      qed
    next
      case (Inr v)
      show ?thesis
      proof (cases "checked_add a step")
        case None
        with "1.prems"(1) True Inr st(2) show ?thesis by (subst (asm) fine_pass.simps) simp
      next
        case (Some x)
        have "fine_pass evaluate n step fin x (better_candidate v best) (e + 1) = Inr s'"
          using "1.prems"(1) True Inr Some by (subst (asm) fine_pass.simps) simp
        then show ?thesis
          using "1.IH"(2) [OF True Inr Some] mono [OF Some] st(2) [OF Inr] by (auto intro: pass_ok_trans)
      qed
    qed
  qed
qed

lemma coarse_grid_within:
  assumes "coarse_grid mn mx count = Inr g" "mn \<le> mx" "count \<noteq> 0"
  shows "length g \<le> unat count \<and> (\<forall>a \<in> set g. mn \<le> a \<and> a \<le> mx)"
proof (cases "count \<le> 1 \<or> mn = mx")
  case True
  with assms show ?thesis by (auto simp: coarse_grid_def unat_gt_0 Suc_le_eq)
next
  case False
  let ?d = "ucast (count - 1) :: u128" and ?S = "mx - mn"
  let ?f = "\<lambda>i. ok_or ArithmeticOverflow (case checked_mul ?S (of_nat i) of None \<Rightarrow> None
      | Some scaled \<Rightarrow> checked_add mn (scaled div ?d))"
  have S: "unat ?S = unat mx - unat mn" using assms(2) by (simp add: unat_sub_exact)
  have d: "unat ?d = unat count - 1" "0 < unat ?d" using False by (auto simp: word_le_nat_alt unat_sub_exact)
  have "collect_results ?f [0 ..< unat count] = Inr g"
    using assms False
    by (simp add: coarse_grid_def checked_sub_exact Let_def word_le_nat_alt)
  then have all: "list_all2 (\<lambda>i y. ?f i = Inr y) [0 ..< unat count] g" by (simp add: collect_results_Inr)
  have "mn \<le> a \<and> a \<le> mx" if "i < unat count" "?f i = Inr a" for i a
  proof -
    have i: "unat (of_nat i :: u128) = i"
      using that(1) unat_less_exp [of count] by (intro unat_of_nat_exact) simp
    from that(2) have a: "unat a = unat mn + unat ?S * i div (unat count - 1)"
      by (auto simp: result_simps checked_simps unat_div d i simp del: of_nat_numeral split: option.splits)
    have "unat ?S * i \<le> unat ?S * (unat count - 1)" using that(1) by (intro mult_le_mono2) simp
    then have "unat ?S * i div (unat count - 1) \<le> unat ?S"
      using d by (metis div_le_mono nonzero_mult_div_cancel_right neq0_conv)
    then show ?thesis using a S assms(2) by (simp add: word_le_nat_alt)
  qed
  with all show ?thesis by (auto simp: list_all2_conv_all_nth in_set_conv_nth)
qed

section \<open>Properties\<close>

text \<open>Every ladder of candidate sizes is usable: whichever mode produced it (explicit, geometric or
  grid), a returned list is non-empty, strictly increasing, within the configured minimum and
  maximum, and no longer than the evaluation budget.\<close>

theorem generate_candidate_sizes_ladder:
  assumes "generate_candidate_sizes c = Inr xs"
  shows "size_ladder (sl_min_amount c) (sl_max_amount c) (unat (sl_max_evaluations c)) xs"
proof -
  let ?ladder = "size_ladder (sl_min_amount c) (sl_max_amount c) (unat (sl_max_evaluations c))"
  from assms have ok: "sl_min_amount c \<le> sl_max_amount c" "sl_max_evaluations c \<noteq> 0"
    by (auto simp: generate_candidate_sizes_def not_less split: if_splits)
  then have start: "?ladder [sl_min_amount c]" by (simp add: size_ladder_def Suc_le_eq unat_gt_0)
  show ?thesis
  proof (cases "sl_explicit_sizes c")
    case (Some explicit)
    with assms show ?thesis
      by (auto simp: generate_candidate_sizes_def size_ladder_def windows_increasing_iff list_ex_iff not_less
          split: if_splits)
  next
    case None
    show ?thesis
    proof (cases "sl_geometric_step_bps c")
      case (Some step)
      with None assms have "geometric_loop (unat (sl_max_evaluations c)) (sl_max_amount c) step [sl_min_amount c] = Inr xs"
        by (auto simp: generate_candidate_sizes_def split: if_splits)
      then show ?thesis by (rule geometric_loop_ladder) (rule start)
    next
      case grid: None
      with None assms have "bounded_coarse_grid (sl_min_amount c) (sl_max_amount c) (sl_max_evaluations c) = Inr xs"
        by (auto simp: generate_candidate_sizes_def split: if_splits)
      then show ?thesis using bounded_coarse_grid_ladder [OF ok] by auto
    qed
  qed
qed

text \<open>The default grid never fails: for every valid configuration without explicit sizes or a
  geometric step, the candidate sizes are computed without overflow even when the span does not fit
  a multiplication by the index, and they start at the minimum; with a budget of at least two they
  end at the maximum.\<close>

theorem generate_grid_total:
  assumes "sl_min_amount c \<noteq> 0" "sl_min_amount c \<le> sl_max_amount c" "sl_max_evaluations c \<noteq> 0"
    and "sl_explicit_sizes c = None" "sl_geometric_step_bps c = None"
  shows "\<exists>xs. generate_candidate_sizes c = Inr xs \<and> xs \<noteq> [] \<and> hd xs = sl_min_amount c \<and>
           (1 < sl_max_evaluations c \<longrightarrow> last xs = sl_max_amount c)"
proof (cases "sl_max_evaluations c \<le> 1 \<or> sl_min_amount c = sl_max_amount c")
  case True
  with assms show ?thesis by (auto simp: generate_candidate_sizes_def bounded_coarse_grid_def)
next
  case False
  let ?mn = "sl_min_amount c" and ?mx = "sl_max_amount c"
  have lt: "?mn < ?mx" "1 < sl_max_evaluations c" using False assms by auto
  define S D where "S = unat ?mx - unat ?mn" and "D = min (unat ?mx - unat ?mn) (unat (sl_max_evaluations c) - 1)"
  have D: "0 < D" using lt by (auto simp: D_def word_less_nat_alt)
  have "generate_candidate_sizes c = Inr (map (\<lambda>i. of_nat (unat ?mn + grid_offset S D i)) [0 ..< Suc D])"
    using bounded_coarse_grid_exact [OF lt] assms by (simp add: generate_candidate_sizes_def S_def D_def)
  moreover have "of_nat (unat ?mn + grid_offset S D 0) = ?mn" by (simp add: grid_offset_def)
  moreover have "of_nat (unat ?mn + grid_offset S D D) = ?mx"
    using lt by (simp add: grid_offset_last [OF D] S_def word_less_nat_alt del: of_nat_add)
  ultimately show ?thesis
    by (intro exI [of _ "map (\<lambda>i. of_nat (unat ?mn + grid_offset S D i)) [0 ..< Suc D]"])
       (simp add: hd_map last_map del: of_nat_add upt_Suc)
qed

text \<open>The profit threshold is the exact maximum of its three parts: the absolute minimum, the
  input-relative minimum rounded up, and the safety buffer over the conservative cost rounded up, so
  meeting it meets each of them.\<close>

theorem profit_threshold_exact:
  assumes "calculate_profit_threshold x cost c = Inr t"
  shows "unat (pt_required t) =
           max (max (unat (ptc_absolute_minimum c)) (cdiv (unat x * unat (ptc_input_relative_minimum_bps c)) 10000))
               (cdiv (unat cost * (unat (ptc_conservative_cost_multiplier_bps c) - 10000)) 10000) \<and>
         unat x * unat (ptc_input_relative_minimum_bps c) \<le> unat (pt_required t) * 10000 \<and>
         unat cost * (unat (ptc_conservative_cost_multiplier_bps c) - 10000) \<le> unat (pt_required t) * 10000 \<and>
         0 < unat (pt_required t)"
proof -
  have max_unat: "unat (max a b) = max (unat a) (unat b)" for a b :: u128
    by (simp add: max_def word_le_nat_alt)
  from assms obtain m b buf where
    "mul_div_ceil x (ucast (ptc_input_relative_minimum_bps c)) 10000 = Inr m"
    "checked_sub (ptc_conservative_cost_multiplier_bps c) 10000 = Some b"
    "mul_div_ceil cost (ucast b) 10000 = Inr buf"
    and t: "pt_required t = max (max (ptc_absolute_minimum c) m) buf" "ptc_absolute_minimum c \<noteq> 0"
    by (auto simp: calculate_profit_threshold_def result_simps split: if_splits)
  then have "unat m = cdiv (unat x * unat (ptc_input_relative_minimum_bps c)) 10000"
    "unat buf = cdiv (unat cost * (unat (ptc_conservative_cost_multiplier_bps c) - 10000)) 10000"
    by (simp_all add: mul_div_ceil_Inr checked_sub_Some)
  then have r: "unat (pt_required t) =
           max (max (unat (ptc_absolute_minimum c)) (cdiv (unat x * unat (ptc_input_relative_minimum_bps c)) 10000))
               (cdiv (unat cost * (unat (ptc_conservative_cost_multiplier_bps c) - 10000)) 10000)"
    by (simp add: t max_unat)
  have "0 < unat (ptc_absolute_minimum c)" using t(2) by (simp add: unat_gt_0)
  then have "0 < unat (pt_required t)" unfolding r by simp
  moreover have "cdiv (unat x * unat (ptc_input_relative_minimum_bps c)) 10000 \<le> unat (pt_required t)"
    "cdiv (unat cost * (unat (ptc_conservative_cost_multiplier_bps c) - 10000)) 10000 \<le> unat (pt_required t)"
    unfolding r by simp_all
  ultimately show ?thesis using r by (simp only: cdiv_le_iff zero_less_numeral simp_thms)
qed

text \<open>C29: The optimiser returns the best it saw, within its budget and range. A result comes from the
  evaluator on an amount between the configured minimum and maximum, its net profit is at least that
  of every successfully evaluated point of the coarse grid, the minimum-profit flag is exact, and
  the number of evaluations never exceeds the budget.\<close>

theorem optimize_best:
  assumes opt: "optimize cfg evaluate = Inr (Some r)"
    and grid: "coarse_grid (oc_min_amount cfg) (oc_max_amount cfg) (min (oc_max_evaluations cfg) 16) = Inr g"
  shows "unat (or_evaluated_amount_count r) \<le> unat (oc_max_evaluations cfg) \<and>
         (or_meets_minimum r \<longleftrightarrow> uint (oc_min_profit cfg) \<le> or_expected_net_profit r) \<and>
         (\<exists>a v. oc_min_amount cfg \<le> a \<and> a \<le> oc_max_amount cfg \<and> evaluate a = Inr v \<and>
            or_best_amount r = ce_amount v \<and> or_expected_net_profit r = ce_expected_net_profit v) \<and>
         (\<forall>a \<in> set g. \<forall>v. evaluate a = Inr v \<longrightarrow> ce_expected_net_profit v \<le> or_expected_net_profit r)"
proof -
  let ?mn = "oc_min_amount cfg" and ?mx = "oc_max_amount cfg" and ?n = "unat (oc_max_evaluations cfg)"
  let ?P = "\<lambda>a. ?mn \<le> a \<and> a \<le> ?mx"
  from opt have valid: "?mn \<le> ?mx" "oc_max_evaluations cfg \<noteq> 0"
    by (auto simp: optimize_def not_less split: if_splits)
  have cnt: "min (oc_max_evaluations cfg) 16 \<noteq> 0" "unat (min (oc_max_evaluations cfg) 16) \<le> ?n"
    using valid(2) by (auto simp: min_def word_le_nat_alt)
  note gr = coarse_grid_within [OF grid valid(1) cnt(1)]
  from opt grid obtain best e where cp: "coarse_pass evaluate ?n g None 0 = Inr (best, e)"
    by (auto simp: optimize_def result_simps split: if_splits)
  from coarse_pass_ok [OF cp, of ?P] gr cnt(2) have
    c1: "pass_ok evaluate ?P ?n (None, 0) (best, e)" and
    c2: "\<forall>a \<in> set g. \<forall>v. evaluate a = Inr v \<longrightarrow> best_ge best v" by auto
  obtain b e' where fin: "pass_ok evaluate ?P ?n (best, e) (Some b, e')" and
    r: "or_best_amount r = ce_amount b" "or_expected_net_profit r = ce_expected_net_profit b"
       "or_meets_minimum r = (uint (oc_min_profit cfg) \<le> ce_expected_net_profit b)"
       "or_evaluated_amount_count r = of_nat e'"
  proof (cases best)
    case None
    with opt grid cp show ?thesis by (auto simp: optimize_def result_simps split: if_splits)
  next
    case (Some b0)
    from opt grid cp Some obtain st b e' where
      fp: "fine_pass evaluate ?n (max (max ((?mx - ?mn) div 16) 1 div 4) 1)
        (min (case checked_add (ce_amount b0) (max ((?mx - ?mn) div 16) 1) of None \<Rightarrow> ?mx | Some v \<Rightarrow> v) ?mx)
        (max (case checked_sub (ce_amount b0) (max ((?mx - ?mn) div 16) 1) of None \<Rightarrow> ?mn | Some v \<Rightarrow> v) ?mn)
        best e = Inr (Some b, e')" and
      r: "or_best_amount r = ce_amount b" "or_expected_net_profit r = ce_expected_net_profit b"
       "or_meets_minimum r = (uint (oc_min_profit cfg) \<le> ce_expected_net_profit b)"
       "or_evaluated_amount_count r = of_nat e'"
      using valid(1)
      by (auto simp: optimize_def result_simps checked_sub_exact checked_signed_Some Let_def split: if_splits)
    have "pass_ok evaluate ?P ?n (best, e) (Some b, e')" by (rule fine_pass_ok [OF fp]) auto
    with r that show ?thesis by blast
  qed
  from pass_ok_trans [OF c1 fin] have all: "pass_ok evaluate ?P ?n (None, 0) (Some b, e')" .
  then have e': "e' \<le> ?n" and b: "\<exists>a. ?P a \<and> evaluate a = Inr b" by (auto simp: pass_ok_def)
  have "unat (of_nat e' :: usize) = e'"
    using e' unat_less_exp [of "oc_max_evaluations cfg"] by (intro unat_of_nat_exact) simp
  moreover have "ce_expected_net_profit v \<le> ce_expected_net_profit b" if "a \<in> set g" "evaluate a = Inr v" for a v
    using c2 that fin by (auto simp: pass_ok_def best_ge_def)
  ultimately show ?thesis using e' b r by auto
qed

section \<open>Concrete inputs\<close>

definition sample_ladder :: size_ladder_config where
  "sample_ladder = \<lparr>sl_min_amount = 10, sl_max_amount = 100, sl_max_evaluations = 4,
     sl_explicit_sizes = None, sl_geometric_step_bps = None\<rparr>"

definition sample_geometric :: size_ladder_config where
  "sample_geometric = sample_ladder\<lparr>sl_geometric_step_bps := Some 20000\<rparr>"

lemma sample_geometric_sizes: "generate_candidate_sizes sample_geometric = Inr [10, 20, 40, 80]"
  by (simp add: sample_geometric_def sample_ladder_def generate_candidate_sizes_def geometric_loop.simps
      mul_div_ceil_def checked_mul_def checked_add_def)

theorem generate_candidate_sizes_ladder_witness:
  "generate_candidate_sizes sample_geometric = Inr [10, 20, 40, 80] \<and> size_ladder 10 100 4 [10, 20, 40, 80]"
  using sample_geometric_sizes generate_candidate_sizes_ladder [OF sample_geometric_sizes]
  by (simp add: sample_geometric_def sample_ladder_def)

theorem generate_grid_total_witness:
  "\<exists>xs. generate_candidate_sizes sample_ladder = Inr xs \<and> hd xs = 10 \<and> last xs = 100"
  using generate_grid_total [of sample_ladder] by (auto simp: sample_ladder_def)

definition sample_threshold :: profit_threshold_config where
  "sample_threshold = \<lparr>ptc_absolute_minimum = 5, ptc_input_relative_minimum_bps = 30,
     ptc_conservative_cost_multiplier_bps = 12000\<rparr>"

theorem profit_threshold_exact_witness:
  "\<exists>t. calculate_profit_threshold 1000 77 sample_threshold = Inr t \<and> unat (pt_required t) = 16"
proof -
  obtain t where t: "calculate_profit_threshold 1000 77 sample_threshold = Inr t"
    by (simp add: calculate_profit_threshold_def sample_threshold_def mul_div_ceil_def checked_mul_def
        checked_add_def checked_sub_def)
  from profit_threshold_exact [OF this] t show ?thesis
    by (auto simp: sample_threshold_def cdiv_def)
qed

text \<open>A concave profit curve with its maximum at 50.\<close>

definition sample_curve :: "amount \<Rightarrow> domain_error + candidate_evaluation" where
  "sample_curve a = Inr \<lparr>ce_amount = a, ce_gross_profit = 0, ce_flash_premium = 0, ce_expected_execution_cost = 0,
     ce_expected_ordering_cost = 0, ce_uncertainty_reserve = 0,
     ce_expected_net_profit = uint a * (100 - uint a)\<rparr>"

definition sample_optimizer :: optimizer_config where
  "sample_optimizer = \<lparr>oc_min_amount = 10, oc_max_amount = 100, oc_max_evaluations = 6, oc_min_profit = 3\<rparr>"

lemma sample_grid: "coarse_grid 10 100 6 = Inr [10, 28, 46, 64, 82, 100]"
  by (simp add: coarse_grid_def checked_sub_def checked_mul_def checked_add_def upt_rec word_le_nat_alt)

lemma sample_optimizes: "\<exists>r. optimize sample_optimizer sample_curve = Inr (Some r)"
  by (simp add: optimize_def sample_optimizer_def sample_grid sample_curve_def better_candidate_def
      checked_signed_def fits_signed_def checked_sub_def fine_pass.simps Let_def)

theorem optimize_best_witness:
  "\<exists>r. optimize sample_optimizer sample_curve = Inr (Some r) \<and> 2484 \<le> or_expected_net_profit r"
proof -
  obtain r where r: "optimize sample_optimizer sample_curve = Inr (Some r)" using sample_optimizes by blast
  have "coarse_grid (oc_min_amount sample_optimizer) (oc_max_amount sample_optimizer)
      (min (oc_max_evaluations sample_optimizer) 16) = Inr [10, 28, 46, 64, 82, 100]"
    by (simp add: sample_optimizer_def sample_grid)
  from optimize_best [OF r this] have "\<forall>a \<in> set [10, 28, 46, 64, 82, 100 :: amount]. \<forall>v. sample_curve a = Inr v \<longrightarrow>
      ce_expected_net_profit v \<le> or_expected_net_profit r" by blast
  then have "ce_expected_net_profit (projr (sample_curve 46)) \<le> or_expected_net_profit r"
    by (simp add: sample_curve_def)
  then show ?thesis using r by (auto simp: sample_curve_def)
qed

end
