(* ===== verification/Decision.thy ===== *)
theory Decision
  imports Opportunity
begin

text \<open>
  Verification of simulation responses (\<open>phoenix-engine/src/simulation/mod.rs\<close>) and the shadow
  decision over an opportunity (\<open>phoenix-engine/src/decision/mod.rs\<close>).
\<close>

section \<open>Simulation evidence\<close>

record simulation_request =
  sq_kind :: simulation_kind
  sq_block_number :: u64
  sq_block_hash :: string
  sq_from_address :: "string option"
  sq_target_contract :: string
  sq_expected_contract_code_hash :: string
  sq_calldata_hash :: string
  sq_value :: amount
  sq_state_overrides_hash :: "string option"
  sq_provider_id :: string
  sq_requested_at_unix_ms :: u64

record simulation_response =
  sr_block_number :: u64
  sr_block_hash :: string
  sr_contract_code_hash :: string
  sr_gas_estimate :: "u64 option"
  sr_gas_used :: "u64 option"
  sr_output :: "amount option"
  sr_net_pnl :: "signed_amount option"
  sr_revert_reason :: "string option"
  sr_provider_id :: string
  sr_completed_at_unix_ms :: u64
  sr_latency_ns :: u128
  sr_state_drift_bps :: basis_points
  sr_provider_disagreement :: bool
  sr_token_behavior_known_safe :: bool

datatype simulation_error =
    SE_AmbiguousBlock
  | SE_ProviderDisagreement
  | SE_StaleState
  | SE_ContractVersionMismatch
  | SE_ContractUnavailable
  | SE_UnsafeToken
  | SE_Reverted

record simulation_policy =
  sp_max_age_ms :: u64
  sp_max_state_drift_bps :: basis_points

definition verify_simulation ::
  "simulation_request \<Rightarrow> simulation_response \<Rightarrow> simulation_policy \<Rightarrow> simulation_error + simulation_evidence" where
  "verify_simulation q r p =
     (if sq_block_number q = 0 \<or> sq_block_hash q = [] \<or> sr_block_number r \<noteq> sq_block_number q \<or>
         sr_block_hash r \<noteq> sq_block_hash q
      then Inl SE_AmbiguousBlock
      else if sr_provider_disagreement r \<or> sr_provider_id r \<noteq> sq_provider_id q
      then Inl SE_ProviderDisagreement
      else if saturating_sub (sr_completed_at_unix_ms r) (sq_requested_at_unix_ms q) > sp_max_age_ms p \<or>
              sr_state_drift_bps r > sp_max_state_drift_bps p
      then Inl SE_StaleState
      else if sr_contract_code_hash r = [] then Inl SE_ContractUnavailable
      else if sr_contract_code_hash r \<noteq> sq_expected_contract_code_hash q
      then Inl SE_ContractVersionMismatch
      else if \<not> sr_token_behavior_known_safe r then Inl SE_UnsafeToken
      else if sr_revert_reason r \<noteq> None then Inl SE_Reverted
      else Inr \<lparr>sm_kind = sq_kind q, sm_block_number = sq_block_number q,
             sm_block_hash = Some (sq_block_hash q), sm_from_address = sq_from_address q,
             sm_target_contract = Some (sq_target_contract q),
             sm_contract_code_hash = Some (sr_contract_code_hash r),
             sm_calldata_hash = sq_calldata_hash q, sm_value = sq_value q,
             sm_gas_estimate = sr_gas_estimate r, sm_gas_used = sr_gas_used r,
             sm_simulated_output = sr_output r, sm_simulated_net_pnl = sr_net_pnl r,
             sm_revert_reason = None, sm_state_overrides_hash = sq_state_overrides_hash q,
             sm_provider_id = Some (sr_provider_id r),
             sm_simulated_at_unix_ms = sr_completed_at_unix_ms r, sm_latency_ns = sr_latency_ns r,
             sm_state_drift_bps = sr_state_drift_bps r, sm_classification = SC_Passed\<rparr>)"

section \<open>Shadow decision\<close>

record shadow_policy =
  spl_version :: string
  spl_allowed_tokens :: "string set"
  spl_allowed_protocols :: "string set"
  spl_max_quote_age_ms :: u64
  spl_max_simulation_age_ms :: u64
  spl_max_gas_price_wei :: u128
  spl_min_base_net_pnl :: signed_amount
  spl_min_conservative_net_pnl :: signed_amount
  spl_min_severe_net_pnl :: signed_amount
  spl_min_confidence_bps :: u16

record decision_context =
  dc_now_unix_ms :: u64
  dc_duplicate :: bool
  dc_sequence_contiguous :: bool
  dc_liquidity_known :: bool
  dc_liquidity_sufficient :: bool
  dc_rpc_state_agrees :: bool
  dc_contract_path_available :: bool
  dc_risk_budget_available :: bool
  dc_confidence_bps :: u16

type_synonym findings = "rejection_reason list \<times> risk_flag list"

definition push_reason :: "bool \<Rightarrow> rejection_reason \<Rightarrow> findings \<Rightarrow> findings" where
  "push_reason c r f = (if c then (fst f @ [r], snd f) else f)"

definition push_flagged :: "bool \<Rightarrow> rejection_reason \<Rightarrow> risk_flag \<Rightarrow> findings \<Rightarrow> findings" where
  "push_flagged c r k f = (if c then (fst f @ [r], snd f @ [k]) else f)"

definition route_tokens_allowed :: "opportunity \<Rightarrow> shadow_policy \<Rightarrow> bool" where
  "route_tokens_allowed opp p \<longleftrightarrow> list_all (\<lambda>t. t \<in> spl_allowed_tokens p) (re_token_path (op_route opp))"

definition route_protocols_allowed :: "opportunity \<Rightarrow> shadow_policy \<Rightarrow> bool" where
  "route_protocols_allowed opp p \<longleftrightarrow> list_all (\<lambda>t. t \<in> spl_allowed_protocols p) (re_protocols (op_route opp))"

definition append_simulation_reason ::
  "opportunity \<Rightarrow> shadow_policy \<Rightarrow> decision_context \<Rightarrow> findings \<Rightarrow> findings" where
  "append_simulation_reason opp p c f =
     (if saturating_sub (dc_now_unix_ms c) (sm_simulated_at_unix_ms (op_simulation opp)) > spl_max_simulation_age_ms p
      then push_flagged True SimulationEvidenceInsufficient RF_SimulationUnavailable f
      else case sm_classification (op_simulation opp) of
        SC_Passed \<Rightarrow> f
      | SC_Reverted \<Rightarrow> push_reason True SimulationReverted f
      | SC_ProviderDisagreement \<Rightarrow> push_flagged True RpcStateDisagreement RF_RpcDisagreement f
      | SC_StaleState \<Rightarrow> push_flagged True QuoteStale RF_StaleQuote f
      | SC_ContractUnavailable \<Rightarrow> push_flagged True ContractPathUnavailable RF_ContractUnavailable f
      | _ \<Rightarrow> push_flagged True SimulationEvidenceInsufficient RF_SimulationUnavailable f)"

definition decision_findings :: "opportunity \<Rightarrow> shadow_policy \<Rightarrow> decision_context \<Rightarrow> findings" where
  "decision_findings opp p c =
     (let f = ([], []);
          f = push_reason (dc_duplicate c) DuplicateOpportunity f;
          f = push_reason (\<not> dc_sequence_contiguous c) SequenceDiscontinuity f;
          f = push_reason (\<not> route_tokens_allowed opp p) TokenNotAllowed f;
          f = push_reason (\<not> route_protocols_allowed opp p) ProtocolNotAllowed f;
          f = push_reason (oe_opportunity_expires_at_unix_ms (op_outcome opp) \<le> dc_now_unix_ms c) OpportunityExpired f;
          f = push_flagged (me_quote_age_ms (op_market opp) > spl_max_quote_age_ms p) QuoteStale RF_StaleQuote f;
          f = push_flagged (\<not> dc_rpc_state_agrees c) RpcStateDisagreement RF_RpcDisagreement f;
          f = (if \<not> dc_liquidity_known c then push_flagged True LiquidityUnknown RF_IncompleteLiquidity f
               else push_flagged (\<not> dc_liquidity_sufficient c) LiquidityInsufficient RF_IncompleteLiquidity f);
          f = append_simulation_reason opp p c f;
          f = push_flagged (\<not> dc_contract_path_available c) ContractPathUnavailable RF_ContractUnavailable f;
          f = push_reason (\<not> dc_risk_budget_available c) RiskBudgetExceeded f;
          f = push_reason (cb_gas_price_wei (se_base (op_economics opp)) > spl_max_gas_price_wei p) GasTooHigh f;
          f = push_reason (cb_gross_spread (se_base (op_economics opp)) \<le> 0) GrossSpreadInsufficient f;
          f = push_reason (cb_expected_net_pnl (se_base (op_economics opp)) < spl_min_base_net_pnl p) NetPnlNegative f;
          f = push_reason (cb_expected_net_pnl (se_conservative (op_economics opp)) < spl_min_conservative_net_pnl p \<or>
                           cb_expected_net_pnl (se_severe (op_economics opp)) < spl_min_severe_net_pnl p) StressPnlNegative f;
          f = push_reason (dc_confidence_bps c < spl_min_confidence_bps p) ConfidenceTooLow f in f)"

definition decide :: "opportunity \<Rightarrow> shadow_policy \<Rightarrow> decision_context \<Rightarrow> decision_evidence" where
  "decide opp p c =
     (let (reasons, risk_flags) = decision_findings opp p c;
          primary = (case reasons of [] \<Rightarrow> None | r # _ \<Rightarrow> Some r) in
      \<lparr>de_disposition = (if primary = None then Accepted else Rejected),
       de_primary_rejection_reason = primary,
       de_secondary_rejection_reasons = drop 1 reasons,
       de_risk_flags = risk_flags,
       de_confidence_bps = dc_confidence_bps c,
       de_policy_version = spl_version p,
       de_shadow_only = True,
       de_execution_eligible = False,
       de_execution_request_created = False,
       de_decided_at_unix_ms = dc_now_unix_ms c\<rparr>)"

section \<open>Facts\<close>

lemma fst_push [simp]:
  "fst (push_reason c r f) = fst f @ (if c then [r] else [])"
  "fst (push_flagged c r k f) = fst f @ (if c then [r] else [])"
  by (simp_all add: push_reason_def push_flagged_def)

lemma fst_append_simulation_reason:
  "fst (append_simulation_reason opp p c f) = fst f @
     (if saturating_sub (dc_now_unix_ms c) (sm_simulated_at_unix_ms (op_simulation opp)) > spl_max_simulation_age_ms p
      then [SimulationEvidenceInsufficient]
      else case sm_classification (op_simulation opp) of
        SC_Passed \<Rightarrow> [] | SC_Reverted \<Rightarrow> [SimulationReverted] | SC_ProviderDisagreement \<Rightarrow> [RpcStateDisagreement]
      | SC_StaleState \<Rightarrow> [QuoteStale] | SC_ContractUnavailable \<Rightarrow> [ContractPathUnavailable]
      | _ \<Rightarrow> [SimulationEvidenceInsufficient])"
  by (simp add: append_simulation_reason_def split: simulation_classification.split)

text \<open>C31: The shadow decision accepts exactly the clean opportunities: accepted means not a duplicate,
  contiguous sequence, only allowed tokens and protocols, unexpired, fresh quote, agreeing RPC state,
  known and sufficient liquidity, a fresh passed simulation, an available contract path and risk
  budget, gas within limits, a positive spread, every scenario's net PnL at its minimum or above, and
  sufficient confidence. A net PnL equal to its minimum is accepted, although docs/SHADOW_ECONOMICS.md asks for
  one that exceeds it.\<close>

theorem decide_accepts_iff:
  "de_disposition (decide opp p c) = Accepted \<longleftrightarrow>
     \<not> dc_duplicate c \<and> dc_sequence_contiguous c \<and>
     set (re_token_path (op_route opp)) \<subseteq> spl_allowed_tokens p \<and>
     set (re_protocols (op_route opp)) \<subseteq> spl_allowed_protocols p \<and>
     dc_now_unix_ms c < oe_opportunity_expires_at_unix_ms (op_outcome opp) \<and>
     me_quote_age_ms (op_market opp) \<le> spl_max_quote_age_ms p \<and>
     dc_rpc_state_agrees c \<and> dc_liquidity_known c \<and> dc_liquidity_sufficient c \<and>
     unat (dc_now_unix_ms c) \<le> unat (sm_simulated_at_unix_ms (op_simulation opp)) + unat (spl_max_simulation_age_ms p) \<and>
     sm_classification (op_simulation opp) = SC_Passed \<and>
     dc_contract_path_available c \<and> dc_risk_budget_available c \<and>
     cb_gas_price_wei (se_base (op_economics opp)) \<le> spl_max_gas_price_wei p \<and>
     0 < cb_gross_spread (se_base (op_economics opp)) \<and>
     spl_min_base_net_pnl p \<le> cb_expected_net_pnl (se_base (op_economics opp)) \<and>
     spl_min_conservative_net_pnl p \<le> cb_expected_net_pnl (se_conservative (op_economics opp)) \<and>
     spl_min_severe_net_pnl p \<le> cb_expected_net_pnl (se_severe (op_economics opp)) \<and>
     spl_min_confidence_bps p \<le> dc_confidence_bps c"
proof -
  have acc: "de_disposition (decide opp p c) = Accepted \<longleftrightarrow> fst (decision_findings opp p c) = []"
    by (auto simp: decide_def split_beta split: list.splits)
  have age: "m < saturating_sub a b \<longleftrightarrow> \<not> unat a \<le> unat b + unat m" for a b m :: u64
    by (auto simp: word_less_nat_alt)
  have sim: "(case sm_classification (op_simulation opp) of
        SC_Passed \<Rightarrow> [] | SC_Reverted \<Rightarrow> [SimulationReverted] | SC_ProviderDisagreement \<Rightarrow> [RpcStateDisagreement]
      | SC_StaleState \<Rightarrow> [QuoteStale] | SC_ContractUnavailable \<Rightarrow> [ContractPathUnavailable]
      | _ \<Rightarrow> [SimulationEvidenceInsufficient]) = [] \<longleftrightarrow> sm_classification (op_simulation opp) = SC_Passed"
    by (cases "sm_classification (op_simulation opp)") simp_all
  show ?thesis
    unfolding acc
    by (simp add: decision_findings_def Let_def fst_append_simulation_reason if_distrib [of fst] not_less not_le
        route_tokens_allowed_def route_protocols_allowed_def list_all_iff subset_iff sim age cong: if_cong)
       (auto simp: not_less not_le age)
qed

text \<open>A shadow decision can never authorise execution: whatever the input, it is marked shadow-only,
  not execution-eligible, with no execution request, and a rejection always carries its reason, so
  the decision part of the traceability check always passes.\<close>

theorem decide_never_executes:
  "de_shadow_only (decide opp p c) \<and> \<not> de_execution_eligible (decide opp p c) \<and>
   \<not> de_execution_request_created (decide opp p c) \<and>
   (de_disposition (decide opp p c) = Rejected \<longleftrightarrow> de_primary_rejection_reason (decide opp p c) \<noteq> None) \<and>
   validate_traceability (opp\<lparr>op_decision := decide opp p c\<rparr>) \<noteq>
     Inl ''shadow opportunity violated execution safety'' \<and>
   validate_traceability (opp\<lparr>op_decision := decide opp p c\<rparr>) \<noteq>
     Inl ''rejected decision missing primary reason''"
  by (auto simp: decide_def split_beta Let_def validate_traceability_def)

text \<open>Only responses for the pinned block of the requested contract are accepted as simulation
  evidence: verification succeeds exactly when block, provider and code hash match the request, the
  response is fresh and within the drift bound, the token behaviour is known safe, and nothing
  reverted; the evidence then carries the pinned block and the status passed.\<close>

theorem verify_simulation_iff:
  "verify_simulation q r p = Inr ev \<longleftrightarrow>
     sq_block_number q \<noteq> 0 \<and> sq_block_hash q \<noteq> [] \<and>
     sr_block_number r = sq_block_number q \<and> sr_block_hash r = sq_block_hash q \<and>
     \<not> sr_provider_disagreement r \<and> sr_provider_id r = sq_provider_id q \<and>
     unat (sr_completed_at_unix_ms r) \<le> unat (sq_requested_at_unix_ms q) + unat (sp_max_age_ms p) \<and>
     sr_state_drift_bps r \<le> sp_max_state_drift_bps p \<and>
     sr_contract_code_hash r \<noteq> [] \<and> sr_contract_code_hash r = sq_expected_contract_code_hash q \<and>
     sr_token_behavior_known_safe r \<and> sr_revert_reason r = None \<and>
     ev = \<lparr>sm_kind = sq_kind q, sm_block_number = sr_block_number r, sm_block_hash = Some (sr_block_hash r),
           sm_from_address = sq_from_address q, sm_target_contract = Some (sq_target_contract q),
           sm_contract_code_hash = Some (sq_expected_contract_code_hash q),
           sm_calldata_hash = sq_calldata_hash q, sm_value = sq_value q,
           sm_gas_estimate = sr_gas_estimate r, sm_gas_used = sr_gas_used r,
           sm_simulated_output = sr_output r, sm_simulated_net_pnl = sr_net_pnl r,
           sm_revert_reason = None, sm_state_overrides_hash = sq_state_overrides_hash q,
           sm_provider_id = Some (sq_provider_id q),
           sm_simulated_at_unix_ms = sr_completed_at_unix_ms r, sm_latency_ns = sr_latency_ns r,
           sm_state_drift_bps = sr_state_drift_bps r, sm_classification = SC_Passed\<rparr>"
proof -
  have age: "saturating_sub a b > m \<longleftrightarrow> \<not> unat a \<le> unat b + unat m" for a b m :: u64
    by (auto simp: word_less_nat_alt)
  show ?thesis by (auto simp: verify_simulation_def age)
qed

end
