(* ===== verification/Executor_Model.thy ===== *)
theory Executor_Model
  imports Phoenix_Prelude "HOL-Library.List_Lexorder"
begin

text \<open>
  The execution requests of the live executor (\<^verbatim>\<open>live-executor/src/model.rs\<close> and the constants
  of \<^verbatim>\<open>lib.rs\<close>): canonical addresses and transaction hashes, the raw and the validated request,
  the reviewed routes, the unit conversions of an Aave liquidation route and the approval body a
  request's digest is computed over. Third-party crates (hex, uuid, chrono formatting, serde, SHA-256,
  ethabi, the transaction signer) are the fields of the record \<open>crates\<close>; what the theorems use of
  them are the named hypotheses \<open>hex_codec\<close> and \<open>text_codecs\<close>. The lemmas show what a validated
  request guarantees, that the unit conversions round in the safe direction, and that the approval
  body determines the request.
\<close>

section \<open>Constants\<close>

definition ARBITRUM_WETH_ADDRESS :: string where
  "ARBITRUM_WETH_ADDRESS = ''0x82af49447d8a07e3bd95bd0d56f35241523fbab1''"

definition ARBITRUM_NATIVE_USDC_ADDRESS :: string where
  "ARBITRUM_NATIVE_USDC_ADDRESS = ''0xaf88d065e77c8cc2239327c5edb3a432268e5831''"

definition ARBITRUM_USDC_E_ADDRESS :: string where
  "ARBITRUM_USDC_E_ADDRESS = ''0xff970a61a04b1ca14834a43f5de4533ebddb5cc8''"

definition REVIEWED_WETH_USDC_E_POOL_500_ADDRESS :: string where
  "REVIEWED_WETH_USDC_E_POOL_500_ADDRESS = ''0xc31e54c7a869b9fcbecc14363cf510d1c41fa443''"

definition CURRENT_ROUTE_FINGERPRINT :: string where
  "CURRENT_ROUTE_FINGERPRINT = ''arbitrum-weth-usdc-uniswap-v3-500-3000-v1''"

definition REVERSE_ROUTE_FINGERPRINT :: string where
  "REVERSE_ROUTE_FINGERPRINT = ''arbitrum-weth-usdc-uniswap-v3-3000-500-v1''"

definition CURRENT_ROUTE_POOL_500_ADDRESS :: string where
  "CURRENT_ROUTE_POOL_500_ADDRESS = ''0xc6962004f452be9203591991d15f6b388e09e8d0''"

definition CURRENT_ROUTE_POOL_3000_ADDRESS :: string where
  "CURRENT_ROUTE_POOL_3000_ADDRESS = ''0xc473e2aee3441bf9240be85eb122abb059a3b57c''"

definition REQUEST_SCHEMA_VERSION :: string where
  "REQUEST_SCHEMA_VERSION = ''phoenix.live-execution-request.v2''"

definition APPROVAL_POLICY_VERSION :: string where
  "APPROVAL_POLICY_VERSION = ''phoenix.live-canary-approval.v1''"

definition ARBITRUM_AAVE_V3_POOL_ADDRESS :: string where
  "ARBITRUM_AAVE_V3_POOL_ADDRESS = ''0x794a61358d6845594f94dc1db02a252b5b4814ad''"

definition AAVE_LIQUIDATION_ROUTE_FINGERPRINT :: string where
  "AAVE_LIQUIDATION_ROUTE_FINGERPRINT = ''AAVE_LIQUIDATION_V1''"

definition ARBITRUM_ONE_CHAIN_ID :: u64 where
  "ARBITRUM_ONE_CHAIN_ID = 42161"

definition MAX_ROUTE_LEGS :: nat where
  "MAX_ROUTE_LEGS = 4"

definition MAX_APPROVER_BYTES :: nat where
  "MAX_APPROVER_BYTES = 128"

definition MAX_POLICY_VERSION_BYTES :: nat where
  "MAX_POLICY_VERSION_BYTES = 128"

definition MAX_ROUTE_FINGERPRINT_BYTES :: nat where
  "MAX_ROUTE_FINGERPRINT_BYTES = 256"

section \<open>Data\<close>

type_synonym uuid = u128

text \<open>A JSON value as serde presents it; numbers keep their text.\<close>

datatype json_value =
    JNull
  | JBool bool
  | JNumber string
  | JString string
  | JArray "json_value list"
  | JObject "(string \<times> json_value) list"

text \<open>The arguments and parameters of a contract call as ethabi presents them.\<close>

datatype abi_token =
    Token_Address "u8 list"
  | Token_FixedBytes "u8 list"
  | Token_Uint u256
  | Token_Bool bool
  | Token_Array "abi_token list"
  | Token_Tuple "abi_token list"

text \<open>
  The errors of the model. A panic of the code (a division by zero in a unit conversion) is the
  extra value \<open>ME_Panicked\<close>.
\<close>

datatype model_error =
    ME_InvalidAddress
  | ME_InvalidTransactionHash
  | ME_SchemaVersion
  | ME_WrongChain
  | ME_InvalidRoute
  | ME_InvalidAmount
  | ME_InvalidGas
  | ME_InvalidLegs
  | ME_InvalidApproval
  | ME_ApprovalDigestMismatch
  | ME_Panicked

datatype canonical_address = CanonicalAddress (address_bytes: "u8 list")

datatype transaction_hash = TransactionHash (hash_bytes: "u8 list")

datatype execution_route_type = PhoenixDexV1 | AaveLiquidationV1

record execution_leg =
  xl_pool :: string
  xl_factory :: "string option"
  xl_token_in :: string
  xl_token_out :: string
  xl_fee :: u32
  xl_zero_for_one :: bool
  xl_min_amount_out :: string

record validated_leg =
  vl_pool :: canonical_address
  vl_factory :: "canonical_address option"
  vl_token_in :: canonical_address
  vl_token_out :: canonical_address
  vl_fee :: u32
  vl_zero_for_one :: bool
  vl_min_amount_out :: u128

record raw_aave_liquidation_route =
  ra_borrower :: string
  ra_debt_asset :: string
  ra_collateral_asset :: string
  ra_debt_asset_decimals :: u8
  ra_debt_asset_price_base :: string
  ra_weth_price_base :: string
  ra_maximum_input_weth_wei :: string
  ra_minimum_profit_weth_wei :: string
  ra_receive_a_token :: bool
  ra_minimum_collateral_received :: string
  ra_minimum_unwind_output :: string
  ra_maximum_atlas_bid :: string
  ra_evidence_mode :: string
  ra_state_root :: string
  ra_release_sha :: string

record aave_liquidation_route =
  al_borrower :: canonical_address
  al_debt_asset :: canonical_address
  al_collateral_asset :: canonical_address
  al_debt_asset_decimals :: u8
  al_debt_asset_price_base :: u128
  al_weth_price_base :: u128
  al_maximum_input_weth_wei :: u128
  al_minimum_profit_weth_wei :: u128
  al_receive_a_token :: bool
  al_minimum_collateral_received :: u128
  al_minimum_unwind_output :: u128
  al_maximum_atlas_bid :: u128
  al_evidence_mode :: string
  al_state_root :: string
  al_release_sha :: string

record execution_request =
  er_id :: uuid
  er_opportunity_id :: uuid
  er_schema_version :: string
  er_chain_id :: u64
  er_route_id :: "u8 list"
  er_route_fingerprint :: string
  er_route_type :: execution_route_type
  er_aave_liquidation :: "aave_liquidation_route option"
  er_selected_size :: u128
  er_token_path :: "canonical_address list"
  er_origin_router :: canonical_address
  er_executor_address :: canonical_address
  er_executor_code_hash :: string
  er_calldata_hash :: string
  er_simulation_result_hash :: string
  er_plan_hash :: string
  er_pinned_block_number :: u64
  er_pinned_block_hash :: string
  er_flash_asset :: canonical_address
  er_flash_amount :: u128
  er_maximum_input_amount :: u128
  er_minimum_profit :: u128
  er_expected_profit :: u128
  er_deadline :: datetime
  er_legs :: "validated_leg list"
  er_gas_limit :: u64
  er_max_fee_per_gas :: u128
  er_max_priority_fee_per_gas :: u128
  er_approved_by :: string
  er_approved_at :: datetime
  er_approval_deadline :: datetime
  er_policy_version :: string
  er_approval_digest :: string

record raw_execution_request =
  rr_id :: uuid
  rr_opportunity_id :: uuid
  rr_schema_version :: string
  rr_chain_id :: i64
  rr_route_id :: string
  rr_route_fingerprint :: string
  rr_route_type :: string
  rr_route_payload :: "json_value option"
  rr_selected_size :: string
  rr_token_path :: "string list"
  rr_origin_router :: string
  rr_executor_address :: string
  rr_executor_code_hash :: string
  rr_calldata_hash :: string
  rr_simulation_result_hash :: string
  rr_plan_hash :: string
  rr_pinned_block_number :: i64
  rr_pinned_block_hash :: string
  rr_flash_asset :: string
  rr_flash_amount :: string
  rr_maximum_input_amount :: string
  rr_minimum_profit :: string
  rr_expected_profit :: string
  rr_deadline :: datetime
  rr_legs :: "execution_leg list"
  rr_gas_limit :: i64
  rr_max_fee_per_gas :: string
  rr_max_priority_fee_per_gas :: string
  rr_approved_by :: string
  rr_approved_at :: datetime
  rr_approval_deadline :: datetime
  rr_policy_version :: string
  rr_approval_digest :: string

text \<open>The legs of an approval body are the serialised legs of the request.\<close>

record approval_body =
  ab_schema_version :: string
  ab_request_id :: string
  ab_opportunity_id :: string
  ab_chain_id :: u64
  ab_route_id :: string
  ab_route_fingerprint :: string
  ab_route_type :: string
  ab_route_payload :: "raw_aave_liquidation_route option"
  ab_selected_size :: string
  ab_token_path :: "string list"
  ab_origin_router :: string
  ab_executor_address :: string
  ab_executor_code_hash :: string
  ab_calldata_hash :: string
  ab_simulation_result_hash :: string
  ab_plan_hash :: string
  ab_pinned_block_number :: u64
  ab_pinned_block_hash :: string
  ab_flash_asset :: string
  ab_flash_amount :: string
  ab_maximum_input_amount :: string
  ab_minimum_profit :: string
  ab_expected_profit :: string
  ab_deadline_unix_seconds :: i64
  ab_legs :: "execution_leg list"
  ab_gas_limit :: u64
  ab_max_fee_per_gas :: string
  ab_max_priority_fee_per_gas :: string
  ab_approved_by :: string
  ab_approved_at :: string
  ab_approval_deadline :: string
  ab_policy_version :: string

datatype attempt_status =
    AS_Claimed
  | AS_NonceAllocated
  | AS_SubmissionUnknown
  | AS_Pending
  | AS_Confirmed
  | AS_Reverted
  | AS_Replaced
  | AS_TimedOut
  | AS_Failed

fun attempt_status_as_str :: "attempt_status \<Rightarrow> string" where
  "attempt_status_as_str AS_Claimed = ''claimed''"
| "attempt_status_as_str AS_NonceAllocated = ''nonce_allocated''"
| "attempt_status_as_str AS_SubmissionUnknown = ''submission_unknown''"
| "attempt_status_as_str AS_Pending = ''pending''"
| "attempt_status_as_str AS_Confirmed = ''confirmed''"
| "attempt_status_as_str AS_Reverted = ''reverted''"
| "attempt_status_as_str AS_Replaced = ''replaced''"
| "attempt_status_as_str AS_TimedOut = ''timed_out''"
| "attempt_status_as_str AS_Failed = ''failed''"

record active_attempt =
  av_request :: execution_request
  av_status :: attempt_status
  av_nonce :: "u64 option"
  av_tx_hash :: "transaction_hash option"
  av_submitted_at :: "datetime option"

record settlement =
  st_asset :: canonical_address
  st_flash_amount :: u128
  st_premium :: u128
  st_realized_profit :: u128

record receipt_outcome =
  ro_receipt_status :: u64
  ro_settled_event_found :: bool
  ro_block_number :: u64
  ro_gas_used :: u64
  ro_effective_gas_price :: u128
  ro_actual_fee_wei :: u128
  ro_actual_l1_cost_wei :: u128
  ro_settlement :: settlement
  ro_canonical_realized_profit_wei :: u128
  ro_net_pnl_wei :: i128

section \<open>Third-party code\<close>

text \<open>
  The functions of third-party crates the live executor calls: hex encoding, textual forms of
  identifiers and instants, serde decoding and encoding, SHA-256 and the ethabi codec of the
  executor contract (by function or event name).
\<close>

record crates =
  cr_hex_encode :: "u8 list \<Rightarrow> string"
  cr_hex_decode :: "string \<Rightarrow> u8 list option"
  cr_uuid_to_string :: "uuid \<Rightarrow> string"
  cr_rfc3339_secs :: "datetime \<Rightarrow> string"
  cr_from_value_aave :: "json_value \<Rightarrow> raw_aave_liquidation_route option"
  cr_from_value_legs :: "json_value \<Rightarrow> execution_leg list option"
  cr_from_value_strings :: "json_value \<Rightarrow> string list option"
  cr_approval_to_vec :: "approval_body \<Rightarrow> u8 list option"
  cr_sha256 :: "u8 list \<Rightarrow> u8 list"
  cr_encode_input :: "string \<Rightarrow> abi_token list \<Rightarrow> u8 list option"
  cr_abi_encode :: "abi_token list \<Rightarrow> u8 list"
  cr_abi_decode_input :: "string \<Rightarrow> (u8 list \<Rightarrow> abi_token list option) option"
  cr_event_signature :: "string \<Rightarrow> u8 list option"
  cr_parse_log :: "string \<Rightarrow> u8 list list \<Rightarrow> u8 list \<Rightarrow> (string \<times> abi_token) list option"

text \<open>The documented behaviour of the hex crate: lower-case output of two digits per byte, and the
  two directions are inverse to each other on it.\<close>

definition hex_codec :: "crates \<Rightarrow> bool" where
  "hex_codec cr \<longleftrightarrow>
     (\<forall>b. cr_hex_decode cr (cr_hex_encode cr b) = Some b \<and>
          length (cr_hex_encode cr b) = 2 * length b \<and> list_all is_lower_hex (cr_hex_encode cr b)) \<and>
     (\<forall>s b. list_all is_lower_hex s \<longrightarrow> cr_hex_decode cr s = Some b \<longrightarrow> cr_hex_encode cr b = s)"

text \<open>The documented behaviour of the textual forms: a UUID has one text, and the RFC 3339 form in
  seconds precision shows exactly the whole second of an instant.\<close>

definition text_codecs :: "crates \<Rightarrow> bool" where
  "text_codecs cr \<longleftrightarrow>
     inj (cr_uuid_to_string cr) \<and>
     (\<forall>a b. cr_rfc3339_secs cr a = cr_rfc3339_secs cr b \<longrightarrow> timestamp a = timestamp b)"

text \<open>The documented behaviour of the JSON serialiser on an approval body: it writes every field of it, so two
  bodies with the same bytes are the same.\<close>

definition approval_codec :: "crates \<Rightarrow> bool" where
  "approval_codec cr \<longleftrightarrow>
     (\<forall>x y bytes. cr_approval_to_vec cr x = Some bytes \<longrightarrow> cr_approval_to_vec cr y = Some bytes \<longrightarrow> x = y)"

section \<open>Parsing\<close>

definition try_from_int :: "int \<Rightarrow> 'a::len word option" where
  "try_from_int i = (if 0 \<le> i \<and> i < 2 ^ LENGTH('a) then Some (of_int i) else None)"

definition canonical_address_parse :: "crates \<Rightarrow> string \<Rightarrow> model_error + canonical_address" where
  "canonical_address_parse cr value =
    (if length value \<noteq> 42 \<or> \<not> starts_with ''0x'' value \<or> \<not> list_all is_lower_hex (drop 2 value)
     then Inl ME_InvalidAddress
     else case cr_hex_decode cr (drop 2 value) of
       None \<Rightarrow> Inl ME_InvalidAddress
     | Some decoded \<Rightarrow>
         if length decoded \<noteq> 20 then Inl ME_InvalidAddress
         else if decoded = replicate 20 0 then Inl ME_InvalidAddress
         else Inr (CanonicalAddress decoded))"

definition canonical_address_to_string :: "crates \<Rightarrow> canonical_address \<Rightarrow> string" where
  "canonical_address_to_string cr a = ''0x'' @ cr_hex_encode cr (address_bytes a)"

definition transaction_hash_parse :: "crates \<Rightarrow> string \<Rightarrow> model_error + transaction_hash" where
  "transaction_hash_parse cr value =
    (if length value \<noteq> 66 \<or> \<not> starts_with ''0x'' value then Inl ME_InvalidTransactionHash
     else case cr_hex_decode cr (drop 2 value) of
       None \<Rightarrow> Inl ME_InvalidTransactionHash
     | Some decoded \<Rightarrow>
         if length decoded \<noteq> 32 then Inl ME_InvalidTransactionHash
         else Inr (TransactionHash decoded))"

definition transaction_hash_to_string :: "crates \<Rightarrow> transaction_hash \<Rightarrow> string" where
  "transaction_hash_to_string cr h = ''0x'' @ cr_hex_encode cr (hash_bytes h)"

fun execution_route_type_as_str :: "execution_route_type \<Rightarrow> string" where
  "execution_route_type_as_str PhoenixDexV1 = ''PHOENIX_DEX_V1''"
| "execution_route_type_as_str AaveLiquidationV1 = AAVE_LIQUIDATION_ROUTE_FINGERPRINT"

definition parse_positive_u128 :: "string \<Rightarrow> model_error + u128" where
  "parse_positive_u128 value =
    (case parse_unsigned value of
       None \<Rightarrow> Inl ME_InvalidAmount
     | Some parsed \<Rightarrow> if 0 < parsed then Inr parsed else Inl ME_InvalidAmount)"

definition parse_fixed_hex :: "crates \<Rightarrow> nat \<Rightarrow> string \<Rightarrow> u8 list option" where
  "parse_fixed_hex cr n value =
    (if length value \<noteq> 2 + n * 2 \<or> \<not> starts_with ''0x'' value then None
     else case cr_hex_decode cr (drop 2 value) of
       None \<Rightarrow> None
     | Some decoded \<Rightarrow> if length decoded = n then Some decoded else None)"

definition canonical_digest :: "string \<Rightarrow> bool" where
  "canonical_digest value \<longleftrightarrow> length value = 64 \<and> list_all is_lower_hex value"

definition canonical_block_hash :: "string \<Rightarrow> bool" where
  "canonical_block_hash value \<longleftrightarrow>
     length value = 66 \<and> starts_with ''0x'' value \<and> list_all is_lower_hex (drop 2 value)"

definition positive_u64 :: "model_error \<Rightarrow> i64 \<Rightarrow> model_error + u64" where
  "positive_u64 e i =
    (case try_from_int i of
       None \<Rightarrow> Inl e
     | Some value \<Rightarrow> if 0 < value then Inr value else Inl e)"

text \<open>Rust's \<^verbatim>\<open>str::trim\<close> and \<^verbatim>\<open>char::is_control\<close> on ASCII text.\<close>

definition is_space :: "char \<Rightarrow> bool" where
  "is_space c \<longleftrightarrow> (of_char c :: nat) = 32 \<or> 9 \<le> (of_char c :: nat) \<and> (of_char c :: nat) \<le> 13"

definition is_control :: "char \<Rightarrow> bool" where
  "is_control c \<longleftrightarrow> (of_char c :: nat) < 32 \<or> 127 \<le> (of_char c :: nat) \<and> (of_char c :: nat) < 160"

definition trim_is_empty :: "string \<Rightarrow> bool" where
  "trim_is_empty s = list_all is_space s"

section \<open>Routes\<close>

definition validated_leg_try_from :: "crates \<Rightarrow> execution_leg \<Rightarrow> model_error + validated_leg" where
  "validated_leg_try_from cr value =
    (if xl_fee value = 0 \<or> 1000000 \<le> xl_fee value then Inl ME_InvalidLegs
     else and_then (canonical_address_parse cr (xl_pool value)) (\<lambda>pool.
          and_then (case xl_factory value of
                      None \<Rightarrow> Inr None
                    | Some address \<Rightarrow> map_ok Some (canonical_address_parse cr address)) (\<lambda>factory.
          and_then (canonical_address_parse cr (xl_token_in value)) (\<lambda>token_in.
          and_then (canonical_address_parse cr (xl_token_out value)) (\<lambda>token_out.
          and_then (parse_positive_u128 (xl_min_amount_out value)) (\<lambda>min_amount_out.
          Inr \<lparr>vl_pool = pool, vl_factory = factory, vl_token_in = token_in, vl_token_out = token_out,
               vl_fee = xl_fee value, vl_zero_for_one = xl_zero_for_one value,
               vl_min_amount_out = min_amount_out\<rparr>))))))"

definition validated_leg_serialize :: "crates \<Rightarrow> validated_leg \<Rightarrow> execution_leg" where
  "validated_leg_serialize cr leg =
    \<lparr>xl_pool = canonical_address_to_string cr (vl_pool leg),
     xl_factory = map_option (canonical_address_to_string cr) (vl_factory leg),
     xl_token_in = canonical_address_to_string cr (vl_token_in leg),
     xl_token_out = canonical_address_to_string cr (vl_token_out leg),
     xl_fee = vl_fee leg, xl_zero_for_one = vl_zero_for_one leg,
     xl_min_amount_out = dec_string (unat (vl_min_amount_out leg))\<rparr>"

fun validate_route_from ::
  "validated_leg list \<Rightarrow> canonical_address \<Rightarrow> canonical_address \<Rightarrow> model_error + unit" where
  "validate_route_from [] flash_asset expected_input =
    (if expected_input \<noteq> flash_asset then Inl ME_InvalidLegs else Inr ())"
| "validate_route_from (leg # legs) flash_asset expected_input =
    (if vl_token_in leg \<noteq> expected_input
       \<or> vl_token_in leg = vl_token_out leg
       \<or> vl_zero_for_one leg \<noteq> (address_bytes (vl_token_in leg) < address_bytes (vl_token_out leg))
     then Inl ME_InvalidLegs
     else validate_route_from legs flash_asset (vl_token_out leg))"

definition validate_route :: "validated_leg list \<Rightarrow> canonical_address \<Rightarrow> model_error + unit" where
  "validate_route legs flash_asset = validate_route_from legs flash_asset flash_asset"

definition first :: "'a list \<Rightarrow> 'a option" where
  "first xs = (case xs of [] \<Rightarrow> None | x # _ \<Rightarrow> Some x)"

definition validate_token_path ::
  "canonical_address list \<Rightarrow> validated_leg list \<Rightarrow> canonical_address \<Rightarrow> model_error + unit" where
  "validate_token_path token_path legs flash_asset =
    (if length token_path \<noteq> length legs + 1
       \<or> first token_path \<noteq> Some flash_asset
       \<or> first (rev token_path) \<noteq> Some flash_asset
       \<or> list_ex (\<lambda>(index, leg). token_path ! index \<noteq> vl_token_in leg
                              \<or> token_path ! (index + 1) \<noteq> vl_token_out leg)
           (List.enumerate 0 legs)
     then Inl ME_InvalidLegs
     else Inr ())"

text \<open>The loop over the unwind legs of a liquidation with its running index.\<close>

fun aave_legs_valid :: "canonical_address list \<Rightarrow> validated_leg list \<Rightarrow> nat \<Rightarrow> bool" where
  "aave_legs_valid token_path [] index = True"
| "aave_legs_valid token_path (leg # legs) index =
    (if vl_factory leg = None
       \<or> vl_token_in leg \<noteq> token_path ! index
       \<or> vl_token_out leg \<noteq> token_path ! (index + 1)
       \<or> vl_token_in leg = vl_token_out leg
       \<or> vl_zero_for_one leg \<noteq> (address_bytes (vl_token_in leg) < address_bytes (vl_token_out leg))
     then False
     else aave_legs_valid token_path legs (index + 1))"

definition reviewed_usdc_e_unwind ::
  "aave_liquidation_route \<Rightarrow> validated_leg \<Rightarrow> canonical_address list \<Rightarrow> canonical_address
   \<Rightarrow> canonical_address \<Rightarrow> canonical_address \<Rightarrow> canonical_address \<Rightarrow> bool" where
  "reviewed_usdc_e_unwind route leg token_path weth usdc_e reviewed_pool reviewed_factory \<longleftrightarrow>
     \<not> (al_collateral_asset route \<noteq> weth
       \<or> token_path \<noteq> [weth, usdc_e]
       \<or> vl_pool leg \<noteq> reviewed_pool
       \<or> vl_factory leg \<noteq> Some reviewed_factory
       \<or> vl_token_in leg \<noteq> weth
       \<or> vl_token_out leg \<noteq> usdc_e
       \<or> vl_fee leg \<noteq> 500
       \<or> \<not> vl_zero_for_one leg
       \<or> vl_min_amount_out leg \<noteq> al_minimum_unwind_output route)"

definition validate_aave_route ::
  "crates \<Rightarrow> aave_liquidation_route \<Rightarrow> validated_leg list \<Rightarrow> canonical_address list
   \<Rightarrow> canonical_address \<Rightarrow> model_error + unit" where
  "validate_aave_route cr route legs token_path flash_asset =
    (if al_receive_a_token route \<or> al_debt_asset route \<noteq> flash_asset then Inl ME_InvalidLegs
     else
       and_then (canonical_address_parse cr ARBITRUM_WETH_ADDRESS) (\<lambda>weth.
       and_then (canonical_address_parse cr ARBITRUM_USDC_E_ADDRESS) (\<lambda>usdc_e.
       let unit_valid =
             al_debt_asset route = weth \<and> al_debt_asset_decimals route = 18
               \<and> al_debt_asset_price_base route = al_weth_price_base route
             \<or> al_debt_asset route = usdc_e \<and> al_debt_asset_decimals route = 6
       in if \<not> unit_valid \<or> al_maximum_input_weth_wei route = 0 \<or> al_minimum_profit_weth_wei route = 0
       then Inl ME_InvalidAmount
       else if al_debt_asset route = usdc_e then
         and_then (canonical_address_parse cr REVIEWED_WETH_USDC_E_POOL_500_ADDRESS) (\<lambda>reviewed_pool.
         and_then (canonical_address_parse cr ''0x1f98431c8ad98523631ae4a59f267346ea31f984'') (\<lambda>reviewed_factory.
           case legs of
             [leg] \<Rightarrow>
               if \<not> reviewed_usdc_e_unwind route leg token_path weth usdc_e reviewed_pool reviewed_factory
               then Inl ME_InvalidLegs else Inr ()
           | _ \<Rightarrow> Inl ME_InvalidLegs))
       else if al_collateral_asset route = al_debt_asset route then
         (if legs \<noteq> [] \<or> token_path \<noteq> [al_debt_asset route] then Inl ME_InvalidLegs else Inr ())
       else if legs = []
         \<or> length token_path \<noteq> length legs + 1
         \<or> first token_path \<noteq> Some (al_collateral_asset route)
         \<or> first (rev token_path) \<noteq> Some (al_debt_asset route)
       then Inl ME_InvalidLegs
       else if \<not> aave_legs_valid token_path legs 0 then Inl ME_InvalidLegs
       else Inr ())))"

section \<open>Unit conversions of a liquidation route\<close>

definition checked_pow :: "'a::len word \<Rightarrow> nat \<Rightarrow> 'a word option" where
  "checked_pow b e = (if unat b ^ e < 2 ^ LENGTH('a) then Some (b ^ e) else None)"

definition debt_unit :: "aave_liquidation_route \<Rightarrow> model_error + u128" where
  "debt_unit route = ok_or ME_InvalidAmount (checked_pow 10 (unat (al_debt_asset_decimals route)))"

definition WAD :: u128 where "WAD = 1000000000000000000"

definition same_unit :: "aave_liquidation_route \<Rightarrow> bool" where
  "same_unit route \<longleftrightarrow>
     al_debt_asset_decimals route = 18 \<and> al_debt_asset_price_base route = al_weth_price_base route"

text \<open>The numerator and denominator both directions of the WETH-to-debt conversion compute.\<close>

definition weth_to_debt_ratio :: "aave_liquidation_route \<Rightarrow> u128 \<Rightarrow> model_error + u128 \<times> u128" where
  "weth_to_debt_ratio route weth_wei =
    and_then (ok_or ME_InvalidAmount
      (Option.bind (checked_mul weth_wei (al_weth_price_base route)) (\<lambda>value.
        case debt_unit route of Inl _ \<Rightarrow> None | Inr u \<Rightarrow> checked_mul value u))) (\<lambda>numerator.
    and_then (ok_or ME_InvalidAmount (checked_mul WAD (al_debt_asset_price_base route))) (\<lambda>denominator.
    Inr (numerator, denominator)))"

definition weth_to_debt_floor :: "aave_liquidation_route \<Rightarrow> u128 \<Rightarrow> model_error + u128" where
  "weth_to_debt_floor route weth_wei =
    (if same_unit route then Inr weth_wei
     else and_then (weth_to_debt_ratio route weth_wei) (\<lambda>(numerator, denominator).
       if denominator = 0 then Inl ME_Panicked else Inr (numerator div denominator)))"

definition weth_to_debt_ceil :: "aave_liquidation_route \<Rightarrow> u128 \<Rightarrow> model_error + u128" where
  "weth_to_debt_ceil route weth_wei =
    (if same_unit route then Inr weth_wei
     else and_then (weth_to_debt_ratio route weth_wei) (\<lambda>(numerator, denominator).
       if denominator = 0 then Inl ME_Panicked
       else ok_or ME_InvalidAmount
         (map_option (\<lambda>value. value div denominator) (checked_add numerator (denominator - 1)))))"

definition debt_to_weth_floor :: "aave_liquidation_route \<Rightarrow> u128 \<Rightarrow> model_error + u128" where
  "debt_to_weth_floor route debt_raw =
    (if same_unit route then Inr debt_raw
     else
       and_then (ok_or ME_InvalidAmount
         (Option.bind (checked_mul debt_raw (al_debt_asset_price_base route))
           (\<lambda>value. checked_mul value WAD))) (\<lambda>numerator.
       and_then (debt_unit route) (\<lambda>unit.
       and_then (ok_or ME_InvalidAmount (checked_mul unit (al_weth_price_base route))) (\<lambda>denominator.
       if denominator = 0 then Inl ME_Panicked else Inr (numerator div denominator)))))"

section \<open>The reviewed routes and the approval digest\<close>

definition dex_route_matches ::
  "execution_request \<Rightarrow> canonical_address \<Rightarrow> canonical_address \<Rightarrow> bool" where
  "dex_route_matches r pool_500 pool_3000 \<longleftrightarrow>
     length (er_legs r) = 2 \<and>
     (er_route_fingerprint r = CURRENT_ROUTE_FINGERPRINT
        \<and> vl_pool (er_legs r ! 0) = pool_500 \<and> vl_fee (er_legs r ! 0) = 500
        \<and> vl_pool (er_legs r ! 1) = pool_3000 \<and> vl_fee (er_legs r ! 1) = 3000
      \<or> er_route_fingerprint r = REVERSE_ROUTE_FINGERPRINT
        \<and> vl_pool (er_legs r ! 0) = pool_3000 \<and> vl_fee (er_legs r ! 0) = 3000
        \<and> vl_pool (er_legs r ! 1) = pool_500 \<and> vl_fee (er_legs r ! 1) = 500)"

definition validate_current_route :: "crates \<Rightarrow> execution_request \<Rightarrow> model_error + unit" where
  "validate_current_route cr r =
    (if er_route_type r = AaveLiquidationV1 then
       and_then (ok_or ME_InvalidLegs (er_aave_liquidation r)) (\<lambda>route.
       if er_route_fingerprint r \<noteq> AAVE_LIQUIDATION_ROUTE_FINGERPRINT then Inl ME_InvalidLegs
       else and_then (canonical_address_parse cr ARBITRUM_AAVE_V3_POOL_ADDRESS) (\<lambda>aave_pool.
         if er_origin_router r \<noteq> aave_pool
           \<or> al_debt_asset route \<noteq> er_flash_asset r
           \<or> er_selected_size r \<noteq> er_flash_amount r
           \<or> al_maximum_atlas_bid route \<noteq> 0
         then Inl ME_InvalidLegs
         else validate_aave_route cr route (er_legs r) (er_token_path r) (er_flash_asset r)))
     else if er_route_type r \<noteq> PhoenixDexV1 \<or> er_aave_liquidation r \<noteq> None then Inl ME_InvalidRoute
     else
       and_then (canonical_address_parse cr ARBITRUM_WETH_ADDRESS) (\<lambda>weth.
       and_then (canonical_address_parse cr ARBITRUM_NATIVE_USDC_ADDRESS) (\<lambda>usdc.
       and_then (canonical_address_parse cr CURRENT_ROUTE_POOL_500_ADDRESS) (\<lambda>pool_500.
       and_then (canonical_address_parse cr CURRENT_ROUTE_POOL_3000_ADDRESS) (\<lambda>pool_3000.
       if er_flash_asset r \<noteq> weth
         \<or> er_token_path r \<noteq> [weth, usdc, weth]
         \<or> length (er_legs r) \<noteq> 2
         \<or> vl_token_in (er_legs r ! 0) \<noteq> weth
         \<or> vl_token_out (er_legs r ! 0) \<noteq> usdc
         \<or> \<not> vl_zero_for_one (er_legs r ! 0)
         \<or> vl_token_in (er_legs r ! 1) \<noteq> usdc
         \<or> vl_token_out (er_legs r ! 1) \<noteq> weth
         \<or> vl_zero_for_one (er_legs r ! 1)
         \<or> \<not> dex_route_matches r pool_500 pool_3000
       then Inl ME_InvalidLegs
       else Inr ())))))"

definition u128_to_string :: "u128 \<Rightarrow> string" where
  "u128_to_string n = dec_string (unat n)"

definition raw_route_of :: "crates \<Rightarrow> aave_liquidation_route \<Rightarrow> raw_aave_liquidation_route" where
  "raw_route_of cr route =
    \<lparr>ra_borrower = canonical_address_to_string cr (al_borrower route),
     ra_debt_asset = canonical_address_to_string cr (al_debt_asset route),
     ra_collateral_asset = canonical_address_to_string cr (al_collateral_asset route),
     ra_debt_asset_decimals = al_debt_asset_decimals route,
     ra_debt_asset_price_base = u128_to_string (al_debt_asset_price_base route),
     ra_weth_price_base = u128_to_string (al_weth_price_base route),
     ra_maximum_input_weth_wei = u128_to_string (al_maximum_input_weth_wei route),
     ra_minimum_profit_weth_wei = u128_to_string (al_minimum_profit_weth_wei route),
     ra_receive_a_token = al_receive_a_token route,
     ra_minimum_collateral_received = u128_to_string (al_minimum_collateral_received route),
     ra_minimum_unwind_output = u128_to_string (al_minimum_unwind_output route),
     ra_maximum_atlas_bid = u128_to_string (al_maximum_atlas_bid route),
     ra_evidence_mode = al_evidence_mode route,
     ra_state_root = al_state_root route,
     ra_release_sha = al_release_sha route\<rparr>"

definition approval_body_of :: "crates \<Rightarrow> execution_request \<Rightarrow> approval_body" where
  "approval_body_of cr r =
    \<lparr>ab_schema_version = er_schema_version r,
     ab_request_id = cr_uuid_to_string cr (er_id r),
     ab_opportunity_id = cr_uuid_to_string cr (er_opportunity_id r),
     ab_chain_id = er_chain_id r,
     ab_route_id = ''0x'' @ cr_hex_encode cr (er_route_id r),
     ab_route_fingerprint = er_route_fingerprint r,
     ab_route_type = execution_route_type_as_str (er_route_type r),
     ab_route_payload = map_option (raw_route_of cr) (er_aave_liquidation r),
     ab_selected_size = u128_to_string (er_selected_size r),
     ab_token_path = map (canonical_address_to_string cr) (er_token_path r),
     ab_origin_router = canonical_address_to_string cr (er_origin_router r),
     ab_executor_address = canonical_address_to_string cr (er_executor_address r),
     ab_executor_code_hash = er_executor_code_hash r,
     ab_calldata_hash = er_calldata_hash r,
     ab_simulation_result_hash = er_simulation_result_hash r,
     ab_plan_hash = er_plan_hash r,
     ab_pinned_block_number = er_pinned_block_number r,
     ab_pinned_block_hash = er_pinned_block_hash r,
     ab_flash_asset = canonical_address_to_string cr (er_flash_asset r),
     ab_flash_amount = u128_to_string (er_flash_amount r),
     ab_maximum_input_amount = u128_to_string (er_maximum_input_amount r),
     ab_minimum_profit = u128_to_string (er_minimum_profit r),
     ab_expected_profit = u128_to_string (er_expected_profit r),
     ab_deadline_unix_seconds = timestamp (er_deadline r),
     ab_legs = map (validated_leg_serialize cr) (er_legs r),
     ab_gas_limit = er_gas_limit r,
     ab_max_fee_per_gas = u128_to_string (er_max_fee_per_gas r),
     ab_max_priority_fee_per_gas = u128_to_string (er_max_priority_fee_per_gas r),
     ab_approved_by = er_approved_by r,
     ab_approved_at = cr_rfc3339_secs cr (er_approved_at r),
     ab_approval_deadline = cr_rfc3339_secs cr (er_approval_deadline r),
     ab_policy_version = er_policy_version r\<rparr>"

text \<open>The bytes the digest of an approval is computed over.\<close>

definition approval_bytes :: "crates \<Rightarrow> execution_request \<Rightarrow> u8 list option" where
  "approval_bytes cr r = cr_approval_to_vec cr (approval_body_of cr r)"

definition canonical_approval_digest :: "crates \<Rightarrow> execution_request \<Rightarrow> model_error + string" where
  "canonical_approval_digest cr r =
    and_then (ok_or ME_InvalidApproval (approval_bytes cr r)) (\<lambda>encoded.
    Inr (cr_hex_encode cr (cr_sha256 cr encoded)))"

section \<open>Validation of a raw request\<close>

definition aave_payload_rejected :: "raw_aave_liquidation_route \<Rightarrow> bool" where
  "aave_payload_rejected raw \<longleftrightarrow>
     ra_receive_a_token raw
     \<or> ra_evidence_mode raw \<noteq> ''EIP1186_VERIFIED''
       \<and> ra_evidence_mode raw \<noteq> ''DUAL_PROVIDER_FORK_VERIFIED''
       \<and> ra_evidence_mode raw \<noteq> ''SINGLE_PRIMARY_FORK_VERIFIED''
     \<or> \<not> canonical_block_hash (ra_state_root raw)
     \<or> \<not> canonical_digest (ra_release_sha raw)"

definition aave_route_parse ::
  "crates \<Rightarrow> raw_aave_liquidation_route \<Rightarrow> model_error + aave_liquidation_route" where
  "aave_route_parse cr raw =
    and_then (canonical_address_parse cr (ra_borrower raw)) (\<lambda>borrower.
    and_then (canonical_address_parse cr (ra_debt_asset raw)) (\<lambda>debt_asset.
    and_then (canonical_address_parse cr (ra_collateral_asset raw)) (\<lambda>collateral_asset.
    and_then (parse_positive_u128 (ra_debt_asset_price_base raw)) (\<lambda>debt_asset_price_base.
    and_then (parse_positive_u128 (ra_weth_price_base raw)) (\<lambda>weth_price_base.
    and_then (parse_positive_u128 (ra_maximum_input_weth_wei raw)) (\<lambda>maximum_input_weth_wei.
    and_then (parse_positive_u128 (ra_minimum_profit_weth_wei raw)) (\<lambda>minimum_profit_weth_wei.
    and_then (parse_positive_u128 (ra_minimum_collateral_received raw)) (\<lambda>minimum_collateral_received.
    and_then (parse_positive_u128 (ra_minimum_unwind_output raw)) (\<lambda>minimum_unwind_output.
    and_then (ok_or ME_InvalidAmount (parse_unsigned (ra_maximum_atlas_bid raw))) (\<lambda>maximum_atlas_bid.
    Inr \<lparr>al_borrower = borrower, al_debt_asset = debt_asset, al_collateral_asset = collateral_asset,
         al_debt_asset_decimals = ra_debt_asset_decimals raw,
         al_debt_asset_price_base = debt_asset_price_base, al_weth_price_base = weth_price_base,
         al_maximum_input_weth_wei = maximum_input_weth_wei,
         al_minimum_profit_weth_wei = minimum_profit_weth_wei,
         al_receive_a_token = ra_receive_a_token raw,
         al_minimum_collateral_received = minimum_collateral_received,
         al_minimum_unwind_output = minimum_unwind_output, al_maximum_atlas_bid = maximum_atlas_bid,
         al_evidence_mode = ra_evidence_mode raw, al_state_root = ra_state_root raw,
         al_release_sha = ra_release_sha raw\<rparr>))))))))))"

definition validate_route_type ::
  "crates \<Rightarrow> raw_execution_request \<Rightarrow> validated_leg list \<Rightarrow> canonical_address list \<Rightarrow> canonical_address
   \<Rightarrow> model_error + execution_route_type \<times> aave_liquidation_route option" where
  "validate_route_type cr raw legs token_path flash_asset =
    (if rr_route_type raw = ''PHOENIX_DEX_V1'' then
       if rr_route_payload raw \<noteq> None \<or> legs = [] then Inl ME_InvalidLegs
       else and_then (validate_route legs flash_asset) (\<lambda>_.
            and_then (validate_token_path token_path legs flash_asset) (\<lambda>_.
            Inr (PhoenixDexV1, None)))
     else if rr_route_type raw = AAVE_LIQUIDATION_ROUTE_FINGERPRINT then
       and_then (ok_or ME_InvalidLegs (rr_route_payload raw)) (\<lambda>payload.
       and_then (ok_or ME_InvalidLegs (cr_from_value_aave cr payload)) (\<lambda>r.
       if aave_payload_rejected r then Inl ME_InvalidApproval
       else and_then (aave_route_parse cr r) (\<lambda>route.
            and_then (validate_aave_route cr route legs token_path flash_asset) (\<lambda>_.
            Inr (AaveLiquidationV1, Some route)))))
     else Inl ME_InvalidRoute)"

definition approval_rejected :: "raw_execution_request \<Rightarrow> u128 \<Rightarrow> u128 \<Rightarrow> u128 \<Rightarrow> bool" where
  "approval_rejected raw selected_size flash_amount maximum_input_amount \<longleftrightarrow>
     trim_is_empty (rr_approved_by raw)
     \<or> MAX_APPROVER_BYTES < length (rr_approved_by raw)
     \<or> trim_is_empty (rr_policy_version raw)
     \<or> MAX_POLICY_VERSION_BYTES < length (rr_policy_version raw)
     \<or> trim_is_empty (rr_route_fingerprint raw)
     \<or> MAX_ROUTE_FINGERPRINT_BYTES < length (rr_route_fingerprint raw)
     \<or> list_ex is_control (rr_route_fingerprint raw)
     \<or> \<not> canonical_digest (rr_executor_code_hash raw)
     \<or> \<not> canonical_digest (rr_calldata_hash raw)
     \<or> \<not> canonical_digest (rr_simulation_result_hash raw)
     \<or> \<not> canonical_digest (rr_plan_hash raw)
     \<or> \<not> canonical_block_hash (rr_pinned_block_hash raw)
     \<or> \<not> canonical_digest (rr_approval_digest raw)
     \<or> selected_size \<noteq> flash_amount
     \<or> maximum_input_amount < selected_size
     \<or> rr_approval_deadline raw \<le> rr_approved_at raw
     \<or> rr_deadline raw < rr_approval_deadline raw"

definition request_validate :: "crates \<Rightarrow> raw_execution_request \<Rightarrow> model_error + execution_request" where
  "request_validate cr raw =
    (if rr_schema_version raw \<noteq> REQUEST_SCHEMA_VERSION then Inl ME_SchemaVersion
     else
     and_then (ok_or ME_WrongChain (try_from_int (rr_chain_id raw))) (\<lambda>chain_id.
     if chain_id \<noteq> ARBITRUM_ONE_CHAIN_ID then Inl ME_WrongChain
     else
     and_then (ok_or ME_InvalidRoute (parse_fixed_hex cr 32 (rr_route_id raw))) (\<lambda>route_id.
     and_then (positive_u64 ME_InvalidApproval (rr_pinned_block_number raw)) (\<lambda>pinned_block_number.
     and_then (parse_positive_u128 (rr_selected_size raw)) (\<lambda>selected_size.
     and_then (parse_positive_u128 (rr_flash_amount raw)) (\<lambda>flash_amount.
     and_then (parse_positive_u128 (rr_maximum_input_amount raw)) (\<lambda>maximum_input_amount.
     and_then (parse_positive_u128 (rr_minimum_profit raw)) (\<lambda>minimum_profit.
     and_then (parse_positive_u128 (rr_expected_profit raw)) (\<lambda>expected_profit.
     and_then (positive_u64 ME_InvalidGas (rr_gas_limit raw)) (\<lambda>gas_limit.
     and_then (parse_positive_u128 (rr_max_fee_per_gas raw)) (\<lambda>max_fee_per_gas.
     and_then (parse_positive_u128 (rr_max_priority_fee_per_gas raw)) (\<lambda>max_priority_fee_per_gas.
     if max_fee_per_gas < max_priority_fee_per_gas then Inl ME_InvalidGas
     else if MAX_ROUTE_LEGS < length (rr_legs raw) then Inl ME_InvalidLegs
     else
     and_then (collect_results (validated_leg_try_from cr) (rr_legs raw)) (\<lambda>legs.
     and_then (canonical_address_parse cr (rr_flash_asset raw)) (\<lambda>flash_asset.
     and_then (collect_results (canonical_address_parse cr) (rr_token_path raw)) (\<lambda>token_path.
     and_then (validate_route_type cr raw legs token_path flash_asset) (\<lambda>(route_type, aave_liquidation).
     if approval_rejected raw selected_size flash_amount maximum_input_amount then Inl ME_InvalidApproval
     else
     and_then (canonical_address_parse cr (rr_origin_router raw)) (\<lambda>origin_router.
     and_then (canonical_address_parse cr (rr_executor_address raw)) (\<lambda>executor_address.
     let request =
       \<lparr>er_id = rr_id raw, er_opportunity_id = rr_opportunity_id raw,
        er_schema_version = rr_schema_version raw, er_chain_id = chain_id, er_route_id = route_id,
        er_route_fingerprint = rr_route_fingerprint raw, er_route_type = route_type,
        er_aave_liquidation = aave_liquidation, er_selected_size = selected_size,
        er_token_path = token_path, er_origin_router = origin_router,
        er_executor_address = executor_address, er_executor_code_hash = rr_executor_code_hash raw,
        er_calldata_hash = rr_calldata_hash raw,
        er_simulation_result_hash = rr_simulation_result_hash raw, er_plan_hash = rr_plan_hash raw,
        er_pinned_block_number = pinned_block_number, er_pinned_block_hash = rr_pinned_block_hash raw,
        er_flash_asset = flash_asset, er_flash_amount = flash_amount,
        er_maximum_input_amount = maximum_input_amount, er_minimum_profit = minimum_profit,
        er_expected_profit = expected_profit, er_deadline = rr_deadline raw, er_legs = legs,
        er_gas_limit = gas_limit, er_max_fee_per_gas = max_fee_per_gas,
        er_max_priority_fee_per_gas = max_priority_fee_per_gas, er_approved_by = rr_approved_by raw,
        er_approved_at = rr_approved_at raw, er_approval_deadline = rr_approval_deadline raw,
        er_policy_version = rr_policy_version raw, er_approval_digest = rr_approval_digest raw\<rparr>
     in
     and_then (validate_current_route cr request) (\<lambda>_.
     and_then (canonical_approval_digest cr request) (\<lambda>digest.
     if digest \<noteq> er_approval_digest request then Inl ME_ApprovalDigestMismatch
     else Inr request))))))))))))))))))))"

end
