(* ===== verification/Executor_Request.thy ===== *)
theory Executor_Request
  imports Executor_Model
begin

text \<open>
  The lemmas about execution requests: addresses parse and print as inverses, the unit conversions
  of a liquidation route round in the safe direction, a validated request has a reviewed route and
  consistent amounts, gas and deadlines, and its approval body determines the request.
\<close>

section \<open>Addresses\<close>

lemma canonical_address_parse_Inr:
  assumes "hex_codec cr"
  shows "canonical_address_parse cr s = Inr a \<longleftrightarrow>
    s = canonical_address_to_string cr a \<and> length (address_bytes a) = 20 \<and> address_bytes a \<noteq> replicate 20 0"
proof -
  have prefix: "length s = 42 \<and> starts_with ''0x'' s \<Longrightarrow> s = ''0x'' @ drop 2 s"
    using append_take_drop_id [of 2 s] by (simp add: starts_with_def numeral_2_eq_2)
  show ?thesis
  proof
    assume "canonical_address_parse cr s = Inr a"
    then show "s = canonical_address_to_string cr a \<and> length (address_bytes a) = 20 \<and> address_bytes a \<noteq> replicate 20 0"
      using assms prefix
      by (auto simp: canonical_address_parse_def canonical_address_to_string_def hex_codec_def
          split: if_splits option.splits)
  next
    assume "s = canonical_address_to_string cr a \<and> length (address_bytes a) = 20 \<and> address_bytes a \<noteq> replicate 20 0"
    then show "canonical_address_parse cr s = Inr a"
      using assms
      by (auto simp: canonical_address_parse_def canonical_address_to_string_def hex_codec_def starts_with_def)
  qed
qed

lemma hex_codec_decode: "hex_codec cr \<Longrightarrow> cr_hex_decode cr (cr_hex_encode cr b) = Some b"
  unfolding hex_codec_def by (elim conjE allE)

lemma hex_encode_inj: "hex_codec cr \<Longrightarrow> cr_hex_encode cr a = cr_hex_encode cr b \<longleftrightarrow> a = b"
proof
  assume "hex_codec cr" "cr_hex_encode cr a = cr_hex_encode cr b"
  from arg_cong [OF this(2), of "cr_hex_decode cr"] show "a = b"
    unfolding hex_codec_decode [OF \<open>hex_codec cr\<close>] by (rule option.inject [THEN iffD1])
qed (rule arg_cong)

lemma canonical_address_to_string_inj:
  "hex_codec cr \<Longrightarrow> canonical_address_to_string cr a = canonical_address_to_string cr b \<longleftrightarrow> a = b"
  by (cases a; cases b) (simp add: canonical_address_to_string_def hex_encode_inj)

lemma dec_string_inj: "dec_string a = dec_string b \<longleftrightarrow> a = b"
proof
  assume "dec_string a = dec_string b"
  then have "parse_digits (dec_string a @ []) 0 = parse_digits (dec_string b @ []) 0"
    by (rule arg_cong)
  then show "a = b"
    unfolding parse_digits_dec_string by simp
qed (rule arg_cong)

lemma u128_to_string_inj: "u128_to_string a = u128_to_string b \<longleftrightarrow> a = b"
  by (simp add: u128_to_string_def dec_string_inj word_unat_eq_iff)

section \<open>Unit conversions\<close>

lemma checked_pow_Some: "checked_pow b e = Some v \<Longrightarrow> unat v = unat b ^ e"
proof -
  assume "checked_pow b e = Some v"
  then have "unat b ^ e < 2 ^ LENGTH('a)" "v = b ^ e"
    by (auto simp: checked_pow_def split: if_splits)
  moreover have "b ^ e = of_nat (unat b ^ e)"
    by simp
  ultimately show "unat v = unat b ^ e"
    by (simp only: unat_of_nat_exact)
qed

lemma debt_unit_Inr: "debt_unit route = Inr u \<Longrightarrow> unat u = 10 ^ unat (al_debt_asset_decimals route)"
  by (auto simp: debt_unit_def ok_or_Inr dest: checked_pow_Some)

lemma weth_to_debt_ratio_Inr:
  assumes "weth_to_debt_ratio route w = Inr (n, d)"
  shows "unat n = unat w * unat (al_weth_price_base route) * 10 ^ unat (al_debt_asset_decimals route)"
    and "unat d = 10 ^ 18 * unat (al_debt_asset_price_base route)"
proof -
  obtain v u where "checked_mul w (al_weth_price_base route) = Some v" "debt_unit route = Inr u"
    "checked_mul v u = Some n" "checked_mul WAD (al_debt_asset_price_base route) = Some d"
    using assms
    by (cases "debt_unit route") (auto simp: weth_to_debt_ratio_def result_simps bind_eq_Some_conv)
  then show "unat n = unat w * unat (al_weth_price_base route) * 10 ^ unat (al_debt_asset_decimals route)"
    and "unat d = 10 ^ 18 * unat (al_debt_asset_price_base route)"
    by (simp_all add: checked_mul_Some debt_unit_Inr WAD_def)
qed

lemma weth_to_debt_floor_reading:
  assumes "weth_to_debt_floor route w = Inr d" "\<not> same_unit route"
  shows "unat d * (10 ^ 18 * unat (al_debt_asset_price_base route))
     \<le> unat w * unat (al_weth_price_base route) * 10 ^ unat (al_debt_asset_decimals route)"
proof -
  obtain n k where "weth_to_debt_ratio route w = Inr (n, k)" "d = n div k"
    using assms by (auto simp: weth_to_debt_floor_def result_simps)
  then show ?thesis
    using weth_to_debt_ratio_Inr [of route w n k] by (simp only: unat_div div_times_less_eq_dividend)
qed

lemma weth_to_debt_ceil_reading:
  assumes "weth_to_debt_ceil route w = Inr d" "\<not> same_unit route"
  shows "unat w * unat (al_weth_price_base route) * 10 ^ unat (al_debt_asset_decimals route)
     \<le> unat d * (10 ^ 18 * unat (al_debt_asset_price_base route))"
proof -
  obtain n k s where *: "weth_to_debt_ratio route w = Inr (n, k)" "k \<noteq> 0"
    "checked_add n (k - 1) = Some s" "d = s div k"
    using assms by (auto simp: weth_to_debt_ceil_def result_simps split: if_splits)
  then have k: "0 < unat k"
    by (simp add: unat_gt_0)
  have "unat s = unat n + unat (k - 1)"
    using * by (simp only: checked_add_Some)
  also have "unat (k - 1) = unat k - 1"
    using k by (simp add: unat_minus_one \<open>k \<noteq> 0\<close>)
  finally have "unat n + unat k = unat s + 1"
    using k by simp
  moreover have "unat s div unat k * unat k + unat s mod unat k = unat s"
    by (rule div_mult_mod_eq)
  moreover have "unat s mod unat k < unat k"
    using k by (rule mod_less_divisor)
  ultimately have "unat n \<le> unat d * unat k"
    using *(4) by (simp only: unat_div)
  then show ?thesis
    by (simp only: weth_to_debt_ratio_Inr [OF *(1)])
qed

lemma debt_to_weth_floor_reading:
  assumes "debt_to_weth_floor route x = Inr v" "\<not> same_unit route"
  shows "unat v = unat x * (10 ^ 18 * unat (al_debt_asset_price_base route))
           div (10 ^ unat (al_debt_asset_decimals route) * unat (al_weth_price_base route))"
    and "0 < 10 ^ unat (al_debt_asset_decimals route) * unat (al_weth_price_base route)"
proof -
  obtain a n u k where k: "checked_mul x (al_debt_asset_price_base route) = Some a"
    "checked_mul a WAD = Some n" "debt_unit route = Inr u"
    "checked_mul u (al_weth_price_base route) = Some k" "k \<noteq> 0" "v = n div k"
    using assms by (auto simp: debt_to_weth_floor_def result_simps bind_eq_Some_conv split: if_splits)
  then have "unat n = unat x * (10 ^ 18 * unat (al_debt_asset_price_base route))"
    and "unat k = 10 ^ unat (al_debt_asset_decimals route) * unat (al_weth_price_base route)"
    and "unat v = unat n div unat k"
    by (simp_all add: checked_mul_Some debt_unit_Inr WAD_def unat_div)
  moreover have "0 < unat k"
    using k by (simp add: unat_gt_0)
  ultimately show "unat v = unat x * (10 ^ 18 * unat (al_debt_asset_price_base route))
           div (10 ^ unat (al_debt_asset_decimals route) * unat (al_weth_price_base route))"
    and "0 < 10 ^ unat (al_debt_asset_decimals route) * unat (al_weth_price_base route)"
    by simp_all
qed

lemma div_le_cap: "a \<le> w * u \<Longrightarrow> 0 < u \<Longrightarrow> a div u \<le> (w :: nat)"
  using div_le_mono [of a "w * u" u] by simp

lemma debt_within_cap:
  assumes bk: "debt_to_weth_floor route x = Inr v" and cvt: "weth_to_debt_floor route w = Inr d"
    and le: "x \<le> d"
  shows "v \<le> w"
proof (cases "same_unit route")
  case True
  then show ?thesis
    using assms by (simp add: debt_to_weth_floor_def weth_to_debt_floor_def)
next
  case False
  let ?k = "10 ^ 18 * unat (al_debt_asset_price_base route)"
  let ?u = "10 ^ unat (al_debt_asset_decimals route) * unat (al_weth_price_base route)"
  have "unat x * ?k \<le> unat d * ?k"
    using le by (simp add: word_le_nat_alt)
  also have "\<dots> \<le> unat w * ?u"
    using weth_to_debt_floor_reading [OF cvt False] by (simp only: ac_simps)
  finally have "unat x * ?k div ?u \<le> unat w"
    using debt_to_weth_floor_reading(2) [OF bk False]
    by (rule div_le_cap)
  then show ?thesis
    using debt_to_weth_floor_reading(1) [OF bk False] by (simp only: word_le_nat_alt)
qed

lemma debt_above_floor:
  assumes bk: "debt_to_weth_floor route x = Inr v" and cvt: "weth_to_debt_ceil route m = Inr p"
    and le: "p \<le> x"
  shows "m \<le> v"
proof (cases "same_unit route")
  case True
  then show ?thesis
    using assms by (simp add: debt_to_weth_floor_def weth_to_debt_ceil_def)
next
  case False
  let ?k = "10 ^ 18 * unat (al_debt_asset_price_base route)"
  let ?u = "10 ^ unat (al_debt_asset_decimals route) * unat (al_weth_price_base route)"
  have "unat m * ?u \<le> unat p * ?k"
    using weth_to_debt_ceil_reading [OF cvt False] by (simp only: ac_simps)
  also have "\<dots> \<le> unat x * ?k"
    using le by (simp add: word_le_nat_alt)
  finally have "unat m \<le> unat x * ?k div ?u"
    using debt_to_weth_floor_reading(2) [OF bk False] by (simp only: less_eq_div_iff_mult_less_eq)
  then show ?thesis
    using debt_to_weth_floor_reading(1) [OF bk False] by (simp only: word_le_nat_alt)
qed

text \<open>The unit conversions of a liquidation route round in the safe direction. A debt amount that
  stays within the converted input cap is worth at most the WETH cap, and a debt profit that reaches
  the converted profit floor is worth at least the WETH floor, for every route and every amount on
  which the conversions succeed.\<close>

theorem unit_conversion_safe:
  assumes "debt_to_weth_floor route x = Inr v"
  shows "(\<forall>w d. weth_to_debt_floor route w = Inr d \<longrightarrow> x \<le> d \<longrightarrow> v \<le> w) \<and>
    (\<forall>m p. weth_to_debt_ceil route m = Inr p \<longrightarrow> p \<le> x \<longrightarrow> m \<le> v)"
  using debt_within_cap [OF assms] debt_above_floor [OF assms] by blast

text \<open>The USDC.e route of the unit tests: six decimals, one dollar against a WETH price of 2000.\<close>

definition sample_route :: aave_liquidation_route where
  "sample_route =
    \<lparr>al_borrower = CanonicalAddress (replicate 20 17), al_debt_asset = CanonicalAddress (replicate 20 2),
     al_collateral_asset = CanonicalAddress (replicate 20 3), al_debt_asset_decimals = 6,
     al_debt_asset_price_base = 100000000, al_weth_price_base = 200000000000,
     al_maximum_input_weth_wei = 10000000000000000, al_minimum_profit_weth_wei = 1000000000000,
     al_receive_a_token = False, al_minimum_collateral_received = 1, al_minimum_unwind_output = 1,
     al_maximum_atlas_bid = 0, al_evidence_mode = ''EIP1186_VERIFIED'',
     al_state_root = ''0x'' @ replicate 64 CHR ''1'', al_release_sha = replicate 64 CHR ''2''\<rparr>"

lemma sample_route_conversions:
  "debt_to_weth_floor sample_route 3900 = Inr 1950000000000"
  "weth_to_debt_floor sample_route 10000000000000000 = Inr 20000000"
  "weth_to_debt_ceil sample_route 1000000000000 = Inr 2000"
  by (simp_all add: debt_to_weth_floor_def weth_to_debt_floor_def weth_to_debt_ceil_def same_unit_def
      weth_to_debt_ratio_def debt_unit_def checked_pow_def checked_mul_def checked_add_def WAD_def sample_route_def)

theorem unit_conversion_safe_witness:
  "debt_to_weth_floor sample_route 3900 = Inr 1950000000000
    \<and> (1950000000000 :: u128) \<le> 10000000000000000 \<and> (1000000000000 :: u128) \<le> 1950000000000"
proof -
  have "(3900 :: u128) \<le> 20000000" "(2000 :: u128) \<le> 3900"
    by (simp_all add: word_le_nat_alt)
  then show ?thesis
    using unit_conversion_safe [OF sample_route_conversions(1)] sample_route_conversions by blast
qed

section \<open>The approval body determines the request\<close>

lemma map_inj_eq: "(\<And>x y. f x = f y \<longleftrightarrow> x = y) \<Longrightarrow> map f xs = map f ys \<longleftrightarrow> xs = ys"
  by (auto simp: inj_on_def intro: map_injective)

lemma map_option_inj_eq:
  "(\<And>x y. f x = f y \<longleftrightarrow> x = y) \<Longrightarrow> map_option f a = map_option f b \<longleftrightarrow> a = b"
  by (cases a; cases b) simp_all

lemma validated_leg_serialize_inj:
  assumes "hex_codec cr"
  shows "validated_leg_serialize cr a = validated_leg_serialize cr b \<longleftrightarrow> a = b"
  by (cases a; cases b)
    (simp add: validated_leg_serialize_def canonical_address_to_string_inj [OF assms] dec_string_inj
      word_unat_eq_iff map_option_inj_eq [of "canonical_address_to_string cr", OF canonical_address_to_string_inj [OF assms]] del: dec_string.simps)

lemma raw_route_of_inj:
  assumes "hex_codec cr"
  shows "raw_route_of cr a = raw_route_of cr b \<longleftrightarrow> a = b"
  by (cases a; cases b)
    (simp add: raw_route_of_def canonical_address_to_string_inj [OF assms] u128_to_string_inj)

lemma execution_route_type_as_str_inj:
  "execution_route_type_as_str a = execution_route_type_as_str b \<longleftrightarrow> a = b"
  by (cases a; cases b) (simp_all add: AAVE_LIQUIDATION_ROUTE_FINGERPRINT_def)

text \<open>Two requests that agree in every field but the fractions of a second of their instants and the
  digest itself.\<close>

definition same_approved_request :: "execution_request \<Rightarrow> execution_request \<Rightarrow> bool" where
  "same_approved_request a b \<longleftrightarrow>
     b = a\<lparr>er_deadline := er_deadline b, er_approved_at := er_approved_at b,
           er_approval_deadline := er_approval_deadline b, er_approval_digest := er_approval_digest b\<rparr> \<and>
     timestamp (er_deadline a) = timestamp (er_deadline b) \<and>
     timestamp (er_approved_at a) = timestamp (er_approved_at b) \<and>
     timestamp (er_approval_deadline a) = timestamp (er_approval_deadline b)"

lemma approval_body_of_sel:
  "ab_schema_version (approval_body_of cr r) = er_schema_version r"
  "ab_request_id (approval_body_of cr r) = cr_uuid_to_string cr (er_id r)"
  "ab_opportunity_id (approval_body_of cr r) = cr_uuid_to_string cr (er_opportunity_id r)"
  "ab_chain_id (approval_body_of cr r) = er_chain_id r"
  "ab_route_id (approval_body_of cr r) = ''0x'' @ cr_hex_encode cr (er_route_id r)"
  "ab_route_fingerprint (approval_body_of cr r) = er_route_fingerprint r"
  "ab_route_type (approval_body_of cr r) = execution_route_type_as_str (er_route_type r)"
  "ab_route_payload (approval_body_of cr r) = map_option (raw_route_of cr) (er_aave_liquidation r)"
  "ab_selected_size (approval_body_of cr r) = u128_to_string (er_selected_size r)"
  "ab_token_path (approval_body_of cr r) = map (canonical_address_to_string cr) (er_token_path r)"
  "ab_origin_router (approval_body_of cr r) = canonical_address_to_string cr (er_origin_router r)"
  "ab_executor_address (approval_body_of cr r) = canonical_address_to_string cr (er_executor_address r)"
  "ab_executor_code_hash (approval_body_of cr r) = er_executor_code_hash r"
  "ab_calldata_hash (approval_body_of cr r) = er_calldata_hash r"
  "ab_simulation_result_hash (approval_body_of cr r) = er_simulation_result_hash r"
  "ab_plan_hash (approval_body_of cr r) = er_plan_hash r"
  "ab_pinned_block_number (approval_body_of cr r) = er_pinned_block_number r"
  "ab_pinned_block_hash (approval_body_of cr r) = er_pinned_block_hash r"
  "ab_flash_asset (approval_body_of cr r) = canonical_address_to_string cr (er_flash_asset r)"
  "ab_flash_amount (approval_body_of cr r) = u128_to_string (er_flash_amount r)"
  "ab_maximum_input_amount (approval_body_of cr r) = u128_to_string (er_maximum_input_amount r)"
  "ab_minimum_profit (approval_body_of cr r) = u128_to_string (er_minimum_profit r)"
  "ab_expected_profit (approval_body_of cr r) = u128_to_string (er_expected_profit r)"
  "ab_deadline_unix_seconds (approval_body_of cr r) = timestamp (er_deadline r)"
  "ab_legs (approval_body_of cr r) = map (validated_leg_serialize cr) (er_legs r)"
  "ab_gas_limit (approval_body_of cr r) = er_gas_limit r"
  "ab_max_fee_per_gas (approval_body_of cr r) = u128_to_string (er_max_fee_per_gas r)"
  "ab_max_priority_fee_per_gas (approval_body_of cr r) = u128_to_string (er_max_priority_fee_per_gas r)"
  "ab_approved_by (approval_body_of cr r) = er_approved_by r"
  "ab_approved_at (approval_body_of cr r) = cr_rfc3339_secs cr (er_approved_at r)"
  "ab_approval_deadline (approval_body_of cr r) = cr_rfc3339_secs cr (er_approval_deadline r)"
  "ab_policy_version (approval_body_of cr r) = er_policy_version r"
  by (simp_all add: approval_body_of_def)

text \<open>C33: The bytes an approval digest is computed over determine the request: two requests whose approval
  bodies are serialised to the same bytes agree in every field (identity, route, legs with their factories,
  amounts, gas, executor, pinned block, approver and policy) except the fractions of a second of the three
  instants and the digest itself. So no approved field can change without changing the hashed bytes.\<close>

theorem approval_body_binds_request:
  assumes "hex_codec cr" "text_codecs cr" "approval_codec cr"
    and bytes: "approval_bytes cr a = Some bytes" "approval_bytes cr b = Some bytes"
  shows "same_approved_request a b"
proof -
  have body: "approval_body_of cr a = approval_body_of cr b"
    using assms(3) bytes unfolding approval_codec_def approval_bytes_def by blast
  note inj = hex_encode_inj [OF assms(1)] canonical_address_to_string_inj [OF assms(1)]
    map_inj_eq [of "canonical_address_to_string cr", OF canonical_address_to_string_inj [OF assms(1)]]
    map_inj_eq [of "validated_leg_serialize cr", OF validated_leg_serialize_inj [OF assms(1)]]
    map_option_inj_eq [of "raw_route_of cr", OF raw_route_of_inj [OF assms(1)]]
    u128_to_string_inj execution_route_type_as_str_inj
  have uuid: "cr_uuid_to_string cr x = cr_uuid_to_string cr y \<longleftrightarrow> x = y" for x y
    by (rule inj_eq) (rule assms(2) [unfolded text_codecs_def, THEN conjunct1])
  have secs: "cr_rfc3339_secs cr x = cr_rfc3339_secs cr y \<Longrightarrow> timestamp x = timestamp y" for x y
    by (rule assms(2) [unfolded text_codecs_def, THEN conjunct2, rule_format])
  note sel = arg_cong [OF body]
  note sels = sel [of ab_schema_version] sel [of ab_request_id] sel [of ab_opportunity_id]
    sel [of ab_chain_id] sel [of ab_route_id] sel [of ab_route_fingerprint]
    sel [of ab_route_type] sel [of ab_route_payload] sel [of ab_selected_size]
    sel [of ab_token_path] sel [of ab_origin_router] sel [of ab_executor_address]
    sel [of ab_executor_code_hash] sel [of ab_calldata_hash] sel [of ab_simulation_result_hash]
    sel [of ab_plan_hash] sel [of ab_pinned_block_number] sel [of ab_pinned_block_hash]
    sel [of ab_flash_asset] sel [of ab_flash_amount] sel [of ab_maximum_input_amount]
    sel [of ab_minimum_profit] sel [of ab_expected_profit] sel [of ab_deadline_unix_seconds]
    sel [of ab_legs] sel [of ab_gas_limit] sel [of ab_max_fee_per_gas]
    sel [of ab_max_priority_fee_per_gas] sel [of ab_approved_by] sel [of ab_approved_at]
    sel [of ab_approval_deadline] sel [of ab_policy_version]
  note eqs = sels [unfolded approval_body_of_sel append_same_eq same_append_eq inj uuid]
  have "b = a\<lparr>er_deadline := er_deadline b, er_approved_at := er_approved_at b,
           er_approval_deadline := er_approval_deadline b, er_approval_digest := er_approval_digest b\<rparr>"
    by (rule execution_request.equality) (simp_all add: eqs)
  moreover have "timestamp (er_deadline a) = timestamp (er_deadline b)"
    by (rule eqs)
  moreover have "timestamp (er_approved_at a) = timestamp (er_approved_at b)"
    by (rule secs, rule eqs)
  moreover have "timestamp (er_approval_deadline a) = timestamp (er_approval_deadline b)"
    by (rule secs, rule eqs)
  ultimately show ?thesis
    unfolding same_approved_request_def by blast
qed

section \<open>What validation guarantees\<close>

definition request_wf :: "crates \<Rightarrow> execution_request \<Rightarrow> bool" where
  "request_wf cr r \<longleftrightarrow>
     er_schema_version r = REQUEST_SCHEMA_VERSION \<and> er_chain_id r = ARBITRUM_ONE_CHAIN_ID \<and>
     length (er_legs r) \<le> MAX_ROUTE_LEGS \<and>
     0 < er_flash_amount r \<and> er_selected_size r = er_flash_amount r \<and>
     er_flash_amount r \<le> er_maximum_input_amount r \<and>
     0 < er_minimum_profit r \<and> 0 < er_gas_limit r \<and>
     0 < er_max_priority_fee_per_gas r \<and> er_max_priority_fee_per_gas r \<le> er_max_fee_per_gas r \<and>
     er_approved_at r < er_approval_deadline r \<and> er_approval_deadline r \<le> er_deadline r \<and>
     (\<forall>route. er_aave_liquidation r = Some route \<longrightarrow>
        0 < al_debt_asset_price_base route \<and> 0 < al_weth_price_base route) \<and>
     validate_current_route cr r = Inr () \<and>
     canonical_approval_digest cr r = Inr (er_approval_digest r)"

lemma parse_positive_u128_Inr: "parse_positive_u128 s = Inr n \<Longrightarrow> 0 < n"
  by (auto simp: parse_positive_u128_def split: option.splits if_splits)

lemma positive_u64_Inr: "positive_u64 e i = Inr n \<Longrightarrow> 0 < n"
  by (auto simp: positive_u64_def split: option.splits if_splits)

lemma aave_route_parse_prices:
  "aave_route_parse cr raw = Inr route \<Longrightarrow> 0 < al_debt_asset_price_base route \<and> 0 < al_weth_price_base route"
  unfolding aave_route_parse_def by (elim and_then_InrE) (auto dest: parse_positive_u128_Inr)

lemma validate_route_type_prices:
  "validate_route_type cr raw legs path flash = Inr (t, Some route) \<Longrightarrow>
     0 < al_debt_asset_price_base route \<and> 0 < al_weth_price_base route"
  unfolding validate_route_type_def
  by (auto simp: and_then_Inr split: if_splits dest: aave_route_parse_prices)

lemma if_Inl_InrE:
  assumes "(if c then Inl e else m) = Inr b"
  obtains "\<not> c" "m = Inr b"
  using assms by (cases c) simp_all

lemma case_prod_eqE:
  assumes "(case z of (x, y) \<Rightarrow> f x y) = c"
  obtains x y where "z = (x, y)" "f x y = c"
  using assms by (cases z) simp

lemma Let_eqE:
  assumes "Let x f = c"
  obtains y where "y = x" "f y = c"
  using assms by (simp add: Let_def)

lemmas result_elims = and_then_InrE if_Inl_InrE case_prod_eqE Let_eqE

text \<open>C34: Every request the validation accepts is well formed: it is for Arbitrum One under the
  current schema, has at most four legs, positive amounts with the flash amount equal to the selected
  size and within the input cap, a positive gas limit with the priority fee within the fee cap, an
  approval that ends before the deadline, positive prices for a liquidation (so no conversion divides by
  zero), a reviewed route, and the digest of exactly this request as its approval digest.\<close>

theorem request_validate_wf:
  assumes "request_validate cr raw = Inr r"
  shows "request_wf cr r \<and> er_id r = rr_id raw"
  using assms unfolding request_validate_def
  by (elim result_elims)
    (auto simp: request_wf_def approval_rejected_def collect_results_Inr not_less
      dest: parse_positive_u128_Inr positive_u64_Inr list_all2_lengthD validate_route_type_prices)

end
