(* ===== verification/Executor_Samples.thy ===== *)
theory Executor_Samples
  imports Executor_Request
begin

text \<open>
  A concrete instance of the third-party functions for the witnesses: a hexadecimal codec that meets
  its documented laws, decimal texts for identifiers and instants, an encoding of approvals that can be
  read back, and fixed results for the decoders and the hash. It shows that the hypotheses on the crates can hold.
\<close>

section \<open>A hexadecimal codec\<close>

definition ref_hex_digit :: "nat \<Rightarrow> char" where
  "ref_hex_digit n = char_of (if n < 10 then 48 + n else 87 + n)"

definition ref_hex_value :: "char \<Rightarrow> nat option" where
  "ref_hex_value c =
    (let n = of_char c in
     if 48 \<le> n \<and> n \<le> 57 then Some (n - 48)
     else if 97 \<le> n \<and> n \<le> 102 then Some (n - 87)
     else if 65 \<le> n \<and> n \<le> 70 then Some (n - 55)
     else None)"

fun ref_hex_encode :: "u8 list \<Rightarrow> string" where
  "ref_hex_encode [] = []"
| "ref_hex_encode (b # bs) = ref_hex_digit (unat b div 16) # ref_hex_digit (unat b mod 16) # ref_hex_encode bs"

fun ref_hex_decode :: "string \<Rightarrow> u8 list option" where
  "ref_hex_decode [] = Some []"
| "ref_hex_decode [c] = None"
| "ref_hex_decode (c # d # s) =
    (case (ref_hex_value c, ref_hex_value d, ref_hex_decode s) of
       (Some h, Some l, Some bs) \<Rightarrow> Some (of_nat (16 * h + l) # bs)
     | _ \<Rightarrow> None)"

lemma of_char_ref_hex_digit: "n < 16 \<Longrightarrow> of_char (ref_hex_digit n) = (if n < 10 then 48 + n else 87 + n)"
  by (simp add: ref_hex_digit_def of_char_of)

lemma ref_hex_value_digit: "n < 16 \<Longrightarrow> ref_hex_value (ref_hex_digit n) = Some n"
  by (simp add: ref_hex_value_def of_char_ref_hex_digit)

lemma ref_hex_digit_lower: "n < 16 \<Longrightarrow> is_lower_hex (ref_hex_digit n)"
  by (simp add: is_lower_hex_def is_ascii_digit_def of_char_ref_hex_digit)

lemma ref_hex_digit_value:
  assumes "is_lower_hex c" "ref_hex_value c = Some n"
  shows "n < 16 \<and> ref_hex_digit n = c"
proof -
  have "n < 16 \<and> of_char c = (if n < 10 then 48 + n else 87 + n)"
    using assms by (auto simp: is_lower_hex_def is_ascii_digit_def ref_hex_value_def Let_def split: if_splits)
  then show ?thesis
    unfolding ref_hex_digit_def by (metis char_of_char)
qed

lemma byte_nibbles: "unat (b :: u8) div 16 < 16" "unat b mod 16 < 16"
  using unat_less_exp [of b] by (simp_all add: less_mult_imp_div_less)

lemma ref_hex_roundtrip: "ref_hex_decode (ref_hex_encode b) = Some b"
  by (induction b) (simp_all add: ref_hex_value_digit byte_nibbles)

lemma ref_hex_encode_lower: "list_all is_lower_hex (ref_hex_encode b)"
  by (induction b) (simp_all add: ref_hex_digit_lower byte_nibbles)

lemma length_ref_hex_encode: "length (ref_hex_encode b) = 2 * length b"
  by (induction b) simp_all

lemma ref_hex_encode_decode:
  "list_all is_lower_hex s \<Longrightarrow> ref_hex_decode s = Some b \<Longrightarrow> ref_hex_encode b = s"
proof (induction s arbitrary: b rule: ref_hex_decode.induct)
  case (3 c d s)
  then obtain h l bs where *: "ref_hex_value c = Some h" "ref_hex_value d = Some l"
    "ref_hex_decode s = Some bs" "b = of_nat (16 * h + l) # bs"
    by (auto split: option.splits)
  have hl: "h < 16" "ref_hex_digit h = c" "l < 16" "ref_hex_digit l = d"
    using 3(2) * ref_hex_digit_value by auto
  then have "unat (of_nat (16 * h + l) :: u8) = 16 * h + l"
    by (intro unat_of_nat_exact) simp
  then show ?case
    using hl * 3 by simp
qed simp_all

section \<open>An encoding of approvals\<close>

text \<open>Every part of an approval is written so that its end can be seen: a text with a mark before each of its
  characters and one at its end, numbers as decimal texts, a list likewise.\<close>

fun ref_list :: "('a \<Rightarrow> u8 list) \<Rightarrow> 'a list \<Rightarrow> u8 list" where
  "ref_list f [] = [0]"
| "ref_list f (x # xs) = 1 # f x @ ref_list f xs"

definition ref_text :: "string \<Rightarrow> u8 list" where
  "ref_text s = ref_list (\<lambda>c. [of_nat (of_char c)]) s"

fun ref_opt :: "('a \<Rightarrow> u8 list) \<Rightarrow> 'a option \<Rightarrow> u8 list" where
  "ref_opt f None = [0]"
| "ref_opt f (Some x) = 1 # f x"

definition ref_flag :: "bool \<Rightarrow> u8 list" where
  "ref_flag b = (if b then [1] else [0])"

definition ref_num :: "'a::len word \<Rightarrow> u8 list" where
  "ref_num w = ref_text (dec_string (unat w))"

definition int_string :: "int \<Rightarrow> string" where
  "int_string i = (if 0 \<le> i then dec_string (nat i) else CHR ''-'' # dec_string (nat (- i)))"

definition ref_int :: "int \<Rightarrow> u8 list" where
  "ref_int i = ref_text (int_string i)"

definition ref_leg :: "execution_leg \<Rightarrow> u8 list" where
  "ref_leg l =
    ref_text (xl_pool l) @ ref_opt ref_text (xl_factory l) @ ref_text (xl_token_in l) @ ref_text (xl_token_out l) @
    ref_num (xl_fee l) @ ref_flag (xl_zero_for_one l) @ ref_text (xl_min_amount_out l)"

definition ref_aave :: "raw_aave_liquidation_route \<Rightarrow> u8 list" where
  "ref_aave r =
    ref_text (ra_borrower r) @ ref_text (ra_debt_asset r) @ ref_text (ra_collateral_asset r) @
    ref_num (ra_debt_asset_decimals r) @ ref_text (ra_debt_asset_price_base r) @ ref_text (ra_weth_price_base r) @
    ref_text (ra_maximum_input_weth_wei r) @ ref_text (ra_minimum_profit_weth_wei r) @
    ref_flag (ra_receive_a_token r) @ ref_text (ra_minimum_collateral_received r) @
    ref_text (ra_minimum_unwind_output r) @ ref_text (ra_maximum_atlas_bid r) @ ref_text (ra_evidence_mode r) @
    ref_text (ra_state_root r) @ ref_text (ra_release_sha r)"

definition ref_approval :: "approval_body \<Rightarrow> u8 list" where
  "ref_approval b =
    ref_text (ab_schema_version b) @ ref_text (ab_request_id b) @ ref_text (ab_opportunity_id b) @
    ref_num (ab_chain_id b) @ ref_text (ab_route_id b) @ ref_text (ab_route_fingerprint b) @
    ref_text (ab_route_type b) @ ref_opt ref_aave (ab_route_payload b) @ ref_text (ab_selected_size b) @
    ref_list ref_text (ab_token_path b) @ ref_text (ab_origin_router b) @ ref_text (ab_executor_address b) @
    ref_text (ab_executor_code_hash b) @ ref_text (ab_calldata_hash b) @ ref_text (ab_simulation_result_hash b) @
    ref_text (ab_plan_hash b) @ ref_num (ab_pinned_block_number b) @ ref_text (ab_pinned_block_hash b) @
    ref_text (ab_flash_asset b) @ ref_text (ab_flash_amount b) @ ref_text (ab_maximum_input_amount b) @
    ref_text (ab_minimum_profit b) @ ref_text (ab_expected_profit b) @ ref_int (ab_deadline_unix_seconds b) @
    ref_list ref_leg (ab_legs b) @ ref_num (ab_gas_limit b) @ ref_text (ab_max_fee_per_gas b) @
    ref_text (ab_max_priority_fee_per_gas b) @ ref_text (ab_approved_by b) @ ref_text (ab_approved_at b) @
    ref_text (ab_approval_deadline b) @ ref_text (ab_policy_version b)"

text \<open>An encoding that can be read back: what follows it is determined too.\<close>

definition readable :: "('a \<Rightarrow> u8 list) \<Rightarrow> bool" where
  "readable f \<longleftrightarrow> (\<forall>x y r s. f x @ r = f y @ s \<longleftrightarrow> x = y \<and> r = s)"

lemma readableD: "readable f \<Longrightarrow> f x @ r = f y @ s \<longleftrightarrow> x = y \<and> r = s"
  by (simp add: readable_def)

lemma readableI: "(\<And>x y r s. f x @ r = f y @ s \<Longrightarrow> x = y \<and> r = s) \<Longrightarrow> readable f"
  unfolding readable_def by blast

lemma readable_list:
  assumes "readable f"
  shows "readable (ref_list f)"
proof (rule readableI)
  fix x y r s
  assume "ref_list f x @ r = ref_list f y @ s"
  then show "x = y \<and> r = s"
  proof (induction x arbitrary: y)
    case Nil
    then show ?case by (cases y) auto
  next
    case (Cons a x)
    then show ?case by (cases y) (auto simp: readableD [OF assms])
  qed
qed

lemma readable_text: "readable ref_text"
proof -
  have "readable (\<lambda>c. [of_nat (of_char c) :: u8])"
  proof (rule readableI)
    fix x y :: char and r s
    assume *: "[of_nat (of_char x) :: u8] @ r = [of_nat (of_char y)] @ s"
    have "(of_char c :: nat) < 256" for c by (simp add: of_char_def)
    then have "unat (of_nat (of_char c) :: u8) = of_char c" for c by (intro unat_of_nat_exact) simp
    with * have "(of_char x :: nat) = of_char y" by (metis append_Cons list.inject)
    with * show "x = y \<and> r = s" by simp
  qed
  then show ?thesis unfolding ref_text_def [abs_def] by (rule readable_list)
qed

lemma readable_opt:
  assumes "readable f"
  shows "readable (ref_opt f)"
proof (rule readableI)
  fix x y r s
  assume "ref_opt f x @ r = ref_opt f y @ s"
  then show "x = y \<and> r = s" by (cases x; cases y) (auto simp: readableD [OF assms])
qed

lemma readable_flag: "readable ref_flag"
  by (rule readableI) (auto simp: ref_flag_def split: if_splits)

lemma readable_num: "readable ref_num"
  by (rule readableI) (simp add: ref_num_def readableD [OF readable_text] dec_string_inj word_unat_eq_iff)

lemma int_string_inj: "int_string i = int_string j \<Longrightarrow> i = j"
proof -
  have minus: "dec_string n \<noteq> CHR ''-'' # s" for n s
    using hd_dec_string [of n] by (auto simp: is_ascii_digit_def)
  assume "int_string i = int_string j"
  then show "i = j"
    by (auto simp: int_string_def dec_string_inj minus minus [symmetric] split: if_splits simp del: dec_string.simps)
qed

lemma readable_int: "readable ref_int"
  by (rule readableI) (use int_string_inj in \<open>auto simp: ref_int_def readableD [OF readable_text]\<close>)

lemmas readable_iffs = readableD [OF readable_text] readableD [OF readable_flag] readableD [OF readable_num]
  readableD [OF readable_int] readableD [OF readable_opt [OF readable_text]] readableD [OF readable_list [OF readable_text]]

lemma readable_leg: "readable ref_leg"
  by (rule readableI) (auto simp: ref_leg_def readable_iffs intro: execution_leg.equality)

lemma readable_aave: "readable ref_aave"
  by (rule readableI) (auto simp: ref_aave_def readable_iffs intro: raw_aave_liquidation_route.equality)

lemma readable_approval: "readable ref_approval"
  by (rule readableI)
    (auto simp: ref_approval_def readable_iffs readableD [OF readable_opt [OF readable_aave]]
      readableD [OF readable_list [OF readable_leg]] intro: approval_body.equality)

section \<open>The instance\<close>

definition sample_raw_leg :: "string \<Rightarrow> string \<Rightarrow> string \<Rightarrow> u32 \<Rightarrow> bool \<Rightarrow> execution_leg" where
  "sample_raw_leg pool token_in token_out fee zero_for_one =
    \<lparr>xl_pool = pool, xl_factory = None, xl_token_in = token_in, xl_token_out = token_out,
     xl_fee = fee, xl_zero_for_one = zero_for_one, xl_min_amount_out = ''1''\<rparr>"

definition sample_raw :: raw_execution_request where
  "sample_raw =
    \<lparr>rr_id = 7, rr_opportunity_id = 8, rr_schema_version = REQUEST_SCHEMA_VERSION,
     rr_chain_id = 42161, rr_route_id = ''0x'' @ concat (replicate 32 ''11''),
     rr_route_fingerprint = CURRENT_ROUTE_FINGERPRINT, rr_route_type = ''PHOENIX_DEX_V1'',
     rr_route_payload = None, rr_selected_size = ''1000'',
     rr_token_path = [ARBITRUM_WETH_ADDRESS, ARBITRUM_NATIVE_USDC_ADDRESS, ARBITRUM_WETH_ADDRESS],
     rr_origin_router = ARBITRUM_AAVE_V3_POOL_ADDRESS,
     rr_executor_address = ''0x'' @ concat (replicate 20 ''22''),
     rr_executor_code_hash = concat (replicate 32 ''33''),
     rr_calldata_hash = concat (replicate 32 ''ab''),
     rr_simulation_result_hash = concat (replicate 32 ''44''), rr_plan_hash = concat (replicate 32 ''55''),
     rr_pinned_block_number = 100, rr_pinned_block_hash = ''0x'' @ concat (replicate 32 ''66''),
     rr_flash_asset = ARBITRUM_WETH_ADDRESS, rr_flash_amount = ''1000'',
     rr_maximum_input_amount = ''1000'', rr_minimum_profit = ''10'', rr_expected_profit = ''20'',
     rr_deadline = 3000000000500,
     rr_legs = [sample_raw_leg CURRENT_ROUTE_POOL_500_ADDRESS ARBITRUM_WETH_ADDRESS
                  ARBITRUM_NATIVE_USDC_ADDRESS 500 True,
                sample_raw_leg CURRENT_ROUTE_POOL_3000_ADDRESS ARBITRUM_NATIVE_USDC_ADDRESS
                  ARBITRUM_WETH_ADDRESS 3000 False],
     rr_gas_limit = 100, rr_max_fee_per_gas = ''5'', rr_max_priority_fee_per_gas = ''1'',
     rr_approved_by = ''operator'', rr_approved_at = 1000000000000,
     rr_approval_deadline = 2000000000000, rr_policy_version = APPROVAL_POLICY_VERSION,
     rr_approval_digest = concat (replicate 32 ''ab'')\<rparr>"

text \<open>The JSON decoders give the legs and the path of the sample request.\<close>

definition sample_crates :: crates where
  "sample_crates =
    \<lparr>cr_hex_encode = ref_hex_encode, cr_hex_decode = ref_hex_decode,
     cr_uuid_to_string = (\<lambda>u. dec_string (unat u)),
     cr_rfc3339_secs = (\<lambda>t. int_string (timestamp t)),
     cr_from_value_aave = (\<lambda>_. None), cr_from_value_legs = (\<lambda>_. Some (rr_legs sample_raw)),
     cr_from_value_strings = (\<lambda>_. Some (rr_token_path sample_raw)),
     cr_approval_to_vec = (\<lambda>b. Some (ref_approval b)),
     cr_sha256 = (\<lambda>_. replicate 32 171), cr_encode_input = (\<lambda>_ _. Some [1, 2, 3]),
     cr_abi_encode = (\<lambda>_. []), cr_abi_decode_input = (\<lambda>_. None),
     cr_event_signature = (\<lambda>_. Some (replicate 32 7)), cr_parse_log = (\<lambda>_ _ _. None)\<rparr>"

lemma sample_hex_codec: "hex_codec sample_crates"
  unfolding hex_codec_def sample_crates_def
  by (simp add: ref_hex_roundtrip length_ref_hex_encode ref_hex_encode_lower) (blast intro: ref_hex_encode_decode)

lemma sample_text_codecs: "text_codecs sample_crates"
proof -
  have "inj (\<lambda>u :: uuid. dec_string (unat u))"
    by (rule injI) (simp add: dec_string_inj word_unat_eq_iff del: dec_string.simps)
  then show ?thesis
    unfolding text_codecs_def sample_crates_def by (simp, blast dest: int_string_inj)
qed

lemma sample_approval_codec: "approval_codec sample_crates"
proof -
  have "a = b" if "ref_approval a = ref_approval b" for a b
    using readableD [OF readable_approval, of a "[]" b "[]"] that by simp
  then show ?thesis by (simp add: approval_codec_def sample_crates_def)
qed

section \<open>A sample request\<close>

text \<open>The addresses the sample uses, in bytes.\<close>

definition weth_address :: canonical_address where
  "weth_address = CanonicalAddress [130, 175, 73, 68, 125, 138, 7, 227, 189, 149, 189, 13, 86, 243, 82, 65, 82, 63, 186, 177]"

definition usdc_address :: canonical_address where
  "usdc_address = CanonicalAddress [175, 136, 208, 101, 231, 124, 140, 194, 35, 147, 39, 197, 237, 179, 164, 50, 38, 142, 88, 49]"

definition aave_pool_address :: canonical_address where
  "aave_pool_address = CanonicalAddress [121, 74, 97, 53, 141, 104, 69, 89, 79, 148, 220, 29, 176, 42, 37, 43, 91, 72, 20, 173]"

definition pool_500_address :: canonical_address where
  "pool_500_address = CanonicalAddress [198, 150, 32, 4, 244, 82, 190, 146, 3, 89, 25, 145, 209, 95, 107, 56, 142, 9, 232, 208]"

definition pool_3000_address :: canonical_address where
  "pool_3000_address = CanonicalAddress [196, 115, 226, 174, 227, 68, 27, 249, 36, 11, 232, 94, 177, 34, 171, 176, 89, 163, 181, 124]"

lemmas sample_eval = sample_crates_def ref_hex_value_def starts_with_def is_lower_hex_def is_ascii_digit_def
  canonical_address_parse_def of_char_def

lemma not_all_zero: "x \<noteq> 0 \<Longrightarrow> x # xs \<noteq> replicate 20 (0 :: u8)"
  by (simp add: numeral_eq_Suc)

lemma sample_addresses:
  "canonical_address_parse sample_crates ARBITRUM_WETH_ADDRESS = Inr weth_address"
  "canonical_address_parse sample_crates ARBITRUM_NATIVE_USDC_ADDRESS = Inr usdc_address"
  "canonical_address_parse sample_crates ARBITRUM_AAVE_V3_POOL_ADDRESS = Inr aave_pool_address"
  "canonical_address_parse sample_crates CURRENT_ROUTE_POOL_500_ADDRESS = Inr pool_500_address"
  "canonical_address_parse sample_crates CURRENT_ROUTE_POOL_3000_ADDRESS = Inr pool_3000_address"
  by (simp_all add: sample_eval not_all_zero ARBITRUM_WETH_ADDRESS_def ARBITRUM_NATIVE_USDC_ADDRESS_def ARBITRUM_AAVE_V3_POOL_ADDRESS_def CURRENT_ROUTE_POOL_500_ADDRESS_def CURRENT_ROUTE_POOL_3000_ADDRESS_def weth_address_def usdc_address_def aave_pool_address_def pool_500_address_def pool_3000_address_def)

lemma length_concat_replicate [simp]: "length (concat (replicate n s)) = n * length s"
  by (induction n) simp_all

lemma list_all_concat_replicate [simp]: "list_all p s \<Longrightarrow> list_all p (concat (replicate n s))"
  by (induction n) simp_all

lemma ref_hex_decode_replicate:
  assumes "ref_hex_value c = Some h" "ref_hex_value d = Some l"
  shows "ref_hex_decode (concat (replicate n [c, d])) = Some (replicate n (of_nat (16 * h + l)))"
  by (induction n) (simp_all add: assms)

definition sample_leg ::
  "canonical_address \<Rightarrow> canonical_address \<Rightarrow> canonical_address \<Rightarrow> u32 \<Rightarrow> bool \<Rightarrow> validated_leg" where
  "sample_leg pool token_in token_out fee zero_for_one =
    \<lparr>vl_pool = pool, vl_factory = None, vl_token_in = token_in, vl_token_out = token_out,
     vl_fee = fee, vl_zero_for_one = zero_for_one, vl_min_amount_out = 1\<rparr>"

definition sample_executor :: canonical_address where
  "sample_executor = CanonicalAddress (replicate 20 34)"

definition sample_request :: execution_request where
  "sample_request =
    \<lparr>er_id = 7, er_opportunity_id = 8, er_schema_version = REQUEST_SCHEMA_VERSION,
     er_chain_id = 42161, er_route_id = replicate 32 17,
     er_route_fingerprint = CURRENT_ROUTE_FINGERPRINT, er_route_type = PhoenixDexV1,
     er_aave_liquidation = None, er_selected_size = 1000,
     er_token_path = [weth_address, usdc_address, weth_address],
     er_origin_router = aave_pool_address, er_executor_address = sample_executor,
     er_executor_code_hash = concat (replicate 32 ''33''),
     er_calldata_hash = concat (replicate 32 ''ab''),
     er_simulation_result_hash = concat (replicate 32 ''44''), er_plan_hash = concat (replicate 32 ''55''),
     er_pinned_block_number = 100, er_pinned_block_hash = ''0x'' @ concat (replicate 32 ''66''),
     er_flash_asset = weth_address, er_flash_amount = 1000, er_maximum_input_amount = 1000,
     er_minimum_profit = 10, er_expected_profit = 20, er_deadline = 3000000000500,
     er_legs = [sample_leg pool_500_address weth_address usdc_address 500 True,
                sample_leg pool_3000_address usdc_address weth_address 3000 False],
     er_gas_limit = 100, er_max_fee_per_gas = 5, er_max_priority_fee_per_gas = 1,
     er_approved_by = ''operator'', er_approved_at = 1000000000000,
     er_approval_deadline = 2000000000000, er_policy_version = APPROVAL_POLICY_VERSION,
     er_approval_digest = concat (replicate 32 ''ab'')\<rparr>"

lemma sample_executor_parse:
  "canonical_address_parse sample_crates (''0x'' @ concat (replicate 20 ''22'')) = Inr sample_executor"
  by (simp add: canonical_address_parse_def sample_crates_def starts_with_def sample_executor_def
      is_lower_hex_def is_ascii_digit_def of_char_def ref_hex_decode_replicate [where h = 2 and l = 2] ref_hex_value_def)

lemma sample_route_id: "parse_fixed_hex sample_crates 32 (''0x'' @ concat (replicate 32 ''11'')) = Some (replicate 32 17)"
  by (simp add: parse_fixed_hex_def sample_crates_def starts_with_def of_char_def
      ref_hex_decode_replicate [where h = 1 and l = 1] ref_hex_value_def)

lemma sample_numbers:
  "parse_positive_u128 ''1000'' = Inr 1000" "parse_positive_u128 ''10'' = Inr 10"
  "parse_positive_u128 ''20'' = Inr 20" "parse_positive_u128 ''5'' = Inr 5" "parse_positive_u128 ''1'' = Inr 1"
  by (simp_all add: parse_positive_u128_def parse_unsigned_def is_ascii_digit_def of_char_def)

lemma sample_legs:
  "collect_results (validated_leg_try_from sample_crates) (rr_legs sample_raw) = Inr (er_legs sample_request)"
  by (simp add: sample_raw_def sample_request_def validated_leg_try_from_def sample_raw_leg_def
      sample_leg_def sample_addresses sample_numbers word_le_nat_alt)

lemma sample_route_valid:
  "validate_route (er_legs sample_request) weth_address = Inr ()"
  "validate_token_path (er_token_path sample_request) (er_legs sample_request) weth_address = Inr ()"
  "validate_current_route sample_crates sample_request = Inr ()"
  by (simp_all add: validate_route_def validate_token_path_def validate_current_route_def dex_route_matches_def
      first_def sample_request_def sample_leg_def sample_addresses weth_address_def usdc_address_def
      pool_500_address_def pool_3000_address_def word_less_nat_alt)

lemma sample_approval: "\<not> approval_rejected sample_raw 1000 1000 1000"
  by (simp add: approval_rejected_def sample_raw_def trim_is_empty_def is_space_def is_control_def
      canonical_digest_def canonical_block_hash_def starts_with_def is_lower_hex_def is_ascii_digit_def
      of_char_def MAX_APPROVER_BYTES_def MAX_POLICY_VERSION_BYTES_def MAX_ROUTE_FINGERPRINT_BYTES_def
      APPROVAL_POLICY_VERSION_def CURRENT_ROUTE_FINGERPRINT_def)

lemma ref_hex_encode_replicate:
  "ref_hex_encode (replicate n b) = concat (replicate n [ref_hex_digit (unat b div 16), ref_hex_digit (unat b mod 16)])"
  by (induction n) simp_all

lemma sample_digest:
  "canonical_approval_digest sample_crates sample_request = Inr (concat (replicate 32 ''ab''))"
  by (simp add: canonical_approval_digest_def approval_bytes_def sample_crates_def ref_hex_encode_replicate ref_hex_digit_def char_of_def bit_Suc_0_iff)

lemma sample_request_valid: "request_validate sample_crates sample_raw = Inr sample_request"
  using sample_legs sample_route_valid sample_approval sample_digest
  unfolding sample_raw_def sample_request_def
  by (simp add: request_validate_def validate_route_type_def try_from_int_def positive_u64_def
      ARBITRUM_ONE_CHAIN_ID_def MAX_ROUTE_LEGS_def sample_addresses sample_numbers
      sample_executor_parse [simplified] sample_route_id [simplified])

theorem approval_body_binds_request_witness:
  "same_approved_request sample_request
     (sample_request\<lparr>er_deadline := 3000000000900, er_approval_digest := []\<rparr>)"
proof -
  let ?b = "sample_request\<lparr>er_deadline := 3000000000900, er_approval_digest := []\<rparr>"
  have "approval_body_of sample_crates sample_request = approval_body_of sample_crates ?b"
    by (simp add: approval_body_of_def sample_request_def timestamp_def)
  then have "approval_bytes sample_crates ?b = approval_bytes sample_crates sample_request" by (simp add: approval_bytes_def)
  moreover have "approval_bytes sample_crates sample_request = Some (ref_approval (approval_body_of sample_crates sample_request))"
    by (simp add: approval_bytes_def sample_crates_def)
  ultimately show ?thesis
    by (intro approval_body_binds_request [OF sample_hex_codec sample_text_codecs sample_approval_codec]) simp_all
qed

theorem request_validate_wf_witness:
  "request_validate sample_crates sample_raw = Inr sample_request \<and> request_wf sample_crates sample_request"
  using sample_request_valid request_validate_wf [OF sample_request_valid] by blast

end
