(* ===== verification/Executor_Settlement.thy ===== *)
theory Executor_Settlement
  imports Executor_Abi
begin

text \<open>
  The lemmas about the contract encodings: which logs a settlement is read from, and the round trip
  of an encoded liquidation request.
\<close>

section \<open>Reading a settlement\<close>

definition is_event_log :: "canonical_address \<Rightarrow> u8 list \<Rightarrow> rpc_log \<Rightarrow> bool" where
  "is_event_log executor signature log \<longleftrightarrow>
     lg_address log = executor \<and> first (lg_topics log) = Some signature"

lemma decode_logs_Inr:
  "decode_logs (\<lambda>a. a = executor) signature decode e logs = Inr ms \<Longrightarrow>
     list_all2 (\<lambda>log m. decode log = Inr m) (filter (is_event_log executor signature) logs) ms"
  by (induction logs arbitrary: ms)
    (auto simp: is_event_log_def result_simps split: if_splits)

lemma single_match_Inr: "single_match e ms = Inr m \<longleftrightarrow> ms = [m]"
  by (auto simp: single_match_def split: list.splits)

lemma decode_opportunity_log_Inr:
  assumes "decode_opportunity_log cr r log = Inr s"
  shows "\<exists>params. cr_parse_log cr ''OpportunitySettled'' (lg_topics log) (lg_data log) = Some params \<and>
    param_fixed_bytes params ''routeId'' = Some (er_route_id r) \<and>
    param_address cr params ''asset'' = Some (er_flash_asset r) \<and>
    param_uint params ''flashAmount'' = Some (er_flash_amount r) \<and>
    param_uint params ''premium'' = Some (st_premium s) \<and>
    param_uint params ''realizedProfit'' = Some (st_realized_profit s) \<and>
    st_asset s = er_flash_asset r \<and> st_flash_amount s = er_flash_amount r"
  using assms unfolding decode_opportunity_log_def by (elim and_then_InrE) (auto simp: result_simps split: if_splits)

text \<open>C23: A settlement of an arbitrage is accepted only when the receipt holds exactly one
  OpportunitySettled event of the executor itself, and the parameters of that event are the route, the
  flash asset and the flash amount of the request; the premium and the profit of the settlement are those
  the event reports, and logs of other contracts never contribute.\<close>

theorem decode_settlement_single_event:
  assumes "decode_settlement cr request executor logs = Inr s"
  shows "\<exists>signature log params. cr_event_signature cr ''OpportunitySettled'' = Some signature \<and>
    filter (is_event_log executor signature) logs = [log] \<and>
    cr_parse_log cr ''OpportunitySettled'' (lg_topics log) (lg_data log) = Some params \<and>
    param_fixed_bytes params ''routeId'' = Some (er_route_id request) \<and>
    param_address cr params ''asset'' = Some (er_flash_asset request) \<and>
    param_uint params ''flashAmount'' = Some (er_flash_amount request) \<and>
    param_uint params ''premium'' = Some (st_premium s) \<and>
    param_uint params ''realizedProfit'' = Some (st_realized_profit s) \<and>
    st_asset s = er_flash_asset request \<and> st_flash_amount s = er_flash_amount request"
proof -
  from assms obtain signature where sig: "cr_event_signature cr ''OpportunitySettled'' = Some signature"
    and ms: "decode_logs (\<lambda>a. a = executor) signature (decode_opportunity_log cr request)
        AB_InvalidSettlement logs = Inr [s]"
    unfolding decode_settlement_def by (auto simp: result_simps single_match_Inr)
  from decode_logs_Inr [OF ms] obtain log where
    log: "filter (is_event_log executor signature) logs = [log]" "decode_opportunity_log cr request log = Inr s"
    by (auto simp: list_all2_Cons2)
  from sig log(1) decode_opportunity_log_Inr [OF log(2)] show ?thesis by blast
qed

section \<open>Round trip of a liquidation request\<close>

definition address_wf :: "canonical_address \<Rightarrow> bool" where
  "address_wf a \<longleftrightarrow> length (address_bytes a) = 20 \<and> address_bytes a \<noteq> replicate 20 0"

definition liquidation_wf :: "aave_liquidation_request \<Rightarrow> bool" where
  "liquidation_wf q \<longleftrightarrow>
     length (aq_route_id q) = 32 \<and> address_wf (aq_borrower q) \<and> address_wf (aq_debt_asset q) \<and>
     address_wf (aq_collateral_asset q) \<and>
     list_all (\<lambda>leg. address_wf (vl_pool leg) \<and> address_wf (vl_token_in leg) \<and> address_wf (vl_token_out leg))
       (aq_unwind_legs q)"

text \<open>The documented behaviour of ethabi on the one function input the code decodes: decoding the
  encoding of the request's argument gives the argument back, and the encoding is not empty.\<close>

definition abi_codec :: "crates \<Rightarrow> aave_liquidation_request \<Rightarrow> bool" where
  "abi_codec cr q \<longleftrightarrow>
     (case (request_token q, cr_abi_decode_input cr ''executeAaveLiquidation'') of
        (Inr token, Some decode) \<Rightarrow>
          decode (cr_abi_encode cr [token]) = Some [token] \<and> cr_abi_encode cr [token] \<noteq> []
      | _ \<Rightarrow> False)"

lemma token_address_roundtrip:
  "hex_codec cr \<Longrightarrow> address_wf a \<Longrightarrow> token_address cr (Token_Address (address_bytes a)) = Inr a"
  using canonical_address_parse_Inr [of cr "canonical_address_to_string cr a" a]
  by (simp add: token_address_def address_wf_def canonical_address_to_string_def)

lemma u128_fits_u256: "\<not> ucast (- 1 :: u128) < (ucast (n :: u128) :: u256)"
proof -
  have "unat n \<le> 2 ^ 128 - 1"
    using unat_less_exp [of n] by simp
  then show ?thesis
    by (simp add: word_less_nat_alt not_less)
qed

lemma token_uint_roundtrip [simp]: "token_uint (Token_Uint (ucast (n :: u128))) = Inr n"
  using u128_fits_u256 [of n] by (simp add: token_uint_def ucast_up_ucast_id is_up)

lemma ucast_small: "(ucast (f :: 'a::len word) :: u256) = ucast (ucast f :: u128)"
  if "LENGTH('a) \<le> 128"
  using that by (simp add: word_unat_eq_iff)

lemma token_uint_small:
  "LENGTH('a::len) \<le> 128 \<Longrightarrow> token_uint (Token_Uint (ucast (f :: 'a word))) = Inr (ucast f)"
  unfolding ucast_small by (rule token_uint_roundtrip)

lemma try_narrow_ucast:
  "LENGTH('a::len) \<le> 128 \<Longrightarrow> try_narrow (ucast (f :: 'a word) :: u128) = Some f"
  by (simp add: try_narrow_Some)

lemma decode_leg_identity_token:
  assumes "hex_codec cr" "address_wf (vl_pool leg)" "address_wf (vl_token_in leg)" "address_wf (vl_token_out leg)"
  shows "decode_leg_identity cr (leg_token leg) = Inr (leg_identity leg)"
  using assms
  by (simp add: decode_leg_identity_def leg_token_def leg_identity_def token_address_roundtrip
      token_uint_small try_narrow_ucast)

text \<open>C35: A liquidation request round-trips through its encoding: whenever a well-formed request can be
  encoded, with a clock past the first second of the epoch, decoding the bytes yields exactly the
  identity of the request (route, borrower, assets, amounts, deadline and every unwind leg).\<close>

theorem encoded_request_roundtrip:
  assumes "hex_codec cr" "abi_codec cr q" "liquidation_wf q" "1000000000 \<le> utc_now"
    and enc: "encoded_request cr utc_now q = Inr bytes"
  shows "\<exists>i. liquidation_identity q = Some i \<and> decode_encoded_identity cr bytes = Inr i"
proof -
  obtain token where token: "request_token q = Inr token" and bytes: "bytes = cr_abi_encode cr [token]"
    "\<not> MAX_CALLDATA_BYTES < length bytes" and valid: "liquidation_validate utc_now q = Inr ()"
    using enc unfolding encoded_request_def by (auto simp: result_simps Let_def split: if_splits)
  obtain d :: u64 where d: "try_from_int (timestamp (aq_deadline q)) = Some d"
    using token unfolding request_token_def by (auto simp: result_simps)
  have late: "utc_now < aq_deadline q" and pos: "aq_repay_amount q \<noteq> 0" "\<not> aq_maximum_input_amount q < aq_repay_amount q"
    "aq_minimum_collateral_received q \<noteq> 0" "aq_minimum_unwind_output q \<noteq> 0" "aq_minimum_profit q \<noteq> 0"
    "\<not> MAX_ROUTE_LEGS < length (aq_unwind_legs q)"
    using valid by (auto simp: liquidation_validate_def split: if_splits)
  have "1 \<le> timestamp (aq_deadline q)"
    using assms(4) late by (simp add: timestamp_def)
  then have d0: "d \<noteq> 0"
    using d by (auto simp: try_from_int_def split: if_splits)
      (auto simp: word_of_int_eq_0_iff dest: zdvd_imp_le)
  obtain decode where "cr_abi_decode_input cr ''executeAaveLiquidation'' = Some decode"
    "decode bytes = Some [token]" "bytes \<noteq> []"
    using assms(2) token bytes by (auto simp: abi_codec_def split: option.splits)
  moreover have "collect_results (decode_leg_identity cr) (map leg_token (aq_unwind_legs q))
      = Inr (map leg_identity (aq_unwind_legs q))"
    using assms(1,3) by (auto simp: liquidation_wf_def list_all_iff collect_results_Inr list_all2_map1
        list_all2_map2 decode_leg_identity_token intro!: list.rel_refl_strong)
  ultimately show ?thesis
    using assms(1,3) bytes d d0 pos token
    by (auto simp: decode_encoded_identity_def request_token_def first_def decode_identity_fields_def
        liquidation_identity_def liquidation_wf_def token_address_roundtrip token_fixed_bytes_def
        token_uint_small try_narrow_ucast)
qed

definition sample_liquidation :: aave_liquidation_request where
  "sample_liquidation =
    \<lparr>aq_route_id = replicate 32 7, aq_borrower = CanonicalAddress (replicate 20 17),
     aq_debt_asset = weth_address, aq_collateral_asset = usdc_address, aq_repay_amount = 100,
     aq_maximum_input_amount = 100, aq_minimum_collateral_received = 101,
     aq_minimum_unwind_output = 102, aq_minimum_profit = 2, aq_maximum_atlas_bid = 1,
     aq_deadline = 60000000000,
     aq_unwind_legs = [(sample_leg pool_500_address usdc_address weth_address 500 False)
       \<lparr>vl_factory := Some sample_executor\<rparr>]\<rparr>"

definition sample_token :: abi_token where
  "sample_token = projr (request_token sample_liquidation)"

definition sample_codec :: crates where
  "sample_codec = sample_crates
    \<lparr>cr_abi_encode := (\<lambda>ts. if ts = [sample_token] then [1] else []),
     cr_abi_decode_input := (\<lambda>_. Some (\<lambda>bytes. if bytes = [1] then Some [sample_token] else None))\<rparr>"

lemma sample_codec_laws: "hex_codec sample_codec" "abi_codec sample_codec sample_liquidation"
proof -
  show "hex_codec sample_codec"
    using sample_hex_codec unfolding hex_codec_def sample_codec_def by simp
  have "request_token sample_liquidation = Inr sample_token"
    by (simp add: sample_token_def request_token_def sample_liquidation_def timestamp_def try_from_int_def)
  then show "abi_codec sample_codec sample_liquidation"
    by (simp add: abi_codec_def sample_codec_def)
qed

lemma sample_liquidation_wf: "liquidation_wf sample_liquidation"
  by (simp add: liquidation_wf_def address_wf_def sample_liquidation_def sample_leg_def weth_address_def
      usdc_address_def pool_500_address_def not_all_zero)

lemma sample_liquidation_encodes: "encoded_request sample_codec 1000000000 sample_liquidation = Inr [1]"
proof -
  have "liquidation_validate 1000000000 sample_liquidation = Inr ()"
    by (simp add: liquidation_validate_def sample_liquidation_def sample_leg_def weth_address_def
        usdc_address_def MAX_ROUTE_LEGS_def)
  moreover have "request_token sample_liquidation = Inr sample_token"
    by (simp add: sample_token_def request_token_def sample_liquidation_def timestamp_def try_from_int_def)
  ultimately show ?thesis
    by (simp add: encoded_request_def sample_codec_def MAX_CALLDATA_BYTES_def)
qed

theorem encoded_request_roundtrip_witness:
  "\<exists>i. liquidation_identity sample_liquidation = Some i \<and> decode_encoded_identity sample_codec [1] = Inr i"
  by (rule encoded_request_roundtrip [OF sample_codec_laws sample_liquidation_wf _ sample_liquidation_encodes]) simp

definition sample_log :: rpc_log where
  "sample_log = \<lparr>lg_address = sample_executor, lg_topics = [replicate 32 7], lg_data = []\<rparr>"

definition sample_event :: "(string \<times> abi_token) list" where
  "sample_event = [(''routeId'', Token_FixedBytes (replicate 32 17)),
     (''asset'', Token_Address (address_bytes weth_address)), (''flashAmount'', Token_Uint 1000),
     (''premium'', Token_Uint 1), (''realizedProfit'', Token_Uint 50)]"

definition sample_logs_crates :: crates where
  "sample_logs_crates = sample_crates\<lparr>cr_parse_log := (\<lambda>_ _ _. Some sample_event)\<rparr>"

lemma sample_settles:
  "decode_settlement sample_logs_crates sample_request sample_executor [sample_log]
    = Inr \<lparr>st_asset = weth_address, st_flash_amount = 1000, st_premium = 1, st_realized_profit = 50\<rparr>"
proof -
  have "hex_codec sample_logs_crates"
    using sample_hex_codec unfolding hex_codec_def sample_logs_crates_def by simp
  then have "canonical_address_parse sample_logs_crates (''0x'' @ cr_hex_encode sample_logs_crates (address_bytes weth_address))
      = Inr weth_address"
    by (simp add: canonical_address_parse_Inr canonical_address_to_string_def)
      (simp add: weth_address_def not_all_zero)
  then have asset: "param_address sample_logs_crates sample_event ''asset'' = Some weth_address"
    by (simp add: param_address_def log_parameter_def sample_event_def)
  have "decode_opportunity_log sample_logs_crates sample_request sample_log
    = Inr \<lparr>st_asset = weth_address, st_flash_amount = 1000, st_premium = 1, st_realized_profit = 50\<rparr>"
    unfolding decode_opportunity_log_def
    using asset by (simp add: sample_logs_crates_def)
      (simp add: sample_event_def log_parameter_def param_fixed_bytes_def
        param_uint_def sample_request_def word_less_nat_alt)
  then show ?thesis
    by (simp add: decode_settlement_def sample_log_def MAX_LOG_DATA_BYTES_def first_def single_match_def)
      (simp add: sample_logs_crates_def sample_crates_def)
qed

theorem decode_settlement_single_event_witness:
  "\<exists>s. decode_settlement sample_logs_crates sample_request sample_executor [sample_log] = Inr s
     \<and> st_flash_amount s = er_flash_amount sample_request"
  using sample_settles decode_settlement_single_event [OF sample_settles] by blast

end
