(* ===== verification/Economic_Control.thy ===== *)
theory Economic_Control
  imports Phoenix_Prelude
begin

text \<open>
  The economic size ladder of the live executor
  (\<^verbatim>\<open>live-executor/src/economic_control.rs\<close> and the phases and size levels of
  \<^verbatim>\<open>rpc-gateway/src/aave_state.rs\<close>): the reviewed input sizes, the evidence gates a
  canary activation and a promotion must pass, and the transition a failure signal causes.
  The lemmas show that a promotion climbs exactly one rung and only on evidence whose true
  success and fork rates reach 95 percent, that no failure ever raises the input size, and
  that every reachable live state trades the reviewed amount of its own rung.
\<close>

section \<open>Phases and size levels\<close>

datatype economic_phase =
    PH_DisarmedDeploy
  | PH_DisarmedEvidence
  | PH_CanaryReady
  | PH_LiveCanaryMin
  | PH_LiveScaleL1
  | PH_LiveScaleL2
  | PH_LiveScaleL3
  | PH_LiveScaleL4
  | PH_LiveScaleL5
  | PH_LiveMaxReviewed
  | PH_Cooldown
  | PH_DisarmedFailure

fun economic_phase_as_str :: "economic_phase \<Rightarrow> string" where
  "economic_phase_as_str PH_DisarmedDeploy = ''DISARMED_DEPLOY''"
| "economic_phase_as_str PH_DisarmedEvidence = ''DISARMED_EVIDENCE''"
| "economic_phase_as_str PH_CanaryReady = ''CANARY_READY''"
| "economic_phase_as_str PH_LiveCanaryMin = ''LIVE_CANARY_MIN''"
| "economic_phase_as_str PH_LiveScaleL1 = ''LIVE_SCALE_L1''"
| "economic_phase_as_str PH_LiveScaleL2 = ''LIVE_SCALE_L2''"
| "economic_phase_as_str PH_LiveScaleL3 = ''LIVE_SCALE_L3''"
| "economic_phase_as_str PH_LiveScaleL4 = ''LIVE_SCALE_L4''"
| "economic_phase_as_str PH_LiveScaleL5 = ''LIVE_SCALE_L5''"
| "economic_phase_as_str PH_LiveMaxReviewed = ''LIVE_MAX_REVIEWED''"
| "economic_phase_as_str PH_Cooldown = ''COOLDOWN''"
| "economic_phase_as_str PH_DisarmedFailure = ''DISARMED_FAILURE''"

fun is_live :: "economic_phase \<Rightarrow> bool" where
  "is_live PH_LiveCanaryMin = True"
| "is_live PH_LiveScaleL1 = True"
| "is_live PH_LiveScaleL2 = True"
| "is_live PH_LiveScaleL3 = True"
| "is_live PH_LiveScaleL4 = True"
| "is_live PH_LiveScaleL5 = True"
| "is_live PH_LiveMaxReviewed = True"
| "is_live _ = False"

definition MAXIMUM_REVIEWED_INPUT_WEI :: u128 where
  "MAXIMUM_REVIEWED_INPUT_WEI = 10000000000000000"

datatype size_level =
    SL_Min
  | SL_L1
  | SL_L2
  | SL_L3
  | SL_L4
  | SL_L5
  | SL_MaxReviewed

fun size_level_as_str :: "size_level \<Rightarrow> string" where
  "size_level_as_str SL_Min = ''MIN''"
| "size_level_as_str SL_L1 = ''L1''"
| "size_level_as_str SL_L2 = ''L2''"
| "size_level_as_str SL_L3 = ''L3''"
| "size_level_as_str SL_L4 = ''L4''"
| "size_level_as_str SL_L5 = ''L5''"
| "size_level_as_str SL_MaxReviewed = ''MAX_REVIEWED''"

definition size_level_ALL :: "size_level list" where
  "size_level_ALL = [SL_Min, SL_L1, SL_L2, SL_L3, SL_L4, SL_L5, SL_MaxReviewed]"

fun amount_wei :: "size_level \<Rightarrow> u128" where
  "amount_wei SL_Min = 100000000000000"
| "amount_wei SL_L1 = 250000000000000"
| "amount_wei SL_L2 = 500000000000000"
| "amount_wei SL_L3 = 1000000000000000"
| "amount_wei SL_L4 = 2500000000000000"
| "amount_wei SL_L5 = 5000000000000000"
| "amount_wei SL_MaxReviewed = MAXIMUM_REVIEWED_INPUT_WEI"

fun level_phase :: "size_level \<Rightarrow> economic_phase" where
  "level_phase SL_Min = PH_LiveCanaryMin"
| "level_phase SL_L1 = PH_LiveScaleL1"
| "level_phase SL_L2 = PH_LiveScaleL2"
| "level_phase SL_L3 = PH_LiveScaleL3"
| "level_phase SL_L4 = PH_LiveScaleL4"
| "level_phase SL_L5 = PH_LiveScaleL5"
| "level_phase SL_MaxReviewed = PH_LiveMaxReviewed"

fun level_next :: "size_level \<Rightarrow> size_level option" where
  "level_next SL_Min = Some SL_L1"
| "level_next SL_L1 = Some SL_L2"
| "level_next SL_L2 = Some SL_L3"
| "level_next SL_L3 = Some SL_L4"
| "level_next SL_L4 = Some SL_L5"
| "level_next SL_L5 = Some SL_MaxReviewed"
| "level_next SL_MaxReviewed = None"

fun level_previous :: "size_level \<Rightarrow> size_level" where
  "level_previous SL_Min = SL_Min"
| "level_previous SL_L1 = SL_Min"
| "level_previous SL_L2 = SL_L1"
| "level_previous SL_L3 = SL_L2"
| "level_previous SL_L4 = SL_L3"
| "level_previous SL_L5 = SL_L4"
| "level_previous SL_MaxReviewed = SL_L5"

definition size_level_try_from :: "string \<Rightarrow> size_level option" where
  "size_level_try_from value = List.find (\<lambda>level. size_level_as_str level = value) size_level_ALL"

text \<open>The order a size level derives: that of its declaration.\<close>

fun level_rank :: "size_level \<Rightarrow> nat" where
  "level_rank SL_Min = 0"
| "level_rank SL_L1 = 1"
| "level_rank SL_L2 = 2"
| "level_rank SL_L3 = 3"
| "level_rank SL_L4 = 4"
| "level_rank SL_L5 = 5"
| "level_rank SL_MaxReviewed = 6"

lemma level_rank_inj: "level_rank a = level_rank b \<longleftrightarrow> a = b"
  by (cases a; cases b) simp_all

instantiation size_level :: linorder
begin

definition less_eq_size_level :: "size_level \<Rightarrow> size_level \<Rightarrow> bool" where
  "less_eq_size_level a b \<longleftrightarrow> level_rank a \<le> level_rank b"

definition less_size_level :: "size_level \<Rightarrow> size_level \<Rightarrow> bool" where
  "less_size_level a b \<longleftrightarrow> level_rank a < level_rank b"

instance
  by standard (auto simp: less_eq_size_level_def less_size_level_def level_rank_inj)

end

section \<open>Evidence gates\<close>

definition MINIMUM_OBSERVATIONS :: u64 where "MINIMUM_OBSERVATIONS = 100"
definition MINIMUM_VALID_ACCEPTANCE_BPS :: u16 where "MINIMUM_VALID_ACCEPTANCE_BPS = 9990"
definition MINIMUM_FORK_PASS_RATE_BPS :: u16 where "MINIMUM_FORK_PASS_RATE_BPS = 9500"
definition MAXIMUM_PREDICTION_ERROR_BPS :: u16 where "MAXIMUM_PREDICTION_ERROR_BPS = 1000"
definition MINIMUM_PROMOTION_OUTCOMES :: u64 where "MINIMUM_PROMOTION_OUTCOMES = 20"
definition MINIMUM_SUCCESS_RATE_BPS :: u16 where "MINIMUM_SUCCESS_RATE_BPS = 9500"
definition MAXIMUM_STATE_AGE_BLOCKS :: u64 where "MAXIMUM_STATE_AGE_BLOCKS = 1"
definition MAXIMUM_QUOTE_AGE_MS :: u64 where "MAXIMUM_QUOTE_AGE_MS = 2000"
definition MAXIMUM_CANDIDATE_AGE_MS :: u64 where "MAXIMUM_CANDIDATE_AGE_MS = 3000"
definition READINESS_TTL_SECONDS :: i64 where "READINESS_TTL_SECONDS = 600"
definition COOLDOWN_SECONDS :: i64 where "COOLDOWN_SECONDS = 900"

lemmas econ_consts = MINIMUM_OBSERVATIONS_def MINIMUM_VALID_ACCEPTANCE_BPS_def
  MINIMUM_FORK_PASS_RATE_BPS_def MAXIMUM_PREDICTION_ERROR_BPS_def MINIMUM_PROMOTION_OUTCOMES_def
  MINIMUM_SUCCESS_RATE_BPS_def MAXIMUM_STATE_AGE_BLOCKS_def MAXIMUM_QUOTE_AGE_MS_def
  MAXIMUM_CANDIDATE_AGE_MS_def READINESS_TTL_SECONDS_def COOLDOWN_SECONDS_def

datatype economic_control_error =
    EC_InsufficientObservations
  | EC_AcceptanceRate
  | EC_Integrity
  | EC_Backlog
  | EC_Outbox
  | EC_RpcAgreement
  | EC_StaleEvidence
  | EC_ForkRate
  | EC_PredictionError
  | EC_SkippedVerification
  | EC_ExecutionWhileDisarmed
  | EC_NoPositiveCandidate
  | EC_InvalidBinding
  | EC_ExpiredReadiness
  | EC_RiskReserve
  | EC_Authorization
  | EC_PromotionGate
  | EC_InvalidTransition
  | EC_InvalidLevel

record evidence_gate =
  eg_supported_observations :: u64
  eg_valid_acceptance_bps :: u16
  eg_process_fatal_integrity_exits :: u64
  eg_quarantine_progress_proven :: bool
  eg_consumer_pending_bounded :: bool
  eg_ack_pending_bounded :: bool
  eg_stale_outbox_rows :: u64
  eg_primary_rpc_healthy :: bool
  eg_maximum_state_age_blocks :: u64
  eg_maximum_quote_age_ms :: u64
  eg_maximum_candidate_age_ms :: u64
  eg_fork_attempts :: u64
  eg_fork_passes :: u64
  eg_prediction_error_bps :: u16
  eg_fork_skips :: u64
  eg_execution_requests :: u64
  eg_active_attempts :: u64
  eg_positive_exact_candidates :: u64

record readiness_binding =
  rb_release_sha :: string
  rb_engine_image_digest :: string
  rb_route_fingerprint :: string
  rb_route_universe_hash :: string
  rb_route_policy_hash :: string
  rb_risk_policy_hash :: string
  rb_economic_control_epoch :: u64
  rb_global_control_epoch :: u64
  rb_route_control_epoch :: u64
  rb_executor_code_hash :: string
  rb_contract_identity_hash :: string
  rb_wallet_gas_reserve_wei :: u128
  rb_gas_reserve_floor_wei :: u128
  rb_current_daily_loss_wei :: u128
  rb_daily_loss_limit_wei :: u128
  rb_observed_from :: datetime
  rb_observed_until :: datetime
  rb_created_at :: datetime
  rb_expires_at :: datetime
  rb_candidate_evidence_hashes :: "string list"

record automation_authorization =
  aa_route_fingerprint :: string
  aa_route_policy_hash :: string
  aa_maximum_reviewed_input_wei :: u128
  aa_executor_code_hash :: string
  aa_release_family :: string
  aa_one_transaction_at_a_time :: bool
  aa_reviewed_ladder_only :: bool
  aa_automatic_disarm_required :: bool
  aa_expires_at :: datetime

record promotion_evidence =
  pm_reconciled_outcomes :: u64
  pm_aggregate_realized_net_pnl_wei :: i128
  pm_successful_outcomes :: u64
  pm_fork_attempts :: u64
  pm_fork_passes :: u64
  pm_rpc_disagreements :: u64
  pm_unknown_submissions :: u64
  pm_duplicate_submissions :: u64
  pm_nonce_gaps :: u64
  pm_control_violations :: u64
  pm_unreconciled_receipts :: u64
  pm_process_fatal_integrity_events :: u64
  pm_identity_mismatches :: u64
  pm_prediction_error_bps :: u16
  pm_daily_loss_wei :: u128
  pm_daily_loss_limit_wei :: u128
  pm_consecutive_losses :: u64
  pm_wallet_gas_reserve_wei :: u128
  pm_gas_reserve_floor_wei :: u128
  pm_maximum_quote_age_ms :: u64
  pm_maximum_candidate_age_ms :: u64

datatype failure_signal =
    RealizedNegative
  | EconomicQualityDegraded
  | ForkRateBelowMinimum
  | PredictionErrorAboveMaximum
  | RepeatedRpcDisagreement
  | ThreeConsecutiveLosses
  | DailyLossLimitReached
  | UnknownSubmission
  | DuplicateSubmission
  | NonceInconsistency
  | ReceiptUnreconciled
  | ProcessFatalIntegrity
  | SignerMismatch
  | ExecutorCodeMismatch
  | OwnerMismatch
  | FlashProviderMismatch
  | ContractMismatch
  | Rollback

datatype transition =
    TR_Stay economic_phase size_level
  | TR_Promote economic_phase size_level
  | TR_Cooldown size_level datetime
  | TR_RouteDisarm string
  | TR_GlobalDisarm string

definition rate_bps :: "u64 \<Rightarrow> u64 \<Rightarrow> u16" where
  "rate_bps numerator denominator =
    (if denominator = 0 \<or> denominator < numerator then 0
     else case try_narrow (saturating_mul numerator 10000 div denominator) of
       None \<Rightarrow> 0
     | Some value \<Rightarrow> value)"

definition is_hex :: "string \<Rightarrow> nat \<Rightarrow> bool" where
  "is_hex value len \<longleftrightarrow> length value = len \<and> list_all is_lower_hex value"

definition is_digest :: "string \<Rightarrow> bool" where
  "is_digest value = (case strip_prefix ''sha256:'' value of
     None \<Rightarrow> False
   | Some digest \<Rightarrow> is_hex digest 64)"

definition evidence_gate_validate :: "evidence_gate \<Rightarrow> economic_control_error + unit" where
  "evidence_gate_validate g =
    (if eg_supported_observations g < MINIMUM_OBSERVATIONS then Inl EC_InsufficientObservations
     else if eg_valid_acceptance_bps g < MINIMUM_VALID_ACCEPTANCE_BPS then Inl EC_AcceptanceRate
     else if eg_process_fatal_integrity_exits g \<noteq> 0 \<or> \<not> eg_quarantine_progress_proven g
     then Inl EC_Integrity
     else if \<not> eg_consumer_pending_bounded g \<or> \<not> eg_ack_pending_bounded g then Inl EC_Backlog
     else if eg_stale_outbox_rows g \<noteq> 0 then Inl EC_Outbox
     else if \<not> eg_primary_rpc_healthy g then Inl EC_RpcAgreement
     else if MAXIMUM_STATE_AGE_BLOCKS < eg_maximum_state_age_blocks g
       \<or> MAXIMUM_QUOTE_AGE_MS < eg_maximum_quote_age_ms g
       \<or> MAXIMUM_CANDIDATE_AGE_MS < eg_maximum_candidate_age_ms g
     then Inl EC_StaleEvidence
     else if rate_bps (eg_fork_passes g) (eg_fork_attempts g) < MINIMUM_FORK_PASS_RATE_BPS
     then Inl EC_ForkRate
     else if MAXIMUM_PREDICTION_ERROR_BPS < eg_prediction_error_bps g then Inl EC_PredictionError
     else if eg_fork_skips g \<noteq> 0 then Inl EC_SkippedVerification
     else if eg_execution_requests g \<noteq> 0 \<or> eg_active_attempts g \<noteq> 0
     then Inl EC_ExecutionWhileDisarmed
     else if eg_positive_exact_candidates g = 0 then Inl EC_NoPositiveCandidate
     else Inr ())"

definition readiness_validate :: "readiness_binding \<Rightarrow> datetime \<Rightarrow> economic_control_error + unit" where
  "readiness_validate b now =
    (if \<not> is_hex (rb_release_sha b) 40
       \<or> \<not> is_digest (rb_engine_image_digest b)
       \<or> \<not> is_hex (rb_route_universe_hash b) 64
       \<or> \<not> is_hex (rb_route_policy_hash b) 64
       \<or> \<not> is_hex (rb_risk_policy_hash b) 64
       \<or> \<not> is_hex (rb_executor_code_hash b) 64
       \<or> \<not> is_hex (rb_contract_identity_hash b) 64
       \<or> rb_route_fingerprint b = []
       \<or> 256 < length (rb_route_fingerprint b)
       \<or> rb_candidate_evidence_hashes b = []
       \<or> list_ex (\<lambda>value. \<not> is_hex value 64) (rb_candidate_evidence_hashes b)
     then Inl EC_InvalidBinding
     else if rb_observed_until b \<le> rb_observed_from b
       \<or> rb_created_at b < rb_observed_until b
       \<or> rb_expires_at b \<le> rb_created_at b
       \<or> duration_seconds READINESS_TTL_SECONDS < rb_expires_at b - rb_created_at b
       \<or> rb_expires_at b \<le> now
     then Inl EC_ExpiredReadiness
     else if rb_wallet_gas_reserve_wei b \<le> rb_gas_reserve_floor_wei b
       \<or> rb_daily_loss_limit_wei b \<le> rb_current_daily_loss_wei b
     then Inl EC_RiskReserve
     else Inr ())"

definition authorization_validate ::
  "automation_authorization \<Rightarrow> readiness_binding \<Rightarrow> datetime \<Rightarrow> economic_control_error + unit" where
  "authorization_validate a readiness now =
    (if aa_route_fingerprint a \<noteq> rb_route_fingerprint readiness
       \<or> aa_route_policy_hash a \<noteq> rb_route_policy_hash readiness
       \<or> aa_executor_code_hash a \<noteq> rb_executor_code_hash readiness
       \<or> aa_maximum_reviewed_input_wei a \<noteq> MAXIMUM_REVIEWED_INPUT_WEI
       \<or> \<not> aa_one_transaction_at_a_time a
       \<or> \<not> aa_reviewed_ladder_only a
       \<or> \<not> aa_automatic_disarm_required a
       \<or> aa_release_family a = []
       \<or> aa_expires_at a \<le> now
     then Inl EC_Authorization
     else Inr ())"

definition promotion_validate :: "promotion_evidence \<Rightarrow> economic_control_error + unit" where
  "promotion_validate p =
    (if pm_reconciled_outcomes p < MINIMUM_PROMOTION_OUTCOMES
       \<or> pm_aggregate_realized_net_pnl_wei p \<le> 0
       \<or> rate_bps (pm_successful_outcomes p) (pm_reconciled_outcomes p) < MINIMUM_SUCCESS_RATE_BPS
       \<or> rate_bps (pm_fork_passes p) (pm_fork_attempts p) < MINIMUM_FORK_PASS_RATE_BPS
       \<or> MAXIMUM_PREDICTION_ERROR_BPS < pm_prediction_error_bps p
       \<or> pm_rpc_disagreements p \<noteq> 0
       \<or> pm_unknown_submissions p \<noteq> 0
       \<or> pm_duplicate_submissions p \<noteq> 0
       \<or> pm_nonce_gaps p \<noteq> 0
       \<or> pm_control_violations p \<noteq> 0
       \<or> pm_unreconciled_receipts p \<noteq> 0
       \<or> pm_process_fatal_integrity_events p \<noteq> 0
       \<or> pm_identity_mismatches p \<noteq> 0
       \<or> pm_daily_loss_limit_wei p \<le> pm_daily_loss_wei p
       \<or> 3 \<le> pm_consecutive_losses p
       \<or> pm_wallet_gas_reserve_wei p \<le> pm_gas_reserve_floor_wei p
       \<or> MAXIMUM_QUOTE_AGE_MS < pm_maximum_quote_age_ms p
       \<or> MAXIMUM_CANDIDATE_AGE_MS < pm_maximum_candidate_age_ms p
     then Inl EC_PromotionGate
     else Inr ())"

section \<open>Transitions\<close>

definition activate_canary ::
  "economic_phase \<Rightarrow> readiness_binding \<Rightarrow> evidence_gate \<Rightarrow> automation_authorization \<Rightarrow> datetime
   \<Rightarrow> economic_control_error + transition" where
  "activate_canary phase readiness evidence authorization now =
    (if phase \<noteq> PH_CanaryReady then Inl EC_InvalidTransition
     else and_then (evidence_gate_validate evidence) (\<lambda>_.
          and_then (readiness_validate readiness now) (\<lambda>_.
          and_then (authorization_validate authorization readiness now) (\<lambda>_.
          Inr (TR_Promote PH_LiveCanaryMin SL_Min)))))"

definition evaluate_promotion ::
  "economic_phase \<Rightarrow> size_level \<Rightarrow> promotion_evidence \<Rightarrow> economic_control_error + transition" where
  "evaluate_promotion phase level evidence =
    (if phase \<noteq> level_phase level then Inl EC_InvalidTransition
     else and_then (promotion_validate evidence) (\<lambda>_.
       case level_next level of
         None \<Rightarrow> Inr (TR_Stay phase level)
       | Some nxt \<Rightarrow> Inr (TR_Promote (level_phase nxt) nxt)))"

fun evaluate_failure :: "size_level \<Rightarrow> failure_signal \<Rightarrow> datetime \<Rightarrow> transition" where
  "evaluate_failure level RealizedNegative now =
     TR_Cooldown (level_previous level) (now + duration_seconds COOLDOWN_SECONDS)"
| "evaluate_failure level EconomicQualityDegraded now =
     TR_Cooldown (level_previous level) (now + duration_seconds COOLDOWN_SECONDS)"
| "evaluate_failure level ForkRateBelowMinimum now = TR_RouteDisarm ''fork_pass_rate''"
| "evaluate_failure level PredictionErrorAboveMaximum now = TR_RouteDisarm ''prediction_error''"
| "evaluate_failure level RepeatedRpcDisagreement now = TR_RouteDisarm ''rpc_disagreement''"
| "evaluate_failure level ThreeConsecutiveLosses now = TR_RouteDisarm ''maximum_consecutive_losses''"
| "evaluate_failure level DailyLossLimitReached now = TR_GlobalDisarm ''daily_loss_budget''"
| "evaluate_failure level UnknownSubmission now = TR_GlobalDisarm ''submission_unknown''"
| "evaluate_failure level DuplicateSubmission now = TR_GlobalDisarm ''duplicate_submission''"
| "evaluate_failure level NonceInconsistency now = TR_GlobalDisarm ''nonce_inconsistency''"
| "evaluate_failure level ReceiptUnreconciled now = TR_GlobalDisarm ''receipt_unreconciled''"
| "evaluate_failure level ProcessFatalIntegrity now = TR_GlobalDisarm ''process_fatal_integrity''"
| "evaluate_failure level SignerMismatch now = TR_GlobalDisarm ''signer_mismatch''"
| "evaluate_failure level ExecutorCodeMismatch now = TR_GlobalDisarm ''executor_code_mismatch''"
| "evaluate_failure level OwnerMismatch now = TR_GlobalDisarm ''owner_mismatch''"
| "evaluate_failure level FlashProviderMismatch now = TR_GlobalDisarm ''flash_provider_mismatch''"
| "evaluate_failure level ContractMismatch now = TR_GlobalDisarm ''contract_mismatch''"
| "evaluate_failure level Rollback now = TR_GlobalDisarm ''rollback''"

section \<open>Rates and rungs\<close>

lemma rate_bps_sound: "unat (rate_bps n d) * unat d \<le> 10000 * unat n"
proof -
  have "unat (rate_bps n d) \<le> unat (saturating_mul n 10000 div d)"
    by (auto simp: rate_bps_def try_narrow_Some split: option.splits)
  also have "\<dots> = unat (saturating_mul n 10000) div unat d"
    by (rule unat_div)
  finally have "unat (rate_bps n d) * unat d \<le> unat (saturating_mul n 10000) div unat d * unat d"
    by (rule mult_le_mono1)
  also have "\<dots> \<le> unat (saturating_mul n 10000)"
    by (rule div_times_less_eq_dividend)
  also have "\<dots> \<le> 10000 * unat n"
    by simp
  finally show ?thesis .
qed

lemma rate_bps_positive_den: "0 < rate_bps n d \<Longrightarrow> 0 < unat d \<and> unat n \<le> unat d"
  by (auto simp: rate_bps_def word_less_nat_alt not_less unat_gt_0 split: if_splits)

lemma level_next_rank: "level_next l = Some n \<Longrightarrow> level_rank n = Suc (level_rank l)"
  by (cases l) auto

lemma level_next_amount: "level_next l = Some n \<Longrightarrow> amount_wei l < amount_wei n"
  by (cases l) (auto simp: MAXIMUM_REVIEWED_INPUT_WEI_def word_less_nat_alt)

lemma amount_wei_le_maximum: "amount_wei l \<le> MAXIMUM_REVIEWED_INPUT_WEI"
  by (cases l) (auto simp: MAXIMUM_REVIEWED_INPUT_WEI_def word_le_nat_alt)

lemma level_previous_next: "level_next l = Some n \<Longrightarrow> level_previous n = l"
  by (cases l) auto

lemma level_previous_le: "level_previous l \<le> l"
  by (cases l) (auto simp: less_eq_size_level_def)

lemma level_phase_live: "is_live (level_phase l)"
  by (cases l) auto

lemma amount_wei_strict_mono: "l < m \<longleftrightarrow> amount_wei l < amount_wei m"
  by (cases l; cases m) (simp_all add: less_size_level_def MAXIMUM_REVIEWED_INPUT_WEI_def word_less_nat_alt)

lemma size_level_try_from_as_str [simp]: "size_level_try_from (size_level_as_str l) = Some l"
  by (cases l) (simp_all add: size_level_try_from_def size_level_ALL_def)

lemma size_level_try_from_Some: "size_level_try_from s = Some l \<longleftrightarrow> s = size_level_as_str l"
proof
  assume "size_level_try_from s = Some l"
  then show "s = size_level_as_str l"
    unfolding size_level_try_from_def find_Some_iff by blast
next
  assume "s = size_level_as_str l"
  then show "size_level_try_from s = Some l"
    by simp
qed

section \<open>The ladder as a step relation\<close>

text \<open>
  The live states a controller can reach: a canary activation, then promotions on evidence, and
  the cooldown a loss causes. The counter is the number of promotions so far.
\<close>

inductive ladder_reach :: "nat \<Rightarrow> economic_phase \<Rightarrow> size_level \<Rightarrow> bool" where
  activate: "activate_canary PH_CanaryReady r g a now = Inr (TR_Promote p l) \<Longrightarrow> ladder_reach 0 p l"
| promote: "ladder_reach k p l \<Longrightarrow> evaluate_promotion p l ev = Inr (TR_Promote p' l')
    \<Longrightarrow> ladder_reach (Suc k) p' l'"
| cool: "ladder_reach k p l \<Longrightarrow> evaluate_failure l sig now = TR_Cooldown l' until
    \<Longrightarrow> ladder_reach k PH_Cooldown l'"

lemma evaluate_promotion_Inr:
  "evaluate_promotion p l ev = Inr t \<longleftrightarrow>
     p = level_phase l \<and> promotion_validate ev = Inr () \<and>
     t = (case level_next l of None \<Rightarrow> TR_Stay p l | Some n \<Rightarrow> TR_Promote (level_phase n) n)"
  by (auto simp: evaluate_promotion_def and_then_Inr split: option.splits if_splits)

lemma evaluate_failure_cooldown:
  "evaluate_failure l sig now = TR_Cooldown l' until \<Longrightarrow>
     l' = level_previous l \<and> until = now + duration_seconds COOLDOWN_SECONDS"
  by (cases sig) auto

lemma activate_canary_Inr:
  "activate_canary p r g a now = Inr t \<longleftrightarrow>
     p = PH_CanaryReady \<and> evidence_gate_validate g = Inr () \<and> readiness_validate r now = Inr () \<and>
     authorization_validate a r now = Inr () \<and> t = TR_Promote PH_LiveCanaryMin SL_Min"
  by (auto simp: activate_canary_def and_then_Inr split: if_splits)

lemma rate_bps_95: "9500 \<le> unat (rate_bps n d) \<Longrightarrow> 95 * unat d \<le> 100 * unat n"
proof -
  assume "9500 \<le> unat (rate_bps n d)"
  then have "9500 * unat d \<le> unat (rate_bps n d) * unat d"
    by (rule mult_le_mono1)
  then show ?thesis using rate_bps_sound [of n d] by linarith
qed

lemma promotion_validate_rates:
  assumes "promotion_validate ev = Inr ()"
  shows "20 \<le> unat (pm_reconciled_outcomes ev)" "0 < pm_aggregate_realized_net_pnl_wei ev"
    "95 * unat (pm_reconciled_outcomes ev) \<le> 100 * unat (pm_successful_outcomes ev)"
    "0 < unat (pm_fork_attempts ev)" "95 * unat (pm_fork_attempts ev) \<le> 100 * unat (pm_fork_passes ev)"
proof -
  have gates: "20 \<le> unat (pm_reconciled_outcomes ev)" "0 < pm_aggregate_realized_net_pnl_wei ev"
    "9500 \<le> unat (rate_bps (pm_successful_outcomes ev) (pm_reconciled_outcomes ev))"
    "9500 \<le> unat (rate_bps (pm_fork_passes ev) (pm_fork_attempts ev))"
    using assms by (simp_all add: promotion_validate_def econ_consts word_less_nat_alt not_less split: if_splits)
  then show "20 \<le> unat (pm_reconciled_outcomes ev)" "0 < pm_aggregate_realized_net_pnl_wei ev"
    "95 * unat (pm_reconciled_outcomes ev) \<le> 100 * unat (pm_successful_outcomes ev)"
    "95 * unat (pm_fork_attempts ev) \<le> 100 * unat (pm_fork_passes ev)"
    by (simp_all only: rate_bps_95)
  show "0 < unat (pm_fork_attempts ev)"
    using rate_bps_positive_den [of "pm_fork_passes ev" "pm_fork_attempts ev"] gates(4)
    by (simp add: word_less_nat_alt)
qed

lemma promotion_target:
  "(case level_next l of None \<Rightarrow> TR_Stay p l | Some n \<Rightarrow> TR_Promote (level_phase n) n) = TR_Promote p' l' \<Longrightarrow>
     p' = level_phase l' \<and> level_next l = Some l'"
  by (auto split: option.splits)

text \<open>C32: A promotion is granted only from the live phase of the current rung, climbs to exactly
  the next rung (and so to a larger input that still respects the reviewed maximum), or stays when
  there is none. The evidence behind it has at least twenty reconciled outcomes with a positive
  aggregate profit, and its true success rate and fork-pass rate, as ratios of counts and not only
  as the truncated basis points the code computes, are at least 95 percent.\<close>

theorem promotion_sound:
  assumes "evaluate_promotion phase level ev = Inr t"
  shows "phase = level_phase level \<and>
    (t = TR_Stay phase level \<and> level = SL_MaxReviewed
      \<or> (\<exists>n. t = TR_Promote (level_phase n) n \<and> level_rank n = Suc (level_rank level)
            \<and> amount_wei level < amount_wei n \<and> amount_wei n \<le> MAXIMUM_REVIEWED_INPUT_WEI)) \<and>
    20 \<le> unat (pm_reconciled_outcomes ev) \<and> 0 < pm_aggregate_realized_net_pnl_wei ev \<and>
    95 * unat (pm_reconciled_outcomes ev) \<le> 100 * unat (pm_successful_outcomes ev) \<and>
    0 < unat (pm_fork_attempts ev) \<and>
    95 * unat (pm_fork_attempts ev) \<le> 100 * unat (pm_fork_passes ev)"
proof (cases "level_next level")
  case None
  then have "level = SL_MaxReviewed" by (cases level) auto
  then show ?thesis
    using assms promotion_validate_rates by (simp add: evaluate_promotion_Inr)
next
  case (Some n)
  then show ?thesis
    using assms promotion_validate_rates level_next_rank [OF Some] level_next_amount [OF Some]
      amount_wei_le_maximum [of n]
    by (simp add: evaluate_promotion_Inr)
qed

definition sample_promotion :: promotion_evidence where
  "sample_promotion = \<lparr>pm_reconciled_outcomes = 20, pm_aggregate_realized_net_pnl_wei = 5,
     pm_successful_outcomes = 19, pm_fork_attempts = 40, pm_fork_passes = 39, pm_rpc_disagreements = 0,
     pm_unknown_submissions = 0, pm_duplicate_submissions = 0, pm_nonce_gaps = 0,
     pm_control_violations = 0, pm_unreconciled_receipts = 0, pm_process_fatal_integrity_events = 0,
     pm_identity_mismatches = 0, pm_prediction_error_bps = 100, pm_daily_loss_wei = 1,
     pm_daily_loss_limit_wei = 10, pm_consecutive_losses = 0, pm_wallet_gas_reserve_wei = 2,
     pm_gas_reserve_floor_wei = 1, pm_maximum_quote_age_ms = 500, pm_maximum_candidate_age_ms = 900\<rparr>"

lemma sample_promotes:
  "evaluate_promotion PH_LiveScaleL1 SL_L1 sample_promotion = Inr (TR_Promote PH_LiveScaleL2 SL_L2)"
  by (simp add: evaluate_promotion_def promotion_validate_def sample_promotion_def econ_consts
      rate_bps_def saturating_mul_def try_narrow_def word_le_nat_alt)

theorem promotion_sound_witness:
  "evaluate_promotion PH_LiveScaleL1 SL_L1 sample_promotion = Inr (TR_Promote PH_LiveScaleL2 SL_L2)
    \<and> amount_wei SL_L1 < amount_wei SL_L2"
  using sample_promotes promotion_sound [OF sample_promotes] by auto

text \<open>In every state of the ladder that a canary activation, promotions and cooldowns can
  reach, the rung is at most the number of promotions granted so far (no rung is skipped), a live
  phase is the phase of the current rung, so the traded input is the reviewed amount of that rung,
  and the input never exceeds the reviewed maximum.\<close>

theorem ladder_reach_bounded:
  assumes "ladder_reach k phase level"
  shows "level_rank level \<le> k \<and> (is_live phase \<longrightarrow> phase = level_phase level) \<and>
    amount_wei level \<le> MAXIMUM_REVIEWED_INPUT_WEI"
  using assms
proof induction
  case (activate r g a now p l)
  then show ?case
    by (simp add: activate_canary_Inr MAXIMUM_REVIEWED_INPUT_WEI_def word_le_nat_alt)
next
  case (promote k p l ev p' l')
  then show ?case
    using promotion_target [of "level_phase l" l p' l'] level_next_rank [of l l']
    by (auto simp: evaluate_promotion_Inr amount_wei_le_maximum dest: sym)
next
  case (cool k p l sig now l' until)
  then have "level_rank l' \<le> k"
    using evaluate_failure_cooldown level_previous_le [of l] by (fastforce simp: less_eq_size_level_def)
  then show ?case
    by (simp add: amount_wei_le_maximum)
qed

definition sample_gate :: evidence_gate where
  "sample_gate = \<lparr>eg_supported_observations = 100, eg_valid_acceptance_bps = 9990,
     eg_process_fatal_integrity_exits = 0, eg_quarantine_progress_proven = True,
     eg_consumer_pending_bounded = True, eg_ack_pending_bounded = True, eg_stale_outbox_rows = 0,
     eg_primary_rpc_healthy = True, eg_maximum_state_age_blocks = 1, eg_maximum_quote_age_ms = 2000,
     eg_maximum_candidate_age_ms = 3000, eg_fork_attempts = 20, eg_fork_passes = 19,
     eg_prediction_error_bps = 1000, eg_fork_skips = 0, eg_execution_requests = 0,
     eg_active_attempts = 0, eg_positive_exact_candidates = 1\<rparr>"

definition sample_readiness :: readiness_binding where
  "sample_readiness = \<lparr>rb_release_sha = replicate 40 CHR ''a'',
     rb_engine_image_digest = ''sha256:'' @ replicate 64 CHR ''b'', rb_route_fingerprint = ''route'',
     rb_route_universe_hash = replicate 64 CHR ''c'', rb_route_policy_hash = replicate 64 CHR ''d'',
     rb_risk_policy_hash = replicate 64 CHR ''e'', rb_economic_control_epoch = 1,
     rb_global_control_epoch = 1, rb_route_control_epoch = 1,
     rb_executor_code_hash = replicate 64 CHR ''f'',
     rb_contract_identity_hash = replicate 64 CHR ''0'', rb_wallet_gas_reserve_wei = 2,
     rb_gas_reserve_floor_wei = 1, rb_current_daily_loss_wei = 0, rb_daily_loss_limit_wei = 1,
     rb_observed_from = 0, rb_observed_until = 1, rb_created_at = 2,
     rb_expires_at = 600000000002, rb_candidate_evidence_hashes = [replicate 64 CHR ''1'']\<rparr>"

definition sample_authorization :: automation_authorization where
  "sample_authorization = \<lparr>aa_route_fingerprint = ''route'',
     aa_route_policy_hash = replicate 64 CHR ''d'',
     aa_maximum_reviewed_input_wei = MAXIMUM_REVIEWED_INPUT_WEI,
     aa_executor_code_hash = replicate 64 CHR ''f'', aa_release_family = ''v4'',
     aa_one_transaction_at_a_time = True, aa_reviewed_ladder_only = True,
     aa_automatic_disarm_required = True, aa_expires_at = 10\<rparr>"

lemma sample_activates:
  "activate_canary PH_CanaryReady sample_readiness sample_gate sample_authorization 3
     = Inr (TR_Promote PH_LiveCanaryMin SL_Min)"
proof -
  have "evidence_gate_validate sample_gate = Inr ()"
    by (simp add: evidence_gate_validate_def sample_gate_def econ_consts rate_bps_def
        saturating_mul_def try_narrow_def)
  moreover have "readiness_validate sample_readiness 3 = Inr ()"
    by (simp add: readiness_validate_def sample_readiness_def econ_consts is_hex_def is_digest_def
        strip_prefix_def starts_with_def duration_seconds_def list_all_iff is_lower_hex_def is_ascii_digit_def word_le_nat_alt)
  moreover have "authorization_validate sample_authorization sample_readiness 3 = Inr ()"
    by (simp add: authorization_validate_def sample_authorization_def sample_readiness_def)
  ultimately show ?thesis
    by (simp add: activate_canary_Inr)
qed

lemma sample_ladder: "ladder_reach 1 PH_LiveScaleL1 SL_L1"
proof -
  have "evaluate_promotion PH_LiveCanaryMin SL_Min sample_promotion = Inr (TR_Promote PH_LiveScaleL1 SL_L1)"
    using sample_promotes by (simp add: evaluate_promotion_Inr)
  with ladder_reach.activate [OF sample_activates] show ?thesis
    by (metis One_nat_def ladder_reach.promote)
qed

theorem ladder_reach_bounded_witness:
  "ladder_reach 1 PH_LiveScaleL1 SL_L1 \<and> level_rank SL_L1 \<le> 1
    \<and> amount_wei SL_L1 \<le> MAXIMUM_REVIEWED_INPUT_WEI"
  using sample_ladder ladder_reach_bounded [OF sample_ladder] by blast

end
