(* ===== verification/Executor_Store.thy ===== *)
theory Executor_Store
  imports Executor_Settlement Economic_Control "HOL-Library.Product_Lexorder"
begin

text \<open>
  The Postgres store of the live executor (\<^verbatim>\<open>live-executor/src/store.rs\<close> over the tables of
  \<^verbatim>\<open>live-executor/schema\<close>). The database is a record of tables, a table is a list of rows in
  insertion order, and every method of the store is one transaction: it returns the new database, or an
  error and, as the transaction is rolled back, no new database. The uniqueness and CHECK constraints of
  the attempt and outcome tables are part of the inserts and updates. Columns that only record when a
  row was written, the JSON form of the transition and outcome contracts and their hashes are left out.
\<close>

section \<open>Configuration\<close>

record safety_limits =
  lim_maximum_gas_limit :: u64
  lim_maximum_max_fee_per_gas :: u128
  lim_maximum_priority_fee_per_gas :: u128
  lim_maximum_input_amount :: u128
  lim_minimum_expected_profit :: u128
  lim_maximum_daily_loss_wei :: u128

text \<open>The settings the engine and the store read; the connection settings are left out.\<close>

record executor_config =
  cf_wallet_address :: canonical_address
  cf_executor_address :: canonical_address
  cf_executor_code_hash :: string
  cf_pnl_asset_address :: canonical_address
  cf_chain_id :: u64
  cf_limits :: safety_limits
  cf_receipt_timeout :: int
  cf_one_transaction_at_a_time :: bool

section \<open>Tables\<close>

datatype store_error =
    ST_Configuration
  | ST_Connection
  | ST_Schema
  | ST_Data
  | ST_Invariant

record control_state =
  cs_armed :: bool
  cs_kill_switch :: bool

text \<open>The status column of a request: the status of its attempt once there is one.\<close>

datatype request_status = RQ_Draft | RQ_Approved | RQ_Attempt attempt_status

record request_row =
  rw_id :: uuid
  rw_opportunity_id :: uuid
  rw_schema_version :: string
  rw_chain_id :: i64
  rw_route_id :: string
  rw_route_fingerprint :: "string option"
  rw_route_type :: string
  rw_route_payload :: "json_value option"
  rw_selected_size :: "nat option"
  rw_token_path :: "json_value option"
  rw_origin_router :: string
  rw_executor_address :: "string option"
  rw_executor_code_hash :: "string option"
  rw_calldata_hash :: "string option"
  rw_simulation_result_hash :: "string option"
  rw_plan_hash :: "string option"
  rw_pinned_block_number :: "nat option"
  rw_pinned_block_hash :: "string option"
  rw_flash_asset :: string
  rw_flash_amount :: nat
  rw_maximum_input_amount :: nat
  rw_minimum_profit :: nat
  rw_expected_profit :: nat
  rw_deadline :: datetime
  rw_legs :: json_value
  rw_gas_limit :: i64
  rw_max_fee_per_gas :: nat
  rw_max_priority_fee_per_gas :: nat
  rw_approved_by :: "string option"
  rw_approved_at :: "datetime option"
  rw_approval_deadline :: "datetime option"
  rw_policy_version :: "string option"
  rw_approval_digest :: "string option"
  rw_status :: request_status
  rw_created_at :: datetime

record attempt_row =
  at_request_id :: uuid
  at_chain_id :: i64
  at_wallet_address :: string
  at_executor_address :: string
  at_nonce :: "nat option"
  at_tx_hash :: "string option"
  at_status :: attempt_status
  at_error_code :: "string option"
  at_claimed_at :: datetime
  at_submitted_at :: "datetime option"
  at_terminal_at :: "datetime option"

record nonce_row =
  nn_chain_id :: i64
  nn_wallet_address :: string
  nn_next_nonce :: nat

record outcome_row =
  ow_request_id :: uuid
  ow_tx_hash :: string
  ow_outcome_status :: attempt_status
  ow_receipt_status :: nat
  ow_settled_event_found :: bool
  ow_block_number :: nat
  ow_gas_used :: nat
  ow_effective_gas_price :: nat
  ow_actual_fee_wei :: nat
  ow_asset :: string
  ow_flash_amount :: nat
  ow_premium :: nat
  ow_realized_profit :: nat
  ow_net_pnl_wei :: int
  ow_recorded_at :: datetime
  ow_l1_cost_wei :: nat
  ow_submitted_at :: "datetime option"

record candidate_row =
  cd_candidate_id :: uuid
  cd_status :: string
  cd_execution_request_id :: "uuid option"
  cd_plan_hash :: string
  cd_selected_size :: nat
  cd_candidate_created_at :: datetime
  cd_predicted_gross_profit :: int
  cd_expected_net_after_ordering :: "int option"
  cd_automatic_approval_digest :: "string option"

record attribution_row =
  tr_candidate_id :: uuid
  tr_outcome_class :: string
  tr_transaction_hash :: string
  tr_nonce :: u64
  tr_conservative_predicted_net_pnl :: i128
  tr_realized_gross_profit :: i128
  tr_actual_gas_cost :: u128
  tr_actual_l1_cost :: u128
  tr_actual_flash_premium :: u128
  tr_realized_chain_net_pnl :: i128
  tr_realized_business_net_pnl :: i128
  tr_prediction_error :: i128
  tr_failure_reason :: "string option"
  tr_input_size_level :: size_level
  tr_actual_output :: u128
  tr_fork_simulated_net_pnl :: "int option"
  tr_detection_to_submission_latency_ms :: i64
  tr_receipt_latency_ms :: i64
  tr_terminal_at :: datetime

record fork_result_row =
  fk_plan_hash :: string
  fk_status :: string
  fk_simulated_at :: datetime
  fk_result_hash :: string
  fk_simulated_net_pnl :: int

record control_row =
  ct_armed :: bool
  ct_kill_switch :: bool
  ct_disarm_reason :: string

record global_control_row =
  gc_armed :: bool
  gc_kill_switch :: bool
  gc_execution_mode :: string
  gc_daily_loss_limit :: nat
  gc_disarm_reason :: "string option"
  gc_control_hash :: "string option"

record economic_control_row =
  eco_phase :: economic_phase
  eco_current_size_level :: string
  eco_current_input_wei :: nat
  eco_cooldown_until :: "datetime option"
  eco_release_sha :: "string option"
  eco_control_epoch :: i64
  eco_last_transition_reason :: string

record lane_row =
  ln_lane :: string
  ln_armed :: bool
  ln_kill_switch :: bool
  ln_maximum_input_amount :: nat
  ln_disarm_reason :: string
  ln_control_epoch :: i64

record provider_row =
  pv_exact_execution_ready :: bool
  pv_gate_reason :: string
  pv_gate_updated_at :: datetime
  pv_request_evidence_not_before :: datetime
  pv_recovery_status :: string
  pv_samples :: "(datetime \<times> string \<times> string option) list"
  pv_failure_reason :: "string option"
  pv_failure_control_epoch :: "i64 option"
  pv_failure_transition_at :: "datetime option"
  pv_failure_release_sha :: "string option"
  pv_restore_phase :: "economic_phase option"
  pv_restore_size_level :: "string option"
  pv_last_block_reason :: "string option"
  pv_recovery_evidence_hash :: "string option"

record route_control_row =
  rc_route_fingerprint :: string
  rc_enabled :: bool
  rc_kill_switch :: bool
  rc_disarm_reason :: "string option"
  rc_current_size_level :: string
  rc_maximum_permitted_size :: nat
  rc_cooldown_until :: "datetime option"
  rc_control_hash :: "string option"
  rc_control_epoch :: i64

record transition_row =
  tn_from_phase :: economic_phase
  tn_to_phase :: economic_phase
  tn_from_size_level :: string
  tn_to_size_level :: string
  tn_reason :: string
  tn_release_sha :: "string option"
  tn_control_epoch :: i64
  tn_transitioned_at :: datetime

record lock_row =
  lk_active_lane :: "string option"
  lk_active_identity :: "string option"
  lk_acquired_at :: "datetime option"
  lk_control_epoch :: i64

record atlas_request_row =
  az_auction_id :: string
  az_from :: string
  az_status :: string
  az_updated_at :: datetime
  az_submission_response_hash :: "string option"
  az_inclusion_transaction_hash :: "string option"

record atlas_ingress_row =
  ig_auction_id :: string
  ig_solver_gas_limit :: nat
  ig_oracle_gas_price_wei :: nat

record db =
  db_requests :: "request_row list"
  db_attempts :: "attempt_row list"
  db_nonces :: "nonce_row list"
  db_outcomes :: "outcome_row list"
  db_candidates :: "candidate_row list"
  db_attributions :: "attribution_row list"
  db_fork_results :: "fork_result_row list"
  db_control :: control_row
  db_global :: global_control_row
  db_economic :: economic_control_row
  db_lanes :: "lane_row list"
  db_provider :: provider_row
  db_route_controls :: "route_control_row list"
  db_transitions :: "transition_row list"
  db_lock :: lock_row
  db_atlas_requests :: "atlas_request_row list"
  db_atlas_ingress :: "atlas_ingress_row list"

section \<open>SQL\<close>

text \<open>An \<^verbatim>\<open>UPDATE ... WHERE\<close>: the number of rows affected and the table after it.\<close>

definition update_where :: "('r \<Rightarrow> bool) \<Rightarrow> ('r \<Rightarrow> 'r) \<Rightarrow> 'r list \<Rightarrow> nat \<times> 'r list" where
  "update_where p f rows = (length (filter p rows), map (\<lambda>r. if p r then f r else r) rows)"

text \<open>A nullable column read as a value that is not nullable.\<close>

definition column :: "'a option \<Rightarrow> store_error + 'a" where
  "column c = ok_or ST_Data c"

fun is_active :: "attempt_status \<Rightarrow> bool" where
  "is_active AS_Claimed = True"
| "is_active AS_NonceAllocated = True"
| "is_active AS_SubmissionUnknown = True"
| "is_active AS_Pending = True"
| "is_active AS_TimedOut = True"
| "is_active _ = False"

text \<open>\<^verbatim>\<open>phase LIKE 'LIVE_%'\<close>, where the underscore matches any one character.\<close>

definition phase_like_live :: "economic_phase \<Rightarrow> bool" where
  "phase_like_live p \<longleftrightarrow> 5 \<le> length (economic_phase_as_str p) \<and> take 4 (economic_phase_as_str p) = ''LIVE''"

definition find_lane :: "db \<Rightarrow> string \<Rightarrow> lane_row option" where
  "find_lane d lane = List.find (\<lambda>l. ln_lane l = lane) (db_lanes d)"

text \<open>The CHECK constraints of an attempt: the length of its error code, and the columns its status
  needs.\<close>

definition error_code_ok :: "string \<Rightarrow> bool" where
  "error_code_ok code \<longleftrightarrow> code \<noteq> [] \<and> length code \<le> 128"

definition attempt_check :: "attempt_row \<Rightarrow> bool" where
  "attempt_check a \<longleftrightarrow>
    pred_option error_code_ok (at_error_code a) \<and>
    (case at_status a of
       AS_Claimed \<Rightarrow> at_nonce a = None \<and> at_tx_hash a = None
     | AS_NonceAllocated \<Rightarrow> at_nonce a \<noteq> None \<and> at_tx_hash a = None
     | AS_SubmissionUnknown \<Rightarrow> at_nonce a \<noteq> None \<and> at_tx_hash a = None \<and> at_error_code a \<noteq> None
     | AS_Pending \<Rightarrow> at_nonce a \<noteq> None \<and> at_tx_hash a \<noteq> None \<and> at_submitted_at a \<noteq> None
     | AS_Failed \<Rightarrow> at_terminal_at a \<noteq> None
     | _ \<Rightarrow> at_nonce a \<noteq> None \<and> at_tx_hash a \<noteq> None \<and> at_submitted_at a \<noteq> None \<and> at_terminal_at a \<noteq> None)"

text \<open>The CHECK constraints of an outcome: the profit it records and the fee give its result.\<close>

definition outcome_check :: "outcome_row \<Rightarrow> bool" where
  "outcome_check w \<longleftrightarrow>
     ow_receipt_status w \<le> 1 \<and> 0 < ow_gas_used w \<and> 0 < ow_effective_gas_price w \<and>
     0 < ow_actual_fee_wei w \<and> 0 < ow_flash_amount w \<and>
     (ow_outcome_status w = AS_Confirmed \<and> ow_receipt_status w = 1 \<and> ow_settled_event_found w \<and>
        ow_net_pnl_wei w = int (ow_realized_profit w) - int (ow_actual_fee_wei w)
      \<or> ow_outcome_status w = AS_Reverted \<and> ow_receipt_status w = 0 \<and> \<not> ow_settled_event_found w \<and>
        ow_premium w = 0 \<and> ow_realized_profit w = 0 \<and> ow_net_pnl_wei w = - int (ow_actual_fee_wei w))"

text \<open>Updates of the attempt table; a row that breaks its CHECK constraint, or a transaction hash given
  to two attempts, fails the statement. No update makes an attempt active, so the index on the active
  attempt matters for the insert only.\<close>

definition update_attempts ::
  "(attempt_row \<Rightarrow> bool) \<Rightarrow> (attempt_row \<Rightarrow> attempt_row) \<Rightarrow> db \<Rightarrow> store_error + nat \<times> db" where
  "update_attempts p f d =
    (let (affected, rows) = update_where p f (db_attempts d) in
     if list_all attempt_check rows \<and> distinct (List.map_filter at_tx_hash rows)
     then Inr (affected, d\<lparr>db_attempts := rows\<rparr>)
     else Inl ST_Invariant)"

definition insert_attempt :: "attempt_row \<Rightarrow> db \<Rightarrow> store_error + db" where
  "insert_attempt a d =
    (if list_ex (\<lambda>b. at_request_id b = at_request_id a) (db_attempts d)
       \<or> is_active (at_status a) \<and> list_ex (\<lambda>b. is_active (at_status b)) (db_attempts d)
       \<or> \<not> attempt_check a
     then Inl ST_Invariant
     else Inr (d\<lparr>db_attempts := db_attempts d @ [a]\<rparr>))"

definition insert_outcome :: "outcome_row \<Rightarrow> db \<Rightarrow> store_error + db" where
  "insert_outcome w d =
    (if list_ex (\<lambda>v. ow_request_id v = ow_request_id w \<or> ow_tx_hash v = ow_tx_hash w) (db_outcomes d)
       \<or> \<not> outcome_check w
     then Inl ST_Invariant
     else Inr (d\<lparr>db_outcomes := db_outcomes d @ [w]\<rparr>))"

definition update_requests ::
  "(request_row \<Rightarrow> bool) \<Rightarrow> (request_row \<Rightarrow> request_row) \<Rightarrow> db \<Rightarrow> nat \<times> db" where
  "update_requests p f d =
    (let (affected, rows) = update_where p f (db_requests d) in (affected, d\<lparr>db_requests := rows\<rparr>))"

definition update_candidates ::
  "(candidate_row \<Rightarrow> bool) \<Rightarrow> string \<Rightarrow> db \<Rightarrow> nat \<times> db" where
  "update_candidates p status d =
    (let (affected, rows) = update_where p (\<lambda>c. c\<lparr>cd_status := status\<rparr>) (db_candidates d)
     in (affected, d\<lparr>db_candidates := rows\<rparr>))"

definition update_request_status ::
  "uuid \<Rightarrow> request_status \<Rightarrow> request_status \<Rightarrow> db \<Rightarrow> store_error + db" where
  "update_request_status request_id from_status to_status d =
    (let (affected, d) = update_requests
        (\<lambda>r. rw_id r = request_id \<and> rw_status r = from_status) (\<lambda>r. r\<lparr>rw_status := to_status\<rparr>) d
     in if affected \<noteq> 1 then Inl ST_Invariant else Inr d)"

definition update_candidate_where ::
  "uuid \<Rightarrow> string list \<Rightarrow> string \<Rightarrow> db \<Rightarrow> store_error + db" where
  "update_candidate_where request_id from_statuses to_status d =
    (let (affected, d) = update_candidates
        (\<lambda>c. cd_execution_request_id c = Some request_id \<and> cd_status c \<in> set from_statuses) to_status d
     in if 1 < affected then Inl ST_Invariant else Inr d)"

definition update_candidate_status_for_request ::
  "uuid \<Rightarrow> string \<Rightarrow> string \<Rightarrow> db \<Rightarrow> store_error + db" where
  "update_candidate_status_for_request request_id from_status to_status d =
     update_candidate_where request_id [from_status] to_status d"

definition release_revenue_submission_lock :: "crates \<Rightarrow> uuid \<Rightarrow> db \<Rightarrow> store_error + db" where
  "release_revenue_submission_lock cr request_id d =
    (if lk_active_identity (db_lock d) = Some (cr_uuid_to_string cr request_id)
     then Inr (d\<lparr>db_lock := \<lparr>lk_active_lane = None, lk_active_identity = None, lk_acquired_at = None,
                            lk_control_epoch = lk_control_epoch (db_lock d) + 1\<rparr>\<rparr>)
     else Inr d)"

end
