(* ===== verification/Executor_Store_Ops.thy ===== *)
theory Executor_Store_Ops
  imports Executor_Store "HOL-Library.Char_ord"
begin

text \<open>
  The methods of the store (\<^verbatim>\<open>impl ExecutorStore for PostgresExecutorStore\<close> and the functions they
  call): reading controls and the active attempt, claiming an approved request, allocating a nonce,
  recording the life of an attempt, the daily loss, and the fail-closed disarm.
\<close>

section \<open>Decoding rows\<close>

definition decode_request :: "crates \<Rightarrow> request_row \<Rightarrow> store_error + execution_request" where
  "decode_request cr row =
    and_then (ok_or ST_Data (cr_from_value_legs cr (rw_legs row))) (\<lambda>legs.
    and_then (column (rw_token_path row)) (\<lambda>path.
    and_then (ok_or ST_Data (cr_from_value_strings cr path)) (\<lambda>token_path.
    and_then (column (rw_route_fingerprint row)) (\<lambda>route_fingerprint.
    and_then (column (rw_selected_size row)) (\<lambda>selected_size.
    and_then (column (rw_executor_address row)) (\<lambda>executor_address.
    and_then (column (rw_executor_code_hash row)) (\<lambda>executor_code_hash.
    and_then (column (rw_calldata_hash row)) (\<lambda>calldata_hash.
    and_then (column (rw_simulation_result_hash row)) (\<lambda>simulation_result_hash.
    and_then (column (rw_plan_hash row)) (\<lambda>plan_hash.
    and_then (column (rw_pinned_block_number row)) (\<lambda>pinned.
    and_then (if pinned < 2 ^ 63 then Inr (int pinned) else Inl ST_Data) (\<lambda>pinned_block_number.
    and_then (column (rw_pinned_block_hash row)) (\<lambda>pinned_block_hash.
    and_then (column (rw_approved_by row)) (\<lambda>approved_by.
    and_then (column (rw_approved_at row)) (\<lambda>approved_at.
    and_then (column (rw_approval_deadline row)) (\<lambda>approval_deadline.
    and_then (column (rw_policy_version row)) (\<lambda>policy_version.
    and_then (column (rw_approval_digest row)) (\<lambda>approval_digest.
    map_err (\<lambda>_. ST_Data) (request_validate cr
      \<lparr>rr_id = rw_id row, rr_opportunity_id = rw_opportunity_id row,
       rr_schema_version = rw_schema_version row, rr_chain_id = rw_chain_id row,
       rr_route_id = rw_route_id row, rr_route_fingerprint = route_fingerprint,
       rr_route_type = rw_route_type row, rr_route_payload = rw_route_payload row,
       rr_selected_size = dec_string selected_size, rr_token_path = token_path,
       rr_origin_router = rw_origin_router row, rr_executor_address = executor_address,
       rr_executor_code_hash = executor_code_hash, rr_calldata_hash = calldata_hash,
       rr_simulation_result_hash = simulation_result_hash, rr_plan_hash = plan_hash,
       rr_pinned_block_number = pinned_block_number, rr_pinned_block_hash = pinned_block_hash,
       rr_flash_asset = rw_flash_asset row, rr_flash_amount = dec_string (rw_flash_amount row),
       rr_maximum_input_amount = dec_string (rw_maximum_input_amount row),
       rr_minimum_profit = dec_string (rw_minimum_profit row),
       rr_expected_profit = dec_string (rw_expected_profit row), rr_deadline = rw_deadline row,
       rr_legs = legs, rr_gas_limit = rw_gas_limit row,
       rr_max_fee_per_gas = dec_string (rw_max_fee_per_gas row),
       rr_max_priority_fee_per_gas = dec_string (rw_max_priority_fee_per_gas row),
       rr_approved_by = approved_by, rr_approved_at = approved_at,
       rr_approval_deadline = approval_deadline, rr_policy_version = policy_version,
       rr_approval_digest = approval_digest\<rparr>)))))))))))))))))))"

definition parse_u64 :: "nat \<Rightarrow> store_error + u64" where
  "parse_u64 n = (if n < 2 ^ 64 then Inr (of_nat n) else Inl ST_Data)"

definition decode_active_attempt :: "crates \<Rightarrow> attempt_row \<Rightarrow> request_row \<Rightarrow> store_error + active_attempt" where
  "decode_active_attempt cr a row =
    (if rw_status row \<noteq> RQ_Attempt (at_status a) then Inl ST_Invariant
     else if \<not> is_active (at_status a) then Inl ST_Data
     else
       and_then (case at_nonce a of None \<Rightarrow> Inr None | Some n \<Rightarrow> map_ok Some (parse_u64 n)) (\<lambda>nonce.
       and_then (case at_tx_hash a of
           None \<Rightarrow> Inr None
         | Some h \<Rightarrow> map_ok Some (map_err (\<lambda>_. ST_Data) (transaction_hash_parse cr h))) (\<lambda>tx_hash.
       and_then (decode_request cr row) (\<lambda>request.
       Inr \<lparr>av_request = request, av_status = at_status a, av_nonce = nonce, av_tx_hash = tx_hash,
            av_submitted_at = at_submitted_at a\<rparr>))))"

section \<open>Reading the state\<close>

definition dex_enabled :: "db \<Rightarrow> bool" where
  "dex_enabled d \<longleftrightarrow>
     ct_armed (db_control d) \<and> \<not> ct_kill_switch (db_control d) \<and>
     gc_armed (db_global d) \<and> \<not> gc_kill_switch (db_global d) \<and>
     gc_execution_mode (db_global d) = ''live'' \<and> phase_like_live (eco_phase (db_economic d))"

definition aave_enabled :: "db \<Rightarrow> lane_row \<Rightarrow> bool" where
  "aave_enabled d lane \<longleftrightarrow>
     ln_armed lane \<and> \<not> ln_kill_switch lane \<and> pv_exact_execution_ready (db_provider d) \<and>
     eco_phase (db_economic d) = PH_DisarmedEvidence \<and>
     eco_current_size_level (db_economic d) = ''MAX_REVIEWED''"

definition read_control_state :: "db \<Rightarrow> store_error + control_state" where
  "read_control_state d =
    and_then (ok_or ST_Schema (find_lane d ''aave_liquidation'')) (\<lambda>lane.
    Inr \<lparr>cs_armed = (dex_enabled d \<or> aave_enabled d lane),
         cs_kill_switch = (\<not> (dex_enabled d \<or> aave_enabled d lane))\<rparr>)"

text \<open>The join of the active attempts with their requests, in the order of the attempts.\<close>

definition active_rows :: "db \<Rightarrow> (attempt_row \<times> request_row) list" where
  "active_rows d = [(a, r). a \<leftarrow> db_attempts d, is_active (at_status a),
                            r \<leftarrow> db_requests d, rw_id r = at_request_id a]"

definition read_active_attempt :: "crates \<Rightarrow> db \<Rightarrow> store_error + active_attempt option" where
  "read_active_attempt cr d =
    (case active_rows d of
       [] \<Rightarrow> Inr None
     | [(a, r)] \<Rightarrow> map_ok Some (decode_active_attempt cr a r)
     | _ \<Rightarrow> Inl ST_Invariant)"

definition day_start :: "datetime \<Rightarrow> datetime" where
  "day_start now = now - now mod 86400000000000"

definition same_day :: "datetime \<Rightarrow> datetime \<Rightarrow> bool" where
  "same_day now t \<longleftrightarrow> day_start now \<le> t \<and> t < day_start now + 86400000000000"

definition direct_loss :: "datetime \<Rightarrow> outcome_row list \<Rightarrow> int" where
  "direct_loss now ws =
    sum_list (map (\<lambda>w. if ow_net_pnl_wei w < 0 then - ow_net_pnl_wei w else 0)
      (filter (\<lambda>w. same_day now (ow_recorded_at w)) ws))"

definition atlas_at_risk :: "atlas_request_row \<Rightarrow> bool" where
  "atlas_at_risk r \<longleftrightarrow>
     az_status r \<in> {''signed'', ''submitted'', ''submission_unknown''}
     \<or> az_status r = ''lost''
       \<and> (az_submission_response_hash r \<noteq> None \<or> az_inclusion_transaction_hash r \<noteq> None)"

definition atlas_loss :: "datetime \<Rightarrow> db \<Rightarrow> int" where
  "atlas_loss now d =
    sum_list [int (ig_solver_gas_limit i * ig_oracle_gas_price_wei i).
      r \<leftarrow> db_atlas_requests d, same_day now (az_updated_at r) \<and> atlas_at_risk r,
      i \<leftarrow> db_atlas_ingress d, ig_auction_id i = az_auction_id r]"

definition parse_u128_int :: "int \<Rightarrow> store_error + u128" where
  "parse_u128_int i = ok_or ST_Data (try_from_int i)"

definition read_daily_loss_wei :: "datetime \<Rightarrow> db \<Rightarrow> store_error + u128" where
  "read_daily_loss_wei now d = parse_u128_int (direct_loss now (db_outcomes d) + atlas_loss now d)"

section \<open>Claiming a request\<close>

text \<open>The text of a member of a JSON object (\<^verbatim>\<open>->>\<close>) read as a number.\<close>

definition json_text :: "json_value \<Rightarrow> string \<Rightarrow> string option" where
  "json_text v k =
    (case v of
       JObject members \<Rightarrow>
         (case map_of members k of
            Some (JString s) \<Rightarrow> Some s
          | Some (JNumber s) \<Rightarrow> Some s
          | _ \<Rightarrow> None)
     | _ \<Rightarrow> None)"

definition json_numeric :: "json_value option \<Rightarrow> string \<Rightarrow> nat option" where
  "json_numeric v k =
    Option.bind v (\<lambda>v. Option.bind (json_text v k) (\<lambda>s. if s = [] then None else parse_digits s 0))"

definition claimable ::
  "bool \<Rightarrow> bool \<Rightarrow> nat \<Rightarrow> nat \<Rightarrow> datetime \<Rightarrow> datetime \<Rightarrow> request_row \<Rightarrow> bool" where
  "claimable dex aave current_input aave_maximum not_before now r \<longleftrightarrow>
     rw_status r = RQ_Approved \<and>
     rw_schema_version r = REQUEST_SCHEMA_VERSION \<and>
     rw_approved_at r \<noteq> None \<and> rw_approved_by r \<noteq> None \<and> rw_policy_version r \<noteq> None \<and>
     rw_approval_digest r \<noteq> None \<and>
     now < rw_deadline r \<and>
     (case rw_approval_deadline r of None \<Rightarrow> False | Some t \<Rightarrow> now < t) \<and>
     (rw_route_type r = ''PHOENIX_DEX_V1'' \<and> dex \<and> rw_selected_size r = Some current_input
      \<or> rw_route_type r = ''AAVE_LIQUIDATION_V1'' \<and> aave \<and>
        (case rw_selected_size r of None \<Rightarrow> False | Some n \<Rightarrow> n \<le> rw_maximum_input_amount r) \<and>
        json_numeric (rw_route_payload r) ''maximum_input_weth_wei'' = Some aave_maximum \<and>
        not_before \<le> rw_created_at r)"

definition next_claim :: "(request_row \<Rightarrow> bool) \<Rightarrow> db \<Rightarrow> request_row option" where
  "next_claim p d =
    first (sort_key (\<lambda>r. (the (rw_approved_at r), rw_id r)) (filter p (db_requests d)))"

definition chain_column :: "u64 \<Rightarrow> store_error + i64" where
  "chain_column c = (if unat c < 2 ^ 63 then Inr (int (unat c)) else Inl ST_Invariant)"

definition acquire_lock :: "crates \<Rightarrow> execution_request \<Rightarrow> datetime \<Rightarrow> db \<Rightarrow> store_error + db" where
  "acquire_lock cr request now d =
    (if lk_active_lane (db_lock d) \<noteq> None then Inl ST_Invariant
     else Inr (d\<lparr>db_lock :=
       \<lparr>lk_active_lane =
          Some (if er_route_type request = AaveLiquidationV1 then ''aave_liquidation'' else ''phoenix_dex''),
        lk_active_identity = Some (cr_uuid_to_string cr (er_id request)), lk_acquired_at = Some now,
        lk_control_epoch = lk_control_epoch (db_lock d) + 1\<rparr>\<rparr>))"

definition claim_row ::
  "crates \<Rightarrow> executor_config \<Rightarrow> datetime \<Rightarrow> request_row \<Rightarrow> db \<Rightarrow> store_error + execution_request option \<times> db" where
  "claim_row cr cfg now row d =
    and_then (decode_request cr row) (\<lambda>request.
    and_then (update_request_status (er_id request) RQ_Approved (RQ_Attempt AS_Claimed) d) (\<lambda>d.
    and_then (chain_column (cf_chain_id cfg)) (\<lambda>chain_id.
    and_then (insert_attempt
        \<lparr>at_request_id = er_id request, at_chain_id = chain_id,
         at_wallet_address = canonical_address_to_string cr (cf_wallet_address cfg),
         at_executor_address = canonical_address_to_string cr (cf_executor_address cfg),
         at_nonce = None, at_tx_hash = None, at_status = AS_Claimed, at_error_code = None,
         at_claimed_at = now, at_submitted_at = None, at_terminal_at = None\<rparr> d) (\<lambda>d.
    and_then (update_candidate_status_for_request (er_id request) ''request_materialized'' ''claimed'' d) (\<lambda>d.
    and_then (acquire_lock cr request now d) (\<lambda>d.
    Inr (Some request, d)))))))"

definition claim_approved ::
  "crates \<Rightarrow> executor_config \<Rightarrow> datetime \<Rightarrow> db \<Rightarrow> store_error + execution_request option \<times> db" where
  "claim_approved cr cfg now d =
    and_then (ok_or ST_Schema (find_lane d ''aave_liquidation'')) (\<lambda>lane.
    let dex = dex_enabled d; aave = aave_enabled d lane in
    if \<not> dex \<and> \<not> aave then Inr (None, d)
    else if lk_active_lane (db_lock d) \<noteq> None then Inr (None, d)
    else if list_ex (\<lambda>a. is_active (at_status a)) (db_attempts d) then Inr (None, d)
    else case next_claim (claimable dex aave (eco_current_input_wei (db_economic d))
        (ln_maximum_input_amount lane) (pv_request_evidence_not_before (db_provider d)) now) d of
      None \<Rightarrow> Inr (None, d)
    | Some row \<Rightarrow> claim_row cr cfg now row d)"

section \<open>The life of an attempt\<close>

definition nonce_of :: "db \<Rightarrow> i64 \<Rightarrow> string \<Rightarrow> nat option" where
  "nonce_of d chain_id wallet =
    map_option nn_next_nonce
      (List.find (\<lambda>n. nn_chain_id n = chain_id \<and> nn_wallet_address n = wallet) (db_nonces d))"

definition upsert_nonce :: "i64 \<Rightarrow> string \<Rightarrow> nat \<Rightarrow> db \<Rightarrow> db" where
  "upsert_nonce chain_id wallet next_nonce d =
    (let (affected, rows) = update_where (\<lambda>n. nn_chain_id n = chain_id \<and> nn_wallet_address n = wallet)
        (\<lambda>n. n\<lparr>nn_next_nonce := next_nonce\<rparr>) (db_nonces d)
     in d\<lparr>db_nonces := if affected = 0
          then rows @ [\<lparr>nn_chain_id = chain_id, nn_wallet_address = wallet, nn_next_nonce = next_nonce\<rparr>]
          else rows\<rparr>)"

definition allocate_nonce ::
  "crates \<Rightarrow> uuid \<Rightarrow> executor_config \<Rightarrow> u64 \<Rightarrow> db \<Rightarrow> store_error + u64 \<times> db" where
  "allocate_nonce cr request_id cfg network_pending_nonce d =
    and_then (chain_column (cf_chain_id cfg)) (\<lambda>chain_id.
    let wallet = canonical_address_to_string cr (cf_wallet_address cfg) in
    and_then (case nonce_of d chain_id wallet of
        None \<Rightarrow> Inr None
      | Some n \<Rightarrow> map_ok Some (parse_u64 n)) (\<lambda>stored.
    let nonce = max (case stored of None \<Rightarrow> network_pending_nonce | Some n \<Rightarrow> n) network_pending_nonce in
    and_then (ok_or ST_Data (checked_add nonce 1)) (\<lambda>next_nonce.
    let d = upsert_nonce chain_id wallet (unat next_nonce) d in
    and_then (update_attempts (\<lambda>a. at_request_id a = request_id \<and> at_status a = AS_Claimed)
        (\<lambda>a. a\<lparr>at_nonce := Some (unat nonce), at_status := AS_NonceAllocated\<rparr>) d) (\<lambda>(affected, d).
    if affected \<noteq> 1 then Inl ST_Invariant
    else let (_, d) = update_requests (\<lambda>r. rw_id r = request_id \<and> rw_status r = RQ_Attempt AS_Claimed)
        (\<lambda>r. r\<lparr>rw_status := RQ_Attempt AS_NonceAllocated\<rparr>) d
      in Inr (nonce, d)))))"

definition unsubmitted :: "uuid \<Rightarrow> attempt_row \<Rightarrow> bool" where
  "unsubmitted request_id a \<longleftrightarrow>
     at_request_id a = request_id \<and> at_status a = AS_NonceAllocated \<and> at_nonce a \<noteq> None \<and> at_tx_hash a = None"

definition mark_signed :: "uuid \<Rightarrow> datetime \<Rightarrow> db \<Rightarrow> store_error + db" where
  "mark_signed request_id signed_at d =
    (if length (filter (unsubmitted request_id) (db_attempts d)) \<noteq> 1 then Inl ST_Invariant
     else update_candidate_where request_id [''claimed''] ''signed'' d)"

definition mark_submission_unknown :: "uuid \<Rightarrow> string \<Rightarrow> datetime \<Rightarrow> db \<Rightarrow> store_error + db" where
  "mark_submission_unknown request_id error_code observed_at d =
    (if \<not> error_code_ok error_code then Inl ST_Invariant
     else
     and_then (update_attempts (unsubmitted request_id)
        (\<lambda>a. a\<lparr>at_status := AS_SubmissionUnknown, at_error_code := Some error_code\<rparr>) d) (\<lambda>(affected, d).
     if affected \<noteq> 1 then Inl ST_Invariant
     else
     and_then (update_request_status request_id (RQ_Attempt AS_NonceAllocated)
        (RQ_Attempt AS_SubmissionUnknown) d) (\<lambda>d.
     update_candidate_where request_id [''claimed'', ''signed'', ''submitted''] ''submission_unknown'' d)))"

definition fail_unsubmitted :: "crates \<Rightarrow> uuid \<Rightarrow> string \<Rightarrow> datetime \<Rightarrow> db \<Rightarrow> store_error + db" where
  "fail_unsubmitted cr request_id error_code terminal_at d =
    (if \<not> error_code_ok error_code then Inl ST_Invariant
     else
     and_then (ok_or ST_Schema (List.find (unsubmitted request_id) (db_attempts d))) (\<lambda>row.
     and_then (column (at_nonce row)) (\<lambda>n.
     and_then (parse_u64 n) (\<lambda>nonce.
     and_then (ok_or ST_Data (checked_add nonce 1)) (\<lambda>reserved_next.
     let (affected, nonces) = update_where
         (\<lambda>s. nn_chain_id s = at_chain_id row \<and> nn_wallet_address s = at_wallet_address row
              \<and> nn_next_nonce s = unat reserved_next)
         (\<lambda>s. s\<lparr>nn_next_nonce := unat nonce\<rparr>) (db_nonces d) in
     if affected \<noteq> 1 then Inl ST_Invariant
     else
     and_then (update_attempts
         (\<lambda>a. at_request_id a = request_id \<and> at_status a = AS_NonceAllocated \<and> at_tx_hash a = None)
         (\<lambda>a. a\<lparr>at_status := AS_Failed, at_error_code := Some error_code, at_terminal_at := Some terminal_at\<rparr>)
         (d\<lparr>db_nonces := nonces\<rparr>)) (\<lambda>(affected, d).
     if affected \<noteq> 1 then Inl ST_Invariant
     else
     and_then (update_request_status request_id (RQ_Attempt AS_NonceAllocated) (RQ_Attempt AS_Failed) d) (\<lambda>d.
     and_then (update_candidate_where request_id [''claimed'', ''signed''] ''submission_failed_known'' d) (\<lambda>d.
     release_revenue_submission_lock cr request_id d))))))))"

definition mark_pending :: "crates \<Rightarrow> uuid \<Rightarrow> transaction_hash \<Rightarrow> datetime \<Rightarrow> db \<Rightarrow> store_error + db" where
  "mark_pending cr request_id tx_hash submitted_at d =
    and_then (update_attempts
        (\<lambda>a. at_request_id a = request_id \<and> at_status a = AS_NonceAllocated \<and> at_tx_hash a = None)
        (\<lambda>a. a\<lparr>at_tx_hash := Some (transaction_hash_to_string cr tx_hash), at_status := AS_Pending,
               at_submitted_at := Some submitted_at\<rparr>) d) (\<lambda>(affected, d).
    if affected \<noteq> 1 then Inl ST_Invariant
    else
    and_then (update_request_status request_id (RQ_Attempt AS_NonceAllocated) (RQ_Attempt AS_Pending) d) (\<lambda>d.
    update_candidate_status_for_request request_id ''signed'' ''submitted'' d))"

definition record_monitor_error :: "uuid \<Rightarrow> string \<Rightarrow> db \<Rightarrow> store_error + db" where
  "record_monitor_error request_id error_code d =
    and_then (update_attempts
        (\<lambda>a. at_request_id a = request_id \<and> at_status a \<in> {AS_Pending, AS_TimedOut})
        (\<lambda>a. a\<lparr>at_error_code := Some error_code\<rparr>) d) (\<lambda>(affected, d).
    if affected \<noteq> 1 then Inl ST_Invariant else Inr d)"

section \<open>The fail-closed disarm\<close>

text \<open>The instant of a transition is written in RFC 3339 with whole seconds.\<close>

definition insert_runtime_transition ::
  "economic_phase \<Rightarrow> string \<Rightarrow> economic_phase \<Rightarrow> string \<Rightarrow> string \<Rightarrow> string option \<Rightarrow> i64 \<Rightarrow> datetime
   \<Rightarrow> db \<Rightarrow> store_error + db" where
  "insert_runtime_transition from_phase from_level to_phase to_level reason release_sha control_epoch
      transitioned_at d =
    (if \<not> error_code_ok reason \<or> control_epoch < 0 then Inl ST_Invariant
     else Inr (d\<lparr>db_transitions := db_transitions d @
       [\<lparr>tn_from_phase = from_phase, tn_to_phase = to_phase, tn_from_size_level = from_level,
         tn_to_size_level = to_level, tn_reason = reason, tn_release_sha = release_sha,
         tn_control_epoch = control_epoch,
         tn_transitioned_at = timestamp transitioned_at * 1000000000\<rparr>]\<rparr>))"

definition disarmable_candidate :: "candidate_row \<Rightarrow> bool" where
  "disarmable_candidate c \<longleftrightarrow> cd_status c \<in> {''materialized'', ''approval_pending'', ''approved'',
     ''request_materialized'', ''claimed'', ''signed''}"

definition provider_failure :: "string \<Rightarrow> bool" where
  "provider_failure reason \<longleftrightarrow> reason \<in> {''provider_disagreement'', ''provider_unavailable'',
     ''provider_timeout'', ''provider_rate_limited''}"

definition gate_provider :: "string \<Rightarrow> datetime \<Rightarrow> provider_row \<Rightarrow> provider_row" where
  "gate_provider reason transitioned_at p =
    p\<lparr>pv_exact_execution_ready := False, pv_gate_reason := reason, pv_gate_updated_at := transitioned_at,
      pv_request_evidence_not_before := transitioned_at, pv_recovery_status := ''blocked'', pv_samples := []\<rparr>"

definition provider_recovery ::
  "string \<Rightarrow> datetime \<Rightarrow> economic_control_row \<Rightarrow> provider_row \<Rightarrow> store_error + provider_row" where
  "provider_recovery reason transitioned_at e p =
    (if provider_failure reason \<and> eco_phase e = PH_DisarmedEvidence
        \<and> eco_current_size_level e = ''MAX_REVIEWED''
     then
       and_then (ok_or ST_Invariant (eco_release_sha e)) (\<lambda>release.
       Inr (p\<lparr>pv_recovery_status := ''collecting'', pv_failure_reason := Some reason,
              pv_failure_control_epoch := Some (eco_control_epoch e + 1),
              pv_failure_transition_at := Some transitioned_at, pv_failure_release_sha := Some release,
              pv_restore_phase := Some PH_DisarmedEvidence, pv_restore_size_level := Some ''MAX_REVIEWED'',
              pv_last_block_reason := None, pv_recovery_evidence_hash := None\<rparr>))
     else Inr (p\<lparr>pv_recovery_status := ''blocked'', pv_failure_reason := None,
              pv_failure_control_epoch := None, pv_failure_transition_at := None,
              pv_failure_release_sha := None, pv_restore_phase := None, pv_restore_size_level := None,
              pv_last_block_reason := Some ''non_provider_failure'', pv_recovery_evidence_hash := None\<rparr>))"

text \<open>The control epochs are BIGINT columns: adding one to the greatest value aborts the transaction.\<close>

definition epochs_full :: "db \<Rightarrow> bool" where
  "epochs_full d \<longleftrightarrow>
     2 ^ 63 - 1 \<le> eco_control_epoch (db_economic d) \<or>
     list_ex (\<lambda>l. ln_lane l \<in> {''atlas_solver'', ''aave_liquidation''} \<and> 2 ^ 63 - 1 \<le> ln_control_epoch l) (db_lanes d) \<or>
     list_ex (\<lambda>c. 2 ^ 63 - 1 \<le> rc_control_epoch c) (db_route_controls d)"

definition fail_close_execution_authority :: "string \<Rightarrow> datetime \<Rightarrow> db \<Rightarrow> store_error + db" where
  "fail_close_execution_authority reason transitioned_at d =
    (if \<not> error_code_ok reason \<or> epochs_full d then Inl ST_Invariant
     else
     let e = db_economic d;
         (lanes_affected, lanes) = update_where (\<lambda>l. ln_lane l \<in> {''atlas_solver'', ''aave_liquidation''})
           (\<lambda>l. l\<lparr>ln_armed := False, ln_kill_switch := True, ln_disarm_reason := reason,
                  ln_control_epoch := ln_control_epoch l + 1\<rparr>) (db_lanes d)
     in
     if lanes_affected \<noteq> 2 then Inl ST_Invariant
     else
     and_then (provider_recovery reason transitioned_at e (gate_provider reason transitioned_at (db_provider d)))
       (\<lambda>provider.
     let (_, d) = update_candidates disarmable_candidate ''disarmed'' d in
     insert_runtime_transition (eco_phase e) (eco_current_size_level e) PH_DisarmedFailure
       (eco_current_size_level e) reason (eco_release_sha e) (eco_control_epoch e + 1) transitioned_at
       (d\<lparr>db_control := \<lparr>ct_armed = False, ct_kill_switch = True, ct_disarm_reason = reason\<rparr>,
          db_global := (db_global d)\<lparr>gc_armed := False, gc_kill_switch := True,
            gc_execution_mode := ''disarmed'', gc_disarm_reason := Some reason, gc_control_hash := None\<rparr>,
          db_lanes := lanes, db_provider := provider,
          db_route_controls := map (\<lambda>c. c\<lparr>rc_enabled := False, rc_kill_switch := True,
            rc_disarm_reason := Some reason, rc_cooldown_until := None, rc_control_hash := None,
            rc_control_epoch := rc_control_epoch c + 1\<rparr>) (db_route_controls d),
          db_economic := e\<lparr>eco_phase := PH_DisarmedFailure, eco_cooldown_until := None,
            eco_control_epoch := eco_control_epoch e + 1, eco_last_transition_reason := reason\<rparr>\<rparr>)))"

definition disarm :: "datetime \<Rightarrow> string \<Rightarrow> db \<Rightarrow> store_error + db" where
  "disarm utc_now reason d = fail_close_execution_authority reason utc_now d"

section \<open>Terminal outcomes\<close>

definition to_i128 :: "u128 \<Rightarrow> i128 option" where
  "to_i128 n = checked_signed 128 (int (unat n))"

definition receipt_state_valid :: "attempt_status \<Rightarrow> receipt_outcome \<Rightarrow> i128 \<Rightarrow> i128 \<Rightarrow> bool" where
  "receipt_state_valid status w fee realized_profit \<longleftrightarrow>
     (status = AS_Confirmed \<and> ro_receipt_status w = 1 \<and> ro_settled_event_found w \<and>
        checked_signed 128 (realized_profit - fee) = Some (ro_net_pnl_wei w)
      \<or> status = AS_Reverted \<and> ro_receipt_status w = 0 \<and> \<not> ro_settled_event_found w \<and>
        st_premium (ro_settlement w) = 0 \<and> st_realized_profit (ro_settlement w) = 0 \<and>
        ro_canonical_realized_profit_wei w = 0 \<and> checked_signed 128 (- fee) = Some (ro_net_pnl_wei w))"

definition outcome_valid :: "attempt_status \<Rightarrow> receipt_outcome \<Rightarrow> bool" where
  "outcome_valid status w \<longleftrightarrow>
     (case (to_i128 (ro_actual_fee_wei w), to_i128 (ro_canonical_realized_profit_wei w)) of
        (Some fee, Some realized_profit) \<Rightarrow>
          receipt_state_valid status w fee realized_profit \<and>
          ro_block_number w \<noteq> 0 \<and> ro_gas_used w \<noteq> 0 \<and> ro_effective_gas_price w \<noteq> 0 \<and>
          ro_actual_fee_wei w \<noteq> 0 \<and> ro_actual_l1_cost_wei w \<le> ro_actual_fee_wei w
      | _ \<Rightarrow> False)"

definition level_of_size :: "u128 \<Rightarrow> size_level option" where
  "level_of_size selected_size = List.find (\<lambda>level. amount_wei level = selected_size) size_level_ALL"

definition latest_fork_pnl :: "string \<Rightarrow> db \<Rightarrow> int option" where
  "latest_fork_pnl plan_hash d =
    map_option fk_simulated_net_pnl
      (first (sort_key (\<lambda>f. (- fk_simulated_at f, fk_result_hash f))
        (filter (\<lambda>f. fk_plan_hash f = plan_hash \<and> fk_status f = ''passed'') (db_fork_results d))))"

definition milliseconds :: "int \<Rightarrow> i64" where
  "milliseconds d = max (d sdiv 1000000) 0"

text \<open>The attribution of an outcome to its candidate. The JSON contract with the same values and its
  hash, which the row carries besides the columns, are left out.\<close>

definition attribution_of ::
  "candidate_row \<Rightarrow> string \<Rightarrow> nat option \<Rightarrow> datetime option \<Rightarrow> attempt_status \<Rightarrow> receipt_outcome
   \<Rightarrow> datetime \<Rightarrow> int option \<Rightarrow> store_error + attribution_row" where
  "attribution_of c tx_hash nonce submitted_at status w terminal_at fork_simulated_net_pnl =
    and_then (ok_or ST_Invariant nonce) (\<lambda>n.
    and_then (parse_u64 n) (\<lambda>nonce.
    and_then (ok_or ST_Invariant submitted_at) (\<lambda>submitted_at.
    and_then (column (cd_expected_net_after_ordering c)) (\<lambda>expected.
    and_then (ok_or ST_Data (checked_signed 128 expected)) (\<lambda>conservative.
    and_then (ok_or ST_Data (try_from_int (int (cd_selected_size c)))) (\<lambda>selected_size.
    and_then (ok_or ST_Data (level_of_size selected_size)) (\<lambda>input_size_level.
    and_then (ok_or ST_Data (to_i128 (ro_canonical_realized_profit_wei w))) (\<lambda>realized_gross_profit.
    let actual_l1_cost = min (ro_actual_l1_cost_wei w) (ro_actual_fee_wei w) in
    and_then (ok_or ST_Data (checked_sub (ro_actual_fee_wei w) actual_l1_cost)) (\<lambda>actual_gas_cost.
    and_then (ok_or ST_Data (checked_signed 128 (ro_net_pnl_wei w - conservative))) (\<lambda>prediction_error.
    and_then (ok_or ST_Data
        (Option.bind (checked_add (st_flash_amount (ro_settlement w)) (st_premium (ro_settlement w)))
          (\<lambda>value. checked_add value (st_realized_profit (ro_settlement w))))) (\<lambda>actual_output.
    and_then (if status = AS_Confirmed then
                Inr (if 0 < ro_net_pnl_wei w then ''confirmed_profitable'' else ''confirmed_negative'')
              else if status = AS_Reverted then Inr ''reverted'' else Inl ST_Invariant) (\<lambda>outcome_class.
    Inr \<lparr>tr_candidate_id = cd_candidate_id c, tr_outcome_class = outcome_class,
         tr_transaction_hash = tx_hash, tr_nonce = nonce,
         tr_conservative_predicted_net_pnl = conservative,
         tr_realized_gross_profit = realized_gross_profit, tr_actual_gas_cost = actual_gas_cost,
         tr_actual_l1_cost = actual_l1_cost, tr_actual_flash_premium = st_premium (ro_settlement w),
         tr_realized_chain_net_pnl = ro_net_pnl_wei w, tr_realized_business_net_pnl = ro_net_pnl_wei w,
         tr_prediction_error = prediction_error,
         tr_failure_reason = (if status = AS_Reverted then Some ''transaction_reverted'' else None),
         tr_input_size_level = input_size_level, tr_actual_output = actual_output,
         tr_fork_simulated_net_pnl = fork_simulated_net_pnl,
         tr_detection_to_submission_latency_ms = milliseconds (submitted_at - cd_candidate_created_at c),
         tr_receipt_latency_ms = milliseconds (terminal_at - submitted_at),
         tr_terminal_at = terminal_at\<rparr>))))))))))))"

definition insert_autonomous_outcome ::
  "uuid \<Rightarrow> string \<Rightarrow> nat option \<Rightarrow> datetime option \<Rightarrow> attempt_status \<Rightarrow> receipt_outcome \<Rightarrow> datetime
   \<Rightarrow> db \<Rightarrow> store_error + db" where
  "insert_autonomous_outcome request_id tx_hash nonce submitted_at status w terminal_at d =
    (case List.find (\<lambda>c. cd_execution_request_id c = Some request_id \<and> cd_automatic_approval_digest c \<noteq> None)
        (db_candidates d) of
       None \<Rightarrow> Inr d
     | Some c \<Rightarrow>
         and_then (attribution_of c tx_hash nonce submitted_at status w terminal_at
             (latest_fork_pnl (cd_plan_hash c) d)) (\<lambda>row.
         if list_ex (\<lambda>t. tr_candidate_id t = cd_candidate_id c) (db_attributions d) then Inl ST_Invariant
         else Inr (d\<lparr>db_attributions := db_attributions d @ [row]\<rparr>)))"

text \<open>The two fields of the reviewed route policies (\<^verbatim>\<open>config/phoenix-route-policy-v1.json\<close> and
  \<^verbatim>\<open>phoenix-route-policy-3000-500-v1.json\<close>) that the store reads: the daily loss of a route and the
  number of consecutive losses it may have. Both files give the same values.\<close>

definition reviewed_route_policy :: "string \<Rightarrow> (u128 \<times> u64) option" where
  "reviewed_route_policy fingerprint =
    (if fingerprint = CURRENT_ROUTE_FINGERPRINT \<or> fingerprint = REVERSE_ROUTE_FINGERPRINT
     then Some (10000000000000000, 3) else None)"

definition route_outcomes :: "string \<Rightarrow> db \<Rightarrow> outcome_row list" where
  "route_outcomes fingerprint d =
    filter (\<lambda>w. list_ex (\<lambda>r. rw_id r = ow_request_id w \<and> rw_route_fingerprint r = Some fingerprint)
      (db_requests d)) (db_outcomes d)"

definition recent_results :: "string \<Rightarrow> db \<Rightarrow> int list" where
  "recent_results fingerprint d =
    map ow_net_pnl_wei (take 1000
      (rev (sort_key (\<lambda>w. (ow_recorded_at w, ow_request_id w)) (route_outcomes fingerprint d))))"

definition cool_route :: "string \<Rightarrow> size_level \<Rightarrow> datetime \<Rightarrow> db \<Rightarrow> db" where
  "cool_route fingerprint next_level cooldown_until d =
    d\<lparr>db_route_controls := map (\<lambda>c. if rc_route_fingerprint c = fingerprint
        then c\<lparr>rc_enabled := False, rc_kill_switch := True,
               rc_current_size_level := size_level_as_str next_level,
               rc_maximum_permitted_size := unat (amount_wei next_level),
               rc_cooldown_until := Some cooldown_until,
               rc_disarm_reason := Some ''realized_negative_cooldown'', rc_control_hash := None,
               rc_control_epoch := rc_control_epoch c + 1\<rparr> else c) (db_route_controls d),
      db_economic := (db_economic d)\<lparr>eco_phase := PH_Cooldown,
        eco_current_size_level := size_level_as_str next_level,
        eco_current_input_wei := unat (amount_wei next_level),
        eco_cooldown_until := Some cooldown_until,
        eco_control_epoch := eco_control_epoch (db_economic d) + 1,
        eco_last_transition_reason := ''realized_negative_cooldown''\<rparr>\<rparr>"

definition disarm_route :: "string \<Rightarrow> string \<Rightarrow> db \<Rightarrow> db" where
  "disarm_route fingerprint reason d =
    d\<lparr>db_route_controls := map (\<lambda>c. if rc_route_fingerprint c = fingerprint
        then c\<lparr>rc_enabled := False, rc_kill_switch := True, rc_disarm_reason := Some reason,
               rc_control_hash := None\<rparr> else c) (db_route_controls d),
      db_economic := (db_economic d)\<lparr>eco_phase := PH_DisarmedFailure, eco_cooldown_until := None,
        eco_control_epoch := eco_control_epoch (db_economic d) + 1,
        eco_last_transition_reason := reason\<rparr>\<rparr>"

definition disarm_daily_loss :: "i64 \<Rightarrow> db \<Rightarrow> db" where
  "disarm_daily_loss economic_epoch d =
    (let (_, d) = update_candidates disarmable_candidate ''disarmed'' d in
     d\<lparr>db_control := \<lparr>ct_armed = False, ct_kill_switch = True, ct_disarm_reason = ''daily_loss_budget''\<rparr>,
       db_route_controls := map (\<lambda>c. c\<lparr>rc_enabled := False, rc_kill_switch := True,
         rc_disarm_reason := Some ''daily_loss_budget'', rc_cooldown_until := None,
         rc_control_hash := None, rc_control_epoch := rc_control_epoch c + 1\<rparr>) (db_route_controls d),
       db_economic := (db_economic d)\<lparr>eco_phase := PH_DisarmedFailure, eco_cooldown_until := None,
         eco_control_epoch := economic_epoch + 1, eco_last_transition_reason := ''daily_loss_budget''\<rparr>,
       db_global := (db_global d)\<lparr>gc_armed := False, gc_kill_switch := True,
         gc_execution_mode := ''disarmed'', gc_disarm_reason := Some ''daily_loss_budget'',
         gc_control_hash := None\<rparr>\<rparr>)"

text \<open>The route feedback: the database after it, and the transition it makes, if any.\<close>

definition route_feedback ::
  "string \<Rightarrow> u128 \<Rightarrow> u128 \<Rightarrow> u64 \<Rightarrow> int list \<Rightarrow> size_level \<Rightarrow> datetime \<Rightarrow> db
   \<Rightarrow> (economic_phase \<times> size_level \<times> string) option \<times> db" where
  "route_feedback fingerprint route_loss route_limit consecutive_limit recent current_level terminal_at d =
    (let consecutive_losses = length (takeWhile (\<lambda>v. v < 0) recent) in
     if route_limit \<le> route_loss \<or> unat consecutive_limit \<le> consecutive_losses then
       let reason = (if route_limit \<le> route_loss then ''route_daily_loss_budget''
                     else ''maximum_consecutive_losses'')
       in (Some (PH_DisarmedFailure, current_level, reason), disarm_route fingerprint reason d)
     else if (case first recent of None \<Rightarrow> False | Some v \<Rightarrow> v < 0) then
       let next_level = level_previous current_level in
       (Some (PH_Cooldown, next_level, ''realized_negative_cooldown''),
        cool_route fingerprint next_level (terminal_at + duration_seconds COOLDOWN_SECONDS) d)
     else (None, d))"

definition apply_autonomous_risk_feedback :: "uuid \<Rightarrow> datetime \<Rightarrow> db \<Rightarrow> store_error + db" where
  "apply_autonomous_risk_feedback request_id terminal_at d =
    and_then (ok_or ST_Schema (List.find (\<lambda>r. rw_id r = request_id) (db_requests d))) (\<lambda>row.
    and_then (column (rw_route_fingerprint row)) (\<lambda>fingerprint.
    if fingerprint = AAVE_LIQUIDATION_ROUTE_FINGERPRINT then Inr d
    else
    and_then (read_daily_loss_wei terminal_at d) (\<lambda>global_loss.
    and_then (ok_or ST_Data (try_from_int (int (gc_daily_loss_limit (db_global d))))) (\<lambda>global_limit.
    and_then (ok_or ST_Data (reviewed_route_policy fingerprint)) (\<lambda>(route_limit, consecutive_limit).
    and_then (parse_u128_int (direct_loss terminal_at (route_outcomes fingerprint d))) (\<lambda>route_loss.
    let e = db_economic d in
    and_then (ok_or ST_Data (size_level_try_from (eco_current_size_level e))) (\<lambda>current_level.
    let (transition, d) = route_feedback fingerprint route_loss route_limit consecutive_limit
           (recent_results fingerprint d) current_level terminal_at d;
        (transition, d) = (if global_limit \<le> global_loss
           then (Some (PH_DisarmedFailure, current_level, ''daily_loss_budget''),
                 disarm_daily_loss (eco_control_epoch e) d)
           else (transition, d))
    in case transition of
         None \<Rightarrow> Inr d
       | Some (next_phase, next_level, reason) \<Rightarrow>
           insert_runtime_transition (eco_phase e) (eco_current_size_level e) next_phase
             (size_level_as_str next_level) reason (eco_release_sha e) (eco_control_epoch e + 1)
             terminal_at d)))))))"

definition candidate_terminal_status :: "attempt_status \<Rightarrow> receipt_outcome option \<Rightarrow> store_error + string" where
  "candidate_terminal_status status outcome =
    (case status of
       AS_Confirmed \<Rightarrow> Inr (case outcome of
           Some w \<Rightarrow> if 0 < ro_net_pnl_wei w then ''confirmed_profitable'' else ''confirmed_unprofitable''
         | None \<Rightarrow> ''confirmed_unprofitable'')
     | AS_Reverted \<Rightarrow> Inr ''reverted''
     | AS_Failed \<Rightarrow> Inr ''submission_failed_known''
     | AS_Replaced \<Rightarrow> Inr ''disarmed''
     | AS_TimedOut \<Rightarrow> Inr ''disarmed''
     | _ \<Rightarrow> Inl ST_Invariant)"

definition terminal_from :: "attempt_status \<Rightarrow> bool" where
  "terminal_from s \<longleftrightarrow> s \<in> {AS_Claimed, AS_NonceAllocated, AS_Pending, AS_TimedOut}"

definition outcome_row_of ::
  "crates \<Rightarrow> uuid \<Rightarrow> string \<Rightarrow> attempt_status \<Rightarrow> receipt_outcome \<Rightarrow> datetime \<Rightarrow> datetime option \<Rightarrow> outcome_row" where
  "outcome_row_of cr request_id tx_hash status w terminal_at submitted_at =
    \<lparr>ow_request_id = request_id, ow_tx_hash = tx_hash, ow_outcome_status = status,
     ow_receipt_status = unat (ro_receipt_status w), ow_settled_event_found = ro_settled_event_found w,
     ow_block_number = unat (ro_block_number w), ow_gas_used = unat (ro_gas_used w),
     ow_effective_gas_price = unat (ro_effective_gas_price w),
     ow_actual_fee_wei = unat (ro_actual_fee_wei w),
     ow_asset = canonical_address_to_string cr (st_asset (ro_settlement w)),
     ow_flash_amount = unat (st_flash_amount (ro_settlement w)),
     ow_premium = unat (st_premium (ro_settlement w)),
     ow_realized_profit = unat (st_realized_profit (ro_settlement w)),
     ow_net_pnl_wei = ro_net_pnl_wei w, ow_recorded_at = terminal_at,
     ow_l1_cost_wei = unat (ro_actual_l1_cost_wei w), ow_submitted_at = submitted_at\<rparr>"

definition record_outcome ::
  "crates \<Rightarrow> uuid \<Rightarrow> attempt_status \<Rightarrow> receipt_outcome option \<Rightarrow> datetime \<Rightarrow> attempt_row \<Rightarrow> db \<Rightarrow> store_error + db" where
  "record_outcome cr request_id status receipt_outcome terminal_at row d =
    (case receipt_outcome of
       None \<Rightarrow> Inr d
     | Some w \<Rightarrow>
         and_then (ok_or ST_Invariant (at_tx_hash row)) (\<lambda>tx_hash.
         if 2 ^ 15 \<le> unat (ro_receipt_status w) then Inl ST_Invariant
         else
         and_then (insert_outcome
             (outcome_row_of cr request_id tx_hash status w terminal_at (at_submitted_at row)) d) (\<lambda>d.
         insert_autonomous_outcome request_id tx_hash (at_nonce row) (at_submitted_at row) status w
           terminal_at d)))"

definition terminal_arguments_ok :: "attempt_status \<Rightarrow> receipt_outcome option \<Rightarrow> bool" where
  "terminal_arguments_ok status receipt_outcome \<longleftrightarrow>
     status \<in> {AS_Confirmed, AS_Reverted, AS_Replaced, AS_TimedOut, AS_Failed} \<and>
     (status \<in> {AS_Confirmed, AS_Reverted} \<longleftrightarrow> receipt_outcome \<noteq> None) \<and>
     (case receipt_outcome of None \<Rightarrow> True | Some w \<Rightarrow> outcome_valid status w)"

definition mark_terminal ::
  "crates \<Rightarrow> uuid \<Rightarrow> attempt_status \<Rightarrow> string option \<Rightarrow> receipt_outcome option \<Rightarrow> datetime \<Rightarrow> db
   \<Rightarrow> store_error + db" where
  "mark_terminal cr request_id status error_code receipt_outcome terminal_at d =
    (if \<not> terminal_arguments_ok status receipt_outcome then Inl ST_Invariant
     else
     and_then (ok_or ST_Schema
         (List.find (\<lambda>a. at_request_id a = request_id \<and> terminal_from (at_status a)) (db_attempts d))) (\<lambda>row.
     if status \<noteq> AS_Failed \<and> at_tx_hash row = None then Inl ST_Invariant
     else
     and_then (record_outcome cr request_id status receipt_outcome terminal_at row d) (\<lambda>d.
     and_then (update_attempts (\<lambda>a. at_request_id a = request_id \<and> terminal_from (at_status a))
         (\<lambda>a. a\<lparr>at_status := status, at_error_code := error_code, at_terminal_at := Some terminal_at\<rparr>) d)
       (\<lambda>(affected, d).
     if affected \<noteq> 1 then Inl ST_Invariant
     else
     let (affected, d) = update_requests
         (\<lambda>r. rw_id r = request_id \<and> (case rw_status r of RQ_Attempt s \<Rightarrow> terminal_from s | _ \<Rightarrow> False))
         (\<lambda>r. r\<lparr>rw_status := RQ_Attempt status\<rparr>) d in
     if affected \<noteq> 1 then Inl ST_Invariant
     else
     and_then (candidate_terminal_status status receipt_outcome) (\<lambda>candidate_status.
     and_then (update_candidate_where request_id [''claimed'', ''signed'', ''submitted''] candidate_status d) (\<lambda>d.
     and_then (apply_autonomous_risk_feedback request_id terminal_at d) (\<lambda>d.
     if status \<in> {AS_Confirmed, AS_Reverted, AS_Failed}
     then release_revenue_submission_lock cr request_id d
     else Inr d)))))))"

section \<open>Schema validation and identity drain\<close>

definition validate_schema :: "db \<Rightarrow> bool \<Rightarrow> store_error + unit" where
  "validate_schema d version_installed =
    (if \<not> version_installed then Inl ST_Schema
     else if length (filter (\<lambda>l. ln_lane l \<in> {''phoenix_dex'', ''atlas_solver'', ''aave_liquidation''})
         (db_lanes d)) + 1 \<noteq> 4
     then Inl ST_Schema
     else Inr ())"

record executor_identity_drain =
  dr_fenced_requests :: u64
  dr_fenced_atlas_requests :: u64
  dr_active_attempts :: u64
  dr_unresolved_submissions :: u64
  dr_active_atlas_requests :: u64
  dr_submission_lock_free :: bool

definition lower_text :: "string \<Rightarrow> string" where
  "lower_text s = map to_ascii_lower s"

definition bound_to :: "string \<Rightarrow> request_row \<Rightarrow> bool" where
  "bound_to identity r \<longleftrightarrow> map_option lower_text (rw_executor_address r) = Some identity"

definition atlas_bound_to :: "string \<Rightarrow> atlas_request_row \<Rightarrow> bool" where
  "atlas_bound_to identity r \<longleftrightarrow> lower_text (az_from r) = identity"

definition unresolved_status :: "request_status \<Rightarrow> bool" where
  "unresolved_status s = (case s of RQ_Attempt a \<Rightarrow> is_active a | _ \<Rightarrow> False)"

definition atlas_in_flight :: "string \<Rightarrow> bool" where
  "atlas_in_flight s \<longleftrightarrow> s \<in> {''claimed'', ''signed'', ''submitted'', ''submission_unknown''}"

definition count_u64 :: "nat \<Rightarrow> store_error + u64" where
  "count_u64 n = ok_or ST_Invariant (try_from_int (int n))"

definition drain_executor_identity ::
  "crates \<Rightarrow> string \<Rightarrow> db \<Rightarrow> store_error + executor_identity_drain \<times> db" where
  "drain_executor_identity cr executor_address d =
    and_then (map_err (\<lambda>_. ST_Data) (canonical_address_parse cr executor_address)) (\<lambda>address.
    let identity = canonical_address_to_string cr address in
    if lk_active_lane (db_lock d) \<noteq> None \<or> lk_active_identity (db_lock d) \<noteq> None then Inl ST_Invariant
    else if list_ex (\<lambda>(a, r). bound_to identity r) (active_rows d) then Inl ST_Invariant
    else if list_ex (\<lambda>r. bound_to identity r \<and> unresolved_status (rw_status r)) (db_requests d)
    then Inl ST_Invariant
    else if list_ex (\<lambda>r. atlas_bound_to identity r \<and> atlas_in_flight (az_status r)) (db_atlas_requests d)
    then Inl ST_Invariant
    else
    let fences = (\<lambda>r. bound_to identity r \<and> (rw_status r = RQ_Draft \<or> rw_status r = RQ_Approved));
        fenced = map rw_id (filter fences (db_requests d));
        (_, d) = update_requests fences (\<lambda>r. r\<lparr>rw_status := RQ_Attempt AS_Failed\<rparr>) d;
        (_, d) = update_candidates (\<lambda>c. (case cd_execution_request_id c of
              None \<Rightarrow> False | Some i \<Rightarrow> i \<in> set fenced)
            \<and> cd_status c \<in> {''materialized'', ''approval_pending'', ''approved'', ''request_materialized''})
            ''disarmed'' d;
        (fenced_atlas, atlas) = update_where (\<lambda>r. atlas_bound_to identity r \<and> az_status r = ''ready'')
            (\<lambda>r. r\<lparr>az_status := ''expired''\<rparr>) (db_atlas_requests d);
        d = d\<lparr>db_atlas_requests := atlas\<rparr>
    in
    if list_ex (\<lambda>r. bound_to identity r \<and>
        (rw_status r = RQ_Draft \<or> rw_status r = RQ_Approved \<or> unresolved_status (rw_status r))) (db_requests d)
    then Inl ST_Invariant
    else if list_ex (\<lambda>r. atlas_bound_to identity r \<and>
        (az_status r = ''ready'' \<or> atlas_in_flight (az_status r))) (db_atlas_requests d)
    then Inl ST_Invariant
    else
    and_then (count_u64 (length fenced)) (\<lambda>fenced_requests.
    and_then (count_u64 fenced_atlas) (\<lambda>fenced_atlas_requests.
    Inr (\<lparr>dr_fenced_requests = fenced_requests, dr_fenced_atlas_requests = fenced_atlas_requests,
          dr_active_attempts = 0, dr_unresolved_submissions = 0, dr_active_atlas_requests = 0,
          dr_submission_lock_free = True\<rparr>, d))))"

end
