(* ===== verification/Executor_Engine.thy ===== *)
theory Executor_Engine
  imports Executor_Store_Ops
begin

text \<open>
  The engine of the live executor (\<^verbatim>\<open>live-executor/src/engine.rs\<close>, with the transport types of
  \<^verbatim>\<open>rpc.rs\<close> and the draft of \<^verbatim>\<open>signer.rs\<close>). A step is an action on a world: the store, the number of
  calls made so far and the trace of what the step observed and sent. Every call to the store or to the
  RPC endpoint is a point where other sessions may commit (\<open>ev_between\<close>), the call may fail before or
  after its transaction is committed, and the process may stop. The store is a record of the operations
  of the trait \<^verbatim>\<open>ExecutorStore\<close>; the answers of the RPC endpoint and of the clock are functions of the
  number of the call.
\<close>

section \<open>Errors and states\<close>

datatype rpc_error_kind =
    RK_Transport | RK_Timeout | RK_ResponseTooLarge | RK_MalformedResponse | RK_RemoteFailure
  | RK_NonceConflict | RK_ChainMismatch

record rpc_error =
  re_kind :: rpc_error_kind
  re_remote_code :: "i64 option"

record transaction_receipt =
  tx_transaction_hash :: transaction_hash
  tx_contract_address :: "canonical_address option"
  tx_status :: u64
  tx_block_number :: u64
  tx_gas_used :: u64
  tx_l1_gas_used :: u64
  tx_l1_fee :: u128
  tx_effective_gas_price :: u128
  tx_logs :: "rpc_log list"

record transaction_draft =
  td_chain_id :: u64
  td_nonce :: u64
  td_gas_limit :: u64
  td_max_fee_per_gas :: u128
  td_max_priority_fee_per_gas :: u128
  td_to :: canonical_address
  td_calldata :: "u8 list"

datatype signer_error = SG_InvalidPrivateKey | SG_WrongChain | SG_Signing

text \<open>The signer; signing and encoding an EIP-1559 transaction is done by the alloy crates, which give
  the hash and the raw bytes.\<close>

record transaction_signer =
  sg_chain_id :: u64
  sg_sign_encode :: "transaction_draft \<Rightarrow> (transaction_hash \<times> u8 list) option"

definition sign :: "transaction_signer \<Rightarrow> transaction_draft \<Rightarrow> signer_error + transaction_hash \<times> u8 list" where
  "sign signer draft =
    (if td_chain_id draft \<noteq> sg_chain_id signer then Inl SG_WrongChain
     else ok_or SG_Signing (sg_sign_encode signer draft))"

fun rpc_error_code :: "rpc_error_kind \<Rightarrow> string" where
  "rpc_error_code RK_NonceConflict = ''nonce_conflict''"
| "rpc_error_code RK_ChainMismatch = ''rpc_chain_mismatch''"
| "rpc_error_code RK_Timeout = ''rpc_timeout''"
| "rpc_error_code RK_Transport = ''rpc_transport_failure''"
| "rpc_error_code RK_ResponseTooLarge = ''rpc_response_too_large''"
| "rpc_error_code RK_MalformedResponse = ''rpc_malformed_response''"
| "rpc_error_code RK_RemoteFailure = ''rpc_remote_failure''"

datatype disarm_reason =
    DR_RpcFailure | DR_NonceConflict | DR_ChainMismatch | DR_Policy | DR_SubmissionIntegrity
  | DR_Settlement | DR_DailyLossBudget

datatype execution_state =
    ES_DisarmedShadow
  | ES_ArmedIdle
  | ES_Pending uuid transaction_hash
  | ES_SubmissionUnknown uuid u64
  | ES_Confirmed uuid transaction_hash i128
  | ES_ConfirmedAndDisarmed uuid transaction_hash i128
  | ES_Reverted uuid transaction_hash
  | ES_Replaced uuid transaction_hash
  | ES_TimedOut uuid transaction_hash
  | ES_Disarmed disarm_reason

datatype policy_error =
    PE_Route | PE_Approval | PE_ApprovalPolicy | PE_Boundary | PE_ExecutorIdentity | PE_Calldata
  | PE_ProfitAsset | PE_InputCap | PE_GasCap | PE_ProfitFloor | PE_LossCap | PE_Concurrency

fun policy_error_code :: "policy_error \<Rightarrow> string" where
  "policy_error_code PE_Route = ''route_contract_mismatch''"
| "policy_error_code PE_Approval = ''approval_digest_mismatch''"
| "policy_error_code PE_ApprovalPolicy = ''approval_policy_mismatch''"
| "policy_error_code PE_Boundary = ''request_boundary_invalid''"
| "policy_error_code PE_ExecutorIdentity = ''executor_identity_mismatch''"
| "policy_error_code PE_Calldata = ''calldata_hash_mismatch''"
| "policy_error_code PE_ProfitAsset = ''profit_asset_invalid''"
| "policy_error_code PE_InputCap = ''input_cap_exceeded''"
| "policy_error_code PE_GasCap = ''gas_cap_exceeded''"
| "policy_error_code PE_ProfitFloor = ''profit_floor_not_met''"
| "policy_error_code PE_LossCap = ''daily_loss_bound_exceeded''"
| "policy_error_code PE_Concurrency = ''concurrent_canary_forbidden''"

datatype engine_error =
    EE_Store store_error
  | EE_HashPersistence store_error
  | EE_Abi abi_error
  | EE_Signer signer_error
  | EE_ActiveAttemptInvariant
  | EE_Arithmetic
  | EE_Time

section \<open>Checks of a request and of a receipt\<close>

definition execution_deadline_is_fresh :: "datetime \<Rightarrow> datetime \<Rightarrow> i64 \<Rightarrow> bool" where
  "execution_deadline_is_fresh deadline now inclusion_margin_seconds \<longleftrightarrow>
     now + duration_seconds inclusion_margin_seconds < deadline"

definition submission_deadlines_are_fresh :: "execution_request \<Rightarrow> datetime \<Rightarrow> bool" where
  "submission_deadlines_are_fresh request now \<longleftrightarrow>
     (let inclusion_margin_seconds = (if er_aave_liquidation request \<noteq> None then 15 else 0) in
      er_approved_at request \<le> now \<and> now < er_approval_deadline request \<and>
      execution_deadline_is_fresh (er_deadline request) now inclusion_margin_seconds)"

text \<open>A zero price would divide by zero here; no validated request has one.\<close>

definition canonical_realized_profit_wei ::
  "aave_liquidation_route option \<Rightarrow> u128 \<Rightarrow> engine_error + u128" where
  "canonical_realized_profit_wei route realized_profit_raw =
    (case route of
       None \<Rightarrow> Inr realized_profit_raw
     | Some route \<Rightarrow> map_err (\<lambda>_. EE_Arithmetic) (debt_to_weth_floor route realized_profit_raw))"

definition worst_case_fee :: "execution_request \<Rightarrow> u128 option" where
  "worst_case_fee request = checked_mul (ucast (er_gas_limit request)) (er_max_fee_per_gas request)"

definition route_caps :: "execution_request \<Rightarrow> executor_config \<Rightarrow> policy_error + unit" where
  "route_caps request config =
    (let limits = cf_limits config in
     case er_aave_liquidation request of
       Some route \<Rightarrow>
         if lim_maximum_input_amount limits < al_maximum_input_weth_wei route then Inl PE_InputCap
         else
         and_then (map_err (\<lambda>_. PE_InputCap) (weth_to_debt_floor route (al_maximum_input_weth_wei route))) (\<lambda>cap.
         if er_maximum_input_amount request \<noteq> cap then Inl PE_InputCap
         else if al_minimum_profit_weth_wei route < lim_minimum_expected_profit limits then Inl PE_ProfitFloor
         else
         and_then (map_err (\<lambda>_. PE_ProfitFloor) (weth_to_debt_ceil route (al_minimum_profit_weth_wei route))) (\<lambda>profit_floor.
         if er_minimum_profit request \<noteq> profit_floor
            \<or> er_expected_profit request < al_minimum_profit_weth_wei route
         then Inl PE_ProfitFloor else Inr ()))
     | None \<Rightarrow>
         if er_flash_asset request \<noteq> cf_pnl_asset_address config then Inl PE_ProfitAsset
         else if lim_maximum_input_amount limits < er_maximum_input_amount request then Inl PE_InputCap
         else if er_minimum_profit request < lim_minimum_expected_profit limits
            \<or> er_expected_profit request < lim_minimum_expected_profit limits
            \<or> er_expected_profit request < er_minimum_profit request
         then Inl PE_ProfitFloor else Inr ())"

definition request_bounds :: "execution_request \<Rightarrow> executor_config \<Rightarrow> datetime \<Rightarrow> policy_error + unit" where
  "request_bounds request config now =
    (let limits = cf_limits config in
     if er_policy_version request \<noteq> APPROVAL_POLICY_VERSION then Inl PE_ApprovalPolicy
     else if er_chain_id request \<noteq> cf_chain_id config
       \<or> now < er_approved_at request
       \<or> er_approval_deadline request \<le> now
       \<or> er_deadline request < er_approval_deadline request
       \<or> er_deadline request \<le> now
     then Inl PE_Boundary
     else if er_executor_address request \<noteq> cf_executor_address config
       \<or> er_executor_code_hash request \<noteq> cf_executor_code_hash config
     then Inl PE_ExecutorIdentity
     else if er_maximum_input_amount request < er_flash_amount request then Inl PE_InputCap
     else if lim_maximum_gas_limit limits < er_gas_limit request
       \<or> lim_maximum_max_fee_per_gas limits < er_max_fee_per_gas request
       \<or> lim_maximum_priority_fee_per_gas limits < er_max_priority_fee_per_gas request
       \<or> er_max_fee_per_gas request < er_max_priority_fee_per_gas request
     then Inl PE_GasCap
     else Inr ())"

text \<open>The liquidation request reads the system clock twice: once when it is built from the execution
  request and once when it is encoded.\<close>

definition route_calldata ::
  "crates \<Rightarrow> datetime \<Rightarrow> datetime \<Rightarrow> execution_request \<Rightarrow> policy_error + u8 list" where
  "route_calldata cr utc_now utc_later request =
    (case er_route_type request of
       PhoenixDexV1 \<Rightarrow>
         map_err (\<lambda>_. PE_Calldata) (encode_execute_opportunity cr request (er_executor_address request))
     | AaveLiquidationV1 \<Rightarrow>
         map_err (\<lambda>_. PE_Calldata)
           (and_then (from_execution utc_now request) (\<lambda>route. encode_direct_call cr utc_later route)))"

definition validate_and_encode ::
  "crates \<Rightarrow> datetime \<Rightarrow> datetime \<Rightarrow> execution_request \<Rightarrow> executor_config \<Rightarrow> datetime \<Rightarrow> policy_error + u8 list" where
  "validate_and_encode cr utc_now utc_later request config now =
    and_then (map_err (\<lambda>_. PE_Route) (validate_current_route cr request)) (\<lambda>_.
    and_then (map_err (\<lambda>_. PE_Approval) (canonical_approval_digest cr request)) (\<lambda>digest.
    if digest \<noteq> er_approval_digest request then Inl PE_Approval
    else
    and_then (request_bounds request config now) (\<lambda>_.
    and_then (route_caps request config) (\<lambda>_.
    and_then (ok_or PE_LossCap (worst_case_fee request)) (\<lambda>fee.
    if lim_maximum_daily_loss_wei (cf_limits config) < fee then Inl PE_LossCap
    else if \<not> cf_one_transaction_at_a_time config then Inl PE_Concurrency
    else
    and_then (route_calldata cr utc_now utc_later request) (\<lambda>calldata.
    if cr_hex_encode cr (cr_sha256 cr calldata) \<noteq> er_calldata_hash request then Inl PE_Calldata
    else Inr calldata))))))"

text \<open>The identity of a liquidation exists unless its deadline is before 1970; the validation of the
  liquidation has compared the deadline with the clock before.\<close>

definition decode_route_settlement ::
  "crates \<Rightarrow> datetime \<Rightarrow> execution_request \<Rightarrow> canonical_address \<Rightarrow> rpc_log list \<Rightarrow> abi_error + settlement" where
  "decode_route_settlement cr utc_now request executor_address logs =
    (case er_route_type request of
       PhoenixDexV1 \<Rightarrow> decode_settlement cr request executor_address logs
     | AaveLiquidationV1 \<Rightarrow>
         and_then (map_err (\<lambda>_. AB_InvalidSettlement) (from_execution utc_now request)) (\<lambda>route.
         and_then (ok_or AB_InvalidSettlement (liquidation_identity route)) (\<lambda>identity.
         and_then (map_err (\<lambda>_. AB_InvalidSettlement)
             (liquidation_decode_settlement cr identity executor_address logs)) (\<lambda>settlement.
         Inr \<lparr>st_asset = as_debt_asset settlement, st_flash_amount = as_repay_amount settlement,
              st_premium = as_premium settlement, st_realized_profit = as_realized_profit settlement\<rparr>))))"

section \<open>Actions\<close>

datatype 'a outcome = Returned 'a | Raised engine_error | Halted

datatype event =
    EV_Control control_state
  | EV_Loss u128
  | EV_Block "u64 \<times> string"
  | EV_Clock datetime
  | EV_Send execution_request transaction_draft

record 's world =
  wd_store :: 's
  wd_calls :: nat
  wd_trace :: "event list"

type_synonym ('s, 'a) action = "'s world \<Rightarrow> 'a outcome \<times> 's world"

text \<open>What may happen to a call: nothing, its transaction is rolled back, its transaction is committed
  but the answer is lost, or the process stops before it.\<close>

datatype fault = NoFault | RolledBack store_error | Unacknowledged store_error | Stops

record 's env =
  ev_between :: "nat \<Rightarrow> 's \<Rightarrow> 's"
  ev_fault :: "nat \<Rightarrow> fault"
  ev_clock :: "nat \<Rightarrow> datetime"
  ev_chain_id :: "nat \<Rightarrow> rpc_error + u64"
  ev_finalized_block_identity :: "nat \<Rightarrow> rpc_error + u64 \<times> string"
  ev_execution_contract_ready :: "nat \<Rightarrow> execution_request \<Rightarrow> canonical_address \<Rightarrow> string \<Rightarrow> rpc_error + bool"
  ev_pending_nonce :: "nat \<Rightarrow> canonical_address \<Rightarrow> rpc_error + u64"
  ev_send_raw_transaction :: "nat \<Rightarrow> u8 list \<Rightarrow> rpc_error + transaction_hash"
  ev_transaction_receipt :: "nat \<Rightarrow> transaction_hash \<Rightarrow> rpc_error + transaction_receipt option"
  ev_transaction_known :: "nat \<Rightarrow> transaction_hash \<Rightarrow> rpc_error + bool"

definition return :: "'a \<Rightarrow> ('s, 'a) action" where
  "return a w = (Returned a, w)"

definition raise :: "engine_error \<Rightarrow> ('s, 'a) action" where
  "raise e w = (Raised e, w)"

definition bind :: "('s, 'a) action \<Rightarrow> ('a \<Rightarrow> ('s, 'b) action) \<Rightarrow> ('s, 'b) action" where
  "bind m f w =
    (case m w of
       (Returned a, w) \<Rightarrow> f a w
     | (Raised e, w) \<Rightarrow> (Raised e, w)
     | (Halted, w) \<Rightarrow> (Halted, w))"

definition of_result :: "engine_error + 'a \<Rightarrow> ('s, 'a) action" where
  "of_result r = (case r of Inl e \<Rightarrow> raise e | Inr a \<Rightarrow> return a)"

definition emit :: "event \<Rightarrow> ('s, unit) action" where
  "emit e w = (Returned (), w\<lparr>wd_trace := wd_trace w @ [e]\<rparr>)"

definition attempt_call ::
  "'s env \<Rightarrow> ('s \<Rightarrow> store_error + 'a \<times> 's) \<Rightarrow> ('s, store_error + 'a) action" where
  "attempt_call env call w =
    (let n = wd_calls w; s = ev_between env n (wd_store w); w = w\<lparr>wd_store := s, wd_calls := Suc n\<rparr> in
     case ev_fault env n of
       Stops \<Rightarrow> (Halted, w)
     | RolledBack e \<Rightarrow> (Returned (Inl e), w)
     | NoFault \<Rightarrow>
         (case call s of
            Inl e \<Rightarrow> (Returned (Inl e), w)
          | Inr (a, s) \<Rightarrow> (Returned (Inr a), w\<lparr>wd_store := s\<rparr>))
     | Unacknowledged e \<Rightarrow>
         (case call s of
            Inl e' \<Rightarrow> (Returned (Inl e'), w)
          | Inr (a, s) \<Rightarrow> (Returned (Inl e), w\<lparr>wd_store := s\<rparr>)))"

definition store_call :: "'s env \<Rightarrow> ('s \<Rightarrow> store_error + 'a \<times> 's) \<Rightarrow> ('s, 'a) action" where
  "store_call env call = bind (attempt_call env call) (\<lambda>r. of_result (map_err EE_Store r))"

definition reading :: "('s \<Rightarrow> store_error + 'a) \<Rightarrow> 's \<Rightarrow> store_error + 'a \<times> 's" where
  "reading f s = map_ok (\<lambda>a. (a, s)) (f s)"

definition writing :: "('s \<Rightarrow> store_error + 's) \<Rightarrow> 's \<Rightarrow> store_error + unit \<times> 's" where
  "writing f s = map_ok (\<lambda>s. ((), s)) (f s)"

text \<open>A call of the endpoint or of the clock: the number of the call, unless the process stops.\<close>

definition external_call :: "'s env \<Rightarrow> ('s, nat) action" where
  "external_call env w =
    (let n = wd_calls w; w = w\<lparr>wd_calls := Suc n\<rparr> in
     if ev_fault env n = Stops then (Halted, w) else (Returned n, w))"

section \<open>The store and the executor\<close>

text \<open>The operations of the trait \<^verbatim>\<open>ExecutorStore\<close>. The first argument of \<open>so_disarm\<close> is the system
  clock, which the Postgres store reads itself.\<close>

record 's executor_store =
  so_active_attempt :: "'s \<Rightarrow> store_error + active_attempt option"
  so_control_state :: "'s \<Rightarrow> store_error + control_state"
  so_claim_approved :: "executor_config \<Rightarrow> datetime \<Rightarrow> 's \<Rightarrow> store_error + execution_request option \<times> 's"
  so_allocate_nonce :: "uuid \<Rightarrow> executor_config \<Rightarrow> u64 \<Rightarrow> 's \<Rightarrow> store_error + u64 \<times> 's"
  so_mark_signed :: "uuid \<Rightarrow> datetime \<Rightarrow> 's \<Rightarrow> store_error + 's"
  so_mark_submission_unknown :: "uuid \<Rightarrow> string \<Rightarrow> datetime \<Rightarrow> 's \<Rightarrow> store_error + 's"
  so_fail_unsubmitted :: "uuid \<Rightarrow> string \<Rightarrow> datetime \<Rightarrow> 's \<Rightarrow> store_error + 's"
  so_mark_pending :: "uuid \<Rightarrow> transaction_hash \<Rightarrow> datetime \<Rightarrow> 's \<Rightarrow> store_error + 's"
  so_mark_terminal ::
    "uuid \<Rightarrow> attempt_status \<Rightarrow> string option \<Rightarrow> receipt_outcome option \<Rightarrow> datetime \<Rightarrow> 's \<Rightarrow> store_error + 's"
  so_record_monitor_error :: "uuid \<Rightarrow> string \<Rightarrow> 's \<Rightarrow> store_error + 's"
  so_daily_loss_wei :: "datetime \<Rightarrow> 's \<Rightarrow> store_error + u128"
  so_disarm :: "datetime \<Rightarrow> string \<Rightarrow> 's \<Rightarrow> store_error + 's"

definition postgres_store :: "crates \<Rightarrow> db executor_store" where
  "postgres_store cr =
    \<lparr>so_active_attempt = read_active_attempt cr,
     so_control_state = read_control_state,
     so_claim_approved = claim_approved cr,
     so_allocate_nonce = allocate_nonce cr,
     so_mark_signed = mark_signed,
     so_mark_submission_unknown = mark_submission_unknown,
     so_fail_unsubmitted = fail_unsubmitted cr,
     so_mark_pending = mark_pending cr,
     so_mark_terminal = mark_terminal cr,
     so_record_monitor_error = record_monitor_error,
     so_daily_loss_wei = read_daily_loss_wei,
     so_disarm = disarm\<rparr>"

record 's live_executor =
  le_config :: executor_config
  le_signer :: transaction_signer
  le_store :: "'s executor_store"
  le_crates :: crates

text \<open>The calls the engine makes, with the events of those the trace records. The time of a disarm is
  the reading of the clock at its call.\<close>

definition read_control :: "'s live_executor \<Rightarrow> 's env \<Rightarrow> ('s, control_state) action" where
  "read_control x env =
    bind (store_call env (reading (so_control_state (le_store x)))) (\<lambda>control.
    bind (emit (EV_Control control)) (\<lambda>_. return control))"

definition read_loss :: "'s live_executor \<Rightarrow> 's env \<Rightarrow> datetime \<Rightarrow> ('s, u128) action" where
  "read_loss x env now =
    bind (store_call env (reading (so_daily_loss_wei (le_store x) now))) (\<lambda>loss.
    bind (emit (EV_Loss loss)) (\<lambda>_. return loss))"

definition read_clock :: "'s env \<Rightarrow> ('s, datetime) action" where
  "read_clock env =
    bind (external_call env) (\<lambda>n.
    bind (emit (EV_Clock (ev_clock env n))) (\<lambda>_. return (ev_clock env n)))"

definition disarm_call :: "'s live_executor \<Rightarrow> 's env \<Rightarrow> string \<Rightarrow> ('s, unit) action" where
  "disarm_call x env reason =
    bind (external_call env) (\<lambda>n.
    store_call env (writing (so_disarm (le_store x) (ev_clock env n) reason)))"

definition terminal_call ::
  "'s live_executor \<Rightarrow> 's env \<Rightarrow> uuid \<Rightarrow> attempt_status \<Rightarrow> string option \<Rightarrow> receipt_outcome option \<Rightarrow> datetime
   \<Rightarrow> ('s, unit) action" where
  "terminal_call x env request_id status error_code outcome now =
    store_call env (writing (so_mark_terminal (le_store x) request_id status error_code outcome now))"

definition fail_unsubmitted_call ::
  "'s live_executor \<Rightarrow> 's env \<Rightarrow> uuid \<Rightarrow> string \<Rightarrow> datetime \<Rightarrow> ('s, unit) action" where
  "fail_unsubmitted_call x env request_id error_code now =
    store_call env (writing (so_fail_unsubmitted (le_store x) request_id error_code now))"

definition unknown_call ::
  "'s live_executor \<Rightarrow> 's env \<Rightarrow> uuid \<Rightarrow> string \<Rightarrow> datetime \<Rightarrow> ('s, unit) action" where
  "unknown_call x env request_id error_code now =
    store_call env (writing (so_mark_submission_unknown (le_store x) request_id error_code now))"

definition monitor_call :: "'s live_executor \<Rightarrow> 's env \<Rightarrow> uuid \<Rightarrow> string \<Rightarrow> ('s, unit) action" where
  "monitor_call x env request_id error_code =
    store_call env (writing (so_record_monitor_error (le_store x) request_id error_code))"

definition send_call ::
  "'s env \<Rightarrow> execution_request \<Rightarrow> transaction_draft \<Rightarrow> u8 list \<Rightarrow> ('s, rpc_error + transaction_hash) action" where
  "send_call env request draft raw =
    bind (external_call env) (\<lambda>n.
    bind (emit (EV_Send request draft)) (\<lambda>_. return (ev_send_raw_transaction env n raw)))"

definition pinned_block_is_current :: "'s env \<Rightarrow> execution_request \<Rightarrow> ('s, rpc_error + bool) action" where
  "pinned_block_is_current env request =
    bind (external_call env) (\<lambda>n.
    case ev_finalized_block_identity env n of
      Inl e \<Rightarrow> return (Inl e)
    | Inr (number, hash) \<Rightarrow>
        bind (emit (EV_Block (number, hash))) (\<lambda>_.
        return (Inr (number = er_pinned_block_number request \<and> hash = er_pinned_block_hash request))))"

definition unwrap_or :: "'a \<Rightarrow> 'e + 'a \<Rightarrow> 'a" where
  "unwrap_or d r = (case r of Inl _ \<Rightarrow> d | Inr a \<Rightarrow> a)"

section \<open>Error exits\<close>

definition disarm_for_rpc_error ::
  "'s live_executor \<Rightarrow> 's env \<Rightarrow> rpc_error \<Rightarrow> uuid option \<Rightarrow> datetime \<Rightarrow> ('s, execution_state) action" where
  "disarm_for_rpc_error x env error request_id now =
    (let code = rpc_error_code (re_kind error) in
     bind (case request_id of
         None \<Rightarrow> return ()
       | Some request_id \<Rightarrow> terminal_call x env request_id AS_Failed (Some code) None now) (\<lambda>_.
     bind (disarm_call x env code) (\<lambda>_.
     return (ES_Disarmed (if re_kind error = RK_NonceConflict then DR_NonceConflict else DR_RpcFailure)))))"

definition disarm_for_submission_error ::
  "'s live_executor \<Rightarrow> 's env \<Rightarrow> rpc_error \<Rightarrow> uuid \<Rightarrow> u64 \<Rightarrow> datetime \<Rightarrow> ('s, execution_state) action" where
  "disarm_for_submission_error x env error request_id nonce now =
    (let code = rpc_error_code (re_kind error) in
     bind (unknown_call x env request_id code now) (\<lambda>_.
     bind (disarm_call x env code) (\<lambda>_.
     return (ES_SubmissionUnknown request_id nonce))))"

definition refuse_receipt ::
  "'s live_executor \<Rightarrow> 's env \<Rightarrow> uuid \<Rightarrow> string \<Rightarrow> disarm_reason \<Rightarrow> ('s, execution_state) action" where
  "refuse_receipt x env request_id code reason =
    bind (monitor_call x env request_id code) (\<lambda>_.
    bind (disarm_call x env code) (\<lambda>_.
    return (ES_Disarmed reason)))"

section \<open>Settlement of a receipt\<close>

definition reverted_outcome ::
  "execution_request \<Rightarrow> transaction_receipt \<Rightarrow> u128 \<Rightarrow> i128 \<Rightarrow> receipt_outcome" where
  "reverted_outcome request receipt actual_fee_wei net_pnl_wei =
    \<lparr>ro_receipt_status = 0, ro_settled_event_found = False, ro_block_number = tx_block_number receipt,
     ro_gas_used = tx_gas_used receipt, ro_effective_gas_price = tx_effective_gas_price receipt,
     ro_actual_fee_wei = actual_fee_wei, ro_actual_l1_cost_wei = tx_l1_fee receipt,
     ro_settlement = \<lparr>st_asset = er_flash_asset request, st_flash_amount = er_flash_amount request,
       st_premium = 0, st_realized_profit = 0\<rparr>,
     ro_canonical_realized_profit_wei = 0, ro_net_pnl_wei = net_pnl_wei\<rparr>"

definition confirmed_outcome ::
  "transaction_receipt \<Rightarrow> u128 \<Rightarrow> settlement \<Rightarrow> u128 \<Rightarrow> i128 \<Rightarrow> receipt_outcome" where
  "confirmed_outcome receipt actual_fee_wei settlement canonical net_pnl_wei =
    \<lparr>ro_receipt_status = 1, ro_settled_event_found = True, ro_block_number = tx_block_number receipt,
     ro_gas_used = tx_gas_used receipt, ro_effective_gas_price = tx_effective_gas_price receipt,
     ro_actual_fee_wei = actual_fee_wei, ro_actual_l1_cost_wei = tx_l1_fee receipt,
     ro_settlement = settlement, ro_canonical_realized_profit_wei = canonical,
     ro_net_pnl_wei = net_pnl_wei\<rparr>"

definition receipt_economics_valid :: "execution_request \<Rightarrow> transaction_receipt \<Rightarrow> bool" where
  "receipt_economics_valid request receipt \<longleftrightarrow>
     tx_block_number receipt \<noteq> 0 \<and> tx_gas_used receipt \<noteq> 0 \<and>
     tx_gas_used receipt \<le> er_gas_limit request \<and>
     tx_effective_gas_price receipt \<noteq> 0 \<and>
     tx_effective_gas_price receipt \<le> er_max_fee_per_gas request"

definition arithmetic :: "'a option \<Rightarrow> ('s, 'a) action" where
  "arithmetic v = of_result (ok_or EE_Arithmetic v)"

definition confirm_receipt ::
  "'s live_executor \<Rightarrow> 's env \<Rightarrow> execution_request \<Rightarrow> transaction_hash \<Rightarrow> transaction_receipt \<Rightarrow> u128 \<Rightarrow> i128
   \<Rightarrow> settlement \<Rightarrow> datetime \<Rightarrow> ('s, execution_state) action" where
  "confirm_receipt x env request tx_hash receipt actual_fee_wei fee settlement now =
    bind (of_result (canonical_realized_profit_wei (er_aave_liquidation request)
        (st_realized_profit settlement))) (\<lambda>canonical.
    bind (arithmetic (to_i128 canonical)) (\<lambda>realized_profit.
    bind (arithmetic (checked_signed 128 (realized_profit - fee))) (\<lambda>net_pnl_wei.
    bind (terminal_call x env (er_id request) AS_Confirmed None
        (Some (confirmed_outcome receipt actual_fee_wei settlement canonical net_pnl_wei)) now) (\<lambda>_.
    bind (read_loss x env now) (\<lambda>daily_loss.
    if lim_maximum_daily_loss_wei (cf_limits (le_config x)) \<le> daily_loss then
      bind (disarm_call x env ''daily_loss_budget'') (\<lambda>_.
      return (ES_ConfirmedAndDisarmed (er_id request) tx_hash net_pnl_wei))
    else return (ES_Confirmed (er_id request) tx_hash net_pnl_wei))))))"

definition complete_receipt ::
  "'s live_executor \<Rightarrow> 's env \<Rightarrow> execution_request \<Rightarrow> transaction_hash \<Rightarrow> transaction_receipt \<Rightarrow> datetime
   \<Rightarrow> ('s, execution_state) action" where
  "complete_receipt x env request tx_hash receipt now =
    (if tx_transaction_hash receipt \<noteq> tx_hash
     then refuse_receipt x env (er_id request) ''receipt_hash_mismatch'' DR_SubmissionIntegrity
     else if \<not> receipt_economics_valid request receipt
     then refuse_receipt x env (er_id request) ''receipt_economics_invalid'' DR_Settlement
     else
     bind (arithmetic (checked_mul (ucast (tx_gas_used receipt)) (tx_effective_gas_price receipt)))
       (\<lambda>actual_fee_wei.
     if actual_fee_wei < tx_l1_fee receipt
     then refuse_receipt x env (er_id request) ''receipt_l1_economics_invalid'' DR_Settlement
     else
     bind (arithmetic (to_i128 actual_fee_wei)) (\<lambda>fee.
     if tx_status receipt = 0 then
       bind (arithmetic (checked_signed 128 (- fee))) (\<lambda>net_pnl_wei.
       bind (terminal_call x env (er_id request) AS_Reverted (Some ''transaction_reverted'')
           (Some (reverted_outcome request receipt actual_fee_wei net_pnl_wei)) now) (\<lambda>_.
       return (ES_Reverted (er_id request) tx_hash)))
     else if tx_status receipt \<noteq> 1
     then refuse_receipt x env (er_id request) ''receipt_status_invalid'' DR_Settlement
     else
     bind (external_call env) (\<lambda>n.
     case decode_route_settlement (le_crates x) (ev_clock env n) request
         (cf_executor_address (le_config x)) (tx_logs receipt) of
       Inl _ \<Rightarrow> refuse_receipt x env (er_id request) ''settlement_evidence_invalid'' DR_Settlement
     | Inr settlement \<Rightarrow>
         confirm_receipt x env request tx_hash receipt actual_fee_wei fee settlement now))))"

section \<open>Reconciliation of an active attempt\<close>

definition MAX_MILLISECONDS :: int where "MAX_MILLISECONDS = 2 ^ 63 - 1"

definition from_std :: "int \<Rightarrow> engine_error + int" where
  "from_std t = (if t \<le> MAX_MILLISECONDS * 1000000 then Inr t else Inl EE_Time)"

definition monitor_failure ::
  "'s live_executor \<Rightarrow> 's env \<Rightarrow> uuid \<Rightarrow> rpc_error \<Rightarrow> datetime \<Rightarrow> ('s, execution_state) action" where
  "monitor_failure x env request_id error now =
    bind (monitor_call x env request_id (rpc_error_code (re_kind error))) (\<lambda>_.
    disarm_for_rpc_error x env error None now)"

definition await_receipt ::
  "'s live_executor \<Rightarrow> 's env \<Rightarrow> active_attempt \<Rightarrow> transaction_hash \<Rightarrow> datetime \<Rightarrow> datetime
   \<Rightarrow> ('s, execution_state) action" where
  "await_receipt x env active tx_hash submitted_at now =
    (let request_id = er_id (av_request active) in
     bind (of_result (from_std (cf_receipt_timeout (le_config x)))) (\<lambda>timeout.
     if timeout \<le> now - submitted_at then
       bind (if av_status active \<noteq> AS_TimedOut then
               bind (terminal_call x env request_id AS_TimedOut (Some ''receipt_timeout'') None now) (\<lambda>_.
               disarm_call x env ''receipt_timeout'')
             else return ()) (\<lambda>_.
       return (ES_TimedOut request_id tx_hash))
     else return (ES_Pending request_id tx_hash)))"

definition monitor_pending ::
  "'s live_executor \<Rightarrow> 's env \<Rightarrow> active_attempt \<Rightarrow> transaction_hash \<Rightarrow> u64 \<Rightarrow> datetime \<Rightarrow> datetime
   \<Rightarrow> ('s, execution_state) action" where
  "monitor_pending x env active tx_hash nonce submitted_at now =
    (let request_id = er_id (av_request active) in
     bind (external_call env) (\<lambda>n.
     case ev_transaction_receipt env n tx_hash of
       Inl error \<Rightarrow> monitor_failure x env request_id error now
     | Inr (Some receipt) \<Rightarrow> complete_receipt x env (av_request active) tx_hash receipt now
     | Inr None \<Rightarrow>
     bind (external_call env) (\<lambda>n.
     case ev_transaction_known env n tx_hash of
       Inl error \<Rightarrow> monitor_failure x env request_id error now
     | Inr True \<Rightarrow> await_receipt x env active tx_hash submitted_at now
     | Inr False \<Rightarrow>
     bind (external_call env) (\<lambda>n.
     case ev_pending_nonce env n (cf_wallet_address (le_config x)) of
       Inl error \<Rightarrow> monitor_failure x env request_id error now
     | Inr pending_nonce \<Rightarrow>
         if nonce < pending_nonce then
           bind (terminal_call x env request_id AS_Replaced (Some ''transaction_replaced'') None now) (\<lambda>_.
           bind (disarm_call x env ''transaction_replaced'') (\<lambda>_.
           return (ES_Replaced request_id tx_hash)))
         else await_receipt x env active tx_hash submitted_at now))))"

definition present :: "'a option \<Rightarrow> ('s, 'a) action" where
  "present v = of_result (ok_or EE_ActiveAttemptInvariant v)"

definition reconcile_active ::
  "'s live_executor \<Rightarrow> 's env \<Rightarrow> active_attempt \<Rightarrow> datetime \<Rightarrow> ('s, execution_state) action" where
  "reconcile_active x env active now =
    (let request_id = er_id (av_request active);
         monitor = bind (present (av_tx_hash active)) (\<lambda>tx_hash.
           bind (present (av_nonce active)) (\<lambda>nonce.
           bind (present (av_submitted_at active)) (\<lambda>submitted_at.
           monitor_pending x env active tx_hash nonce submitted_at now)))
     in case av_status active of
       AS_Claimed \<Rightarrow>
         bind (terminal_call x env request_id AS_Failed (Some ''restart_before_nonce_allocation'') None now) (\<lambda>_.
         bind (disarm_call x env ''restart_before_nonce_allocation'') (\<lambda>_.
         return (ES_Disarmed DR_SubmissionIntegrity)))
     | AS_NonceAllocated \<Rightarrow>
         bind (present (av_nonce active)) (\<lambda>nonce.
         bind (unknown_call x env request_id ''restart_after_nonce_allocation'' now) (\<lambda>_.
         bind (disarm_call x env ''submission_unknown'') (\<lambda>_.
         return (ES_SubmissionUnknown request_id nonce))))
     | AS_SubmissionUnknown \<Rightarrow>
         bind (present (av_nonce active)) (\<lambda>nonce.
         bind (disarm_call x env ''submission_unknown'') (\<lambda>_.
         return (ES_SubmissionUnknown request_id nonce)))
     | AS_Pending \<Rightarrow> monitor
     | AS_TimedOut \<Rightarrow> monitor
     | _ \<Rightarrow> raise EE_ActiveAttemptInvariant)"

section \<open>Submission of a claimed request\<close>

text \<open>From the broadcast on: the transaction has left the process, so every failure is recorded as an
  unknown submission. The results of the two calls after a failed \<open>mark_pending\<close> are ignored.\<close>

definition ignoring :: "('s, 'a) action \<Rightarrow> ('s, unit) action" where
  "ignoring m w = (case m w of (Halted, w) \<Rightarrow> (Halted, w) | (_, w) \<Rightarrow> (Returned (), w))"

definition broadcast ::
  "'s live_executor \<Rightarrow> 's env \<Rightarrow> execution_request \<Rightarrow> transaction_draft \<Rightarrow> transaction_hash \<times> u8 list \<Rightarrow> datetime
   \<Rightarrow> ('s, execution_state) action" where
  "broadcast x env request draft signed_tx now =
    (let request_id = er_id request; nonce = td_nonce draft in
     bind (send_call env request draft (snd signed_tx)) (\<lambda>r.
     case r of
       Inl error \<Rightarrow> disarm_for_submission_error x env error request_id nonce now
     | Inr returned_hash \<Rightarrow>
         if returned_hash \<noteq> fst signed_tx then
           bind (unknown_call x env request_id ''submission_hash_mismatch'' now) (\<lambda>_.
           bind (disarm_call x env ''submission_hash_mismatch'') (\<lambda>_.
           return (ES_SubmissionUnknown request_id nonce)))
         else
           bind (attempt_call env (writing (so_mark_pending (le_store x) request_id returned_hash now))) (\<lambda>r.
           case r of
             Inl error \<Rightarrow>
               bind (ignoring (unknown_call x env request_id ''hash_persistence_failure'' now)) (\<lambda>_.
               bind (ignoring (disarm_call x env ''hash_persistence_failure'')) (\<lambda>_.
               raise (EE_HashPersistence error)))
           | Inr _ \<Rightarrow> return (ES_Pending request_id returned_hash))))"

text \<open>The checks between the signature and the broadcast.\<close>

definition recheck_and_broadcast ::
  "'s live_executor \<Rightarrow> 's env \<Rightarrow> execution_request \<Rightarrow> transaction_draft \<Rightarrow> transaction_hash \<times> u8 list \<Rightarrow> datetime
   \<Rightarrow> ('s, execution_state) action" where
  "recheck_and_broadcast x env request draft signed_tx now =
    (let request_id = er_id request in
     bind (read_control x env) (\<lambda>control.
     if \<not> cs_armed control \<or> cs_kill_switch control then
       bind (fail_unsubmitted_call x env request_id ''kill_switch_before_submission'' now) (\<lambda>_.
       return ES_DisarmedShadow)
     else
     bind (read_loss x env now) (\<lambda>current_daily_loss.
     bind (arithmetic (worst_case_fee request)) (\<lambda>fee.
     bind (arithmetic (checked_add current_daily_loss fee)) (\<lambda>exposure.
     if lim_maximum_daily_loss_wei (cf_limits (le_config x)) < exposure then
       bind (fail_unsubmitted_call x env request_id ''daily_loss_budget'' now) (\<lambda>_.
       bind (disarm_call x env ''daily_loss_budget'') (\<lambda>_.
       return (ES_Disarmed DR_DailyLossBudget)))
     else
     bind (pinned_block_is_current env request) (\<lambda>current.
     if \<not> unwrap_or False current then
       bind (fail_unsubmitted_call x env request_id ''stale_pinned_block'' now) (\<lambda>_. return ES_ArmedIdle)
     else
     bind (read_clock env) (\<lambda>clock.
     if \<not> submission_deadlines_are_fresh request clock then
       bind (fail_unsubmitted_call x env request_id ''stale_submission_deadline'' now) (\<lambda>_. return ES_ArmedIdle)
     else broadcast x env request draft signed_tx now)))))))"

definition draft_of :: "executor_config \<Rightarrow> execution_request \<Rightarrow> u64 \<Rightarrow> u8 list \<Rightarrow> transaction_draft" where
  "draft_of config request nonce calldata =
    \<lparr>td_chain_id = cf_chain_id config, td_nonce = nonce, td_gas_limit = er_gas_limit request,
     td_max_fee_per_gas = er_max_fee_per_gas request,
     td_max_priority_fee_per_gas = er_max_priority_fee_per_gas request,
     td_to = cf_executor_address config, td_calldata = calldata\<rparr>"

definition submit_allocated ::
  "'s live_executor \<Rightarrow> 's env \<Rightarrow> execution_request \<Rightarrow> u8 list \<Rightarrow> u64 \<Rightarrow> datetime \<Rightarrow> ('s, execution_state) action" where
  "submit_allocated x env request calldata nonce now =
    (let request_id = er_id request; draft = draft_of (le_config x) request nonce calldata in
     bind (pinned_block_is_current env request) (\<lambda>current.
     if \<not> unwrap_or False current then
       bind (fail_unsubmitted_call x env request_id ''stale_pinned_block'' now) (\<lambda>_. return ES_ArmedIdle)
     else
     bind (read_clock env) (\<lambda>clock.
     if \<not> submission_deadlines_are_fresh request clock then
       bind (fail_unsubmitted_call x env request_id ''stale_submission_deadline'' now) (\<lambda>_. return ES_ArmedIdle)
     else
     case sign (le_signer x) draft of
       Inl error \<Rightarrow>
         bind (fail_unsubmitted_call x env request_id ''transaction_signing_failure'' now) (\<lambda>_.
         bind (disarm_call x env ''transaction_signing_failure'') (\<lambda>_.
         raise (EE_Signer error)))
     | Inr signed_tx \<Rightarrow>
         bind (store_call env (writing (so_mark_signed (le_store x) request_id now))) (\<lambda>_.
         recheck_and_broadcast x env request draft signed_tx now))))"

definition fail_claimed ::
  "'s live_executor \<Rightarrow> 's env \<Rightarrow> uuid \<Rightarrow> string \<Rightarrow> datetime \<Rightarrow> ('s, execution_state) action" where
  "fail_claimed x env request_id code now =
    bind (terminal_call x env request_id AS_Failed (Some code) None now) (\<lambda>_.
    bind (disarm_call x env code) (\<lambda>_.
    return (ES_Disarmed DR_Policy)))"

definition execute_claimed ::
  "'s live_executor \<Rightarrow> 's env \<Rightarrow> execution_request \<Rightarrow> datetime \<Rightarrow> ('s, execution_state) action" where
  "execute_claimed x env request now =
    (let request_id = er_id request; config = le_config x in
     bind (external_call env) (\<lambda>n.
     case ev_execution_contract_ready env n request (cf_wallet_address config) (cf_executor_code_hash config) of
       Inl _ \<Rightarrow>
         bind (terminal_call x env request_id AS_Failed (Some ''executor_state_rpc_failure'') None now) (\<lambda>_.
         return ES_ArmedIdle)
     | Inr False \<Rightarrow> fail_claimed x env request_id ''unexpected_executor_state'' now
     | Inr True \<Rightarrow>
     bind (external_call env) (\<lambda>n.
     bind (external_call env) (\<lambda>m.
     case validate_and_encode (le_crates x) (ev_clock env n) (ev_clock env m) request config now of
       Inl error \<Rightarrow> fail_claimed x env request_id (policy_error_code error) now
     | Inr calldata \<Rightarrow>
     bind (external_call env) (\<lambda>n.
     case ev_pending_nonce env n (cf_wallet_address config) of
       Inl error \<Rightarrow> disarm_for_rpc_error x env error (Some request_id) now
     | Inr network_nonce \<Rightarrow>
     bind (store_call env (so_allocate_nonce (le_store x) request_id config network_nonce)) (\<lambda>nonce.
     submit_allocated x env request calldata nonce now))))))"

section \<open>The step\<close>

definition claim_and_execute ::
  "'s live_executor \<Rightarrow> 's env \<Rightarrow> datetime \<Rightarrow> ('s, execution_state) action" where
  "claim_and_execute x env now =
    bind (store_call env (so_claim_approved (le_store x) (le_config x) now)) (\<lambda>claimed.
    case claimed of
      None \<Rightarrow> return ES_ArmedIdle
    | Some request \<Rightarrow> execute_claimed x env request now)"

definition step :: "'s live_executor \<Rightarrow> 's env \<Rightarrow> datetime \<Rightarrow> ('s, execution_state) action" where
  "step x env now =
    bind (store_call env (reading (so_active_attempt (le_store x)))) (\<lambda>active.
    case active of
      Some active \<Rightarrow> reconcile_active x env active now
    | None \<Rightarrow>
    bind (read_control x env) (\<lambda>control.
    if \<not> cs_armed control \<or> cs_kill_switch control then return ES_DisarmedShadow
    else
    bind (read_loss x env now) (\<lambda>daily_loss.
    if lim_maximum_daily_loss_wei (cf_limits (le_config x)) \<le> daily_loss then
      bind (disarm_call x env ''daily_loss_budget'') (\<lambda>_. return (ES_Disarmed DR_DailyLossBudget))
    else
    bind (external_call env) (\<lambda>n.
    case ev_chain_id env n of
      Inl error \<Rightarrow> disarm_for_rpc_error x env error None now
    | Inr chain_id \<Rightarrow>
        if chain_id \<noteq> cf_chain_id (le_config x) then
          bind (disarm_call x env ''rpc_chain_mismatch'') (\<lambda>_. return (ES_Disarmed DR_ChainMismatch))
        else claim_and_execute x env now))))"

end
