(* ===== verification/Executor_Safety.thy ===== *)
theory Executor_Safety
  imports Executor_Engine
begin

text \<open>
  Safety of the engine's step, for every store that keeps the contract \<open>nonce_store\<close>, every answer of the
  endpoint and the clock, every fault and every interleaving with other sessions. A small Hoare logic
  over the actions carries the proofs: \<open>valid P m Q I\<close> states that from \<open>P\<close> the action \<open>m\<close> returns in \<open>Q\<close>
  or else, when it raises or the process stops, leaves a world in \<open>I\<close>. The lemmas show that no two
  transactions are sent with one nonce or for one request and that a transaction is sent only after the
  last checks of the code.
\<close>

section \<open>A Hoare logic of actions\<close>

named_theorems keeps_intros "rules for actions that keep a predicate"

definition valid ::
  "('s world \<Rightarrow> bool) \<Rightarrow> ('s, 'a) action \<Rightarrow> ('a \<Rightarrow> 's world \<Rightarrow> bool) \<Rightarrow> ('s world \<Rightarrow> bool) \<Rightarrow> bool" where
  "valid P m Q I \<longleftrightarrow>
    (\<forall>w. P w \<longrightarrow> (case m w of (Returned a, w') \<Rightarrow> Q a w' | (Raised e, w') \<Rightarrow> I w' | (Halted, w') \<Rightarrow> I w'))"

abbreviation keeps :: "('s world \<Rightarrow> bool) \<Rightarrow> ('s, 'a) action \<Rightarrow> bool" where
  "keeps I m \<equiv> valid I m (\<lambda>_. I) I"

lemma validI:
  assumes "\<And>w a v. P w \<Longrightarrow> m w = (Returned a, v) \<Longrightarrow> Q a v"
    and "\<And>w e v. P w \<Longrightarrow> m w = (Raised e, v) \<Longrightarrow> I v"
    and "\<And>w v. P w \<Longrightarrow> m w = (Halted, v) \<Longrightarrow> I v"
  shows "valid P m Q I"
  using assms by (simp add: valid_def split: prod.split outcome.split)

lemma validD:
  assumes "valid P m Q I" "P w"
  shows "m w = (Returned a, v) \<Longrightarrow> Q a v" "m w = (Raised e, v) \<Longrightarrow> I v" "m w = (Halted, v) \<Longrightarrow> I v"
  using assms unfolding valid_def by (auto dest!: spec [of _ w])

lemma valid_bind:
  assumes "valid P m R I" "\<And>a. valid (R a) (f a) Q I"
  shows "valid P (bind m f) Q I"
  unfolding valid_def
proof (intro allI impI)
  fix w assume P: "P w"
  obtain r v where m: "m w = (r, v)" by (cases "m w")
  show "case bind m f w of (Returned a, w') \<Rightarrow> Q a w' | (Raised e, w') \<Rightarrow> I w' | (Halted, w') \<Rightarrow> I w'"
  proof (cases r)
    case (Returned a)
    then have "R a v" using assms(1) P m by (auto simp: valid_def split: prod.splits)
    then show ?thesis using assms(2) [of a] m Returned by (simp add: valid_def bind_def)
  qed (use assms(1) P m in \<open>auto simp: valid_def bind_def split: prod.splits\<close>)
qed

lemma valid_return: "(\<And>w. P w \<Longrightarrow> Q a w) \<Longrightarrow> valid P (return a) Q I"
  by (simp add: valid_def return_def)

lemma valid_raise: "(\<And>w. P w \<Longrightarrow> I w) \<Longrightarrow> valid P (raise e) Q I"
  by (simp add: valid_def raise_def)

lemma valid_of_result:
  "(\<And>a w. r = Inr a \<Longrightarrow> P w \<Longrightarrow> Q a w) \<Longrightarrow> (\<And>e w. r = Inl e \<Longrightarrow> P w \<Longrightarrow> I w)
   \<Longrightarrow> valid P (of_result r) Q I"
  by (cases r) (auto simp: of_result_def intro: valid_return valid_raise)

lemma valid_emit: "(\<And>w. P w \<Longrightarrow> Q () (w\<lparr>wd_trace := wd_trace w @ [e]\<rparr>)) \<Longrightarrow> valid P (emit e) Q I"
  by (simp add: valid_def emit_def)

lemma valid_weaken:
  "valid P m Q I \<Longrightarrow> (\<And>w. P' w \<Longrightarrow> P w) \<Longrightarrow> (\<And>a w. Q a w \<Longrightarrow> Q' a w) \<Longrightarrow> (\<And>w. I w \<Longrightarrow> I' w)
   \<Longrightarrow> valid P' m Q' I'"
  by (rule validI) (blast dest: validD)+

lemma valid_pre: "valid P m Q I \<Longrightarrow> (\<And>w. P' w \<Longrightarrow> P w) \<Longrightarrow> valid P' m Q I"
  by (rule valid_weaken)

lemma valid_if:
  "(c \<Longrightarrow> valid P m Q I) \<Longrightarrow> (\<not> c \<Longrightarrow> valid P m' Q I) \<Longrightarrow> valid P (if c then m else m') Q I"
  by simp

lemma valid_sum:
  "(\<And>a. r = Inl a \<Longrightarrow> valid P (g a) Q I) \<Longrightarrow> (\<And>b. r = Inr b \<Longrightarrow> valid P (h b) Q I)
   \<Longrightarrow> valid P (case r of Inl a \<Rightarrow> g a | Inr b \<Rightarrow> h b) Q I"
  by (cases r) simp_all

lemma valid_option:
  "valid P n Q I \<Longrightarrow> (\<And>a. valid P (f a) Q I) \<Longrightarrow> valid P (case r of None \<Rightarrow> n | Some a \<Rightarrow> f a) Q I"
  by (cases r) simp_all

lemma valid_bool:
  "valid P m Q I \<Longrightarrow> valid P m' Q I \<Longrightarrow> valid P (case c of True \<Rightarrow> m | False \<Rightarrow> m') Q I"
  by (cases c) simp_all

lemma valid_snd:
  assumes "valid P m (\<lambda>_. I) I" "P w"
  shows "I (snd (m w))"
  using assms by (cases "m w"; cases "fst (m w)") (auto dest: validD)

lemma keeps_snd:
  assumes "keeps I m" "I w"
  shows "I (snd (m w))"
  using assms by (cases "m w"; cases "fst (m w)") (auto dest: validD)

lemma keeps_bind [keeps_intros]: "keeps I m \<Longrightarrow> (\<And>a. keeps I (f a)) \<Longrightarrow> keeps I (bind m f)"
  by (rule valid_bind)

lemma keeps_simple [keeps_intros]:
  "keeps I (return a)" "keeps I (raise e)" "keeps I (of_result r)"
  by (auto intro: valid_return valid_raise valid_of_result)

lemma keeps_split [keeps_intros]:
  "(c \<Longrightarrow> keeps I m) \<Longrightarrow> (\<not> c \<Longrightarrow> keeps I m') \<Longrightarrow> keeps I (if c then m else m')"
  "keeps I n \<Longrightarrow> (\<And>a. keeps I (f a)) \<Longrightarrow> keeps I (case q of None \<Rightarrow> n | Some a \<Rightarrow> f a)"
  "(\<And>a. keeps I (g a)) \<Longrightarrow> (\<And>b. keeps I (h b)) \<Longrightarrow> keeps I (case s of Inl a \<Rightarrow> g a | Inr b \<Rightarrow> h b)"
  "(\<And>a b. keeps I (k a b)) \<Longrightarrow> keeps I (case p of (a, b) \<Rightarrow> k a b)"
  subgoal by (cases c) simp_all
  subgoal by (cases q) simp_all
  subgoal by (cases s) simp_all
  subgoal by (cases p) simp_all
  done

lemma keeps_bool [keeps_intros]:
  "keeps I m \<Longrightarrow> keeps I m' \<Longrightarrow> keeps I (case c of True \<Rightarrow> m | False \<Rightarrow> m')"
  by (cases c) simp_all

lemma keeps_ignoring [keeps_intros]: "keeps I m \<Longrightarrow> keeps I (ignoring m)"
  by (rule validI) (auto simp: ignoring_def split: prod.splits outcome.splits dest: validD)

lemma valid_external_call:
  "(\<And>n w. P w \<Longrightarrow> P (w\<lparr>wd_calls := n\<rparr>)) \<Longrightarrow> (\<And>w. P w \<Longrightarrow> I w) \<Longrightarrow> valid P (external_call env) (\<lambda>_. P) I"
  by (simp add: valid_def external_call_def Let_def)

text \<open>A call of the store, when the predicate bears what other sessions and the call itself do.\<close>

lemma valid_attempt_call:
  assumes other: "\<And>w n k. P w \<Longrightarrow> P (w\<lparr>wd_store := ev_between env k (wd_store w), wd_calls := n\<rparr>)"
    and call: "\<And>w a s. P w \<Longrightarrow> call (wd_store w) = Inr (a, s) \<Longrightarrow>
      Q (Inr a) (w\<lparr>wd_store := s\<rparr>) \<and> (\<forall>e. Q (Inl e) (w\<lparr>wd_store := s\<rparr>))"
    and failed: "\<And>e w. P w \<Longrightarrow> Q (Inl e) w" and stop: "\<And>w. P w \<Longrightarrow> I w"
  shows "valid P (attempt_call env call) Q I"
  unfolding valid_def
proof (intro allI impI)
  fix w assume P: "P w"
  define v where "v = w\<lparr>wd_store := ev_between env (wd_calls w) (wd_store w), wd_calls := Suc (wd_calls w)\<rparr>"
  have v: "P v" unfolding v_def by (rule other [OF P])
  show "case attempt_call env call w of (Returned a, w') \<Rightarrow> Q a w' | (Raised e, w') \<Rightarrow> I w' | (Halted, w') \<Rightarrow> I w'"
  proof (cases "ev_fault env (wd_calls w)")
    case NoFault
    then show ?thesis using call [OF v] failed [OF v]
      by (auto simp: attempt_call_def v_def Let_def split: sum.splits)
  next
    case (RolledBack e)
    then show ?thesis using failed [OF v] by (simp add: attempt_call_def v_def Let_def)
  next
    case (Unacknowledged e)
    then show ?thesis using call [OF v] failed [OF v]
      by (auto simp: attempt_call_def v_def Let_def split: sum.splits)
  next
    case Stops
    then show ?thesis using stop [OF v] by (simp add: attempt_call_def v_def Let_def)
  qed
qed

lemma valid_store_call:
  assumes "\<And>w n k. P w \<Longrightarrow> P (w\<lparr>wd_store := ev_between env k (wd_store w), wd_calls := n\<rparr>)"
    and "\<And>w a s. P w \<Longrightarrow> call (wd_store w) = Inr (a, s) \<Longrightarrow> Q a (w\<lparr>wd_store := s\<rparr>)"
    and "\<And>w a s. P w \<Longrightarrow> call (wd_store w) = Inr (a, s) \<Longrightarrow> I (w\<lparr>wd_store := s\<rparr>)"
    and "\<And>w. P w \<Longrightarrow> I w"
  shows "valid P (store_call env call) Q I"
  unfolding store_call_def
  by (rule valid_bind [OF valid_attempt_call [where Q = "\<lambda>r w. case r of Inl e \<Rightarrow> I w | Inr a \<Rightarrow> Q a w"]])
    (use assms in \<open>auto intro!: valid_of_result split: sum.splits simp: map_err_def\<close>)

section \<open>The contract of the store\<close>

text \<open>What the engine relies on of a store: for each request that has an attempt its nonce, if it has
  one, and the nonce the wallet uses next.\<close>

record nonce_view =
  nv_attempts :: "uuid \<Rightarrow> nat option option"
  nv_next :: nat

text \<open>A later view: no attempt is dropped, no nonce is changed and the next nonce does not fall.\<close>

definition extends :: "nonce_view \<Rightarrow> nonce_view \<Rightarrow> bool" where
  "extends v v' \<longleftrightarrow> nv_next v \<le> nv_next v' \<and>
    (\<forall>i. (nv_attempts v i \<noteq> None \<longrightarrow> nv_attempts v' i \<noteq> None) \<and>
         (\<forall>n. nv_attempts v i = Some (Some n) \<longrightarrow> nv_attempts v' i = Some (Some n)))"

lemma extends_refl [simp]: "extends v v"
  by (simp add: extends_def)

lemma extendsD:
  assumes "extends v v'"
  shows "nv_next v \<le> nv_next v'" "nv_attempts v i \<noteq> None \<Longrightarrow> nv_attempts v' i \<noteq> None"
    "nv_attempts v i = Some (Some n) \<Longrightarrow> nv_attempts v' i = Some (Some n)"
  using assms by (auto simp: extends_def)

text \<open>The transactions of a trace: the request and the nonce of each.\<close>

fun sent_of :: "event list \<Rightarrow> (uuid \<times> nat) list" where
  "sent_of [] = []"
| "sent_of (EV_Send request draft # t) = (er_id request, unat (td_nonce draft)) # sent_of t"
| "sent_of (_ # t) = sent_of t"

lemma sent_of_append [simp]: "sent_of (t @ u) = sent_of t @ sent_of u"
  by (induction t rule: sent_of.induct) simp_all

definition quiet :: "event \<Rightarrow> bool" where
  "quiet e \<longleftrightarrow> sent_of [e] = []"

lemma quiet_simps [simp]:
  "quiet (EV_Control c)" "quiet (EV_Loss l)" "quiet (EV_Block b)" "quiet (EV_Clock t)"
  by (simp_all add: quiet_def)

text \<open>The invariant between steps, and the assertions on a claimed request and on one with a nonce.\<close>

definition sent_once :: "('s \<Rightarrow> bool) \<Rightarrow> ('s \<Rightarrow> nonce_view) \<Rightarrow> 's world \<Rightarrow> bool" where
  "sent_once ok view w \<longleftrightarrow>
     ok (wd_store w) \<and> distinct (map fst (sent_of (wd_trace w))) \<and>
     distinct (map snd (sent_of (wd_trace w))) \<and>
     (\<forall>(i, n) \<in> set (sent_of (wd_trace w)).
        nv_attempts (view (wd_store w)) i \<noteq> None \<and> n < nv_next (view (wd_store w)))"

definition claimed_unsent :: "('s \<Rightarrow> bool) \<Rightarrow> ('s \<Rightarrow> nonce_view) \<Rightarrow> uuid \<Rightarrow> 's world \<Rightarrow> bool" where
  "claimed_unsent ok view i w \<longleftrightarrow>
     sent_once ok view w \<and> i \<notin> fst ` set (sent_of (wd_trace w)) \<and>
     nv_attempts (view (wd_store w)) i \<noteq> None"

definition nonce_reserved :: "('s \<Rightarrow> bool) \<Rightarrow> ('s \<Rightarrow> nonce_view) \<Rightarrow> uuid \<Rightarrow> nat \<Rightarrow> 's world \<Rightarrow> bool" where
  "nonce_reserved ok view i n w \<longleftrightarrow>
     claimed_unsent ok view i w \<and> (\<forall>m \<in> snd ` set (sent_of (wd_trace w)). m < n) \<and>
     n < nv_next (view (wd_store w)) \<and> nv_attempts (view (wd_store w)) i = Some (Some n)"

lemma sent_once_ext:
  assumes "sent_once ok view w" "ok s" "extends (view (wd_store w)) (view s)"
  shows "sent_once ok view (w\<lparr>wd_store := s, wd_calls := k\<rparr>)" "sent_once ok view (w\<lparr>wd_store := s\<rparr>)"
  using assms unfolding sent_once_def by (auto dest!: bspec dest: extendsD order.strict_trans2)

lemma claimed_unsent_ext:
  assumes "claimed_unsent ok view i w" "ok s" "extends (view (wd_store w)) (view s)"
  shows "claimed_unsent ok view i (w\<lparr>wd_store := s, wd_calls := k\<rparr>)"
    "claimed_unsent ok view i (w\<lparr>wd_store := s\<rparr>)"
  using assms sent_once_ext [of ok view w s] extendsD(2) [OF assms(3)]
  unfolding claimed_unsent_def by simp_all

lemma nonce_reserved_ext:
  assumes "nonce_reserved ok view i n w" "ok s" "extends (view (wd_store w)) (view s)"
  shows "nonce_reserved ok view i n (w\<lparr>wd_store := s, wd_calls := k\<rparr>)"
    "nonce_reserved ok view i n (w\<lparr>wd_store := s\<rparr>)"
  using assms claimed_unsent_ext [of ok view i w s] extendsD [OF assms(3)]
  unfolding nonce_reserved_def by (simp_all add: order.strict_trans2)

lemma sent_once_frame [simp]:
  "sent_once ok view (w\<lparr>wd_calls := k\<rparr>) = sent_once ok view w"
  "quiet e \<Longrightarrow> sent_once ok view (w\<lparr>wd_trace := wd_trace w @ [e]\<rparr>) = sent_once ok view w"
  by (simp_all add: sent_once_def quiet_def)

lemma claimed_unsent_frame [simp]:
  "claimed_unsent ok view i (w\<lparr>wd_calls := k\<rparr>) = claimed_unsent ok view i w"
  "quiet e \<Longrightarrow> claimed_unsent ok view i (w\<lparr>wd_trace := wd_trace w @ [e]\<rparr>) = claimed_unsent ok view i w"
  by (simp_all add: claimed_unsent_def) (simp add: quiet_def)

lemma nonce_reserved_frame [simp]:
  "nonce_reserved ok view i n (w\<lparr>wd_calls := k\<rparr>) = nonce_reserved ok view i n w"
  "quiet e \<Longrightarrow> nonce_reserved ok view i n (w\<lparr>wd_trace := wd_trace w @ [e]\<rparr>) = nonce_reserved ok view i n w"
  by (simp_all add: nonce_reserved_def) (simp add: quiet_def)

lemma claimed_unsent_once: "claimed_unsent ok view i w \<Longrightarrow> sent_once ok view w"
  by (simp add: claimed_unsent_def)

lemma nonce_reserved_once: "nonce_reserved ok view i n w \<Longrightarrow> sent_once ok view w"
  by (simp add: nonce_reserved_def claimed_unsent_def)

lemma sent_once_ok: "sent_once ok view w \<Longrightarrow> ok (wd_store w)"
  by (simp add: sent_once_def)

lemma nonce_reserved_ok: "nonce_reserved ok view i n w \<Longrightarrow> ok (wd_store w)"
  by (simp add: nonce_reserved_def claimed_unsent_def sent_once_def)

lemma sent_once_send:
  assumes "nonce_reserved ok view (er_id q) (unat (td_nonce d)) w"
  shows "sent_once ok view (w\<lparr>wd_trace := wd_trace w @ [EV_Send q d]\<rparr>)"
  using assms unfolding nonce_reserved_def claimed_unsent_def sent_once_def
  by (auto simp: image_iff)

text \<open>Giving a reserved nonce back keeps the invariant: every sent nonce is below it.\<close>

lemma sent_once_give_back:
  assumes "nonce_reserved ok view i n w" "ok s"
    and "nv_attempts (view s) = nv_attempts (view (wd_store w))" "n \<le> nv_next (view s)"
  shows "sent_once ok view (w\<lparr>wd_store := s\<rparr>)"
  using assms unfolding nonce_reserved_def claimed_unsent_def sent_once_def
  by (auto dest!: bspec intro: order.strict_trans2)

lemma claimed_unsent_new:
  assumes "sent_once ok view w" "ok s" "extends (view (wd_store w)) (view s)"
    and "nv_attempts (view (wd_store w)) i = None" "nv_attempts (view s) i \<noteq> None"
  shows "claimed_unsent ok view i (w\<lparr>wd_store := s\<rparr>)"
  using assms sent_once_ext(2) [OF assms(1-3)] unfolding claimed_unsent_def sent_once_def
  by (auto dest!: bspec)

lemma nonce_reserved_new:
  assumes "claimed_unsent ok view i w" "ok s" "extends (view (wd_store w)) (view s)"
    and "nv_next (view (wd_store w)) \<le> n" "nv_next (view s) = n + 1" "nv_attempts (view s) i = Some (Some n)"
  shows "nonce_reserved ok view i n (w\<lparr>wd_store := s\<rparr>)"
  using assms claimed_unsent_ext(2) [OF assms(1-3)]
  unfolding nonce_reserved_def claimed_unsent_def sent_once_def by (auto dest!: bspec)

locale nonce_store =
  fixes st :: "'s executor_store"
    and config :: executor_config
    and ok :: "'s \<Rightarrow> bool"
    and view :: "'s \<Rightarrow> nonce_view"
  assumes claim: "ok s \<Longrightarrow> so_claim_approved st config now s = Inr (claimed, s') \<Longrightarrow>
      ok s' \<and> extends (view s) (view s') \<and>
      (\<forall>q. claimed = Some q \<longrightarrow> nv_attempts (view s) (er_id q) = None \<and> nv_attempts (view s') (er_id q) \<noteq> None)"
    and allocate: "ok s \<Longrightarrow> so_allocate_nonce st i config network s = Inr (n, s') \<Longrightarrow>
      ok s' \<and> extends (view s) (view s') \<and> nv_next (view s) \<le> unat n \<and>
      nv_next (view s') = unat n + 1 \<and> nv_attempts (view s') i = Some (Some (unat n))"
    and give_back: "ok s \<Longrightarrow> so_fail_unsubmitted st i code now s = Inr s' \<Longrightarrow>
      ok s' \<and> nv_attempts (view s') = nv_attempts (view s) \<and>
      (\<forall>n. nv_attempts (view s) i = Some (Some n) \<longrightarrow> n < nv_next (view s) \<longrightarrow> n \<le> nv_next (view s'))"
    and signed_law: "ok s \<Longrightarrow> so_mark_signed st i now s = Inr s' \<Longrightarrow> ok s' \<and> extends (view s) (view s')"
    and unknown_law: "ok s \<Longrightarrow> so_mark_submission_unknown st i code now s = Inr s' \<Longrightarrow>
      ok s' \<and> extends (view s) (view s')"
    and pending_law: "ok s \<Longrightarrow> so_mark_pending st i h now s = Inr s' \<Longrightarrow> ok s' \<and> extends (view s) (view s')"
    and terminal_law: "ok s \<Longrightarrow> so_mark_terminal st i status reason outcome now s = Inr s' \<Longrightarrow>
      ok s' \<and> extends (view s) (view s')"
    and monitor_law: "ok s \<Longrightarrow> so_record_monitor_error st i code s = Inr s' \<Longrightarrow>
      ok s' \<and> extends (view s) (view s')"
    and disarm_law: "ok s \<Longrightarrow> so_disarm st now code s = Inr s' \<Longrightarrow> ok s' \<and> extends (view s) (view s')"

text \<open>Other sessions keep the invariant of the store and only extend the view.\<close>

definition benign :: "('s \<Rightarrow> bool) \<Rightarrow> ('s \<Rightarrow> nonce_view) \<Rightarrow> 's env \<Rightarrow> bool" where
  "benign ok view env \<longleftrightarrow>
    (\<forall>k s. ok s \<longrightarrow> ok (ev_between env k s) \<and> extends (view s) (view (ev_between env k s)))"

section \<open>No nonce and no request is sent twice\<close>

definition extending ::
  "('s \<Rightarrow> bool) \<Rightarrow> ('s \<Rightarrow> nonce_view) \<Rightarrow> ('s \<Rightarrow> store_error + 'a \<times> 's) \<Rightarrow> bool" where
  "extending ok view call \<longleftrightarrow>
    (\<forall>s a s'. ok s \<longrightarrow> call s = Inr (a, s') \<longrightarrow> ok s' \<and> extends (view s) (view s'))"

lemma extending_reading [simp]: "extending ok view (reading f)"
  by (auto simp: extending_def reading_def result_simps)

lemma extending_writing:
  "(\<And>s s'. ok s \<Longrightarrow> f s = Inr s' \<Longrightarrow> ok s' \<and> extends (view s) (view s')) \<Longrightarrow> extending ok view (writing f)"
  by (auto simp: extending_def writing_def result_simps)

lemma keeps_external [keeps_intros]: "keeps (sent_once ok view) (external_call env)"
  by (rule valid_external_call) simp_all

lemma keeps_emit: "quiet e \<Longrightarrow> keeps (sent_once ok view) (emit e)"
  by (rule valid_emit) simp

lemma keeps_store_call:
  assumes "benign ok view env" "extending ok view call"
  shows "keeps (sent_once ok view) (store_call env call)"
  using assms by (intro valid_store_call)
    (auto simp: benign_def extending_def intro!: sent_once_ext dest: sent_once_ok)

lemma keeps_attempt_call:
  assumes "benign ok view env" "extending ok view call"
  shows "keeps (sent_once ok view) (attempt_call env call)"
  using assms by (intro valid_attempt_call)
    (auto simp: benign_def extending_def intro!: sent_once_ext dest: sent_once_ok)

lemma reserved_store_call:
  assumes "benign ok view env" "extending ok view call"
  shows "valid (nonce_reserved ok view i n) (store_call env call) (\<lambda>_. nonce_reserved ok view i n)
    (sent_once ok view)"
  using assms by (intro valid_store_call)
    (auto simp: benign_def extending_def intro!: nonce_reserved_ext sent_once_ext
      dest: nonce_reserved_ok nonce_reserved_once)

lemma reserved_external:
  "valid (nonce_reserved ok view i n) (external_call env) (\<lambda>_. nonce_reserved ok view i n) (sent_once ok view)"
  by (rule valid_external_call) (auto dest: nonce_reserved_once)

lemma claimed_external:
  "valid (claimed_unsent ok view i) (external_call env) (\<lambda>_. claimed_unsent ok view i) (sent_once ok view)"
  by (rule valid_external_call) (auto dest: claimed_unsent_once)

lemma reserved_emit:
  "quiet e \<Longrightarrow> valid (nonce_reserved ok view i n) (emit e) (\<lambda>_. nonce_reserved ok view i n) (sent_once ok view)"
  by (rule valid_emit) simp

lemma reserved_arithmetic:
  "valid (nonce_reserved ok view i n) (arithmetic v) (\<lambda>_. nonce_reserved ok view i n) (sent_once ok view)"
  unfolding arithmetic_def by (rule valid_of_result) (auto dest: nonce_reserved_once)

lemma reserved_return:
  "valid (nonce_reserved ok view i n) (return a) (\<lambda>_. nonce_reserved ok view i n) (sent_once ok view)"
  by (rule valid_return)

lemma claimed_weaken: "keeps (sent_once ok view) m \<Longrightarrow>
  valid (claimed_unsent ok view i) m (\<lambda>_. sent_once ok view) (sent_once ok view)"
  by (erule valid_pre) (rule claimed_unsent_once)

lemmas reserved_rules = reserved_store_call reserved_external reserved_emit reserved_arithmetic reserved_return

lemma reserved_block:
  "valid (nonce_reserved ok view i n) (pinned_block_is_current env q) (\<lambda>_. nonce_reserved ok view i n)
    (sent_once ok view)"
  unfolding pinned_block_is_current_def
  by (intro valid_bind [OF reserved_external]) 
    (auto split: sum.splits prod.splits intro!: reserved_return valid_bind [OF reserved_emit])

lemma reserved_clock:
  "valid (nonce_reserved ok view i n) (read_clock env) (\<lambda>_. nonce_reserved ok view i n) (sent_once ok view)"
  unfolding read_clock_def
  by (intro valid_bind [OF reserved_external] valid_bind [OF reserved_emit] reserved_return) simp

lemma reserved_control:
  "benign ok view env \<Longrightarrow> valid (nonce_reserved ok view i n) (read_control x env)
    (\<lambda>_. nonce_reserved ok view i n) (sent_once ok view)"
  unfolding read_control_def
  by (intro valid_bind [OF reserved_store_call] valid_bind [OF reserved_emit] reserved_return) simp_all

lemma reserved_loss:
  "benign ok view env \<Longrightarrow> valid (nonce_reserved ok view i n) (read_loss x env now)
    (\<lambda>_. nonce_reserved ok view i n) (sent_once ok view)"
  unfolding read_loss_def
  by (intro valid_bind [OF reserved_store_call] valid_bind [OF reserved_emit] reserved_return) simp_all

lemma send_call_once:
  assumes "er_id q = i" "unat (td_nonce d) = n"
  shows "valid (nonce_reserved ok view i n) (send_call env q d raw) (\<lambda>_. sent_once ok view) (sent_once ok view)"
  unfolding send_call_def using assms
  by (intro valid_bind [OF reserved_external] valid_bind [OF valid_emit] valid_return) (auto intro: sent_once_send)

text \<open>A run of the executor: steps in any number, each in an environment of its own. The process may
  have stopped in a step; the next one starts from what is stored.\<close>

inductive executor_run ::
  "'s live_executor \<Rightarrow> ('s env \<Rightarrow> bool) \<Rightarrow> 's world \<Rightarrow> 's world \<Rightarrow> bool" for x admissible where
  run_start: "executor_run x admissible w w"
| run_step: "executor_run x admissible w v \<Longrightarrow> admissible env \<Longrightarrow>
    executor_run x admissible w (snd (step x env now v))"

context nonce_store
begin

lemma laws_extend:
  "extending ok view (writing (so_mark_terminal st i status reason outcome now))"
  "extending ok view (writing (so_disarm st now code))"
  "extending ok view (writing (so_mark_submission_unknown st i code now))"
  "extending ok view (writing (so_record_monitor_error st i code))"
  "extending ok view (writing (so_mark_pending st i h now))"
  "extending ok view (writing (so_mark_signed st i now))"
  by (rule extending_writing; erule (1) terminal_law disarm_law unknown_law monitor_law pending_law signed_law)+

lemma calls_keep:
  assumes "benign ok view env" "le_store x = st"
  shows "keeps (sent_once ok view) (terminal_call x env i status reason outcome now)"
    "keeps (sent_once ok view) (disarm_call x env code)"
    "keeps (sent_once ok view) (unknown_call x env i code now)"
    "keeps (sent_once ok view) (monitor_call x env i code)"
    "keeps (sent_once ok view) (read_loss x env now)"
    "keeps (sent_once ok view) (read_control x env)"
    "keeps (sent_once ok view) (store_call env (reading f))"
    "keeps (sent_once ok view) (attempt_call env (writing (so_mark_pending st i h now)))"
  unfolding terminal_call_def disarm_call_def unknown_call_def monitor_call_def read_loss_def read_control_def
    assms(2)
  by (intro keeps_store_call keeps_attempt_call keeps_bind keeps_external keeps_emit keeps_simple
      laws_extend extending_reading quiet_simps assms(1))+

lemma exits_keep:
  assumes "benign ok view env" "le_store x = st"
  shows "keeps (sent_once ok view) (disarm_for_rpc_error x env error r now)"
    "keeps (sent_once ok view) (disarm_for_submission_error x env error i k now)"
    "keeps (sent_once ok view) (refuse_receipt x env i code reason)"
    "keeps (sent_once ok view) (monitor_failure x env i error now)"
    "keeps (sent_once ok view) (fail_claimed x env i code now)"
  unfolding disarm_for_rpc_error_def disarm_for_submission_error_def refuse_receipt_def monitor_failure_def
    fail_claimed_def Let_def
  by (intro keeps_intros calls_keep [OF assms])+

lemma receipts_keep:
  assumes "benign ok view env" "le_store x = st"
  shows "keeps (sent_once ok view) (complete_receipt x env q h receipt now)"
  unfolding complete_receipt_def confirm_receipt_def arithmetic_def
  by (intro keeps_intros calls_keep [OF assms] exits_keep [OF assms])

lemma monitor_keeps:
  assumes "benign ok view env" "le_store x = st"
  shows "keeps (sent_once ok view) (monitor_pending x env active h n t now)"
  unfolding monitor_pending_def await_receipt_def Let_def
  by (intro keeps_intros calls_keep [OF assms] exits_keep [OF assms] receipts_keep [OF assms])

lemma reconcile_keeps:
  assumes "benign ok view env" "le_store x = st"
  shows "keeps (sent_once ok view) (reconcile_active x env active now)"
  unfolding reconcile_active_def present_def Let_def
  by (cases "av_status active"; simp)
    (intro keeps_intros calls_keep [OF assms] monitor_keeps [OF assms])+

lemma give_back_once:
  assumes "benign ok view env" "le_store x = st"
  shows "valid (nonce_reserved ok view i n) (fail_unsubmitted_call x env i code now)
    (\<lambda>_. sent_once ok view) (sent_once ok view)"
proof -
  have call: "sent_once ok view (w\<lparr>wd_store := s\<rparr>)"
    if w: "nonce_reserved ok view i n w" and s: "writing (so_fail_unsubmitted st i code now) (wd_store w) = Inr (u, s)"
    for w u s
  proof -
    have "so_fail_unsubmitted st i code now (wd_store w) = Inr s"
      using s by (auto simp: writing_def result_simps)
    with w give_back [of "wd_store w" i code now s] show ?thesis
      using nonce_reserved_ok [OF w] by (intro sent_once_give_back [OF w]) (auto simp: nonce_reserved_def)
  qed
  have between: "nonce_reserved ok view i n (w\<lparr>wd_store := ev_between env k (wd_store w)\<rparr>)"
    if "nonce_reserved ok view i n w" for w k
    using that assms(1) nonce_reserved_ok [OF that] by (intro nonce_reserved_ext) (auto simp: benign_def)
  show ?thesis
    unfolding fail_unsubmitted_call_def assms(2)
    by (rule valid_store_call) (auto intro: call between dest: nonce_reserved_once)
qed

lemma broadcast_once:
  assumes "benign ok view env" "le_store x = st" "unat (td_nonce d) = n"
  shows "valid (nonce_reserved ok view (er_id q) n) (broadcast x env q d signed_tx now)
    (\<lambda>_. sent_once ok view) (sent_once ok view)"
  unfolding broadcast_def Let_def assms(2)
  by (intro valid_bind [OF send_call_once] keeps_intros calls_keep [OF assms(1,2)] exits_keep [OF assms(1,2)])
    (simp_all add: assms)

lemma recheck_once:
  assumes "benign ok view env" "le_store x = st" "unat (td_nonce d) = n"
  shows "valid (nonce_reserved ok view (er_id q) n) (recheck_and_broadcast x env q d signed_tx now)
    (\<lambda>_. sent_once ok view) (sent_once ok view)"
  unfolding recheck_and_broadcast_def Let_def
  by (intro valid_bind [OF reserved_control] valid_bind [OF reserved_loss] valid_bind [OF reserved_arithmetic]
      valid_bind [OF reserved_block] valid_bind [OF reserved_clock] valid_if
      valid_bind [OF give_back_once] keeps_intros broadcast_once calls_keep)
    (simp_all add: assms)

lemma submit_once:
  assumes "benign ok view env" "le_store x = st" "unat n = k"
  shows "valid (nonce_reserved ok view (er_id q) k) (submit_allocated x env q calldata n now)
    (\<lambda>_. sent_once ok view) (sent_once ok view)"
  unfolding submit_allocated_def Let_def assms(2)
  by (intro valid_bind [OF reserved_block] valid_bind [OF reserved_clock] valid_if valid_sum
      valid_bind [OF give_back_once] valid_bind [OF reserved_store_call] keeps_intros recheck_once calls_keep)
    (simp_all add: assms laws_extend draft_of_def)

lemma allocate_once:
  assumes "benign ok view env"
  shows "valid (claimed_unsent ok view i) (store_call env (so_allocate_nonce st i config network))
    (\<lambda>n. nonce_reserved ok view i (unat n)) (sent_once ok view)"
proof (rule valid_store_call)
  fix w n s assume w: "claimed_unsent ok view i w" and s: "so_allocate_nonce st i config network (wd_store w) = Inr (n, s)"
  have "ok (wd_store w)" using w by (simp add: claimed_unsent_def sent_once_def)
  note law = allocate [OF this s]
  then show "nonce_reserved ok view i (unat n) (w\<lparr>wd_store := s\<rparr>)"
    by (intro nonce_reserved_new [OF w]) simp_all
  from law show "sent_once ok view (w\<lparr>wd_store := s\<rparr>)"
    by (intro sent_once_ext claimed_unsent_once [OF w]) simp_all
next
  fix w m k assume w: "claimed_unsent ok view i w"
  then have "ok (wd_store w)" by (simp add: claimed_unsent_def sent_once_def)
  then show "claimed_unsent ok view i (w\<lparr>wd_store := ev_between env k (wd_store w), wd_calls := m\<rparr>)"
    using assms by (intro claimed_unsent_ext [OF w]) (auto simp: benign_def)
qed (rule claimed_unsent_once)

lemma execute_once:
  assumes "benign ok view env" "le_store x = st" "le_config x = config"
  shows "valid (claimed_unsent ok view (er_id q)) (execute_claimed x env q now)
    (\<lambda>_. sent_once ok view) (sent_once ok view)"
  unfolding execute_claimed_def Let_def assms(2,3)
  by (intro valid_bind [OF claimed_external] valid_sum valid_bool valid_bind [OF allocate_once]
      submit_once claimed_weaken keeps_intros calls_keep exits_keep)
    (simp_all add: assms)

lemma claim_once:
  assumes "benign ok view env"
  shows "valid (sent_once ok view) (store_call env (so_claim_approved st config now))
    (\<lambda>c. case c of None \<Rightarrow> sent_once ok view | Some q \<Rightarrow> claimed_unsent ok view (er_id q)) (sent_once ok view)"
proof (rule valid_store_call)
  fix w c s assume w: "sent_once ok view w" and s: "so_claim_approved st config now (wd_store w) = Inr (c, s)"
  note law = claim [OF sent_once_ok [OF w] s]
  then show "(case c of None \<Rightarrow> sent_once ok view | Some q \<Rightarrow> claimed_unsent ok view (er_id q)) (w\<lparr>wd_store := s\<rparr>)"
    by (cases c) (auto intro: sent_once_ext [OF w] claimed_unsent_new [OF w])
  from law show "sent_once ok view (w\<lparr>wd_store := s\<rparr>)" by (intro sent_once_ext [OF w]) simp_all
next
  fix w m k assume w: "sent_once ok view w"
  then show "sent_once ok view (w\<lparr>wd_store := ev_between env k (wd_store w), wd_calls := m\<rparr>)"
    using assms sent_once_ok [OF w] by (intro sent_once_ext [OF w]) (auto simp: benign_def)
qed

lemma claim_and_execute_keeps:
  assumes "benign ok view env" "le_store x = st" "le_config x = config"
  shows "keeps (sent_once ok view) (claim_and_execute x env now)"
  unfolding claim_and_execute_def assms(2,3)
proof (rule valid_bind [OF claim_once [OF assms(1)]])
  fix c :: "execution_request option"
  show "valid (case c of None \<Rightarrow> sent_once ok view | Some q \<Rightarrow> claimed_unsent ok view (er_id q))
    (case c of None \<Rightarrow> return ES_ArmedIdle | Some q \<Rightarrow> execute_claimed x env q now)
    (\<lambda>_. sent_once ok view) (sent_once ok view)"
    by (cases c) (auto intro: keeps_intros execute_once [OF assms])
qed

lemma step_keeps:
  assumes "benign ok view env" "le_store x = st" "le_config x = config"
  shows "keeps (sent_once ok view) (step x env now)"
  unfolding step_def
  by (intro keeps_intros calls_keep [OF assms(1,2)] exits_keep [OF assms(1,2)] reconcile_keeps [OF assms(1,2)]
      claim_and_execute_keeps [OF assms])

lemma run_keeps:
  assumes "executor_run x (benign ok view) w v" "le_store x = st" "le_config x = config" "sent_once ok view w"
  shows "sent_once ok view v"
  using assms(1,4)
  by (induction rule: executor_run.induct) (auto dest: keeps_snd [OF step_keeps [OF _ assms(2,3)]])

lemma run_distinct:
  assumes "executor_run x (benign ok view) w v" "le_store x = st" "le_config x = config"
    and "ok (wd_store w)" "wd_trace w = []"
  shows "distinct (map fst (sent_of (wd_trace v)))" "distinct (map snd (sent_of (wd_trace v)))"
  using run_keeps [OF assms(1-3)] assms(4,5) by (simp_all add: sent_once_def)

end

section \<open>A transaction is sent only after the last checks\<close>

text \<open>What the code has checked when it sends \<open>d\<close> for \<open>q\<close>: the request is validated and encoded as the
  call data of the draft, the last reading of the controls is armed, the last reading of the daily loss
  leaves room for the largest fee, the finalized block is the pinned one and the deadlines are fresh.\<close>

definition send_permitted ::
  "'s live_executor \<Rightarrow> 's env \<Rightarrow> datetime \<Rightarrow> execution_request \<Rightarrow> transaction_draft
   \<Rightarrow> control_state \<Rightarrow> u128 \<Rightarrow> datetime \<Rightarrow> bool" where
  "send_permitted x env now q d control loss clock \<longleftrightarrow>
     cs_armed control \<and> \<not> cs_kill_switch control \<and>
     unat loss + unat (er_gas_limit q) * unat (er_max_fee_per_gas q)
       \<le> unat (lim_maximum_daily_loss_wei (cf_limits (le_config x))) \<and>
     submission_deadlines_are_fresh q clock \<and>
     (\<exists>j k calldata.
        validate_and_encode (le_crates x) (ev_clock env j) (ev_clock env k) q (le_config x) now = Inr calldata \<and>
        d = draft_of (le_config x) q (td_nonce d) calldata)"

abbreviation pinned_of :: "execution_request \<Rightarrow> u64 \<times> string" where
  "pinned_of q \<equiv> (er_pinned_block_number q, er_pinned_block_hash q)"

definition unsent :: "event list \<Rightarrow> bool" where
  "unsent t \<longleftrightarrow> sent_of t = []"

definition guarded :: "'s live_executor \<Rightarrow> 's env \<Rightarrow> datetime \<Rightarrow> event list \<Rightarrow> bool" where
  "guarded x env now t \<longleftrightarrow> unsent t \<or>
    (\<exists>pre q d control loss clock. unsent pre \<and> send_permitted x env now q d control loss clock \<and>
       t = pre @ [EV_Control control, EV_Loss loss, EV_Block (pinned_of q), EV_Clock clock, EV_Send q d])"

definition ends :: "event list \<Rightarrow> event list \<Rightarrow> bool" where
  "ends es t \<longleftrightarrow> unsent t \<and> (\<exists>pre. t = pre @ es)"

lemma ends_unsent: "ends es t \<Longrightarrow> unsent t"
  by (simp add: ends_def)

lemma ends_Nil [simp]: "ends [] t = unsent t"
  by (simp add: ends_def)

lemma ends_snoc: "ends es t \<Longrightarrow> quiet e \<Longrightarrow> ends (es @ [e]) (t @ [e])"
  by (auto simp: ends_def unsent_def quiet_def)

lemma unsent_snoc: "unsent t \<Longrightarrow> quiet e \<Longrightarrow> unsent (t @ [e])"
  by (simp add: unsent_def quiet_def)

lemma unsent_guarded: "unsent t \<Longrightarrow> guarded x env now t"
  by (simp add: guarded_def)

lemma guarded_send:
  assumes "ends [EV_Control control, EV_Loss loss, EV_Block (pinned_of q), EV_Clock clock] t"
    and "send_permitted x env now q d control loss clock"
  shows "guarded x env now (t @ [EV_Send q d])"
proof -
  obtain pre where "t = pre @ [EV_Control control, EV_Loss loss, EV_Block (pinned_of q), EV_Clock clock]"
    "unsent pre" using assms(1) by (auto simp: ends_def unsent_def)
  then show ?thesis using assms(2) by (fastforce simp: guarded_def)
qed

text \<open>Calls leave the trace as it is.\<close>

lemma silent_external: "valid (\<lambda>w. R (wd_trace w)) (external_call env) (\<lambda>_ w. R (wd_trace w)) (\<lambda>w. R (wd_trace w))"
  by (rule valid_external_call) simp_all

lemma silent_attempt: "keeps (\<lambda>w. R (wd_trace w)) (attempt_call env call)"
  by (rule valid_attempt_call) simp_all

lemma silent_store: "keeps (\<lambda>w. R (wd_trace w)) (store_call env call)"
  by (rule valid_store_call) simp_all

lemma silent_calls:
  "keeps (\<lambda>w. R (wd_trace w)) (terminal_call x env i status reason outcome now)"
  "keeps (\<lambda>w. R (wd_trace w)) (disarm_call x env code)"
  "keeps (\<lambda>w. R (wd_trace w)) (unknown_call x env i code now)"
  "keeps (\<lambda>w. R (wd_trace w)) (monitor_call x env i code)"
  "keeps (\<lambda>w. R (wd_trace w)) (fail_unsubmitted_call x env i code now)"
  unfolding terminal_call_def disarm_call_def unknown_call_def monitor_call_def fail_unsubmitted_call_def
  by (intro keeps_bind silent_store silent_external)+

lemmas silent_rules = silent_external silent_attempt silent_store silent_calls

lemma silent_exits:
  "keeps (\<lambda>w. R (wd_trace w)) (disarm_for_rpc_error x env error r now)"
  "keeps (\<lambda>w. R (wd_trace w)) (disarm_for_submission_error x env error i k now)"
  "keeps (\<lambda>w. R (wd_trace w)) (refuse_receipt x env i code reason)"
  "keeps (\<lambda>w. R (wd_trace w)) (monitor_failure x env i error now)"
  "keeps (\<lambda>w. R (wd_trace w)) (fail_claimed x env i code now)"
  unfolding disarm_for_rpc_error_def disarm_for_submission_error_def refuse_receipt_def monitor_failure_def
    fail_claimed_def Let_def
  by (intro keeps_intros silent_rules)+

lemma sent_emit: "quiet e \<Longrightarrow> keeps (\<lambda>w. sent_of (wd_trace w) = l) (emit e)"
  by (rule valid_emit) (simp add: quiet_def)

lemma sent_reads:
  "keeps (\<lambda>w. sent_of (wd_trace w) = l) (read_loss x env now)"
  "keeps (\<lambda>w. sent_of (wd_trace w) = l) (read_control x env)"
  unfolding read_loss_def read_control_def
  by (intro keeps_bind silent_rules sent_emit keeps_simple quiet_simps)+

lemma sent_reconcile: "keeps (\<lambda>w. sent_of (wd_trace w) = l) (reconcile_active x env active now)"
  unfolding reconcile_active_def monitor_pending_def await_receipt_def complete_receipt_def confirm_receipt_def
    present_def arithmetic_def Let_def
  by (cases "av_status active"; simp)
    (intro keeps_intros silent_rules silent_exits sent_reads)+

lemmas unsent_reads = sent_reads [where l = "[]", folded unsent_def]
lemmas unsent_reconcile = sent_reconcile [where l = "[]", folded unsent_def]

text \<open>The readings, with what they add to the end of the trace.\<close>

abbreviation ending :: "event list \<Rightarrow> 's world \<Rightarrow> bool" where
  "ending es w \<equiv> ends es (wd_trace w)"

abbreviation silent :: "'s world \<Rightarrow> bool" where
  "silent w \<equiv> unsent (wd_trace w)"

lemma ending_emit: "quiet e \<Longrightarrow> valid (ending es) (emit e) (\<lambda>_. ending (es @ [e])) silent"
  by (rule valid_emit) (simp add: ends_snoc)

lemma ending_calls:
  "valid (ending es) (external_call env) (\<lambda>_. ending es) silent"
  "valid (ending es) (store_call env call) (\<lambda>_. ending es) silent"
  "valid (ending es) (arithmetic v) (\<lambda>a w. v = Some a \<and> ending es w) silent"
  subgoal by (rule valid_weaken [OF silent_external [where R = "ends es"]]) (auto dest: ends_unsent)
  subgoal by (rule valid_weaken [OF silent_store [where R = "ends es"]]) (auto dest: ends_unsent)
  subgoal unfolding arithmetic_def
    by (rule valid_of_result) (auto simp: result_simps dest: ends_unsent)
  done

lemma ending_reads:
  "valid silent (read_control x env) (\<lambda>c. ending [EV_Control c]) silent"
  "valid (ending es) (read_loss x env now) (\<lambda>l. ending (es @ [EV_Loss l])) silent"
  "valid (ending es) (read_clock env) (\<lambda>t. ending (es @ [EV_Clock t])) silent"
  subgoal unfolding read_control_def
    by (rule valid_bind [OF ending_calls(2) [where es = "[]", simplified]],
        rule valid_bind [OF ending_emit [where es = "[]", simplified]], simp, rule valid_return, simp)
  subgoal unfolding read_loss_def
    by (rule valid_bind [OF ending_calls(2)], rule valid_bind [OF ending_emit], simp, rule valid_return)
  subgoal unfolding read_clock_def
    by (rule valid_bind [OF ending_calls(1)], rule valid_bind [OF ending_emit], simp, rule valid_return)
  done

lemma ending_block:
  "valid (ending es) (pinned_block_is_current env q)
    (\<lambda>r w. silent w \<and> (unwrap_or False r \<longrightarrow> ending (es @ [EV_Block (pinned_of q)]) w)) silent"
  unfolding pinned_block_is_current_def
proof (intro valid_bind [OF ending_calls(1)] valid_sum)
  fix n and r :: "u64 \<times> string"
  obtain number hash where r: "r = (number, hash)" by (cases r)
  show "valid (ending es)
      (case r of (number, hash) \<Rightarrow>
         bind (emit (EV_Block (number, hash))) (\<lambda>_.
         return (Inr (number = er_pinned_block_number q \<and> hash = er_pinned_block_hash q))))
      (\<lambda>r w. silent w \<and> (unwrap_or False r \<longrightarrow> ending (es @ [EV_Block (pinned_of q)]) w)) silent"
    unfolding r prod.case
    by (rule valid_bind [OF ending_emit], simp, rule valid_return) (auto simp: unwrap_or_def dest: ends_unsent)
qed (auto intro!: valid_return simp: unwrap_or_def dest: ends_unsent)

lemma unsent_block: "keeps silent (pinned_block_is_current env q)"
  by (rule valid_weaken [OF ending_block [where es = "[]"]]) simp_all

lemma unsent_clock: "keeps silent (read_clock env)"
  by (rule valid_weaken [OF ending_reads(3) [where es = "[]"]]) (auto dest: ends_unsent)

lemma exit_silent:
  "keeps silent m \<Longrightarrow> (\<And>w. P w \<Longrightarrow> silent w) \<Longrightarrow> valid P m (\<lambda>_ w. guarded x env now (wd_trace w))
    (\<lambda>w. guarded x env now (wd_trace w))"
  by (erule valid_weaken) (auto intro: unsent_guarded)

lemma bind_guarded:
  assumes "valid P m R silent"
    and "\<And>a. valid (R a) (f a) (\<lambda>_ w. guarded x env now (wd_trace w)) (\<lambda>w. guarded x env now (wd_trace w))"
  shows "valid P (bind m f) (\<lambda>_ w. guarded x env now (wd_trace w)) (\<lambda>w. guarded x env now (wd_trace w))"
  by (rule valid_bind [OF valid_weaken [OF assms(1)] assms(2)]) (auto intro: unsent_guarded)

lemma broadcast_guarded:
  assumes "send_permitted x env now q d control loss clock"
  shows "valid (ending [EV_Control control, EV_Loss loss, EV_Block (pinned_of q), EV_Clock clock])
    (broadcast x env q d signed_tx now)
    (\<lambda>_ w. guarded x env now (wd_trace w)) (\<lambda>w. guarded x env now (wd_trace w))"
proof -
  have send: "valid (ending [EV_Control control, EV_Loss loss, EV_Block (pinned_of q), EV_Clock clock])
    (send_call env q d raw) (\<lambda>_ w. guarded x env now (wd_trace w)) (\<lambda>w. guarded x env now (wd_trace w))" for raw
    unfolding send_call_def
    by (rule bind_guarded [OF ending_calls(1)],
        rule valid_bind [OF valid_emit [where Q = "\<lambda>_ w. guarded x env now (wd_trace w)"]])
      (auto intro: guarded_send assms valid_return)
  show ?thesis
    unfolding broadcast_def Let_def
    by (rule valid_bind [OF send]) (intro keeps_intros silent_rules silent_exits)
qed

lemma exposure_bound:
  assumes "worst_case_fee q = Some fee" "checked_add loss fee = Some exposure" "exposure \<le> limit"
  shows "unat loss + unat (er_gas_limit q) * unat (er_max_fee_per_gas q) \<le> unat limit"
  using assms by (auto simp: worst_case_fee_def checked_simps word_le_nat_alt)

lemma valid_conj: "(c \<Longrightarrow> valid P m Q I) \<Longrightarrow> valid (\<lambda>w. c \<and> P w) m Q I"
  by (auto simp: valid_def)

lemmas guarded_exits = exit_silent keeps_intros silent_rules silent_exits

lemma fresh_guarded:
  assumes "\<And>clock. submission_deadlines_are_fresh q clock \<Longrightarrow> send_permitted x env now q d control loss clock"
  shows "valid (ending [EV_Control control, EV_Loss loss])
    (bind (pinned_block_is_current env q) (\<lambda>current.
     if \<not> unwrap_or False current then
       bind (fail_unsubmitted_call x env (er_id q) ''stale_pinned_block'' now) (\<lambda>_. return ES_ArmedIdle)
     else
     bind (read_clock env) (\<lambda>clock.
     if \<not> submission_deadlines_are_fresh q clock then
       bind (fail_unsubmitted_call x env (er_id q) ''stale_submission_deadline'' now) (\<lambda>_. return ES_ArmedIdle)
     else broadcast x env q d signed_tx now)))
    (\<lambda>_ w. guarded x env now (wd_trace w)) (\<lambda>w. guarded x env now (wd_trace w))"
proof (rule bind_guarded [OF ending_block], rule valid_if, goal_cases)
  case (1 r)
  show ?case by (intro guarded_exits) simp
next
  case block: (2 r)
  show ?case
  proof (rule valid_pre [where P = "ending [EV_Control control, EV_Loss loss, EV_Block (pinned_of q)]"],
      rule bind_guarded [OF ending_reads(3)], rule valid_if, goal_cases)
    case (1 clock)
    show ?case by (intro guarded_exits) (rule ends_unsent)
  next
    case (2 clock)
    then show ?case using broadcast_guarded [OF assms] by simp
  next
    case (3 w)
    then show ?case using block by simp
  qed
qed

lemma recheck_guarded:
  assumes "validate_and_encode (le_crates x) (ev_clock env j) (ev_clock env k) q (le_config x) now = Inr calldata"
    and "d = draft_of (le_config x) q n calldata"
  shows "valid silent (recheck_and_broadcast x env q d signed_tx now)
    (\<lambda>_ w. guarded x env now (wd_trace w)) (\<lambda>w. guarded x env now (wd_trace w))"
proof -
  have d: "d = draft_of (le_config x) q (td_nonce d) calldata" using assms(2) by (simp add: draft_of_def)
  show ?thesis
    unfolding recheck_and_broadcast_def Let_def
  proof (rule bind_guarded [OF ending_reads(1)], rule valid_if, goal_cases)
    case (1 control)
    show ?case by (intro guarded_exits) (rule ends_unsent)
  next
    case armed: (2 control)
    show ?case
    proof (rule bind_guarded [OF ending_reads(2)], rule bind_guarded [OF ending_calls(3)], rule valid_conj,
        rule bind_guarded [OF ending_calls(3)], rule valid_conj, rule valid_if, goal_cases)
      case (1 loss fee exposure)
      show ?case by (intro guarded_exits) (rule ends_unsent)
    next
      case (2 loss fee exposure)
      have "send_permitted x env now q d control loss clock" if "submission_deadlines_are_fresh q clock" for clock
        using armed that exposure_bound [OF 2(1,2)] 2(3) assms(1) d unfolding send_permitted_def by force
      then show ?case using fresh_guarded [of q x env now d control loss] by simp
    qed
  qed
qed

lemma submit_guarded:
  assumes "validate_and_encode (le_crates x) (ev_clock env j) (ev_clock env k) q (le_config x) now = Inr calldata"
  shows "valid silent (submit_allocated x env q calldata n now)
    (\<lambda>_ w. guarded x env now (wd_trace w)) (\<lambda>w. guarded x env now (wd_trace w))"
  unfolding submit_allocated_def Let_def
proof (rule bind_guarded [OF unsent_block], rule valid_if, goal_cases)
  case (1 r)
  show ?case by (intro guarded_exits)
next
  case (2 r)
  show ?case
  proof (rule bind_guarded [OF unsent_clock], rule valid_if, goal_cases)
    case (1 clock)
    show ?case by (intro guarded_exits)
  next
    case (2 clock)
    show ?case
    proof (rule valid_sum, goal_cases)
      case (1 error)
      show ?case by (intro guarded_exits)
    next
      case (2 signed_tx)
      show ?case by (rule bind_guarded [OF silent_store], rule recheck_guarded [OF assms refl])
    qed
  qed
qed

lemma execute_guarded:
  "valid silent (execute_claimed x env q now)
    (\<lambda>_ w. guarded x env now (wd_trace w)) (\<lambda>w. guarded x env now (wd_trace w))"
  unfolding execute_claimed_def Let_def
  by (intro bind_guarded [OF silent_external] bind_guarded [OF silent_store] valid_sum valid_bool
      submit_guarded guarded_exits)

lemma claim_guarded:
  "valid silent (claim_and_execute x env now)
    (\<lambda>_ w. guarded x env now (wd_trace w)) (\<lambda>w. guarded x env now (wd_trace w))"
  unfolding claim_and_execute_def
  by (intro bind_guarded [OF silent_store] valid_option execute_guarded guarded_exits)

lemma fresh_step_guarded:
  "valid silent
    (bind (read_control x env) (\<lambda>control.
    if \<not> cs_armed control \<or> cs_kill_switch control then return ES_DisarmedShadow
    else
    bind (read_loss x env now) (\<lambda>daily_loss.
    if lim_maximum_daily_loss_wei (cf_limits (le_config x)) \<le> daily_loss then
      bind (disarm_call x env ''daily_loss_budget'') (\<lambda>_. return (ES_Disarmed DR_DailyLossBudget))
    else
    bind (external_call env) (\<lambda>n.
    case ev_chain_id env n of
      Inl error \<Rightarrow> disarm_for_rpc_error x env error None now
    | Inr chain_id \<Rightarrow>
        if chain_id \<noteq> cf_chain_id (le_config x) then
          bind (disarm_call x env ''rpc_chain_mismatch'') (\<lambda>_. return (ES_Disarmed DR_ChainMismatch))
        else claim_and_execute x env now))))
    (\<lambda>_ w. guarded x env now (wd_trace w)) (\<lambda>w. guarded x env now (wd_trace w))"
proof (rule bind_guarded [OF unsent_reads(2)], rule valid_if, goal_cases)
  case (1 control)
  show ?case by (intro guarded_exits)
next
  case (2 control)
  show ?case
  proof (rule bind_guarded [OF unsent_reads(1)], rule valid_if, goal_cases)
    case (1 loss)
    show ?case by (intro guarded_exits)
  next
    case (2 loss)
    show ?case
    proof (rule bind_guarded [OF silent_external], rule valid_sum, goal_cases)
      case (1 n error)
      show ?case by (intro guarded_exits)
    next
      case (2 n chain_id)
      show ?case
      proof (rule valid_if, goal_cases)
        case 1
        show ?case by (intro guarded_exits)
      qed (rule claim_guarded)
    qed
  qed
qed

lemma step_guarded:
  "valid silent (step x env now)
    (\<lambda>_ w. guarded x env now (wd_trace w)) (\<lambda>w. guarded x env now (wd_trace w))"
  unfolding step_def
proof (rule bind_guarded [OF silent_store], rule valid_option)
  show "valid silent (reconcile_active x env active now)
      (\<lambda>_ w. guarded x env now (wd_trace w)) (\<lambda>w. guarded x env now (wd_trace w))" for active
    by (rule exit_silent [OF unsent_reconcile])
qed (rule fresh_step_guarded)

text \<open>C3: A step broadcasts at most one transaction, and only as its last observed action, directly after
  reading armed controls, a daily loss that with the largest possible fee of the request stays within the
  configured daily loss, the finalized block the request is pinned to and a clock within the approval and
  execution deadlines. The transaction is the configured call of the executor contract with the call data
  of the request as it passed the policy validation in this step. This holds for every store, every answer
  of the endpoint and every fault.\<close>

theorem step_send_guarded: "guarded x env now (wd_trace (snd (step x env now (w\<lparr>wd_trace := []\<rparr>))))"
  using valid_snd [OF step_guarded, of "w\<lparr>wd_trace := []\<rparr>"] by (simp add: unsent_def)

text \<open>Reconciling an active attempt, which is all a step does while there is one, never broadcasts a
  transaction: after a restart a submitted or possibly submitted request is only monitored, failed or
  disarmed, never sent again.\<close>

theorem reconcile_never_sends:
  "sent_of (wd_trace (snd (reconcile_active x env active now w))) = sent_of (wd_trace w)"
  using valid_snd [OF sent_reconcile] by blast

end
