(* ===== verification/Executor_Store_Laws.thy ===== *)
theory Executor_Store_Laws
  imports Executor_Safety
begin

text \<open>
  The laws of the Postgres store: which tables each operation leaves alone, the invariant of the attempts
  and the life cycle they follow, and the interpretation of the contract \<open>nonce_store\<close> on the store, from
  which the safety of the nonces of the whole executor follows.
\<close>

section \<open>Frames\<close>

definition same_attempts :: "db \<Rightarrow> db \<Rightarrow> bool" where
  "same_attempts d d' \<longleftrightarrow> db_attempts d' = db_attempts d \<and> db_nonces d' = db_nonces d"

lemma same_attempts_refl [simp]: "same_attempts d d"
  by (simp add: same_attempts_def)

lemma same_attempts_trans [trans]: "same_attempts d e \<Longrightarrow> same_attempts e f \<Longrightarrow> same_attempts d f"
  by (simp add: same_attempts_def)

named_theorems frames "operations that leave the attempts and the nonces alone"

lemma update_requests_frame [frames]: "update_requests p f d = (k, d') \<Longrightarrow> same_attempts d d'"
  by (auto simp: update_requests_def update_where_def same_attempts_def)

lemma update_candidates_frame [frames]: "update_candidates p s d = (k, d') \<Longrightarrow> same_attempts d d'"
  by (auto simp: update_candidates_def update_where_def same_attempts_def)

lemma update_request_status_frame [frames]: "update_request_status i a b d = Inr d' \<Longrightarrow> same_attempts d d'"
  by (auto simp: update_request_status_def split: prod.splits if_splits dest: frames)

lemma update_candidate_where_frame [frames]: "update_candidate_where i a b d = Inr d' \<Longrightarrow> same_attempts d d'"
  by (auto simp: update_candidate_where_def split: prod.splits if_splits dest: frames)

lemma update_candidate_status_frame [frames]:
  "update_candidate_status_for_request i a b d = Inr d' \<Longrightarrow> same_attempts d d'"
  unfolding update_candidate_status_for_request_def by (rule frames)

lemma release_lock_frame [frames]: "release_revenue_submission_lock cr i d = Inr d' \<Longrightarrow> same_attempts d d'"
  by (auto simp: release_revenue_submission_lock_def same_attempts_def split: if_splits)

lemma acquire_lock_frame [frames]: "acquire_lock cr q now d = Inr d' \<Longrightarrow> same_attempts d d'"
  by (auto simp: acquire_lock_def same_attempts_def split: if_splits)

lemma insert_transition_frame [frames]:
  "insert_runtime_transition p l p' l' r s e t d = Inr d' \<Longrightarrow> same_attempts d d'"
  by (auto simp: insert_runtime_transition_def same_attempts_def split: if_splits)

lemma fail_close_frame [frames]: "fail_close_execution_authority r t d = Inr d' \<Longrightarrow> same_attempts d d'"
  unfolding fail_close_execution_authority_def
  by (elim result_elims)
    (auto simp: update_where_def insert_runtime_transition_def update_candidates_def same_attempts_def
      split: if_splits)

lemma disarm_frame [frames]: "disarm t r d = Inr d' \<Longrightarrow> same_attempts d d'"
  unfolding disarm_def by (rule frames)

lemma insert_outcome_frame [frames]: "insert_outcome w d = Inr d' \<Longrightarrow> same_attempts d d'"
  by (auto simp: insert_outcome_def same_attempts_def split: if_splits)

lemma insert_autonomous_frame [frames]:
  "insert_autonomous_outcome i h n s st w t d = Inr d' \<Longrightarrow> same_attempts d d'"
  by (auto simp: insert_autonomous_outcome_def same_attempts_def result_simps split: option.splits if_splits)

lemma record_outcome_frame [frames]: "record_outcome cr i st w t row d = Inr d' \<Longrightarrow> same_attempts d d'"
  by (auto simp: record_outcome_def result_simps split: option.splits
      dest!: insert_outcome_frame insert_autonomous_frame intro: same_attempts_trans)

lemma route_feedback_frame [frames]:
  "route_feedback f l rl cl rs lv t d = (tr, d') \<Longrightarrow> same_attempts d d'"
  by (auto simp: route_feedback_def Let_def disarm_route_def cool_route_def same_attempts_def split: if_splits)

lemma disarm_daily_loss_frame: "same_attempts d (disarm_daily_loss e d)"
  by (simp add: disarm_daily_loss_def update_candidates_def update_where_def same_attempts_def)

lemma risk_feedback_frame [frames]: "apply_autonomous_risk_feedback i t d = Inr d' \<Longrightarrow> same_attempts d d'"
  unfolding apply_autonomous_risk_feedback_def
  by (elim result_elims)
    (auto simp: Let_def split: if_splits option.splits prod.splits
      dest!: route_feedback_frame insert_transition_frame
      intro: same_attempts_trans elim!: result_elims;
      meson same_attempts_trans disarm_daily_loss_frame)

section \<open>The attempts\<close>

text \<open>The attempt table after an operation that changes the rows with \<open>g\<close> and keeps them valid.\<close>

definition attempts_mapped :: "(attempt_row \<Rightarrow> attempt_row) \<Rightarrow> db \<Rightarrow> db \<Rightarrow> bool" where
  "attempts_mapped g d d' \<longleftrightarrow>
     db_attempts d' = map g (db_attempts d) \<and> list_all attempt_check (db_attempts d')"

abbreviation changing :: "(attempt_row \<Rightarrow> bool) \<Rightarrow> (attempt_row \<Rightarrow> attempt_row) \<Rightarrow> attempt_row \<Rightarrow> attempt_row" where
  "changing p f \<equiv> \<lambda>a. if p a then f a else a"

lemma update_attempts_Inr:
  "update_attempts p f d = Inr (k, d') \<Longrightarrow>
    attempts_mapped (changing p f) d d' \<and> db_nonces d' = db_nonces d \<and> k = length (filter p (db_attempts d))"
  by (auto simp: update_attempts_def update_where_def attempts_mapped_def split: if_splits)

lemma attempts_mapped_frame:
  "attempts_mapped g d e \<Longrightarrow> same_attempts e d' \<Longrightarrow> attempts_mapped g d d'"
  unfolding attempts_mapped_def same_attempts_def by metis

lemma attempts_mapped_frame':
  "same_attempts d e \<Longrightarrow> attempts_mapped g e d' \<Longrightarrow> attempts_mapped g d d'"
  unfolding attempts_mapped_def same_attempts_def by metis

lemma attempts_mapped_nonces: "attempts_mapped g (d\<lparr>db_nonces := ns\<rparr>) d' \<Longrightarrow> attempts_mapped g d d'"
  by (auto simp: attempts_mapped_def)

lemma upsert_nonce_frame [simp]: "db_attempts (upsert_nonce c w n d) = db_attempts d"
  by (simp add: upsert_nonce_def update_where_def)

lemma find_map: "List.find p (map g xs) = map_option g (List.find (\<lambda>a. p (g a)) xs)"
  by (induction xs) auto

lemma find_append: "List.find p (xs @ ys) = (case List.find p xs of None \<Rightarrow> List.find p ys | Some a \<Rightarrow> Some a)"
  by (induction xs) auto

lemma find_None_filter: "List.find p xs = None \<longleftrightarrow> filter p xs = []"
  by (induction xs) auto

lemma find_SomeD: "List.find p xs = Some a \<Longrightarrow> p a \<and> a \<in> set xs"
  by (induction xs) (auto split: if_splits)

lemma find_map_key:
  "(\<And>a. a \<in> set xs \<Longrightarrow> k (g a) = k a) \<Longrightarrow> List.find (\<lambda>b. k b = i) (map g xs) = map_option g (List.find (\<lambda>b. k b = i) xs)"
  by (induction xs) auto

lemma find_distinct:
  "distinct (map k xs) \<Longrightarrow> a \<in> set xs \<Longrightarrow> k a = i \<Longrightarrow> List.find (\<lambda>b. k b = i) xs = Some a"
  by (induction xs) (auto simp: rev_image_eqI)

lemma nonce_of_upsert: "nonce_of (upsert_nonce c w n d) c w = Some n"
proof -
  let ?p = "\<lambda>r. nn_chain_id r = c \<and> nn_wallet_address r = w"
  let ?g = "\<lambda>r. if ?p r then r\<lparr>nn_next_nonce := n\<rparr> else r"
  have g: "?p (?g r) = ?p r" for r by simp
  have "List.find ?p (map ?g (db_nonces d)) = map_option ?g (List.find ?p (db_nonces d))"
    unfolding find_map g ..
  then show ?thesis
    by (cases "List.find ?p (db_nonces d)")
      (auto simp: nonce_of_def upsert_nonce_def update_where_def find_append find_None_filter [symmetric]
        dest: find_SomeD)
qed

lemma allocate_nonce_Inr:
  assumes "allocate_nonce cr i cfg network d = Inr (n, d')"
  defines "wallet \<equiv> canonical_address_to_string cr (cf_wallet_address cfg)"
  shows "\<exists>chain. chain_column (cf_chain_id cfg) = Inr chain \<and>
    attempts_mapped (changing (\<lambda>a. at_request_id a = i \<and> at_status a = AS_Claimed)
       (\<lambda>a. a\<lparr>at_nonce := Some (unat n), at_status := AS_NonceAllocated\<rparr>)) d d' \<and>
    nonce_of d' chain wallet = Some (unat n + 1) \<and>
    (\<forall>m. nonce_of d chain wallet = Some m \<longrightarrow> m \<le> unat n) \<and>
    length (filter (\<lambda>a. at_request_id a = i \<and> at_status a = AS_Claimed) (db_attempts d)) = 1"
proof -
  let ?p = "\<lambda>a. at_request_id a = i \<and> at_status a = AS_Claimed"
  let ?f = "\<lambda>a. a\<lparr>at_nonce := Some (unat n), at_status := AS_NonceAllocated\<rparr>"
  from assms(1) obtain chain stored next_nonce e where c: "chain_column (cf_chain_id cfg) = Inr chain"
    and stored: "(case nonce_of d chain wallet of None \<Rightarrow> Inr None | Some n \<Rightarrow> map_ok Some (parse_u64 n)) = Inr stored"
    and n: "n = max (case stored of None \<Rightarrow> network | Some n \<Rightarrow> n) network"
    and next_nonce: "checked_add n 1 = Some next_nonce"
    and u: "update_attempts ?p ?f (upsert_nonce chain wallet (unat next_nonce) d) = Inr (1, e)"
    and same: "same_attempts e d'"
    unfolding allocate_nonce_def wallet_def
    apply (elim result_elims)
    subgoal premises prems for a y aa ya ab yb ac k e
      by (rule prems(1) [of a aa ab e]) (use prems(2-) in \<open>auto simp: ok_or_Inr dest!: update_requests_frame [OF sym]\<close>)
    done
  have "m \<le> unat n" if "nonce_of d chain wallet = Some m" for m
    using stored n that by (auto simp: parse_u64_def unat_of_nat_exact word_le_nat_alt max_def split: if_splits)
  moreover have "nonce_of d' chain wallet = Some (unat n + 1)"
    using update_attempts_Inr [OF u] same next_nonce nonce_of_upsert [of chain wallet "unat next_nonce" d]
    by (simp add: nonce_of_def same_attempts_def checked_simps)
  moreover have "attempts_mapped (changing ?p ?f) d d'"
    using update_attempts_Inr [OF u] same by (auto simp: attempts_mapped_def same_attempts_def)
  ultimately show ?thesis using c update_attempts_Inr [OF u] by auto
qed

text \<open>The life cycle of an attempt: the statuses that may follow a status.\<close>

fun may_follow :: "attempt_status \<Rightarrow> attempt_status \<Rightarrow> bool" where
  "may_follow AS_Claimed s = (s \<in> {AS_Claimed, AS_NonceAllocated, AS_Failed})"
| "may_follow AS_NonceAllocated s = (s \<in> {AS_NonceAllocated, AS_SubmissionUnknown, AS_Pending, AS_Failed})"
| "may_follow AS_Pending s = (s \<in> {AS_Pending, AS_Confirmed, AS_Reverted, AS_Replaced, AS_TimedOut, AS_Failed})"
| "may_follow AS_TimedOut s = (s \<in> {AS_TimedOut, AS_Confirmed, AS_Reverted, AS_Replaced, AS_Failed})"
| "may_follow t s = (s = t)"

lemma may_follow_refl [simp]: "may_follow s s"
  by (cases s) simp_all

lemma may_follow_active: "may_follow s t \<Longrightarrow> is_active t \<Longrightarrow> is_active s"
  by (cases s) auto

definition advances :: "attempt_row \<Rightarrow> attempt_row \<Rightarrow> bool" where
  "advances a b \<longleftrightarrow> at_request_id b = at_request_id a \<and> may_follow (at_status a) (at_status b) \<and>
     (at_nonce a \<noteq> None \<longrightarrow> at_nonce b = at_nonce a)"

lemma advances_refl [simp]: "advances a a"
  by (simp add: advances_def)

text \<open>An operation that only moves the attempts along their life cycle.\<close>

definition advancing :: "db \<Rightarrow> db \<Rightarrow> bool" where
  "advancing d d' \<longleftrightarrow> (\<exists>g. attempts_mapped g d d' \<and>
     (\<forall>a \<in> set (db_attempts d). attempt_check a \<longrightarrow> attempt_check (g a) \<longrightarrow> advances a (g a)))"

lemma advancing_changing:
  assumes "attempts_mapped (changing p f) d d'"
    and "\<And>a. p a \<Longrightarrow> attempt_check a \<Longrightarrow> attempt_check (f a) \<Longrightarrow> advances a (f a)"
  shows "advancing d d'"
  unfolding advancing_def by (rule exI [of _ "changing p f"]) (use assms in auto)

text \<open>An operation that changes neither the requests of the attempts nor any nonce.\<close>

definition relabelled :: "db \<Rightarrow> db \<Rightarrow> bool" where
  "relabelled d d' \<longleftrightarrow> db_nonces d' = db_nonces d \<and> (\<exists>g. db_attempts d' = map g (db_attempts d) \<and>
     (\<forall>a. at_request_id (g a) = at_request_id a \<and> at_nonce (g a) = at_nonce a))"

lemma relabelled_changing:
  assumes "attempts_mapped (changing p f) d d'" "db_nonces d' = db_nonces d"
    and "\<And>a. at_request_id (f a) = at_request_id a \<and> at_nonce (f a) = at_nonce a"
  shows "relabelled d d'"
  unfolding relabelled_def using assms by (auto simp: attempts_mapped_def intro!: exI [of _ "changing p f"])

lemma relabelled_frame: "same_attempts d d' \<Longrightarrow> relabelled d d'"
  by (auto simp: relabelled_def same_attempts_def intro!: exI [of _ "\<lambda>a. a"])

lemma allocate_nonce_advancing: "allocate_nonce cr i cfg network d = Inr (n, d') \<Longrightarrow> advancing d d'"
  by (drule allocate_nonce_Inr) (auto intro!: advancing_changing simp: advances_def attempt_check_def)

lemma mark_signed_frame [frames]: "mark_signed i t d = Inr d' \<Longrightarrow> same_attempts d d'"
  by (auto simp: mark_signed_def split: if_splits dest: frames)

lemma mark_submission_unknown_advancing:
  assumes "mark_submission_unknown i code t d = Inr d'"
  shows "advancing d d'" "relabelled d d'"
proof -
  obtain e where u: "update_attempts (unsubmitted i)
      (\<lambda>a. a\<lparr>at_status := AS_SubmissionUnknown, at_error_code := Some code\<rparr>) d = Inr (1, e)"
    and same: "same_attempts e d'"
    using assms unfolding mark_submission_unknown_def
    by (elim result_elims) (auto dest!: frames intro: same_attempts_trans)
  have nonces: "db_nonces d' = db_nonces d" using update_attempts_Inr [OF u] same by (simp add: same_attempts_def)
  note mapped = attempts_mapped_frame [OF conjunct1 [OF update_attempts_Inr [OF u]] same]
  show "relabelled d d'" by (rule relabelled_changing [OF mapped nonces]) simp
  show "advancing d d'"
    by (rule advancing_changing [OF mapped])
      (auto simp: advances_def unsubmitted_def)
qed

lemma mark_pending_advancing:
  assumes "mark_pending cr i h t d = Inr d'"
  shows "advancing d d'" "relabelled d d'"
proof -
  obtain e where u: "update_attempts
        (\<lambda>a. at_request_id a = i \<and> at_status a = AS_NonceAllocated \<and> at_tx_hash a = None)
        (\<lambda>a. a\<lparr>at_tx_hash := Some (transaction_hash_to_string cr h), at_status := AS_Pending,
               at_submitted_at := Some t\<rparr>) d = Inr (1, e)"
    and same: "same_attempts e d'"
    using assms unfolding mark_pending_def
    by (elim result_elims) (auto dest!: frames intro: same_attempts_trans)
  have nonces: "db_nonces d' = db_nonces d" using update_attempts_Inr [OF u] same by (simp add: same_attempts_def)
  note mapped = attempts_mapped_frame [OF conjunct1 [OF update_attempts_Inr [OF u]] same]
  show "relabelled d d'" by (rule relabelled_changing [OF mapped nonces]) simp
  show "advancing d d'"
    by (rule advancing_changing [OF mapped])
      (auto simp: advances_def)
qed

lemma record_monitor_error_advancing:
  assumes "record_monitor_error i code d = Inr d'"
  shows "advancing d d'" "relabelled d d'"
proof -
  have u: "update_attempts (\<lambda>a. at_request_id a = i \<and> at_status a \<in> {AS_Pending, AS_TimedOut})
        (\<lambda>a. a\<lparr>at_error_code := Some code\<rparr>) d = Inr (1, d')"
    using assms unfolding record_monitor_error_def by (elim result_elims) auto
  have nonces: "db_nonces d' = db_nonces d" using update_attempts_Inr [OF u] by (simp add: same_attempts_def)
  note mapped = conjunct1 [OF update_attempts_Inr [OF u]]
  show "relabelled d d'" by (rule relabelled_changing [OF mapped nonces]) simp
  show "advancing d d'"
    by (rule advancing_changing [OF mapped]) (auto simp: advances_def)
qed

lemma mark_terminal_Inr:
  assumes "mark_terminal cr i status code outcome t d = Inr d'"
  obtains row e e' where "terminal_arguments_ok status outcome"
    "List.find (\<lambda>a. at_request_id a = i \<and> terminal_from (at_status a)) (db_attempts d) = Some row"
    "record_outcome cr i status outcome t row d = Inr e"
    "update_attempts (\<lambda>a. at_request_id a = i \<and> terminal_from (at_status a))
         (\<lambda>a. a\<lparr>at_status := status, at_error_code := code, at_terminal_at := Some t\<rparr>) e = Inr (1, e')"
    "same_attempts e' d'"
  using assms unfolding mark_terminal_def
  apply (elim result_elims)
  subgoal premises prems for row e z k e' y k2 e2 cs e3 e4
  proof -
    have "same_attempts e' e2" using prems by (auto dest!: update_requests_frame [OF sym])
    moreover have "same_attempts e2 e3" "same_attempts e3 e4" using prems by (auto dest: frames)
    moreover have "same_attempts e4 d'" using prems by (auto dest: frames split: if_splits)
    ultimately have "same_attempts e' d'" by (blast intro: same_attempts_trans)
    then show ?thesis by (intro prems(1) [of row e e']) (use prems(2-) in \<open>auto simp: ok_or_Inr\<close>)
  qed
  done

lemma mark_terminal_advancing:
  assumes "mark_terminal cr i status code outcome t d = Inr d'"
  shows "advancing d d'" "relabelled d d'"
proof -
  obtain row e e' where ok: "terminal_arguments_ok status outcome"
    and r: "same_attempts d e" and u: "update_attempts (\<lambda>a. at_request_id a = i \<and> terminal_from (at_status a))
         (\<lambda>a. a\<lparr>at_status := status, at_error_code := code, at_terminal_at := Some t\<rparr>) e = Inr (1, e')"
    and same: "same_attempts e' d'"
    by (rule mark_terminal_Inr [OF assms]) (auto dest: record_outcome_frame)
  have nonces: "db_nonces d' = db_nonces d" using update_attempts_Inr [OF u] r same by (simp add: same_attempts_def)
  note mapped = attempts_mapped_frame' [OF r attempts_mapped_frame
      [OF conjunct1 [OF update_attempts_Inr [OF u]] same]]
  show "relabelled d d'" by (rule relabelled_changing [OF mapped nonces]) simp
  show "advancing d d'"
  proof (rule advancing_changing [OF mapped])
    fix a :: attempt_row
    let ?b = "a\<lparr>at_status := status, at_error_code := code, at_terminal_at := Some t\<rparr>"
    assume "at_request_id a = i \<and> terminal_from (at_status a)" "attempt_check a" "attempt_check ?b"
    then show "advances a ?b"
      using ok by (auto simp: advances_def attempt_check_def terminal_from_def terminal_arguments_ok_def)
  qed
qed

lemma fail_unsubmitted_Inr:
  assumes "fail_unsubmitted cr i code t d = Inr d'"
  obtains row n where "List.find (unsubmitted i) (db_attempts d) = Some row" "at_nonce row = Some n" "n + 1 < 2 ^ 64"
    "db_nonces d' = map (\<lambda>s. if nn_chain_id s = at_chain_id row \<and> nn_wallet_address s = at_wallet_address row
       \<and> nn_next_nonce s = n + 1 then s\<lparr>nn_next_nonce := n\<rparr> else s) (db_nonces d)"
    "attempts_mapped
       (changing (\<lambda>a. at_request_id a = i \<and> at_status a = AS_NonceAllocated \<and> at_tx_hash a = None)
         (\<lambda>a. a\<lparr>at_status := AS_Failed, at_error_code := Some code, at_terminal_at := Some t\<rparr>)) d d'"
  using assms unfolding fail_unsubmitted_def
  apply (elim result_elims)
  subgoal premises prems for row n nonce reserved y k nonces z k2 e e2 e3
  proof -
    have same: "same_attempts e d'" using prems by (auto dest!: frames intro: same_attempts_trans)
    have n: "unat nonce = n" "unat reserved = n + 1"
      using prems by (auto simp: ok_or_Inr parse_u64_def checked_simps unat_of_nat_exact split: if_splits)
    have "n + 1 < 2 ^ 64" using n(2) unat_less_exp [of reserved] by simp
    moreover have u: "update_attempts
       (\<lambda>a. at_request_id a = i \<and> at_status a = AS_NonceAllocated \<and> at_tx_hash a = None)
       (\<lambda>a. a\<lparr>at_status := AS_Failed, at_error_code := Some code, at_terminal_at := Some t\<rparr>)
       (d\<lparr>db_nonces := nonces\<rparr>) = Inr (1, e)" using prems by auto
    moreover have "db_nonces d' = nonces"
      using update_attempts_Inr [OF u] same by (simp add: same_attempts_def)
    moreover have "attempts_mapped
       (changing (\<lambda>a. at_request_id a = i \<and> at_status a = AS_NonceAllocated \<and> at_tx_hash a = None)
         (\<lambda>a. a\<lparr>at_status := AS_Failed, at_error_code := Some code, at_terminal_at := Some t\<rparr>)) d d'"
      by (rule attempts_mapped_nonces [OF attempts_mapped_frame [OF conjunct1 [OF update_attempts_Inr [OF u]] same]])
    ultimately show ?thesis
      by (intro prems(1) [of row n]) (use prems(2-) n in \<open>auto simp: ok_or_Inr column_def update_where_def\<close>)
  qed
  done

lemma insert_attempt_Inr:
  "insert_attempt a d = Inr d' \<Longrightarrow>
    db_attempts d' = db_attempts d @ [a] \<and> db_nonces d' = db_nonces d \<and> attempt_check a \<and>
    at_request_id a \<notin> at_request_id ` set (db_attempts d)"
  by (auto simp: insert_attempt_def list_ex_iff split: if_splits)

lemma claim_row_Inr:
  assumes "claim_row cr cfg now row d = Inr (c, d')"
  obtains q a where "c = Some q" "decode_request cr row = Inr q" "at_request_id a = er_id q"
    "at_status a = AS_Claimed" "attempt_check a" "er_id q \<notin> at_request_id ` set (db_attempts d)"
    "db_attempts d' = db_attempts d @ [a]" "db_nonces d' = db_nonces d"
    "lk_active_lane (db_lock d') \<noteq> None" "lk_active_identity (db_lock d') = Some (cr_uuid_to_string cr (er_id q))"
  using assms unfolding claim_row_def
  apply (elim result_elims)
  subgoal premises prems for q e chain e2 e3 e4
  proof -
    have "same_attempts d e" "same_attempts e2 d'"
      using prems by (auto dest!: frames intro: same_attempts_trans)
    moreover have "lk_active_lane (db_lock d') \<noteq> None"
      "lk_active_identity (db_lock d') = Some (cr_uuid_to_string cr (er_id q))"
      using prems by (auto simp: acquire_lock_def split: if_splits)
    ultimately show ?thesis using prems(2-) insert_attempt_Inr [OF prems(5)]
      by (intro prems(1)) (auto simp: same_attempts_def)
  qed
  done

lemma next_claim_Some:
  assumes "next_claim p d = Some row"
  shows "row \<in> set (db_requests d) \<and> p row"
proof -
  let ?l = "sort_key (\<lambda>r. (the (rw_approved_at r), rw_id r)) (filter p (db_requests d))"
  have "?l \<noteq> [] \<and> row = hd ?l"
    using assms by (auto simp: next_claim_def first_def split: list.splits)
  then have "row \<in> set ?l" by (metis list.set_sel(1))
  then show ?thesis by simp
qed

lemma claim_approved_cases:
  assumes "claim_approved cr cfg now d = Inr (c, d')"
  obtains "c = None" "d' = d"
  | lane row where "find_lane d ''aave_liquidation'' = Some lane" "dex_enabled d \<or> aave_enabled d lane"
      "lk_active_lane (db_lock d) = None" "\<And>a. a \<in> set (db_attempts d) \<Longrightarrow> \<not> is_active (at_status a)"
      "next_claim (claimable (dex_enabled d) (aave_enabled d lane) (eco_current_input_wei (db_economic d))
        (ln_maximum_input_amount lane) (pv_request_evidence_not_before (db_provider d)) now) d = Some row"
      "claim_row cr cfg now row d = Inr (c, d')"
  using assms unfolding claim_approved_def
  by (elim result_elims) (auto simp: ok_or_Inr list_ex_iff split: if_splits option.splits)

section \<open>The invariant of the attempts\<close>

text \<open>The attempts have distinct requests, satisfy the CHECK constraint, and one at most is active.\<close>

definition attempts_ok :: "db \<Rightarrow> bool" where
  "attempts_ok d \<longleftrightarrow> distinct (map at_request_id (db_attempts d)) \<and> list_all attempt_check (db_attempts d) \<and>
     length (filter (\<lambda>a. is_active (at_status a)) (db_attempts d)) \<le> 1"

lemma filter_map_length:
  "(\<And>a. a \<in> set xs \<Longrightarrow> p (g a) \<Longrightarrow> p a) \<Longrightarrow> length (filter p (map g xs)) \<le> length (filter p xs)"
  by (induction xs) (auto intro: le_SucI)

lemma advancing_ok:
  assumes "advancing d d'" "attempts_ok d"
  shows "attempts_ok d'"
proof -
  obtain g where g: "db_attempts d' = map g (db_attempts d)" "list_all attempt_check (db_attempts d')"
    and adv: "\<And>a. a \<in> set (db_attempts d) \<Longrightarrow> advances a (g a)"
    using assms unfolding advancing_def attempts_mapped_def attempts_ok_def
    by (elim exE conjE) (rule that, auto simp: list_all_iff)
  have "map at_request_id (db_attempts d') = map at_request_id (db_attempts d)"
    using adv by (simp add: g(1) advances_def)
  moreover have "length (filter (\<lambda>a. is_active (at_status a)) (db_attempts d'))
      \<le> length (filter (\<lambda>a. is_active (at_status a)) (db_attempts d))"
    unfolding g(1) by (rule filter_map_length) (use adv may_follow_active in \<open>auto simp: advances_def\<close>)
  ultimately show ?thesis using assms(2) g(2) by (simp add: attempts_ok_def)
qed

lemma advancing_frame: "same_attempts d d' \<Longrightarrow> attempts_ok d \<Longrightarrow> attempts_ok d'"
  by (simp add: attempts_ok_def same_attempts_def)

lemma fail_unsubmitted_advancing: "fail_unsubmitted cr i code t d = Inr d' \<Longrightarrow> advancing d d'"
  by (erule fail_unsubmitted_Inr) (auto intro!: advancing_changing simp: advances_def)

lemma claim_approved_ok:
  assumes "claim_approved cr cfg now d = Inr (c, d')" "attempts_ok d"
  shows "attempts_ok d'"
  using assms(1)
proof (cases rule: claim_approved_cases)
  case 1
  then show ?thesis using assms(2) by simp
next
  case (2 lane row)
  obtain q a where "c = Some q" "at_request_id a = er_id q" "at_status a = AS_Claimed" "attempt_check a"
    "er_id q \<notin> at_request_id ` set (db_attempts d)" "db_attempts d' = db_attempts d @ [a]"
    by (rule claim_row_Inr [OF 2(6)]) (rule that)
  moreover have "filter (\<lambda>a. is_active (at_status a)) (db_attempts d) = []"
    using 2(4) by (simp add: filter_empty_conv)
  ultimately show ?thesis using assms(2) by (simp add: attempts_ok_def)
qed

section \<open>The contract of the engine\<close>

definition pg_view :: "crates \<Rightarrow> executor_config \<Rightarrow> db \<Rightarrow> nonce_view" where
  "pg_view cr cfg d =
    \<lparr>nv_attempts = (\<lambda>i. map_option at_nonce (List.find (\<lambda>a. at_request_id a = i) (db_attempts d))),
     nv_next =
       (case chain_column (cf_chain_id cfg) of
          Inl _ \<Rightarrow> 0
        | Inr chain \<Rightarrow>
            (case nonce_of d chain (canonical_address_to_string cr (cf_wallet_address cfg)) of
               None \<Rightarrow> 0 | Some n \<Rightarrow> n))\<rparr>"

lemma nonce_of_cong: "db_nonces d' = db_nonces d \<Longrightarrow> nonce_of d' = nonce_of d"
  by (simp add: nonce_of_def fun_eq_iff)

lemma nv_next_same:
  assumes "db_nonces d' = db_nonces d"
  shows "nv_next (pg_view cr cfg d') = nv_next (pg_view cr cfg d)"
  unfolding pg_view_def nonce_of_cong [OF assms] by simp

lemma find_advancing:
  assumes "advancing d d'" "attempts_ok d"
  shows "\<exists>g. (\<forall>i. List.find (\<lambda>a. at_request_id a = i) (db_attempts d')
       = map_option g (List.find (\<lambda>a. at_request_id a = i) (db_attempts d))) \<and>
    (\<forall>a \<in> set (db_attempts d). advances a (g a)) \<and> db_attempts d' = map g (db_attempts d)"
proof -
  obtain g where g: "db_attempts d' = map g (db_attempts d)" "list_all attempt_check (db_attempts d')"
    and adv: "\<And>a. a \<in> set (db_attempts d) \<Longrightarrow> advances a (g a)"
    using assms unfolding advancing_def attempts_mapped_def attempts_ok_def
    by (elim exE conjE) (rule that, auto simp: list_all_iff)
  have key: "at_request_id (g a) = at_request_id a" if "a \<in> set (db_attempts d)" for a
    using adv [OF that] by (simp add: advances_def)
  have f: "List.find (\<lambda>a. at_request_id a = i) (db_attempts d')
      = map_option g (List.find (\<lambda>a. at_request_id a = i) (db_attempts d))" for i
    unfolding g(1) by (rule find_map_key) (rule key)
  show ?thesis by (intro exI [of _ g] conjI allI ballI f adv g(1))
qed

lemma view_advancing:
  assumes "advancing d d'" "attempts_ok d" "nv_next (pg_view cr cfg d) \<le> nv_next (pg_view cr cfg d')"
  shows "extends (pg_view cr cfg d) (pg_view cr cfg d')"
proof -
  obtain g where find: "\<forall>i. List.find (\<lambda>a. at_request_id a = i) (db_attempts d')
       = map_option g (List.find (\<lambda>a. at_request_id a = i) (db_attempts d))"
    and adv: "\<forall>a \<in> set (db_attempts d). advances a (g a)"
    using find_advancing [OF assms(1,2)] by (elim exE conjE) (rule that)
  note g = spec [OF find]
  have attempts: "nv_attempts (pg_view cr cfg d') i
      = map_option (\<lambda>a. at_nonce (g a)) (List.find (\<lambda>a. at_request_id a = i) (db_attempts d))" for i
    by (simp add: pg_view_def g option.map_comp comp_def)
  have kept: "nv_attempts (pg_view cr cfg d') i = Some (Some n)"
    if i: "nv_attempts (pg_view cr cfg d) i = Some (Some n)" for i n
  proof -
    obtain a where a: "List.find (\<lambda>a. at_request_id a = i) (db_attempts d) = Some a" "at_nonce a = Some n"
      using i by (auto simp: pg_view_def)
    have "advances a (g a)" using adv find_SomeD [OF a(1)] by blast
    then show ?thesis unfolding attempts a(1) using a(2) by (simp add: advances_def)
  qed
  have "nv_attempts (pg_view cr cfg d') i \<noteq> None" if "nv_attempts (pg_view cr cfg d) i \<noteq> None" for i
    using that unfolding attempts by (simp add: pg_view_def)
  with kept assms(3) show ?thesis unfolding extends_def by (intro conjI allI impI)
qed

lemma view_frame:
  assumes "same_attempts d d'"
  shows "pg_view cr cfg d' = pg_view cr cfg d"
proof -
  have same: "db_attempts d' = db_attempts d" "nonce_of d' = nonce_of d"
    using assms nonce_of_cong [of d' d] by (simp_all add: same_attempts_def)
  show ?thesis unfolding pg_view_def same ..
qed

lemma view_relabelled:
  assumes "relabelled d d'"
  shows "pg_view cr cfg d' = pg_view cr cfg d"
proof -
  obtain g where g: "db_attempts d' = map g (db_attempts d)"
    "\<forall>a. at_request_id (g a) = at_request_id a \<and> at_nonce (g a) = at_nonce a"
    using assms by (auto simp: relabelled_def)
  have found: "map_option at_nonce (List.find (\<lambda>a. at_request_id a = i) (map g (db_attempts d)))
      = map_option at_nonce (List.find (\<lambda>a. at_request_id a = i) (db_attempts d))" for i
    using g(2) by (subst find_map_key) (simp_all add: option.map_comp comp_def)
  have nonces: "nonce_of d' = nonce_of d" using assms by (intro nonce_of_cong) (simp add: relabelled_def)
  show ?thesis unfolding pg_view_def g(1) found nonces ..
qed

lemma claim_law:
  assumes "claim_approved cr cfg now d = Inr (c, d')"
  shows "extends (pg_view cr cfg d) (pg_view cr cfg d')"
    "c = Some q \<Longrightarrow> nv_attempts (pg_view cr cfg d) (er_id q) = None"
    "c = Some q \<Longrightarrow> nv_attempts (pg_view cr cfg d') (er_id q) \<noteq> None"
proof -
  have "extends (pg_view cr cfg d) (pg_view cr cfg d') \<and> (\<forall>q. c = Some q \<longrightarrow>
     nv_attempts (pg_view cr cfg d) (er_id q) = None \<and> nv_attempts (pg_view cr cfg d') (er_id q) \<noteq> None)"
    using assms
  proof (cases rule: claim_approved_cases)
    case (2 lane row)
    obtain p a where c: "c = Some p" and a: "at_request_id a = er_id p" "er_id p \<notin> at_request_id ` set (db_attempts d)"
      "db_attempts d' = db_attempts d @ [a]" "db_nonces d' = db_nonces d"
      by (rule claim_row_Inr [OF 2(6)]) (rule that)
    have "List.find (\<lambda>a. at_request_id a = er_id p) (db_attempts d) = None"
      using a(2) by (force simp: find_None_iff)
    then show ?thesis
      using c a nv_next_same [OF a(4), of cr cfg]
      by (auto simp: pg_view_def extends_def find_append split: option.splits)
  qed simp
  then show "extends (pg_view cr cfg d) (pg_view cr cfg d')"
    "c = Some q \<Longrightarrow> nv_attempts (pg_view cr cfg d) (er_id q) = None"
    "c = Some q \<Longrightarrow> nv_attempts (pg_view cr cfg d') (er_id q) \<noteq> None" by auto
qed

lemma allocate_law:
  assumes "allocate_nonce cr i cfg network d = Inr (n, d')" "attempts_ok d"
  shows "extends (pg_view cr cfg d) (pg_view cr cfg d') \<and> nv_next (pg_view cr cfg d) \<le> unat n \<and>
    nv_next (pg_view cr cfg d') = unat n + 1 \<and> nv_attempts (pg_view cr cfg d') i = Some (Some (unat n))"
proof -
  let ?p = "\<lambda>a. at_request_id a = i \<and> at_status a = AS_Claimed"
  obtain chain where chain: "chain_column (cf_chain_id cfg) = Inr chain"
    and m: "attempts_mapped (changing ?p (\<lambda>a. a\<lparr>at_nonce := Some (unat n), at_status := AS_NonceAllocated\<rparr>)) d d'"
    and new: "nonce_of d' chain (canonical_address_to_string cr (cf_wallet_address cfg)) = Some (unat n + 1)"
    and old: "\<forall>m. nonce_of d chain (canonical_address_to_string cr (cf_wallet_address cfg)) = Some m \<longrightarrow> m \<le> unat n"
    and one: "length (filter ?p (db_attempts d)) = 1"
    using allocate_nonce_Inr [OF assms(1)] by blast
  have next_nonce: "nv_next (pg_view cr cfg d) \<le> unat n" "nv_next (pg_view cr cfg d') = unat n + 1"
    using old new by (auto simp: pg_view_def chain split: option.splits)
  have "\<exists>a. a \<in> set (db_attempts d) \<and> ?p a"
    using one by (metis (mono_tags, lifting) filter_False length_0_conv zero_neq_one)
  then obtain a where a: "a \<in> set (db_attempts d)" "?p a" by blast
  have f: "List.find (\<lambda>b. at_request_id b = i) (db_attempts d) = Some a"
    by (rule find_distinct) (use a assms(2) in \<open>auto simp: attempts_ok_def\<close>)
  have g: "List.find (\<lambda>b. at_request_id b = i) (db_attempts d') = map_option
      (changing ?p (\<lambda>a. a\<lparr>at_nonce := Some (unat n), at_status := AS_NonceAllocated\<rparr>))
      (List.find (\<lambda>b. at_request_id b = i) (db_attempts d))"
    unfolding conjunct1 [OF m [unfolded attempts_mapped_def]] by (rule find_map_key) simp
  have "nv_attempts (pg_view cr cfg d') i = Some (Some (unat n))"
    using f a(2) by (simp add: pg_view_def g)
  then show ?thesis
    using next_nonce view_advancing [OF allocate_nonce_advancing [OF assms(1)] assms(2)] by simp
qed

lemma fail_unsubmitted_view:
  assumes "fail_unsubmitted cr i code t d = Inr d'" "attempts_ok d"
  shows "\<exists>m. nv_attempts (pg_view cr cfg d) i = Some (Some m) \<and>
    nv_attempts (pg_view cr cfg d') = nv_attempts (pg_view cr cfg d) \<and>
    (nv_next (pg_view cr cfg d') = nv_next (pg_view cr cfg d) \<or>
     nv_next (pg_view cr cfg d) = m + 1 \<and> nv_next (pg_view cr cfg d') = m)"
proof -
  let ?p = "\<lambda>a. at_request_id a = i \<and> at_status a = AS_NonceAllocated \<and> at_tx_hash a = None"
  let ?f = "\<lambda>a. a\<lparr>at_status := AS_Failed, at_error_code := Some code, at_terminal_at := Some t\<rparr>"
  obtain row m where row: "List.find (unsubmitted i) (db_attempts d) = Some row" "at_nonce row = Some m"
    and nonces: "db_nonces d' = map (\<lambda>s. if nn_chain_id s = at_chain_id row \<and> nn_wallet_address s = at_wallet_address row
       \<and> nn_next_nonce s = m + 1 then s\<lparr>nn_next_nonce := m\<rparr> else s) (db_nonces d)"
    and attempts: "attempts_mapped (changing ?p ?f) d d'"
    by (rule fail_unsubmitted_Inr [OF assms(1)]) (rule that)
  have find: "List.find (\<lambda>a. at_request_id a = j) (db_attempts d')
      = map_option (changing ?p ?f) (List.find (\<lambda>a. at_request_id a = j) (db_attempts d))" for j
    unfolding conjunct1 [OF attempts [unfolded attempts_mapped_def]] by (rule find_map_key) simp
  have "at_nonce (changing ?p ?f a) = at_nonce a" for a by simp
  then have attempts_same: "nv_attempts (pg_view cr cfg d') = nv_attempts (pg_view cr cfg d)"
    by (simp add: pg_view_def find option.map_comp comp_def)
  have "List.find (\<lambda>a. at_request_id a = i) (db_attempts d) = Some row"
    by (rule find_distinct) (use find_SomeD [OF row(1)] assms(2) in \<open>auto simp: attempts_ok_def unsubmitted_def\<close>)
  then have m: "nv_attempts (pg_view cr cfg d) i = Some (Some m)" using row(2) by (simp add: pg_view_def)
  let ?g = "\<lambda>s. if nn_chain_id s = at_chain_id row \<and> nn_wallet_address s = at_wallet_address row
       \<and> nn_next_nonce s = m + 1 then s\<lparr>nn_next_nonce := m\<rparr> else s"
  have g: "List.find (\<lambda>r. (nn_chain_id r, nn_wallet_address r) = (chain, wallet)) (map ?g (db_nonces d)) =
      map_option ?g (List.find (\<lambda>r. (nn_chain_id r, nn_wallet_address r) = (chain, wallet)) (db_nonces d))"
    for chain wallet by (rule find_map_key) simp
  have step: "nonce_of d' chain wallet = nonce_of d chain wallet \<or>
      nonce_of d chain wallet = Some (m + 1) \<and> nonce_of d' chain wallet = Some m" for chain wallet
  proof (cases "List.find (\<lambda>r. (nn_chain_id r, nn_wallet_address r) = (chain, wallet)) (db_nonces d)")
    case None
    then show ?thesis using g [of chain wallet] unfolding nonce_of_def nonces prod.inject by simp
  next
    case (Some r)
    then have "nonce_of d chain wallet = Some (nn_next_nonce r)"
      "nonce_of d' chain wallet = Some (nn_next_nonce (?g r))"
      using g [of chain wallet] unfolding nonce_of_def nonces prod.inject by simp_all
    then show ?thesis by (auto split: if_splits)
  qed
  have "nv_next (pg_view cr cfg d') = nv_next (pg_view cr cfg d) \<or>
     nv_next (pg_view cr cfg d) = m + 1 \<and> nv_next (pg_view cr cfg d') = m"
  proof (cases "chain_column (cf_chain_id cfg)")
    case (Inr chain)
    then show ?thesis
      using step [of chain "canonical_address_to_string cr (cf_wallet_address cfg)"] by (auto simp: pg_view_def)
  qed (simp add: pg_view_def)
  with m attempts_same show ?thesis by blast
qed

lemma give_back_law:
  assumes "fail_unsubmitted cr i code t d = Inr d'" "attempts_ok d"
  shows "nv_attempts (pg_view cr cfg d') = nv_attempts (pg_view cr cfg d)"
    "nv_attempts (pg_view cr cfg d) i = Some (Some n) \<Longrightarrow> n < nv_next (pg_view cr cfg d) \<Longrightarrow>
      n \<le> nv_next (pg_view cr cfg d')"
  using fail_unsubmitted_view [OF assms, of cfg] by auto

lemma advancing_law:
  assumes "advancing d d'" "relabelled d d'" "attempts_ok d"
  shows "attempts_ok d' \<and> extends (pg_view cr cfg d) (pg_view cr cfg d')"
  unfolding view_relabelled [OF assms(2)] using advancing_ok [OF assms(1,3)] by simp

lemma frame_law:
  assumes "same_attempts d d'" "attempts_ok d"
  shows "attempts_ok d' \<and> extends (pg_view cr cfg d) (pg_view cr cfg d')"
  unfolding view_frame [OF assms(1)] using advancing_frame [OF assms] by simp

lemma postgres_store_simps:
  "so_active_attempt (postgres_store cr) = read_active_attempt cr"
  "so_control_state (postgres_store cr) = read_control_state"
  "so_claim_approved (postgres_store cr) = claim_approved cr"
  "so_allocate_nonce (postgres_store cr) = allocate_nonce cr"
  "so_mark_signed (postgres_store cr) = mark_signed"
  "so_mark_submission_unknown (postgres_store cr) = mark_submission_unknown"
  "so_fail_unsubmitted (postgres_store cr) = fail_unsubmitted cr"
  "so_mark_pending (postgres_store cr) = mark_pending cr"
  "so_mark_terminal (postgres_store cr) = mark_terminal cr"
  "so_record_monitor_error (postgres_store cr) = record_monitor_error"
  "so_daily_loss_wei (postgres_store cr) = read_daily_loss_wei"
  "so_disarm (postgres_store cr) = disarm"
  by (simp_all add: postgres_store_def)

interpretation pg: nonce_store "postgres_store cr" cfg attempts_ok "pg_view cr cfg" for cr cfg
proof (unfold_locales, unfold postgres_store_simps, goal_cases)
  case (1 s now claimed s')
  show ?case by (intro conjI allI impI claim_approved_ok [OF 1(2,1)] claim_law [OF 1(2)])
next
  case (2 s i network n s')
  show ?case by (rule conjI [OF advancing_ok [OF allocate_nonce_advancing [OF 2(2)] 2(1)] allocate_law [OF 2(2,1)]])
next
  case (3 s i code now s')
  show ?case
    by (intro conjI allI impI advancing_ok [OF fail_unsubmitted_advancing [OF 3(2)] 3(1)] give_back_law [OF 3(2,1)])
next
  case (4 s i now s')
  then show ?case by (intro frame_law mark_signed_frame)
next
  case (5 s i code now s')
  then show ?case by (intro advancing_law mark_submission_unknown_advancing)
next
  case (6 s i h now s')
  then show ?case by (intro advancing_law mark_pending_advancing)
next
  case (7 s i status reason outcome now s')
  then show ?case by (intro advancing_law mark_terminal_advancing)
next
  case (8 s i code s')
  then show ?case by (intro advancing_law record_monitor_error_advancing)
next
  case (9 s now code s')
  then show ?case by (intro frame_law disarm_frame)
qed

section \<open>The life cycle of the attempts\<close>

text \<open>A committed transaction of the store.\<close>

inductive store_step :: "crates \<Rightarrow> executor_config \<Rightarrow> db \<Rightarrow> db \<Rightarrow> bool" for cr cfg where
  step_claim: "claim_approved cr cfg now d = Inr (c, d') \<Longrightarrow> store_step cr cfg d d'"
| step_allocate: "allocate_nonce cr i cfg network d = Inr (n, d') \<Longrightarrow> store_step cr cfg d d'"
| step_signed: "mark_signed i now d = Inr d' \<Longrightarrow> store_step cr cfg d d'"
| step_unknown: "mark_submission_unknown i code now d = Inr d' \<Longrightarrow> store_step cr cfg d d'"
| step_fail: "fail_unsubmitted cr i code now d = Inr d' \<Longrightarrow> store_step cr cfg d d'"
| step_pending: "mark_pending cr i h now d = Inr d' \<Longrightarrow> store_step cr cfg d d'"
| step_terminal: "mark_terminal cr i status reason outcome now d = Inr d' \<Longrightarrow> store_step cr cfg d d'"
| step_monitor: "record_monitor_error i code d = Inr d' \<Longrightarrow> store_step cr cfg d d'"
| step_disarm: "disarm now code d = Inr d' \<Longrightarrow> store_step cr cfg d d'"
| step_drain: "drain_executor_identity cr address d = Inr (drained, d') \<Longrightarrow> store_step cr cfg d d'"

lemma drain_frame [frames]: "drain_executor_identity cr address d = Inr (drained, d') \<Longrightarrow> same_attempts d d'"
  unfolding drain_executor_identity_def
  by (elim result_elims)
    (auto simp: update_where_def same_attempts_def dest!: update_requests_frame [OF sym] update_candidates_frame [OF sym])

lemma store_step_cases:
  assumes "store_step cr cfg d d'"
  obtains now c where "claim_approved cr cfg now d = Inr (c, d')" | "advancing d d'" | "same_attempts d d'"
  using assms
proof cases
qed (auto intro: that frames allocate_nonce_advancing fail_unsubmitted_advancing
    mark_submission_unknown_advancing(1) mark_pending_advancing(1) mark_terminal_advancing(1)
    record_monitor_error_advancing(1))

lemma store_step_ok:
  assumes "store_step cr cfg d d'" "attempts_ok d"
  shows "attempts_ok d'"
  using assms(1)
  by (cases rule: store_step_cases)
    (auto intro: claim_approved_ok [OF _ assms(2)] advancing_ok [OF _ assms(2)] advancing_frame [OF _ assms(2)])

lemma store_step_attempts:
  assumes "store_step cr cfg d d'" "attempts_ok d" "a \<in> set (db_attempts d)"
  shows "\<exists>b \<in> set (db_attempts d'). advances a b"
  using assms(1)
proof (cases rule: store_step_cases)
  case (1 now c)
  then show ?thesis
  proof (cases rule: claim_approved_cases)
    case (2 lane row)
    then have "set (db_attempts d) \<subseteq> set (db_attempts d')" by (auto elim!: claim_row_Inr)
    then show ?thesis using assms(3) by (auto intro!: bexI [of _ a])
  qed (use assms(3) in \<open>auto intro!: bexI [of _ a]\<close>)
next
  case 2
  obtain g where "\<forall>a \<in> set (db_attempts d). advances a (g a)" "db_attempts d' = map g (db_attempts d)"
    using find_advancing [OF 2 assms(2)] by (elim exE conjE) (rule that)
  then show ?thesis using assms(3) by auto
next
  case 3
  then show ?thesis using assms(3) by (auto simp: same_attempts_def intro!: bexI [of _ a])
qed

text \<open>C6: Every committed transaction of the store keeps at most one attempt active, one attempt per
  request and the CHECK constraint of every attempt, and moves each attempt only along its life cycle:
  an attempt never disappears, an assigned nonce never changes, and a confirmed, reverted, replaced,
  failed or possibly submitted attempt never changes its status again.\<close>

theorem store_step_lifecycle:
  assumes "store_step cr cfg d d'" "attempts_ok d"
  shows "attempts_ok d' \<and>
    (\<forall>a \<in> set (db_attempts d). \<exists>b \<in> set (db_attempts d').
       at_request_id b = at_request_id a \<and> may_follow (at_status a) (at_status b) \<and>
       (at_nonce a \<noteq> None \<longrightarrow> at_nonce b = at_nonce a))"
  using store_step_ok [OF assms] store_step_attempts [OF assms] unfolding advances_def by blast

section \<open>No nonce is used twice\<close>

text \<open>C1: However often the executor is stopped and restarted, whatever the RPC endpoint answers,
  whichever calls to the database fail before or after their commit, and whatever other sessions commit
  in between as long as they drop no attempt, change no assigned nonce and do not lower the stored nonce:
  over a whole run no two transactions are broadcast with the same nonce, and none is broadcast twice
  for the same request.\<close>

theorem executor_run_sends_once:
  assumes "executor_run x (benign attempts_ok (pg_view cr (le_config x))) w v"
    and "le_store x = postgres_store cr" "attempts_ok (wd_store w)" "wd_trace w = []"
  shows "distinct (map snd (sent_of (wd_trace v))) \<and> distinct (map fst (sent_of (wd_trace v)))"
  using pg.run_distinct [OF assms(1,2) refl assms(3,4)] by simp

section \<open>Disarming and claiming\<close>

lemma disarm_Inr:
  assumes "disarm t r d = Inr d'"
  shows "\<not> ct_armed (db_control d')"
    "find_lane d ''aave_liquidation'' = Some lane \<Longrightarrow>
      \<exists>l. find_lane d' ''aave_liquidation'' = Some l \<and> \<not> ln_armed l"
proof -
  let ?p = "\<lambda>l. ln_lane l \<in> {''atlas_solver'', ''aave_liquidation''}"
  let ?f = "\<lambda>l. l\<lparr>ln_armed := False, ln_kill_switch := True, ln_disarm_reason := r,
                  ln_control_epoch := ln_control_epoch l + 1\<rparr>"
  have "\<not> ct_armed (db_control d') \<and> db_lanes d' = map (\<lambda>l. if ?p l then ?f l else l) (db_lanes d)"
    using assms unfolding disarm_def fail_close_execution_authority_def
    by (elim result_elims) (auto simp: update_where_def insert_runtime_transition_def split: if_splits)
  then have lanes: "db_lanes d' = map (\<lambda>l. if ?p l then ?f l else l) (db_lanes d)"
    and "\<not> ct_armed (db_control d')" by blast+
  then show "\<not> ct_armed (db_control d')" by blast
  assume lane: "find_lane d ''aave_liquidation'' = Some lane"
  have "find_lane d' ''aave_liquidation'' = Some (if ?p lane then ?f lane else lane)"
    using lane unfolding find_lane_def lanes
    by (subst find_map_key [where k = ln_lane]) simp_all
  moreover have "ln_lane lane = ''aave_liquidation''" using lane by (auto simp: find_lane_def dest: find_SomeD)
  ultimately show "\<exists>l. find_lane d' ''aave_liquidation'' = Some l \<and> \<not> ln_armed l" by simp
qed

text \<open>C10: A committed disarm of a database that has the liquidation lane is fail-closed: from then on the control
  state reads as disarmed with the kill switch on, and no request can be claimed, whatever requests are
  approved.\<close>

theorem disarm_fail_closed:
  assumes "disarm t reason d = Inr d'" "find_lane d ''aave_liquidation'' = Some l"
  shows "read_control_state d' = Inr \<lparr>cs_armed = False, cs_kill_switch = True\<rparr> \<and>
    claim_approved cr cfg now d' = Inr (None, d')"
proof -
  obtain lane where lane: "find_lane d' ''aave_liquidation'' = Some lane" "\<not> ln_armed lane"
    using disarm_Inr(2) [OF assms] by blast
  have "\<not> dex_enabled d'" "\<not> aave_enabled d' lane"
    using disarm_Inr(1) [OF assms(1)] lane(2) by (simp_all add: dex_enabled_def aave_enabled_def)
  then show ?thesis by (simp add: read_control_state_def claim_approved_def lane)
qed

text \<open>C12: A claim is exclusive. When a request is claimed, the submission lock was free and no attempt was
  active; afterwards the lock names this request, its attempt is the only active one, the request was
  approved and not expired, and nothing can be claimed until the lock is released.\<close>

theorem claim_exclusive:
  assumes "claim_approved cr cfg now d = Inr (Some q, d')"
  shows "lk_active_lane (db_lock d) = None \<and> filter (\<lambda>a. is_active (at_status a)) (db_attempts d) = [] \<and>
    map at_request_id (filter (\<lambda>a. is_active (at_status a)) (db_attempts d')) = [er_id q] \<and>
    lk_active_identity (db_lock d') = Some (cr_uuid_to_string cr (er_id q)) \<and>
    (\<exists>row \<in> set (db_requests d). decode_request cr row = Inr q \<and> rw_status row = RQ_Approved \<and> now < rw_deadline row) \<and>
    (\<forall>r d''. claim_approved cr cfg' now' d' = Inr (r, d'') \<longrightarrow> r = None)"
  using assms
proof (cases rule: claim_approved_cases)
  case (2 lane row)
  obtain p a where p: "Some q = Some p" "decode_request cr row = Inr p" "at_request_id a = er_id p"
    "at_status a = AS_Claimed" "db_attempts d' = db_attempts d @ [a]" "lk_active_lane (db_lock d') \<noteq> None"
    "lk_active_identity (db_lock d') = Some (cr_uuid_to_string cr (er_id p))"
    by (rule claim_row_Inr [OF 2(6)]) (rule that)
  have none: "filter (\<lambda>a. is_active (at_status a)) (db_attempts d) = []"
    using 2(4) by (simp add: filter_empty_conv)
  have row: "row \<in> set (db_requests d)" "rw_status row = RQ_Approved" "now < rw_deadline row"
    using next_claim_Some [OF 2(5)] by (auto simp: claimable_def)
  have "r = None" if "claim_approved cr cfg' now' d' = Inr (r, d'')" for r d''
    using that by (cases rule: claim_approved_cases) (use p(6) in auto)
  then show ?thesis using 2(3) none row p by auto
qed simp

end
