(* ===== verification/Executor_Outcomes.thy ===== *)
theory Executor_Outcomes
  imports Executor_Store_Laws
begin

text \<open>
  What the executor records and refuses: the policy bounds of every accepted request, the result a
  terminal outcome adds to the outcome table and to the daily loss, two settlements the code can never
  complete, and the refinement of an abstract nonce ledger by the transactions of the store.
\<close>

section \<open>The policy bounds of an accepted request\<close>

lemma route_caps_dex:
  "route_caps q config = Inr u \<Longrightarrow> er_aave_liquidation q = None \<Longrightarrow>
    er_flash_asset q = cf_pnl_asset_address config \<and>
    er_maximum_input_amount q \<le> lim_maximum_input_amount (cf_limits config) \<and>
    lim_minimum_expected_profit (cf_limits config) \<le> er_minimum_profit q \<and>
    er_minimum_profit q \<le> er_expected_profit q"
  by (auto simp: route_caps_def Let_def not_less split: if_splits)

lemma route_caps_aave:
  "route_caps q config = Inr u \<Longrightarrow> er_aave_liquidation q = Some route \<Longrightarrow>
    al_maximum_input_weth_wei route \<le> lim_maximum_input_amount (cf_limits config) \<and>
    weth_to_debt_floor route (al_maximum_input_weth_wei route) = Inr (er_maximum_input_amount q) \<and>
    lim_minimum_expected_profit (cf_limits config) \<le> al_minimum_profit_weth_wei route \<and>
    weth_to_debt_ceil route (al_minimum_profit_weth_wei route) = Inr (er_minimum_profit q) \<and>
    al_minimum_profit_weth_wei route \<le> er_expected_profit q"
  by (auto simp: route_caps_def Let_def not_less result_simps)

lemma request_bounds_Inr:
  "request_bounds q config now = Inr u \<Longrightarrow>
    er_chain_id q = cf_chain_id config \<and> er_approved_at q \<le> now \<and> now < er_approval_deadline q \<and>
    er_approval_deadline q \<le> er_deadline q \<and> er_executor_address q = cf_executor_address config \<and>
    er_executor_code_hash q = cf_executor_code_hash config \<and> er_flash_amount q \<le> er_maximum_input_amount q \<and>
    er_gas_limit q \<le> lim_maximum_gas_limit (cf_limits config) \<and>
    er_max_fee_per_gas q \<le> lim_maximum_max_fee_per_gas (cf_limits config) \<and>
    er_max_priority_fee_per_gas q \<le> er_max_fee_per_gas q"
  by (auto simp: request_bounds_def Let_def not_less not_le result_simps split: if_splits)

text \<open>C14: A request that passes the policy validation is bounded by the configuration: it is for the
  configured chain and executor, within its approval window, borrows no more than its input cap, which is
  within the configured cap (for a liquidation, the configured cap in WETH converted down to debt units),
  asks for at least the configured profit (converted up to debt units), keeps the gas and fee caps, and
  its largest possible fee, computed without overflow, is within the daily loss limit. Its call data has
  the approved hash.\<close>

theorem validate_and_encode_bounds:
  assumes "validate_and_encode cr u u' q config now = Inr calldata"
  shows "er_chain_id q = cf_chain_id config \<and> er_executor_address q = cf_executor_address config \<and>
    er_approved_at q \<le> now \<and> now < er_approval_deadline q \<and> er_approval_deadline q \<le> er_deadline q \<and>
    er_flash_amount q \<le> er_maximum_input_amount q \<and>
    (case er_aave_liquidation q of
       None \<Rightarrow> er_maximum_input_amount q \<le> lim_maximum_input_amount (cf_limits config) \<and>
         lim_minimum_expected_profit (cf_limits config) \<le> er_minimum_profit q \<and>
         er_minimum_profit q \<le> er_expected_profit q
     | Some route \<Rightarrow> al_maximum_input_weth_wei route \<le> lim_maximum_input_amount (cf_limits config) \<and>
         weth_to_debt_floor route (al_maximum_input_weth_wei route) = Inr (er_maximum_input_amount q) \<and>
         lim_minimum_expected_profit (cf_limits config) \<le> al_minimum_profit_weth_wei route \<and>
         weth_to_debt_ceil route (al_minimum_profit_weth_wei route) = Inr (er_minimum_profit q)) \<and>
    er_gas_limit q \<le> lim_maximum_gas_limit (cf_limits config) \<and>
    er_max_fee_per_gas q \<le> lim_maximum_max_fee_per_gas (cf_limits config) \<and>
    unat (er_gas_limit q) * unat (er_max_fee_per_gas q) \<le> unat (lim_maximum_daily_loss_wei (cf_limits config)) \<and>
    cr_hex_encode cr (cr_sha256 cr calldata) = er_calldata_hash q"
  using assms unfolding validate_and_encode_def
  apply (elim result_elims)
  subgoal premises prems for _ digest _ _ fee
    using prems request_bounds_Inr route_caps_dex route_caps_aave
    by (auto simp: ok_or_Inr worst_case_fee_def checked_simps word_le_nat_alt not_less split: option.splits)
  done

section \<open>Settlements the executor can never complete\<close>

text \<open>C39: A successful liquidation whose receipt is first seen after the deadline of its request is never
  settled: building the liquidation request for decoding validates it again, which refuses a deadline in
  the past, so the decoding fails whatever the logs contain.\<close>

theorem late_liquidation_never_settles:
  assumes "er_route_type q = AaveLiquidationV1" "er_deadline q \<le> utc_now"
  shows "decode_route_settlement cr utc_now q executor logs = Inl AB_InvalidSettlement"
proof -
  have "from_execution utc_now q = Inl AV_InvalidRequest"
    using assms by (cases "er_aave_liquidation q") (simp_all add: from_execution_def liquidation_validate_def)
  then show ?thesis by (simp add: decode_route_settlement_def assms(1))
qed

text \<open>C38: A confirmed liquidation whose profit in WETH differs from its profit in debt units can never be
  recorded: the store computes the result of the outcome from the profit in WETH, while the CHECK
  constraint of the outcome table relates it to the profit in debt units, so every confirmation is
  rolled back and the attempt stays active.\<close>

theorem converted_profit_never_recorded:
  assumes "ro_canonical_realized_profit_wei w \<noteq> st_realized_profit (ro_settlement w)"
  shows "\<exists>e. mark_terminal cr i AS_Confirmed code (Some w) t d = Inl e"
proof (cases "mark_terminal cr i AS_Confirmed code (Some w) t d")
  case (Inr d')
  then obtain row e where ok: "terminal_arguments_ok AS_Confirmed (Some w)"
    and r: "record_outcome cr i AS_Confirmed (Some w) t row d = Inr e"
    by (rule mark_terminal_Inr) (rule that)
  have "ro_net_pnl_wei w = int (unat (ro_canonical_realized_profit_wei w)) - int (unat (ro_actual_fee_wei w))"
    using ok by (auto simp: terminal_arguments_ok_def outcome_valid_def receipt_state_valid_def to_i128_def
        checked_simps split: option.splits)
  moreover have "ro_net_pnl_wei w = int (unat (st_realized_profit (ro_settlement w))) - int (unat (ro_actual_fee_wei w))"
    using r by (auto simp: record_outcome_def result_simps insert_outcome_def outcome_check_def outcome_row_of_def
        split: if_splits)
  ultimately show ?thesis using assms by (simp add: word_uint_eq_iff)
qed simp

section \<open>The recorded result\<close>

definition same_outcomes :: "db \<Rightarrow> db \<Rightarrow> bool" where
  "same_outcomes d d' \<longleftrightarrow> db_outcomes d' = db_outcomes d"

lemma same_outcomes_trans: "same_outcomes d e \<Longrightarrow> same_outcomes e f \<Longrightarrow> same_outcomes d f"
  by (simp add: same_outcomes_def)

named_theorems outcome_frames "operations that leave the outcomes alone"

lemma update_requests_outcomes [outcome_frames]: "update_requests p f d = (k, d') \<Longrightarrow> same_outcomes d d'"
  by (auto simp: update_requests_def update_where_def same_outcomes_def)

lemma update_candidate_where_outcomes [outcome_frames]: "update_candidate_where i a b d = Inr d' \<Longrightarrow> same_outcomes d d'"
  by (auto simp: update_candidate_where_def update_candidates_def update_where_def same_outcomes_def split: if_splits)

lemma update_attempts_outcomes [outcome_frames]: "update_attempts p f d = Inr (k, d') \<Longrightarrow> same_outcomes d d'"
  by (auto simp: update_attempts_def update_where_def same_outcomes_def split: if_splits)

lemma release_lock_outcomes [outcome_frames]: "release_revenue_submission_lock cr i d = Inr d' \<Longrightarrow> same_outcomes d d'"
  by (auto simp: release_revenue_submission_lock_def same_outcomes_def split: if_splits)

lemma insert_autonomous_outcomes [outcome_frames]:
  "insert_autonomous_outcome i h n s st w t d = Inr d' \<Longrightarrow> same_outcomes d d'"
  by (auto simp: insert_autonomous_outcome_def same_outcomes_def result_simps split: option.splits if_splits)

lemma insert_transition_outcomes [outcome_frames]:
  "insert_runtime_transition p l p' l' r s e t d = Inr d' \<Longrightarrow> same_outcomes d d'"
  by (auto simp: insert_runtime_transition_def same_outcomes_def split: if_splits)

lemma route_feedback_outcomes [outcome_frames]:
  "route_feedback f l rl cl rs lv t d = (tr, d') \<Longrightarrow> same_outcomes d d'"
  by (auto simp: route_feedback_def Let_def disarm_route_def cool_route_def same_outcomes_def split: if_splits)

lemma disarm_daily_loss_outcomes: "same_outcomes d (disarm_daily_loss e d)"
  by (simp add: disarm_daily_loss_def update_candidates_def update_where_def same_outcomes_def)

lemma risk_feedback_outcomes [outcome_frames]: "apply_autonomous_risk_feedback i t d = Inr d' \<Longrightarrow> same_outcomes d d'"
  unfolding apply_autonomous_risk_feedback_def
  by (elim result_elims)
    (auto simp: Let_def same_outcomes_def split: if_splits option.splits prod.splits
      dest!: route_feedback_outcomes insert_transition_outcomes
      intro: disarm_daily_loss_outcomes [unfolded same_outcomes_def] elim!: result_elims;
      metis disarm_daily_loss_outcomes same_outcomes_def)

text \<open>The attempt and the outcome a committed terminal status leaves behind.\<close>

lemma mark_terminal_steps:
  assumes "mark_terminal cr i status code outcome t d = Inr d'"
  obtains row e where "terminal_arguments_ok status outcome"
    "List.find (\<lambda>a. at_request_id a = i \<and> terminal_from (at_status a)) (db_attempts d) = Some row"
    "record_outcome cr i status outcome t row d = Inr e" "same_outcomes e d'"
  using assms unfolding mark_terminal_def
  apply (elim result_elims)
  subgoal premises prems for row e z k e' y k2 e2 cs e3 e4
  proof -
    have "same_outcomes e e'" using prems by (auto dest: outcome_frames)
    moreover have "same_outcomes e' e2" using prems by (auto dest!: update_requests_outcomes [OF sym])
    moreover have "same_outcomes e2 e3" "same_outcomes e3 e4" using prems by (auto dest: outcome_frames)
    moreover have "same_outcomes e4 d'" using prems by (auto dest: outcome_frames simp: same_outcomes_def split: if_splits)
    ultimately have "same_outcomes e d'" by (simp add: same_outcomes_def)
    then show ?thesis by (intro prems(1) [of row e]) (use prems(2-) in \<open>auto simp: ok_or_Inr\<close>)
  qed
  done

lemma record_outcome_Inr:
  assumes "record_outcome cr i status (Some w) t row d = Inr e"
  obtains h where "at_tx_hash row = Some h"
    "db_outcomes e = db_outcomes d @ [outcome_row_of cr i h status w t (at_submitted_at row)]"
    "outcome_check (outcome_row_of cr i h status w t (at_submitted_at row))"
    "list_all (\<lambda>v. ow_request_id v \<noteq> i) (db_outcomes d)"
  using assms
  by (auto simp: record_outcome_def result_simps insert_outcome_def list_ex_iff list_all_iff outcome_row_of_def
      split: if_splits dest!: insert_autonomous_outcomes intro!: that simp: same_outcomes_def)

lemma direct_loss_append:
  "direct_loss now (ws @ [w]) = direct_loss now ws +
    (if same_day now (ow_recorded_at w) \<and> ow_net_pnl_wei w < 0 then - ow_net_pnl_wei w else 0)"
  by (simp add: direct_loss_def)

lemma same_day_refl [simp]: "same_day t t"
  by (simp add: same_day_def day_start_def)

text \<open>C15: A recorded outcome is exact. Exactly one row is added, for a request that had none; its result is
  the realized profit minus the paid fee for a confirmed transaction and minus the fee for a reverted one;
  and the loss of the day on which it is recorded grows by exactly the loss of the transaction.\<close>

theorem recorded_outcome_exact:
  assumes "mark_terminal cr i status code (Some w) t d = Inr d'"
  shows "\<exists>row. db_outcomes d' = db_outcomes d @ [row] \<and> ow_request_id row = i \<and>
    i \<notin> ow_request_id ` set (db_outcomes d) \<and>
    ow_net_pnl_wei row =
      (if status = AS_Confirmed then int (unat (st_realized_profit (ro_settlement w))) else 0)
      - int (unat (ro_actual_fee_wei w)) \<and>
    direct_loss t (db_outcomes d') = direct_loss t (db_outcomes d) + max 0 (- ow_net_pnl_wei row)"
proof -
  obtain a e where r: "record_outcome cr i status (Some w) t a d = Inr e" and same: "same_outcomes e d'"
    by (rule mark_terminal_steps [OF assms]) (rule that)
  obtain h where row: "db_outcomes e = db_outcomes d @ [outcome_row_of cr i h status w t (at_submitted_at a)]"
    and check: "outcome_check (outcome_row_of cr i h status w t (at_submitted_at a))"
    and new: "list_all (\<lambda>v. ow_request_id v \<noteq> i) (db_outcomes d)"
    by (rule record_outcome_Inr [OF r]) (rule that)
  let ?row = "outcome_row_of cr i h status w t (at_submitted_at a)"
  have d': "db_outcomes d' = db_outcomes d @ [?row]" using row same by (simp add: same_outcomes_def)
  have f: "ow_request_id ?row = i" "ow_recorded_at ?row = t" by (simp_all add: outcome_row_of_def)
  have "direct_loss t (db_outcomes d') = direct_loss t (db_outcomes d) + max 0 (- ow_net_pnl_wei ?row)"
    unfolding d' direct_loss_append f(2) by simp
  moreover have "ow_net_pnl_wei ?row =
      (if status = AS_Confirmed then int (unat (st_realized_profit (ro_settlement w))) else 0)
      - int (unat (ro_actual_fee_wei w))"
    using check by (auto simp: outcome_check_def outcome_row_of_def)
  moreover have "i \<notin> ow_request_id ` set (db_outcomes d)" using new by (auto simp: list_all_iff)
  ultimately show ?thesis using d' f(1) by blast
qed

section \<open>The abstract nonce ledger\<close>

text \<open>The specification of the nonces: a request is entered once, gets a nonce that is at least the next
  one, and the last nonce given out may be given back.\<close>

inductive ledger_step :: "nonce_view \<Rightarrow> nonce_view \<Rightarrow> bool" where
  ledger_skip: "ledger_step v v"
| ledger_enter: "nv_attempts v i = None \<Longrightarrow> ledger_step v (v\<lparr>nv_attempts := (nv_attempts v)(i := Some None)\<rparr>)"
| ledger_assign: "nv_attempts v i = Some None \<Longrightarrow> nv_next v \<le> n \<Longrightarrow>
    ledger_step v \<lparr>nv_attempts = (nv_attempts v)(i := Some (Some n)), nv_next = n + 1\<rparr>"
| ledger_return: "nv_attempts v i = Some (Some n) \<Longrightarrow> nv_next v = n + 1 \<Longrightarrow> ledger_step v (v\<lparr>nv_next := n\<rparr>)"

lemma nonce_view_eqI: "nv_attempts v = nv_attempts v' \<Longrightarrow> nv_next v = nv_next v' \<Longrightarrow> v = (v' :: nonce_view)"
  by simp

lemma relabelled_ledger: "relabelled d d' \<Longrightarrow> ledger_step (pg_view cr cfg d) (pg_view cr cfg d')"
  by (subst view_relabelled) (auto intro: ledger_skip)

lemma claim_ledger:
  assumes "claim_approved cr cfg now d = Inr (c, d')"
  shows "ledger_step (pg_view cr cfg d) (pg_view cr cfg d')"
  using assms
proof (cases rule: claim_approved_cases)
  case (2 lane row)
  obtain q a where a: "c = Some q" "at_request_id a = er_id q" "at_status a = AS_Claimed" "attempt_check a"
    "er_id q \<notin> at_request_id ` set (db_attempts d)" "db_attempts d' = db_attempts d @ [a]"
    "db_nonces d' = db_nonces d"
    by (rule claim_row_Inr [OF 2(6)]) (rule that)
  have none: "List.find (\<lambda>a. at_request_id a = er_id q) (db_attempts d) = None"
    using a(5) by (force simp: find_None_iff)
  have "nv_attempts (pg_view cr cfg d') = (nv_attempts (pg_view cr cfg d))(er_id q := Some None)"
    using a none by (auto simp: pg_view_def find_append attempt_check_def split: option.splits)
  then have entered: "pg_view cr cfg d' = (pg_view cr cfg d)\<lparr>nv_attempts := (nv_attempts (pg_view cr cfg d))(er_id q := Some None)\<rparr>"
    using nv_next_same [OF a(7), of cr cfg] by (intro nonce_view_eqI) simp_all
  show ?thesis unfolding entered by (rule ledger_enter) (simp add: pg_view_def none)
qed (simp add: ledger_skip)

lemma allocate_ledger:
  assumes "allocate_nonce cr i cfg network d = Inr (n, d')" "attempts_ok d"
  shows "ledger_step (pg_view cr cfg d) (pg_view cr cfg d')"
proof -
  let ?p = "\<lambda>a. at_request_id a = i \<and> at_status a = AS_Claimed"
  let ?f = "\<lambda>a. a\<lparr>at_nonce := Some (unat n), at_status := AS_NonceAllocated\<rparr>"
  have m: "attempts_mapped (changing ?p ?f) d d'" and one: "length (filter ?p (db_attempts d)) = 1"
    using allocate_nonce_Inr [OF assms(1)] by blast+
  have "filter ?p (db_attempts d) \<noteq> []" using one by force
  then obtain a where a: "a \<in> set (db_attempts d)" "?p a" by (auto simp: filter_empty_conv)
  have f: "List.find (\<lambda>b. at_request_id b = i) (db_attempts d) = Some a"
    by (rule find_distinct) (use a assms(2) in \<open>auto simp: attempts_ok_def\<close>)
  have find: "List.find (\<lambda>b. at_request_id b = j) (db_attempts d')
      = map_option (changing ?p ?f) (List.find (\<lambda>b. at_request_id b = j) (db_attempts d))" for j
    unfolding conjunct1 [OF m [unfolded attempts_mapped_def]] by (rule find_map_key) simp
  have none: "nv_attempts (pg_view cr cfg d) i = Some None"
    using f a assms(2) by (auto simp: pg_view_def attempts_ok_def list_all_iff attempt_check_def)
  have other: "at_request_id b = j" if "List.find (\<lambda>b. at_request_id b = j) (db_attempts d) = Some b" for b j
    using find_SomeD [OF that] by simp
  have "nv_attempts (pg_view cr cfg d') = (nv_attempts (pg_view cr cfg d))(i := Some (Some (unat n)))"
  proof
    fix j
    have view: "nv_attempts (pg_view cr cfg d') j
        = map_option (\<lambda>b. at_nonce (changing ?p ?f b)) (List.find (\<lambda>b. at_request_id b = j) (db_attempts d))"
      by (simp add: pg_view_def find option.map_comp comp_def)
    show "nv_attempts (pg_view cr cfg d') j = ((nv_attempts (pg_view cr cfg d))(i := Some (Some (unat n)))) j"
    proof (cases "j = i")
      case True
      have "nv_attempts (pg_view cr cfg d') i = Some (Some (unat n))" using view [unfolded True f] a(2) by simp
      then show ?thesis using True by simp
    next
      case False
      then have "at_request_id b \<noteq> i" if "List.find (\<lambda>b. at_request_id b = j) (db_attempts d) = Some b" for b
        using other [OF that] by simp
      then show ?thesis unfolding view
        by (cases "List.find (\<lambda>b. at_request_id b = j) (db_attempts d)") (simp_all add: pg_view_def False)
    qed
  qed
  then have assigned: "pg_view cr cfg d' = \<lparr>nv_attempts = (nv_attempts (pg_view cr cfg d))(i := Some (Some (unat n))), nv_next = unat n + 1\<rparr>"
    using allocate_law [OF assms] by (intro nonce_view_eqI) simp_all
  show ?thesis unfolding assigned by (rule ledger_assign [OF none]) (use allocate_law [OF assms] in blast)
qed

lemma fail_ledger:
  assumes "fail_unsubmitted cr i code t d = Inr d'" "attempts_ok d"
  shows "ledger_step (pg_view cr cfg d) (pg_view cr cfg d')"
proof -
  obtain m where m: "nv_attempts (pg_view cr cfg d) i = Some (Some m)"
    "nv_attempts (pg_view cr cfg d') = nv_attempts (pg_view cr cfg d)"
    "nv_next (pg_view cr cfg d') = nv_next (pg_view cr cfg d) \<or>
     nv_next (pg_view cr cfg d) = m + 1 \<and> nv_next (pg_view cr cfg d') = m"
    using fail_unsubmitted_view [OF assms] by blast
  from m(3) show ?thesis
  proof
    assume "nv_next (pg_view cr cfg d') = nv_next (pg_view cr cfg d)"
    then have same: "pg_view cr cfg d' = pg_view cr cfg d" by (intro nonce_view_eqI m(2))
    show ?thesis unfolding same by (rule ledger_skip)
  next
    assume next_nonce: "nv_next (pg_view cr cfg d) = m + 1 \<and> nv_next (pg_view cr cfg d') = m"
    then have returned: "pg_view cr cfg d' = (pg_view cr cfg d)\<lparr>nv_next := m\<rparr>"
      using m(2) by (intro nonce_view_eqI) simp_all
    show ?thesis unfolding returned by (rule ledger_return [OF m(1)]) (use next_nonce in simp)
  qed
qed

text \<open>C13: The store refines the nonce ledger: seen through the abstraction that keeps only the nonce of each
  attempt and the next nonce of the wallet, every committed transaction of the store is one step of the
  ledger.\<close>

theorem store_refines_ledger:
  assumes "store_step cr cfg d d'" "attempts_ok d"
  shows "ledger_step (pg_view cr cfg d) (pg_view cr cfg d')"
  using assms(1)
proof cases
  case (step_claim now c)
  then show ?thesis by (rule claim_ledger)
next
  case (step_allocate i network n)
  then show ?thesis using assms(2) by (rule allocate_ledger)
next
  case (step_fail i code now)
  then show ?thesis using assms(2) by (rule fail_ledger)
qed (auto intro: relabelled_ledger relabelled_frame frames mark_submission_unknown_advancing(2)
    mark_pending_advancing(2) mark_terminal_advancing(2) record_monitor_error_advancing(2))

end
