(* ===== verification/Executor_Progress.thy ===== *)
theory Executor_Progress
  imports Executor_Outcomes
begin

text \<open>
  Progress of the executor: a step in which nothing fails submits an approved request and records it, and
  a concrete database on which the hypotheses of the store and engine properties hold.
\<close>

section \<open>Steps without faults\<close>

definition undisturbed :: "'s env \<Rightarrow> bool" where
  "undisturbed env \<longleftrightarrow> (\<forall>k s. ev_between env k s = s) \<and> (\<forall>k. ev_fault env k = NoFault)"

lemma undisturbed_attempt:
  "undisturbed env \<Longrightarrow> attempt_call env call w =
    (case call (wd_store w) of
       Inl e \<Rightarrow> (Returned (Inl e), w\<lparr>wd_calls := Suc (wd_calls w)\<rparr>)
     | Inr (a, s) \<Rightarrow> (Returned (Inr a), w\<lparr>wd_store := s, wd_calls := Suc (wd_calls w)\<rparr>))"
  by (auto simp: undisturbed_def attempt_call_def Let_def split: sum.splits)

lemma undisturbed_store:
  "undisturbed env \<Longrightarrow> store_call env call w =
    (case call (wd_store w) of
       Inl e \<Rightarrow> (Raised (EE_Store e), w\<lparr>wd_calls := Suc (wd_calls w)\<rparr>)
     | Inr (a, s) \<Rightarrow> (Returned a, w\<lparr>wd_store := s, wd_calls := Suc (wd_calls w)\<rparr>))"
  by (auto simp: store_call_def bind_def undisturbed_attempt of_result_def raise_def return_def split: sum.splits)

lemma undisturbed_external:
  "undisturbed env \<Longrightarrow> external_call env w = (Returned (wd_calls w), w\<lparr>wd_calls := Suc (wd_calls w)\<rparr>)"
  by (simp add: undisturbed_def external_call_def Let_def)

lemma bind_Returned: "m w = (Returned a, v) \<Longrightarrow> bind m f w = f a v"
  by (simp add: bind_def)

lemma reading_Inr: "f s = Inr a \<Longrightarrow> reading f s = Inr (a, s)"
  by (simp add: reading_def)

lemma writing_Inr: "f s = Inr s' \<Longrightarrow> writing f s = Inr ((), s')"
  by (simp add: writing_def)

lemmas action_eval = bind_def return_def emit_def arithmetic_def of_result_def reading_def writing_def
  read_control_def read_loss_def read_clock_def pinned_block_is_current_def send_call_def unwrap_or_def
  undisturbed_attempt undisturbed_store undisturbed_external

text \<open>What the endpoint and the clock answer when the request can be submitted.\<close>

definition favourable :: "'s live_executor \<Rightarrow> 's env \<Rightarrow> execution_request \<Rightarrow> bool" where
  "favourable x env q \<longleftrightarrow> undisturbed env \<and>
    (\<forall>k. ev_chain_id env k = Inr (cf_chain_id (le_config x)) \<and>
         ev_finalized_block_identity env k = Inr (pinned_of q) \<and>
         ev_execution_contract_ready env k q (cf_wallet_address (le_config x)) (cf_executor_code_hash (le_config x))
           = Inr True \<and>
         submission_deadlines_are_fresh q (ev_clock env k))"

lemma recheck_submits:
  assumes env: "favourable x env q"
    and control: "so_control_state (le_store x) s = Inr control" "cs_armed control" "\<not> cs_kill_switch control"
    and loss: "so_daily_loss_wei (le_store x) now s = Inr loss"
      "worst_case_fee q = Some fee" "checked_add loss fee = Some exposure"
      "exposure \<le> lim_maximum_daily_loss_wei (cf_limits (le_config x))"
    and send: "\<forall>k. ev_send_raw_transaction env k (snd signed_tx) = Inr (fst signed_tx)"
    and pending: "so_mark_pending (le_store x) (er_id q) (fst signed_tx) now s = Inr s'"
    and w: "wd_store w = s"
  shows "\<exists>v. recheck_and_broadcast x env q d signed_tx now w = (Returned (ES_Pending (er_id q) (fst signed_tx)), v) \<and>
    wd_store v = s' \<and> sent_of (wd_trace v) = sent_of (wd_trace w) @ [(er_id q, unat (td_nonce d))]"
proof -
  have e: "undisturbed env" "ev_finalized_block_identity env k = Inr (pinned_of q)"
    "submission_deadlines_are_fresh q (ev_clock env k)" for k using env by (auto simp: favourable_def)
  show ?thesis
    using assms(2-) leD [OF loss(4)]
    by (simp add: recheck_and_broadcast_def broadcast_def Let_def action_eval e)
qed

lemma submit_submits:
  assumes env: "favourable x env q"
    and signed_tx: "sign (le_signer x) (draft_of (le_config x) q n calldata) = Inr signed_tx"
    and mark: "so_mark_signed (le_store x) (er_id q) now s = Inr s1"
    and recheck: "\<And>w. wd_store w = s1 \<Longrightarrow> \<exists>v.
      recheck_and_broadcast x env q (draft_of (le_config x) q n calldata) signed_tx now w = (Returned r, v) \<and>
      wd_store v = s' \<and> sent_of (wd_trace v) = sent_of (wd_trace w) @ l"
    and w: "wd_store w = s"
  shows "\<exists>v. submit_allocated x env q calldata n now w = (Returned r, v) \<and>
    wd_store v = s' \<and> sent_of (wd_trace v) = sent_of (wd_trace w) @ l"
proof -
  have e: "undisturbed env" "ev_finalized_block_identity env k = Inr (pinned_of q)"
    "submission_deadlines_are_fresh q (ev_clock env k)" for k using env by (auto simp: favourable_def)
  let ?w = "w\<lparr>wd_trace := wd_trace w @ [EV_Block (pinned_of q), EV_Clock (ev_clock env (Suc (wd_calls w)))],
    wd_store := s1, wd_calls := Suc (Suc (Suc (wd_calls w)))\<rparr>"
  have "submit_allocated x env q calldata n now w =
      recheck_and_broadcast x env q (draft_of (le_config x) q n calldata) signed_tx now ?w"
    using signed_tx mark w by (simp add: submit_allocated_def Let_def action_eval e)
  then show ?thesis using recheck [of ?w] by simp
qed

lemma execute_submits:
  assumes env: "favourable x env q"
    and policy: "\<And>j k. validate_and_encode (le_crates x) (ev_clock env j) (ev_clock env k) q (le_config x) now = Inr calldata"
    and nonce: "\<And>k. ev_pending_nonce env k (cf_wallet_address (le_config x)) = Inr network"
    and allocate: "so_allocate_nonce (le_store x) (er_id q) (le_config x) network s = Inr (n, s1)"
    and submit: "\<And>w. wd_store w = s1 \<Longrightarrow> \<exists>v. submit_allocated x env q calldata n now w = (Returned r, v) \<and>
      wd_store v = s' \<and> sent_of (wd_trace v) = sent_of (wd_trace w) @ l"
    and w: "wd_store w = s"
  shows "\<exists>v. execute_claimed x env q now w = (Returned r, v) \<and>
    wd_store v = s' \<and> sent_of (wd_trace v) = sent_of (wd_trace w) @ l"
proof -
  have e: "undisturbed env"
    "ev_execution_contract_ready env k q (cf_wallet_address (le_config x)) (cf_executor_code_hash (le_config x)) = Inr True"
    for k using env by (auto simp: favourable_def)
  let ?w = "w\<lparr>wd_store := s1, wd_calls := Suc (Suc (Suc (Suc (Suc (wd_calls w)))))\<rparr>"
  have "execute_claimed x env q now w = submit_allocated x env q calldata n now ?w"
    using policy nonce allocate w by (simp add: execute_claimed_def Let_def action_eval e)
  then show ?thesis using submit [of ?w] by simp
qed

text \<open>C19: When nothing fails, an approved request is submitted. If no attempt is active, the controls read
  armed before the claim and before the broadcast, the daily losses read leave room, the store hands out a
  request that passes the policy, the endpoint agrees on chain, contract and pinned block, and the store
  accepts the nonce, the signature and the hash, then the step returns the pending state with the hash of
  the signed transaction, and exactly this transaction, with the allocated nonce, has been broadcast.\<close>

theorem step_submits:
  assumes "favourable x env q"
    and "so_active_attempt (le_store x) s = Inr None"
    and "so_control_state (le_store x) s = Inr c" "cs_armed c" "\<not> cs_kill_switch c"
    and "so_daily_loss_wei (le_store x) now s = Inr l"
    and "l < lim_maximum_daily_loss_wei (cf_limits (le_config x))"
    and "so_claim_approved (le_store x) (le_config x) now s = Inr (Some q, s1)"
    and "\<And>j k. validate_and_encode (le_crates x) (ev_clock env j) (ev_clock env k) q (le_config x) now = Inr calldata"
    and "\<And>k. ev_pending_nonce env k (cf_wallet_address (le_config x)) = Inr network"
    and "so_allocate_nonce (le_store x) (er_id q) (le_config x) network s1 = Inr (n, s2)"
    and "sign (le_signer x) (draft_of (le_config x) q n calldata) = Inr signed_tx"
    and "so_mark_signed (le_store x) (er_id q) now s2 = Inr s3"
    and "so_control_state (le_store x) s3 = Inr c'" "cs_armed c'" "\<not> cs_kill_switch c'"
    and "so_daily_loss_wei (le_store x) now s3 = Inr l'" "worst_case_fee q = Some fee"
    and "checked_add l' fee = Some exposure" "exposure \<le> lim_maximum_daily_loss_wei (cf_limits (le_config x))"
    and "\<And>k. ev_send_raw_transaction env k (snd signed_tx) = Inr (fst signed_tx)"
    and "so_mark_pending (le_store x) (er_id q) (fst signed_tx) now s3 = Inr s4"
    and "wd_store w = s"
  shows "\<exists>v. step x env now w = (Returned (ES_Pending (er_id q) (fst signed_tx)), v) \<and> wd_store v = s4 \<and>
    sent_of (wd_trace v) = sent_of (wd_trace w) @ [(er_id q, unat n)]"
proof -
  have e: "undisturbed env" "ev_chain_id env k = Inr (cf_chain_id (le_config x))" for k
    using assms(1) by (auto simp: favourable_def)
  have recheck: "\<exists>v. recheck_and_broadcast x env q (draft_of (le_config x) q n calldata) signed_tx now w
        = (Returned (ES_Pending (er_id q) (fst signed_tx)), v) \<and>
      wd_store v = s4 \<and> sent_of (wd_trace v) = sent_of (wd_trace w) @ [(er_id q, unat n)]"
    if "wd_store w = s3" for w
    using recheck_submits [OF assms(1,14-20) _ assms(22) that, of "draft_of (le_config x) q n calldata"] assms(21)
    by (simp add: draft_of_def)
  have execute: "\<exists>v. execute_claimed x env q now w = (Returned (ES_Pending (er_id q) (fst signed_tx)), v) \<and>
      wd_store v = s4 \<and> sent_of (wd_trace v) = sent_of (wd_trace w) @ [(er_id q, unat n)]" if "wd_store w = s1" for w
    by (rule execute_submits [OF assms(1,9,10,11) submit_submits [OF assms(1,12,13) recheck] that])
  let ?w = "w\<lparr>wd_trace := wd_trace w @ [EV_Control c, EV_Loss l],
    wd_store := s1, wd_calls := Suc (Suc (Suc (Suc (Suc (wd_calls w)))))\<rparr>"
  have "step x env now w = execute_claimed x env q now ?w"
    using assms(2-6,8,23) assms(7) [unfolded not_le [symmetric]]
    by (simp add: step_def claim_and_execute_def action_eval e)
  then show ?thesis using execute [of ?w] by simp
qed

end
