(* ===== verification/Executor_Witnesses.thy ===== *)
theory Executor_Witnesses
  imports Executor_Progress
begin

text \<open>
  A concrete database with one approved request, a configuration, a signer and an environment without
  faults. On them the hypotheses of the store and engine properties hold.
\<close>

section \<open>A database with one approved request\<close>

definition sample_row :: request_row where
  "sample_row =
    \<lparr>rw_id = rr_id sample_raw, rw_opportunity_id = rr_opportunity_id sample_raw,
     rw_schema_version = rr_schema_version sample_raw, rw_chain_id = rr_chain_id sample_raw,
     rw_route_id = rr_route_id sample_raw, rw_route_fingerprint = Some (rr_route_fingerprint sample_raw),
     rw_route_type = rr_route_type sample_raw, rw_route_payload = None, rw_selected_size = Some 1000,
     rw_token_path = Some JNull, rw_origin_router = rr_origin_router sample_raw,
     rw_executor_address = Some (rr_executor_address sample_raw),
     rw_executor_code_hash = Some (rr_executor_code_hash sample_raw),
     rw_calldata_hash = Some (rr_calldata_hash sample_raw),
     rw_simulation_result_hash = Some (rr_simulation_result_hash sample_raw),
     rw_plan_hash = Some (rr_plan_hash sample_raw), rw_pinned_block_number = Some 100,
     rw_pinned_block_hash = Some (rr_pinned_block_hash sample_raw), rw_flash_asset = rr_flash_asset sample_raw,
     rw_flash_amount = 1000, rw_maximum_input_amount = 1000, rw_minimum_profit = 10, rw_expected_profit = 20,
     rw_deadline = rr_deadline sample_raw, rw_legs = JNull, rw_gas_limit = rr_gas_limit sample_raw,
     rw_max_fee_per_gas = 5, rw_max_priority_fee_per_gas = 1,
     rw_approved_by = Some (rr_approved_by sample_raw), rw_approved_at = Some (rr_approved_at sample_raw),
     rw_approval_deadline = Some (rr_approval_deadline sample_raw),
     rw_policy_version = Some (rr_policy_version sample_raw),
     rw_approval_digest = Some (rr_approval_digest sample_raw),
     rw_status = RQ_Approved, rw_created_at = 0\<rparr>"

definition sample_lane :: "string \<Rightarrow> lane_row" where
  "sample_lane lane = \<lparr>ln_lane = lane, ln_armed = False, ln_kill_switch = True,
     ln_maximum_input_amount = 1000, ln_disarm_reason = ''initial'', ln_control_epoch = 0\<rparr>"

definition sample_db :: db where
  "sample_db =
    \<lparr>db_requests = [sample_row], db_attempts = [], db_nonces = [], db_outcomes = [], db_candidates = [],
     db_attributions = [], db_fork_results = [],
     db_control = \<lparr>ct_armed = True, ct_kill_switch = False, ct_disarm_reason = ''none''\<rparr>,
     db_global = \<lparr>gc_armed = True, gc_kill_switch = False, gc_execution_mode = ''live'',
       gc_daily_loss_limit = 1000000, gc_disarm_reason = None, gc_control_hash = None\<rparr>,
     db_economic = \<lparr>eco_phase = PH_LiveCanaryMin, eco_current_size_level = ''L2'',
       eco_current_input_wei = 1000, eco_cooldown_until = None, eco_release_sha = Some ''release'',
       eco_control_epoch = 3, eco_last_transition_reason = ''none''\<rparr>,
     db_lanes = [sample_lane ''phoenix_dex'', sample_lane ''atlas_solver'', sample_lane ''aave_liquidation''],
     db_provider = \<lparr>pv_exact_execution_ready = True, pv_gate_reason = ''ready'', pv_gate_updated_at = 0,
       pv_request_evidence_not_before = 0, pv_recovery_status = ''restored'', pv_samples = [],
       pv_failure_reason = None, pv_failure_control_epoch = None, pv_failure_transition_at = None,
       pv_failure_release_sha = None, pv_restore_phase = None, pv_restore_size_level = None,
       pv_last_block_reason = None, pv_recovery_evidence_hash = None\<rparr>,
     db_route_controls = [], db_transitions = [],
     db_lock = \<lparr>lk_active_lane = None, lk_active_identity = None, lk_acquired_at = None, lk_control_epoch = 0\<rparr>,
     db_atlas_requests = [], db_atlas_ingress = []\<rparr>"

definition sample_config :: executor_config where
  "sample_config =
    \<lparr>cf_wallet_address = sample_executor, cf_executor_address = sample_executor,
     cf_executor_code_hash = er_executor_code_hash sample_request, cf_pnl_asset_address = weth_address,
     cf_chain_id = 42161,
     cf_limits = \<lparr>lim_maximum_gas_limit = 1000, lim_maximum_max_fee_per_gas = 50,
       lim_maximum_priority_fee_per_gas = 10, lim_maximum_input_amount = 5000,
       lim_minimum_expected_profit = 1, lim_maximum_daily_loss_wei = 100000\<rparr>,
     cf_receipt_timeout = 60000000000, cf_one_transaction_at_a_time = True\<rparr>"

definition sample_now :: datetime where "sample_now = 1500000000000"

lemma sample_crates_simps [simp]:
  "cr_from_value_legs sample_crates v = Some (rr_legs sample_raw)"
  "cr_from_value_strings sample_crates v = Some (rr_token_path sample_raw)"
  "cr_sha256 sample_crates b = replicate 32 171" "cr_hex_encode sample_crates = ref_hex_encode"
  by (simp_all add: sample_crates_def)

lemma sample_decimals:
  "dec_string 1000 = ''1000''" "dec_string 20 = ''20''" "dec_string 10 = ''10''" "dec_string 5 = ''5''" "dec_string 1 = ''1''"
  by (simp_all add: dec_string.simps char_of_def bit_Suc_0_iff)

lemma sample_decode: "decode_request sample_crates sample_row = Inr sample_request"
proof -
  have "decode_request sample_crates sample_row = map_err (\<lambda>_. ST_Data) (request_validate sample_crates sample_raw)"
    by (simp add: decode_request_def sample_row_def column_def sample_decimals One_nat_def [symmetric]
        del: dec_string.simps One_nat_def) (simp add: sample_raw_def)
  then show ?thesis by (simp add: sample_request_valid)
qed

lemma sample_policy: "validate_and_encode sample_crates j k sample_request sample_config sample_now = Inr [1, 2, 3]"
proof -
  have bounds: "request_bounds sample_request sample_config sample_now = Inr ()"
    by (simp add: request_bounds_def sample_request_def sample_config_def sample_now_def word_less_nat_alt)
  have caps: "route_caps sample_request sample_config = Inr ()"
    by (simp add: route_caps_def sample_request_def sample_config_def word_less_nat_alt)
  have fee: "worst_case_fee sample_request = Some 500"
    by (simp add: worst_case_fee_def sample_request_def checked_mul_def)
  have calldata: "route_calldata sample_crates j k sample_request = Inr [1, 2, 3]"
    by (simp add: route_calldata_def sample_request_def encode_execute_opportunity_def timestamp_def try_from_int_def
        sample_crates_def MAX_CALLDATA_BYTES_def)
  have hash: "ref_hex_encode (replicate 32 171) = er_calldata_hash sample_request"
    by (simp add: sample_request_def ref_hex_encode_replicate ref_hex_digit_def char_of_def bit_Suc_0_iff)
  have digest: "er_approval_digest sample_request = concat (replicate 32 ''ab'')" by (simp add: sample_request_def)
  show ?thesis
    using sample_route_valid(3) sample_digest bounds caps fee calldata hash digest
    by (simp add: validate_and_encode_def) (simp add: sample_config_def word_less_nat_alt)
qed

section \<open>The life of its attempt\<close>

definition sample_hash :: transaction_hash where "sample_hash = TransactionHash (replicate 32 9)"

definition sample_attempt ::
  "attempt_status \<Rightarrow> nat option \<Rightarrow> string option \<Rightarrow> datetime option \<Rightarrow> attempt_row" where
  "sample_attempt status nonce tx_hash submitted_at =
    \<lparr>at_request_id = 7, at_chain_id = 42161,
     at_wallet_address = canonical_address_to_string sample_crates sample_executor,
     at_executor_address = canonical_address_to_string sample_crates sample_executor,
     at_nonce = nonce, at_tx_hash = tx_hash, at_status = status, at_error_code = None,
     at_claimed_at = sample_now, at_submitted_at = submitted_at, at_terminal_at = None\<rparr>"

definition sample_claimed :: db where
  "sample_claimed = sample_db\<lparr>db_requests := [sample_row\<lparr>rw_status := RQ_Attempt AS_Claimed\<rparr>],
     db_attempts := [sample_attempt AS_Claimed None None None],
     db_lock := \<lparr>lk_active_lane = Some ''phoenix_dex'', lk_active_identity = Some (cr_uuid_to_string sample_crates 7),
       lk_acquired_at = Some sample_now, lk_control_epoch = 1\<rparr>\<rparr>"

definition sample_allocated :: db where
  "sample_allocated = sample_claimed\<lparr>db_requests := [sample_row\<lparr>rw_status := RQ_Attempt AS_NonceAllocated\<rparr>],
     db_nonces := [\<lparr>nn_chain_id = 42161,
       nn_wallet_address = canonical_address_to_string sample_crates sample_executor, nn_next_nonce = 5\<rparr>],
     db_attempts := [sample_attempt AS_NonceAllocated (Some 4) None None]\<rparr>"

definition sample_pending :: db where
  "sample_pending = sample_allocated\<lparr>db_requests := [sample_row\<lparr>rw_status := RQ_Attempt AS_Pending\<rparr>],
     db_attempts := [sample_attempt AS_Pending (Some 4)
       (Some (transaction_hash_to_string sample_crates sample_hash)) (Some sample_now)]\<rparr>"

lemmas sample_states = sample_db_def sample_claimed_def sample_allocated_def sample_pending_def

lemma sample_lanes: "find_lane sample_db ''aave_liquidation'' = Some (sample_lane ''aave_liquidation'')"
  by (simp add: find_lane_def sample_db_def sample_lane_def)

lemma sample_enabled: "dex_enabled sample_db" "\<not> aave_enabled sample_db (sample_lane ''aave_liquidation'')"
  by (simp_all add: dex_enabled_def aave_enabled_def sample_db_def phase_like_live_def sample_lane_def)

lemma sample_claimable: "claimable True False 1000 m t sample_now sample_row"
  by (simp add: claimable_def sample_row_def sample_raw_def sample_now_def)

lemma sample_claim_row:
  "claim_row sample_crates sample_config sample_now sample_row sample_db = Inr (Some sample_request, sample_claimed)"
proof -
  have q: "er_id sample_request = 7" "er_route_type sample_request = PhoenixDexV1"
    by (simp_all add: sample_request_def)
  have r: "rw_id sample_row = 7" "rw_status sample_row = RQ_Approved" by (simp_all add: sample_row_def sample_raw_def)
  have "chain_column (cf_chain_id sample_config) = Inr 42161" by (simp add: chain_column_def sample_config_def)
  then show ?thesis
    by (simp add: claim_row_def sample_decode q r update_request_status_def update_requests_def update_where_def
        insert_attempt_def attempt_check_def update_candidate_status_for_request_def update_candidate_where_def
        update_candidates_def acquire_lock_def sample_db_def sample_claimed_def sample_attempt_def sample_config_def)
qed

lemma sample_claim:
  "claim_approved sample_crates sample_config sample_now sample_db = Inr (Some sample_request, sample_claimed)"
proof -
  have "next_claim (claimable True False 1000 1000 0 sample_now) sample_db = Some sample_row"
    by (simp add: next_claim_def sample_db_def sample_claimable first_def)
  then show ?thesis
    using sample_claim_row
    by (simp add: claim_approved_def sample_lanes sample_enabled)
      (simp add: sample_db_def sample_lane_def)
qed

lemma sample_allocate:
  "allocate_nonce sample_crates 7 sample_config 4 sample_claimed = Inr (4, sample_allocated)"
  by (simp add: allocate_nonce_def chain_column_def nonce_of_def upsert_nonce_def update_where_def
      update_attempts_def update_requests_def attempt_check_def checked_add_def map_filter_simps
      sample_states sample_config_def sample_attempt_def sample_row_def sample_raw_def)

lemma sample_signed: "mark_signed 7 sample_now sample_allocated = Inr sample_allocated"
  by (simp add: mark_signed_def unsubmitted_def update_candidate_where_def update_candidates_def update_where_def
      sample_states sample_attempt_def)

lemma sample_mark_pending:
  "mark_pending sample_crates 7 sample_hash sample_now sample_allocated = Inr sample_pending"
  by (simp add: mark_pending_def update_attempts_def update_where_def attempt_check_def map_filter_simps
      update_request_status_def update_requests_def update_candidate_status_for_request_def
      update_candidate_where_def update_candidates_def sample_states sample_attempt_def sample_row_def sample_raw_def)

lemma sample_controls:
  "read_control_state sample_db = Inr \<lparr>cs_armed = True, cs_kill_switch = False\<rparr>"
  "read_control_state sample_allocated = Inr \<lparr>cs_armed = True, cs_kill_switch = False\<rparr>"
  by (simp_all add: read_control_state_def find_lane_def dex_enabled_def phase_like_live_def sample_states sample_lane_def)

lemma sample_losses:
  "read_daily_loss_wei sample_now sample_db = Inr 0" "read_daily_loss_wei sample_now sample_allocated = Inr 0"
  by (simp_all add: read_daily_loss_wei_def direct_loss_def atlas_loss_def parse_u128_int_def try_from_int_def sample_states)

lemma sample_active: "read_active_attempt sample_crates sample_db = Inr None"
  by (simp add: read_active_attempt_def active_rows_def sample_db_def)

lemma sample_attempts_ok: "attempts_ok sample_db"
  by (simp add: attempts_ok_def sample_db_def)

section \<open>An executor and an environment without faults\<close>

definition sample_executor_x :: "db live_executor" where
  "sample_executor_x =
    \<lparr>le_config = sample_config,
     le_signer = \<lparr>sg_chain_id = 42161, sg_sign_encode = (\<lambda>_. Some (sample_hash, [42]))\<rparr>,
     le_store = postgres_store sample_crates, le_crates = sample_crates\<rparr>"

definition sample_env :: "db env" where
  "sample_env =
    \<lparr>ev_between = (\<lambda>_ d. d), ev_fault = (\<lambda>_. NoFault), ev_clock = (\<lambda>_. sample_now),
     ev_chain_id = (\<lambda>_. Inr 42161), ev_finalized_block_identity = (\<lambda>_. Inr (pinned_of sample_request)),
     ev_execution_contract_ready = (\<lambda>_ _ _ _. Inr True), ev_pending_nonce = (\<lambda>_ _. Inr 4),
     ev_send_raw_transaction = (\<lambda>_ _. Inr sample_hash), ev_transaction_receipt = (\<lambda>_ _. Inr None),
     ev_transaction_known = (\<lambda>_ _. Inr True)\<rparr>"

definition sample_world :: "db world" where
  "sample_world = \<lparr>wd_store = sample_db, wd_calls = 0, wd_trace = []\<rparr>"

lemma sample_x_simps [simp]:
  "le_config sample_executor_x = sample_config" "le_crates sample_executor_x = sample_crates"
  "le_store sample_executor_x = postgres_store sample_crates"
  "sign (le_signer sample_executor_x) (draft_of sample_config q n c) = Inr (sample_hash, [42])"
  by (simp_all add: sample_executor_x_def sign_def draft_of_def sample_config_def)

lemma sample_favourable: "favourable sample_executor_x sample_env sample_request"
  by (simp add: favourable_def undisturbed_def sample_env_def submission_deadlines_are_fresh_def
      execution_deadline_is_fresh_def duration_seconds_def)
    (simp add: sample_config_def sample_request_def sample_now_def)

lemma sample_fee: "worst_case_fee sample_request = Some 500"
  by (simp add: worst_case_fee_def sample_request_def checked_mul_def)

theorem step_submits_witness:
  "\<exists>v. step sample_executor_x sample_env sample_now sample_world
     = (Returned (ES_Pending 7 sample_hash), v) \<and> wd_store v = sample_pending \<and> sent_of (wd_trace v) = [(7, 4)]"
proof -
  have q: "er_id sample_request = 7" by (simp add: sample_request_def)
  have env: "ev_pending_nonce sample_env k a = Inr 4" "ev_send_raw_transaction sample_env k r = Inr sample_hash" for k a r
    by (simp_all add: sample_env_def)
  have w: "wd_store sample_world = sample_db" "wd_trace sample_world = []" by (simp_all add: sample_world_def)
  have limit: "lim_maximum_daily_loss_wei (cf_limits sample_config) = 100000" by (simp add: sample_config_def)
  show ?thesis
    using step_submits [where x = sample_executor_x and env = sample_env and q = sample_request and now = sample_now
        and w = sample_world and s = sample_db and ?s1.0 = sample_claimed and ?s2.0 = sample_allocated
        and ?s3.0 = sample_allocated and ?s4.0 = sample_pending and network = 4 and n = 4
        and calldata = "[1, 2, 3]" and signed_tx = "(sample_hash, [42])" and l = 0 and l' = 0 and fee = 500
        and exposure = 500 and c = "\<lparr>cs_armed = True, cs_kill_switch = False\<rparr>"
        and c' = "\<lparr>cs_armed = True, cs_kill_switch = False\<rparr>"]
    by (simp add: sample_favourable sample_active sample_controls sample_losses sample_claim sample_policy
        env q w limit sample_allocate sample_signed sample_mark_pending sample_fee postgres_store_simps
        checked_add_def word_less_nat_alt word_le_nat_alt)
qed

section \<open>Store\<close>

lemma sample_claimed_ok: "attempts_ok sample_claimed"
  by (simp add: attempts_ok_def attempt_check_def sample_claimed_def sample_attempt_def)

theorem store_step_lifecycle_witness:
  "store_step sample_crates sample_config sample_claimed sample_allocated \<and> attempts_ok sample_allocated \<and>
   (\<exists>b \<in> set (db_attempts sample_allocated). at_request_id b = 7 \<and> may_follow AS_Claimed (at_status b))"
proof -
  have "store_step sample_crates sample_config sample_claimed sample_allocated"
    by (rule step_allocate [OF sample_allocate])
  then show ?thesis
    using store_step_lifecycle [OF _ sample_claimed_ok, of sample_crates sample_config sample_allocated]
    by (auto simp: sample_claimed_def sample_attempt_def)
qed

theorem store_refines_ledger_witness:
  "ledger_step (pg_view sample_crates sample_config sample_claimed) (pg_view sample_crates sample_config sample_allocated)"
  by (rule store_refines_ledger [OF step_allocate [OF sample_allocate] sample_claimed_ok])

lemma sample_benign: "benign attempts_ok (pg_view cr cfg) sample_env"
  by (simp add: benign_def sample_env_def)

theorem executor_run_sends_once_witness:
  "distinct (map snd (sent_of (wd_trace (snd (step sample_executor_x sample_env sample_now sample_world)))))"
proof -
  have "executor_run sample_executor_x (benign attempts_ok (pg_view sample_crates sample_config)) sample_world
      (snd (step sample_executor_x sample_env sample_now sample_world))"
    by (intro run_step run_start sample_benign)
  from executor_run_sends_once [where cr = sample_crates and x = sample_executor_x, simplified, OF this] show ?thesis
    by (simp add: sample_world_def sample_attempts_ok)
qed

theorem claim_exclusive_witness:
  "map at_request_id (filter (\<lambda>a. is_active (at_status a)) (db_attempts sample_claimed)) = [7] \<and>
   lk_active_identity (db_lock sample_claimed) = Some (cr_uuid_to_string sample_crates 7)"
  using claim_exclusive [OF sample_claim, of sample_config sample_now] by (simp add: sample_request_def)

lemma sample_disarm: "\<exists>d. disarm sample_now ''daily_loss_budget'' sample_db = Inr d"
  by (simp add: disarm_def fail_close_execution_authority_def epochs_full_def error_code_ok_def update_where_def provider_recovery_def
      provider_failure_def insert_runtime_transition_def update_candidates_def sample_db_def sample_lane_def)

theorem disarm_fail_closed_witness:
  "\<exists>d. disarm sample_now ''daily_loss_budget'' sample_db = Inr d \<and>
     read_control_state d = Inr \<lparr>cs_armed = False, cs_kill_switch = True\<rparr> \<and>
     claim_approved sample_crates sample_config sample_now d = Inr (None, d)"
  using sample_disarm disarm_fail_closed [OF _ sample_lanes] by blast

section \<open>Policy and outcomes\<close>

theorem validate_and_encode_bounds_witness:
  "er_flash_amount sample_request \<le> er_maximum_input_amount sample_request \<and>
   cr_hex_encode sample_crates (cr_sha256 sample_crates [1, 2, 3]) = er_calldata_hash sample_request"
  using validate_and_encode_bounds [OF sample_policy] by blast

text \<open>A liquidation that is valid while its deadline has not passed.\<close>

definition sample_liquidation_route :: aave_liquidation_route where
  "sample_liquidation_route =
    \<lparr>al_borrower = aq_borrower sample_liquidation, al_debt_asset = aq_debt_asset sample_liquidation,
     al_collateral_asset = aq_collateral_asset sample_liquidation, al_debt_asset_decimals = 18,
     al_debt_asset_price_base = 1, al_weth_price_base = 1, al_maximum_input_weth_wei = 100,
     al_minimum_profit_weth_wei = 2, al_receive_a_token = False,
     al_minimum_collateral_received = aq_minimum_collateral_received sample_liquidation,
     al_minimum_unwind_output = aq_minimum_unwind_output sample_liquidation,
     al_maximum_atlas_bid = aq_maximum_atlas_bid sample_liquidation, al_evidence_mode = ''direct'',
     al_state_root = [], al_release_sha = []\<rparr>"

definition sample_liquidation_request :: execution_request where
  "sample_liquidation_request = sample_request
    \<lparr>er_route_type := AaveLiquidationV1, er_route_id := aq_route_id sample_liquidation,
     er_aave_liquidation := Some sample_liquidation_route,
     er_flash_amount := aq_repay_amount sample_liquidation,
     er_maximum_input_amount := aq_maximum_input_amount sample_liquidation,
     er_minimum_profit := aq_minimum_profit sample_liquidation,
     er_deadline := aq_deadline sample_liquidation, er_legs := aq_unwind_legs sample_liquidation\<rparr>"

theorem late_liquidation_never_settles_witness:
  "from_execution 1000000000 sample_liquidation_request = Inr sample_liquidation \<and>
   decode_route_settlement sample_crates 60000000000 sample_liquidation_request sample_executor [] = Inl AB_InvalidSettlement"
proof -
  have "liquidation_validate 1000000000 sample_liquidation = Inr ()"
    using sample_liquidation_encodes by (auto simp: encoded_request_def result_simps)
  then have "from_execution 1000000000 sample_liquidation_request = Inr sample_liquidation"
    by (simp add: from_execution_def sample_liquidation_request_def sample_liquidation_route_def
        sample_liquidation_def)
  then show ?thesis
    using late_liquidation_never_settles [of sample_liquidation_request 60000000000 sample_crates sample_executor "[]"]
    by (simp add: sample_liquidation_request_def sample_liquidation_def)
qed

definition sample_outcome :: "u128 \<Rightarrow> receipt_outcome" where
  "sample_outcome canonical =
    \<lparr>ro_receipt_status = 1, ro_settled_event_found = True, ro_block_number = 101, ro_gas_used = 50,
     ro_effective_gas_price = 4, ro_actual_fee_wei = 200, ro_actual_l1_cost_wei = 10,
     ro_settlement = \<lparr>st_asset = weth_address, st_flash_amount = 1000, st_premium = 1, st_realized_profit = 300\<rparr>,
     ro_canonical_realized_profit_wei = canonical, ro_net_pnl_wei = int (unat canonical) - 200\<rparr>"

lemma sample_outcome_valid:
  "outcome_valid AS_Confirmed (sample_outcome 300)" "outcome_valid AS_Confirmed (sample_outcome 400)"
  by (simp_all add: sample_outcome_def outcome_valid_def receipt_state_valid_def to_i128_def checked_signed_def
      fits_signed_def word_le_nat_alt)

theorem converted_profit_never_recorded_witness:
  "outcome_valid AS_Confirmed (sample_outcome 400) \<and>
   (\<exists>e. mark_terminal sample_crates 7 AS_Confirmed None (Some (sample_outcome 400)) sample_now sample_pending = Inl e)"
proof -
  have "ro_canonical_realized_profit_wei (sample_outcome 400) \<noteq> st_realized_profit (ro_settlement (sample_outcome 400))"
    by (simp add: sample_outcome_def)
  from converted_profit_never_recorded [OF this] sample_outcome_valid(2) show ?thesis by blast
qed

lemma sample_feedback:
  assumes "db_outcomes d = [w]" "0 \<le> ow_net_pnl_wei w" "ow_request_id w = 7"
    "db_requests d = [r]" "rw_id r = 7" "rw_route_fingerprint r = Some CURRENT_ROUTE_FINGERPRINT"
    "db_atlas_requests d = []" "gc_daily_loss_limit (db_global d) = 1000000"
    "eco_current_size_level (db_economic d) = ''L2''"
  shows "apply_autonomous_risk_feedback 7 t d = Inr d"
  using assms
  by (simp add: apply_autonomous_risk_feedback_def column_def read_daily_loss_wei_def direct_loss_def atlas_loss_def
      parse_u128_int_def try_from_int_def reviewed_route_policy_def route_outcomes_def route_feedback_def
      recent_results_def first_def size_level_try_from_def size_level_ALL_def AAVE_LIQUIDATION_ROUTE_FINGERPRINT_def
      CURRENT_ROUTE_FINGERPRINT_def word_le_nat_alt)

lemma sample_terminal:
  "\<exists>d. mark_terminal sample_crates 7 AS_Confirmed None (Some (sample_outcome 300)) sample_now sample_pending = Inr d"
proof -
  have ok: "terminal_arguments_ok AS_Confirmed (Some (sample_outcome 300))"
    using sample_outcome_valid(1) by (simp add: terminal_arguments_ok_def)
  have hash: "at_tx_hash (sample_attempt AS_Pending n (Some h) t) = Some h" for n h t by (simp add: sample_attempt_def)
  have record_ok: "record_outcome sample_crates 7 AS_Confirmed (Some (sample_outcome 300)) sample_now
      (sample_attempt AS_Pending n (Some h) t) sample_pending = Inr (sample_pending\<lparr>db_outcomes :=
        [outcome_row_of sample_crates 7 h AS_Confirmed (sample_outcome 300) sample_now t]\<rparr>)" for n h t
    by (simp add: record_outcome_def insert_outcome_def insert_autonomous_outcome_def outcome_check_def
        outcome_row_of_def sample_outcome_def sample_states sample_attempt_def)
  let ?a = "sample_attempt AS_Pending (Some 4) (Some (transaction_hash_to_string sample_crates sample_hash)) (Some sample_now)"
  have d: "db_attempts sample_pending = [?a]" "db_requests sample_pending = [sample_row\<lparr>rw_status := RQ_Attempt AS_Pending\<rparr>]"
    "db_candidates sample_pending = []" "db_outcomes sample_pending = []" "db_atlas_requests sample_pending = []"
    "gc_daily_loss_limit (db_global sample_pending) = 1000000" "eco_current_size_level (db_economic sample_pending) = ''L2''"
    "lk_active_identity (db_lock sample_pending) = Some (cr_uuid_to_string sample_crates 7)"
    by (simp_all add: sample_states)
  have a: "at_request_id ?a = 7" "at_status ?a = AS_Pending" "at_error_code ?a = None" "at_nonce ?a = Some 4"
    "at_submitted_at ?a = Some sample_now" by (simp_all add: sample_attempt_def)
  have r: "rw_id sample_row = 7" "rw_route_fingerprint sample_row = Some CURRENT_ROUTE_FINGERPRINT"
    by (simp_all add: sample_row_def sample_raw_def)
  show ?thesis
    by (simp add: mark_terminal_def ok d a hash r terminal_from_def record_ok update_attempts_def update_where_def
        attempt_check_def map_filter_simps update_requests_def candidate_terminal_status_def update_candidate_where_def
        update_candidates_def release_revenue_submission_lock_def outcome_row_of_def sample_feedback)
      (simp add: sample_outcome_def sample_feedback r d)
qed

theorem recorded_outcome_exact_witness:
  "\<exists>d row. mark_terminal sample_crates 7 AS_Confirmed None (Some (sample_outcome 300)) sample_now sample_pending = Inr d \<and>
     db_outcomes d = db_outcomes sample_pending @ [row] \<and> ow_net_pnl_wei row = 100"
proof -
  obtain d where d: "mark_terminal sample_crates 7 AS_Confirmed None (Some (sample_outcome 300)) sample_now sample_pending = Inr d"
    using sample_terminal by blast
  from recorded_outcome_exact [OF d] d show ?thesis by (auto simp: sample_outcome_def)
qed

end
