(* ===== verification/Executor_Recovery.thy ===== *)
theory Executor_Recovery
  imports Executor_Witnesses
begin

text \<open>
  What is left after an attempt: which terminal states release the submission lock, what the risk
  feedback of a terminal state does to the economic control, and that a drained executor contract is
  never claimed for again.
\<close>

section \<open>The steps of a terminal state\<close>

text \<open>The parts of the database the risk feedback reads, and the lock.\<close>

definition same_risk :: "db \<Rightarrow> db \<Rightarrow> bool" where
  "same_risk d d' \<longleftrightarrow>
     db_lock d' = db_lock d \<and> db_economic d' = db_economic d \<and> db_global d' = db_global d \<and>
     db_atlas_requests d' = db_atlas_requests d \<and> db_atlas_ingress d' = db_atlas_ingress d \<and>
     map (\<lambda>r. (rw_id r, rw_route_fingerprint r)) (db_requests d')
       = map (\<lambda>r. (rw_id r, rw_route_fingerprint r)) (db_requests d)"

lemma same_risk_refl [simp]: "same_risk d d"
  by (simp add: same_risk_def)

lemma same_risk_trans: "same_risk d e \<Longrightarrow> same_risk e f \<Longrightarrow> same_risk d f"
  by (simp add: same_risk_def)

lemma record_outcome_risk: "record_outcome cr i st w t row d = Inr d' \<Longrightarrow> same_risk d d'"
  by (auto simp: record_outcome_def insert_outcome_def insert_autonomous_outcome_def same_risk_def result_simps
      split: option.splits if_splits)

lemma update_attempts_risk: "update_attempts p f d = Inr (k, d') \<Longrightarrow> same_risk d d'"
  by (auto simp: update_attempts_def update_where_def same_risk_def split: if_splits)

lemma update_status_risk:
  "update_requests p (\<lambda>r. r\<lparr>rw_status := s\<rparr>) d = (k, d') \<Longrightarrow> same_risk d d'"
  by (auto simp: update_requests_def update_where_def same_risk_def)

lemma update_candidate_where_risk: "update_candidate_where i a b d = Inr d' \<Longrightarrow> same_risk d d'"
  by (auto simp: update_candidate_where_def update_candidates_def update_where_def same_risk_def split: if_splits)

lemma mark_terminal_risk:
  assumes "mark_terminal cr i status code outcome t d = Inr d'"
  obtains row e f g where "record_outcome cr i status outcome t row d = Inr e"
    "same_outcomes e f" "same_risk d f" "apply_autonomous_risk_feedback i t f = Inr g"
    "(if status \<in> {AS_Confirmed, AS_Reverted, AS_Failed} then release_revenue_submission_lock cr i g else Inr g) = Inr d'"
  using assms unfolding mark_terminal_def
  apply (elim result_elims)
  subgoal premises prems for row e z k e' y k2 e2 cs e3 e4
  proof -
    have "same_outcomes e e'" "same_risk d e" "same_risk e e'"
      using prems by (auto dest: outcome_frames record_outcome_risk update_attempts_risk)
    moreover have "same_outcomes e' e2" using prems by (auto dest!: update_requests_outcomes [OF sym])
    moreover have "same_risk e' e2" using prems by (auto dest!: update_status_risk [OF sym])
    moreover have "same_outcomes e2 e3" "same_risk e2 e3"
      using prems by (auto dest: outcome_frames update_candidate_where_risk)
    ultimately have "same_outcomes e e3" "same_risk d e3"
      by (blast intro: same_outcomes_trans same_risk_trans)+
    then show ?thesis by (intro prems(1) [of row e e3 e4]) (use prems(2-) in auto)
  qed
  done

section \<open>The submission lock\<close>

lemma route_feedback_lock: "route_feedback f l rl cl rs lv t d = (tr, d') \<Longrightarrow> db_lock d' = db_lock d"
  by (auto simp: route_feedback_def Let_def disarm_route_def cool_route_def split: if_splits)

lemma disarm_daily_loss_lock [simp]: "db_lock (disarm_daily_loss e d) = db_lock d"
  by (simp add: disarm_daily_loss_def update_candidates_def update_where_def)

lemma insert_transition_lock:
  "insert_runtime_transition p l p' l' r s e t d = Inr d' \<Longrightarrow> db_lock d' = db_lock d \<and> db_economic d' = db_economic d"
  by (auto simp: insert_runtime_transition_def split: if_splits)

lemma risk_feedback_lock: "apply_autonomous_risk_feedback i t d = Inr d' \<Longrightarrow> db_lock d' = db_lock d"
  unfolding apply_autonomous_risk_feedback_def
  by (elim result_elims)
    (auto simp: Let_def split: if_splits option.splits prod.splits dest!: route_feedback_lock insert_transition_lock
      elim!: result_elims)

text \<open>C37: A confirmed, reverted or failed attempt frees the submission lock it holds and bumps the epoch of
  the lock; a replaced or timed-out attempt keeps the lock as it is, so no later request can be claimed
  before the lock is cleared by hand.\<close>

theorem mark_terminal_lock:
  assumes "mark_terminal cr i status code outcome t d = Inr d'"
    "lk_active_lane (db_lock d) \<noteq> None" "lk_active_identity (db_lock d) = Some (cr_uuid_to_string cr i)"
  shows "if status \<in> {AS_Confirmed, AS_Reverted, AS_Failed}
    then db_lock d' = \<lparr>lk_active_lane = None, lk_active_identity = None, lk_acquired_at = None,
      lk_control_epoch = lk_control_epoch (db_lock d) + 1\<rparr>
    else db_lock d' = db_lock d \<and>
      (\<forall>cfg now c d''. claim_approved cr cfg now d' = Inr (c, d'') \<longrightarrow> c = None)"
proof -
  obtain row e f g where f: "record_outcome cr i status outcome t row d = Inr e" "same_outcomes e f" "same_risk d f"
    "apply_autonomous_risk_feedback i t f = Inr g"
    and g: "(if status \<in> {AS_Confirmed, AS_Reverted, AS_Failed} then release_revenue_submission_lock cr i g else Inr g) = Inr d'"
    by (rule mark_terminal_risk [OF assms(1)]) (rule that)
  have lock: "db_lock g = db_lock d" using risk_feedback_lock [OF f(4)] f(3) by (simp add: same_risk_def)
  have "c = None" if "db_lock d' = db_lock d" "claim_approved cr cfg now d' = Inr (c, d'')" for cfg now c d''
    using that(2) by (cases rule: claim_approved_cases) (use that(1) assms(2) in auto)
  then show ?thesis
    using g lock assms(3) by (auto simp: release_revenue_submission_lock_def)
qed

theorem mark_terminal_lock_witness:
  "\<exists>d. mark_terminal sample_crates 7 AS_Confirmed None (Some (sample_outcome 300)) sample_now sample_pending = Inr d \<and>
     lk_active_lane (db_lock d) = None \<and> lk_control_epoch (db_lock d) = 2"
proof -
  obtain d where d: "mark_terminal sample_crates 7 AS_Confirmed None (Some (sample_outcome 300)) sample_now sample_pending = Inr d"
    using sample_terminal by blast
  from mark_terminal_lock [OF d] d show ?thesis by (simp add: sample_states)
qed

section \<open>Risk feedback\<close>

lemma route_feedback_loss:
  assumes "route_feedback fingerprint l rl cl (v # vs) level t d = (tr, d')" "v < 0"
  shows "tr \<noteq> None \<and> eco_phase (db_economic d') \<in> {PH_Cooldown, PH_DisarmedFailure} \<and>
    (eco_phase (db_economic d') = PH_Cooldown \<longrightarrow>
      eco_current_size_level (db_economic d') = size_level_as_str (level_previous level))"
  using assms by (auto simp: route_feedback_def Let_def first_def disarm_route_def cool_route_def split: if_splits)

lemma disarm_daily_loss_phase [simp]: "eco_phase (db_economic (disarm_daily_loss e d)) = PH_DisarmedFailure"
  by (simp add: disarm_daily_loss_def update_candidates_def update_where_def)

lemma risk_feedback_loss:
  assumes "apply_autonomous_risk_feedback i t d = Inr d'"
    "List.find (\<lambda>r. rw_id r = i) (db_requests d) = Some row" "rw_route_fingerprint row = Some fingerprint"
    "fingerprint \<noteq> AAVE_LIQUIDATION_ROUTE_FINGERPRINT" "recent_results fingerprint d = v # vs" "v < 0"
    "size_level_try_from (eco_current_size_level (db_economic d)) = Some level"
  shows "eco_phase (db_economic d') \<in> {PH_Cooldown, PH_DisarmedFailure} \<and>
    (eco_phase (db_economic d') = PH_Cooldown \<longrightarrow>
      eco_current_size_level (db_economic d') = size_level_as_str (level_previous level))"
  using assms unfolding apply_autonomous_risk_feedback_def
  by (elim result_elims)
    (auto simp: Let_def column_def ok_or_Inr split: if_splits option.splits prod.splits
      dest!: insert_transition_lock route_feedback_loss elim!: result_elims)

lemma find_fingerprint:
  assumes "map (\<lambda>r. (rw_id r, rw_route_fingerprint r)) rs = map (\<lambda>r. (rw_id r, rw_route_fingerprint r)) rs'"
  shows "map_option rw_route_fingerprint (List.find (\<lambda>r. rw_id r = i) rs)
    = map_option rw_route_fingerprint (List.find (\<lambda>r. rw_id r = i) rs')"
  using assms by (induction rs arbitrary: rs') (auto simp: Cons_eq_map_conv split: if_splits)

lemma route_outcomes_fingerprint:
  assumes "map (\<lambda>r. (rw_id r, rw_route_fingerprint r)) (db_requests d)
      = map (\<lambda>r. (rw_id r, rw_route_fingerprint r)) (db_requests d')" "db_outcomes d = db_outcomes d'"
  shows "recent_results fingerprint d = recent_results fingerprint d'"
proof -
  have "list_ex (\<lambda>r. rw_id r = j \<and> rw_route_fingerprint r = Some fingerprint) (db_requests d)
      = list_ex (\<lambda>r. rw_id r = j \<and> rw_route_fingerprint r = Some fingerprint) (db_requests d')" for j
    using arg_cong [OF assms(1), of "list_ex (\<lambda>(k, f). k = j \<and> f = Some fingerprint)"]
    by (simp add: list_ex_iff)
  then show ?thesis by (simp add: recent_results_def route_outcomes_def assms(2))
qed

text \<open>C40: The risk feedback does not look at the attempt that ended. When an attempt fails before it is
  submitted, so that nothing is recorded for it, and the last recorded result of its route is a loss,
  however old, the economic control goes to the cooldown, one size level down, or to the failure phase.\<close>

theorem failed_attempt_repeats_cooldown:
  assumes "mark_terminal cr i AS_Failed code None t d = Inr d'"
    "List.find (\<lambda>r. rw_id r = i) (db_requests d) = Some row" "rw_route_fingerprint row = Some fingerprint"
    "fingerprint \<noteq> AAVE_LIQUIDATION_ROUTE_FINGERPRINT" "recent_results fingerprint d = v # vs" "v < 0"
    "size_level_try_from (eco_current_size_level (db_economic d)) = Some level"
  shows "db_outcomes d' = db_outcomes d \<and> eco_phase (db_economic d') \<in> {PH_Cooldown, PH_DisarmedFailure} \<and>
    (eco_phase (db_economic d') = PH_Cooldown \<longrightarrow>
      eco_current_size_level (db_economic d') = size_level_as_str (level_previous level))"
proof -
  obtain a e f g where f: "record_outcome cr i AS_Failed None t a d = Inr e" "same_outcomes e f" "same_risk d f"
    "apply_autonomous_risk_feedback i t f = Inr g"
    and "(if AS_Failed \<in> {AS_Confirmed, AS_Reverted, AS_Failed} then release_revenue_submission_lock cr i g else Inr g) = Inr d'"
    by (rule mark_terminal_risk [OF assms(1)]) (rule that)
  then have g: "release_revenue_submission_lock cr i g = Inr d'" by simp
  have e: "db_outcomes f = db_outcomes d" using f(1,2) by (simp add: record_outcome_def same_outcomes_def)
  have ids: "map (\<lambda>r. (rw_id r, rw_route_fingerprint r)) (db_requests f)
      = map (\<lambda>r. (rw_id r, rw_route_fingerprint r)) (db_requests d)" and eco: "db_economic f = db_economic d"
    using f(3) by (simp_all add: same_risk_def)
  obtain row' where row': "List.find (\<lambda>r. rw_id r = i) (db_requests f) = Some row'"
    "rw_route_fingerprint row' = Some fingerprint"
    using find_fingerprint [OF ids, of i] assms(2,3) by auto
  have "recent_results fingerprint f = v # vs" using route_outcomes_fingerprint [OF ids e] assms(5) by simp
  note loss = risk_feedback_loss [OF f(4) row' assms(4) this assms(6), unfolded eco, OF assms(7)]
  moreover have "db_economic d' = db_economic g" "db_outcomes d' = db_outcomes d"
    using g e risk_feedback_outcomes [OF f(4)]
    by (auto simp: release_revenue_submission_lock_def same_outcomes_def split: if_splits)
  ultimately show ?thesis by simp
qed

text \<open>The claimed sample after an earlier request of the same route has lost a day before.\<close>

definition sample_old_loss :: outcome_row where
  "sample_old_loss = (outcome_row_of sample_crates 6 ''0x'' AS_Reverted (sample_outcome 300) (sample_now - 200000000000000) None)
     \<lparr>ow_net_pnl_wei := - 200\<rparr>"

definition sample_after_loss :: db where
  "sample_after_loss = sample_claimed\<lparr>db_outcomes := [sample_old_loss],
     db_requests := [sample_row\<lparr>rw_status := RQ_Attempt AS_Claimed\<rparr>, sample_row\<lparr>rw_id := 6, rw_status := RQ_Attempt AS_Reverted\<rparr>]\<rparr>"

lemma sample_after_loss_fails:
  "\<exists>d. mark_terminal sample_crates 7 AS_Failed (Some ''executor_state_rpc_failure'') None sample_now sample_after_loss = Inr d"
proof -
  have old: "ow_request_id sample_old_loss = 6" "ow_net_pnl_wei sample_old_loss = - 200"
    "\<not> same_day sample_now (ow_recorded_at sample_old_loss)"
    by (simp_all add: sample_old_loss_def outcome_row_of_def same_day_def day_start_def sample_now_def)
  have r: "rw_id sample_row = 7" "rw_route_fingerprint sample_row = Some CURRENT_ROUTE_FINGERPRINT"
    by (simp_all add: sample_row_def sample_raw_def)
  have feedback: "\<exists>e. apply_autonomous_risk_feedback 7 sample_now (sample_after_loss\<lparr>db_attempts := as,
      db_requests := [sample_row\<lparr>rw_status := u\<rparr>, sample_row\<lparr>rw_id := 6, rw_status := v\<rparr>], db_candidates := []\<rparr>) = Inr e"
    for as u v
    by (simp add: apply_autonomous_risk_feedback_def column_def read_daily_loss_wei_def direct_loss_def atlas_loss_def
        parse_u128_int_def try_from_int_def reviewed_route_policy_def route_outcomes_def route_feedback_def old r
        recent_results_def first_def size_level_try_from_def size_level_ALL_def AAVE_LIQUIDATION_ROUTE_FINGERPRINT_def
        CURRENT_ROUTE_FINGERPRINT_def word_le_nat_alt sample_after_loss_def sample_states
        insert_runtime_transition_def error_code_ok_def Let_def)
  let ?a = "sample_attempt AS_Claimed None None None"
  let ?a' = "?a\<lparr>at_status := AS_Failed, at_error_code := Some ''executor_state_rpc_failure'', at_terminal_at := Some sample_now\<rparr>"
  obtain e where e: "apply_autonomous_risk_feedback 7 sample_now (sample_after_loss\<lparr>db_attempts := [?a'],
      db_requests := [sample_row\<lparr>rw_status := RQ_Attempt AS_Failed\<rparr>, sample_row\<lparr>rw_id := 6, rw_status := RQ_Attempt AS_Reverted\<rparr>],
      db_candidates := []\<rparr>) = Inr e"
    using feedback by blast
  have d: "db_attempts sample_after_loss = [?a]" "db_candidates sample_after_loss = []"
    "db_requests sample_after_loss = [sample_row\<lparr>rw_status := RQ_Attempt AS_Claimed\<rparr>,
      sample_row\<lparr>rw_id := 6, rw_status := RQ_Attempt AS_Reverted\<rparr>]"
    by (simp_all add: sample_after_loss_def sample_states)
  have a: "at_request_id ?a = 7" "at_status ?a = AS_Claimed" "at_tx_hash ?a = None" by (simp_all add: sample_attempt_def)
  show ?thesis
    by (simp add: mark_terminal_def terminal_arguments_ok_def record_outcome_def terminal_from_def update_attempts_def
        update_where_def update_requests_def attempt_check_def map_filter_simps candidate_terminal_status_def
        update_candidate_where_def update_candidates_def release_revenue_submission_lock_def r d a e error_code_ok_def)
qed

theorem failed_attempt_repeats_cooldown_witness:
  "\<exists>d. mark_terminal sample_crates 7 AS_Failed (Some ''executor_state_rpc_failure'') None sample_now sample_after_loss = Inr d \<and>
     db_outcomes d = db_outcomes sample_after_loss \<and> eco_phase (db_economic d) \<in> {PH_Cooldown, PH_DisarmedFailure}"
proof -
  obtain d where d: "mark_terminal sample_crates 7 AS_Failed (Some ''executor_state_rpc_failure'') None sample_now sample_after_loss = Inr d"
    using sample_after_loss_fails by blast
  have "List.find (\<lambda>r. rw_id r = 7) (db_requests sample_after_loss) = Some (sample_row\<lparr>rw_status := RQ_Attempt AS_Claimed\<rparr>)"
    "rw_route_fingerprint (sample_row\<lparr>rw_status := RQ_Attempt AS_Claimed\<rparr>) = Some CURRENT_ROUTE_FINGERPRINT"
    "CURRENT_ROUTE_FINGERPRINT \<noteq> AAVE_LIQUIDATION_ROUTE_FINGERPRINT"
    "recent_results CURRENT_ROUTE_FINGERPRINT sample_after_loss = [- 200]"
    "size_level_try_from (eco_current_size_level (db_economic sample_after_loss)) = Some SL_L2"
    by (simp_all add: sample_after_loss_def sample_states sample_row_def sample_raw_def recent_results_def
        route_outcomes_def sample_old_loss_def outcome_row_of_def size_level_try_from_def size_level_ALL_def
        CURRENT_ROUTE_FINGERPRINT_def AAVE_LIQUIDATION_ROUTE_FINGERPRINT_def)
  from failed_attempt_repeats_cooldown [OF d this(1,2,3,4) _ this(5)] d show ?thesis by auto
qed

section \<open>Draining an executor contract\<close>

lemma lower_text_address:
  assumes "hex_codec cr"
  shows "lower_text (canonical_address_to_string cr a) = canonical_address_to_string cr a"
proof -
  have "is_lower_hex c \<Longrightarrow> to_ascii_lower c = c" for c
    by (auto simp: is_lower_hex_def is_ascii_digit_def to_ascii_lower_def)
  moreover have "list_all is_lower_hex (cr_hex_encode cr (address_bytes a))" using assms by (simp add: hex_codec_def)
  ultimately show ?thesis
    by (simp add: lower_text_def canonical_address_to_string_def to_ascii_lower_def of_char_def map_idI list_all_iff)
qed

lemma request_validate_executor:
  "request_validate cr raw = Inr q \<Longrightarrow> canonical_address_parse cr (rr_executor_address raw) = Inr (er_executor_address q)"
  unfolding request_validate_def by (elim result_elims) (auto elim!: result_elims)

lemma decode_request_executor:
  assumes "hex_codec cr" "decode_request cr row = Inr q"
  shows "rw_executor_address row = Some (canonical_address_to_string cr (er_executor_address q))"
  using assms(2) unfolding decode_request_def
  by (elim result_elims)
    (auto simp: column_def ok_or_Inr map_err_Inr canonical_address_parse_Inr [OF assms(1)] dest!: request_validate_executor)

text \<open>C36: Draining an executor contract fences it. After a committed drain of an address no request that
  would run on this contract can be claimed, by any configuration and at any time.\<close>

theorem drain_fences_executor:
  assumes "hex_codec cr" "canonical_address_parse cr text = Inr address"
    "drain_executor_identity cr text d = Inr (drained, d')"
    "claim_approved cr cfg now d' = Inr (Some q, d'')"
  shows "er_executor_address q \<noteq> address"
proof
  assume q: "er_executor_address q = address"
  let ?i = "canonical_address_to_string cr address"
  have none: "\<not> (bound_to ?i r \<and> rw_status r = RQ_Approved)" if "r \<in> set (db_requests d')" for r
    using assms(2,3) that unfolding drain_executor_identity_def
    by (elim result_elims) (auto simp: map_err_Inr list_ex_iff)
  show False
    using assms(4)
  proof (cases rule: claim_approved_cases)
    case (2 lane row)
    obtain p where p: "Some q = Some p" "decode_request cr row = Inr p" by (rule claim_row_Inr [OF 2(6)]) (rule that)
    have "row \<in> set (db_requests d')" "rw_status row = RQ_Approved"
      using next_claim_Some [OF 2(5)] by (auto simp: claimable_def)
    moreover have "bound_to ?i row"
      using decode_request_executor [OF assms(1) p(2)] p(1) q lower_text_address [OF assms(1)] by (simp add: bound_to_def)
    ultimately show ?thesis using none by blast
  qed simp
qed

lemma sample_drain:
  "\<exists>r d. drain_executor_identity sample_crates ARBITRUM_WETH_ADDRESS sample_db = Inr (r, d) \<and> d = sample_db"
proof -
  have "canonical_address_to_string sample_crates weth_address = ARBITRUM_WETH_ADDRESS"
    using sample_addresses(1) by (simp add: canonical_address_parse_Inr [OF sample_hex_codec])
  then have "\<not> bound_to (canonical_address_to_string sample_crates weth_address) sample_row"
    by (simp add: bound_to_def sample_row_def sample_raw_def lower_text_def ARBITRUM_WETH_ADDRESS_def
        to_ascii_lower_def of_char_def numeral_eq_Suc)
  then show ?thesis
    by (simp add: drain_executor_identity_def sample_addresses active_rows_def update_requests_def update_where_def
        update_candidates_def count_u64_def try_from_int_def sample_db_def)
qed

theorem drain_fences_executor_witness:
  "claim_approved sample_crates sample_config sample_now sample_db = Inr (Some sample_request, sample_claimed) \<and>
   er_executor_address sample_request \<noteq> weth_address"
proof -
  obtain r where "drain_executor_identity sample_crates ARBITRUM_WETH_ADDRESS sample_db = Inr (r, sample_db)"
    using sample_drain by blast
  from drain_fences_executor [OF sample_hex_codec sample_addresses(1) this sample_claim] sample_claim show ?thesis
    by blast
qed

end
