(* ===== verification/Contract_Model.thy ===== *)
theory Contract_Model
  imports Phoenix_Prelude
begin

text \<open>
  The on-chain executor (\<^verbatim>\<open>contracts/src/PhoenixExecutor.sol\<close>): its storage, its structs, errors and
  events, and every external and internal function, modifiers included. A function runs to a tree of the
  calls it makes: a view call answers without changing anything, any other external call hands control
  to code that may call back into the contract, so the tree continues with whatever storage it finds
  afterwards. Solidity's checked arithmetic reverts. The ABI coder the compiler generates is the
  parameter \<open>abi_coder\<close>.
\<close>

section \<open>Types\<close>

type_synonym eth_address = "160 word"
type_synonym bytes32 = "256 word"
type_synonym u24 = "24 word"
type_synonym bytes = "u8 list"

datatype (plugins only: size) contract_error =
    CE_Unauthorized | CE_Paused | CE_NotPaused | CE_ExecutionActive | CE_Reentrant | CE_ZeroAddress | CE_ZeroAmount
  | CE_UnsupportedAsset eth_address | CE_InvalidRouter eth_address | CE_InvalidFactory eth_address
  | CE_InvalidPool eth_address | CE_InvalidLeg | CE_InvalidRecipient eth_address | CE_InputLimit u256 u256
  | CE_Expired | CE_MinProfit u256 u256 | CE_CallbackSpoof | CE_NoActiveExecution | CE_MalformedLegs
  | CE_TransferFailed | CE_InvalidAtlas eth_address | CE_InvalidSolver eth_address
  | CE_InvalidBid eth_address u256 u256 | CE_InvalidLiquidation | CE_InsufficientCollateral u256 u256
  | CE_RepayAmountMismatch u256 u256 | CE_CollateralAmountMismatch u256 u256
  | CE_Panic | CE_Callee | CE_Decode

text \<open>The last three are not declared by the contract: an arithmetic panic, the revert of a callee that is
  passed on, and a failed ABI decoding.\<close>

datatype (plugins only: size) contract_event =
    OwnershipTransferStarted eth_address eth_address
  | OwnershipTransferred eth_address eth_address
  | SearcherUpdated eth_address bool
  | PausedSet bool
  | FlashProviderUpdated eth_address
  | AssetUpdated eth_address bool
  | RouterUpdated eth_address bool
  | FactoryUpdated eth_address bool
  | PoolUpdated eth_address eth_address bool
  | MaximumInputUpdated u256
  | TokenWithdrawn eth_address eth_address u256
  | NativeWithdrawn eth_address u256
  | OpportunityStarted bytes32 eth_address u256
  | OpportunitySettled bytes32 eth_address u256 u256 u256
  | AaveLiquidationStarted bytes32 eth_address eth_address eth_address u256 bool
  | AaveLiquidationSettled bytes32 eth_address eth_address u256 u256 u256 u256

record sol_leg =
  sl_pool :: eth_address
  sl_tokenIn :: eth_address
  sl_tokenOut :: eth_address
  sl_fee :: u24
  sl_zeroForOne :: bool
  sl_minAmountOut :: u256

record sol_opportunity =
  so_routeId :: bytes32
  so_originRouter :: eth_address
  so_recipient :: eth_address
  so_flashAsset :: eth_address
  so_flashAmount :: u256
  so_maxInputAmount :: u256
  so_minProfit :: u256
  so_deadline :: u256
  so_legs :: "sol_leg list"

record sol_liquidation =
  sq_routeId :: bytes32
  sq_borrower :: eth_address
  sq_debtAsset :: eth_address
  sq_collateralAsset :: eth_address
  sq_repayAmount :: u256
  sq_receiveAToken :: bool
  sq_maxInputAmount :: u256
  sq_minCollateralReceived :: u256
  sq_minUnwindOutput :: u256
  sq_minProfit :: u256
  sq_maxAtlasBid :: u256
  sq_deadline :: u256
  sq_unwindLegs :: "sol_leg list"

record pool_config =
  pc_factory :: eth_address
  pc_token0 :: eth_address
  pc_token1 :: eth_address
  pc_fee :: u24
  pc_approved :: bool

record active_execution =
  ax_active :: bool
  ax_kind :: u8
  ax_atlas :: bool
  ax_routeId :: bytes32
  ax_asset :: eth_address
  ax_amount :: u256
  ax_baselineBalance :: u256
  ax_requiredProfit :: u256
  ax_premium :: u256

record swap_callback_data =
  cb_tokenIn :: eth_address
  cb_tokenOut :: eth_address
  cb_pool :: eth_address

record phoenix_executor =
  px_owner :: eth_address
  px_pendingOwner :: eth_address
  px_flashProvider :: eth_address
  px_atlas :: eth_address
  px_weth :: eth_address
  px_paused :: bool
  px_entered :: bool
  px_authorizedSearchers :: "eth_address \<Rightarrow> bool"
  px_approvedAssets :: "eth_address \<Rightarrow> bool"
  px_approvedRouters :: "eth_address \<Rightarrow> bool"
  px_approvedFactories :: "eth_address \<Rightarrow> bool"
  px_approvedPools :: "eth_address \<Rightarrow> pool_config"
  px_maximumInputAmount :: u256
  px_activeExecution :: active_execution

definition no_execution :: active_execution where
  "no_execution = \<lparr>ax_active = False, ax_kind = 0, ax_atlas = False, ax_routeId = 0, ax_asset = 0, ax_amount = 0,
     ax_baselineBalance = 0, ax_requiredProfit = 0, ax_premium = 0\<rparr>"

definition no_pool :: pool_config where
  "no_pool = \<lparr>pc_factory = 0, pc_token0 = 0, pc_token1 = 0, pc_fee = 0, pc_approved = False\<rparr>"

record msg =
  mg_sender :: eth_address
  mg_value :: u256
  mg_timestamp :: u256

record abi_coder =
  ab_encode_opportunity :: "sol_opportunity \<Rightarrow> bytes"
  ab_decode_opportunity :: "bytes \<Rightarrow> sol_opportunity option"
  ab_encode_liquidation :: "sol_liquidation \<Rightarrow> bytes"
  ab_decode_liquidation :: "bytes \<Rightarrow> sol_liquidation option"
  ab_encode_callback :: "swap_callback_data \<Rightarrow> bytes"
  ab_decode_callback :: "bytes \<Rightarrow> swap_callback_data option"

section \<open>Calls and programs\<close>

text \<open>View calls to other contracts, besides the balances and allowances of tokens.\<close>

datatype (plugins only: size) view =
    V_getPool eth_address eth_address eth_address u24
  | V_token0 eth_address
  | V_token1 eth_address
  | V_fee eth_address
  | V_shortfall eth_address

datatype (plugins only: size) ext_call =
    ERC20_transfer eth_address eth_address u256
  | ERC20_approve eth_address eth_address u256
  | FlashLoanSimple eth_address eth_address u256 bytes
  | LiquidationCall eth_address eth_address eth_address eth_address u256
  | Swap eth_address bool int "160 word" bytes
  | WethWithdraw eth_address u256
  | SendNative eth_address u256
  | Reconcile eth_address u256 u256

text \<open>A call continues with its success and the storage it leaves; a view call answers two words.\<close>

datatype (plugins only: size) 'a node =
    Done 'a phoenix_executor
  | Revert contract_error
  | Balance eth_address "u256 \<Rightarrow> 'a node"
  | Allowance eth_address eth_address "u256 \<Rightarrow> 'a node"
  | View view "u256 \<times> u256 \<Rightarrow> 'a node"
  | Log contract_event "'a node"
  | Call ext_call phoenix_executor "bool \<Rightarrow> phoenix_executor \<Rightarrow> 'a node"

type_synonym 'a prog = "phoenix_executor \<Rightarrow> 'a node"

primrec node_bind :: "'a node \<Rightarrow> ('a \<Rightarrow> 'b prog) \<Rightarrow> 'b node" where
  "node_bind (Done a s) f = f a s"
| "node_bind (Revert e) f = Revert e"
| "node_bind (Balance t k) f = Balance t (\<lambda>x. node_bind (k x) f)"
| "node_bind (Allowance t p k) f = Allowance t p (\<lambda>x. node_bind (k x) f)"
| "node_bind (View v k) f = View v (\<lambda>x. node_bind (k x) f)"
| "node_bind (Log e n) f = Log e (node_bind n f)"
| "node_bind (Call c s k) f = Call c s (\<lambda>ok s. node_bind (k ok s) f)"

definition pbind :: "'a prog \<Rightarrow> ('a \<Rightarrow> 'b prog) \<Rightarrow> 'b prog" where
  "pbind m f s = node_bind (m s) f"

definition pret :: "'a \<Rightarrow> 'a prog" where
  "pret a s = Done a s"

definition revert :: "contract_error \<Rightarrow> 'a prog" where
  "revert e s = Revert e"

definition revert_if :: "bool \<Rightarrow> contract_error \<Rightarrow> unit prog" where
  "revert_if b e = (if b then revert e else pret ())"

definition storage :: "phoenix_executor prog" where
  "storage s = Done s s"

definition store :: "(phoenix_executor \<Rightarrow> phoenix_executor) \<Rightarrow> unit prog" where
  "store f s = Done () (f s)"

definition balance_of :: "eth_address \<Rightarrow> u256 prog" where
  "balance_of token s = Balance token (\<lambda>x. Done x s)"

definition allowance_of :: "eth_address \<Rightarrow> eth_address \<Rightarrow> u256 prog" where
  "allowance_of token spender s = Allowance token spender (\<lambda>x. Done x s)"

definition view_call :: "view \<Rightarrow> (u256 \<times> u256) prog" where
  "view_call v s = View v (\<lambda>x. Done x s)"

definition emit_event :: "contract_event \<Rightarrow> unit prog" where
  "emit_event e s = Log e (Done () s)"

text \<open>A low-level call reports its success; a high-level call passes the revert of its callee on.\<close>

definition low_level_call :: "ext_call \<Rightarrow> bool prog" where
  "low_level_call c s = Call c s (\<lambda>ok s. Done ok s)"

definition high_level_call :: "ext_call \<Rightarrow> unit prog" where
  "high_level_call c s = Call c s (\<lambda>ok s. if ok then Done () s else Revert CE_Callee)"

definition checked :: "'a option \<Rightarrow> 'a prog" where
  "checked r = (case r of None \<Rightarrow> revert CE_Panic | Some x \<Rightarrow> pret x)"

definition decoded :: "'a option \<Rightarrow> 'a prog" where
  "decoded r = (case r of None \<Rightarrow> revert CE_Decode | Some x \<Rightarrow> pret x)"

section \<open>Modifiers\<close>

definition onlyOwner :: "msg \<Rightarrow> unit prog" where
  "onlyOwner m = pbind storage (\<lambda>s. revert_if (mg_sender m \<noteq> px_owner s) CE_Unauthorized)"

definition onlySearcher :: "msg \<Rightarrow> unit prog" where
  "onlySearcher m = pbind storage (\<lambda>s.
     revert_if (mg_sender m \<noteq> px_owner s \<and> \<not> px_authorizedSearchers s (mg_sender m)) CE_Unauthorized)"

definition whenNotPaused :: "unit prog" where
  "whenNotPaused = pbind storage (\<lambda>s. revert_if (px_paused s) CE_Paused)"

definition whenPaused :: "unit prog" where
  "whenPaused = pbind storage (\<lambda>s. revert_if (\<not> px_paused s) CE_NotPaused)"

definition whenNoActiveExecution :: "unit prog" where
  "whenNoActiveExecution = pbind storage (\<lambda>s. revert_if (ax_active (px_activeExecution s)) CE_ExecutionActive)"

definition nonReentrant :: "'a prog \<Rightarrow> 'a prog" where
  "nonReentrant body =
    pbind storage (\<lambda>s.
    pbind (revert_if (px_entered s) CE_Reentrant) (\<lambda>_.
    pbind (store (\<lambda>s. s\<lparr>px_entered := True\<rparr>)) (\<lambda>_.
    pbind body (\<lambda>a.
    pbind (store (\<lambda>s. s\<lparr>px_entered := False\<rparr>)) (\<lambda>_. pret a)))))"

section \<open>Internal functions\<close>

definition safeTransfer :: "eth_address \<Rightarrow> eth_address \<Rightarrow> u256 \<Rightarrow> unit prog" where
  "safeTransfer token dest amount =
    pbind (low_level_call (ERC20_transfer token dest amount)) (\<lambda>ok. revert_if (\<not> ok) CE_TransferFailed)"

definition safeApprove :: "eth_address \<Rightarrow> eth_address \<Rightarrow> u256 \<Rightarrow> unit prog" where
  "safeApprove token spender amount =
    pbind (low_level_call (ERC20_approve token spender amount)) (\<lambda>ok. revert_if (\<not> ok) CE_TransferFailed)"

definition MIN_SQRT_RATIO :: "160 word" where "MIN_SQRT_RATIO = 4295128739"

definition MAX_SQRT_RATIO :: "160 word" where
  "MAX_SQRT_RATIO = 1461446703485210103287273052203988822378723970342"

definition pool_usable :: "phoenix_executor \<Rightarrow> eth_address \<Rightarrow> bool" where
  "pool_usable s pool \<longleftrightarrow>
     pc_approved (px_approvedPools s pool) \<and> px_approvedFactories s (pc_factory (px_approvedPools s pool))"

definition leg_oriented :: "pool_config \<Rightarrow> sol_leg \<Rightarrow> bool" where
  "leg_oriented cfg leg \<longleftrightarrow>
     (if sl_zeroForOne leg then sl_tokenIn leg = pc_token0 cfg \<and> sl_tokenOut leg = pc_token1 cfg
      else sl_tokenIn leg = pc_token1 cfg \<and> sl_tokenOut leg = pc_token0 cfg)"

text \<open>The loop over the legs, which the two validations share: the token the next leg must take.\<close>

primrec validate_leg_loop :: "sol_leg list \<Rightarrow> eth_address \<Rightarrow> eth_address prog" where
  "validate_leg_loop [] expectedInput = pret expectedInput"
| "validate_leg_loop (leg # legs) expectedInput =
    pbind storage (\<lambda>s.
    let cfg = px_approvedPools s (sl_pool leg) in
    pbind (revert_if (\<not> pool_usable s (sl_pool leg)) (CE_InvalidPool (sl_pool leg))) (\<lambda>_.
    pbind (revert_if (\<not> px_approvedAssets s (sl_tokenIn leg) \<or> \<not> px_approvedAssets s (sl_tokenOut leg)
        \<or> sl_tokenIn leg \<noteq> expectedInput \<or> sl_fee leg \<noteq> pc_fee cfg \<or> sl_minAmountOut leg = 0) CE_InvalidLeg) (\<lambda>_.
    pbind (revert_if (\<not> leg_oriented cfg leg) CE_InvalidLeg) (\<lambda>_.
    validate_leg_loop legs (sl_tokenOut leg)))))"

definition validateLegs :: "sol_opportunity \<Rightarrow> unit prog" where
  "validateLegs op =
    pbind (revert_if (so_legs op = [] \<or> 4 < length (so_legs op)) CE_MalformedLegs) (\<lambda>_.
    pbind (validate_leg_loop (so_legs op) (so_flashAsset op)) (\<lambda>expectedInput.
    revert_if (expectedInput \<noteq> so_flashAsset op) CE_InvalidLeg))"

definition validateUnwindLegs :: "sol_liquidation \<Rightarrow> unit prog" where
  "validateUnwindLegs q =
    (if sq_collateralAsset q = sq_debtAsset q then revert_if (sq_unwindLegs q \<noteq> []) CE_MalformedLegs
     else
     pbind (revert_if (sq_unwindLegs q = [] \<or> 4 < length (sq_unwindLegs q)) CE_MalformedLegs) (\<lambda>_.
     pbind (validate_leg_loop (sq_unwindLegs q) (sq_collateralAsset q)) (\<lambda>expectedInput.
     revert_if (expectedInput \<noteq> sq_debtAsset q) CE_InvalidLeg)))"

text \<open>The amount given to a swap is the word read as a signed integer.\<close>

primrec executeSwapLegs :: "abi_coder \<Rightarrow> sol_leg list \<Rightarrow> u256 \<Rightarrow> u256 prog" where
  "executeSwapLegs cd [] amountOut = pret amountOut"
| "executeSwapLegs cd (leg # legs) amountOut =
    pbind (balance_of (sl_tokenOut leg)) (\<lambda>beforeOut.
    pbind (high_level_call (Swap (sl_pool leg) (sl_zeroForOne leg) (sint amountOut)
        (if sl_zeroForOne leg then MIN_SQRT_RATIO + 1 else MAX_SQRT_RATIO - 1)
        (ab_encode_callback cd
          \<lparr>cb_tokenIn = sl_tokenIn leg, cb_tokenOut = sl_tokenOut leg, cb_pool = sl_pool leg\<rparr>))) (\<lambda>_.
    pbind (balance_of (sl_tokenOut leg)) (\<lambda>afterOut.
    pbind (checked (checked_sub afterOut beforeOut)) (\<lambda>received.
    pbind (revert_if (received < sl_minAmountOut leg) CE_InvalidLeg) (\<lambda>_.
    executeSwapLegs cd legs received)))))"

definition payAtlasBid :: "eth_address \<Rightarrow> eth_address \<Rightarrow> u256 \<Rightarrow> unit prog" where
  "payAtlasBid executionEnvironment bidToken bidAmount =
    (if bidToken = 0 then
       pbind storage (\<lambda>s.
       pbind (high_level_call (WethWithdraw (px_weth s) bidAmount)) (\<lambda>_.
       pbind (low_level_call (SendNative executionEnvironment bidAmount)) (\<lambda>sent.
       revert_if (\<not> sent) CE_TransferFailed)))
     else safeTransfer bidToken executionEnvironment bidAmount)"

definition reconcileAtlas :: "u256 \<Rightarrow> unit prog" where
  "reconcileAtlas suppliedValue =
    pbind storage (\<lambda>s.
    pbind (view_call (V_shortfall (px_atlas s))) (\<lambda>(gasLiability, borrowLiability).
    high_level_call (Reconcile (px_atlas s)
      (if borrowLiability < suppliedValue then borrowLiability else suppliedValue) gasLiability)))"

definition finishAaveLiquidation :: "sol_liquidation \<Rightarrow> u256 \<Rightarrow> u256 prog" where
  "finishAaveLiquidation q bidAmount =
    pbind (balance_of (sq_debtAsset q)) (\<lambda>finalBalance.
    pbind storage (\<lambda>s.
    pbind (checked (checked_sub finalBalance (ax_baselineBalance (px_activeExecution s)))) (\<lambda>realizedProfit.
    pbind (revert_if (realizedProfit < sq_minProfit q) (CE_MinProfit realizedProfit (sq_minProfit q))) (\<lambda>_.
    pbind (emit_event (AaveLiquidationSettled (sq_routeId q) (sq_borrower q) (sq_debtAsset q) (sq_repayAmount q)
        (ax_premium (px_activeExecution s)) bidAmount realizedProfit)) (\<lambda>_.
    pret realizedProfit)))))"

definition liquidation_invalid :: "phoenix_executor \<Rightarrow> msg \<Rightarrow> sol_liquidation \<Rightarrow> bool" where
  "liquidation_invalid s m q \<longleftrightarrow>
     sq_borrower q = 0 \<or> sq_debtAsset q = 0 \<or> sq_collateralAsset q = 0
     \<or> sq_repayAmount q = 0 \<or> sq_receiveAToken q \<or> sq_minCollateralReceived q = 0
     \<or> sq_minUnwindOutput q = 0 \<or> sq_minProfit q = 0 \<or> sq_maxInputAmount q = 0
     \<or> px_maximumInputAmount s = 0 \<or> px_maximumInputAmount s < sq_maxInputAmount q
     \<or> sq_maxInputAmount q < sq_repayAmount q \<or> sq_deadline q < mg_timestamp m
     \<or> \<not> px_approvedAssets s (sq_debtAsset q) \<or> \<not> px_approvedAssets s (sq_collateralAsset q)"

definition startAaveLiquidation :: "abi_coder \<Rightarrow> msg \<Rightarrow> sol_liquidation \<Rightarrow> bool \<Rightarrow> u256 \<Rightarrow> unit prog" where
  "startAaveLiquidation cd m q isAtlas bidAmount =
    pbind storage (\<lambda>s.
    pbind (revert_if (liquidation_invalid s m q) CE_InvalidLiquidation) (\<lambda>_.
    pbind (validateUnwindLegs q) (\<lambda>_.
    pbind (checked (checked_add (sq_minProfit q) bidAmount)) (\<lambda>requiredProfit.
    pbind (balance_of (sq_debtAsset q)) (\<lambda>baseline.
    pbind (store (\<lambda>s. s\<lparr>px_activeExecution := \<lparr>ax_active = True, ax_kind = 2, ax_atlas = isAtlas,
        ax_routeId = sq_routeId q, ax_asset = sq_debtAsset q, ax_amount = sq_repayAmount q,
        ax_baselineBalance = baseline, ax_requiredProfit = requiredProfit, ax_premium = 0\<rparr>\<rparr>)) (\<lambda>_.
    pbind (emit_event (AaveLiquidationStarted (sq_routeId q) (sq_borrower q) (sq_debtAsset q)
        (sq_collateralAsset q) (sq_repayAmount q) isAtlas)) (\<lambda>_.
    high_level_call (FlashLoanSimple (px_flashProvider s) (sq_debtAsset q) (sq_repayAmount q)
      (ab_encode_liquidation cd q)))))))))"

section \<open>Construction and administration\<close>

definition constructor ::
  "eth_address \<Rightarrow> eth_address \<Rightarrow> eth_address \<Rightarrow> eth_address \<Rightarrow> (phoenix_executor \<times> contract_event list) option" where
  "constructor initialOwner initialFlashProvider initialAtlas initialWeth =
    (if initialOwner = 0 \<or> initialFlashProvider = 0 \<or> initialAtlas = 0 \<or> initialWeth = 0 then None
     else Some (\<lparr>px_owner = initialOwner, px_pendingOwner = 0, px_flashProvider = initialFlashProvider,
        px_atlas = initialAtlas, px_weth = initialWeth, px_paused = True, px_entered = False,
        px_authorizedSearchers = (\<lambda>_. False), px_approvedAssets = (\<lambda>_. False),
        px_approvedRouters = (\<lambda>_. False), px_approvedFactories = (\<lambda>_. False),
        px_approvedPools = (\<lambda>_. no_pool), px_maximumInputAmount = 0, px_activeExecution = no_execution\<rparr>,
       [OwnershipTransferred 0 initialOwner, FlashProviderUpdated initialFlashProvider, PausedSet True]))"

definition transferOwnership :: "msg \<Rightarrow> eth_address \<Rightarrow> unit prog" where
  "transferOwnership m newOwner =
    pbind (onlyOwner m) (\<lambda>_.
    pbind (revert_if (newOwner = 0) CE_ZeroAddress) (\<lambda>_.
    pbind (store (\<lambda>s. s\<lparr>px_pendingOwner := newOwner\<rparr>)) (\<lambda>_.
    pbind storage (\<lambda>s. emit_event (OwnershipTransferStarted (px_owner s) newOwner)))))"

definition acceptOwnership :: "msg \<Rightarrow> unit prog" where
  "acceptOwnership m =
    pbind storage (\<lambda>s.
    pbind (revert_if (mg_sender m \<noteq> px_pendingOwner s) CE_Unauthorized) (\<lambda>_.
    pbind (store (\<lambda>s. s\<lparr>px_owner := px_pendingOwner s\<rparr>)) (\<lambda>_.
    pbind (store (\<lambda>s. s\<lparr>px_pendingOwner := 0\<rparr>)) (\<lambda>_.
    pbind storage (\<lambda>s'. emit_event (OwnershipTransferred (px_owner s) (px_owner s')))))))"

definition setSearcher :: "msg \<Rightarrow> eth_address \<Rightarrow> bool \<Rightarrow> unit prog" where
  "setSearcher m searcher authorized =
    pbind (onlyOwner m) (\<lambda>_.
    pbind (revert_if (searcher = 0) CE_ZeroAddress) (\<lambda>_.
    pbind (store (\<lambda>s. s\<lparr>px_authorizedSearchers := (px_authorizedSearchers s)(searcher := authorized)\<rparr>)) (\<lambda>_.
    emit_event (SearcherUpdated searcher authorized))))"

definition setPaused :: "msg \<Rightarrow> bool \<Rightarrow> unit prog" where
  "setPaused m v =
    pbind (onlyOwner m) (\<lambda>_.
    pbind (store (\<lambda>s. s\<lparr>px_paused := v\<rparr>)) (\<lambda>_.
    emit_event (PausedSet v)))"

definition withdrawToken :: "msg \<Rightarrow> eth_address \<Rightarrow> u256 \<Rightarrow> unit prog" where
  "withdrawToken m token amount =
    pbind (onlyOwner m) (\<lambda>_. pbind whenPaused (\<lambda>_. pbind whenNoActiveExecution (\<lambda>_. nonReentrant (
    pbind (revert_if (token = 0) CE_ZeroAddress) (\<lambda>_.
    pbind (revert_if (amount = 0) CE_ZeroAmount) (\<lambda>_.
    pbind storage (\<lambda>s.
    pbind (safeTransfer token (px_owner s) amount) (\<lambda>_.
    emit_event (TokenWithdrawn token (px_owner s) amount)))))))))"

definition withdrawNative :: "msg \<Rightarrow> u256 \<Rightarrow> unit prog" where
  "withdrawNative m amount =
    pbind (onlyOwner m) (\<lambda>_. pbind whenPaused (\<lambda>_. pbind whenNoActiveExecution (\<lambda>_. nonReentrant (
    pbind (revert_if (amount = 0) CE_ZeroAmount) (\<lambda>_.
    pbind storage (\<lambda>s.
    pbind (low_level_call (SendNative (px_owner s) amount)) (\<lambda>ok.
    pbind (revert_if (\<not> ok) CE_TransferFailed) (\<lambda>_.
    emit_event (NativeWithdrawn (px_owner s) amount)))))))))"

definition setFlashProvider :: "msg \<Rightarrow> eth_address \<Rightarrow> unit prog" where
  "setFlashProvider m provider =
    pbind (onlyOwner m) (\<lambda>_.
    pbind (revert_if (provider = 0) CE_ZeroAddress) (\<lambda>_.
    pbind (store (\<lambda>s. s\<lparr>px_flashProvider := provider\<rparr>)) (\<lambda>_.
    emit_event (FlashProviderUpdated provider))))"

definition setAsset :: "msg \<Rightarrow> eth_address \<Rightarrow> bool \<Rightarrow> unit prog" where
  "setAsset m asset approved =
    pbind (onlyOwner m) (\<lambda>_.
    pbind (revert_if (asset = 0) CE_ZeroAddress) (\<lambda>_.
    pbind (store (\<lambda>s. s\<lparr>px_approvedAssets := (px_approvedAssets s)(asset := approved)\<rparr>)) (\<lambda>_.
    emit_event (AssetUpdated asset approved))))"

definition setRouter :: "msg \<Rightarrow> eth_address \<Rightarrow> bool \<Rightarrow> unit prog" where
  "setRouter m router approved =
    pbind (onlyOwner m) (\<lambda>_.
    pbind (revert_if (router = 0) CE_ZeroAddress) (\<lambda>_.
    pbind (store (\<lambda>s. s\<lparr>px_approvedRouters := (px_approvedRouters s)(router := approved)\<rparr>)) (\<lambda>_.
    emit_event (RouterUpdated router approved))))"

definition INT256_MAX :: u256 where "INT256_MAX = 2 ^ 255 - 1"

definition setMaximumInputAmount :: "msg \<Rightarrow> u256 \<Rightarrow> unit prog" where
  "setMaximumInputAmount m maximum =
    pbind (onlyOwner m) (\<lambda>_.
    pbind (revert_if (maximum = 0) CE_ZeroAmount) (\<lambda>_.
    pbind (revert_if (INT256_MAX < maximum) (CE_InputLimit maximum INT256_MAX)) (\<lambda>_.
    pbind (store (\<lambda>s. s\<lparr>px_maximumInputAmount := maximum\<rparr>)) (\<lambda>_.
    emit_event (MaximumInputUpdated maximum)))))"

definition setFactory :: "msg \<Rightarrow> eth_address \<Rightarrow> bool \<Rightarrow> unit prog" where
  "setFactory m factory approved =
    pbind (onlyOwner m) (\<lambda>_.
    pbind (revert_if (factory = 0) CE_ZeroAddress) (\<lambda>_.
    pbind (store (\<lambda>s. s\<lparr>px_approvedFactories := (px_approvedFactories s)(factory := approved)\<rparr>)) (\<lambda>_.
    emit_event (FactoryUpdated factory approved))))"

text \<open>An address or a fee is one word of the answer of a view call.\<close>

definition view_address :: "view \<Rightarrow> eth_address prog" where
  "view_address v = pbind (view_call v) (\<lambda>(x, _). pret (ucast x))"

text \<open>The comparison stops at the first view that differs, which no storage can tell.\<close>

definition approvePool ::
  "msg \<Rightarrow> eth_address \<Rightarrow> eth_address \<Rightarrow> eth_address \<Rightarrow> eth_address \<Rightarrow> u24 \<Rightarrow> bool \<Rightarrow> unit prog" where
  "approvePool m pool factory token0 token1 fee approved =
    pbind (onlyOwner m) (\<lambda>_.
    pbind (revert_if (pool = 0 \<or> factory = 0 \<or> token0 = 0 \<or> token1 = 0) CE_ZeroAddress) (\<lambda>_.
    pbind storage (\<lambda>s.
    pbind (revert_if (\<not> px_approvedFactories s factory) (CE_InvalidFactory factory)) (\<lambda>_.
    pbind (view_address (V_getPool factory token0 token1 fee)) (\<lambda>registered.
    pbind (revert_if (registered \<noteq> pool) (CE_InvalidPool pool)) (\<lambda>_.
    pbind (view_address (V_token0 pool)) (\<lambda>t0.
    pbind (view_address (V_token1 pool)) (\<lambda>t1.
    pbind (view_call (V_fee pool)) (\<lambda>(f, _).
    pbind (revert_if (t0 \<noteq> token0 \<or> t1 \<noteq> token1 \<or> ucast f \<noteq> fee) (CE_InvalidPool pool)) (\<lambda>_.
    pbind (store (\<lambda>s. s\<lparr>px_approvedPools := (px_approvedPools s)(pool := \<lparr>pc_factory = factory,
        pc_token0 = token0, pc_token1 = token1, pc_fee = fee, pc_approved = approved\<rparr>)\<rparr>)) (\<lambda>_.
    emit_event (PoolUpdated pool factory approved))))))))))))"

section \<open>Execution\<close>

definition executeOpportunity :: "abi_coder \<Rightarrow> eth_address \<Rightarrow> msg \<Rightarrow> sol_opportunity \<Rightarrow> unit prog" where
  "executeOpportunity cd this m op =
    pbind (onlySearcher m) (\<lambda>_. pbind whenNotPaused (\<lambda>_. nonReentrant (
    pbind storage (\<lambda>s.
    pbind (revert_if (so_flashAmount op = 0) CE_ZeroAmount) (\<lambda>_.
    pbind (revert_if (\<not> px_approvedAssets s (so_flashAsset op)) (CE_UnsupportedAsset (so_flashAsset op))) (\<lambda>_.
    pbind (revert_if (\<not> px_approvedRouters s (so_originRouter op)) (CE_InvalidRouter (so_originRouter op))) (\<lambda>_.
    pbind (revert_if (so_recipient op \<noteq> this) (CE_InvalidRecipient (so_recipient op))) (\<lambda>_.
    pbind (revert_if (px_maximumInputAmount s = 0 \<or> so_maxInputAmount op = 0
        \<or> px_maximumInputAmount s < so_maxInputAmount op \<or> so_maxInputAmount op < so_flashAmount op)
        (CE_InputLimit (so_flashAmount op) (px_maximumInputAmount s))) (\<lambda>_.
    pbind (revert_if (so_deadline op < mg_timestamp m) CE_Expired) (\<lambda>_.
    pbind (validateLegs op) (\<lambda>_.
    pbind (balance_of (so_flashAsset op)) (\<lambda>baseline.
    pbind (store (\<lambda>s. s\<lparr>px_activeExecution := \<lparr>ax_active = True, ax_kind = 1, ax_atlas = False,
        ax_routeId = so_routeId op, ax_asset = so_flashAsset op, ax_amount = so_flashAmount op,
        ax_baselineBalance = baseline, ax_requiredProfit = so_minProfit op, ax_premium = 0\<rparr>\<rparr>)) (\<lambda>_.
    pbind (emit_event (OpportunityStarted (so_routeId op) (so_flashAsset op) (so_flashAmount op))) (\<lambda>_.
    pbind (high_level_call (FlashLoanSimple (px_flashProvider s) (so_flashAsset op) (so_flashAmount op)
        (ab_encode_opportunity cd op))) (\<lambda>_.
    store (\<lambda>s. s\<lparr>px_activeExecution := no_execution\<rparr>))))))))))))))))"

definition executeAaveLiquidation :: "abi_coder \<Rightarrow> msg \<Rightarrow> sol_liquidation \<Rightarrow> u256 prog" where
  "executeAaveLiquidation cd m q =
    pbind (onlySearcher m) (\<lambda>_. pbind whenNotPaused (\<lambda>_. nonReentrant (
    pbind (startAaveLiquidation cd m q False 0) (\<lambda>_.
    pbind (finishAaveLiquidation q 0) (\<lambda>realizedProfit.
    pbind (store (\<lambda>s. s\<lparr>px_activeExecution := no_execution\<rparr>)) (\<lambda>_. pret realizedProfit))))))"

definition bid_invalid :: "phoenix_executor \<Rightarrow> sol_liquidation \<Rightarrow> eth_address \<Rightarrow> u256 \<Rightarrow> bool" where
  "bid_invalid s q bidToken bidAmount \<longleftrightarrow>
     bidAmount = 0 \<or> sq_maxAtlasBid q < bidAmount \<or> bidToken \<noteq> 0 \<and> bidToken \<noteq> sq_debtAsset q
     \<or> bidToken = 0 \<and> sq_debtAsset q \<noteq> px_weth s"

definition atlasSolverCall ::
  "abi_coder \<Rightarrow> msg \<Rightarrow> eth_address \<Rightarrow> eth_address \<Rightarrow> eth_address \<Rightarrow> u256 \<Rightarrow> bytes \<Rightarrow> unit prog" where
  "atlasSolverCall cd m solverOpFrom executionEnvironment bidToken bidAmount solverOpData =
    pbind whenNotPaused (\<lambda>_. nonReentrant (
    pbind storage (\<lambda>s.
    pbind (revert_if (mg_sender m \<noteq> px_atlas s) (CE_InvalidAtlas (mg_sender m))) (\<lambda>_.
    pbind (revert_if (solverOpFrom \<noteq> px_owner s) (CE_InvalidSolver solverOpFrom)) (\<lambda>_.
    pbind (decoded (ab_decode_liquidation cd solverOpData)) (\<lambda>q.
    pbind (revert_if (bid_invalid s q bidToken bidAmount) (CE_InvalidBid bidToken bidAmount (sq_maxAtlasBid q))) (\<lambda>_.
    pbind (startAaveLiquidation cd m q True bidAmount) (\<lambda>_.
    pbind (payAtlasBid executionEnvironment bidToken bidAmount) (\<lambda>_.
    pbind (reconcileAtlas (mg_value m)) (\<lambda>_.
    pbind (finishAaveLiquidation q bidAmount) (\<lambda>_.
    store (\<lambda>s. s\<lparr>px_activeExecution := no_execution\<rparr>))))))))))))"

definition liquidate :: "abi_coder \<Rightarrow> active_execution \<Rightarrow> sol_liquidation \<Rightarrow> eth_address \<Rightarrow> u256 \<Rightarrow> u256 prog" where
  "liquidate cd ctx q asset amount =
    pbind (revert_if (sq_debtAsset q \<noteq> asset \<or> sq_repayAmount q \<noteq> amount \<or> sq_routeId q \<noteq> ax_routeId ctx
        \<or> sq_receiveAToken q) CE_CallbackSpoof) (\<lambda>_.
    pbind (balance_of (sq_collateralAsset q)) (\<lambda>beforeCollateral.
    pbind storage (\<lambda>s. pbind (safeApprove asset (px_flashProvider s) 0) (\<lambda>_.
    pbind storage (\<lambda>s. pbind (safeApprove asset (px_flashProvider s) amount) (\<lambda>_.
    pbind storage (\<lambda>s. pbind (high_level_call
        (LiquidationCall (px_flashProvider s) (sq_collateralAsset q) asset (sq_borrower q) amount)) (\<lambda>_.
    pbind storage (\<lambda>s. pbind (allowance_of asset (px_flashProvider s)) (\<lambda>remainingDebtAllowance.
    pbind (revert_if (amount < remainingDebtAllowance) (CE_RepayAmountMismatch 0 amount)) (\<lambda>_.
    pbind (checked (checked_sub amount remainingDebtAllowance)) (\<lambda>actualRepay.
    pbind storage (\<lambda>s. pbind (safeApprove asset (px_flashProvider s) 0) (\<lambda>_.
    pbind (revert_if (actualRepay \<noteq> amount) (CE_RepayAmountMismatch actualRepay amount)) (\<lambda>_.
    pbind (balance_of (sq_collateralAsset q)) (\<lambda>afterCollateral.
    pbind (if sq_collateralAsset q = asset
           then pbind (checked (checked_add afterCollateral actualRepay)) (\<lambda>x. checked (checked_sub x beforeCollateral))
           else checked (checked_sub afterCollateral beforeCollateral)) (\<lambda>collateralReceived.
    pbind (revert_if (sq_collateralAsset q = asset \<and> collateralReceived \<noteq> sq_minCollateralReceived q)
        (CE_CollateralAmountMismatch collateralReceived (sq_minCollateralReceived q))) (\<lambda>_.
    pbind (revert_if (collateralReceived < sq_minCollateralReceived q)
        (CE_InsufficientCollateral collateralReceived (sq_minCollateralReceived q))) (\<lambda>_.
    pbind (executeSwapLegs cd (sq_unwindLegs q) collateralReceived) (\<lambda>unwindOutput.
    pbind (revert_if (unwindOutput < sq_minUnwindOutput q) CE_InvalidLeg) (\<lambda>_.
    pret (ax_requiredProfit ctx))))))))))))))))))))))"

definition execute_kind :: "abi_coder \<Rightarrow> active_execution \<Rightarrow> eth_address \<Rightarrow> u256 \<Rightarrow> bytes \<Rightarrow> u256 prog" where
  "execute_kind cd ctx asset amount params =
    (if ax_kind ctx = 1 then
       pbind (decoded (ab_decode_opportunity cd params)) (\<lambda>op.
       pbind (revert_if (so_flashAsset op \<noteq> asset \<or> so_flashAmount op \<noteq> amount \<or> so_routeId op \<noteq> ax_routeId ctx)
           CE_CallbackSpoof) (\<lambda>_.
       pbind (executeSwapLegs cd (so_legs op) amount) (\<lambda>_. pret (so_minProfit op))))
     else if ax_kind ctx = 2 then
       pbind (decoded (ab_decode_liquidation cd params)) (\<lambda>q. liquidate cd ctx q asset amount)
     else revert CE_CallbackSpoof)"

definition executeOperation ::
  "abi_coder \<Rightarrow> eth_address \<Rightarrow> msg \<Rightarrow> eth_address \<Rightarrow> u256 \<Rightarrow> u256 \<Rightarrow> eth_address \<Rightarrow> bytes \<Rightarrow> bool prog" where
  "executeOperation cd this m asset amount premium initiator params =
    pbind storage (\<lambda>s. let ctx = px_activeExecution s in
    pbind (revert_if (mg_sender m \<noteq> px_flashProvider s \<or> initiator \<noteq> this) CE_CallbackSpoof) (\<lambda>_.
    pbind (revert_if (\<not> ax_active ctx) CE_NoActiveExecution) (\<lambda>_.
    pbind (revert_if (asset \<noteq> ax_asset ctx \<or> amount \<noteq> ax_amount ctx) CE_CallbackSpoof) (\<lambda>_.
    pbind (execute_kind cd ctx asset amount params) (\<lambda>minimumProfit.
    pbind (checked (checked_add amount premium)) (\<lambda>repay.
    pbind (balance_of asset) (\<lambda>finalBalance.
    pbind (checked (checked_add (ax_baselineBalance ctx) repay)) (\<lambda>needed.
    pbind (revert_if (finalBalance < needed) (CE_MinProfit 0 minimumProfit)) (\<lambda>_.
    pbind (checked (checked_sub finalBalance (ax_baselineBalance ctx))) (\<lambda>gain.
    pbind (checked (checked_sub gain repay)) (\<lambda>realizedProfit.
    pbind (revert_if (realizedProfit < minimumProfit) (CE_MinProfit realizedProfit minimumProfit)) (\<lambda>_.
    pbind storage (\<lambda>s. pbind (safeApprove asset (px_flashProvider s) 0) (\<lambda>_.
    pbind storage (\<lambda>s. pbind (safeApprove asset (px_flashProvider s) repay) (\<lambda>_.
    pbind (store (\<lambda>s. s\<lparr>px_activeExecution := (px_activeExecution s)\<lparr>ax_premium := premium\<rparr>\<rparr>)) (\<lambda>_.
    pbind (if ax_kind ctx = 1
           then emit_event (OpportunitySettled (ax_routeId ctx) asset amount premium realizedProfit)
           else pret ()) (\<lambda>_.
    pret True))))))))))))))))))"

definition uniswapV3SwapCallback :: "abi_coder \<Rightarrow> msg \<Rightarrow> int \<Rightarrow> int \<Rightarrow> bytes \<Rightarrow> unit prog" where
  "uniswapV3SwapCallback cd m amount0Delta amount1Delta data =
    pbind storage (\<lambda>s. let cfg = px_approvedPools s (mg_sender m) in
    pbind (revert_if (\<not> ax_active (px_activeExecution s)) CE_NoActiveExecution) (\<lambda>_.
    pbind (revert_if (\<not> pool_usable s (mg_sender m)) CE_CallbackSpoof) (\<lambda>_.
    pbind (view_address (V_getPool (pc_factory cfg) (pc_token0 cfg) (pc_token1 cfg) (pc_fee cfg))) (\<lambda>registered.
    pbind (revert_if (registered \<noteq> mg_sender m) CE_CallbackSpoof) (\<lambda>_.
    pbind (decoded (ab_decode_callback cd data)) (\<lambda>cb.
    pbind (revert_if (cb_pool cb \<noteq> mg_sender m) CE_CallbackSpoof) (\<lambda>_.
    pbind (revert_if ((0 < amount0Delta) = (0 < amount1Delta)) CE_CallbackSpoof) (\<lambda>_.
    pbind (if 0 < amount0Delta then
        pbind (revert_if (cb_tokenIn cb \<noteq> pc_token0 cfg) CE_CallbackSpoof) (\<lambda>_.
        safeTransfer (cb_tokenIn cb) (mg_sender m) (of_int amount0Delta))
      else pret ()) (\<lambda>_.
    if 0 < amount1Delta then
      pbind (revert_if (cb_tokenIn cb \<noteq> pc_token1 cfg) CE_CallbackSpoof) (\<lambda>_.
      safeTransfer (cb_tokenIn cb) (mg_sender m) (of_int amount1Delta))
    else pret ())))))))))"

end
