(* ===== verification/Contract_Semantics.thy ===== *)
theory Contract_Semantics
  imports Contract_Model
begin

text \<open>
  How the executor contract runs against an arbitrary environment. The chain holds what the environment
  and the contract share: the contract's token balances, the allowances it has given, its native balance
  and the event log; tokens follow the ERC-20 standard, and wrapped ether its documented withdrawal.
  During an external call the environment may do anything any account can do: send tokens to the
  contract, spend an allowance, and call any function of the contract, any number of times. The locale
  \<open>rely\<close> is the rely-guarantee rule for it.
\<close>

section \<open>Entry points\<close>

datatype (plugins only: size) entry =
    E_transferOwnership eth_address
  | E_acceptOwnership
  | E_setSearcher eth_address bool
  | E_setPaused bool
  | E_withdrawToken eth_address u256
  | E_withdrawNative u256
  | E_setFlashProvider eth_address
  | E_setAsset eth_address bool
  | E_setRouter eth_address bool
  | E_setMaximumInputAmount u256
  | E_setFactory eth_address bool
  | E_approvePool eth_address eth_address eth_address eth_address u24 bool
  | E_executeOpportunity sol_opportunity
  | E_executeAaveLiquidation sol_liquidation
  | E_atlasSolverCall eth_address eth_address eth_address u256 bytes
  | E_executeOperation eth_address u256 u256 eth_address bytes
  | E_uniswapV3SwapCallback int int bytes

definition discard :: "'a prog \<Rightarrow> unit prog" where
  "discard m = pbind m (\<lambda>_. pret ())"

text \<open>A function that is not payable reverts when it is sent native value.\<close>

definition nonpayable :: "msg \<Rightarrow> unit prog \<Rightarrow> unit prog" where
  "nonpayable m body = pbind (revert_if (mg_value m \<noteq> 0) CE_Callee) (\<lambda>_. body)"

fun dispatch :: "abi_coder \<Rightarrow> eth_address \<Rightarrow> msg \<Rightarrow> entry \<Rightarrow> unit prog" where
  "dispatch cd this m (E_transferOwnership a) = nonpayable m (transferOwnership m a)"
| "dispatch cd this m E_acceptOwnership = nonpayable m (acceptOwnership m)"
| "dispatch cd this m (E_setSearcher a b) = nonpayable m (setSearcher m a b)"
| "dispatch cd this m (E_setPaused b) = nonpayable m (setPaused m b)"
| "dispatch cd this m (E_withdrawToken t n) = nonpayable m (withdrawToken m t n)"
| "dispatch cd this m (E_withdrawNative n) = nonpayable m (withdrawNative m n)"
| "dispatch cd this m (E_setFlashProvider a) = nonpayable m (setFlashProvider m a)"
| "dispatch cd this m (E_setAsset a b) = nonpayable m (setAsset m a b)"
| "dispatch cd this m (E_setRouter a b) = nonpayable m (setRouter m a b)"
| "dispatch cd this m (E_setMaximumInputAmount n) = nonpayable m (setMaximumInputAmount m n)"
| "dispatch cd this m (E_setFactory a b) = nonpayable m (setFactory m a b)"
| "dispatch cd this m (E_approvePool p f t0 t1 fee b) = nonpayable m (approvePool m p f t0 t1 fee b)"
| "dispatch cd this m (E_executeOpportunity op) = nonpayable m (executeOpportunity cd this m op)"
| "dispatch cd this m (E_executeAaveLiquidation q) = nonpayable m (discard (executeAaveLiquidation cd m q))"
| "dispatch cd this m (E_atlasSolverCall f e t n d) = atlasSolverCall cd m f e t n d"
| "dispatch cd this m (E_executeOperation a n p i d) = nonpayable m (discard (executeOperation cd this m a n p i d))"
| "dispatch cd this m (E_uniswapV3SwapCallback a b d) = nonpayable m (uniswapV3SwapCallback cd m a b d)"

section \<open>The chain\<close>

record chain =
  ch_balance :: "eth_address \<Rightarrow> u256"
  ch_allowance :: "eth_address \<Rightarrow> eth_address \<Rightarrow> u256"
  ch_native :: u256
  ch_logs :: "contract_event list"

definition debit :: "eth_address \<Rightarrow> u256 \<Rightarrow> chain \<Rightarrow> chain option" where
  "debit token n w =
    map_option (\<lambda>b. w\<lparr>ch_balance := (ch_balance w)(token := b)\<rparr>) (checked_sub (ch_balance w token) n)"

definition credit :: "eth_address \<Rightarrow> u256 \<Rightarrow> chain \<Rightarrow> chain option" where
  "credit token n w =
    map_option (\<lambda>b. w\<lparr>ch_balance := (ch_balance w)(token := b)\<rparr>) (checked_add (ch_balance w token) n)"

definition debit_native :: "u256 \<Rightarrow> chain \<Rightarrow> chain option" where
  "debit_native n w = map_option (\<lambda>b. w\<lparr>ch_native := b\<rparr>) (checked_sub (ch_native w) n)"

definition credit_native :: "u256 \<Rightarrow> chain \<Rightarrow> chain option" where
  "credit_native n w = map_option (\<lambda>b. w\<lparr>ch_native := b\<rparr>) (checked_add (ch_native w) n)"

text \<open>What a successful call does by itself, before its callee does anything else.\<close>

fun effect :: "eth_address \<Rightarrow> ext_call \<Rightarrow> chain \<Rightarrow> chain option" where
  "effect this (ERC20_transfer token dest n) w =
    (if dest = this then (if n \<le> ch_balance w token then Some w else None) else debit token n w)"
| "effect this (ERC20_approve token spender n) w =
    Some (w\<lparr>ch_allowance := (ch_allowance w)(token := (ch_allowance w token)(spender := n))\<rparr>)"
| "effect this (WethWithdraw token n) w = Option.bind (debit token n w) (credit_native n)"
| "effect this (SendNative dest n) w = debit_native n w"
| "effect this (Reconcile atlas v g) w = debit_native v w"
| "effect this (FlashLoanSimple p a n d) w = Some w"
| "effect this (LiquidationCall p c d u n) w = Some w"
| "effect this (Swap p z n l d) w = Some w"

fun is_token_call :: "ext_call \<Rightarrow> bool" where
  "is_token_call (ERC20_transfer _ _ _) = True"
| "is_token_call (ERC20_approve _ _ _) = True"
| "is_token_call _ = False"

text \<open>What accounts may do with tokens: anyone may send some, and a spender may spend its allowance.\<close>

inductive token_move :: "eth_address \<Rightarrow> chain \<Rightarrow> chain \<Rightarrow> bool" for this where
  move_deposit: "credit token n w = Some w' \<Longrightarrow> token_move this w w'"
| move_native: "credit_native n w = Some w' \<Longrightarrow> token_move this w w'"
| move_spend: "debit token n w = Some w' \<Longrightarrow> checked_sub (ch_allowance w token spender) n = Some left \<Longrightarrow>
    token_move this w (w'\<lparr>ch_allowance := (ch_allowance w')(token := (ch_allowance w' token)(spender := left))\<rparr>)"

section \<open>Runs\<close>

type_synonym situation = "phoenix_executor \<times> chain"

text \<open>The successful runs of a program, where \<open>E\<close> is what the environment may do during a call. A token
  call to a standard token calls nobody back.\<close>

inductive runs ::
  "eth_address \<Rightarrow> (situation \<Rightarrow> situation \<Rightarrow> bool) \<Rightarrow> 'a node \<Rightarrow> chain \<Rightarrow> 'a \<Rightarrow> phoenix_executor \<Rightarrow> chain \<Rightarrow> bool"
  for this E where
  run_Done: "runs this E (Done a s) w a s w"
| run_Balance: "runs this E (k (ch_balance w token)) w a s w' \<Longrightarrow> runs this E (Balance token k) w a s w'"
| run_Allowance: "runs this E (k (ch_allowance w token spender)) w a s w' \<Longrightarrow>
    runs this E (Allowance token spender k) w a s w'"
| run_View: "runs this E (k x) w a s w' \<Longrightarrow> runs this E (View v k) w a s w'"
| run_Log: "runs this E n (w\<lparr>ch_logs := ch_logs w @ [e]\<rparr>) a s w' \<Longrightarrow> runs this E (Log e n) w a s w'"
| run_Failed: "runs this E (k False s0) w a s w' \<Longrightarrow> runs this E (Call c s0 k) w a s w'"
| run_Token: "is_token_call c \<Longrightarrow> effect this c w = Some w1 \<Longrightarrow> runs this E (k True s0) w1 a s w' \<Longrightarrow>
    runs this E (Call c s0 k) w a s w'"
| run_Call: "\<not> is_token_call c \<Longrightarrow> effect this c w = Some w1 \<Longrightarrow> E (s0, w1) (s2, w2) \<Longrightarrow>
    runs this E (k True s2) w2 a s w' \<Longrightarrow> runs this E (Call c s0 k) w a s w'"

inductive_simps runs_Done [simp]: "runs this E (Done a s) w b s' w'"
inductive_simps runs_Revert [simp]: "runs this E (Revert e) w b s' w'"
inductive_simps runs_Balance [simp]: "runs this E (Balance t k) w b s' w'"
inductive_simps runs_Allowance [simp]: "runs this E (Allowance t p k) w b s' w'"
inductive_simps runs_View [simp]: "runs this E (View v k) w b s' w'"
inductive_simps runs_Log [simp]: "runs this E (Log e n) w b s' w'"
inductive_simps runs_Call: "runs this E (Call c s k) w b s' w'"

lemma runs_mono':
  assumes "runs this E n w a s w'" "\<And>x y. E x y \<Longrightarrow> E' x y"
  shows "runs this E' n w a s w'"
  using assms(1)
proof induction
  case (run_Call c w w1 s0 s2 w2 k a s w')
  then show ?case unfolding runs_Call by (metis assms(2))
next
  case (run_View k x w a s w' v)
  then show ?case by (cases x) (simp, blast)
next
  case (run_Failed k s0 w a s w' c)
  then show ?case unfolding runs_Call by (intro disjI1)
next
  case (run_Token c w w1 k s0 a s w')
  then show ?case unfolding runs_Call by (intro disjI2 disjI1 conjI exI)
qed simp_all

lemma runs_mono [mono]:
  assumes "\<And>x y. E x y \<longrightarrow> E' x y"
  shows "runs this E n w a s w' \<longrightarrow> runs this E' n w a s w'"
proof
  assume "runs this E n w a s w'"
  then show "runs this E' n w a s w'" by (rule runs_mono') (rule assms [THEN mp])
qed

lemma runs_bind:
  "runs this E (node_bind n f) w b s' w' \<longleftrightarrow>
    (\<exists>a s v. runs this E n w a s v \<and> runs this E (f a s) v b s' w')"
proof (induction n arbitrary: w)
  case (Call c s k)
  note IH = Call.IH [OF rangeI rangeI]
  show ?case unfolding node_bind.simps runs_Call IH by blast
next
  case (View v k)
  note IH = View.IH [OF rangeI]
  show ?case unfolding node_bind.simps runs_View IH by blast
qed auto

lemma runs_pbind:
  "runs this E (pbind m f s0) w b s' w' \<longleftrightarrow>
    (\<exists>a s v. runs this E (m s0) w a s v \<and> runs this E (f a s) v b s' w')"
  by (simp add: pbind_def runs_bind)

section \<open>The environment\<close>

text \<open>A call into the contract: the value sent with it arrives first.\<close>

definition receives :: "msg \<Rightarrow> chain \<Rightarrow> chain option" where
  "receives m w = credit_native (mg_value m) w"

inductive moves :: "abi_coder \<Rightarrow> eth_address \<Rightarrow> (msg \<Rightarrow> entry \<Rightarrow> bool) \<Rightarrow> situation \<Rightarrow> situation \<Rightarrow> bool"
  for cd this may where
  moves_refl: "moves cd this may x x"
| moves_token: "moves cd this may x (s, w) \<Longrightarrow> token_move this w w' \<Longrightarrow> moves cd this may x (s, w')"
| moves_call: "moves cd this may x (s, w) \<Longrightarrow> may m e \<Longrightarrow> receives m w = Some w0 \<Longrightarrow>
    runs this (moves cd this may) (dispatch cd this m e s) w0 () s' w' \<Longrightarrow> moves cd this may x (s', w')"

section \<open>Reading rules\<close>

lemma run_simps [simp]:
  "runs this E (pret a s) w b s' w' \<longleftrightarrow> b = a \<and> s' = s \<and> w' = w"
  "\<not> runs this E (revert e s) w b s' w'"
  "runs this E (revert_if c e s) w u s' w' \<longleftrightarrow> \<not> c \<and> s' = s \<and> w' = w"
  "runs this E (storage s) w x s' w' \<longleftrightarrow> x = s \<and> s' = s \<and> w' = w"
  "runs this E (store f s) w u s' w' \<longleftrightarrow> s' = f s \<and> w' = w"
  "runs this E (balance_of t s) w n s' w' \<longleftrightarrow> n = ch_balance w t \<and> s' = s \<and> w' = w"
  "runs this E (allowance_of t p s) w n s' w' \<longleftrightarrow> n = ch_allowance w t p \<and> s' = s \<and> w' = w"
  "runs this E (view_call v s) w ans s' w' \<longleftrightarrow> s' = s \<and> w' = w"
  "runs this E (emit_event ev s) w u s' w' \<longleftrightarrow> s' = s \<and> w' = w\<lparr>ch_logs := ch_logs w @ [ev]\<rparr>"
  "runs this E (checked r s) w y s' w' \<longleftrightarrow> r = Some y \<and> s' = s \<and> w' = w"
  "runs this E (decoded d s) w z s' w' \<longleftrightarrow> d = Some z \<and> s' = s \<and> w' = w"
  by (auto simp: pret_def revert_def revert_if_def storage_def store_def balance_of_def allowance_of_def view_call_def
      emit_event_def checked_def decoded_def split: option.splits)

lemma run_high_level_call:
  "runs this E (high_level_call c s) w u s' w' \<longleftrightarrow>
    (\<exists>w1. effect this c w = Some w1 \<and> (if is_token_call c then s' = s \<and> w' = w1 else E (s, w1) (s', w')))"
  by (auto simp: high_level_call_def runs_Call)

lemma run_low_level_call:
  "runs this E (low_level_call c s) w ok s' w' \<longleftrightarrow>
    (if ok then \<exists>w1. effect this c w = Some w1 \<and> (if is_token_call c then s' = s \<and> w' = w1 else E (s, w1) (s', w'))
     else s' = s \<and> w' = w)"
  by (auto simp: low_level_call_def runs_Call)

lemma run_safe_calls [simp]:
  "runs this E (safeTransfer t d n s) w u s' w' \<longleftrightarrow> effect this (ERC20_transfer t d n) w = Some w' \<and> s' = s"
  "runs this E (safeApprove t p n s) w u s' w' \<longleftrightarrow>
    s' = s \<and> w' = w\<lparr>ch_allowance := (ch_allowance w)(t := (ch_allowance w t)(p := n))\<rparr>"
  unfolding safeTransfer_def safeApprove_def runs_pbind run_low_level_call by simp_all blast+

section \<open>Rely and guarantee\<close>

locale rely =
  fixes cd :: abi_coder and this :: eth_address and may :: "msg \<Rightarrow> entry \<Rightarrow> bool"
    and R :: "situation \<Rightarrow> situation \<Rightarrow> bool"
  assumes refl: "R x x"
    and trans: "R x y \<Longrightarrow> R y z \<Longrightarrow> R x z"
    and token: "token_move this w w' \<Longrightarrow> R (s, w) (s, w')"
    and entry: "may m e \<Longrightarrow> (\<And>x y. E x y \<Longrightarrow> R x y) \<Longrightarrow> runs this E (dispatch cd this m e s) w () s' w' \<Longrightarrow>
      R (s, w) (s', w')"
begin

lemma moves_rely: "moves cd this may x y \<Longrightarrow> R x y"
proof (induction rule: moves.induct)
  case (moves_call x s w m e w0 s' w')
  have "R (s, w0) (s', w')"
    using moves_call by (intro entry [where E = "\<lambda>x y. moves cd this may x y \<and> R x y"]) auto
  moreover have "R (s, w) (s, w0)"
    using moves_call(3) by (intro token move_native) (simp add: receives_def)
  ultimately show ?case using moves_call by (blast intro: trans)
qed (auto intro: refl trans token)

end

end
