(* ===== verification/Contract_Safety.thy ===== *)
theory Contract_Safety
  imports Contract_Semantics
begin

text \<open>
  Safety of the executor contract in an arbitrary environment: whatever is called back during an
  external call, the execution that is under way cannot be replaced or ended, a liquidation pays at
  least its minimum profit, and every external call the contract makes is authorised.
\<close>

section \<open>The locks\<close>

definition same_execution :: "active_execution \<Rightarrow> active_execution \<Rightarrow> bool" where
  "same_execution a b \<longleftrightarrow> b\<lparr>ax_premium := 0\<rparr> = a\<lparr>ax_premium := 0\<rparr>"

lemma same_execution_refl [simp]: "same_execution a a"
  by (simp add: same_execution_def)

lemma same_execution_trans: "same_execution a b \<Longrightarrow> same_execution b c \<Longrightarrow> same_execution a c"
  by (simp add: same_execution_def)

lemma same_execution_premium [simp]: "same_execution a (a\<lparr>ax_premium := p\<rparr>)"
  by (simp add: same_execution_def)

lemma same_executionD:
  assumes "same_execution a b"
  shows "ax_active b = ax_active a" "ax_kind b = ax_kind a" "ax_atlas b = ax_atlas a" "ax_asset b = ax_asset a"
    "ax_amount b = ax_amount a" "ax_baselineBalance b = ax_baselineBalance a"
    "ax_requiredProfit b = ax_requiredProfit a" "ax_routeId b = ax_routeId a"
  using assms by (cases a, cases b, simp add: same_execution_def)+

text \<open>What a completed call may do to the locks: the reentrancy lock is as before; while it is held, the
  execution is the same up to its premium; while it is free, no execution is left behind.\<close>

definition locks :: "phoenix_executor \<Rightarrow> phoenix_executor \<Rightarrow> bool" where
  "locks s s' \<longleftrightarrow>
     px_entered s' = px_entered s \<and> px_atlas s' = px_atlas s \<and> px_weth s' = px_weth s \<and>
     (px_entered s \<longrightarrow> same_execution (px_activeExecution s) (px_activeExecution s')) \<and>
     (\<not> px_entered s \<longrightarrow> \<not> ax_active (px_activeExecution s) \<longrightarrow> \<not> ax_active (px_activeExecution s'))"

lemma locks_refl [simp]: "locks s s"
  by (simp add: locks_def)

lemma locks_trans: "locks a b \<Longrightarrow> locks b c \<Longrightarrow> locks a c"
  unfolding locks_def by (auto intro: same_execution_trans)

definition keeps_locks :: "(situation \<Rightarrow> situation \<Rightarrow> bool) \<Rightarrow> bool" where
  "keeps_locks E \<longleftrightarrow> (\<forall>x y. E x y \<longrightarrow> locks (fst x) (fst y))"

lemma call_locks:
  assumes "keeps_locks E"
  shows "runs this E (high_level_call c s) w u s' w' \<Longrightarrow> locks s s'"
    "runs this E (low_level_call c s) w ok s' w' \<Longrightarrow> locks s s'"
  using assms by (auto simp: run_high_level_call run_low_level_call keeps_locks_def split: if_splits)

lemma validate_loop_runs:
  "runs this E (validate_leg_loop legs t s) w x s' w' \<Longrightarrow> s' = s \<and> w' = w"
proof (induction legs arbitrary: t)
  case (Cons leg legs)
  from Cons.prems show ?case by (auto simp: runs_pbind Let_def dest: Cons.IH)
qed simp

lemma validate_runs:
  "runs this E (validateLegs op s) w u s' w' \<Longrightarrow> s' = s \<and> w' = w"
  "runs this E (validateUnwindLegs q s) w u s' w' \<Longrightarrow> s' = s \<and> w' = w"
  by (auto simp: validateLegs_def validateUnwindLegs_def runs_pbind dest: validate_loop_runs split: if_splits)

lemma swap_locks:
  assumes "keeps_locks E"
  shows "runs this E (executeSwapLegs cd legs n s) w x s' w' \<Longrightarrow> locks s s'"
proof (induction legs arbitrary: n s w)
  case (Cons leg legs)
  from Cons.prems obtain c s1 w1 w2 n' where "runs this E (high_level_call c s) w1 () s1 w2"
    "runs this E (executeSwapLegs cd legs n' s1) w2 x s' w'"
    by (auto simp: runs_pbind)
  then show ?case by (rule locks_trans [OF call_locks(1) [OF assms] Cons.IH])
qed simp

lemma start_runs:
  assumes "runs this E (startAaveLiquidation cd m q atlas bid s) w u s' w'"
  obtains requiredProfit v where "\<not> liquidation_invalid s m q" "ch_balance v = ch_balance w"
    "unat requiredProfit = unat (sq_minProfit q) + unat bid"
    "runs this E (high_level_call (FlashLoanSimple (px_flashProvider s) (sq_debtAsset q) (sq_repayAmount q)
        (ab_encode_liquidation cd q)) (s\<lparr>px_activeExecution := \<lparr>ax_active = True, ax_kind = 2, ax_atlas = atlas,
        ax_routeId = sq_routeId q, ax_asset = sq_debtAsset q, ax_amount = sq_repayAmount q,
        ax_baselineBalance = ch_balance w (sq_debtAsset q), ax_requiredProfit = requiredProfit, ax_premium = 0\<rparr>\<rparr>))
      v u s' w'"
  using assms
  apply (simp add: startAaveLiquidation_def runs_pbind checked_simps)
  apply (elim exE conjE)
  apply (frule validate_runs)
  apply simp
  subgoal premises prems for _ requiredProfit by (rule prems(1) [OF _ prems(4,5)]) simp
  done

lemma finish_runs:
  assumes "runs this E (finishAaveLiquidation q bid s) w profit s' w'"
  shows "s' = s \<and> ch_balance w' = ch_balance w \<and> sq_minProfit q \<le> profit \<and>
    unat (ch_balance w (sq_debtAsset q)) = unat profit + unat (ax_baselineBalance (px_activeExecution s))"
  using assms by (auto simp: finishAaveLiquidation_def runs_pbind checked_simps)

section \<open>Every completed call keeps the locks\<close>

lemma nonReentrant_locks:
  assumes "keeps_locks E" "runs this E (nonReentrant body s) w a s' w'"
    "\<And>t v t' v'. runs this E (body t) v a t' v' \<Longrightarrow> px_entered t \<Longrightarrow> px_atlas t = px_atlas s \<Longrightarrow> px_weth t = px_weth s \<Longrightarrow>
      px_atlas t' = px_atlas s \<and> px_weth t' = px_weth s \<and>
      (ax_active (px_activeExecution t') \<longrightarrow> same_execution (px_activeExecution t) (px_activeExecution t'))"
  shows "locks s s'"
  using assms(2) unfolding nonReentrant_def runs_pbind run_simps
  by (elim exE conjE) (auto simp: locks_def dest!: assms(3) dest: same_executionD(1))

lemma admin_locks:
  "runs this E (transferOwnership m a s) w u s' w' \<Longrightarrow> locks s s'"
  "runs this E (acceptOwnership m s) w u s' w' \<Longrightarrow> locks s s'"
  "runs this E (setSearcher m a b s) w u s' w' \<Longrightarrow> locks s s'"
  "runs this E (setPaused m b s) w u s' w' \<Longrightarrow> locks s s'"
  "runs this E (setFlashProvider m a s) w u s' w' \<Longrightarrow> locks s s'"
  "runs this E (setAsset m a b s) w u s' w' \<Longrightarrow> locks s s'"
  "runs this E (setRouter m a b s) w u s' w' \<Longrightarrow> locks s s'"
  "runs this E (setMaximumInputAmount m n s) w u s' w' \<Longrightarrow> locks s s'"
  "runs this E (setFactory m a b s) w u s' w' \<Longrightarrow> locks s s'"
  by (auto simp: transferOwnership_def acceptOwnership_def setSearcher_def setPaused_def setFlashProvider_def setAsset_def
      setRouter_def setMaximumInputAmount_def setFactory_def onlyOwner_def runs_pbind locks_def)

lemma approvePool_locks: "runs this E (approvePool m p f t0 t1 fee b s) w u s' w' \<Longrightarrow> locks s s'"
  by (auto simp: approvePool_def view_address_def onlyOwner_def runs_pbind locks_def split: prod.splits)

lemma callback_locks: "runs this E (uniswapV3SwapCallback cd m a b d s) w u s' w' \<Longrightarrow> s' = s"
  by (auto simp: uniswapV3SwapCallback_def view_address_def runs_pbind Let_def split: prod.splits if_splits)

lemma locks_fields: "locks s s' \<Longrightarrow> px_entered s' = px_entered s \<and> px_atlas s' = px_atlas s \<and> px_weth s' = px_weth s"
  by (simp add: locks_def)

lemma locksD_entered:
  "locks s s' \<Longrightarrow> px_entered s \<Longrightarrow> px_entered s' \<and> px_atlas s' = px_atlas s \<and> px_weth s' = px_weth s \<and>
    same_execution (px_activeExecution s) (px_activeExecution s')"
  by (simp add: locks_def)

lemma guard_simps [simp]:
  "runs this E (onlyOwner m s) w u s' w' \<longleftrightarrow> mg_sender m = px_owner s \<and> s' = s \<and> w' = w"
  "runs this E (onlySearcher m s) w u s' w' \<longleftrightarrow>
    (mg_sender m = px_owner s \<or> px_authorizedSearchers s (mg_sender m)) \<and> s' = s \<and> w' = w"
  "runs this E (whenPaused s) w u s' w' \<longleftrightarrow> px_paused s \<and> s' = s \<and> w' = w"
  "runs this E (whenNotPaused s) w u s' w' \<longleftrightarrow> \<not> px_paused s \<and> s' = s \<and> w' = w"
  "runs this E (whenNoActiveExecution s) w u s' w' \<longleftrightarrow> \<not> ax_active (px_activeExecution s) \<and> s' = s \<and> w' = w"
  by (auto simp: onlyOwner_def onlySearcher_def whenPaused_def whenNotPaused_def whenNoActiveExecution_def runs_pbind)

lemma withdrawToken_locks:
  assumes "keeps_locks E" "runs this E (withdrawToken m t n s) w u s' w'"
  shows "locks s s'"
  using assms(2)
  by (simp add: withdrawToken_def runs_pbind, elim conjE, elim nonReentrant_locks [OF assms(1)]) (auto simp: runs_pbind)

lemma withdrawNative_locks:
  assumes "keeps_locks E" "runs this E (withdrawNative m n s) w u s' w'"
  shows "locks s s'"
  using assms(2)
  by (simp add: withdrawNative_def runs_pbind, elim conjE, elim nonReentrant_locks [OF assms(1)])
    (auto simp: runs_pbind dest!: call_locks [OF assms(1)] locksD_entered)

lemma opportunity_locks:
  assumes "keeps_locks E" "runs this E (executeOpportunity cd this m op s) w u s' w'"
  shows "locks s s'"
  using assms(2)
  by (simp add: executeOpportunity_def runs_pbind, elim conjE, elim nonReentrant_locks [OF assms(1)])
    (auto simp: runs_pbind no_execution_def dest!: validate_runs call_locks [OF assms(1)] locks_fields)

lemma start_locks:
  assumes "keeps_locks E" "runs this E (startAaveLiquidation cd m q a bid s) w u s' w'"
  shows "px_atlas s' = px_atlas s \<and> px_weth s' = px_weth s \<and> px_entered s' = px_entered s"
  by (rule start_runs [OF assms(2)]) (auto dest!: call_locks [OF assms(1)] locks_fields)

lemma reconcile_locks:
  "keeps_locks E \<Longrightarrow> runs this E (reconcileAtlas v s) w u s' w' \<Longrightarrow> locks s s'"
  by (auto simp: reconcileAtlas_def runs_pbind split: prod.splits dest!: call_locks(1))

lemma bid_locks:
  assumes "keeps_locks E" "runs this E (payAtlasBid e t n s) w u s' w'"
  shows "locks s s'"
proof (cases "t = 0")
  case True
  then obtain c s1 w1 where "runs this E (high_level_call c s) w () s1 w1"
    "runs this E (low_level_call (SendNative e n) s1) w1 True s' w'"
    using assms(2) by (auto simp: payAtlasBid_def runs_pbind)
  then show ?thesis by (rule locks_trans [OF call_locks(1) [OF assms(1)] call_locks(2) [OF assms(1)]])
qed (use assms(2) in \<open>simp add: payAtlasBid_def\<close>)

lemma liquidation_locks:
  assumes "keeps_locks E" "runs this E (executeAaveLiquidation cd m q s) w r s' w'"
  shows "locks s s'"
  using assms(2)
  by (simp add: executeAaveLiquidation_def runs_pbind, elim conjE, elim nonReentrant_locks [OF assms(1)])
    (auto simp: runs_pbind no_execution_def dest!: start_locks [OF assms(1)] finish_runs)

lemma atlas_locks:
  assumes "keeps_locks E" "runs this E (atlasSolverCall cd m f e t n d s) w u s' w'"
  shows "locks s s'"
  using assms(2)
  by (simp add: atlasSolverCall_def runs_pbind, elim conjE, elim nonReentrant_locks [OF assms(1)])
    (auto simp: runs_pbind no_execution_def dest!: start_locks [OF assms(1)] finish_runs
      reconcile_locks [OF assms(1)] bid_locks [OF assms(1)] locks_fields)

lemma liquidate_locks:
  assumes "keeps_locks E" "runs this E (liquidate cd ctx q a n s) w r s' w'"
  shows "locks s s'"
proof -
  obtain c s1 w1 w2 n' w3 x where "runs this E (high_level_call c s) w1 () s1 w2"
    "runs this E (executeSwapLegs cd (sq_unwindLegs q) n' s1) w3 x s' w'"
    using assms(2) unfolding liquidate_def runs_pbind run_simps run_safe_calls
    by (elim exE conjE) (auto split: if_splits simp: runs_pbind)
  then show ?thesis by (rule locks_trans [OF call_locks(1) [OF assms(1)] swap_locks [OF assms(1)]])
qed

lemma execute_kind_locks:
  assumes "keeps_locks E" "runs this E (execute_kind cd ctx a n d s) w r s' w'"
  shows "locks s s'"
  using assms(2)
  by (auto simp: execute_kind_def runs_pbind split: if_splits dest: swap_locks [OF assms(1)] liquidate_locks [OF assms(1)])

lemma operation_runs:
  assumes "runs this E (executeOperation cd this m asset amount premium i d s) w r s' w'"
  obtains minimumProfit s1 w1 ev where
    "mg_sender m = px_flashProvider s" "i = this" "ax_active (px_activeExecution s)"
    "asset = ax_asset (px_activeExecution s)" "amount = ax_amount (px_activeExecution s)"
    "runs this E (execute_kind cd (px_activeExecution s) asset amount d s) w minimumProfit s1 w1"
    "unat (ax_baselineBalance (px_activeExecution s)) + (unat amount + unat premium) + unat minimumProfit
      \<le> unat (ch_balance w1 asset)"
    "s' = s1\<lparr>px_activeExecution := (px_activeExecution s1)\<lparr>ax_premium := premium\<rparr>\<rparr>"
    "ch_balance w' = ch_balance w1" "ch_native w' = ch_native w1"
    "unat (ch_allowance w' asset (px_flashProvider s1)) = unat amount + unat premium"
    "ch_logs w' = ch_logs w1 @ (if ax_kind (px_activeExecution s) = 1 then [ev] else [])"
proof -
  from assms obtain minimumProfit s1 w1 repay needed gain profit where *:
    "mg_sender m = px_flashProvider s" "i = this" "ax_active (px_activeExecution s)"
    "asset = ax_asset (px_activeExecution s)" "amount = ax_amount (px_activeExecution s)"
    "runs this E (execute_kind cd (px_activeExecution s) asset amount d s) w minimumProfit s1 w1"
    "checked_add amount premium = Some repay"
    "checked_add (ax_baselineBalance (px_activeExecution s)) repay = Some needed" "\<not> ch_balance w1 asset < needed"
    "checked_sub (ch_balance w1 asset) (ax_baselineBalance (px_activeExecution s)) = Some gain"
    "checked_sub gain repay = Some profit" "\<not> profit < minimumProfit"
    "s' = s1\<lparr>px_activeExecution := (px_activeExecution s1)\<lparr>ax_premium := premium\<rparr>\<rparr>"
    "ch_balance w' = ch_balance w1" "ch_native w' = ch_native w1"
    "ch_allowance w' asset (px_flashProvider s1) = repay"
    "ch_logs w' = ch_logs w1 @ (if ax_kind (px_activeExecution s) = 1
      then [OpportunitySettled (ax_routeId (px_activeExecution s)) asset amount premium profit] else [])"
    unfolding executeOperation_def Let_def runs_pbind run_simps run_safe_calls
    by (elim exE conjE) (auto split: if_splits)
  show ?thesis
    by (rule that [OF *(1-6) _ *(13-15) _ *(17)]) (use *(7-12,16) in \<open>auto simp: checked_simps word_less_nat_alt\<close>)
qed

lemma operation_locks:
  assumes "keeps_locks E" "runs this E (executeOperation cd this m a n p i d s) w r s' w'"
  shows "locks s s'"
  by (rule operation_runs [OF assms(2)])
    (auto simp: locks_def dest!: execute_kind_locks [OF assms(1)] intro: same_execution_trans)

lemma dispatch_locks:
  assumes "keeps_locks E" "runs this E (dispatch cd this m e s) w u s' w'"
  shows "locks s s'"
  using assms(2)
  by (cases e)
    (auto simp: nonpayable_def discard_def runs_pbind
      dest: admin_locks approvePool_locks callback_locks withdrawToken_locks [OF assms(1)]
        withdrawNative_locks [OF assms(1)] opportunity_locks [OF assms(1)] liquidation_locks [OF assms(1)]
        atlas_locks [OF assms(1)] operation_locks [OF assms(1)])

interpretation lock_rely: rely cd this may "\<lambda>x y. locks (fst x) (fst y)" for cd this may
proof unfold_locales
  show "locks (fst x) (fst z)" if "locks (fst x) (fst y)" "locks (fst y) (fst z)" for x y z :: situation
    using that by (rule locks_trans)
  show "locks (fst (s, w)) (fst (s', w'))"
    if "\<And>x y. E x y \<Longrightarrow> locks (fst x) (fst y)" "runs this E (dispatch cd this m e s) w () s' w'" for E m e s w s' w'
    using dispatch_locks [OF _ that(2)] that(1) by (simp add: keeps_locks_def)
qed simp_all

lemma moves_keep_locks: "keeps_locks (moves cd this may)"
  by (simp add: keeps_locks_def lock_rely.moves_rely)

section \<open>The profit of a liquidation\<close>

text \<open>The start of a liquidation sets the baseline to the balance it finds, and no callback can change it.\<close>

lemma start_baseline:
  assumes "keeps_locks E" "runs this E (startAaveLiquidation cd m q a bid s) w u s' w'" "px_entered s"
  shows "ax_baselineBalance (px_activeExecution s') = ch_balance w (sq_debtAsset q)" "px_entered s'"
  by (rule start_runs [OF assms(2)], use assms(3) in \<open>auto dest!: call_locks [OF assms(1)] locksD_entered same_executionD(6)\<close>)+

text \<open>C2: A direct liquidation pays. Whatever the flash-loan provider, the pools, the borrower and every other
  account do during the call, and however often they call back into the contract, a liquidation that
  does not revert leaves the contract with the debt asset it had before plus exactly the profit it
  returns, which is at least the minimum profit of the request.\<close>

theorem liquidation_pays:
  assumes "runs this (moves cd this may) (executeAaveLiquidation cd m q s) w profit s' w'"
  shows "unat (ch_balance w' (sq_debtAsset q)) = unat (ch_balance w (sq_debtAsset q)) + unat profit \<and>
    sq_minProfit q \<le> profit"
proof -
  let ?E = "moves cd this may"
  from assms obtain s1 w1 s2 w2 where
    start: "runs this ?E (startAaveLiquidation cd m q False 0 (s\<lparr>px_entered := True\<rparr>)) w () s1 w1"
    and finish: "runs this ?E (finishAaveLiquidation q 0 s1) w1 profit s2 w2" "ch_balance w' = ch_balance w2"
    by (auto simp: executeAaveLiquidation_def nonReentrant_def runs_pbind)
  show ?thesis
    using finish_runs [OF finish(1)] start_baseline(1) [OF moves_keep_locks start] finish(2) by simp
qed

text \<open>C5: An Atlas solver call pays. A call that does not revert came from Atlas for an operation of the owner,
  with a bid within the request's maximum, and after the bid has been paid and the liabilities to Atlas
  are settled the contract holds at least the minimum profit more of the debt asset than before,
  whatever any other account does during the call.\<close>

theorem atlas_call_pays:
  assumes "runs this (moves cd this may) (atlasSolverCall cd m from environment token bid data s) w u s' w'"
  shows "\<exists>q. ab_decode_liquidation cd data = Some q \<and> mg_sender m = px_atlas s \<and> from = px_owner s \<and>
    0 < bid \<and> bid \<le> sq_maxAtlasBid q \<and>
    unat (ch_balance w (sq_debtAsset q)) + unat (sq_minProfit q) \<le> unat (ch_balance w' (sq_debtAsset q))"
proof -
  let ?E = "moves cd this may" and ?s = "s\<lparr>px_entered := True\<rparr>"
  note keep = moves_keep_locks [of cd this may]
  from assms obtain q s1 w1 s2 w2 s3 w3 profit s4 w4 where q: "ab_decode_liquidation cd data = Some q"
    "mg_sender m = px_atlas s" "from = px_owner s" "\<not> bid_invalid ?s q token bid"
    and start: "runs this ?E (startAaveLiquidation cd m q True bid ?s) w () s1 w1"
    and pay: "runs this ?E (payAtlasBid environment token bid s1) w1 () s2 w2"
    and reconcile: "runs this ?E (reconcileAtlas (mg_value m) s2) w2 () s3 w3"
    and finish: "runs this ?E (finishAaveLiquidation q bid s3) w3 profit s4 w4" "ch_balance w' = ch_balance w4"
    by (auto simp: atlasSolverCall_def nonReentrant_def runs_pbind)
  note base = start_baseline [OF keep start]
  have "locks s1 s3" by (rule locks_trans [OF bid_locks [OF keep pay] reconcile_locks [OF keep reconcile]])
  then have "ax_baselineBalance (px_activeExecution s3) = ch_balance w (sq_debtAsset q)"
    using base by (auto dest!: locksD_entered same_executionD(6))
  then show ?thesis
    using q finish_runs [OF finish(1)] finish(2) by (auto simp: bid_invalid_def word_less_nat_alt word_le_nat_alt unat_gt_0)
qed

section \<open>Authorised calls\<close>

text \<open>The weakest precondition of a program for a guarantee on its external calls: whatever the views
  answer and whatever the environment does within \<open>R\<close> during a call, every call satisfies \<open>G\<close> and every
  result satisfies \<open>Q\<close>.\<close>

primrec guarantee ::
  "(phoenix_executor \<Rightarrow> phoenix_executor \<Rightarrow> bool) \<Rightarrow> (phoenix_executor \<Rightarrow> ext_call \<Rightarrow> bool) \<Rightarrow> 'a node
   \<Rightarrow> ('a \<Rightarrow> phoenix_executor \<Rightarrow> bool) \<Rightarrow> bool" where
  "guarantee R G (Done a s) Q = Q a s"
| "guarantee R G (Revert e) Q = True"
| "guarantee R G (Balance t k) Q = (\<forall>x. guarantee R G (k x) Q)"
| "guarantee R G (Allowance t p k) Q = (\<forall>x. guarantee R G (k x) Q)"
| "guarantee R G (View v k) Q = (\<forall>x. guarantee R G (k x) Q)"
| "guarantee R G (Log e n) Q = guarantee R G n Q"
| "guarantee R G (Call c s k) Q =
    (G s c \<and> guarantee R G (k False s) Q \<and> (\<forall>s'. R s s' \<longrightarrow> guarantee R G (k True s') Q))"

lemma guarantee_bind: "guarantee R G (node_bind n f) Q \<longleftrightarrow> guarantee R G n (\<lambda>a s. guarantee R G (f a s) Q)"
  by (induction n) auto

lemma guarantee_simps [simp]:
  "guarantee R G (pbind m f s) Q \<longleftrightarrow> guarantee R G (m s) (\<lambda>a s. guarantee R G (f a s) Q)"
  "guarantee R G (pret a s) Q \<longleftrightarrow> Q a s"
  "guarantee R G (revert e s) Q"
  "guarantee R G (revert_if c e s) Q' \<longleftrightarrow> c \<or> Q' () s"
  "guarantee R G (storage s) Qs \<longleftrightarrow> Qs s s"
  "guarantee R G (store f' s) Q' \<longleftrightarrow> Q' () (f' s)"
  "guarantee R G (balance_of t s) Qn \<longleftrightarrow> (\<forall>n. Qn n s)"
  "guarantee R G (allowance_of t p s) Qn \<longleftrightarrow> (\<forall>n. Qn n s)"
  "guarantee R G (view_call v s) Qv \<longleftrightarrow> (\<forall>x. Qv x s)"
  "guarantee R G (emit_event ev s) Q' \<longleftrightarrow> Q' () s"
  "guarantee R G (checked r s) Q \<longleftrightarrow> (\<forall>x. r = Some x \<longrightarrow> Q x s)"
  "guarantee R G (decoded r s) Q \<longleftrightarrow> (\<forall>x. r = Some x \<longrightarrow> Q x s)"
  "guarantee R G (high_level_call c' s) Q' \<longleftrightarrow> G s c' \<and> (\<forall>s'. R s s' \<longrightarrow> Q' () s')"
  "guarantee R G (low_level_call c' s) Qb \<longleftrightarrow> G s c' \<and> Qb False s \<and> (\<forall>s'. R s s' \<longrightarrow> Qb True s')"
  by (auto simp: pbind_def guarantee_bind pret_def revert_def revert_if_def storage_def store_def balance_of_def
      allowance_of_def view_call_def emit_event_def checked_def decoded_def high_level_call_def low_level_call_def
      split: option.splits)

text \<open>Which calls are authorised: tokens go to the owner while the contract is paused and idle, to an
  approved pool in one of its two tokens, or, in an Atlas execution, from the asset of the execution; an
  allowance is given to the flash-loan provider for the asset of the execution; everything else needs an
  execution under way.\<close>

fun authorised :: "phoenix_executor \<Rightarrow> ext_call \<Rightarrow> bool" where
  "authorised s (ERC20_transfer token dest n) \<longleftrightarrow>
    (let ctx = px_activeExecution s; cfg = px_approvedPools s dest in
     \<not> ax_active ctx \<and> px_paused s \<and> dest = px_owner s
     \<or> ax_active ctx \<and> pool_usable s dest \<and> (token = pc_token0 cfg \<or> token = pc_token1 cfg)
     \<or> ax_active ctx \<and> ax_atlas ctx \<and> token = ax_asset ctx)"
| "authorised s (ERC20_approve token spender n) \<longleftrightarrow>
    ax_active (px_activeExecution s) \<and> spender = px_flashProvider s \<and> token = ax_asset (px_activeExecution s)"
| "authorised s (FlashLoanSimple provider asset n d) \<longleftrightarrow>
    ax_active (px_activeExecution s) \<and> \<not> px_paused s \<and> provider = px_flashProvider s \<and>
    asset = ax_asset (px_activeExecution s) \<and> px_approvedAssets s asset \<and> n = ax_amount (px_activeExecution s) \<and>
    0 < n \<and> n \<le> px_maximumInputAmount s"
| "authorised s (LiquidationCall provider c d u n) \<longleftrightarrow>
    ax_active (px_activeExecution s) \<and> ax_kind (px_activeExecution s) = 2 \<and> provider = px_flashProvider s \<and>
    d = ax_asset (px_activeExecution s) \<and> n = ax_amount (px_activeExecution s)"
| "authorised s (Swap p z n l d) \<longleftrightarrow> ax_active (px_activeExecution s)"
| "authorised s (WethWithdraw token n) \<longleftrightarrow>
    ax_active (px_activeExecution s) \<and> ax_atlas (px_activeExecution s) \<and> token = px_weth s \<and>
    token = ax_asset (px_activeExecution s)"
| "authorised s (SendNative dest n) \<longleftrightarrow>
    \<not> ax_active (px_activeExecution s) \<and> px_paused s \<and> dest = px_owner s
    \<or> ax_active (px_activeExecution s) \<and> ax_atlas (px_activeExecution s)"
| "authorised s (Reconcile atlas v g) \<longleftrightarrow>
    ax_active (px_activeExecution s) \<and> ax_atlas (px_activeExecution s) \<and> atlas = px_atlas s"

definition within :: "active_execution \<Rightarrow> phoenix_executor \<Rightarrow> bool" where
  "within ctx s \<longleftrightarrow> px_entered s \<and> same_execution ctx (px_activeExecution s)"

lemma within_locks: "within ctx s \<Longrightarrow> locks s s' \<Longrightarrow> within ctx s'"
  by (auto simp: within_def dest!: locksD_entered intro: same_execution_trans)

lemma withinD:
  assumes "within ctx s"
  shows "ax_active (px_activeExecution s) = ax_active ctx" "ax_kind (px_activeExecution s) = ax_kind ctx"
    "ax_atlas (px_activeExecution s) = ax_atlas ctx" "ax_asset (px_activeExecution s) = ax_asset ctx"
    "ax_amount (px_activeExecution s) = ax_amount ctx"
  using same_executionD assms by (auto simp: within_def)

lemma guarantee_safe_calls [simp]:
  "guarantee locks G (safeTransfer t d n s) Q \<longleftrightarrow> G s (ERC20_transfer t d n) \<and> (\<forall>s'. locks s s' \<longrightarrow> Q () s')"
  "guarantee locks G (safeApprove t p n s) Q \<longleftrightarrow> G s (ERC20_approve t p n) \<and> (\<forall>s'. locks s s' \<longrightarrow> Q () s')"
  by (simp_all add: safeTransfer_def safeApprove_def)

lemma guarantee_validate:
  "(\<And>x. Q x s) \<Longrightarrow> guarantee R G (validate_leg_loop legs t s) Q"
  "(\<And>u. Q' u s) \<Longrightarrow> guarantee R G (validateLegs op s) Q'"
  "(\<And>u. Q' u s) \<Longrightarrow> guarantee R G (validateUnwindLegs q s) Q'"
proof -
  show *: "(\<And>x. Q x s) \<Longrightarrow> guarantee R G (validate_leg_loop legs t s) Q" for Q legs t
    by (induction legs arbitrary: t) (simp_all add: Let_def)
  show "(\<And>u. Q' u s) \<Longrightarrow> guarantee R G (validateLegs op s) Q'"
    by (simp add: validateLegs_def *)
  show "(\<And>u. Q' u s) \<Longrightarrow> guarantee R G (validateUnwindLegs q s) Q'"
    by (simp add: validateUnwindLegs_def *)
qed

lemma guarantee_swaps:
  assumes "within ctx s" "ax_active ctx" "\<And>a s'. within ctx s' \<Longrightarrow> Q a s'"
  shows "guarantee locks authorised (executeSwapLegs cd legs n s) Q"
  using assms(1)
proof (induction legs arbitrary: n s)
  case (Cons leg legs)
  then show ?case using assms(2) by (auto simp: withinD dest: within_locks)
qed (simp add: assms(3))

lemma guarantee_liquidate:
  assumes "within ctx s" "ax_active ctx" "ax_kind ctx = 2" "a = ax_asset ctx" "n = ax_amount ctx"
    "\<And>r s'. within ctx s' \<Longrightarrow> Q r s'"
  shows "guarantee locks authorised (liquidate cd ctx q a n s) Q"
proof -
  have step: "authorised t (ERC20_approve (ax_asset ctx) (px_flashProvider t) x)"
    "authorised t (LiquidationCall (px_flashProvider t) c (ax_asset ctx) b (ax_amount ctx))" if "within ctx t" for t x c b
    using withinD [OF that] assms(2,3) by simp_all
  have swaps: "guarantee locks authorised (executeSwapLegs cd legs x t)
      (\<lambda>y t. y < z \<or> Q (ax_requiredProfit ctx) t)" if "within ctx t" for legs x t z
    by (rule guarantee_swaps [OF that assms(2)]) (simp add: assms(6))
  show ?thesis unfolding liquidate_def assms(4,5)
    using assms(1)
    by (auto intro!: step swaps intro: within_locks simp del: authorised.simps) (blast intro: within_locks)+
qed

lemma guarantee_operation:
  assumes "ax_active (px_activeExecution s) \<Longrightarrow> px_entered s"
  shows "guarantee locks authorised (executeOperation cd this m a n p i d s) (\<lambda>_ _. True)"
proof -
  let ?ctx = "px_activeExecution s"
  have step: "authorised t (ERC20_approve (ax_asset ?ctx) (px_flashProvider t) x)" if "within ?ctx t" "ax_active ?ctx" for t x
    using withinD [OF that(1)] that(2) by simp
  have start: "within ?ctx s" if "ax_active ?ctx" using assms [OF that] by (simp add: within_def)
  have kind: "guarantee locks authorised (execute_kind cd ?ctx (ax_asset ?ctx) (ax_amount ?ctx) d s) Q"
    if "ax_active ?ctx" "\<And>r t. within ?ctx t \<Longrightarrow> Q r t" for Q
    using guarantee_swaps [OF start that(1)] guarantee_liquidate [OF start that(1)] that
    by (auto simp: execute_kind_def)
  show ?thesis
    unfolding executeOperation_def
    by (auto simp: Let_def intro!: kind step intro: within_locks simp del: authorised.simps)
qed

text \<open>The state of a running liquidation.\<close>

definition liquidating :: "bool \<Rightarrow> eth_address \<Rightarrow> eth_address \<Rightarrow> phoenix_executor \<Rightarrow> bool" where
  "liquidating atlas asset weth t \<longleftrightarrow> px_entered t \<and> ax_active (px_activeExecution t) \<and>
     ax_atlas (px_activeExecution t) = atlas \<and> ax_asset (px_activeExecution t) = asset \<and> px_weth t = weth"

lemma liquidating_locks: "liquidating atlas asset weth s \<Longrightarrow> locks s s' \<Longrightarrow> liquidating atlas asset weth s'"
  by (auto simp: liquidating_def dest!: locksD_entered dest: same_executionD)

lemma guarantee_start:
  assumes "px_entered s" "\<not> px_paused s" "\<And>t. liquidating atlas (sq_debtAsset q) (px_weth s) t \<Longrightarrow> Q () t"
  shows "guarantee locks authorised (startAaveLiquidation cd m q atlas bid s) Q"
proof -
  have "0 < sq_repayAmount q" if "sq_repayAmount q \<noteq> 0" using that by (simp add: word_gt_0)
  then show ?thesis
    unfolding startAaveLiquidation_def
    using assms(1,2)
    by (auto intro!: guarantee_validate assms(3) intro: liquidating_locks [rotated]
        simp: liquidation_invalid_def liquidating_def)
qed

lemma guarantee_finish: "(\<And>r. Q r s) \<Longrightarrow> guarantee R G (finishAaveLiquidation q bid s) Q"
  by (simp add: finishAaveLiquidation_def)

lemma guarantee_bid:
  assumes "liquidating True asset weth s" "token = 0 \<longrightarrow> asset = weth" "token \<noteq> 0 \<longrightarrow> token = asset"
    "\<And>t. liquidating True asset weth t \<Longrightarrow> Q () t"
  shows "guarantee locks authorised (payAtlasBid environment token bid s) Q"
proof -
  have auth: "authorised t (SendNative d n)" "authorised t (ERC20_transfer asset d n)"
    "asset = weth \<Longrightarrow> authorised t (WethWithdraw (px_weth t) n)" if "liquidating True asset weth t" for t d n
    using that by (simp_all add: liquidating_def Let_def)
  show ?thesis
  proof (cases "token = 0")
    case True
    then show ?thesis
      using assms(1,2)
      by (auto simp: payAtlasBid_def intro!: assms(4) auth(1,3) intro: liquidating_locks simp del: authorised.simps)
  next
    case False
    then show ?thesis
      using auth(2) [OF assms(1)] assms(3)
      by (simp add: payAtlasBid_def assms(4) liquidating_locks [OF assms(1)] del: authorised.simps)
  qed
qed

lemma guarantee_reconcile:
  assumes "liquidating True asset weth s" "\<And>t. liquidating True asset weth t \<Longrightarrow> Q () t"
  shows "guarantee locks authorised (reconcileAtlas v s) Q"
  using assms(1) by (auto simp: reconcileAtlas_def intro!: assms(2) intro: liquidating_locks) (auto simp: liquidating_def)

lemma guarantee_atlas: "guarantee locks authorised (atlasSolverCall cd m f e t n d s) (\<lambda>_ _. True)"
  unfolding atlasSolverCall_def whenNotPaused_def nonReentrant_def
  by (auto intro!: guarantee_start guarantee_bid guarantee_reconcile guarantee_finish simp: bid_invalid_def)

lemma guarantee_liquidation: "guarantee locks authorised (executeAaveLiquidation cd m q s) (\<lambda>_ _. True)"
  unfolding executeAaveLiquidation_def onlySearcher_def whenNotPaused_def nonReentrant_def
  by (auto intro!: guarantee_start guarantee_finish)

lemma guarantee_opportunity: "guarantee locks authorised (executeOpportunity cd this m op s) (\<lambda>_ _. True)"
  unfolding executeOpportunity_def onlySearcher_def whenNotPaused_def nonReentrant_def
  by (auto intro!: guarantee_validate simp: word_gt_0)

lemma guarantee_admin:
  "guarantee R G (transferOwnership m a s) (\<lambda>_ _. True)" "guarantee R G (acceptOwnership m s) (\<lambda>_ _. True)"
  "guarantee R G (setSearcher m a b s) (\<lambda>_ _. True)" "guarantee R G (setPaused m b s) (\<lambda>_ _. True)"
  "guarantee R G (setFlashProvider m a s) (\<lambda>_ _. True)" "guarantee R G (setAsset m a b s) (\<lambda>_ _. True)"
  "guarantee R G (setRouter m a b s) (\<lambda>_ _. True)" "guarantee R G (setMaximumInputAmount m n s) (\<lambda>_ _. True)"
  "guarantee R G (setFactory m a b s) (\<lambda>_ _. True)" "guarantee R G (approvePool m p f t0 t1 fee b s) (\<lambda>_ _. True)"
  by (simp_all add: transferOwnership_def acceptOwnership_def setSearcher_def setPaused_def setFlashProvider_def
      setAsset_def setRouter_def setMaximumInputAmount_def setFactory_def approvePool_def onlyOwner_def view_address_def
      split: prod.splits)

lemma guarantee_withdraw:
  "guarantee locks authorised (withdrawToken m t n s) (\<lambda>_ _. True)"
  "guarantee locks authorised (withdrawNative m n s) (\<lambda>_ _. True)"
  by (simp_all add: withdrawToken_def withdrawNative_def onlyOwner_def whenPaused_def whenNoActiveExecution_def
      nonReentrant_def Let_def)

lemma guarantee_callback: "guarantee locks authorised (uniswapV3SwapCallback cd m a b d s) (\<lambda>_ _. True)"
  by (auto simp: uniswapV3SwapCallback_def view_address_def Let_def split: prod.splits)

text \<open>C4: Every external call the contract can make is authorised, whichever function is called, by whom and
  with what, whatever the views answer, and whatever the environment does during earlier calls: tokens
  leave only to the owner of a paused idle contract, to an approved pool in one of its own tokens, or as
  the asset of a running Atlas execution; allowances and loans go to the flash-loan provider, for the
  asset and within the limits of the running execution.\<close>

theorem external_calls_authorised:
  assumes "ax_active (px_activeExecution s) \<longrightarrow> px_entered s"
  shows "guarantee locks authorised (dispatch cd this m e s) (\<lambda>_ _. True)"
  using guarantee_operation assms
  by (cases e) (simp_all add: nonpayable_def discard_def guarantee_admin guarantee_withdraw guarantee_opportunity
      guarantee_liquidation guarantee_atlas guarantee_callback)

end
