(* ===== verification/Contract_Invariants.thy ===== *)
theory Contract_Invariants
  imports Contract_Safety
begin

text \<open>
  What holds of the executor contract after every transaction since its deployment, who can use it, what
  a validated route is, and that an arbitrage through an honest flash-loan provider pays.
\<close>

section \<open>Soundness of the guarantee\<close>

lemma guarantee_sound:
  assumes "runs this E n w a s' w'" "guarantee R G n Q" "\<And>x y. E x y \<Longrightarrow> R (fst x) (fst y)" "\<And>s. R s s"
  shows "Q a s'"
  using assms(1,2)
proof induction
  case (run_Call c w w1 s0 s2 w2 k a s w')
  then show ?case using assms(3) by fastforce
qed (auto simp: assms(4))

section \<open>Every reachable state\<close>

text \<open>The configuration stays usable: the input limit fits a signed word, and the owner and the flash-loan
  provider are set.\<close>

definition configured :: "phoenix_executor \<Rightarrow> bool" where
  "configured s \<longleftrightarrow> px_maximumInputAmount s \<le> INT256_MAX \<and> px_owner s \<noteq> 0 \<and> px_flashProvider s \<noteq> 0"

definition keeps_configured :: "phoenix_executor \<Rightarrow> phoenix_executor \<Rightarrow> bool" where
  "keeps_configured s s' \<longleftrightarrow> configured s \<longrightarrow> configured s'"

lemma configured_updates [simp]:
  "configured (s\<lparr>px_entered := b\<rparr>) = configured s" "configured (s\<lparr>px_activeExecution := x\<rparr>) = configured s"
  "configured (s\<lparr>px_paused := b\<rparr>) = configured s" "configured (s\<lparr>px_pendingOwner := a\<rparr>) = configured s"
  "configured (s\<lparr>px_authorizedSearchers := f\<rparr>) = configured s" "configured (s\<lparr>px_approvedAssets := f\<rparr>) = configured s"
  "configured (s\<lparr>px_approvedRouters := f\<rparr>) = configured s" "configured (s\<lparr>px_approvedFactories := f\<rparr>) = configured s"
  "configured (s\<lparr>px_approvedPools := g\<rparr>) = configured s"
  by (simp_all add: configured_def)

abbreviation (input) any_call :: "phoenix_executor \<Rightarrow> ext_call \<Rightarrow> bool" where
  "any_call \<equiv> \<lambda>_ _. True"

abbreviation (input) configures :: "'a node \<Rightarrow> bool" where
  "configures n \<equiv> guarantee keeps_configured any_call n (\<lambda>_. configured)"

lemma configured_swaps:
  "configured s \<Longrightarrow> (\<And>a t. configured t \<Longrightarrow> Q a t) \<Longrightarrow> guarantee keeps_configured any_call (executeSwapLegs cd legs n s) Q"
  by (induction legs arbitrary: n s) (auto simp: keeps_configured_def)

lemma configured_calls:
  assumes "configured s" "\<And>u t. configured t \<Longrightarrow> Q u t"
  shows "guarantee keeps_configured any_call (safeTransfer t d n s) Q"
    "guarantee keeps_configured any_call (safeApprove t d n s) Q"
    "guarantee keeps_configured any_call (startAaveLiquidation cd m q a bid s) Q"
    "guarantee keeps_configured any_call (payAtlasBid e t n s) Q"
    "guarantee keeps_configured any_call (reconcileAtlas v s) Q"
  using assms
  by (auto simp: safeTransfer_def safeApprove_def keeps_configured_def payAtlasBid_def reconcileAtlas_def
      startAaveLiquidation_def intro!: guarantee_validate)

lemma configured_finish:
  "(\<And>r. Q r s) \<Longrightarrow> guarantee keeps_configured any_call (finishAaveLiquidation q b s) Q"
  by (rule guarantee_finish)

lemma configured_liquidate:
  "configured s \<Longrightarrow> (\<And>a t. configured t \<Longrightarrow> Q a t) \<Longrightarrow> guarantee keeps_configured any_call (liquidate cd ctx q a n s) Q"
  unfolding liquidate_def
  by (auto intro!: configured_swaps configured_calls simp: keeps_configured_def)

lemma configured_operation: "configured s \<Longrightarrow> configures (executeOperation cd this m a n p i d s)"
  unfolding executeOperation_def execute_kind_def
  by (auto intro!: configured_swaps configured_calls configured_liquidate simp: Let_def)

lemma configured_execute:
  "configured s \<Longrightarrow> configures (executeOpportunity cd this m op s)"
  "configured s \<Longrightarrow> configures (executeAaveLiquidation cd m q s)"
  "configured s \<Longrightarrow> configures (atlasSolverCall cd m f e t n d s)"
  "configured s \<Longrightarrow> configures (withdrawToken m t n s)"
  "configured s \<Longrightarrow> configures (withdrawNative m n s)"
  "configured s \<Longrightarrow> configures (uniswapV3SwapCallback cd m x y d s)"
  by (auto simp: executeOpportunity_def executeAaveLiquidation_def atlasSolverCall_def withdrawToken_def withdrawNative_def
      uniswapV3SwapCallback_def view_address_def onlySearcher_def whenNotPaused_def onlyOwner_def whenPaused_def
      whenNoActiveExecution_def nonReentrant_def Let_def keeps_configured_def split: prod.splits
      intro!: guarantee_validate configured_calls configured_finish)

lemma configured_admin:
  assumes "configured s" "mg_sender m \<noteq> 0"
  shows "configures (transferOwnership m a s)" "configures (acceptOwnership m s)" "configures (setSearcher m a b s)"
    "configures (setPaused m b s)" "configures (setFlashProvider m a s)" "configures (setAsset m a b s)"
    "configures (setRouter m a b s)" "configures (setMaximumInputAmount m n s)" "configures (setFactory m a b s)"
    "configures (approvePool m p f t0 t1 fee b s)"
  using assms
  by (simp_all add: transferOwnership_def acceptOwnership_def setSearcher_def setPaused_def setFlashProvider_def
      setAsset_def setRouter_def setMaximumInputAmount_def setFactory_def approvePool_def onlyOwner_def view_address_def
      split: prod.splits) (auto simp: configured_def not_less)

lemma configured_dispatch:
  assumes "configured s" "mg_sender m \<noteq> 0"
  shows "configures (dispatch cd this m e s)"
  using configured_admin [OF assms] configured_execute [OF assms(1)] configured_operation [OF assms(1)]
  by (cases e) (simp_all add: nonpayable_def discard_def)

text \<open>Nobody can send from the zero address.\<close>

abbreviation (input) anyone :: "msg \<Rightarrow> entry \<Rightarrow> bool" where
  "anyone \<equiv> \<lambda>m _. mg_sender m \<noteq> 0"

interpretation config_rely: rely cd this anyone "\<lambda>x y. keeps_configured (fst x) (fst y)" for cd this
proof unfold_locales
  show "keeps_configured (fst (s, w)) (fst (s', w'))"
    if "mg_sender m \<noteq> 0" "\<And>x y. E x y \<Longrightarrow> keeps_configured (fst x) (fst y)"
      "runs this E (dispatch cd this m e s) w () s' w'" for E m e s w s' w'
    using guarantee_sound [OF that(3) configured_dispatch [OF _ that(1)] that(2)]
    by (simp add: keeps_configured_def)
qed (simp_all add: keeps_configured_def)

inductive reachable :: "abi_coder \<Rightarrow> eth_address \<Rightarrow> situation \<Rightarrow> bool" for cd this where
  reach_deployed: "constructor initialOwner initialFlashProvider initialAtlas initialWeth = Some (s, logs) \<Longrightarrow>
    reachable cd this (s, w\<lparr>ch_logs := logs\<rparr>)"
| reach_token: "reachable cd this (s, w) \<Longrightarrow> token_move this w w' \<Longrightarrow> reachable cd this (s, w')"
| reach_call: "reachable cd this (s, w) \<Longrightarrow> mg_sender m \<noteq> 0 \<Longrightarrow> receives m w = Some w0 \<Longrightarrow>
    runs this (moves cd this anyone) (dispatch cd this m e s) w0 () s' w' \<Longrightarrow> reachable cd this (s', w')"

text \<open>C9: After every transaction since the deployment, whoever sent it and whatever was called back during
  it, the contract is idle: the reentrancy lock is free and no execution is left active. The input limit
  fits a signed word, and the owner and the flash-loan provider are set.\<close>

theorem reachable_idle:
  assumes "reachable cd this (s, w)"
  shows "\<not> px_entered s \<and> \<not> ax_active (px_activeExecution s) \<and> configured s"
  using assms
proof (induction x \<equiv> "(s, w)" arbitrary: s w rule: reachable.induct)
  case (reach_deployed o' f a wt s logs w)
  then show ?case
    by (auto simp: constructor_def configured_def no_execution_def INT256_MAX_def split: if_splits)
next
  case (reach_call s w m w0 e s' w')
  have "locks s s'"
    by (rule dispatch_locks [OF moves_keep_locks reach_call(5)])
  moreover have "keeps_configured s s'"
    using config_rely.entry [OF reach_call(3) _ reach_call(5)] config_rely.moves_rely by simp
  ultimately show ?case using reach_call(2) by (auto simp: locks_def keeps_configured_def)
qed auto

section \<open>Outsiders\<close>

text \<open>C28: The contract is closed to outsiders. While it is idle, every call of every function by an account that
  is not the owner, the pending owner, an authorised searcher or Atlas reverts, so it changes nothing;
  in particular the callbacks of the flash-loan provider and of the pools do. (A plain payment, which
  receive() takes from anyone, is a deposit of the chain.)\<close>

theorem outsiders_revert:
  assumes "\<not> ax_active (px_activeExecution s)"
    "mg_sender m \<notin> {px_owner s, px_pendingOwner s, px_atlas s}" "\<not> px_authorizedSearchers s (mg_sender m)"
  shows "\<not> runs this E (dispatch cd this m e s) w u s' w'"
  using assms
  by (cases e) (auto simp: nonpayable_def discard_def runs_pbind transferOwnership_def acceptOwnership_def setSearcher_def
      setPaused_def withdrawToken_def withdrawNative_def setFlashProvider_def setAsset_def setRouter_def
      setMaximumInputAmount_def setFactory_def approvePool_def executeOpportunity_def executeAaveLiquidation_def
      atlasSolverCall_def nonReentrant_def uniswapV3SwapCallback_def Let_def elim: operation_runs)

section \<open>Routes\<close>

definition leg_ok :: "phoenix_executor \<Rightarrow> sol_leg \<Rightarrow> bool" where
  "leg_ok s leg \<longleftrightarrow>
     pool_usable s (sl_pool leg) \<and> px_approvedAssets s (sl_tokenIn leg) \<and> px_approvedAssets s (sl_tokenOut leg) \<and>
     sl_fee leg = pc_fee (px_approvedPools s (sl_pool leg)) \<and> 0 < sl_minAmountOut leg \<and>
     leg_oriented (px_approvedPools s (sl_pool leg)) leg"

text \<open>A route from one token to another: every leg takes what the previous one gave.\<close>

definition route_ok :: "phoenix_executor \<Rightarrow> eth_address \<Rightarrow> sol_leg list \<Rightarrow> eth_address \<Rightarrow> bool" where
  "route_ok s a legs b \<longleftrightarrow> list_all (leg_ok s) legs \<and> a # map sl_tokenOut legs = map sl_tokenIn legs @ [b]"

lemma validate_loop_exact:
  "runs this E (validate_leg_loop legs a s) w b s' w' \<longleftrightarrow> s' = s \<and> w' = w \<and> route_ok s a legs b"
proof (induction legs arbitrary: a)
  case (Cons leg legs)
  then show ?case
    by (auto simp: runs_pbind Let_def route_ok_def leg_ok_def word_gt_0)
qed (auto simp: route_ok_def)

text \<open>The validation of an arbitrage accepts exactly the closed routes: one to four legs, each through an
  approved pool of an approved factory, between approved assets, with the pool's fee and orientation and
  a positive minimum output, each taking the token the previous one gives, from the flash asset back to
  the flash asset.\<close>

theorem validateLegs_exact:
  "runs this E (validateLegs op s) w () s' w' \<longleftrightarrow>
    s' = s \<and> w' = w \<and> so_legs op \<noteq> [] \<and> length (so_legs op) \<le> 4 \<and>
    route_ok s (so_flashAsset op) (so_legs op) (so_flashAsset op)"
  by (auto simp: validateLegs_def runs_pbind validate_loop_exact)

section \<open>The profit of an arbitrage\<close>

lemma opportunity_runs:
  assumes "runs this E (executeOpportunity cd this m op s) w u s' w'"
  obtains v s2 where "ch_balance v = ch_balance w" "ch_allowance v = ch_allowance w"
    "runs this E (high_level_call (FlashLoanSimple (px_flashProvider s) (so_flashAsset op) (so_flashAmount op)
        (ab_encode_opportunity cd op)) (s\<lparr>px_entered := True, px_activeExecution := \<lparr>ax_active = True, ax_kind = 1,
        ax_atlas = False, ax_routeId = so_routeId op, ax_asset = so_flashAsset op, ax_amount = so_flashAmount op,
        ax_baselineBalance = ch_balance w (so_flashAsset op), ax_requiredProfit = so_minProfit op, ax_premium = 0\<rparr>\<rparr>))
      v () s2 w'"
    "s' = s2\<lparr>px_activeExecution := no_execution, px_entered := False\<rparr>"
  using assms
  apply (simp add: executeOpportunity_def nonReentrant_def runs_pbind)
  apply (elim exE conjE)
  apply (frule validate_runs(1))
  apply (elim conjE)
  apply hypsubst
  subgoal premises prems by (rule prems(1) [OF _ _ prems(15)]) simp_all
  done

text \<open>The documented behaviour of a flash loan: the provider pays the amount out, calls
  \<^verbatim>\<open>executeOperation\<close> once with the parameters it was given, and takes the amount and its premium back.
  During the callback the environment may do anything.\<close>

definition flash_loan ::
  "abi_coder \<Rightarrow> eth_address \<Rightarrow> (msg \<Rightarrow> entry \<Rightarrow> bool) \<Rightarrow> msg \<Rightarrow> eth_address \<Rightarrow> u256 \<Rightarrow> u256 \<Rightarrow> bytes
   \<Rightarrow> situation \<Rightarrow> situation \<Rightarrow> bool" where
  "flash_loan cd this may m asset amount premium params x y \<longleftrightarrow>
     (\<exists>w1 w2 repay. credit asset amount (snd x) = Some w1 \<and>
        runs this (moves cd this may) (executeOperation cd this m asset amount premium this params (fst x)) w1 True (fst y) w2 \<and>
        checked_add amount premium = Some repay \<and> debit asset repay w2 = Some (snd y))"

text \<open>C11: An arbitrage through an honest flash-loan provider pays: whatever the pools and every other account
  do during the swaps, an opportunity that does not revert leaves the contract with at least its minimum
  profit more of the flash asset than before, and idle.\<close>

theorem opportunity_pays:
  assumes "runs this (flash_loan cd this may provider (so_flashAsset op) (so_flashAmount op) premium
      (ab_encode_opportunity cd op)) (executeOpportunity cd this m op s) w u s' w'"
    and "ab_decode_opportunity cd (ab_encode_opportunity cd op) = Some op"
  shows "unat (ch_balance w (so_flashAsset op)) + unat (so_minProfit op) \<le> unat (ch_balance w' (so_flashAsset op)) \<and>
    \<not> ax_active (px_activeExecution s') \<and> \<not> px_entered s'"
proof -
  let ?asset = "so_flashAsset op" and ?amount = "so_flashAmount op"
  let ?ctx = "\<lparr>ax_active = True, ax_kind = 1, ax_atlas = False,
        ax_routeId = so_routeId op, ax_asset = ?asset, ax_amount = ?amount,
        ax_baselineBalance = ch_balance w ?asset, ax_requiredProfit = so_minProfit op, ax_premium = 0\<rparr>"
  let ?t = "s\<lparr>px_entered := True, px_activeExecution := ?ctx\<rparr>"
  obtain v s2 where
    loan: "flash_loan cd this may provider ?asset ?amount premium (ab_encode_opportunity cd op) (?t, v) (s2, w')"
    and s': "s' = s2\<lparr>px_activeExecution := no_execution, px_entered := False\<rparr>"
    by (rule opportunity_runs [OF assms(1)], rule that) (simp_all add: run_high_level_call)
  then obtain w1 w2 repay where
    op: "runs this (moves cd this may) (executeOperation cd this provider ?asset ?amount premium this
        (ab_encode_opportunity cd op) ?t) w1 True s2 w2"
    and repay: "checked_add ?amount premium = Some repay" "debit ?asset repay w2 = Some w'"
    by (auto simp: flash_loan_def)
  obtain minimumProfit s3 w3 where kind: "runs this (moves cd this may)
      (execute_kind cd (px_activeExecution ?t) ?asset ?amount (ab_encode_opportunity cd op) ?t) w1 minimumProfit s3 w3"
    and enough: "unat (ax_baselineBalance (px_activeExecution ?t)) + (unat ?amount + unat premium) + unat minimumProfit
      \<le> unat (ch_balance w3 ?asset)" "ch_balance w2 = ch_balance w3"
    by (rule operation_runs [OF op]) (rule that)
  have "minimumProfit = so_minProfit op"
    using assms(2) kind by (simp add: execute_kind_def runs_pbind)
  moreover have "unat repay = unat ?amount + unat premium"
    "unat (ch_balance w2 ?asset) = unat (ch_balance w' ?asset) + unat repay"
    using repay by (auto simp: checked_simps debit_def)
  ultimately show ?thesis using s' enough by (simp add: no_execution_def)
qed

end
