(* ===== verification/Contract_Witnesses.thy ===== *)
theory Contract_Witnesses
  imports Contract_Invariants
begin

text \<open>
  A deployed contract, a liquidation and an arbitrage, with environments in which they succeed, on which
  the hypotheses of the contract properties hold.
\<close>

section \<open>A deployed contract\<close>

definition sample_liq :: sol_liquidation where
  "sample_liq =
    \<lparr>sq_routeId = 11, sq_borrower = 12, sq_debtAsset = 4, sq_collateralAsset = 4, sq_repayAmount = 100,
     sq_receiveAToken = False, sq_maxInputAmount = 200, sq_minCollateralReceived = 110, sq_minUnwindOutput = 110,
     sq_minProfit = 5, sq_maxAtlasBid = 3, sq_deadline = 1000, sq_unwindLegs = []\<rparr>"

definition sample_op :: sol_opportunity where
  "sample_op =
    \<lparr>so_routeId = 11, so_originRouter = 13, so_recipient = 99, so_flashAsset = 4, so_flashAmount = 100,
     so_maxInputAmount = 200, so_minProfit = 5, so_deadline = 1000,
     so_legs = [\<lparr>sl_pool = 6, sl_tokenIn = 4, sl_tokenOut = 5, sl_fee = 500, sl_zeroForOne = True, sl_minAmountOut = 100\<rparr>,
       \<lparr>sl_pool = 8, sl_tokenIn = 5, sl_tokenOut = 4, sl_fee = 500, sl_zeroForOne = True, sl_minAmountOut = 100\<rparr>]\<rparr>"

definition sample_coder :: abi_coder where
  "sample_coder =
    \<lparr>ab_encode_opportunity = (\<lambda>_. [1]), ab_decode_opportunity = (\<lambda>_. Some sample_op),
     ab_encode_liquidation = (\<lambda>_. [2]), ab_decode_liquidation = (\<lambda>_. Some sample_liq),
     ab_encode_callback = (\<lambda>_. [3]), ab_decode_callback = (\<lambda>_. None)\<rparr>"

definition sample_contract :: phoenix_executor where
  "sample_contract =
    \<lparr>px_owner = 1, px_pendingOwner = 0, px_flashProvider = 2, px_atlas = 3, px_weth = 4, px_paused = False,
     px_entered = False, px_authorizedSearchers = (\<lambda>_. False), px_approvedAssets = (\<lambda>a. a = 4 \<or> a = 5),
     px_approvedRouters = (\<lambda>a. a = 13), px_approvedFactories = (\<lambda>a. a = 7),
     px_approvedPools = (\<lambda>_. no_pool)(
       6 := \<lparr>pc_factory = 7, pc_token0 = 4, pc_token1 = 5, pc_fee = 500, pc_approved = True\<rparr>,
       8 := \<lparr>pc_factory = 7, pc_token0 = 5, pc_token1 = 4, pc_fee = 500, pc_approved = True\<rparr>),
     px_maximumInputAmount = 1000, px_activeExecution = no_execution\<rparr>"

definition sample_chain :: "u256 \<Rightarrow> u256 \<Rightarrow> contract_event list \<Rightarrow> chain" where
  "sample_chain balance allowance logs =
    \<lparr>ch_balance = (\<lambda>_. 0)(4 := balance), ch_allowance = (\<lambda>_ _. 0)(4 := (\<lambda>_. 0)(2 := allowance)), ch_native = 0,
     ch_logs = logs\<rparr>"

definition msg_from :: "eth_address \<Rightarrow> msg" where
  "msg_from a = \<lparr>mg_sender = a, mg_value = 0, mg_timestamp = 500\<rparr>"

lemma sample_moves:
  "n \<le> b \<Longrightarrow> n \<le> al \<Longrightarrow> token_move this (sample_chain b al logs) (sample_chain (b - n) (al - n) logs)"
  "unat b + unat n < 2 ^ 256 \<Longrightarrow> token_move this (sample_chain b al logs) (sample_chain (b + n) al logs)"
proof -
  show "token_move this (sample_chain b al logs) (sample_chain (b - n) (al - n) logs)" if "n \<le> b" "n \<le> al"
    using move_spend [of 4 n "sample_chain b al logs" "sample_chain (b - n) al logs" 2 "al - n" this] that
    by (simp add: sample_chain_def debit_def checked_sub_def)
  show "token_move this (sample_chain b al logs) (sample_chain (b + n) al logs)" if "unat b + unat n < 2 ^ 256"
    using move_deposit [of 4 n "sample_chain b al logs" "sample_chain (b + n) al logs" this] that
    by (simp add: sample_chain_def credit_def checked_add_def)
qed

section \<open>A liquidation\<close>

text \<open>The execution of the sample liquidation with a bid and a premium.\<close>

definition sample_ctx :: "bool \<Rightarrow> u256 \<Rightarrow> u256 \<Rightarrow> active_execution" where
  "sample_ctx atlas required premium =
    \<lparr>ax_active = True, ax_kind = 2, ax_atlas = atlas, ax_routeId = 11, ax_asset = 4, ax_amount = 100,
     ax_baselineBalance = 0, ax_requiredProfit = required, ax_premium = premium\<rparr>"

definition sample_running :: "bool \<Rightarrow> u256 \<Rightarrow> u256 \<Rightarrow> phoenix_executor" where
  "sample_running atlas required premium =
    sample_contract\<lparr>px_entered := True, px_activeExecution := sample_ctx atlas required premium\<rparr>"

lemma sample_chain_simps [simp]:
  "ch_balance (sample_chain b al logs) 4 = b" "ch_allowance (sample_chain b al logs) 4 2 = al"
  "(sample_chain b al logs)\<lparr>ch_allowance := (ch_allowance (sample_chain b al logs))
     (4 := (ch_allowance (sample_chain b al logs) 4)(2 := n))\<rparr> = sample_chain b n logs"
  "(sample_chain b al logs)\<lparr>ch_logs := l\<rparr> = sample_chain b al l" "ch_logs (sample_chain b al logs) = logs"
  by (simp_all add: sample_chain_def)

lemma sample_running_simps [simp]:
  "px_flashProvider (sample_running a r p) = 2" "px_activeExecution (sample_running a r p) = sample_ctx a r p"
  "ax_active (sample_ctx a r p)" "ax_kind (sample_ctx a r p) = 2" "ax_asset (sample_ctx a r p) = 4"
  "ax_amount (sample_ctx a r p) = 100" "ax_baselineBalance (sample_ctx a r p) = 0"
  "ax_requiredProfit (sample_ctx a r p) = r" "ax_routeId (sample_ctx a r p) = 11" "ax_premium (sample_ctx a r p) = p"
  by (simp_all add: sample_running_def sample_contract_def sample_ctx_def)

lemma sample_liquidate:
  "runs 99 (moves sample_coder 99 may) (liquidate sample_coder (sample_ctx atlas required 0) sample_liq 4 100
      (sample_running atlas required 0)) (sample_chain 100 0 logs) required (sample_running atlas required 0)
    (sample_chain 110 0 logs)"
proof -
  let ?s = "sample_running atlas required 0"
  have "moves sample_coder 99 may (?s, sample_chain 100 100 logs) (?s, sample_chain 0 0 logs)"
    using moves_token [OF moves_refl sample_moves(1) [of 100 100 100]] by simp
  from moves_token [OF this sample_moves(2) [of 0 110]]
  have "moves sample_coder 99 may (?s, sample_chain 100 100 logs) (?s, sample_chain 110 0 logs)" by simp
  then show ?thesis
    by (simp add: liquidate_def runs_pbind run_high_level_call sample_liq_def checked_sub_def checked_add_def)
      (rule exI [of _ ?s], rule exI [of _ "sample_chain 110 0 logs"], simp add: word_less_nat_alt)
qed

lemma sample_operation:
  assumes "required \<le> 9"
  shows "runs 99 (moves sample_coder 99 may) (executeOperation sample_coder 99 (msg_from 2) 4 100 1 99 [2]
      (sample_running atlas required 0)) (sample_chain 100 0 logs) True (sample_running atlas required 1)
    (sample_chain 110 101 logs)"
proof -
  have "(sample_running atlas required 0)\<lparr>px_activeExecution := (sample_ctx atlas required 0)\<lparr>ax_premium := 1\<rparr>\<rparr>
      = sample_running atlas required 1"
    by (simp add: sample_running_def sample_ctx_def)
  then show ?thesis
    using sample_liquidate [of may atlas required logs] assms
    by (auto simp: executeOperation_def execute_kind_def runs_pbind msg_from_def sample_coder_def checked_add_def
        checked_sub_def word_less_nat_alt word_le_nat_alt Let_def intro!: exI)
qed

lemma sample_loan:
  assumes "required \<le> 9" "may (msg_from 2) (E_executeOperation 4 100 1 99 [2])"
  shows "moves sample_coder 99 may (sample_running atlas required 0, sample_chain 0 0 logs)
    (sample_running atlas required 1, sample_chain 9 0 logs)"
proof -
  let ?s = "sample_running atlas required 0" and ?t = "sample_running atlas required 1"
  have paid: "moves sample_coder 99 may (?s, sample_chain 0 0 logs) (?s, sample_chain 100 0 logs)"
    using moves_token [OF moves_refl sample_moves(2) [of 0 100]] by simp
  have called: "runs 99 (moves sample_coder 99 may) (dispatch sample_coder 99 (msg_from 2)
      (E_executeOperation 4 100 1 99 [2]) ?s) (sample_chain 100 0 logs) () ?t (sample_chain 110 101 logs)"
    using sample_operation [OF assms(1)] by (auto simp: nonpayable_def discard_def runs_pbind msg_from_def)
  have "receives (msg_from 2) (sample_chain 100 0 logs) = Some (sample_chain 100 0 logs)"
    by (simp add: receives_def credit_native_def msg_from_def checked_add_def sample_chain_def)
  note moves_call [OF paid assms(2) this called]
  from moves_token [OF this sample_moves(1) [of 101]] show ?thesis by simp
qed

lemma sample_chain_0: "sample_chain 0 0 logs = \<lparr>ch_balance = \<lambda>_. 0, ch_allowance = \<lambda>_ _. 0, ch_native = 0, ch_logs = logs\<rparr>"
  by (simp add: sample_chain_def fun_upd_def)

lemma sample_start:
  assumes "required = 5 + bid" "bid \<le> 3" "may (msg_from 2) (E_executeOperation 4 100 1 99 [2])" "mg_timestamp m = 500"
  shows "\<exists>logs. runs 99 (moves sample_coder 99 may)
    (startAaveLiquidation sample_coder m sample_liq atlas bid (sample_contract\<lparr>px_entered := True\<rparr>))
    (sample_chain 0 0 []) () (sample_running atlas required 1) (sample_chain 9 0 logs)"
proof -
  let ?logs = "[AaveLiquidationStarted 11 12 4 4 100 atlas]"
  have bound: "checked_add 5 bid = Some required" "required \<le> 9"
    using assms(1,2) by (simp_all add: checked_add_def word_le_nat_alt unat_word_ariths)
  have "moves sample_coder 99 may (sample_running atlas required 0, sample_chain 0 0 ?logs)
      (sample_running atlas required 1, sample_chain 9 0 ?logs)"
    by (rule sample_loan) (use bound(2) assms(3) in simp_all)
  then show ?thesis
    using bound(1) assms(4)
    by (simp add: startAaveLiquidation_def validateUnwindLegs_def runs_pbind run_high_level_call sample_liq_def
        liquidation_invalid_def sample_contract_def sample_running_def sample_ctx_def sample_coder_def word_less_nat_alt)
      blast
qed

theorem liquidation_pays_witness:
  "\<exists>s w. runs 99 (moves sample_coder 99 (\<lambda>_ _. True)) (executeAaveLiquidation sample_coder (msg_from 1) sample_liq sample_contract)
     (sample_chain 0 0 []) 9 s w \<and> unat (ch_balance w 4) = 9"
proof -
  let ?E = "moves sample_coder 99 (\<lambda>_ _. True)"
  obtain logs where "runs 99 ?E
    (startAaveLiquidation sample_coder (msg_from 1) sample_liq False 0 (sample_contract\<lparr>px_entered := True\<rparr>))
    (sample_chain 0 0 []) () (sample_running False 5 1) (sample_chain 9 0 logs)"
    using sample_start [where bid = 0 and may = "\<lambda>_ _. True" and required = 5 and m = "msg_from 1" and atlas = False]
    by (auto simp: msg_from_def)
  then have "\<exists>s w. runs 99 ?E (executeAaveLiquidation sample_coder (msg_from 1) sample_liq sample_contract)
      (sample_chain 0 0 []) 9 s w"
    by (auto simp: executeAaveLiquidation_def nonReentrant_def finishAaveLiquidation_def runs_pbind msg_from_def
        sample_contract_def sample_liq_def checked_sub_def word_less_nat_alt intro!: exI)
  then obtain s w where run: "runs 99 ?E (executeAaveLiquidation sample_coder (msg_from 1) sample_liq sample_contract)
      (sample_chain 0 0 []) 9 s w" by blast
  from liquidation_pays [OF run] run show ?thesis by (auto simp: sample_liq_def)
qed

lemma sample_contract_simps [simp]:
  "\<not> px_paused sample_contract" "\<not> px_entered sample_contract" "px_owner sample_contract = 1"
  "px_atlas sample_contract = 3" "px_weth sample_contract = 4" "px_flashProvider sample_contract = 2"
  "px_activeExecution sample_contract = no_execution" "px_pendingOwner sample_contract = 0"
  "px_authorizedSearchers sample_contract = (\<lambda>_. False)"
  by (simp_all add: sample_contract_def)

lemma sample_bid_valid: "\<not> bid_invalid (sample_contract\<lparr>px_entered := True\<rparr>) sample_liq 4 3"
  by (simp add: bid_invalid_def sample_liq_def)

lemma sample_liq_decoded [simp]: "ab_decode_liquidation sample_coder d = Some sample_liq"
  by (simp add: sample_coder_def)

lemma sample_pay:
  "effect 99 (ERC20_transfer 4 14 3) (sample_chain 9 0 logs) = Some (sample_chain 6 0 logs)"
  by (simp add: debit_def checked_sub_def word_le_nat_alt sample_chain_def)

theorem atlas_call_pays_witness:
  "\<exists>s w. runs 99 (moves sample_coder 99 (\<lambda>_ _. True)) (atlasSolverCall sample_coder (msg_from 3) 1 14 4 3 [2] sample_contract)
     (sample_chain 0 0 []) () s w \<and> 5 \<le> unat (ch_balance w 4)"
proof -
  let ?E = "moves sample_coder 99 (\<lambda>_ _. True)"
  obtain logs where start: "runs 99 ?E
    (startAaveLiquidation sample_coder (msg_from 3) sample_liq True 3 (sample_contract\<lparr>px_entered := True\<rparr>))
    (sample_chain 0 0 []) () (sample_running True 8 1) (sample_chain 9 0 logs)"
    using sample_start [where bid = 3 and may = "\<lambda>_ _. True" and required = 8 and m = "msg_from 3" and atlas = True]
    by (auto simp: msg_from_def)
  have pay: "runs 99 ?E (payAtlasBid 14 4 3 (sample_running True 8 1)) (sample_chain 9 0 logs) ()
      (sample_running True 8 1) (sample_chain 6 0 logs)"
    unfolding payAtlasBid_def using sample_pay by simp
  have reconcile: "runs 99 ?E (reconcileAtlas 0 (sample_running True 8 1)) (sample_chain 6 0 logs) ()
      (sample_running True 8 1) (sample_chain 6 0 logs)"
    by (auto simp: reconcileAtlas_def runs_pbind run_high_level_call debit_native_def checked_sub_def sample_chain_def
        intro!: exI [of _ 0] moves_refl split: prod.splits)
  have "\<exists>w. runs 99 ?E (finishAaveLiquidation sample_liq 3 (sample_running True 8 1)) (sample_chain 6 0 logs) 6
      (sample_running True 8 1) w"
    by (auto simp: finishAaveLiquidation_def runs_pbind sample_liq_def checked_sub_def word_less_nat_alt)
  then obtain w where "runs 99 ?E (finishAaveLiquidation sample_liq 3 (sample_running True 8 1)) (sample_chain 6 0 logs) 6
      (sample_running True 8 1) w" by blast
  with start pay reconcile have "\<exists>s. runs 99 ?E (atlasSolverCall sample_coder (msg_from 3) 1 14 4 3 [2] sample_contract)
      (sample_chain 0 0 []) () s w"
    using sample_bid_valid by (simp add: atlasSolverCall_def nonReentrant_def runs_pbind msg_from_def) blast
  then obtain s where run: "runs 99 ?E (atlasSolverCall sample_coder (msg_from 3) 1 14 4 3 [2] sample_contract)
      (sample_chain 0 0 []) () s w" by blast
  from atlas_call_pays [OF run] run show ?thesis by (auto simp: sample_coder_def sample_liq_def)
qed

section \<open>An arbitrage\<close>

definition sample_trading :: "u256 \<Rightarrow> phoenix_executor" where
  "sample_trading premium = sample_contract\<lparr>px_entered := True, px_activeExecution :=
    \<lparr>ax_active = True, ax_kind = 1, ax_atlas = False, ax_routeId = 11, ax_asset = 4, ax_amount = 100,
     ax_baselineBalance = 0, ax_requiredProfit = 5, ax_premium = premium\<rparr>\<rparr>"

definition sample_balances :: "u256 \<Rightarrow> u256 \<Rightarrow> u256 \<Rightarrow> contract_event list \<Rightarrow> chain" where
  "sample_balances a b allowance logs =
    \<lparr>ch_balance = (\<lambda>_. 0)(4 := a, 5 := b), ch_allowance = (\<lambda>_ _. 0)(4 := (\<lambda>_. 0)(2 := allowance)), ch_native = 0,
     ch_logs = logs\<rparr>"

lemma sample_balances_simps [simp]:
  "ch_balance (sample_balances a b al logs) 4 = a" "ch_balance (sample_balances a b al logs) 5 = b"
  "(sample_balances a b al logs)\<lparr>ch_allowance := (ch_allowance (sample_balances a b al logs))
     (4 := (ch_allowance (sample_balances a b al logs) 4)(2 := n))\<rparr> = sample_balances a b n logs"
  "(sample_balances a b al logs)\<lparr>ch_logs := l\<rparr> = sample_balances a b al l" "ch_logs (sample_balances a b al logs) = logs"
  by (simp_all add: sample_balances_def)

lemma sample_swaps:
  "moves sample_coder 99 may (s, sample_balances 100 0 0 logs) (s, sample_balances 100 100 0 logs)"
  "moves sample_coder 99 may (s, sample_balances 100 100 0 logs) (s, sample_balances 210 100 0 logs)"
proof -
  have "token_move 99 (sample_balances 100 0 0 logs) (sample_balances 100 100 0 logs)"
    by (rule move_deposit [of 5 100]) (simp add: sample_balances_def credit_def checked_add_def)
  from moves_token [OF moves_refl this]
  show "moves sample_coder 99 may (s, sample_balances 100 0 0 logs) (s, sample_balances 100 100 0 logs)" .
  have "token_move 99 (sample_balances 100 100 0 logs) (sample_balances 210 100 0 logs)"
    by (rule move_deposit [of 4 110]) (simp add: sample_balances_def credit_def checked_add_def fun_upd_twist)
  from moves_token [OF moves_refl this]
  show "moves sample_coder 99 may (s, sample_balances 100 100 0 logs) (s, sample_balances 210 100 0 logs)" .
qed

lemma sample_swap_legs:
  "runs 99 (moves sample_coder 99 may) (executeSwapLegs sample_coder (so_legs sample_op) 100 (sample_trading 0))
     (sample_balances 100 0 0 logs) 110 (sample_trading 0) (sample_balances 210 100 0 logs)"
  using sample_swaps [of may "sample_trading 0" logs]
  by (simp add: sample_op_def runs_pbind run_high_level_call checked_sub_def)
    (rule exI [of _ "sample_trading 0"], rule exI [of _ "sample_balances 100 100 0 logs"], simp add: word_less_nat_alt word_le_nat_alt)

lemma sample_trade:
  "runs 99 (moves sample_coder 99 may) (executeOperation sample_coder 99 (msg_from 2) 4 100 1 99 [1] (sample_trading 0))
     (sample_balances 100 0 0 logs) True (sample_trading 1) (sample_balances 210 100 101 (logs @ [OpportunitySettled 11 4 100 1 109]))"
proof -
  have keep: "px_flashProvider (sample_trading p) = 2" "ax_active (px_activeExecution (sample_trading p))"
    "px_activeExecution (sample_trading 0) = \<lparr>ax_active = True, ax_kind = 1, ax_atlas = False, ax_routeId = 11, ax_asset = 4,
      ax_amount = 100, ax_baselineBalance = 0, ax_requiredProfit = 5, ax_premium = 0\<rparr>"
    "(sample_trading 0)\<lparr>px_activeExecution := \<lparr>ax_active = True, ax_kind = 1, ax_atlas = False, ax_routeId = 11, ax_asset = 4,
      ax_amount = 100, ax_baselineBalance = 0, ax_requiredProfit = 5, ax_premium = 1\<rparr>\<rparr> = sample_trading 1" for p
    by (simp_all add: sample_trading_def)
  have op: "ab_decode_opportunity sample_coder [1] = Some sample_op" "so_flashAsset sample_op = 4"
    "so_flashAmount sample_op = 100" "so_routeId sample_op = 11" "so_minProfit sample_op = 5"
    by (simp_all add: sample_coder_def sample_op_def)
  have "runs 99 (moves sample_coder 99 may) (execute_kind sample_coder (px_activeExecution (sample_trading 0)) 4 100 [1]
      (sample_trading 0)) (sample_balances 100 0 0 logs) 5 (sample_trading 0) (sample_balances 210 100 0 logs)"
    using sample_swap_legs [of may logs] by (auto simp: execute_kind_def runs_pbind keep op)
  then show ?thesis
    by (simp add: executeOperation_def runs_pbind keep msg_from_def Let_def checked_add_def checked_sub_def word_less_nat_alt)
      (rule exI [of _ 5], rule exI [of _ "sample_trading 0"], rule exI [of _ "sample_balances 210 100 0 logs"],
       simp add: keep word_less_nat_alt word_le_nat_alt sample_balances_def)
qed

theorem opportunity_pays_witness:
  "\<exists>s w. runs 99 (flash_loan sample_coder 99 (\<lambda>_ _. True) (msg_from 2) 4 100 1 [1])
     (executeOpportunity sample_coder 99 (msg_from 1) sample_op sample_contract) (sample_balances 0 0 0 []) () s w \<and>
     5 \<le> unat (ch_balance w 4) \<and> \<not> px_entered s"
proof -
  let ?logs = "[OpportunityStarted 11 4 100]" and ?all = "[OpportunityStarted 11 4 100, OpportunitySettled 11 4 100 1 109]"
  let ?E = "flash_loan sample_coder 99 (\<lambda>_ _. True) (msg_from 2) 4 100 1 [1]"
  have op: "so_flashAsset sample_op = 4" "so_flashAmount sample_op = 100" "ab_encode_opportunity sample_coder sample_op = [1]"
    "ab_decode_opportunity sample_coder [1] = Some sample_op" "so_minProfit sample_op = 5"
    by (simp_all add: sample_op_def sample_coder_def)
  have guards: "px_approvedAssets sample_contract 4" "px_approvedRouters sample_contract (so_originRouter sample_op)"
    "so_recipient sample_op = 99" "px_maximumInputAmount sample_contract = 1000" "so_maxInputAmount sample_op = 200"
    "so_deadline sample_op = 1000" "so_routeId sample_op = 11" "so_legs sample_op \<noteq> []"
    by (simp_all add: sample_op_def sample_contract_def)
  have "credit 4 100 (sample_balances 0 0 0 ?logs) = Some (sample_balances 100 0 0 ?logs)"
    "debit 4 101 (sample_balances 210 100 101 ?all) = Some (sample_balances 109 100 101 ?all)"
    by (simp_all add: sample_balances_def credit_def debit_def checked_add_def checked_sub_def fun_upd_twist word_le_nat_alt)
  with sample_trade [of "\<lambda>_ _. True" ?logs]
  have "?E (sample_trading 0, sample_balances 0 0 0 ?logs) (sample_trading 1, sample_balances 109 100 101 ?all)"
    unfolding flash_loan_def
    by (intro exI [of _ "sample_balances 100 0 0 ?logs"] exI [of _ "sample_balances 210 100 101 ?all"] exI [of _ 101])
      (simp add: checked_add_def)
  moreover have "route_ok (sample_contract\<lparr>px_entered := True\<rparr>) 4 (so_legs sample_op) 4" "length (so_legs sample_op) = 2"
    by (simp_all add: sample_op_def sample_contract_def route_ok_def leg_ok_def pool_usable_def leg_oriented_def)
  ultimately have "\<exists>s w. runs 99 ?E (executeOpportunity sample_coder 99 (msg_from 1) sample_op sample_contract)
      (sample_balances 0 0 0 []) () s w"
    by (simp add: executeOpportunity_def nonReentrant_def runs_pbind validateLegs_def validate_loop_exact op guards
        run_high_level_call msg_from_def word_less_nat_alt flip: sample_trading_def) blast
  then obtain s w where run: "runs 99 ?E (executeOpportunity sample_coder 99 (msg_from 1) sample_op sample_contract)
      (sample_balances 0 0 0 []) () s w" by blast
  from opportunity_pays [where op = sample_op and cd = sample_coder, unfolded op, OF run] run show ?thesis by auto
qed

theorem reachable_idle_witness:
  "\<exists>s. constructor 1 2 3 4 = Some (s, [OwnershipTransferred 0 1, FlashProviderUpdated 2, PausedSet True]) \<and>
     reachable sample_coder 99 (s, sample_chain 0 0 [OwnershipTransferred 0 1, FlashProviderUpdated 2, PausedSet True]) \<and>
     \<not> px_entered s \<and> configured s"
proof -
  let ?logs = "[OwnershipTransferred 0 1, FlashProviderUpdated 2, PausedSet True]"
  obtain s where s: "constructor 1 2 3 4 = Some (s, ?logs)"
    by (simp add: constructor_def)
  from reach_deployed [OF this, of sample_coder 99 "sample_chain 0 0 []"]
  have "reachable sample_coder 99 (s, sample_chain 0 0 ?logs)" by simp
  with s reachable_idle [OF this] show ?thesis by blast
qed

theorem outsiders_revert_witness:
  "\<not> runs 99 (moves sample_coder 99 (\<lambda>_ _. True)) (dispatch sample_coder 99 (msg_from 9)
     (E_executeOperation 4 100 1 99 [2]) sample_contract) (sample_chain 0 0 []) () sample_contract (sample_chain 0 0 [])"
  by (rule outsiders_revert) (simp_all add: msg_from_def no_execution_def)

theorem external_calls_authorised_witness:
  "guarantee locks authorised (dispatch sample_coder 99 (msg_from 1) (E_executeAaveLiquidation sample_liq) sample_contract)
     (\<lambda>_ _. True)"
  by (rule external_calls_authorised) (simp add: no_execution_def)

end
