(* ===== verification/Feed_Keccak.thy ===== *)
theory Feed_Keccak
  imports Phoenix_Prelude
begin

text \<open>
  The Keccak-256 hash of the feed ingestor (feed-ingestor/internal/nitro/keccak.go), whose permutation walks
  the state in place along tables of positions and rotations, and the specification of FIPS 202: the steps
  theta, rho, pi, chi and iota on a state of five by five lanes, in the sponge with rate 136. The
  implementation computes the specified function.
\<close>

unbundle bit_operations_syntax

section \<open>The implementation\<close>

definition keccakRoundConstants :: "u64 list" where
  "keccakRoundConstants =
    [0x0000000000000001, 0x0000000000008082,
     0x800000000000808a, 0x8000000080008000,
     0x000000000000808b, 0x0000000080000001,
     0x8000000080008081, 0x8000000000008009,
     0x000000000000008a, 0x0000000000000088,
     0x0000000080008009, 0x000000008000000a,
     0x000000008000808b, 0x800000000000008b,
     0x8000000000008089, 0x8000000000008003,
     0x8000000000008002, 0x8000000000000080,
     0x000000000000800a, 0x800000008000000a,
     0x8000000080008081, 0x8000000000008080,
     0x0000000080000001, 0x8000000080008008]"

definition keccakRotations :: "nat list" where
  "keccakRotations = [1, 3, 6, 10, 15, 21, 28, 36, 45, 55, 2, 14, 27, 41, 56, 8, 25, 43, 62, 18, 39, 61, 20, 44]"

definition keccakPi :: "nat list" where
  "keccakPi = [10, 7, 11, 17, 18, 3, 5, 16, 8, 21, 24, 4, 15, 23, 19, 13, 12, 2, 20, 14, 22, 9, 6, 1]"

text \<open>The lane that little-endian bytes stand for, and back.\<close>

definition le_word :: "u8 list \<Rightarrow> u64" where
  "le_word bs = foldr (\<lambda>b n. ucast b OR push_bit 8 n) bs 0"

definition le_bytes :: "u64 \<Rightarrow> u8 list" where
  "le_bytes w = map (\<lambda>i. ucast (drop_bit (8 * i) w)) [0..<8]"

definition absorbBlock :: "u64 list \<Rightarrow> u8 list \<Rightarrow> u64 list" where
  "absorbBlock state block =
    fold (\<lambda>i s. s[i := s ! i XOR le_word (take 8 (drop (i * 8) block))]) [0..<length block div 8] state"

definition theta_loop :: "u64 list \<Rightarrow> u64 list" where
  "theta_loop state =
    (let bc = map (\<lambda>i. state ! i XOR state ! (i + 5) XOR state ! (i + 10) XOR state ! (i + 15) XOR state ! (i + 20)) [0..<5]
     in fold (\<lambda>i s.
          let t = bc ! ((i + 4) mod 5) XOR word_rotl 1 (bc ! ((i + 1) mod 5))
          in fold (\<lambda>j s. s[j + i := s ! (j + i) XOR t]) [0, 5, 10, 15, 20] s) [0..<5] state)"

definition rho_pi_loop :: "u64 list \<Rightarrow> u64 list" where
  "rho_pi_loop state =
    fst (fold (\<lambda>i (s, t).
      let j = keccakPi ! i in (s[j := word_rotl (keccakRotations ! i) t], s ! j)) [0..<24] (state, state ! 1))"

definition chi_loop :: "u64 list \<Rightarrow> u64 list" where
  "chi_loop state =
    fold (\<lambda>j s.
      let bc = map (\<lambda>i. s ! (j + i)) [0..<5]
      in fold (\<lambda>i s. s[j + i := s ! (j + i) XOR (NOT (bc ! ((i + 1) mod 5)) AND bc ! ((i + 2) mod 5))]) [0..<5] s)
      [0, 5, 10, 15, 20] state"

definition keccak_round :: "u64 \<Rightarrow> u64 list \<Rightarrow> u64 list" where
  "keccak_round rc state = (let s = chi_loop (rho_pi_loop (theta_loop state)) in s[0 := s ! 0 XOR rc])"

definition keccakF1600 :: "u64 list \<Rightarrow> u64 list" where
  "keccakF1600 state = fold keccak_round keccakRoundConstants state"

function absorb_blocks :: "u64 list \<Rightarrow> u8 list \<Rightarrow> u64 list \<times> u8 list" where
  "absorb_blocks state input =
    (if 136 \<le> length input then absorb_blocks (keccakF1600 (absorbBlock state (take 136 input))) (drop 136 input)
     else (state, input))"
  by pat_completeness auto
termination by (relation "measure (\<lambda>(s, i). length i)") auto

definition keccak256 :: "u8 list \<Rightarrow> u8 list" where
  "keccak256 input =
    (let (state, input) = absorb_blocks (replicate 25 0) input;
         block = input @ replicate (136 - length input) 0;
         block = block[length input := 0x01];
         block = block[135 := block ! 135 XOR 0x80];
         state = keccakF1600 (absorbBlock state block)
     in concat (map (\<lambda>i. le_bytes (state ! i)) [0..<4]))"

section \<open>The specification\<close>

text \<open>A state of five by five lanes, by column and row.\<close>

type_synonym lanes = "nat \<Rightarrow> nat \<Rightarrow> u64"

definition spec_theta :: "lanes \<Rightarrow> lanes" where
  "spec_theta A =
    (let C = (\<lambda>x. A x 0 XOR A x 1 XOR A x 2 XOR A x 3 XOR A x 4);
         D = (\<lambda>x. C ((x + 4) mod 5) XOR word_rotl 1 (C ((x + 1) mod 5)))
     in (\<lambda>x y. A x y XOR D x))"

text \<open>The lane at step \<open>t\<close> of the walk of rho, from column one and row zero.\<close>

fun rho_next :: "nat \<times> nat \<Rightarrow> nat \<times> nat" where
  "rho_next (x, y) = (y, (2 * x + 3 * y) mod 5)"

primrec rho_walk :: "nat \<Rightarrow> nat \<times> nat" where
  "rho_walk 0 = (1, 0)"
| "rho_walk (Suc t) = rho_next (rho_walk t)"

definition rho_offset :: "nat \<Rightarrow> nat \<Rightarrow> nat" where
  "rho_offset x y =
    (case find (\<lambda>t. rho_walk t = (x, y)) [0..<24] of None \<Rightarrow> 0 | Some t \<Rightarrow> (t + 1) * (t + 2) div 2 mod 64)"

definition spec_rho :: "lanes \<Rightarrow> lanes" where
  "spec_rho A = (\<lambda>x y. word_rotl (rho_offset x y) (A x y))"

definition spec_pi :: "lanes \<Rightarrow> lanes" where
  "spec_pi A = (\<lambda>x y. A ((x + 3 * y) mod 5) x)"

definition spec_chi :: "lanes \<Rightarrow> lanes" where
  "spec_chi A = (\<lambda>x y. A x y XOR (NOT (A ((x + 1) mod 5) y) AND A ((x + 2) mod 5) y))"

text \<open>The round constants, by the linear feedback register of the standard.\<close>

definition lfsr_step :: "bool list \<Rightarrow> bool list" where
  "lfsr_step S =
    (let R = False # S; carry = R ! 8
     in take 8 (R[0 := R ! 0 \<noteq> carry, 4 := R ! 4 \<noteq> carry, 5 := R ! 5 \<noteq> carry, 6 := R ! 6 \<noteq> carry]))"

primrec lfsr :: "nat \<Rightarrow> bool list" where
  "lfsr 0 = [True, False, False, False, False, False, False, False]"
| "lfsr (Suc t) = lfsr_step (lfsr t)"

definition spec_constant :: "nat \<Rightarrow> u64" where
  "spec_constant round =
    foldr (\<lambda>j w. (if lfsr (j + 7 * round) ! 0 then push_bit (2 ^ j - 1) 1 else 0) OR w) [0..<7] 0"

definition spec_iota :: "u64 \<Rightarrow> lanes \<Rightarrow> lanes" where
  "spec_iota rc A = (\<lambda>x y. if x = 0 \<and> y = 0 then A x y XOR rc else A x y)"

definition spec_round :: "u64 \<Rightarrow> lanes \<Rightarrow> lanes" where
  "spec_round rc A = spec_iota rc (spec_chi (spec_pi (spec_rho (spec_theta A))))"

definition spec_permutation :: "lanes \<Rightarrow> lanes" where
  "spec_permutation A = fold (\<lambda>r. spec_round (spec_constant r)) [0..<24] A"

definition lanes_of :: "u64 list \<Rightarrow> lanes" where
  "lanes_of s = (\<lambda>x y. s ! (x + 5 * y))"

definition list_of :: "lanes \<Rightarrow> u64 list" where
  "list_of A = map (\<lambda>i. A (i mod 5) (i div 5)) [0..<25]"

text \<open>The sponge: the message padded to blocks of 136 bytes, each block added to the first 17 lanes and
  followed by the permutation, and the first four lanes as the digest.\<close>

definition spec_pad :: "u8 list \<Rightarrow> u8 list" where
  "spec_pad m =
    (let q = 136 - length m mod 136
     in m @ (if q = 1 then [0x81] else 0x01 # replicate (q - 2) 0 @ [0x80]))"

function blocks :: "u8 list \<Rightarrow> u8 list list" where
  "blocks bs = (if bs = [] then [] else take 136 bs # blocks (drop 136 bs))"
  by pat_completeness auto
termination by (relation "measure length") auto

definition spec_absorb :: "u8 list \<Rightarrow> lanes \<Rightarrow> lanes" where
  "spec_absorb block A =
    spec_permutation (\<lambda>x y. if x + 5 * y < 17 then A x y XOR le_word (take 8 (drop (8 * (x + 5 * y)) block)) else A x y)"

definition spec_keccak256 :: "u8 list \<Rightarrow> u8 list" where
  "spec_keccak256 m =
    (let A = fold spec_absorb (blocks (spec_pad m)) (\<lambda>_ _. 0)
     in le_bytes (A 0 0) @ le_bytes (A 1 0) @ le_bytes (A 2 0) @ le_bytes (A 3 0))"

section \<open>The steps\<close>

lemma state_cases:
  assumes "length (s :: u64 list) = 25"
  obtains a0 a1 a2 a3 a4 a5 a6 a7 a8 a9 a10 a11 a12 a13 a14 a15 a16 a17 a18 a19 a20 a21 a22 a23 a24
  where "s = [a0, a1, a2, a3, a4, a5, a6, a7, a8, a9, a10, a11, a12, a13, a14, a15, a16, a17, a18, a19, a20, a21, a22, a23, a24]"
  using assms by (auto simp: length_Suc_conv numeral_eq_Suc)

lemma upt_values:
  "[0..<5] = [0, 1, 2, 3, 4 :: nat]"
  "[0..<24] = [0, 1, 2, 3, 4, 5, 6, 7, 8, 9, 10, 11, 12, 13, 14, 15, 16, 17, 18, 19, 20, 21, 22, 23 :: nat]"
  "[0..<25] = [0, 1, 2, 3, 4, 5, 6, 7, 8, 9, 10, 11, 12, 13, 14, 15, 16, 17, 18, 19, 20, 21, 22, 23, 24 :: nat]"
  by code_simp+

lemma theta_step: "length s = 25 \<Longrightarrow> theta_loop s = list_of (spec_theta (lanes_of s))"
  by (erule state_cases) (simp add: theta_loop_def list_of_def spec_theta_def lanes_of_def upt_values Let_def)

lemma chi_step: "length s = 25 \<Longrightarrow> chi_loop s = list_of (spec_chi (lanes_of s))"
  by (erule state_cases) (simp add: chi_loop_def list_of_def spec_chi_def lanes_of_def upt_values Let_def)

lemma rho_walk_numeral:
  "rho_walk (numeral n) = rho_next (rho_walk (pred_numeral n))"
  by (simp add: numeral_eq_Suc)

lemma rho_walks:
  "rho_walk 0 = (1, 0)" "rho_walk 1 = (0, 2)" "rho_walk 2 = (2, 1)" "rho_walk 3 = (1, 2)" "rho_walk 4 = (2, 3)" "rho_walk 5 = (3, 3)"
  "rho_walk 6 = (3, 0)" "rho_walk 7 = (0, 1)" "rho_walk 8 = (1, 3)" "rho_walk 9 = (3, 1)" "rho_walk 10 = (1, 4)" "rho_walk 11 = (4, 4)"
  "rho_walk 12 = (4, 0)" "rho_walk 13 = (0, 3)" "rho_walk 14 = (3, 4)" "rho_walk 15 = (4, 3)" "rho_walk 16 = (3, 2)" "rho_walk 17 = (2, 2)"
  "rho_walk 18 = (2, 0)" "rho_walk 19 = (0, 4)" "rho_walk 20 = (4, 2)" "rho_walk 21 = (2, 4)" "rho_walk 22 = (4, 1)" "rho_walk 23 = (1, 1)"
  by (simp_all add: rho_walk_numeral)

lemma rho_offsets:
  "rho_offset 0 0 = 0" "rho_offset 1 0 = 1" "rho_offset 2 0 = 62" "rho_offset 3 0 = 28" "rho_offset 4 0 = 27"
  "rho_offset 0 1 = 36" "rho_offset 1 1 = 44" "rho_offset 2 1 = 6" "rho_offset 3 1 = 55" "rho_offset 4 1 = 20"
  "rho_offset 0 2 = 3" "rho_offset 1 2 = 10" "rho_offset 2 2 = 43" "rho_offset 3 2 = 25" "rho_offset 4 2 = 39"
  "rho_offset 0 3 = 41" "rho_offset 1 3 = 45" "rho_offset 2 3 = 15" "rho_offset 3 3 = 21" "rho_offset 4 3 = 8"
  "rho_offset 0 4 = 18" "rho_offset 1 4 = 2" "rho_offset 2 4 = 61" "rho_offset 3 4 = 56" "rho_offset 4 4 = 14"
  by (simp_all add: rho_offset_def upt_values rho_walks del: One_nat_def)

lemma lfsr_step_list [simp]:
  "lfsr_step [a, b, c, d, e, f, g, h] = [h, a, b, c, d \<noteq> h, e \<noteq> h, f \<noteq> h, g]"
  by (simp add: lfsr_step_def)

definition seven_steps :: "bool list \<Rightarrow> bool list" where
  "seven_steps R = lfsr_step (lfsr_step (lfsr_step (lfsr_step (lfsr_step (lfsr_step (lfsr_step R))))))"

primrec lfsr_run :: "nat \<Rightarrow> bool list \<Rightarrow> bool list" where
  "lfsr_run 0 R = []"
| "lfsr_run (Suc n) R = R ! 0 # lfsr_run n (lfsr_step R)"

primrec round_bits :: "nat \<Rightarrow> bool list \<Rightarrow> bool list list" where
  "round_bits 0 R = []"
| "round_bits (Suc n) R = lfsr_run 7 R # round_bits n (seven_steps R)"

lemma round_bits_values:
  "round_bits 24 (lfsr 0) =
    [[True, False, False, False, False, False, False],
     [False, True, False, True, True, False, False],
     [False, True, True, True, True, False, True],
     [False, False, False, False, True, True, True],
     [True, True, True, True, True, False, False],
     [True, False, False, False, False, True, False],
     [True, False, False, True, True, True, True],
     [True, False, True, False, True, False, True],
     [False, True, True, True, False, False, False],
     [False, False, True, True, False, False, False],
     [True, False, True, False, True, True, False],
     [False, True, True, False, False, True, False],
     [True, True, True, True, True, True, False],
     [True, True, True, True, False, False, True],
     [True, False, True, True, True, False, True],
     [True, True, False, False, True, False, True],
     [False, True, False, False, True, False, True],
     [False, False, False, True, False, False, True],
     [False, True, True, False, True, False, False],
     [False, True, True, False, False, True, True],
     [True, False, False, True, True, True, True],
     [False, False, False, True, True, False, True],
     [True, False, False, False, False, True, False],
     [False, False, True, False, True, True, True]]"
  by (simp add: seven_steps_def eval_nat_numeral)

lemma lfsr_run_nth: "i < n \<Longrightarrow> lfsr_run n (lfsr t) ! i = lfsr (t + i) ! 0"
proof (induction n arbitrary: i t)
  case (Suc n)
  then show ?case using Suc.IH [of "i - 1" "Suc t"] by (cases i) simp_all
qed simp

lemma round_bits_map: "round_bits n (lfsr t) = map (\<lambda>i. lfsr_run 7 (lfsr (t + 7 * i))) [0..<n]"
proof (induction n arbitrary: t)
  case (Suc n)
  have "seven_steps (lfsr t) = lfsr (t + 7)" by (simp add: seven_steps_def eval_nat_numeral)
  then show ?case using Suc [of "t + 7"] by (simp add: upt_conv_Cons map_Suc_upt [symmetric] add.assoc del: upt_Suc lfsr.simps)
qed simp

definition constant_of :: "bool list \<Rightarrow> u64" where
  "constant_of bits = foldr (\<lambda>j w. (if bits ! j then push_bit (2 ^ j - 1) 1 else 0) OR w) [0..<7] 0"

lemma spec_constant_bits: "spec_constant r = constant_of (lfsr_run 7 (lfsr (7 * r)))"
  unfolding spec_constant_def constant_of_def by (intro foldr_cong) (simp_all add: lfsr_run_nth add.commute)

lemma constant_of_list:
  "constant_of [a, b, c, d, e, f, g] =
    (if a then 1 else 0) OR ((if b then 2 else 0) OR ((if c then 8 else 0) OR ((if d then 0x80 else 0) OR
    ((if e then 0x8000 else 0) OR ((if f then 0x80000000 else 0) OR (if g then 0x8000000000000000 else 0))))))"
  by (simp add: constant_of_def upt_rec)

lemma round_constants: "map spec_constant [0..<24] = keccakRoundConstants"
proof -
  have "map spec_constant [0..<24] = map constant_of (round_bits 24 (lfsr 0))"
    by (simp add: round_bits_map spec_constant_bits del: lfsr.simps)
  also have "\<dots> = keccakRoundConstants"
    unfolding round_bits_values keccakRoundConstants_def by (simp add: constant_of_list)
  finally show ?thesis .
qed

lemma word_rotl_zero: "word_rotl 0 (w :: 'a::len word) = w"
  by (rule bit_word_eqI) (simp add: bit_word_rotl_iff)

lemma rho_pi_step: "length s = 25 \<Longrightarrow> rho_pi_loop s = list_of (spec_pi (spec_rho (lanes_of s)))"
  by (erule state_cases)
    (simp add: rho_pi_loop_def list_of_def spec_pi_def spec_rho_def lanes_of_def upt_values Let_def keccakPi_def
      keccakRotations_def rho_offsets [unfolded One_nat_def] word_rotl_zero)

section \<open>The permutation\<close>

lemma length_list_of [simp]: "length (list_of A) = 25"
  by (simp add: list_of_def)

lemma lanes_list [simp]: "x < 5 \<Longrightarrow> y < 5 \<Longrightarrow> lanes_of (list_of A) x y = A x y"
  by (simp add: lanes_of_def list_of_def)

lemma list_of_cong: "(\<And>x y. x < 5 \<Longrightarrow> y < 5 \<Longrightarrow> A x y = B x y) \<Longrightarrow> list_of A = list_of B"
  by (simp add: list_of_def)

lemma list_lanes [simp]: "length s = 25 \<Longrightarrow> list_of (lanes_of s) = s"
  by (rule nth_equalityI) (simp_all add: list_of_def lanes_of_def)

lemma steps_on_lists:
  "list_of (spec_pi (spec_rho (lanes_of (list_of A)))) = list_of (spec_pi (spec_rho A))"
  "list_of (spec_chi (lanes_of (list_of A))) = list_of (spec_chi A)"
  by (rule list_of_cong, simp add: spec_pi_def spec_rho_def spec_chi_def)+

lemma spec_round_cong:
  assumes "\<And>x y. x < 5 \<Longrightarrow> y < 5 \<Longrightarrow> A x y = B x y" "x < 5" "y < 5"
  shows "spec_round rc A x y = spec_round rc B x y"
  using assms by (simp add: spec_round_def spec_iota_def spec_chi_def spec_pi_def spec_rho_def spec_theta_def Let_def)

lemma round_step:
  assumes "length s = 25"
  shows "keccak_round rc s = list_of (spec_round rc (lanes_of s))"
proof -
  have "chi_loop (rho_pi_loop (theta_loop s)) = list_of (spec_chi (spec_pi (spec_rho (spec_theta (lanes_of s)))))"
    by (simp add: theta_step [OF assms] rho_pi_step chi_step steps_on_lists)
  moreover have "(list_of A)[0 := list_of A ! 0 XOR rc] = list_of (spec_iota rc A)" for A
    by (rule nth_equalityI) (auto simp: list_of_def spec_iota_def nth_list_update)
  ultimately show ?thesis by (simp add: keccak_round_def spec_round_def Let_def)
qed

lemma fold_round_cong:
  assumes "\<And>x y. x < 5 \<Longrightarrow> y < 5 \<Longrightarrow> A x y = B x y" "x < 5" "y < 5"
  shows "fold spec_round rcs A x y = fold spec_round rcs B x y"
  using assms
proof (induction rcs arbitrary: A B)
  case (Cons rc rcs)
  show ?case using Cons(1) [OF spec_round_cong [OF Cons(2)] Cons(3,4)] by simp
qed simp

lemma permutation_fold:
  "length s = 25 \<Longrightarrow> fold keccak_round rcs s = list_of (fold spec_round rcs (lanes_of s))"
proof (induction rcs arbitrary: s)
  case (Cons rc rcs)
  have "fold keccak_round (rc # rcs) s = list_of (fold spec_round rcs (lanes_of (list_of (spec_round rc (lanes_of s)))))"
    using Cons by (simp add: round_step)
  also have "\<dots> = list_of (fold spec_round rcs (spec_round rc (lanes_of s)))"
    by (intro list_of_cong fold_round_cong) (simp_all only: lanes_list)
  finally show ?case by simp
qed simp

text \<open>The in-place permutation is the permutation of the standard.\<close>

lemma keccakF1600_spec: "length s = 25 \<Longrightarrow> keccakF1600 s = list_of (spec_permutation (lanes_of s))"
proof -
  have "spec_permutation A = fold spec_round keccakRoundConstants A" for A
    unfolding spec_permutation_def round_constants [symmetric] fold_map comp_def ..
  then show "length s = 25 \<Longrightarrow> ?thesis" by (simp add: keccakF1600_def permutation_fold)
qed

section \<open>The sponge\<close>

lemma fold_updates:
  "n \<le> length s \<Longrightarrow> fold (\<lambda>i s. s[i := s ! i XOR f i]) [0..<n] s =
     map (\<lambda>i. if i < n then s ! i XOR f i else s ! i) [0..<length s]"
proof (induction n)
  case 0
  show ?case by (simp add: map_nth)
next
  case (Suc n)
  then show ?case by (auto intro!: nth_equalityI simp: nth_list_update)
qed

lemma absorb_step:
  assumes "length block = 136"
  shows "keccakF1600 (absorbBlock (list_of A) block) = list_of (spec_absorb block A)"
proof -
  have "absorbBlock (list_of A) block =
      map (\<lambda>i. if i < 17 then list_of A ! i XOR le_word (take 8 (drop (i * 8) block)) else list_of A ! i) [0..<25]"
    unfolding absorbBlock_def by (subst fold_updates) (simp_all add: assms)
  also have "\<dots> = list_of (\<lambda>x y. if x + 5 * y < 17 then A x y XOR le_word (take 8 (drop (8 * (x + 5 * y)) block)) else A x y)"
    (is "_ = list_of ?B")
    by (auto simp: list_of_def mult.commute)
  finally have "absorbBlock (list_of A) block = list_of ?B" .
  moreover have "list_of (spec_permutation (lanes_of (list_of ?B))) = list_of (spec_permutation ?B)"
    unfolding spec_permutation_def
    by (intro list_of_cong) (simp only: fold_round_cong [of "lanes_of (list_of ?B)" ?B _ _ "map spec_constant [0..<24]",
        unfolded fold_map comp_def] lanes_list)
  ultimately show ?thesis by (simp add: keccakF1600_spec spec_absorb_def)
qed

lemmas [simp del] = absorb_blocks.simps blocks.simps

lemma spec_pad_step: "136 \<le> length m \<Longrightarrow> spec_pad m = take 136 m @ spec_pad (drop 136 m)"
  by (simp add: spec_pad_def Let_def le_mod_geq)

lemma spec_pad_not_empty [simp]: "spec_pad m \<noteq> []"
  by (simp add: spec_pad_def Let_def)

lemma length_spec_pad [simp]: "length m < 136 \<Longrightarrow> length (spec_pad m) = 136"
  by (auto simp: spec_pad_def Let_def)

lemma absorb_blocks_spec:
  "absorb_blocks (list_of A) m = (t, rest) \<Longrightarrow>
     length rest < 136 \<and> (\<exists>B. t = list_of B \<and> fold spec_absorb (blocks (spec_pad m)) A = spec_absorb (spec_pad rest) B)"
proof (induction "length m" arbitrary: m A rule: less_induct)
  case less
  show ?case
  proof (cases "136 \<le> length m")
    case True
    let ?A = "spec_absorb (take 136 m) A"
    have "absorb_blocks (list_of ?A) (drop 136 m) = (t, rest)"
      using less(2) True by (subst (asm) absorb_blocks.simps) (simp add: absorb_step)
    moreover have "blocks (spec_pad m) = take 136 m # blocks (spec_pad (drop 136 m))"
      using True by (subst blocks.simps) (simp add: spec_pad_step)
    ultimately show ?thesis using less(1) [of "drop 136 m" ?A] True by simp
  next
    case False
    then have "t = list_of A" "rest = m" using less(2) by (simp_all add: absorb_blocks.simps)
    moreover have "blocks (spec_pad m) = [spec_pad m]"
      using False by (subst blocks.simps) (simp add: blocks.simps [of "[]"])
    ultimately show ?thesis using False by auto
  qed
qed

lemma final_block:
  assumes "length m < 136"
  shows "(let block = m @ replicate (136 - length m) 0; block = block[length m := 0x01]
          in block[135 := block ! 135 XOR 0x80]) = spec_pad m"
proof (cases "length m = 135")
  case True
  then have one: "136 - length m = Suc 0" "135 = length m" by simp_all
  have "spec_pad m = m @ [0x81]" using True by (simp add: spec_pad_def)
  then show ?thesis unfolding one Let_def by simp
next
  case False
  define k where "k = 134 - length m"
  have k: "136 - length m = Suc (Suc k)" using assms False by (simp add: k_def)
  let ?front = "m @ 0x01 # replicate k 0"
  have "(m @ replicate (Suc (Suc k)) 0)[length m := 0x01] = ?front @ [0]"
    by (simp add: replicate_append_same)
  moreover have "135 = length ?front" using k by simp
  moreover have "spec_pad m = ?front @ [0x80]" using assms k by (simp add: spec_pad_def)
  ultimately show ?thesis unfolding k Let_def by (simp only: nth_append_length list_update_length) simp
qed

text \<open>C26: The hash of the feed ingestor is Keccak-256. For every input the implementation, whose permutation
  updates the state in place along tables of positions, rotations and constants, returns the digest that
  the sponge of the standard gives, with the steps on five by five lanes, the offsets of the walk of rho
  and the round constants of the feedback register.\<close>

theorem keccak256_spec: "keccak256 m = spec_keccak256 m"
proof -
  have zero: "replicate 25 0 = list_of (\<lambda>_ _. 0)" by (simp add: list_of_def map_replicate_const)
  obtain t rest where *: "absorb_blocks (list_of (\<lambda>_ _. 0)) m = (t, rest)" by fastforce
  obtain B where B: "length rest < 136" "t = list_of B"
    "fold spec_absorb (blocks (spec_pad m)) (\<lambda>_ _. 0) = spec_absorb (spec_pad rest) B"
    using absorb_blocks_spec [OF *] by blast
  have final: "keccakF1600 (absorbBlock t (spec_pad rest)) = list_of (fold spec_absorb (blocks (spec_pad m)) (\<lambda>_ _. 0))"
    by (simp add: B absorb_step)
  have first: "concat (map (\<lambda>i. le_bytes (list_of A ! i)) [0..<4]) =
      le_bytes (A 0 0) @ le_bytes (A 1 0) @ le_bytes (A 2 0) @ le_bytes (A 3 0)" for A
    by (simp add: list_of_def upt_rec numeral_2_eq_2)
  show ?thesis
    using final_block [OF B(1)] unfolding keccak256_def zero * spec_keccak256_def Let_def prod.case
    by (simp only: final first)
qed

end
