(* ===== verification/Feed_Rlp.thy ===== *)
theory Feed_Rlp
  imports Phoenix_Prelude
begin

text \<open>
  The RLP reader of the feed ingestor (feed-ingestor/internal/nitro/rlp.go). A value is a byte string or a
  list of values; the reader takes one value off the front of its input and refuses every encoding that
  is not canonical. The specification is the RLP encoder: the reader accepts exactly its images.
\<close>

section \<open>The reader\<close>

datatype rlp_value = RlpString "u8 list" | RlpList "rlp_value list"

datatype rlp_error =
    RE_Empty
  | RE_ShortStringLength
  | RE_NonCanonicalString
  | RE_ShortListLength
  | RE_NonCanonicalList
  | RE_ShortString
  | RE_NonCanonicalByte
  | RE_ShortList
  | RE_EmptyLength
  | RE_LengthOverflow
  | RE_NonCanonicalLength
  | RE_IsList
  | RE_NonCanonicalUint
  | RE_UintOverflow
  | RE_AddressLength nat

text \<open>The number that bytes stand for, the most significant first.\<close>

definition be_nat :: "u8 list \<Rightarrow> nat" where
  "be_nat bs = foldl (\<lambda>n b. 256 * n + unat b) 0 bs"

definition MAX_INT :: nat where
  "MAX_INT = 2 ^ 63 - 1"

definition decodeLength :: "u8 list \<Rightarrow> rlp_error + nat" where
  "decodeLength input =
    (if input = [] then Inl RE_EmptyLength
     else if 8 < length input then Inl RE_LengthOverflow
     else if hd input = 0 then Inl RE_NonCanonicalLength
     else if MAX_INT < be_nat input then Inl RE_LengthOverflow
     else Inr (be_nat input))"

definition parseRLPString :: "u8 list \<Rightarrow> nat \<Rightarrow> rlp_error + rlp_value \<times> u8 list" where
  "parseRLPString input n =
    (if length input < n then Inl RE_ShortString
     else if n = 1 \<and> hd input \<le> 0x7f then Inl RE_NonCanonicalByte
     else Inr (RlpString (take n input), drop n input))"

text \<open>The loop over the items of a list is \<open>parse_items\<close>; a list gets what it returns.\<close>

definition parseRLPList :: "(u8 list \<Rightarrow> rlp_error + rlp_value list) \<Rightarrow> u8 list \<Rightarrow> nat \<Rightarrow> rlp_error + rlp_value \<times> u8 list" where
  "parseRLPList items input n =
    (if length input < n then Inl RE_ShortList
     else and_then (items (take n input)) (\<lambda>values. Inr (RlpList values, drop n input)))"

lemma parseRLPList_cong [fundef_cong]:
  assumes "input = input'" "n = n'" "\<And>bs. length bs \<le> length input' \<Longrightarrow> items bs = items' bs"
  shows "parseRLPList items input n = parseRLPList items' input' n'"
  using assms by (simp add: parseRLPList_def)

function parseRLP :: "u8 list \<Rightarrow> rlp_error + rlp_value \<times> u8 list"
  and parse_items :: "u8 list \<Rightarrow> rlp_error + rlp_value list" where
  "parseRLP input =
    (if input = [] then Inl RE_Empty
     else let prefix = hd input; rest = tl input in
     if prefix \<le> 0x7f then Inr (RlpString [prefix], rest)
     else if prefix \<le> 0xb7 then parseRLPString rest (unat (prefix - 0x80))
     else if prefix \<le> 0xbf then
       let n = unat (prefix - 0xb7) in
       if length input < 1 + n then Inl RE_ShortStringLength
       else and_then (decodeLength (take n rest)) (\<lambda>len.
         if len \<le> 55 then Inl RE_NonCanonicalString else parseRLPString (drop n rest) len)
     else if prefix \<le> 0xf7 then parseRLPList parse_items rest (unat (prefix - 0xc0))
     else
       let n = unat (prefix - 0xf7) in
       if length input < 1 + n then Inl RE_ShortListLength
       else and_then (decodeLength (take n rest)) (\<lambda>len.
         if len \<le> 55 then Inl RE_NonCanonicalList else parseRLPList parse_items (drop n rest) len))"
| "parse_items remaining =
    (if remaining = [] then Inr []
     else and_then (parseRLP remaining) (\<lambda>(v, rest).
       and_then (parse_items rest) (\<lambda>vs. Inr (v # vs))))"
  by pat_completeness auto

lemma parse_parts_rest:
  "parseRLPString input n = Inr (v, rest) \<Longrightarrow> rest = drop n input"
  "parseRLPList items input n = Inr (v, rest) \<Longrightarrow> rest = drop n input"
  by (auto simp: parseRLPString_def parseRLPList_def result_simps split: if_splits)

lemma parseRLP_shrinks:
  assumes "parseRLP_parse_items_dom (Inl input)" "parseRLP input = Inr (v, rest)"
  shows "length rest < length input"
  using assms(2) unfolding parseRLP.psimps [OF assms(1)]
  by (cases input) (auto simp: result_simps Let_def split: if_splits dest!: parse_parts_rest)

termination parseRLP
  by (relation "measure (case_sum (\<lambda>i. 2 * length i) (\<lambda>i. 2 * length i + 1))")
    (auto dest: parseRLP_shrinks simp: neq_Nil_conv)

lemmas [simp del] = parseRLP.simps parse_items.simps

lemma parse_items_simps [simp]:
  "parse_items [] = Inr []"
  "bs \<noteq> [] \<Longrightarrow> parse_items bs = and_then (parseRLP bs) (\<lambda>(v, rest). and_then (parse_items rest) (\<lambda>vs. Inr (v # vs)))"
  by (subst parse_items.simps, simp)+

section \<open>Big-endian numbers\<close>

fun be_bytes :: "nat \<Rightarrow> u8 list" where
  "be_bytes n = (if n = 0 then [] else be_bytes (n div 256) @ [of_nat n])"

lemmas [simp del] = be_bytes.simps

lemma be_nat_simps [simp]: "be_nat [] = 0" "be_nat (bs @ [b]) = 256 * be_nat bs + unat b"
  by (simp_all add: be_nat_def)

lemma be_nat_bytes [simp]: "be_nat (be_bytes n) = n"
proof (induction n rule: be_bytes.induct)
  case (1 n)
  then show ?case by (subst be_bytes.simps) (simp add: unat_of_nat)
qed

lemma be_bytes_empty [simp]: "be_bytes n = [] \<longleftrightarrow> n = 0"
  by (subst be_bytes.simps) simp

lemma hd_be_bytes: "0 < n \<Longrightarrow> hd (be_bytes n) \<noteq> 0"
proof (induction n rule: be_bytes.induct)
  case (1 n)
  show ?case
  proof (cases "n div 256 = 0")
    case True
    then have "n < 256" by simp
    then have "of_nat n \<noteq> (0 :: u8)" using 1(2) by (auto simp: word_of_nat_eq_0_iff dest: nat_dvd_not_less)
    then show ?thesis using True 1(2) by (subst be_bytes.simps) (simp add: be_bytes.simps [of 0])
  next
    case False
    then show ?thesis using 1 by (subst be_bytes.simps) (simp add: hd_append)
  qed
qed

lemma be_bytes_nat: "bs = [] \<or> hd bs \<noteq> 0 \<Longrightarrow> be_bytes (be_nat bs) = bs"
proof (induction bs rule: rev_induct)
  case (snoc b bs)
  have b: "unat b < 256" using unat_less_exp [of b] by simp
  have "256 * be_nat bs + unat b \<noteq> 0"
  proof (cases "bs = []")
    case True
    then show ?thesis using snoc(2) by (simp add: unat_eq_0)
  next
    case False
    then have "be_bytes (be_nat bs) = bs" using snoc by (simp add: hd_append)
    then show ?thesis using False by (metis add_is_0 be_bytes_empty mult_is_0 zero_neq_numeral)
  qed
  moreover have "be_bytes (be_nat bs) = bs" using snoc by (cases "bs = []") (simp_all add: hd_append)
  moreover have "of_nat (256 * be_nat bs + unat b) = b"
    using arg_cong [of "256 :: u8" 0 "\<lambda>x. x * of_nat (be_nat bs) + b"] by simp
  ultimately show ?case using b by (subst be_bytes.simps) simp
qed simp

lemma length_be_bytes: "length (be_bytes n) \<le> k \<longleftrightarrow> n < 256 ^ k"
proof (induction k arbitrary: n)
  case (Suc k)
  show ?case
  proof (cases "n = 0")
    case False
    then have "length (be_bytes n) = Suc (length (be_bytes (n div 256)))" by (subst be_bytes.simps) simp
    then show ?thesis using Suc [of "n div 256"] by (simp add: div_less_iff_less_mult mult.commute)
  qed (simp add: be_bytes.simps [of 0])
qed auto

lemma decodeLength_Inr:
  "decodeLength bs = Inr n \<longleftrightarrow> 0 < n \<and> n \<le> MAX_INT \<and> bs = be_bytes n"
proof
  assume *: "decodeLength bs = Inr n"
  then have "n = be_nat bs" "bs \<noteq> []" "hd bs \<noteq> 0" "n \<le> MAX_INT" by (auto simp: decodeLength_def split: if_splits)
  with be_bytes_nat [of bs] show "0 < n \<and> n \<le> MAX_INT \<and> bs = be_bytes n" by (metis be_bytes_empty gr0I)
next
  assume *: "0 < n \<and> n \<le> MAX_INT \<and> bs = be_bytes n"
  then have "length (be_bytes n) \<le> 8" by (simp add: length_be_bytes MAX_INT_def)
  then show "decodeLength bs = Inr n" using * hd_be_bytes [of n] by (simp add: decodeLength_def)
qed

section \<open>The encoding\<close>

definition to_byte :: "nat \<Rightarrow> u8" where
  "to_byte n = of_nat n"

lemma to_byte_simps [simp]:
  assumes "n < 256"
  shows "unat (to_byte n) = n" "to_byte n \<le> b \<longleftrightarrow> n \<le> unat b" "unat b \<le> n \<Longrightarrow> unat (to_byte n - b) = n - unat b"
  using assms unat_sub_exact [of b "to_byte n"] by (simp_all add: to_byte_def word_le_nat_alt unat_of_nat)

lemma to_byte_unat [simp]: "to_byte (unat b) = b"
  by (simp add: to_byte_def)

definition rlp_header :: "nat \<Rightarrow> nat \<Rightarrow> u8 list" where
  "rlp_header base n =
    (if n \<le> 55 then [to_byte (base + n)] else to_byte (base + 55 + length (be_bytes n)) # be_bytes n)"

fun rlp_encode :: "rlp_value \<Rightarrow> u8 list" where
  "rlp_encode (RlpString bs) = (if length bs = 1 \<and> hd bs \<le> 0x7f then bs else rlp_header 0x80 (length bs) @ bs)"
| "rlp_encode (RlpList vs) = (let bs = concat (map rlp_encode vs) in rlp_header 0xc0 (length bs) @ bs)"

lemma rlp_header_not_empty [simp]: "rlp_header base n \<noteq> []"
  by (simp add: rlp_header_def)

lemma rlp_encode_not_empty [simp]: "rlp_encode v \<noteq> []"
  by (cases v) (auto simp: Let_def)

lemma long_length:
  assumes "55 < n" "n \<le> MAX_INT"
  shows "1 \<le> length (be_bytes n)" "length (be_bytes n) \<le> 8"
  using assms by (auto simp: length_be_bytes MAX_INT_def Suc_le_eq)

lemma parseRLP_byte: "b \<le> 0x7f \<Longrightarrow> parseRLP (b # bs) = Inr (RlpString [b], bs)"
  by (subst parseRLP.simps) simp

lemma parseRLP_header:
  assumes "n \<le> MAX_INT"
  shows "parseRLP (rlp_header 0x80 n @ bs) = parseRLPString bs n"
    and "parseRLP (rlp_header 0xc0 n @ bs) = parseRLPList parse_items bs n"
proof -
  have "55 < n \<Longrightarrow> decodeLength (be_bytes n) = Inr n" using assms by (simp add: decodeLength_Inr)
  moreover note long = long_length [OF _ assms]
  ultimately show "parseRLP (rlp_header 0x80 n @ bs) = parseRLPString bs n"
      "parseRLP (rlp_header 0xc0 n @ bs) = parseRLPList parse_items bs n"
    by (cases "n \<le> 55"; subst parseRLP.simps; simp add: rlp_header_def Let_def)+
qed

lemma parseRLP_cases:
  assumes "parseRLP input = Inr r"
  obtains (byte) b bs where "input = b # bs" "b \<le> 0x7f" "r = (RlpString [b], bs)"
    | (string) n bs where "n \<le> MAX_INT" "input = rlp_header 0x80 n @ bs" "parseRLPString bs n = Inr r"
    | (list) n bs where "n \<le> MAX_INT" "input = rlp_header 0xc0 n @ bs" "parseRLPList parse_items bs n = Inr r"
proof -
  obtain b bs where input: "input = b # bs" using assms by (cases input) (simp_all add: parseRLP.simps)
  let ?p = "unat b"
  have p: "?p < 256" "\<And>w. b \<le> w \<longleftrightarrow> ?p \<le> unat w" "\<And>w. unat w \<le> ?p \<Longrightarrow> unat (b - w) = ?p - unat w"
    using unat_less_exp [of b] by (simp_all add: word_le_nat_alt unat_sub_exact)
  have short: "[b] = rlp_header base n" if "?p = base + n" "n \<le> 55" for base n
    using that by (simp add: rlp_header_def flip: that(1))
  have long: "n \<le> MAX_INT \<and> b # bs = rlp_header base n @ drop (?p - (base + 55)) bs"
    if "decodeLength (take (?p - (base + 55)) bs) = Inr n" "55 < n" "base + 55 < ?p" "?p - (base + 55) \<le> length bs" for base n
  proof -
    have n: "n \<le> MAX_INT" "take (?p - (base + 55)) bs = be_bytes n"
      using that(1) by (simp_all add: decodeLength_Inr)
    then have "length (be_bytes n) = ?p - (base + 55)" using that(4) by (simp flip: n(2))
    then have "to_byte (base + 55 + length (be_bytes n)) = b" using that(3) by simp
    moreover have "bs = be_bytes n @ drop (?p - (base + 55)) bs" by (simp flip: n(2))
    ultimately show ?thesis using n(1) that(2) by (simp add: rlp_header_def)
  qed
  consider "?p \<le> 127" | "127 < ?p" "?p \<le> 183" | "183 < ?p" "?p \<le> 191" | "191 < ?p" "?p \<le> 247" | "247 < ?p"
    by linarith
  then show ?thesis
  proof cases
    case 1
    then show ?thesis using assms byte by (simp add: parseRLP.simps input p)
  next
    case 2
    then show ?thesis
      using assms short [of "0x80" "?p - 128"] string [of "?p - 128" bs] by (simp add: parseRLP.simps input p MAX_INT_def)
  next
    case 3
    then show ?thesis
      using assms long [of "0x80"] string
      by (auto simp: parseRLP.simps input p result_simps Let_def split: if_splits)
  next
    case 4
    then show ?thesis
      using assms short [of "0xc0" "?p - 192"] list [of "?p - 192" bs] by (simp add: parseRLP.simps input p MAX_INT_def)
  next
    case 5
    then show ?thesis
      using assms long [of "0xc0"] list
      by (auto simp: parseRLP.simps input p result_simps Let_def split: if_splits)
  qed
qed

lemma parse_items_sound:
  assumes "parse_items bs = Inr vs"
    and "\<And>input v rest. length input \<le> length bs \<Longrightarrow> parseRLP input = Inr (v, rest) \<Longrightarrow> input = rlp_encode v @ rest"
  shows "bs = concat (map rlp_encode vs)"
  using assms
proof (induction vs arbitrary: bs)
  case Nil
  then show ?case by (cases "bs = []") (auto simp: result_simps)
next
  case (Cons v vs)
  then obtain rest where "parseRLP bs = Inr (v, rest)" and rest: "parse_items rest = Inr vs"
    by (cases "bs = []") (auto simp: result_simps)
  then have bs: "bs = rlp_encode v @ rest" using Cons(3) by blast
  then have "rest = concat (map rlp_encode vs)" using Cons(1) [OF rest] Cons(3) by simp
  then show ?case using bs by simp
qed

lemma parseRLP_sound: "parseRLP input = Inr (v, rest) \<Longrightarrow> input = rlp_encode v @ rest"
proof (induction "length input" arbitrary: input v rest rule: less_induct)
  case less
  from less(2) show ?case
  proof (cases rule: parseRLP_cases)
    case (string n bs)
    then show ?thesis by (auto simp: parseRLPString_def hd_conv_nth take_Suc_conv_app_nth split: if_splits)
  next
    case (list n bs)
    then obtain vs where *: "n \<le> length bs" "parse_items (take n bs) = Inr vs" "v = RlpList vs" "rest = drop n bs"
      by (auto simp: parseRLPList_def result_simps)
    have "length (take n bs) < length input" using list(2) by (cases "rlp_header 192 n") auto
    then have "take n bs = concat (map rlp_encode vs)"
      by (intro parse_items_sound [OF *(2)] less(1)) auto
    then show ?thesis using * list(2) by (simp add: Let_def flip: \<open>take n bs = _\<close>)
  qed simp
qed

lemma length_concat_part: "v \<in> set vs \<Longrightarrow> length (f v) \<le> length (concat (map f vs))"
  by (induction vs) auto

lemma parseRLP_complete: "length (rlp_encode v) \<le> MAX_INT \<Longrightarrow> parseRLP (rlp_encode v @ rest) = Inr (v, rest)"
proof (induction v arbitrary: rest)
  case (RlpString bs)
  then show ?case
    by (cases bs rule: list.exhaust) (auto simp: parseRLP_byte parseRLP_header parseRLPString_def)
next
  case (RlpList vs)
  let ?bs = "concat (map rlp_encode vs)"
  have fits: "length ?bs \<le> MAX_INT" using RlpList(2) by (simp add: Let_def)
  have "parse_items (concat (map rlp_encode us)) = Inr us" if "set us \<subseteq> set vs" for us
    using that
  proof (induction us)
    case (Cons u us)
    then have "length (rlp_encode u) \<le> MAX_INT" using length_concat_part [of u vs rlp_encode] fits by auto
    then show ?case using Cons RlpList(1) by simp
  qed simp
  then show ?case using fits by (simp add: Let_def parseRLP_header parseRLPList_def)
qed

text \<open>C25: The RLP reader accepts exactly the canonical encodings. On an input a Go slice can hold, it returns a
  value and a remainder if and only if the input is the encoding of that value followed by the remainder;
  so every value has one encoding the reader accepts, and every other input is refused.\<close>

theorem parseRLP_exact:
  assumes "length input \<le> MAX_INT"
  shows "parseRLP input = Inr (v, rest) \<longleftrightarrow> input = rlp_encode v @ rest"
  using assms parseRLP_sound parseRLP_complete by auto

theorem parseRLP_exact_witness:
  "parseRLP [0xc8, 0x83, 0x63, 0x61, 0x74, 0x83, 0x64, 0x6f, 0x67, 0x05] =
     Inr (RlpList [RlpString [0x63, 0x61, 0x74], RlpString [0x64, 0x6f, 0x67]], [5])"
  by (subst parseRLP_exact) (simp_all add: MAX_INT_def rlp_header_def to_byte_def Let_def)

section \<open>Numbers and addresses\<close>

definition rlpUint :: "rlp_value \<Rightarrow> rlp_error + u64" where
  "rlpUint v =
    (case v of
       RlpList _ \<Rightarrow> Inl RE_IsList
     | RlpString payload \<Rightarrow>
         if payload = [] then Inr 0
         else if hd payload = 0 then Inl RE_NonCanonicalUint
         else if 8 < length payload then Inl RE_UintOverflow
         else Inr (of_nat (be_nat payload)))"

definition rlpBig :: "rlp_value \<Rightarrow> rlp_error + nat" where
  "rlpBig v =
    (case v of
       RlpList _ \<Rightarrow> Inl RE_IsList
     | RlpString payload \<Rightarrow>
         if payload = [] then Inr 0
         else if hd payload = 0 then Inl RE_NonCanonicalUint
         else Inr (be_nat payload))"

text \<open>Lower-case hexadecimal text, two digits a byte.\<close>

definition hex_digit :: "nat \<Rightarrow> char" where
  "hex_digit d = ''0123456789abcdef'' ! d"

definition hexLower :: "u8 list \<Rightarrow> string" where
  "hexLower bs = concat (map (\<lambda>b. [hex_digit (unat b div 16), hex_digit (unat b mod 16)]) bs)"

definition rlpAddress :: "rlp_value \<Rightarrow> rlp_error + string" where
  "rlpAddress v =
    (case v of
       RlpList _ \<Rightarrow> Inl RE_IsList
     | RlpString payload \<Rightarrow> if length payload \<noteq> 20 then Inl (RE_AddressLength (length payload)) else Inr (''0x'' @ hexLower payload))"

definition rlpOptionalAddress :: "rlp_value \<Rightarrow> rlp_error + string" where
  "rlpOptionalAddress v =
    (case v of
       RlpList _ \<Rightarrow> Inl RE_IsList
     | RlpString payload \<Rightarrow> if payload = [] then Inr [] else rlpAddress v)"

lemma be_nat_less: "be_nat bs < 256 ^ length bs"
proof (induction bs rule: rev_induct)
  case (snoc b bs)
  have "unat b < 256" using unat_less_exp [of b] by simp
  then show ?case using snoc by simp
qed simp

lemma canonical_bytes: "(if bs = [] then n = 0 else hd bs \<noteq> 0 \<and> be_nat bs = n) \<longleftrightarrow> bs = be_bytes n"
proof
  show "bs = be_bytes n" if "if bs = [] then n = 0 else hd bs \<noteq> 0 \<and> be_nat bs = n"
    using that be_bytes_nat [of bs] by (cases "bs = []") (simp_all add: be_bytes.simps [of 0])
  show "if bs = [] then n = 0 else hd bs \<noteq> 0 \<and> be_nat bs = n" if "bs = be_bytes n"
    using hd_be_bytes [of n] by (cases "n = 0") (simp_all add: that)
qed

lemma rlpBig_exact: "rlpBig v = Inr n \<longleftrightarrow> v = RlpString (be_bytes n)"
  by (cases v) (auto simp: rlpBig_def split: if_splits simp flip: canonical_bytes)

text \<open>The reader of an unsigned integer accepts exactly the shortest big-endian form of a 64-bit number.\<close>

lemma rlpUint_exact: "rlpUint v = Inr n \<longleftrightarrow> v = RlpString (be_bytes (unat n))"
proof (cases v)
  case (RlpString bs)
  show ?thesis
  proof (cases "length bs \<le> 8")
    case True
    then have "be_nat bs < 2 ^ 64"
      using be_nat_less [of bs] power_increasing [of "length bs" 8 "256 :: nat"] by simp
    then have "of_nat (be_nat bs) = n \<longleftrightarrow> be_nat bs = unat n" by (auto simp: unat_of_nat_exact)
    then show ?thesis using True by (auto simp: RlpString rlpUint_def unat_eq_0 simp flip: canonical_bytes)
  next
    case False
    then have "bs \<noteq> be_bytes (unat n)"
      using unat_less_exp [of n] length_be_bytes [of "unat n" 8] by auto
    then show ?thesis using False by (auto simp: RlpString rlpUint_def)
  qed
qed (simp add: rlpUint_def)

end
