(* ===== verification/Feed_Nitro.thy ===== *)
theory Feed_Nitro
  imports Feed_Rlp
begin

text \<open>
  The decoder of the Nitro sequencer feed (feed-ingestor/internal/nitro/adapter.go): a broadcast holds feed
  messages, a feed message holds an L2 message, and an L2 message is a signed transaction, a batch of
  further L2 messages or something that is counted and skipped. Reading the JSON document and the
  go-ethereum transaction type are parameters. The context that can cancel the decoding at any moment is a
  function from the number of times it has been asked to its answer.
\<close>

section \<open>Messages\<close>

definition FeedServerVersion :: nat where "FeedServerVersion = 2"
definition BroadcastVersion :: int where "BroadcastVersion = 1"
definition L1MessageTypeL2Message :: u8 where "L1MessageTypeL2Message = 3"
definition L1MessageTypeEndOfBlock :: u8 where "L1MessageTypeEndOfBlock = 6"
definition L1MessageTypeRollupEvent :: u8 where "L1MessageTypeRollupEvent = 8"
definition L1MessageTypeBatchForGasEstimation :: u8 where "L1MessageTypeBatchForGasEstimation = 10"
definition L1MessageTypeInitialize :: u8 where "L1MessageTypeInitialize = 11"
definition L1MessageTypeBatchPostingReport :: u8 where "L1MessageTypeBatchPostingReport = 13"

definition L2MessageKindUnsignedUserTx :: u8 where "L2MessageKindUnsignedUserTx = 0"
definition L2MessageKindContractTx :: u8 where "L2MessageKindContractTx = 1"
definition L2MessageKindNonmutatingCall :: u8 where "L2MessageKindNonmutatingCall = 2"
definition L2MessageKindBatch :: u8 where "L2MessageKindBatch = 3"
definition L2MessageKindSignedTx :: u8 where "L2MessageKindSignedTx = 4"
definition L2MessageKindHeartbeat :: u8 where "L2MessageKindHeartbeat = 6"
definition L2MessageKindSignedCompressed :: u8 where "L2MessageKindSignedCompressed = 7"

definition ArbitrumOneChainID :: u64 where "ArbitrumOneChainID = 42161"
definition MaxL2MessageSize :: nat where "MaxL2MessageSize = 256 * 1024"
definition MaxL2BatchDepth :: nat where "MaxL2BatchDepth = 16"
definition MaxBroadcastMessageSize :: nat where "MaxBroadcastMessageSize = 64 * 1024 * 1024"
definition maxL2BatchItems :: nat where "maxL2BatchItems = MaxL2MessageSize div 9 + 1"

lemmas l2_kind_defs = L2MessageKindUnsignedUserTx_def L2MessageKindContractTx_def L2MessageKindNonmutatingCall_def
  L2MessageKindBatch_def L2MessageKindSignedTx_def L2MessageKindHeartbeat_def L2MessageKindSignedCompressed_def

record l1_header =
  hd_Kind :: u8
  hd_Sender :: string
  hd_BlockNumber :: u64
  hd_Timestamp :: u64
  hd_RequestID :: string
  hd_BaseFeeL1 :: "nat option"

record l1_message =
  lm_Header :: "l1_header option"
  lm_L2msg :: "u8 list"

record feed_message =
  fm_SequenceNumber :: u64
  fm_Message :: "l1_message option"
  fm_DelayedMessagesRead :: u64

text \<open>A message of the broadcast may be null.\<close>

record broadcast_message =
  bm_Version :: int
  bm_Messages :: "feed_message option list"
  bm_ConfirmedSequence :: "u64 option"

datatype message_layer = MessageLayerL1 | MessageLayerL2

type_synonym message_kind = "message_layer \<times> u8"

record relay_tx =
  rt_Hash :: string
  rt_SourceFeedOrderPosition :: u64
  rt_Type :: string
  rt_ChainID :: u64
  rt_From :: string
  rt_To :: string
  rt_Nonce :: u64
  rt_Value :: string
  rt_Calldata :: string
  rt_GasLimit :: string
  rt_MaxFeePerGas :: string
  rt_MaxPriorityFeePerGas :: string
  rt_RawTx :: string

record nitro_frame =
  fr_Sequence :: u64
  fr_TimestampUnixMS :: u64
  fr_Transactions :: "relay_tx list"
  fr_Unsupported :: "string list"
  fr_Malformed :: "string list"
  fr_Ignored :: "string list"
  fr_UnsupportedKinds :: "message_kind list"
  fr_IgnoredKinds :: "message_kind list"

record decode_report =
  dr_ConfirmedSequence :: "u64 option"
  dr_Unsupported :: "string list"
  dr_Malformed :: "string list"
  dr_Ignored :: "string list"
  dr_UnsupportedKinds :: "message_kind list"
  dr_IgnoredKinds :: "message_kind list"

record l2_result =
  l2_transactions :: "relay_tx list"
  l2_unsupported :: "string list"
  l2_malformed :: "string list"
  l2_ignored :: "string list"
  l2_unsupportedKinds :: "message_kind list"
  l2_ignoredKinds :: "message_kind list"

definition no_result :: l2_result where
  "no_result = \<lparr>l2_transactions = [], l2_unsupported = [], l2_malformed = [], l2_ignored = [],
     l2_unsupportedKinds = [], l2_ignoredKinds = []\<rparr>"

definition empty_frame :: nitro_frame where
  "empty_frame = \<lparr>fr_Sequence = 0, fr_TimestampUnixMS = 0, fr_Transactions = [], fr_Unsupported = [], fr_Malformed = [],
     fr_Ignored = [], fr_UnsupportedKinds = [], fr_IgnoredKinds = []\<rparr>"

datatype issue_class = IssueUnsupported | IssueMalformed

section \<open>Transactions\<close>

text \<open>What the decoder uses of the go-ethereum transaction type. The error of \<open>UnmarshalBinary\<close> says whether
  it is ErrTxTypeNotSupported; the signer is the Homestead one or the latest one of the chain.\<close>

record 't ethereum =
  et_unmarshal :: "u8 list \<Rightarrow> (bool \<times> string) + 't"
  et_type :: "'t \<Rightarrow> u8"
  et_protected :: "'t \<Rightarrow> bool"
  et_chain_id :: "'t \<Rightarrow> nat option"
  et_sender :: "bool \<Rightarrow> 't \<Rightarrow> string + string"
  et_hash :: "'t \<Rightarrow> string"
  et_to :: "'t \<Rightarrow> string option"
  et_nonce :: "'t \<Rightarrow> u64"
  et_value :: "'t \<Rightarrow> nat"
  et_data :: "'t \<Rightarrow> u8 list"
  et_gas :: "'t \<Rightarrow> u64"
  et_fee_cap :: "'t \<Rightarrow> nat"
  et_tip_cap :: "'t \<Rightarrow> nat"

definition hex_byte :: "u8 \<Rightarrow> string" where
  "hex_byte b = ''0x'' @ hexLower [b]"

definition relay_tx_of :: "'t ethereum \<Rightarrow> u8 list \<Rightarrow> 't \<Rightarrow> string \<Rightarrow> relay_tx" where
  "relay_tx_of eth raw tx sender =
    \<lparr>rt_Hash = et_hash eth tx, rt_SourceFeedOrderPosition = 0, rt_Type = hex_byte (et_type eth tx),
     rt_ChainID = ArbitrumOneChainID, rt_From = sender,
     rt_To = (case et_to eth tx of None \<Rightarrow> [] | Some a \<Rightarrow> a), rt_Nonce = et_nonce eth tx,
     rt_Value = dec_string (et_value eth tx), rt_Calldata = ''0x'' @ hexLower (et_data eth tx),
     rt_GasLimit = dec_string (unat (et_gas eth tx)), rt_MaxFeePerGas = dec_string (et_fee_cap eth tx),
     rt_MaxPriorityFeePerGas = dec_string (et_tip_cap eth tx), rt_RawTx = ''0x'' @ hexLower raw\<rparr>"

definition LegacyTxType :: u8 where "LegacyTxType = 0"
definition AccessListTxType :: u8 where "AccessListTxType = 1"
definition DynamicFeeTxType :: u8 where "DynamicFeeTxType = 2"
definition BlobTxType :: u8 where "BlobTxType = 3"
definition SetCodeTxType :: u8 where "SetCodeTxType = 4"

definition decodeSignedEthereumTx :: "'t ethereum \<Rightarrow> u8 list \<Rightarrow> (issue_class \<times> string) + relay_tx" where
  "decodeSignedEthereumTx eth raw =
    (if raw = [] then Inl (IssueMalformed, ''signed Ethereum transaction payload is empty'')
     else if hd raw \<le> 0x7f \<and> hd raw \<notin> {AccessListTxType, DynamicFeeTxType, SetCodeTxType} then
       if hd raw = BlobTxType then Inl (IssueUnsupported, ''unsupported signed Ethereum blob transaction'')
       else Inl (IssueUnsupported, ''unsupported signed Ethereum transaction type '' @ hex_byte (hd raw))
     else case et_unmarshal eth raw of
       Inl (not_supported, e) \<Rightarrow>
         if not_supported then Inl (IssueUnsupported, ''unsupported signed Ethereum transaction type'')
         else Inl (IssueMalformed, ''decode signed Ethereum transaction: '' @ e)
     | Inr tx \<Rightarrow>
         if et_type eth tx = BlobTxType then
           Inl (IssueUnsupported, ''unsupported signed Ethereum blob transaction'')
         else if (et_type eth tx \<noteq> LegacyTxType \<or> et_protected eth tx)
             \<and> et_chain_id eth tx \<noteq> Some (unat ArbitrumOneChainID) then
           Inl (IssueMalformed, ''signed Ethereum transaction chain id is not '' @ dec_string (unat ArbitrumOneChainID))
         else
         and_then (map_err (\<lambda>e. (IssueMalformed, ''recover signed Ethereum transaction sender: '' @ e))
             (et_sender eth (et_type eth tx = LegacyTxType \<and> \<not> et_protected eth tx) tx)) (\<lambda>sender.
         Inr (relay_tx_of eth raw tx sender)))"

section \<open>Batches\<close>

text \<open>The decoder asks the context whether it is done and counts transactions; a run carries how often the
  context has been asked and the next order position.\<close>

type_synonym go_context = "nat \<Rightarrow> string option"
type_synonym cursor = "nat \<times> u64"

definition poll :: "go_context \<Rightarrow> cursor \<Rightarrow> string + cursor" where
  "poll ctx c = (case ctx (fst c) of Some e \<Rightarrow> Inl e | None \<Rightarrow> Inr (Suc (fst c), snd c))"

datatype batch_error = BE_Cancelled string | BE_Split string

text \<open>The loop over the items of a batch: \<open>payload\<close> is what is left of it, \<open>count\<close> the number of items so far.\<close>

function split_loop :: "go_context \<Rightarrow> u8 list \<Rightarrow> nat \<Rightarrow> cursor \<Rightarrow> (batch_error \<times> cursor) + u8 list list \<times> cursor" where
  "split_loop ctx payload count c =
    (if payload = [] then Inr ([], c)
     else case poll ctx c of
       Inl e \<Rightarrow> Inl (BE_Cancelled e, c)
     | Inr c \<Rightarrow>
       if maxL2BatchItems \<le> count then Inl (BE_Split ''too many batch items'', c)
       else if length payload < 8 then Inl (BE_Split ''truncated uint64 batch item length'', c)
       else let size = be_nat (take 8 payload); rest = drop 8 payload in
       if size = 0 then Inl (BE_Split ''empty batch item'', c)
       else if MaxL2MessageSize < size then
         Inl (BE_Split (''batch item length '' @ dec_string size @ '' exceeds '' @ dec_string MaxL2MessageSize), c)
       else if length rest < size then
         Inl (BE_Split (''batch item length '' @ dec_string size @ '' exceeds remaining '' @ dec_string (length rest)
           @ '' bytes''), c)
       else and_then (split_loop ctx (drop size rest) (Suc count) c) (\<lambda>(messages, c).
         Inr (take size rest # messages, c)))"
  by pat_completeness auto
termination by (relation "measure (\<lambda>(ctx, payload, count, c). length payload)") auto

definition splitL2Batch :: "go_context \<Rightarrow> u8 list \<Rightarrow> cursor \<Rightarrow> (batch_error \<times> cursor) + u8 list list \<times> cursor" where
  "splitL2Batch ctx payload c = split_loop ctx payload 0 c"

definition appendPrefixed :: "string list \<Rightarrow> string list \<Rightarrow> nat \<Rightarrow> string list" where
  "appendPrefixed destination reasons index =
    destination @ map (\<lambda>reason. ''batch item '' @ dec_string index @ '': '' @ reason) reasons"

definition append_result :: "l2_result \<Rightarrow> l2_result \<Rightarrow> nat \<Rightarrow> l2_result" where
  "append_result r nested index =
    \<lparr>l2_transactions = l2_transactions r @ l2_transactions nested,
     l2_unsupported = appendPrefixed (l2_unsupported r) (l2_unsupported nested) index,
     l2_malformed = appendPrefixed (l2_malformed r) (l2_malformed nested) index,
     l2_ignored = appendPrefixed (l2_ignored r) (l2_ignored nested) index,
     l2_unsupportedKinds = l2_unsupportedKinds r @ l2_unsupportedKinds nested,
     l2_ignoredKinds = l2_ignoredKinds r @ l2_ignoredKinds nested\<rparr>"

section \<open>L2 messages\<close>

definition decode_signed :: "'t ethereum \<Rightarrow> u8 list \<Rightarrow> cursor \<Rightarrow> l2_result \<times> cursor" where
  "decode_signed eth raw c =
    (let orderPosition = snd c; c = (fst c, snd c + 1) in
     case decodeSignedEthereumTx eth (tl raw) of
       Inr tx \<Rightarrow> (no_result\<lparr>l2_transactions := [tx\<lparr>rt_SourceFeedOrderPosition := orderPosition\<rparr>]\<rparr>, c)
     | Inl (IssueUnsupported, e) \<Rightarrow>
         (no_result\<lparr>l2_unsupported := [e], l2_unsupportedKinds := [(MessageLayerL2, hd raw)]\<rparr>, c)
     | Inl (IssueMalformed, e) \<Rightarrow> (no_result\<lparr>l2_malformed := [e]\<rparr>, c))"

text \<open>The kinds of L2 message other than batches.\<close>

definition decode_plain :: "'t ethereum \<Rightarrow> u8 list \<Rightarrow> cursor \<Rightarrow> l2_result \<times> cursor" where
  "decode_plain eth raw c =
    (let kind = hd raw; kinds = [(MessageLayerL2, kind)] in
     if kind = L2MessageKindSignedTx then decode_signed eth raw c
     else if kind = L2MessageKindHeartbeat then
       (no_result\<lparr>l2_ignored := [''heartbeat L2 message''], l2_ignoredKinds := kinds\<rparr>, c)
     else if kind \<in> {L2MessageKindUnsignedUserTx, L2MessageKindContractTx, L2MessageKindNonmutatingCall,
         L2MessageKindSignedCompressed} then
       (no_result\<lparr>l2_unsupported := [''unsupported L2 message kind '' @ hex_byte kind], l2_unsupportedKinds := kinds\<rparr>,
        (fst c, snd c + 1))
     else
       (no_result\<lparr>l2_unsupported := [''unknown L2 message kind '' @ hex_byte kind], l2_unsupportedKinds := kinds\<rparr>, c))"

function decodeL2Message :: "'t ethereum \<Rightarrow> go_context \<Rightarrow> u8 list \<Rightarrow> nat \<Rightarrow> cursor \<Rightarrow> string + l2_result \<times> cursor"
  and decodeL2Batch :: "'t ethereum \<Rightarrow> go_context \<Rightarrow> u8 list \<Rightarrow> nat \<Rightarrow> cursor \<Rightarrow> string + l2_result \<times> cursor"
  and decode_nested :: "'t ethereum \<Rightarrow> go_context \<Rightarrow> u8 list list \<Rightarrow> nat \<Rightarrow> nat \<Rightarrow> l2_result \<Rightarrow> cursor
    \<Rightarrow> string + l2_result \<times> cursor" where
  "decodeL2Message eth ctx raw depth c =
    and_then (poll ctx c) (\<lambda>c.
    if raw = [] then Inr (no_result\<lparr>l2_malformed := [''empty L2 message'']\<rparr>, c)
    else if MaxL2MessageSize < length raw then
      Inr (no_result\<lparr>l2_malformed := [''L2 message exceeds '' @ dec_string MaxL2MessageSize @ '' bytes'']\<rparr>, c)
    else if hd raw = L2MessageKindBatch then decodeL2Batch eth ctx (tl raw) depth c
    else Inr (decode_plain eth raw c))"
| "decodeL2Batch eth ctx payload depth c =
    (if MaxL2BatchDepth \<le> depth then
       Inr (no_result\<lparr>l2_malformed := [''L2 message batches exceed max depth '' @ dec_string MaxL2BatchDepth]\<rparr>, c)
     else case splitL2Batch ctx payload c of
       Inl (BE_Cancelled e, c) \<Rightarrow>
         (case poll ctx c of
            Inl e \<Rightarrow> Inl e
          | Inr c \<Rightarrow> Inr (no_result\<lparr>l2_malformed := [''malformed L2 batch: '' @ e]\<rparr>, c))
     | Inl (BE_Split e, c) \<Rightarrow>
         (case poll ctx c of
            Inl e \<Rightarrow> Inl e
          | Inr c \<Rightarrow> Inr (no_result\<lparr>l2_malformed := [''malformed L2 batch: '' @ e]\<rparr>, c))
     | Inr (nested, c) \<Rightarrow>
         if nested = [] then Inr (no_result\<lparr>l2_ignored := [''empty L2 message batch'']\<rparr>, c)
         else decode_nested eth ctx nested depth 0 no_result c)"
| "decode_nested eth ctx messages depth index r c =
    (case messages of
       [] \<Rightarrow> Inr (r, c)
     | m # ms \<Rightarrow>
         and_then (poll ctx c) (\<lambda>c.
         and_then (decodeL2Message eth ctx m (depth + 1) c) (\<lambda>(nested, c).
         decode_nested eth ctx ms depth (index + 1) (append_result r nested index) c)))"
  by pat_completeness auto

text \<open>The items of a batch are pieces of its payload, each behind a length of eight bytes.\<close>

definition frame_item :: "u8 list \<Rightarrow> u8 list" where
  "frame_item m = replicate (8 - length (be_bytes (length m))) 0 @ be_bytes (length m) @ m"

lemmas [simp del] = split_loop.simps

lemma split_loop_size:
  "split_loop ctx payload count c = Inr (messages, c') \<Longrightarrow> (\<Sum>m\<leftarrow>messages. length m + 1) \<le> length payload"
proof (induction ctx payload count c arbitrary: messages rule: split_loop.induct)
  case (1 ctx payload count c)
  show ?case
  proof (cases "payload = []")
    case False
    let ?size = "be_nat (take 8 payload)" and ?rest = "drop 8 payload"
    from 1(2) False obtain c1 ms where *: "poll ctx c = Inr c1" "\<not> maxL2BatchItems \<le> count" "\<not> length payload < 8"
      "?size \<noteq> 0" "\<not> MaxL2MessageSize < ?size" "\<not> length ?rest < ?size"
      "split_loop ctx (drop ?size ?rest) (Suc count) c1 = Inr (ms, c')" "messages = take ?size ?rest # ms"
      by (subst (asm) split_loop.simps) (auto simp: Let_def result_simps split: sum.splits if_splits)
    have "(\<Sum>m\<leftarrow>ms. length m + 1) \<le> length (drop ?size ?rest)"
      by (rule 1(1) [OF False *(1,2,3) refl refl *(4,5,6,7)])
    then show ?thesis using *(3,6,8) by simp
  qed (use 1(2) in \<open>simp add: split_loop.simps\<close>)
qed

termination decodeL2Message
proof (relation "measure (case_sum (\<lambda>(e, x, raw, d, c). 2 * length raw + 1)
    (case_sum (\<lambda>(e, x, p, d, c). 2 * length p + 2) (\<lambda>(e, x, ms, d, i, r, c). 2 * (\<Sum>m\<leftarrow>ms. length m + 1) + 1)))", goal_cases)
  case (3 eth ctx payload depth c x nested c')
  then show ?case using split_loop_size [of ctx payload 0 c nested c'] by (simp add: splitL2Batch_def)
qed (auto simp: neq_Nil_conv)

lemmas [simp del] = decodeL2Message.simps decodeL2Batch.simps decode_nested.simps

section \<open>Broadcasts\<close>

definition isIgnoredNonTransactionKind :: "u8 \<Rightarrow> bool" where
  "isIgnoredNonTransactionKind kind \<longleftrightarrow>
     kind \<in> {L1MessageTypeEndOfBlock, L1MessageTypeRollupEvent, L1MessageTypeBatchForGasEstimation,
       L1MessageTypeInitialize, L1MessageTypeBatchPostingReport}"

definition decodeFeedMessage :: "'t ethereum \<Rightarrow> go_context \<Rightarrow> feed_message option \<Rightarrow> nat \<Rightarrow> string + nitro_frame \<times> nat" where
  "decodeFeedMessage eth ctx feedMessage polls =
    (case feedMessage of
       None \<Rightarrow> Inr (empty_frame\<lparr>fr_Malformed := [''nil broadcast feed message'']\<rparr>, polls)
     | Some feedMessage \<Rightarrow>
       let frame = empty_frame\<lparr>fr_Sequence := fm_SequenceNumber feedMessage\<rparr> in
       case fm_Message feedMessage of
         None \<Rightarrow> Inr (frame\<lparr>fr_Malformed := [''missing incoming message'']\<rparr>, polls)
       | Some incoming \<Rightarrow>
         case lm_Header incoming of
           None \<Rightarrow> Inr (frame\<lparr>fr_Malformed := [''missing incoming message header'']\<rparr>, polls)
         | Some header \<Rightarrow>
           let frame = frame\<lparr>fr_TimestampUnixMS := hd_Timestamp header * 1000\<rparr> in
           if hd_Kind header \<noteq> L1MessageTypeL2Message then
             let reason = ''L1 message kind '' @ dec_string (unat (hd_Kind header));
                 kind = (MessageLayerL1, hd_Kind header)
             in Inr (if isIgnoredNonTransactionKind (hd_Kind header)
                then frame\<lparr>fr_Ignored := [reason], fr_IgnoredKinds := [kind]\<rparr>
                else frame\<lparr>fr_Unsupported := [''unsupported '' @ reason], fr_UnsupportedKinds := [kind]\<rparr>, polls)
           else
           and_then (decodeL2Message eth ctx (lm_L2msg incoming) 0 (polls, 0)) (\<lambda>(r, c).
           Inr (frame\<lparr>fr_Transactions := l2_transactions r, fr_Unsupported := l2_unsupported r,
             fr_Malformed := l2_malformed r, fr_Ignored := l2_ignored r,
             fr_UnsupportedKinds := l2_unsupportedKinds r, fr_IgnoredKinds := l2_ignoredKinds r\<rparr>, fst c)))"

definition report_frame :: "decode_report \<Rightarrow> nitro_frame \<Rightarrow> decode_report" where
  "report_frame report frame =
    report\<lparr>dr_Unsupported := dr_Unsupported report @ fr_Unsupported frame,
      dr_Malformed := dr_Malformed report @ fr_Malformed frame,
      dr_Ignored := dr_Ignored report @ fr_Ignored frame,
      dr_UnsupportedKinds := dr_UnsupportedKinds report @ fr_UnsupportedKinds frame,
      dr_IgnoredKinds := dr_IgnoredKinds report @ fr_IgnoredKinds frame\<rparr>"

definition frame_kept :: "nitro_frame \<Rightarrow> bool" where
  "frame_kept frame \<longleftrightarrow>
     fr_Sequence frame \<noteq> 0 \<or> fr_Transactions frame \<noteq> [] \<or> fr_Unsupported frame \<noteq> [] \<or> fr_Malformed frame \<noteq> []
     \<or> fr_Ignored frame \<noteq> []"

primrec decode_messages ::
  "'t ethereum \<Rightarrow> go_context \<Rightarrow> feed_message option list \<Rightarrow> nitro_frame list \<Rightarrow> decode_report \<Rightarrow> nat
   \<Rightarrow> string + nitro_frame list \<times> decode_report" where
  "decode_messages eth ctx [] frames report polls = Inr (frames, report)"
| "decode_messages eth ctx (m # ms) frames report polls =
    and_then (poll ctx (polls, 0)) (\<lambda>(polls, _).
    and_then (decodeFeedMessage eth ctx m polls) (\<lambda>(frame, polls).
    decode_messages eth ctx ms (if frame_kept frame then frames @ [frame] else frames) (report_frame report frame) polls))"

definition DecodeBroadcastContext ::
  "'t ethereum \<Rightarrow> (u8 list \<Rightarrow> string + broadcast_message) \<Rightarrow> go_context \<Rightarrow> u8 list \<Rightarrow> string + nitro_frame list \<times> decode_report" where
  "DecodeBroadcastContext eth unmarshal ctx raw =
    and_then (poll ctx (0, 0)) (\<lambda>(polls, _).
    if MaxBroadcastMessageSize < length raw then
      Inl (''Nitro broadcast message exceeds '' @ dec_string MaxBroadcastMessageSize @ '' bytes'')
    else
    and_then (unmarshal raw) (\<lambda>message.
    and_then (poll ctx (polls, 0)) (\<lambda>(polls, _).
    if bm_Version message \<noteq> BroadcastVersion then
      Inl (''unsupported Nitro broadcast version '' @ (if bm_Version message < 0 then ''-'' else [])
        @ dec_string (nat \<bar>bm_Version message\<bar>))
    else decode_messages eth ctx (bm_Messages message) []
      \<lparr>dr_ConfirmedSequence = bm_ConfirmedSequence message, dr_Unsupported = [], dr_Malformed = [], dr_Ignored = [],
       dr_UnsupportedKinds = [], dr_IgnoredKinds = []\<rparr> polls)))"

section \<open>Framing\<close>

lemma be_nat_inj: "length xs = length ys \<Longrightarrow> be_nat xs = be_nat ys \<Longrightarrow> xs = ys"
proof (induction xs arbitrary: ys rule: rev_induct)
  case (snoc x xs)
  then obtain y zs where ys: "ys = zs @ [y]" by (cases ys rule: rev_cases) auto
  have "unat x < 256" "unat y < 256" using unat_less_exp [of x] unat_less_exp [of y] by simp_all
  moreover have "256 * be_nat xs + unat x = 256 * be_nat zs + unat y" using snoc(3) by (simp add: ys)
  ultimately have "be_nat xs = be_nat zs"
    using arg_cong [of "256 * be_nat xs + unat x" "256 * be_nat zs + unat y" "\<lambda>n. n div 256"] by simp
  then show ?case using snoc by (simp add: ys word_unat_eq_iff)
qed simp

lemma be_nat_zeros: "be_nat (replicate k 0 @ bs) = be_nat bs"
proof (induction bs rule: rev_induct)
  case Nil
  show ?case
  proof (induction k)
    case (Suc k)
    then show ?case using be_nat_simps(2) [of "replicate k 0" 0] by (simp only: replicate_append_same append_Nil2) simp
  qed simp
next
  case (snoc b bs)
  then show ?case by (simp flip: append_assoc)
qed

lemma frame_item_iff:
  assumes "length m \<le> MaxL2MessageSize"
  shows "8 \<le> length payload \<and> be_nat (take 8 payload) = length m \<and> take (length m) (drop 8 payload) = m \<and>
      length m \<le> length (drop 8 payload) \<longleftrightarrow> payload = frame_item m @ drop (length m) (drop 8 payload)"
proof -
  let ?len = "replicate (8 - length (be_bytes (length m))) 0 @ be_bytes (length m)"
  have len: "length ?len = 8" using assms by (simp add: length_be_bytes MaxL2MessageSize_def)
  have val: "be_nat ?len = length m" by (simp only: be_nat_zeros be_nat_bytes)
  show ?thesis
  proof
    assume *: "8 \<le> length payload \<and> be_nat (take 8 payload) = length m \<and> take (length m) (drop 8 payload) = m \<and>
      length m \<le> length (drop 8 payload)"
    then have "take 8 payload = ?len" by (intro be_nat_inj) (simp_all add: len val del: length_append)
    then show "payload = frame_item m @ drop (length m) (drop 8 payload)"
      using * by (metis append.assoc append_take_drop_id frame_item_def)
  next
    assume *: "payload = frame_item m @ drop (length m) (drop 8 payload)"
    then obtain rest where "payload = ?len @ m @ rest" by (auto simp: frame_item_def)
    then show "8 \<le> length payload \<and> be_nat (take 8 payload) = length m \<and> take (length m) (drop 8 payload) = m \<and>
      length m \<le> length (drop 8 payload)"
      using len val by (simp add: be_nat_def)
  qed
qed

definition item_ok :: "u8 list \<Rightarrow> bool" where
  "item_ok m \<longleftrightarrow> m \<noteq> [] \<and> length m \<le> MaxL2MessageSize"

abbreviation background :: go_context where
  "background \<equiv> \<lambda>_. None"

lemma frame_item_not_empty [simp]: "item_ok m \<Longrightarrow> frame_item m \<noteq> []"
  by (auto simp: frame_item_def item_ok_def)

lemma split_loop_Nil: "split_loop ctx [] count c = Inr ([], c)"
  by (simp add: split_loop.simps)

lemma split_loop_Cons:
  assumes "payload \<noteq> []"
  shows "split_loop background payload count c = Inr (ms, c') \<longleftrightarrow>
    (\<exists>m rest us. payload = frame_item m @ rest \<and> item_ok m \<and> count < maxL2BatchItems \<and> ms = m # us \<and>
       split_loop background rest (Suc count) (Suc (fst c), snd c) = Inr (us, c'))" (is "?L \<longleftrightarrow> ?R")
proof
  let ?size = "be_nat (take 8 payload)" and ?tail = "drop 8 payload"
  assume ?L
  with assms obtain us where *: "\<not> maxL2BatchItems \<le> count" "\<not> length payload < 8" "?size \<noteq> 0"
    "\<not> MaxL2MessageSize < ?size" "\<not> length ?tail < ?size" "ms = take ?size ?tail # us"
    "split_loop background (drop ?size ?tail) (Suc count) (Suc (fst c), snd c) = Inr (us, c')"
    by (subst (asm) split_loop.simps) (auto simp: Let_def poll_def result_simps split: if_splits)
  let ?m = "take ?size ?tail"
  have "length ?m = ?size" using *(5) by simp
  then have "payload = frame_item ?m @ drop ?size ?tail" "item_ok ?m"
    using frame_item_iff [of ?m payload] * by (auto simp: item_ok_def)
  with * show ?R by auto
next
  assume ?R
  then obtain m rest us where *: "payload = frame_item m @ rest" "item_ok m" "count < maxL2BatchItems" "ms = m # us"
    "split_loop background rest (Suc count) (Suc (fst c), snd c) = Inr (us, c')" by blast
  have size: "length (frame_item m) = 8 + length m"
    using *(2) by (simp add: frame_item_def item_ok_def length_be_bytes MaxL2MessageSize_def)
  then have "drop (length m) (drop 8 payload) = rest" by (simp add: *(1))
  then have "8 \<le> length payload" "be_nat (take 8 payload) = length m" "take (length m) (drop 8 payload) = m"
    "length m \<le> length (drop 8 payload)" "drop (length m) (drop 8 payload) = rest"
    using frame_item_iff [of m payload] *(1,2) by (auto simp: item_ok_def)
  then show ?L
    using assms * by (subst split_loop.simps) (auto simp: Let_def poll_def item_ok_def not_less)
qed

lemma split_loop_exact:
  "split_loop background payload count c = Inr (ms, c') \<longleftrightarrow>
    payload = concat (map frame_item ms) \<and> list_all item_ok ms \<and> (ms = [] \<or> count + length ms \<le> maxL2BatchItems) \<and>
    c' = (fst c + length ms, snd c)"
proof (induction ms arbitrary: payload count c)
  case Nil
  show ?case
    using split_loop_Cons [of payload count c "[]" c'] by (cases "payload = []") (auto simp: split_loop_Nil)
next
  case (Cons m ms)
  show ?case
    using split_loop_Cons [of payload count c "m # ms" c'] by (cases "payload = []") (auto simp: split_loop_Nil Cons)
qed

text \<open>The batch splitter accepts exactly the framing of the feed. Unless it is cancelled, it returns a list
  of messages if and only if the payload is those messages in order, each behind its length in eight
  big-endian bytes, none of them empty or above the size limit, and not too many of them.\<close>

theorem splitL2Batch_exact:
  "splitL2Batch background payload c = Inr (ms, c') \<longleftrightarrow>
    payload = concat (map frame_item ms) \<and> list_all item_ok ms \<and> length ms \<le> maxL2BatchItems \<and>
    c' = (fst c + length ms, snd c)"
  by (auto simp: splitL2Batch_def split_loop_exact maxL2BatchItems_def)

section \<open>Order\<close>

definition positions :: "relay_tx list \<Rightarrow> nat list" where
  "positions txs = map (\<lambda>t. unat (rt_SourceFeedOrderPosition t)) txs"

definition ordered_between :: "nat \<Rightarrow> nat list \<Rightarrow> nat \<Rightarrow> bool" where
  "ordered_between a ps b \<longleftrightarrow> a \<le> b \<and> sorted_wrt (<) ps \<and> (\<forall>p\<in>set ps. a \<le> p \<and> p < b)"

lemma ordered_between_empty [simp]: "ordered_between a [] b \<longleftrightarrow> a \<le> b"
  by (simp add: ordered_between_def)

lemma ordered_between_append:
  "ordered_between a ps b \<Longrightarrow> ordered_between b qs c \<Longrightarrow> ordered_between a (ps @ qs) c"
  by (auto simp: ordered_between_def sorted_wrt_append) (meson le_trans less_le_trans)+

lemma decode_plain_order:
  assumes "decode_plain eth raw c = (r, c')" "Suc (unat (snd c)) < 2 ^ 64"
  shows "ordered_between (unat (snd c)) (positions (l2_transactions r)) (unat (snd c')) \<and>
    unat (snd c') \<le> Suc (unat (snd c))"
proof -
  have "unat (snd c + 1) = Suc (unat (snd c))" using assms(2) by (simp add: unat_word_ariths)
  with assms(1) show ?thesis
    by (auto simp: decode_plain_def decode_signed_def Let_def no_result_def positions_def ordered_between_def
        split: if_splits sum.splits issue_class.splits)
qed

lemma poll_Inr: "poll ctx c = Inr c' \<Longrightarrow> snd c' = snd c"
  by (auto simp: poll_def split: option.splits)

lemma split_loop_cases:
  obtains (finished) "split_loop ctx payload count c = Inr ([], c)"
    | (error) e c1 where "split_loop ctx payload count c = Inl (e, c1)" "snd c1 = snd c"
    | (item) m rest c1 where "snd c1 = snd c" "length rest < length payload"
      "split_loop ctx payload count c = and_then (split_loop ctx rest (Suc count) c1) (\<lambda>(ms, c). Inr (m # ms, c))"
proof (cases "payload = []")
  case True
  then show ?thesis using finished by (simp add: split_loop_Nil)
next
  case False
  note unfolded = split_loop.simps [of ctx payload count c]
  show ?thesis
  proof (cases "poll ctx c")
    case (Inl e)
    then show ?thesis using False error [of "BE_Cancelled e" c] by (simp add: unfolded)
  next
    case (Inr c1)
    have c1: "snd c1 = snd c" using poll_Inr [OF Inr] .
    let ?size = "be_nat (take 8 payload)" and ?rest = "drop 8 payload"
    show ?thesis
    proof (cases "maxL2BatchItems \<le> count \<or> length payload < 8 \<or> ?size = 0 \<or> MaxL2MessageSize < ?size \<or> length ?rest < ?size")
      case True
      then have "\<exists>e. split_loop ctx payload count c = Inl (e, c1)"
        unfolding unfolded using False Inr by (simp add: Let_def) auto
      then show ?thesis using error c1 by blast
    next
      case ok: False
      have "split_loop ctx payload count c =
          and_then (split_loop ctx (drop ?size ?rest) (Suc count) c1) (\<lambda>(ms, c). Inr (take ?size ?rest # ms, c))"
        unfolding unfolded using False Inr ok by (simp add: Let_def)
      moreover have "length (drop ?size ?rest) < length payload" using False ok by simp
      ultimately show ?thesis using item c1 by blast
    qed
  qed
qed

lemma split_loop_cursor:
  "(split_loop ctx payload count c = Inr (ms, c') \<longrightarrow> snd c' = snd c) \<and>
   (split_loop ctx payload count c = Inl (e, c') \<longrightarrow> snd c' = snd c)"
proof (induction "length payload" arbitrary: payload count c ms rule: less_induct)
  case less
  show ?case
  proof (cases rule: split_loop_cases [of ctx payload count c])
    case (item m rest c1)
    then show ?thesis using less [OF item(2), of "Suc count" c1] by (auto simp: result_simps)
  qed auto
qed

lemma decode_order:
  "decodeL2Message eth ctx raw depth c = Inr (r, c') \<Longrightarrow> unat (snd c) + length raw < 2 ^ 64 \<Longrightarrow>
    ordered_between (unat (snd c)) (positions (l2_transactions r)) (unat (snd c')) \<and>
    unat (snd c') \<le> unat (snd c) + length raw"
  "decodeL2Batch eth ctx payload depth c = Inr (r, c') \<Longrightarrow> unat (snd c) + length payload < 2 ^ 64 \<Longrightarrow>
    ordered_between (unat (snd c)) (positions (l2_transactions r)) (unat (snd c')) \<and>
    unat (snd c') \<le> unat (snd c) + length payload"
  "decode_nested eth ctx ms depth i r0 c = Inr (r, c') \<Longrightarrow> unat (snd c) + (\<Sum>m\<leftarrow>ms. length m) < 2 ^ 64 \<Longrightarrow>
    (\<exists>txs. l2_transactions r = l2_transactions r0 @ txs \<and>
      ordered_between (unat (snd c)) (positions txs) (unat (snd c')) \<and> unat (snd c') \<le> unat (snd c) + (\<Sum>m\<leftarrow>ms. length m))"
proof (induction eth ctx raw depth c and eth ctx payload depth c and eth ctx ms depth i r0 c arbitrary: r c' and r c' and r c'
    rule: decodeL2Message_decodeL2Batch_decode_nested.induct)
  case (1 eth ctx raw depth c)
  from 1(2) obtain c1 where c1: "poll ctx c = Inr c1" by (subst (asm) decodeL2Message.simps) (auto simp: result_simps)
  have pos: "snd c1 = snd c" using poll_Inr [OF c1] .
  show ?case
  proof (cases "raw = [] \<or> MaxL2MessageSize < length raw")
    case True
    then show ?thesis using 1(2) c1 pos by (subst (asm) decodeL2Message.simps) (auto simp: no_result_def positions_def split: if_splits)
  next
    case ok: False
    show ?thesis
    proof (cases "hd raw = L2MessageKindBatch")
      case True
      have "decodeL2Batch eth ctx (tl raw) depth c1 = Inr (r, c')"
        using 1(2) c1 ok True by (subst (asm) decodeL2Message.simps) simp
      then show ?thesis using 1(1) [OF c1 _ _ True, of r c'] ok 1(3) pos by fastforce
    next
      case False
      then have "decode_plain eth raw c1 = (r, c')"
        using 1(2) c1 ok by (subst (asm) decodeL2Message.simps) simp
      moreover have "Suc (unat (snd c)) \<le> unat (snd c) + length raw" using ok by (cases raw) simp_all
      ultimately show ?thesis using decode_plain_order [of eth raw c1 r c'] 1(3) pos by auto
    qed
  qed
next
  case (2 eth ctx payload depth c)
  show ?case
  proof (cases "MaxL2BatchDepth \<le> depth")
    case True
    then show ?thesis using 2(2) by (subst (asm) decodeL2Batch.simps) (auto simp: no_result_def positions_def)
  next
    case depth: False
    show ?thesis
    proof (cases "splitL2Batch ctx payload c")
      case (Inl x)
      obtain e c1 where x: "x = (e, c1)" by (rule prod.exhaust)
      have "snd c1 = snd c" using split_loop_cursor [of ctx payload 0 c _ c1 e] Inl by (simp add: x splitL2Batch_def)
      then show ?thesis
        using 2(2) depth Inl poll_Inr [of ctx c1]
        by (subst (asm) decodeL2Batch.simps)
          (auto simp: x no_result_def positions_def split: batch_error.splits sum.splits)
    next
      case (Inr x)
      obtain nested c1 where x: "x = (nested, c1)" by (rule prod.exhaust)
      have c1: "snd c1 = snd c" and size: "(\<Sum>m\<leftarrow>nested. length m + 1) \<le> length payload"
        using split_loop_cursor [of ctx payload 0 c nested c1] split_loop_size [of ctx payload 0 c nested c1] Inr
        by (simp_all add: x splitL2Batch_def)
      show ?thesis
      proof (cases "nested = []")
        case True
        then show ?thesis using 2(2) depth Inr c1 by (subst (asm) decodeL2Batch.simps) (auto simp: x no_result_def positions_def)
      next
        case False
        then have run: "decode_nested eth ctx nested depth 0 no_result c1 = Inr (r, c')"
          using 2(2) depth Inr by (subst (asm) decodeL2Batch.simps) (simp add: x)
        have "(\<Sum>m\<leftarrow>nested. length m) \<le> length payload"
          using size sum_list_mono [of nested length "\<lambda>m. length m + 1"] by simp
        then show ?thesis using 2(1) [OF depth Inr x [symmetric] False run] 2(3) c1 by (auto simp: no_result_def)
      qed
    qed
  qed
next
  case (3 eth ctx messages depth index r0 c)
  show ?case
  proof (cases messages)
    case Nil
    then show ?thesis using 3 by (simp add: decode_nested.simps positions_def)
  next
    case (Cons m ms)
    from 3(3) obtain c1 nested c2 where *: "poll ctx c = Inr c1" "decodeL2Message eth ctx m (depth + 1) c1 = Inr (nested, c2)"
      "decode_nested eth ctx ms depth (index + 1) (append_result r0 nested index) c2 = Inr (r, c')"
      by (subst (asm) decode_nested.simps) (auto simp: Cons result_simps)
    have c1: "snd c1 = snd c" using poll_Inr [OF *(1)] .
    have first: "ordered_between (unat (snd c)) (positions (l2_transactions nested)) (unat (snd c2))"
      "unat (snd c2) \<le> unat (snd c) + length m"
      using 3(1) [OF Cons *(1,2)] 3(4) c1 by (simp_all add: Cons)
    then obtain txs where rest: "l2_transactions r = l2_transactions (append_result r0 nested index) @ txs"
      "ordered_between (unat (snd c2)) (positions txs) (unat (snd c'))" "unat (snd c') \<le> unat (snd c2) + (\<Sum>m\<leftarrow>ms. length m)"
      using 3(2) [OF Cons *(1,2) refl *(3)] 3(4) by (auto simp: Cons)
    let ?txs = "l2_transactions nested @ txs"
    have "l2_transactions r = l2_transactions r0 @ ?txs" using rest(1) by (simp add: append_result_def)
    moreover have "ordered_between (unat (snd c)) (positions ?txs) (unat (snd c'))"
      using ordered_between_append [OF first(1) rest(2)] by (simp add: positions_def)
    ultimately show ?thesis using rest(3) first(2) by (auto simp: Cons)
  qed
qed

definition frame_ordered :: "nitro_frame \<Rightarrow> bool" where
  "frame_ordered frame \<longleftrightarrow> sorted_wrt (<) (positions (fr_Transactions frame))"

lemma decodeFeedMessage_ordered:
  assumes "decodeFeedMessage eth ctx m polls = Inr (frame, polls')"
  shows "frame_ordered frame"
proof -
  have L2: "sorted_wrt (<) (positions (l2_transactions r))" if "decodeL2Message eth ctx raw 0 (polls, 0) = Inr (r, c)" for raw r c
  proof (cases "length raw \<le> MaxL2MessageSize")
    case True
    then show ?thesis
      using decode_order(1) [OF that] by (simp add: MaxL2MessageSize_def ordered_between_def)
  next
    case False
    then show ?thesis
      using that by (subst (asm) decodeL2Message.simps)
        (auto simp: result_simps no_result_def positions_def MaxL2MessageSize_def split: if_splits)
  qed
  show ?thesis
    using assms L2
    by (auto simp: decodeFeedMessage_def frame_ordered_def empty_frame_def positions_def Let_def result_simps
        split: option.splits if_splits)
qed

lemma decode_messages_ordered:
  "decode_messages eth ctx ms frames report polls = Inr (frames', report') \<Longrightarrow> list_all frame_ordered frames \<Longrightarrow>
     list_all frame_ordered frames'"
proof (induction ms arbitrary: frames report polls)
  case (Cons m ms)
  from Cons(2) obtain q p frame p' where "poll ctx (polls, 0) = Inr (p, q)" "decodeFeedMessage eth ctx m p = Inr (frame, p')"
    "decode_messages eth ctx ms (if frame_kept frame then frames @ [frame] else frames) (report_frame report frame) p'
      = Inr (frames', report')"
    by (auto simp: result_simps)
  then show ?case using Cons(1,3) decodeFeedMessage_ordered by (metis list.pred_inject(1,2) list_all_append)
qed simp

lemma DecodeBroadcastContext_ordered:
  "DecodeBroadcastContext eth unmarshal ctx raw = Inr (frames, report) \<Longrightarrow> list_all frame_ordered frames"
  by (auto simp: DecodeBroadcastContext_def result_simps intro: decode_messages_ordered split: if_splits)

end
