(* ===== verification/Feed_Normalizer.thy ===== *)
theory Feed_Normalizer
  imports Feed_Nitro
begin

text \<open>
  Normalisation of feed transactions (feed-ingestor/internal/normalizer/tx.go), the sequence tracker of the
  relay source (feed-ingestor/internal/sequence/sequence.go) and the ordered decoder of the line source
  (feed-ingestor/internal/decoder/decoder.go). Text is ASCII; reading JSON is a parameter.
\<close>

section \<open>Normalisation\<close>

definition SchemaVersion :: string where
  "SchemaVersion = ''phoenix.v4.normalized_tx.v1''"

record normalized_tx =
  nt_SchemaVersion :: string
  nt_Sequence :: u64
  nt_SourceFeedOrderPosition :: u64
  nt_TimestampUnixMS :: u64
  nt_TxHash :: string
  nt_TxType :: string
  nt_ChainID :: u64
  nt_From :: string
  nt_To :: string
  nt_Nonce :: u64
  nt_Value :: string
  nt_Calldata :: string
  nt_GasLimit :: string
  nt_MaxFeePerGas :: string
  nt_MaxPriorityFeePerGas :: string
  nt_RawTx :: "u8 list"
  nt_IngestedAtUnixNS :: int

definition hex_value :: "char \<Rightarrow> nat option" where
  "hex_value c =
    (let n = of_char c :: nat in
     if 48 \<le> n \<and> n \<le> 57 then Some (n - 48)
     else if 97 \<le> n \<and> n \<le> 102 then Some (n - 87)
     else if 65 \<le> n \<and> n \<le> 70 then Some (n - 55)
     else None)"

text \<open>The standard library's hex decoding: pairs of digits, an odd length or another character is an error.\<close>

fun hex_decode :: "string \<Rightarrow> u8 list option" where
  "hex_decode [] = Some []"
| "hex_decode [c] = None"
| "hex_decode (c # d # s) =
    (case (hex_value c, hex_value d, hex_decode s) of
       (Some h, Some l, Some bs) \<Rightarrow> Some (of_nat (16 * h + l) # bs)
     | _ \<Rightarrow> None)"

definition isHex :: "string \<Rightarrow> nat \<Rightarrow> bool" where
  "isHex v n \<longleftrightarrow> length v = 2 + n * 2 \<and> starts_with ''0x'' v \<and> hex_decode (drop 2 v) \<noteq> None"

definition isHexAddress :: "string \<Rightarrow> bool" where
  "isHexAddress v \<longleftrightarrow> isHex v 20"

definition decodeOptionalHex :: "string \<Rightarrow> string + u8 list" where
  "decodeOptionalHex v =
    (if v = [] \<or> v = ''0x'' then Inr []
     else if \<not> starts_with ''0x'' v then Inl ''hex value missing 0x prefix''
     else ok_or ''invalid hex'' (hex_decode (drop 2 v)))"

definition lowerHex :: "string \<Rightarrow> string" where
  "lowerHex v = (if starts_with ''0x'' v then ''0x'' @ map to_ascii_lower (drop 2 v) else v)"

definition Normalize :: "u64 \<Rightarrow> u64 \<Rightarrow> relay_tx \<Rightarrow> int \<Rightarrow> string + normalized_tx" where
  "Normalize sequence timestampMS tx now =
    (if rt_ChainID tx \<noteq> 42161 then Inl ''unsupported chain id''
     else if \<not> isHexAddress (rt_From tx) then Inl ''invalid from address''
     else if rt_To tx \<noteq> [] \<and> \<not> isHexAddress (rt_To tx) then Inl ''invalid to address''
     else if \<not> isHex (rt_Hash tx) 32 then Inl ''invalid tx hash''
     else and_then (decodeOptionalHex (rt_RawTx tx)) (\<lambda>raw.
       Inr \<lparr>nt_SchemaVersion = SchemaVersion, nt_Sequence = sequence,
         nt_SourceFeedOrderPosition = rt_SourceFeedOrderPosition tx, nt_TimestampUnixMS = timestampMS,
         nt_TxHash = lowerHex (rt_Hash tx), nt_TxType = rt_Type tx, nt_ChainID = rt_ChainID tx,
         nt_From = lowerHex (rt_From tx), nt_To = lowerHex (rt_To tx), nt_Nonce = rt_Nonce tx,
         nt_Value = rt_Value tx, nt_Calldata = lowerHex (rt_Calldata tx), nt_GasLimit = rt_GasLimit tx,
         nt_MaxFeePerGas = rt_MaxFeePerGas tx, nt_MaxPriorityFeePerGas = rt_MaxPriorityFeePerGas tx,
         nt_RawTx = raw, nt_IngestedAtUnixNS = now\<rparr>))"

definition DurableMessageID :: "normalized_tx \<Rightarrow> string" where
  "DurableMessageID tx = dec_string (unat (nt_Sequence tx)) @ '':'' @ nt_TxHash tx"

lemma Normalize_Inr:
  assumes "Normalize sequence ts tx now = Inr n"
  shows "nt_Sequence n = sequence" "nt_SourceFeedOrderPosition n = rt_SourceFeedOrderPosition tx"
    "isHex (rt_Hash tx) 32" "nt_TxHash n = lowerHex (rt_Hash tx)"
  using assms by (auto simp: Normalize_def result_simps split: if_splits)

text \<open>The bytes the decoder writes as text are the bytes the normaliser reads back.\<close>

lemma hex_value_digit: "d < 16 \<Longrightarrow> hex_value (hex_digit d) = Some d"
proof -
  have "\<forall>d \<in> set [0..<16]. hex_value (hex_digit d) = Some d" by code_simp
  then show "d < 16 \<Longrightarrow> ?thesis" by simp
qed

lemma hex_decode_hexLower [simp]: "hex_decode (hexLower bs) = Some bs"
proof (induction bs)
  case (Cons b bs)
  have "unat b < 256" using unat_less_exp [of b] by simp
  then have "hex_value (hex_digit (unat b div 16)) = Some (unat b div 16)"
    "hex_value (hex_digit (unat b mod 16)) = Some (unat b mod 16)"
    by (intro hex_value_digit, simp)+
  then show ?case using Cons by (simp add: hexLower_def)
qed (simp add: hexLower_def)

text \<open>Every transaction the decoder makes of a payload normalises, when go-ethereum writes hashes and addresses in
  hexadecimal, and the payload comes back from its text.\<close>

lemma Normalize_decoded:
  assumes "isHex (et_hash eth tx) 32" "isHexAddress sender" "\<And>a. et_to eth tx = Some a \<Longrightarrow> isHexAddress a"
  shows "\<exists>n. Normalize sequence ts ((relay_tx_of eth raw tx sender)\<lparr>rt_SourceFeedOrderPosition := position\<rparr>) now = Inr n \<and>
    nt_RawTx n = raw \<and> nt_TxHash n = lowerHex (et_hash eth tx) \<and> nt_SourceFeedOrderPosition n = position"
proof -
  have "hexLower raw = [] \<longleftrightarrow> raw = []" by (cases raw) (simp_all add: hexLower_def)
  then have "decodeOptionalHex (''0x'' @ hexLower raw) = Inr raw" by (auto simp: decodeOptionalHex_def starts_with_def)
  then show ?thesis
    using assms by (cases "et_to eth tx") (auto simp: Normalize_def relay_tx_of_def ArbitrumOneChainID_def)
qed

section \<open>The sequence tracker\<close>

datatype seq_event = FirstMessage | InOrder | Duplicate | Gap | Regression | Reconnect

record seq_result =
  sr_Event :: seq_event
  sr_Sequence :: u64
  sr_GapFrom :: u64
  sr_GapTo :: u64
  sr_Missing :: u64
  sr_Reconnected :: bool
  sr_Publishable :: bool

record seq_state =
  ss_lastSequence :: u64
  ss_haveLast :: bool
  ss_unresolvedGap :: bool

definition seq_New :: seq_state where
  "seq_New = \<lparr>ss_lastSequence = 0, ss_haveLast = False, ss_unresolvedGap = False\<rparr>"

definition seq_accept :: "u64 \<Rightarrow> bool \<Rightarrow> seq_state \<Rightarrow> seq_state" where
  "seq_accept sequence unresolvedGap s =
    s\<lparr>ss_lastSequence := sequence, ss_haveLast := True, ss_unresolvedGap := unresolvedGap\<rparr>"

definition seq_result_of :: "seq_event \<Rightarrow> u64 \<Rightarrow> bool \<Rightarrow> bool \<Rightarrow> seq_result" where
  "seq_result_of event sequence reconnected publishable =
    \<lparr>sr_Event = event, sr_Sequence = sequence, sr_GapFrom = 0, sr_GapTo = 0, sr_Missing = 0, sr_Reconnected = reconnected,
     sr_Publishable = publishable\<rparr>"

definition Observe :: "u64 \<Rightarrow> bool \<Rightarrow> seq_state \<Rightarrow> seq_result \<times> seq_state" where
  "Observe sequence afterReconnect s =
    (if \<not> ss_haveLast s then (seq_result_of FirstMessage sequence afterReconnect True, seq_accept sequence False s)
     else if sequence = ss_lastSequence s then (seq_result_of Duplicate sequence afterReconnect False, s)
     else if sequence < ss_lastSequence s then (seq_result_of Regression sequence afterReconnect False, s)
     else let expected = ss_lastSequence s + 1 in
     if sequence = expected then
       (if afterReconnect then seq_result_of Reconnect sequence True True else seq_result_of InOrder sequence False True,
        seq_accept sequence False s)
     else
       ((seq_result_of Gap sequence afterReconnect True)\<lparr>sr_GapFrom := expected, sr_GapTo := sequence - 1,
          sr_Missing := sequence - expected\<rparr>, seq_accept sequence True s))"

definition NextExpected :: "seq_state \<Rightarrow> u64" where
  "NextExpected s = (if \<not> ss_haveLast s then 0 else ss_lastSequence s + 1)"

definition LastSequence :: "seq_state \<Rightarrow> u64 \<times> bool" where
  "LastSequence s = (ss_lastSequence s, ss_haveLast s)"

definition HasUnresolvedGap :: "seq_state \<Rightarrow> bool" where
  "HasUnresolvedGap s = ss_unresolvedGap s"

text \<open>A message is publishable exactly when it is the first or newer than the last one, which then becomes the
  last; the numbers it reports missing are those between the two.\<close>

lemma Observe_publishable:
  assumes "Observe sequence reconnected s = (r, s')"
  shows "sr_Publishable r \<longleftrightarrow> \<not> ss_haveLast s \<or> ss_lastSequence s < sequence"
    and "sr_Publishable r \<Longrightarrow> ss_haveLast s' \<and> ss_lastSequence s' = sequence"
    and "\<not> sr_Publishable r \<Longrightarrow> s' = s"
    and "sr_Publishable r \<longleftrightarrow> sr_Event r \<noteq> Duplicate \<and> sr_Event r \<noteq> Regression"
  using assms by (auto simp: Observe_def seq_result_of_def seq_accept_def Let_def not_less_iff_gr_or_eq split: if_splits)

lemma Observe_missing:
  assumes "Observe sequence reconnected s = (r, s')"
  shows "unat (sr_Missing r) =
    (if sr_Event r = Gap then unat sequence - unat (ss_lastSequence s) - 1 else 0)"
    and "sr_Publishable r \<Longrightarrow> ss_haveLast s \<Longrightarrow> sr_Event r \<noteq> Gap \<Longrightarrow> unat sequence = Suc (unat (ss_lastSequence s))"
    and "sr_Event r = Gap \<Longrightarrow> ss_haveLast s \<and> Suc (unat (ss_lastSequence s)) < unat sequence"
proof (atomize (full), cases "ss_haveLast s \<and> ss_lastSequence s < sequence")
  case True
  then have less: "unat (ss_lastSequence s) < unat sequence" by (simp add: word_less_nat_alt)
  then have step: "unat (ss_lastSequence s + 1) = Suc (unat (ss_lastSequence s))"
    using unat_less_exp [of sequence] by (simp add: unat_word_ariths)
  have "Suc (unat (ss_lastSequence s)) \<noteq> unat sequence" if "sequence \<noteq> ss_lastSequence s + 1"
    using step that by (metis word_unat_eq_iff)
  moreover have "unat (sequence - (ss_lastSequence s + 1)) = unat sequence - Suc (unat (ss_lastSequence s))"
    using less step by (subst unat_sub_exact) (simp_all add: word_le_nat_alt)
  ultimately show "unat (sr_Missing r) = (if sr_Event r = Gap then unat sequence - unat (ss_lastSequence s) - 1 else 0) \<and>
      (sr_Publishable r \<longrightarrow> ss_haveLast s \<longrightarrow> sr_Event r \<noteq> Gap \<longrightarrow> unat sequence = Suc (unat (ss_lastSequence s))) \<and>
      (sr_Event r = Gap \<longrightarrow> ss_haveLast s \<and> Suc (unat (ss_lastSequence s)) < unat sequence)"
    using assms True less step by (auto simp: Observe_def seq_result_of_def Let_def split: if_splits)
next
  case False
  then show "unat (sr_Missing r) = (if sr_Event r = Gap then unat sequence - unat (ss_lastSequence s) - 1 else 0) \<and>
      (sr_Publishable r \<longrightarrow> ss_haveLast s \<longrightarrow> sr_Event r \<noteq> Gap \<longrightarrow> unat sequence = Suc (unat (ss_lastSequence s))) \<and>
      (sr_Event r = Gap \<longrightarrow> ss_haveLast s \<and> Suc (unat (ss_lastSequence s)) < unat sequence)"
    using assms by (auto simp: Observe_def seq_result_of_def Let_def split: if_splits)
qed

section \<open>The ordered decoder\<close>

record relay_frame =
  rf_Sequence :: u64
  rf_TimestampUnixMS :: u64
  rf_Transactions :: "relay_tx list"

record decode_result =
  de_Transactions :: "normalized_tx list"
  de_Sequence :: u64
  de_TimestampUnixMS :: u64
  de_Duplicate :: bool
  de_Gap :: bool
  de_GapFrom :: u64
  de_GapTo :: u64

record ordered_decoder =
  od_lastSequence :: u64
  od_haveLast :: bool
  od_seen :: "u64 set"

definition no_decode :: decode_result where
  "no_decode = \<lparr>de_Transactions = [], de_Sequence = 0, de_TimestampUnixMS = 0, de_Duplicate = False, de_Gap = False,
     de_GapFrom = 0, de_GapTo = 0\<rparr>"

text \<open>The clock is read once for each transaction.\<close>

fun normalize_all :: "u64 \<Rightarrow> u64 \<Rightarrow> (nat \<Rightarrow> int) \<Rightarrow> nat \<Rightarrow> relay_tx list \<Rightarrow> string + normalized_tx list" where
  "normalize_all sequence ts now i [] = Inr []"
| "normalize_all sequence ts now i (tx # txs) =
    and_then (Normalize sequence ts tx (now i)) (\<lambda>n.
    and_then (normalize_all sequence ts now (Suc i) txs) (\<lambda>ns. Inr (n # ns)))"

definition DecodeJSONFrame ::
  "(u8 list \<Rightarrow> string + relay_frame) \<Rightarrow> (nat \<Rightarrow> int) \<Rightarrow> u8 list \<Rightarrow> ordered_decoder
   \<Rightarrow> string + decode_result \<times> ordered_decoder" where
  "DecodeJSONFrame unmarshal now raw d =
    and_then (unmarshal raw) (\<lambda>frame.
    if rf_Sequence frame = 0 then Inl ''missing sequence''
    else if rf_Sequence frame \<in> od_seen d then Inr (no_decode\<lparr>de_Duplicate := True\<rparr>, d)
    else
    let r = no_decode\<lparr>de_Sequence := rf_Sequence frame, de_TimestampUnixMS := rf_TimestampUnixMS frame\<rparr>;
        r = (if od_haveLast d \<and> od_lastSequence d + 1 < rf_Sequence frame
             then r\<lparr>de_Gap := True, de_GapFrom := od_lastSequence d + 1, de_GapTo := rf_Sequence frame - 1\<rparr> else r)
    in
    and_then (normalize_all (rf_Sequence frame) (rf_TimestampUnixMS frame) now 0 (rf_Transactions frame)) (\<lambda>normalized.
    Inr (r\<lparr>de_Transactions := normalized\<rparr>,
      d\<lparr>od_seen := insert (rf_Sequence frame) (od_seen d), od_lastSequence := rf_Sequence frame, od_haveLast := True\<rparr>)))"

lemma normalize_all_sequence:
  "normalize_all sequence ts now i txs = Inr ns \<Longrightarrow> list_all (\<lambda>n. nt_Sequence n = sequence) ns"
proof (induction txs arbitrary: i ns)
  case (Cons tx txs)
  then show ?case using Normalize_Inr(1) by (fastforce simp: result_simps)
qed simp

text \<open>A frame is decoded at most once: its transactions carry a sequence number that was not seen before and is
  seen afterwards, and a frame that is refused leaves the decoder as it was.\<close>

lemma DecodeJSONFrame_once:
  assumes "DecodeJSONFrame unmarshal now raw d = Inr (r, d')"
  shows "od_seen d \<subseteq> od_seen d'"
    and "n \<in> set (de_Transactions r) \<Longrightarrow> nt_Sequence n \<notin> od_seen d \<and> nt_Sequence n \<in> od_seen d'"
  using assms normalize_all_sequence
  by (auto simp: DecodeJSONFrame_def result_simps Let_def no_decode_def list_all_iff split: if_splits)

end
