(* ===== verification/Feed_Pipeline.thy ===== *)
theory Feed_Pipeline
  imports Feed_Normalizer
begin

text \<open>
  The relay source of the feed ingestor: the JetStream publisher with its bounded retries
  (feed-ingestor/internal/publisher/nats.go), the readiness of the process
  (feed-ingestor/internal/metrics/metrics.go) and the loop that decodes, tracks, normalises and publishes
  (feed-ingestor/cmd/feed-ingestor/main.go). What the stream, the clock and the feed do is a parameter; the
  metrics are the list of updates of the registry in order, and the log the list of issues reported.
\<close>

section \<open>The publisher\<close>

definition StreamName :: string where "StreamName = ''PHOENIX_FEED_TX''"
definition PublishMaxAttempts :: nat where "PublishMaxAttempts = 3"
definition PublishMaxMessageIDBytes :: nat where "PublishMaxMessageIDBytes = 128"

datatype publish_error =
    ErrStreamUnavailable
  | ErrPublishAckTimeout
  | ErrPublishAckUnavailable
  | ErrInvalidPublishAck
  | ErrPublishIdentity

record pub_ack =
  ack_Stream :: string
  ack_Sequence :: u64
  ack_Duplicate :: bool

datatype api_error = AE_DeadlineExceeded | AE_StreamNotFound | AE_NoStreamResponse | AE_JetStreamNotEnabled | AE_Other

text \<open>What happens at one attempt: whether the wait before it completed or ended on the deadline of the budget,
  the answer of the stream, and whether the contexts of the attempt and of the budget are done after it.\<close>

record pub_attempt =
  pa_waited :: bool
  pa_wait_deadline :: bool
  pa_answer :: "api_error + pub_ack option"
  pa_attempt_deadline :: bool
  pa_budget_done :: bool

datatype publish_event =
    AckTimeoutRetry nat
  | RecoveredNormal nat
  | RecoveredDuplicate nat
  | RetryExhausted nat

definition is_go_space :: "char \<Rightarrow> bool" where
  "is_go_space c \<longleftrightarrow> (of_char c :: nat) \<in> {9, 10, 11, 12, 13, 32}"

definition trimmed :: "string \<Rightarrow> bool" where
  "trimmed s \<longleftrightarrow> s = [] \<or> \<not> is_go_space (hd s) \<and> \<not> is_go_space (last s)"

definition validMessageID :: "string \<Rightarrow> bool" where
  "validMessageID messageID \<longleftrightarrow>
     (let separator = length (takeWhile (\<lambda>c. c \<noteq> CHR '':'') messageID) in
      separator < length messageID \<and> 0 < separator \<and> separator < length messageID - 1 \<and>
      length messageID \<le> PublishMaxMessageIDBytes \<and> trimmed messageID \<and>
      list_all (\<lambda>c. (of_char c :: nat) \<notin> {32, 9, 13, 10}) messageID)"

definition ack_valid :: "pub_ack option \<Rightarrow> bool" where
  "ack_valid ack = (case ack of None \<Rightarrow> False | Some a \<Rightarrow> ack_Stream a = StreamName \<and> ack_Sequence a \<noteq> 0)"

definition stream_missing :: "api_error \<Rightarrow> bool" where
  "stream_missing e \<longleftrightarrow> e \<in> {AE_StreamNotFound, AE_NoStreamResponse, AE_JetStreamNotEnabled}"

definition attempt_timed_out :: "pub_attempt \<Rightarrow> bool" where
  "attempt_timed_out a \<longleftrightarrow> pa_attempt_deadline a \<or> pa_answer a = Inl AE_DeadlineExceeded"

text \<open>The retry loop from an attempt on; it returns the error, if any, the events and how many attempts were sent.\<close>

function publish_loop ::
  "nat \<Rightarrow> (nat \<Rightarrow> pub_attempt) \<Rightarrow> nat \<Rightarrow> bool \<Rightarrow> publish_event list \<Rightarrow> publish_error option \<times> publish_event list \<times> nat" where
  "publish_loop maxAttempts env attempt sawTimeout events =
    (if maxAttempts < attempt then (Some ErrPublishAckTimeout, events @ [RetryExhausted maxAttempts], attempt - 1)
     else let a = env attempt in
     if 1 < attempt \<and> \<not> pa_waited a then
       if pa_wait_deadline a then (Some ErrPublishAckTimeout, events @ [RetryExhausted (attempt - 1)], attempt - 1)
       else (Some ErrPublishAckUnavailable, events, attempt - 1)
     else case pa_answer a of
       Inl e \<Rightarrow>
         if attempt_timed_out a then
           if attempt < maxAttempts \<and> \<not> pa_budget_done a then
             publish_loop maxAttempts env (attempt + 1) True (events @ [AckTimeoutRetry attempt])
           else (Some ErrPublishAckTimeout, events @ [RetryExhausted attempt], attempt)
         else if stream_missing e then (Some ErrStreamUnavailable, events, attempt)
         else (Some ErrPublishAckUnavailable, events, attempt)
     | Inr ack \<Rightarrow>
         if \<not> ack_valid ack then (Some ErrInvalidPublishAck, events, attempt)
         else
           (None,
            events @ (if \<not> sawTimeout then []
              else if ack_Duplicate (the ack) then [RecoveredDuplicate attempt] else [RecoveredNormal attempt]),
            attempt))"
  by pat_completeness auto
termination by (relation "measure (\<lambda>(m, e, a, s, x). Suc m - a)") auto

definition Publish ::
  "(normalized_tx \<Rightarrow> u8 list option) \<Rightarrow> (nat \<Rightarrow> pub_attempt) \<Rightarrow> normalized_tx
   \<Rightarrow> publish_error option \<times> publish_event list \<times> nat" where
  "Publish marshal env tx =
    (if \<not> validMessageID (DurableMessageID tx) then (Some ErrPublishIdentity, [], 0)
     else if marshal tx = None then (Some ErrPublishAckUnavailable, [], 0)
     else publish_loop PublishMaxAttempts env 1 False [])"

lemmas [simp del] = publish_loop.simps

text \<open>A publication succeeds only with an acknowledgement of the stream for the attempt it ended at, which is
  one of at most three.\<close>

lemma publish_loop_ack:
  assumes "publish_loop m env attempt saw events = (None, es, sent)"
  shows "attempt \<le> sent \<and> sent \<le> m \<and> (\<exists>ack. pa_answer (env sent) = Inr (Some ack) \<and> ack_Stream ack = StreamName)"
  using assms
proof (induction m env attempt saw events rule: publish_loop.induct)
  case (1 m env attempt saw events)
  then show ?case
    by (subst (asm) (2) publish_loop.simps)
      (force simp: Let_def ack_valid_def split: if_splits sum.splits option.splits)
qed

lemma Publish_ack:
  assumes "Publish marshal env tx = (None, es, sent)"
  shows "1 \<le> sent \<and> sent \<le> PublishMaxAttempts \<and> (\<exists>ack. pa_answer (env sent) = Inr (Some ack) \<and> ack_Stream ack = StreamName)"
  using assms publish_loop_ack [of PublishMaxAttempts env 1] by (auto simp: Publish_def split: if_splits)

section \<open>Readiness\<close>

record readiness =
  rd_sourceInitialized :: bool
  rd_adapterInitialized :: bool
  rd_sourceConnected :: bool
  rd_successfulPublish :: bool
  rd_sequenceKnown :: bool
  rd_unresolvedGap :: bool
  rd_natsReachable :: bool
  rd_integrityFailure :: string
  rd_fatal :: string

definition new_readiness :: readiness where
  "new_readiness = \<lparr>rd_sourceInitialized = False, rd_adapterInitialized = False, rd_sourceConnected = False,
     rd_successfulPublish = False, rd_sequenceKnown = False, rd_unresolvedGap = False, rd_natsReachable = False,
     rd_integrityFailure = [], rd_fatal = []\<rparr>"

definition MarkSourceInitialized :: "readiness \<Rightarrow> readiness" where
  "MarkSourceInitialized r = r\<lparr>rd_sourceInitialized := True\<rparr>"

definition MarkAdapterInitialized :: "readiness \<Rightarrow> readiness" where
  "MarkAdapterInitialized r = r\<lparr>rd_adapterInitialized := True\<rparr>"

definition MarkSourceConnected :: "readiness \<Rightarrow> readiness" where
  "MarkSourceConnected r = r\<lparr>rd_sourceConnected := True\<rparr>"

definition MarkSourceDisconnected :: "readiness \<Rightarrow> readiness" where
  "MarkSourceDisconnected r = r\<lparr>rd_sourceConnected := False, rd_sequenceKnown := False\<rparr>"

definition MarkSuccessfulPublish :: "readiness \<Rightarrow> readiness" where
  "MarkSuccessfulPublish r = r\<lparr>rd_successfulPublish := True, rd_sequenceKnown := True\<rparr>"

definition MarkSequenceKnown :: "readiness \<Rightarrow> readiness" where
  "MarkSequenceKnown r = r\<lparr>rd_sequenceKnown := True\<rparr>"

definition MarkSequenceGap :: "readiness \<Rightarrow> readiness" where
  "MarkSequenceGap r = r\<lparr>rd_unresolvedGap := True\<rparr>"

definition ClearSequenceGap :: "readiness \<Rightarrow> readiness" where
  "ClearSequenceGap r = r\<lparr>rd_unresolvedGap := False\<rparr>"

definition MarkNATSReachable :: "readiness \<Rightarrow> readiness" where
  "MarkNATSReachable r = r\<lparr>rd_natsReachable := True\<rparr>"

definition MarkNATSUnavailable :: "readiness \<Rightarrow> readiness" where
  "MarkNATSUnavailable r = r\<lparr>rd_natsReachable := False\<rparr>"

definition MarkIntegrityFailure :: "string \<Rightarrow> readiness \<Rightarrow> readiness" where
  "MarkIntegrityFailure reason r = (if rd_integrityFailure r = [] then r\<lparr>rd_integrityFailure := reason\<rparr> else r)"

definition MarkFatal :: "string \<Rightarrow> readiness \<Rightarrow> readiness" where
  "MarkFatal reason r = r\<lparr>rd_fatal := reason\<rparr>"

definition Ready :: "readiness \<Rightarrow> bool \<times> string" where
  "Ready r =
    (if rd_fatal r \<noteq> [] then (False, rd_fatal r)
     else if rd_integrityFailure r \<noteq> [] then (False, rd_integrityFailure r)
     else if \<not> rd_sourceInitialized r then (False, ''source not initialized'')
     else if \<not> rd_adapterInitialized r then (False, ''feed adapter not initialized'')
     else if \<not> rd_sourceConnected r then (False, ''feed source not connected'')
     else if \<not> rd_natsReachable r then (False, ''NATS not reachable'')
     else if \<not> rd_successfulPublish r then (False, ''no successful feed transaction published'')
     else if \<not> rd_sequenceKnown r then (False, ''feed sequence unknown'')
     else if rd_unresolvedGap r then (False, ''unresolved feed sequence gap'')
     else (True, ''ready''))"

lemmas mark_defs = MarkSourceInitialized_def MarkAdapterInitialized_def MarkSourceConnected_def MarkSourceDisconnected_def
  MarkSuccessfulPublish_def MarkSequenceKnown_def MarkSequenceGap_def ClearSequenceGap_def MarkNATSReachable_def
  MarkNATSUnavailable_def MarkIntegrityFailure_def MarkFatal_def

section \<open>Processing a frame\<close>

datatype gauge = G_Bool bool | G_U64 u64 | G_Now

datatype metric =
    M_Inc string
  | M_Add string nat
  | M_Gauge string gauge
  | M_UnsupportedKind message_kind
  | M_IgnoredKind message_kind
  | M_JetStreamLatency
  | M_IngestLatency

datatype issue = I_Payload string u64 string | I_Sequence seq_result

record ingest =
  ig_sequence :: seq_state
  ig_readiness :: readiness
  ig_metrics :: "metric list"
  ig_issues :: "issue list"
  ig_calls :: nat
  ig_published :: "normalized_tx list"

definition count :: "metric list \<Rightarrow> ingest \<Rightarrow> ingest" where
  "count ms st = st\<lparr>ig_metrics := ig_metrics st @ ms\<rparr>"

definition report :: "issue list \<Rightarrow> ingest \<Rightarrow> ingest" where
  "report xs st = st\<lparr>ig_issues := ig_issues st @ xs\<rparr>"

definition mark :: "(readiness \<Rightarrow> readiness) \<Rightarrow> ingest \<Rightarrow> ingest" where
  "mark f st = st\<lparr>ig_readiness := f (ig_readiness st)\<rparr>"

definition readinessGauge :: "ingest \<Rightarrow> ingest" where
  "readinessGauge st = count [M_Gauge ''feed_readiness'' (G_Bool (fst (Ready (ig_readiness st))))] st"

definition recordFrameIssues :: "nitro_frame \<Rightarrow> ingest \<Rightarrow> ingest" where
  "recordFrameIssues frame st =
    report (map (I_Payload ''unsupported'' (fr_Sequence frame)) (fr_Unsupported frame)
        @ map (I_Payload ''malformed'' (fr_Sequence frame)) (fr_Malformed frame)
        @ map (I_Payload ''ignored'' (fr_Sequence frame)) (fr_Ignored frame))
      (count ([M_Add ''feed_unsupported_messages_total'' (length (fr_Unsupported frame)),
          M_Add ''feed_decode_failures_total'' (length (fr_Malformed frame)),
          M_Add ''feed_ignored_messages_total'' (length (fr_Ignored frame))]
        @ map M_UnsupportedKind (fr_UnsupportedKinds frame) @ map M_IgnoredKind (fr_IgnoredKinds frame)) st)"

definition recordSequenceGap :: "u64 \<Rightarrow> ingest \<Rightarrow> ingest" where
  "recordSequenceGap missing st =
    count [M_Inc ''feed_sequence_gaps_total'', M_Add ''feed_sequence_gap_messages_total'' (unat missing),
      M_Add ''feed_missing_sequences_total'' (unat missing), M_Gauge ''feed_last_gap_timestamp_seconds'' G_Now,
      M_Gauge ''feed_data_completeness'' (G_Bool False)] st"

text \<open>The transactions of a frame that normalise, in order, and the reasons of the others.\<close>

fun normalize_loop ::
  "u64 \<Rightarrow> u64 \<Rightarrow> (nat \<Rightarrow> int) \<Rightarrow> nat \<Rightarrow> relay_tx list \<Rightarrow> normalized_tx list \<times> string list" where
  "normalize_loop sequence ts now i [] = ([], [])"
| "normalize_loop sequence ts now i (tx # txs) =
    (let (ns, fs) = normalize_loop sequence ts now (Suc i) txs in
     case Normalize sequence ts tx (now i) of
       Inl e \<Rightarrow> (ns, (''normalize transaction '' @ dec_string i @ '': '' @ e) # fs)
     | Inr n \<Rightarrow> (n # ns, fs))"

definition normalizeRelayTransactions :: "(nat \<Rightarrow> int) \<Rightarrow> nitro_frame \<Rightarrow> normalized_tx list \<times> string list" where
  "normalizeRelayTransactions now frame = normalize_loop (fr_Sequence frame) (fr_TimestampUnixMS frame) now 0 (fr_Transactions frame)"

type_synonym network = "nat \<Rightarrow> nat \<Rightarrow> pub_attempt"
type_synonym marshal = "normalized_tx \<Rightarrow> u8 list option"

fun jetStreamPublishStateHandler :: "publish_event \<Rightarrow> metric" where
  "jetStreamPublishStateHandler (AckTimeoutRetry n) = M_Inc ''feed_jetstream_publish_ack_timeout_retries_total''"
| "jetStreamPublishStateHandler (RecoveredNormal n) = M_Inc ''feed_jetstream_publish_recovered_normal_total''"
| "jetStreamPublishStateHandler (RecoveredDuplicate n) = M_Inc ''feed_jetstream_publish_recovered_duplicate_total''"
| "jetStreamPublishStateHandler (RetryExhausted n) = M_Inc ''feed_jetstream_publish_retry_exhausted_total''"

fun publishTransactions ::
  "marshal \<Rightarrow> network \<Rightarrow> normalized_tx list \<Rightarrow> ingest \<Rightarrow> publish_error option \<times> nat \<times> ingest" where
  "publishTransactions marshal net [] st = (None, 0, st)"
| "publishTransactions marshal net (tx # txs) st =
    (let (err, events, _) = Publish marshal (net (ig_calls st)) tx;
         st = count (map jetStreamPublishStateHandler events) (st\<lparr>ig_calls := Suc (ig_calls st)\<rparr>) in
     case err of
       Some e \<Rightarrow>
         (Some e, 0, count ([M_Inc ''feed_publish_failures_total'', M_Inc ''feed_jetstream_publish_failures_total'']
           @ (if e = ErrStreamUnavailable then [M_Inc ''feed_jetstream_stream_unavailable_total''] else [])) st)
     | None \<Rightarrow>
         let st = count [M_Inc ''feed_publish_success_total'', M_Inc ''feed_jetstream_publish_success_total'',
               M_JetStreamLatency, M_IngestLatency] (st\<lparr>ig_published := ig_published st @ [tx]\<rparr>);
             (err, published, st) = publishTransactions marshal net txs st
         in (err, Suc published, st))"

definition publishAndUpdateReadiness ::
  "marshal \<Rightarrow> network \<Rightarrow> normalized_tx list \<Rightarrow> ingest \<Rightarrow> publish_error option \<times> ingest" where
  "publishAndUpdateReadiness marshal net txs st =
    (let (err, published, st) = publishTransactions marshal net txs st in
     case err of
       Some e \<Rightarrow> (Some e, readinessGauge (mark MarkNATSUnavailable st))
     | None \<Rightarrow> (None, readinessGauge (if 0 < published then mark MarkSuccessfulPublish st else st)))"

definition commitRelaySequence :: "seq_state \<Rightarrow> nitro_frame \<Rightarrow> ingest \<Rightarrow> ingest" where
  "commitRelaySequence candidate frame st =
    (let st = st\<lparr>ig_sequence := candidate\<rparr>;
         st = (if HasUnresolvedGap candidate
               then count [M_Gauge ''feed_data_completeness'' (G_Bool False)] (mark MarkSequenceGap st)
               else count [M_Gauge ''feed_data_completeness'' (G_Bool True)] (mark ClearSequenceGap st));
         st = mark MarkSequenceKnown st
     in readinessGauge (count [M_Gauge ''feed_last_sequence'' (G_U64 (fr_Sequence frame)),
          M_Gauge ''feed_last_message_timestamp'' (G_U64 (fr_TimestampUnixMS frame))] st))"

text \<open>What follows the observation of a publishable frame.\<close>

definition publish_frame ::
  "marshal \<Rightarrow> network \<Rightarrow> (nat \<Rightarrow> int) \<Rightarrow> seq_state \<Rightarrow> nitro_frame \<Rightarrow> ingest \<Rightarrow> publish_error option \<times> ingest" where
  "publish_frame marshal net now candidate frame st =
    (let (normalized, failures) = normalizeRelayTransactions now frame;
         st = count [M_Add ''feed_decode_failures_total'' (length failures)] st;
         st = (if failures \<noteq> [] then mark (MarkIntegrityFailure ''normalized Nitro transaction integrity failure'') st else st);
         st = report (map (I_Payload ''malformed'' (fr_Sequence frame)) failures) st;
         st = count [M_Add ''feed_normalized_transactions_total'' (length normalized)] st
     in if normalized = [] then (None, commitRelaySequence candidate frame st)
        else
          let (err, st) = publishAndUpdateReadiness marshal net normalized st
          in case err of Some e \<Rightarrow> (Some e, st) | None \<Rightarrow> (None, commitRelaySequence candidate frame st))"

definition processRelayFrame ::
  "marshal \<Rightarrow> network \<Rightarrow> (nat \<Rightarrow> int) \<Rightarrow> nitro_frame \<Rightarrow> bool \<Rightarrow> ingest \<Rightarrow> publish_error option \<times> ingest" where
  "processRelayFrame marshal net now frame afterReconnect st =
    (let st = recordFrameIssues frame st;
         st = (if fr_Malformed frame \<noteq> [] then mark (MarkIntegrityFailure ''malformed Nitro feed message'') st else st);
         (observation, candidate) = Observe (fr_Sequence frame) afterReconnect (ig_sequence st)
     in case sr_Event observation of
       Duplicate \<Rightarrow>
         (None, readinessGauge (report [I_Sequence observation]
           (count [M_Inc ''feed_duplicates_total'', M_Inc ''feed_sequence_duplicates_total''] st)))
     | Regression \<Rightarrow>
         (None, count [M_Gauge ''feed_readiness'' (G_Bool False)] (report [I_Sequence observation]
           (mark (MarkIntegrityFailure ''Nitro feed sequence regression'')
             (count [M_Inc ''feed_out_of_order_total'', M_Inc ''feed_sequence_regressions_total''] st))))
     | Gap \<Rightarrow>
         publish_frame marshal net now candidate frame
           (report [I_Sequence observation] (mark MarkSequenceGap (recordSequenceGap (sr_Missing observation) st)))
     | Reconnect \<Rightarrow> publish_frame marshal net now candidate frame (report [I_Sequence observation] st)
     | _ \<Rightarrow> publish_frame marshal net now candidate frame st)"

section \<open>The relay loop\<close>

record relay_message =
  rm_Data :: "u8 list"
  rm_AfterReconnect :: bool
  rm_Context :: go_context
  rm_ContextAfter :: "string option"

datatype relay_event = RelayConnected | RelayDisconnected | RelayReconnectAttempt

text \<open>What the source delivers: a change of its connection, a message, or the error that ends it; a change of
  the connection to the stream is reported between two of them.\<close>

datatype source_step = S_Event relay_event | S_Jetstream bool | S_Message relay_message | S_Error string

text \<open>The connection to the stream is lost or is back.\<close>

definition jetStreamConnectionHandler :: "bool \<Rightarrow> ingest \<Rightarrow> ingest" where
  "jetStreamConnectionHandler connected st =
    (if connected then readinessGauge (mark MarkNATSReachable st)
     else count [M_Gauge ''feed_readiness'' (G_Bool False)] (mark MarkNATSUnavailable st))"

fun relayLifecycleHandler :: "relay_event \<Rightarrow> ingest \<Rightarrow> ingest" where
  "relayLifecycleHandler RelayConnected st = count [M_Inc ''feed_connections_total''] (mark MarkSourceConnected st)"
| "relayLifecycleHandler RelayDisconnected st =
    count [M_Gauge ''feed_data_completeness'' (G_Bool False), M_Gauge ''feed_readiness'' (G_Bool False)]
      (mark MarkSourceDisconnected st)"
| "relayLifecycleHandler RelayReconnectAttempt st =
    count [M_Gauge ''feed_data_completeness'' (G_Bool False), M_Gauge ''feed_readiness'' (G_Bool False),
      M_Inc ''feed_reconnects_total''] (mark MarkSourceDisconnected st)"

definition recordRelayDecodeFailure :: "string \<Rightarrow> ingest \<Rightarrow> ingest" where
  "recordRelayDecodeFailure e st =
    report [I_Payload ''malformed'' 0 (''decode Nitro broadcast: '' @ e)]
      (count [M_Gauge ''feed_readiness'' (G_Bool False)]
        (mark (MarkIntegrityFailure ''Nitro broadcast decoding integrity failure'')
          (count [M_Inc ''feed_decode_failures_total''] st)))"

text \<open>The flag of a reconnection waits for the first frame after it.\<close>

fun process_frames ::
  "marshal \<Rightarrow> network \<Rightarrow> (nat \<Rightarrow> int) \<Rightarrow> nitro_frame list \<Rightarrow> bool \<Rightarrow> ingest \<Rightarrow> publish_error option \<times> bool \<times> ingest" where
  "process_frames marshal net now [] pending st = (None, pending, st)"
| "process_frames marshal net now (frame # frames) pending st =
    (case processRelayFrame marshal net now frame pending st of
       (Some e, st) \<Rightarrow> (Some e, False, st)
     | (None, st) \<Rightarrow> process_frames marshal net now frames False st)"

datatype relay_end = Running | SourceFailed string | Cancelled string | PublishFailed publish_error

fun runRelaySource ::
  "'t ethereum \<Rightarrow> (u8 list \<Rightarrow> string + broadcast_message) \<Rightarrow> marshal \<Rightarrow> network \<Rightarrow> (nat \<Rightarrow> int)
   \<Rightarrow> source_step list \<Rightarrow> bool \<Rightarrow> ingest \<Rightarrow> relay_end \<times> ingest" where
  "runRelaySource eth unmarshal marshal net now [] pending st = (Running, st)"
| "runRelaySource eth unmarshal marshal net now (S_Error e # steps) pending st = (SourceFailed e, mark (MarkFatal e) st)"
| "runRelaySource eth unmarshal marshal net now (S_Event e # steps) pending st =
    runRelaySource eth unmarshal marshal net now steps pending (relayLifecycleHandler e st)"
| "runRelaySource eth unmarshal marshal net now (S_Jetstream c # steps) pending st =
    runRelaySource eth unmarshal marshal net now steps pending (jetStreamConnectionHandler c st)"
| "runRelaySource eth unmarshal marshal net now (S_Message m # steps) pending st =
    (let st = count [M_Inc ''feed_messages_total''] st; pending = (rm_AfterReconnect m \<or> pending) in
     case DecodeBroadcastContext eth unmarshal (rm_Context m) (rm_Data m) of
       Inl e \<Rightarrow>
         (case rm_ContextAfter m of
            Some e \<Rightarrow> (Cancelled e, st)
          | None \<Rightarrow> runRelaySource eth unmarshal marshal net now steps pending (recordRelayDecodeFailure e st))
     | Inr (frames, _) \<Rightarrow>
         (case process_frames marshal net now frames pending st of
            (Some e, _, st) \<Rightarrow> (PublishFailed e, st)
          | (None, pending, st) \<Rightarrow> runRelaySource eth unmarshal marshal net now steps pending (readinessGauge st)))"

definition relay_start :: ingest where
  "relay_start = \<lparr>ig_sequence = seq_New,
     ig_readiness = MarkAdapterInitialized (MarkSourceInitialized (MarkNATSReachable new_readiness)),
     ig_metrics = [], ig_issues = [], ig_calls = 0, ig_published = []\<rparr>"

end
