(* ===== verification/Feed_Relay.thy ===== *)
theory Feed_Relay
  imports Feed_Pipeline
begin

text \<open>
  What the relay loop guarantees: a sequence number is committed only when every transaction of its frame has
  been acknowledged, transactions are published in the order of the feed and none twice, every sequence
  number between the first and the last is committed or counted as missing, and an integrity failure keeps
  the process unready.
\<close>

section \<open>What each step keeps\<close>

lemma count_simps [simp]:
  "ig_sequence (count ms st) = ig_sequence st" "ig_published (count ms st) = ig_published st"
  "ig_readiness (count ms st) = ig_readiness st" "ig_metrics (count ms st) = ig_metrics st @ ms"
  by (simp_all add: count_def)

lemma report_simps [simp]:
  "ig_sequence (report xs st) = ig_sequence st" "ig_published (report xs st) = ig_published st"
  "ig_readiness (report xs st) = ig_readiness st" "ig_metrics (report xs st) = ig_metrics st"
  by (simp_all add: report_def)

lemma mark_simps [simp]:
  "ig_sequence (mark f st) = ig_sequence st" "ig_published (mark f st) = ig_published st"
  "ig_readiness (mark f st) = f (ig_readiness st)" "ig_metrics (mark f st) = ig_metrics st"
  by (simp_all add: mark_def)

lemma readinessGauge_simps [simp]:
  "ig_sequence (readinessGauge st) = ig_sequence st" "ig_published (readinessGauge st) = ig_published st"
  "ig_readiness (readinessGauge st) = ig_readiness st"
  "ig_metrics (readinessGauge st) = ig_metrics st @ [M_Gauge ''feed_readiness'' (G_Bool (fst (Ready (ig_readiness st))))]"
  by (simp_all add: readinessGauge_def)

lemma recordFrameIssues_simps [simp]:
  "ig_sequence (recordFrameIssues frame st) = ig_sequence st" "ig_published (recordFrameIssues frame st) = ig_published st"
  "ig_readiness (recordFrameIssues frame st) = ig_readiness st"
  by (simp_all add: recordFrameIssues_def)

lemma recordSequenceGap_simps [simp]:
  "ig_sequence (recordSequenceGap n st) = ig_sequence st" "ig_published (recordSequenceGap n st) = ig_published st"
  "ig_readiness (recordSequenceGap n st) = ig_readiness st"
  by (simp_all add: recordSequenceGap_def)

lemma commit_simps [simp]:
  "ig_sequence (commitRelaySequence c frame st) = c" "ig_published (commitRelaySequence c frame st) = ig_published st"
  by (simp_all add: commitRelaySequence_def Let_def)

section \<open>Publication\<close>

text \<open>The publication of a list stops at the first failure, with everything before it acknowledged.\<close>

lemma publishTransactions_prefix:
  assumes "publishTransactions marshal net txs st = (err, n, st')"
  shows "ig_published st' = ig_published st @ take n txs \<and> ig_sequence st' = ig_sequence st \<and>
    (if err = None then n = length txs else n < length txs)"
  using assms
proof (induction txs arbitrary: st err n st')
  case (Cons tx txs)
  obtain e ev sent where p: "Publish marshal (net (ig_calls st)) tx = (e, ev, sent)" by (metis prod_cases3)
  show ?case
  proof (cases e)
    case None
    let ?st = "count [M_Inc ''feed_publish_success_total'', M_Inc ''feed_jetstream_publish_success_total'',
        M_JetStreamLatency, M_IngestLatency] (count (map jetStreamPublishStateHandler ev)
          (st\<lparr>ig_calls := Suc (ig_calls st)\<rparr>)\<lparr>ig_published := ig_published st @ [tx]\<rparr>)"
    obtain n' where "publishTransactions marshal net txs ?st = (err, n', st')" "n = Suc n'"
      using Cons(2) p None by (auto simp: Let_def split: prod.splits)
    then show ?thesis using Cons(1) [of ?st err n' st'] by (simp split: if_splits)
  next
    case (Some x)
    then show ?thesis using Cons(2) p by (auto simp: Let_def)
  qed
qed simp

lemma publish_frame_commit:
  assumes "publish_frame marshal net now candidate frame st = (err, st')"
  shows "if err = None
    then ig_sequence st' = candidate \<and> ig_published st' = ig_published st @ fst (normalizeRelayTransactions now frame)
    else ig_sequence st' = ig_sequence st \<and>
      (\<exists>n < length (fst (normalizeRelayTransactions now frame)).
         ig_published st' = ig_published st @ take n (fst (normalizeRelayTransactions now frame)))"
proof -
  obtain ns fs where norm: "normalizeRelayTransactions now frame = (ns, fs)" by fastforce
  define t where "t = count [M_Add ''feed_normalized_transactions_total'' (length ns)]
    (report (map (I_Payload ''malformed'' (fr_Sequence frame)) fs)
      (if fs \<noteq> [] then mark (MarkIntegrityFailure ''normalized Nitro transaction integrity failure'')
         (count [M_Add ''feed_decode_failures_total'' (length fs)] st)
       else count [M_Add ''feed_decode_failures_total'' (length fs)] st))"
  have t: "ig_sequence t = ig_sequence st" "ig_published t = ig_published st" by (simp_all add: t_def)
  obtain e n u where p: "publishTransactions marshal net ns t = (e, n, u)" by (metis prod_cases3)
  note prefix = publishTransactions_prefix [OF p]
  have run: "(err, st') = (if ns = [] then (None, commitRelaySequence candidate frame t)
      else case publishAndUpdateReadiness marshal net ns t of
        (err, st) \<Rightarrow> (case err of Some e \<Rightarrow> (Some e, st) | None \<Rightarrow> (None, commitRelaySequence candidate frame st)))"
    unfolding assms [symmetric] by (simp only: publish_frame_def norm Let_def prod.case t_def)
  show ?thesis
  proof (cases "ns = []")
    case True
    then show ?thesis using run t by (simp add: norm)
  next
    case False
    then show ?thesis
      using run prefix t by (cases e) (auto simp: publishAndUpdateReadiness_def p norm Let_def)
  qed
qed

lemma frame_outcomes:
  assumes "processRelayFrame marshal net now frame reconnected st = (err, st')"
  shows "(let old = ig_sequence st; new = ig_sequence st'; txs = fst (normalizeRelayTransactions now frame) in
    if ss_haveLast old \<and> fr_Sequence frame \<le> ss_lastSequence old
    then err = None \<and> new = old \<and> ig_published st' = ig_published st
    else if err = None
    then ss_haveLast new \<and> ss_lastSequence new = fr_Sequence frame \<and> ig_published st' = ig_published st @ txs
    else new = old \<and> (\<exists>n < length txs. ig_published st' = ig_published st @ take n txs))"
proof -
  obtain r s where obs: "Observe (fr_Sequence frame) reconnected (ig_sequence st) = (r, s)" by fastforce
  note publishable = Observe_publishable [OF obs]
  show ?thesis
  proof (cases "sr_Publishable r")
    case False
    then have "sr_Event r = Duplicate \<or> sr_Event r = Regression" "ss_haveLast (ig_sequence st)"
      "fr_Sequence frame \<le> ss_lastSequence (ig_sequence st)"
      using publishable(1,4) by (auto simp: not_less)
    then show ?thesis
      using assms obs by (auto simp: processRelayFrame_def Let_def split: if_splits)
  next
    case True
    then have new: "\<not> (ss_haveLast (ig_sequence st) \<and> fr_Sequence frame \<le> ss_lastSequence (ig_sequence st))"
      using publishable(1) by (auto simp: not_le)
    obtain t where t: "publish_frame marshal net now s frame t = (err, st')" "ig_sequence t = ig_sequence st"
        "ig_published t = ig_published st"
      using assms obs True publishable(4)
      by (cases "sr_Event r") (simp_all add: processRelayFrame_def Let_def split: if_splits)
    show ?thesis
      using publish_frame_commit [OF t(1)] publishable(2) [OF True] new t(2,3) by (auto simp: Let_def split: if_splits)
  qed
qed

text \<open>C8: A sequence number is committed only with its frame published. Processing a frame has one of three
  outcomes: the frame repeats or precedes an earlier one, and nothing is published or committed; every
  transaction of it that normalises has been acknowledged by the stream, in order, and its number becomes
  the last one; or a publication failed, the transactions before it are published and the sequence is
  unchanged, so that the feed is asked for this frame again.\<close>

theorem frame_commit:
  assumes "processRelayFrame marshal net now frame reconnected st = (err, st')"
  shows "(let old = ig_sequence st; new = ig_sequence st'; txs = fst (normalizeRelayTransactions now frame) in
    if ss_haveLast old \<and> fr_Sequence frame \<le> ss_lastSequence old
    then err = None \<and> new = old \<and> ig_published st' = ig_published st
    else if err = None
    then ss_haveLast new \<and> ss_lastSequence new = fr_Sequence frame \<and> ig_published st' = ig_published st @ txs
    else new = old \<and> (\<exists>n < length txs. ig_published st' = ig_published st @ take n txs))"
  by (rule frame_outcomes [OF assms])

section \<open>The order of publication\<close>

definition before :: "normalized_tx \<Rightarrow> normalized_tx \<Rightarrow> bool" where
  "before a b \<longleftrightarrow> nt_Sequence a < nt_Sequence b
     \<or> nt_Sequence a = nt_Sequence b \<and> nt_SourceFeedOrderPosition a < nt_SourceFeedOrderPosition b"

lemma normalize_loop_order:
  assumes "sorted_wrt (<) (positions txs)"
  shows "sorted_wrt before (fst (normalize_loop sequence ts now i txs)) \<and>
    (\<forall>n \<in> set (fst (normalize_loop sequence ts now i txs)). nt_Sequence n = sequence \<and>
       (\<exists>tx \<in> set txs. nt_SourceFeedOrderPosition n = rt_SourceFeedOrderPosition tx))"
  using assms
proof (induction txs arbitrary: i)
  case (Cons tx txs)
  let ?ns = "fst (normalize_loop sequence ts now (Suc i) txs)"
  have IH: "sorted_wrt before ?ns" "\<And>n. n \<in> set ?ns \<Longrightarrow> nt_Sequence n = sequence"
    "\<And>n. n \<in> set ?ns \<Longrightarrow> \<exists>tx \<in> set txs. nt_SourceFeedOrderPosition n = rt_SourceFeedOrderPosition tx"
    using Cons by (auto simp: positions_def)
  have "rt_SourceFeedOrderPosition tx < nt_SourceFeedOrderPosition n" if "n \<in> set ?ns" for n
    using Cons(2) IH(3) [OF that] by (auto simp: positions_def word_less_nat_alt)
  then have "before m n" if "Normalize sequence ts tx (now i) = Inr m" "n \<in> set ?ns" for m n
    using that IH(2) Normalize_Inr(1,2) [OF that(1)] by (simp add: before_def)
  then show ?case
    using IH Normalize_Inr(1,2) [of sequence ts tx "now i"] by (auto simp: Let_def split: prod.splits sum.splits)
qed simp

definition in_order :: "ingest \<Rightarrow> bool" where
  "in_order st \<longleftrightarrow> sorted_wrt before (ig_published st) \<and>
     (\<forall>n \<in> set (ig_published st). ss_haveLast (ig_sequence st) \<and> nt_Sequence n \<le> ss_lastSequence (ig_sequence st))"

lemma frame_in_order:
  assumes "processRelayFrame marshal net now frame reconnected st = (err, st')" "in_order st" "frame_ordered frame"
  shows "sorted_wrt before (ig_published st')" and "err = None \<Longrightarrow> in_order st'"
proof -
  let ?txs = "fst (normalizeRelayTransactions now frame)"
  have txs: "sorted_wrt before ?txs" "\<And>n. n \<in> set ?txs \<Longrightarrow> nt_Sequence n = fr_Sequence frame"
    using normalize_loop_order assms(3) by (simp_all add: normalizeRelayTransactions_def frame_ordered_def)
  note cases = frame_outcomes [OF assms(1), unfolded Let_def]
  have fresh: "sorted_wrt before (ig_published st @ take n ?txs)"
    if "\<not> (ss_haveLast (ig_sequence st) \<and> fr_Sequence frame \<le> ss_lastSequence (ig_sequence st))" for n
  proof -
    have "nt_Sequence a < fr_Sequence frame" if "a \<in> set (ig_published st)" for a
      using assms(2) that \<open>\<not> _\<close> by (auto simp: in_order_def not_le)
    then show ?thesis
      using assms(2) txs by (auto simp: in_order_def sorted_wrt_append sorted_wrt_take before_def dest!: in_set_takeD)
  qed
  show "sorted_wrt before (ig_published st')"
    using cases fresh [of "length ?txs"] fresh assms(2) by (auto simp: in_order_def split: if_splits)
  show "in_order st'" if "err = None"
    using cases that fresh [of "length ?txs"] txs(2) assms(2)
    by (auto simp: in_order_def not_le split: if_splits intro: order_trans less_imp_le)
qed

section \<open>Invariants of the loop\<close>

text \<open>An invariant of the relay loop, and what holds when a publication fails: it is enough that every frame
  and every other step keeps it.\<close>

locale relay_invariant =
  fixes I J :: "ingest \<Rightarrow> bool" and marshal :: marshal and net :: network and now :: "nat \<Rightarrow> int"
  assumes message: "I st \<Longrightarrow> I (count [M_Inc ''feed_messages_total''] st)"
    and lifecycle: "I st \<Longrightarrow> I (relayLifecycleHandler e st)"
    and jetstream: "I st \<Longrightarrow> I (jetStreamConnectionHandler c st)"
    and undecoded: "I st \<Longrightarrow> I (recordRelayDecodeFailure f st)"
    and gauged: "I st \<Longrightarrow> I (readinessGauge st)"
    and fatal: "I st \<Longrightarrow> I (mark (MarkFatal f) st)"
    and frame: "I st \<Longrightarrow> frame_ordered x \<Longrightarrow> processRelayFrame marshal net now x r st = (None, st') \<Longrightarrow> I st'"
    and failed: "I st \<Longrightarrow> frame_ordered x \<Longrightarrow> processRelayFrame marshal net now x r st = (Some pe, st') \<Longrightarrow> J st'"
begin

lemma frames:
  "process_frames marshal net now xs pending st = (err, pending', st') \<Longrightarrow> I st \<Longrightarrow> list_all frame_ordered xs \<Longrightarrow>
     (if err = None then I st' else J st')"
proof (induction xs arbitrary: pending st)
  case (Cons x xs)
  obtain e t where p: "processRelayFrame marshal net now x pending st = (e, t)" by fastforce
  show ?case
  proof (cases e)
    case None
    have "I t" using frame [of st x pending t] Cons(3,4) p None by simp
    then show ?thesis using Cons(1) [of False t] Cons(2,4) p None by simp
  next
    case (Some pe)
    have "J t" using failed [of st x pending pe t] Cons(3,4) p Some by simp
    then show ?thesis using Cons(2) p Some by auto
  qed
qed simp

lemma run:
  "I st \<Longrightarrow> runRelaySource eth unmarshal marshal net now steps pending st = (result, st') \<Longrightarrow>
     (case result of PublishFailed e \<Rightarrow> J st' | _ \<Rightarrow> I st')"
proof (induction steps arbitrary: pending st)
  case (Cons step steps)
  show ?case
  proof (cases step)
    case (S_Message m)
    let ?st = "count [M_Inc ''feed_messages_total''] st" and ?pending = "rm_AfterReconnect m \<or> pending"
    have st: "I ?st" using message [OF Cons(2)] .
    show ?thesis
    proof (cases "DecodeBroadcastContext eth unmarshal (rm_Context m) (rm_Data m)")
      case (Inl e)
      then show ?thesis
        using Cons(1) [OF undecoded [OF st]] Cons(3) st
        by (cases "rm_ContextAfter m") (auto simp: S_Message Let_def)
    next
      case (Inr x)
      obtain xs r where x: "x = (xs, r)" by (rule prod.exhaust)
      obtain err p t where run: "process_frames marshal net now xs ?pending ?st = (err, p, t)" by (rule prod_cases3)
      have t: "if err = None then I t else J t"
        by (rule frames [OF run st DecodeBroadcastContext_ordered [OF Inr [unfolded x]]])
      then show ?thesis
        using Cons(1) [OF gauged, of t p] Cons(3) Inr run by (cases err) (auto simp: S_Message x Let_def)
    qed
  next
    case (S_Event e)
    then show ?thesis using Cons(1) [OF lifecycle [OF Cons(2)]] Cons(3) by simp
  next
    case (S_Jetstream c)
    then show ?thesis using Cons(1) [OF jetstream [OF Cons(2)]] Cons(3) by simp
  next
    case (S_Error e)
    then show ?thesis using fatal [OF Cons(2)] Cons(3) by auto
  qed
qed auto

end

lemma lifecycle_simps [simp]:
  "ig_published (relayLifecycleHandler e st) = ig_published st" "ig_sequence (relayLifecycleHandler e st) = ig_sequence st"
  "ig_published (recordRelayDecodeFailure f st) = ig_published st" "ig_sequence (recordRelayDecodeFailure f st) = ig_sequence st"
  "ig_published (jetStreamConnectionHandler c st) = ig_published st" "ig_sequence (jetStreamConnectionHandler c st) = ig_sequence st"
  by (cases e; simp add: recordRelayDecodeFailure_def jetStreamConnectionHandler_def)+

interpretation published: relay_invariant in_order "\<lambda>st. sorted_wrt before (ig_published st)" marshal net now
  for marshal net now
proof
  show "in_order (count [M_Inc ''feed_messages_total''] st)" "in_order (relayLifecycleHandler e st)" "in_order (jetStreamConnectionHandler c st)"
    "in_order (recordRelayDecodeFailure f st)" "in_order (readinessGauge st)" "in_order (mark (MarkFatal f) st)"
    if "in_order st" for st c e f
    using that by (simp_all add: in_order_def)
qed (use frame_in_order in blast)+

text \<open>C7: The relay loop publishes in the order of the feed. Whatever the feed delivers, however often it
  reconnects or repeats, and whatever the stream answers, the transactions acknowledged since the start
  have strictly increasing positions, by sequence number first and by position in the frame second; so none
  is published twice.\<close>

theorem relay_published_in_order:
  "sorted_wrt before (ig_published (snd (runRelaySource eth unmarshal marshal net now steps pending relay_start)))"
proof -
  obtain result st where run: "runRelaySource eth unmarshal marshal net now steps pending relay_start = (result, st)"
    by fastforce
  have "in_order relay_start" by (simp add: in_order_def relay_start_def)
  from published.run [OF this run] show ?thesis by (simp add: run in_order_def split: relay_end.splits)
qed

section \<open>Gap accounting\<close>

text \<open>The sequence numbers the metrics say were committed, in order, and the number they say are missing.\<close>

fun committed_by :: "metric \<Rightarrow> u64 list" where
  "committed_by (M_Gauge name (G_U64 s)) = (if name = ''feed_last_sequence'' then [s] else [])"
| "committed_by _ = []"

fun missing_by :: "metric \<Rightarrow> nat" where
  "missing_by (M_Add name n) = (if name = ''feed_missing_sequences_total'' then n else 0)"
| "missing_by _ = 0"

definition committed :: "ingest \<Rightarrow> u64 list" where
  "committed st = concat (map committed_by (ig_metrics st))"

definition missing :: "ingest \<Rightarrow> nat" where
  "missing st = sum_list (map missing_by (ig_metrics st))"

lemma accounting_simps [simp]:
  "committed (count ms st) = committed st @ concat (map committed_by ms)"
  "missing (count ms st) = missing st + sum_list (map missing_by ms)"
  "committed (report xs st) = committed st" "missing (report xs st) = missing st"
  "committed (mark f st) = committed st" "missing (mark f st) = missing st"
  "committed (readinessGauge st) = committed st" "missing (readinessGauge st) = missing st"
  "committed (st\<lparr>ig_calls := k\<rparr>) = committed st" "missing (st\<lparr>ig_calls := k\<rparr>) = missing st"
  "committed (st\<lparr>ig_published := ps\<rparr>) = committed st" "missing (st\<lparr>ig_published := ps\<rparr>) = missing st"
  "committed (st\<lparr>ig_sequence := c\<rparr>) = committed st" "missing (st\<lparr>ig_sequence := c\<rparr>) = missing st"
  by (simp_all add: committed_def missing_def)

lemma kinds_accounting [simp]:
  "concat (map (committed_by \<circ> M_UnsupportedKind) ks) = []" "concat (map (committed_by \<circ> M_IgnoredKind) ks) = []"
  "sum_list (map (missing_by \<circ> M_UnsupportedKind) ks) = 0" "sum_list (map (missing_by \<circ> M_IgnoredKind) ks) = 0"
  by (induction ks) simp_all

lemma issues_accounting [simp]:
  "committed (recordFrameIssues frame st) = committed st" "missing (recordFrameIssues frame st) = missing st"
  "committed (recordSequenceGap n st) = committed st" "missing (recordSequenceGap n st) = missing st + unat n"
  "committed (relayLifecycleHandler e st) = committed st" "missing (relayLifecycleHandler e st) = missing st"
  "committed (recordRelayDecodeFailure f st) = committed st" "missing (recordRelayDecodeFailure f st) = missing st"
  "committed (jetStreamConnectionHandler d st) = committed st" "missing (jetStreamConnectionHandler d st) = missing st"
  "committed (commitRelaySequence c frame st) = committed st @ [fr_Sequence frame]"
  "missing (commitRelaySequence c frame st) = missing st"
  by (cases e; simp add: recordFrameIssues_def recordSequenceGap_def recordRelayDecodeFailure_def
      jetStreamConnectionHandler_def commitRelaySequence_def Let_def)+

lemma events_accounting [simp]:
  "concat (map (committed_by \<circ> jetStreamPublishStateHandler) es) = []"
  "sum_list (map (missing_by \<circ> jetStreamPublishStateHandler) es) = 0"
proof -
  have "committed_by (jetStreamPublishStateHandler e) = [] \<and> missing_by (jetStreamPublishStateHandler e) = 0" for e
    by (cases e) simp_all
  then show "concat (map (committed_by \<circ> jetStreamPublishStateHandler) es) = []"
    "sum_list (map (missing_by \<circ> jetStreamPublishStateHandler) es) = 0"
    by (induction es) simp_all
qed

lemma publishTransactions_accounting:
  "publishTransactions marshal net txs st = (err, n, st') \<Longrightarrow> committed st' = committed st \<and> missing st' = missing st"
  by (induction txs arbitrary: st err n st') (auto simp: Let_def split: prod.splits option.splits if_splits)

lemma publish_frame_accounting:
  "publish_frame marshal net now candidate frame st = (None, st') \<Longrightarrow>
     committed st' = committed st @ [fr_Sequence frame] \<and> missing st' = missing st"
  by (auto simp: publish_frame_def publishAndUpdateReadiness_def Let_def
      split: prod.splits option.splits if_splits dest!: publishTransactions_accounting)

definition accounted :: "ingest \<Rightarrow> bool" where
  "accounted st \<longleftrightarrow>
     (if committed st = [] then \<not> ss_haveLast (ig_sequence st)
      else ss_haveLast (ig_sequence st) \<and> last (committed st) = ss_lastSequence (ig_sequence st) \<and>
        Suc (unat (last (committed st))) = unat (hd (committed st)) + length (committed st) + missing st) \<and>
     (committed st = [] \<longrightarrow> missing st = 0)"

lemma accounted_cong:
  "committed st' = committed st \<Longrightarrow> missing st' = missing st \<Longrightarrow> ig_sequence st' = ig_sequence st \<Longrightarrow>
     accounted st \<Longrightarrow> accounted st'"
  by (simp only: accounted_def)

lemma frame_accounted:
  assumes "processRelayFrame marshal net now frame reconnected st = (None, st')" "accounted st"
  shows "accounted st'"
proof -
  obtain r s where obs: "Observe (fr_Sequence frame) reconnected (ig_sequence st) = (r, s)" by fastforce
  note publishable = Observe_publishable [OF obs] and gap = Observe_missing [OF obs]
  show ?thesis
  proof (cases "sr_Publishable r")
    case False
    then have "sr_Event r = Duplicate \<or> sr_Event r = Regression" using publishable(4) by auto
    then have "committed st' = committed st \<and> missing st' = missing st \<and> ig_sequence st' = ig_sequence st"
      using assms(1) obs by (auto simp: processRelayFrame_def Let_def split: if_splits)
    then show ?thesis using accounted_cong [OF _ _ _ assms(2)] by blast
  next
    case True
    then obtain t where t: "publish_frame marshal net now s frame t = (None, st')" "committed t = committed st"
        "missing t = missing st + unat (sr_Missing r)"
      using assms(1) obs publishable(4) gap(1)
      by (cases "sr_Event r") (simp_all add: processRelayFrame_def Let_def split: if_splits)
    have st': "committed st' = committed st @ [fr_Sequence frame]" "missing st' = missing st + unat (sr_Missing r)"
        "ig_sequence st' = s"
      using publish_frame_accounting [OF t(1)] publish_frame_commit [OF t(1)] t(2,3) by simp_all
    have s: "ss_haveLast s" "ss_lastSequence s = fr_Sequence frame" using publishable(2) [OF True] by simp_all
    show ?thesis
    proof (cases "committed st = []")
      case True
      then have "missing st = 0" "unat (sr_Missing r) = 0"
        using assms(2) gap(1,3) by (auto simp: accounted_def)
      then show ?thesis using True st' s by (simp add: accounted_def)
    next
      case False
      let ?L = "unat (ss_lastSequence (ig_sequence st))"
      have old: "ss_haveLast (ig_sequence st)" "Suc ?L = unat (hd (committed st)) + length (committed st) + missing st"
        using assms(2) False unfolding accounted_def by metis+
      have "Suc ?L + unat (sr_Missing r) = unat (fr_Sequence frame)"
        using gap True old(1) by (cases "sr_Event r = Gap") simp_all
      then show ?thesis using False st' s old(2) by (simp add: accounted_def)
    qed
  qed
qed

interpretation accounting: relay_invariant accounted "\<lambda>_. True" marshal net now
  for marshal net now
proof
  show "accounted (count [M_Inc ''feed_messages_total''] st)" "accounted (relayLifecycleHandler e st)" "accounted (jetStreamConnectionHandler c st)"
    "accounted (recordRelayDecodeFailure f st)" "accounted (readinessGauge st)" "accounted (mark (MarkFatal f) st)"
    if "accounted st" for st c e f
    by (rule accounted_cong [OF _ _ _ that]; simp)+
qed (use frame_accounted in blast)+

text \<open>C16: The gap metrics are exact. In a run without a failed publication, every sequence number from the
  first one committed to the last one was either committed or counted as missing, once: the span of the
  numbers is the number of commits plus the total of the missing-sequence counter.\<close>

theorem relay_gap_accounting:
  assumes "runRelaySource eth unmarshal marshal net now steps pending relay_start = (Running, st)" "committed st \<noteq> []"
  shows "unat (last (committed st)) + 1 = unat (hd (committed st)) + length (committed st) + missing st"
proof -
  have "accounted relay_start" by (simp add: accounted_def relay_start_def committed_def missing_def seq_New_def)
  from accounting.run [OF this assms(1)] have "accounted st" by simp
  then show ?thesis using assms(2) unfolding accounted_def by (metis Suc_eq_plus1)
qed

section \<open>Integrity\<close>

definition broken :: "ingest \<Rightarrow> bool" where
  "broken st \<longleftrightarrow> rd_integrityFailure (ig_readiness st) \<noteq> []"

lemma broken_simps [simp]:
  "broken (count ms st) = broken st" "broken (report xs st) = broken st" "broken (readinessGauge st) = broken st"
  "broken (st\<lparr>ig_calls := k\<rparr>) = broken st" "broken (st\<lparr>ig_published := ps\<rparr>) = broken st"
  "broken (st\<lparr>ig_sequence := c\<rparr>) = broken st"
  "broken (mark (MarkIntegrityFailure reason) st) \<longleftrightarrow> broken st \<or> reason \<noteq> []"
  "broken (mark MarkNATSReachable st) = broken st" "broken (mark MarkNATSUnavailable st) = broken st" "broken (mark MarkSuccessfulPublish st) = broken st"
  "broken (mark MarkSequenceKnown st) = broken st" "broken (mark MarkSequenceGap st) = broken st"
  "broken (mark ClearSequenceGap st) = broken st" "broken (mark MarkSourceConnected st) = broken st"
  "broken (mark MarkSourceDisconnected st) = broken st" "broken (mark (MarkFatal f) st) = broken st"
  "broken (recordFrameIssues frame st) = broken st" "broken (recordSequenceGap n st) = broken st"
  "broken (commitRelaySequence c frame st) = broken st"
  by (simp_all add: broken_def mark_defs commitRelaySequence_def Let_def)

lemma publishTransactions_broken:
  "publishTransactions marshal net txs st = (err, n, st') \<Longrightarrow> broken st' = broken st"
  by (induction txs arbitrary: st err n st') (auto simp: Let_def split: prod.splits option.splits if_splits)

lemma publish_frame_broken:
  "publish_frame marshal net now candidate frame st = (err, st') \<Longrightarrow> broken st \<Longrightarrow> broken st'"
  by (auto simp: publish_frame_def publishAndUpdateReadiness_def Let_def
      split: prod.splits option.splits if_splits dest!: publishTransactions_broken)

lemma frame_broken:
  assumes "processRelayFrame marshal net now frame reconnected st = (err, st')"
    and "broken st \<or> fr_Malformed frame \<noteq> [] \<or> ss_haveLast (ig_sequence st) \<and> fr_Sequence frame < ss_lastSequence (ig_sequence st)"
  shows "broken st'"
proof -
  let ?st = "recordFrameIssues frame st"
  define t where "t = (if fr_Malformed frame \<noteq> [] then mark (MarkIntegrityFailure ''malformed Nitro feed message'') ?st else ?st)"
  have t: "broken t \<longleftrightarrow> broken st \<or> fr_Malformed frame \<noteq> []" "ig_sequence t = ig_sequence st" by (simp_all add: t_def)
  obtain r s where obs: "Observe (fr_Sequence frame) reconnected (ig_sequence st) = (r, s)" by fastforce
  have regression: "sr_Event r = Regression" if "ss_haveLast (ig_sequence st)" "fr_Sequence frame < ss_lastSequence (ig_sequence st)"
    using obs that by (auto simp: Observe_def seq_result_of_def split: if_splits)
  show ?thesis
    using assms t obs regression publish_frame_broken
    unfolding processRelayFrame_def t_def [symmetric] Let_def
    by (cases "sr_Event r") (auto simp: t)
qed

interpretation integrity: relay_invariant broken broken marshal net now
  for marshal net now
proof
  show "broken (count [M_Inc ''feed_messages_total''] st)" "broken (relayLifecycleHandler e st)" "broken (jetStreamConnectionHandler c st)"
    "broken (recordRelayDecodeFailure f st)" "broken (readinessGauge st)" "broken (mark (MarkFatal f) st)"
    if "broken st" for st c e f
    using that by (cases e; simp add: recordRelayDecodeFailure_def jetStreamConnectionHandler_def)+
qed (use frame_broken in blast)+

text \<open>C17: A breach of integrity is final. After a frame that is malformed or precedes an earlier one, whatever
  the feed and the stream do afterwards, the process does not report itself ready again.\<close>

theorem integrity_failure_final:
  assumes "processRelayFrame marshal net now frame reconnected st = (None, st1)"
    and "fr_Malformed frame \<noteq> [] \<or> ss_haveLast (ig_sequence st) \<and> fr_Sequence frame < ss_lastSequence (ig_sequence st)"
    and "runRelaySource eth unmarshal marshal net now steps pending st1 = (result, st2)"
  shows "\<not> fst (Ready (ig_readiness st2))"
proof -
  have "broken st1" using frame_broken [OF assms(1)] assms(2) by blast
  from integrity.run [OF this assms(3)] have "broken st2" by (auto split: relay_end.splits)
  then show ?thesis by (simp add: broken_def Ready_def)
qed

end
