(* ===== verification/Feed_Source.thy ===== *)
theory Feed_Source
  imports Feed_Relay
begin

text \<open>
  The websocket source of the feed ingestor (feed-ingestor/internal/feed/websocket_source.go): the checks of
  its URL and of the handshake, the loop that connects, reads and reconnects, and the message it hands to the
  relay loop with the mark of a reconnection. The websocket library, the clock and the URL parser are
  parameters: a turn of the loop is given what they answer.
\<close>

section \<open>Construction\<close>


record relay_url =
  ru_Scheme :: string
  ru_Host :: string


record relay_source =
  rs_url :: relay_url
  rs_chainID :: u64
  rs_timeout :: int
  rs_minBackoff :: int
  rs_maxBackoff :: int
  rs_maxMessageSize :: int
  rs_connected :: bool
  rs_hadConnection :: bool
  rs_nextMessageAfterReconnect :: bool
  rs_connectAttempts :: u64



section \<open>Connections\<close>

definition HeaderFeedServerVersion :: string where "HeaderFeedServerVersion = ''Arbitrum-Feed-Server-Version''"
definition HeaderChainID :: string where "HeaderChainID = ''Arbitrum-Chain-Id''"

text \<open>A response of the server: its status and its headers.\<close>

type_synonym http_response = "nat \<times> (string \<Rightarrow> string)"

datatype handshake_error = NoResponse | ServerVersionMismatch string | ChainIdMismatch string

definition validateHandshake :: "u64 \<Rightarrow> http_response option \<Rightarrow> handshake_error option" where
  "validateHandshake chainID response =
    (case response of
       None \<Rightarrow> Some NoResponse
     | Some (_, header) \<Rightarrow>
         if header HeaderFeedServerVersion \<noteq> dec_string FeedServerVersion
         then Some (ServerVersionMismatch (header HeaderFeedServerVersion))
         else if header HeaderChainID \<noteq> dec_string (unat chainID) then Some (ChainIdMismatch (header HeaderChainID))
         else None)"

text \<open>A dial fails, with the websocket library's verdict on the handshake, or gives a connection; the response is
  there when the server sent one.\<close>

record dial =
  dl_error :: "(bool \<times> string) option"
  dl_response :: "http_response option"

datatype transport_error =
    DialFailure string
  | HandshakeFailure nat string
  | HandshakeRefused nat handshake_error

definition status_code :: "http_response option \<Rightarrow> nat" where
  "status_code response = (case response of None \<Rightarrow> 0 | Some (code, _) \<Rightarrow> code)"

definition connect :: "dial \<Rightarrow> relay_source \<Rightarrow> transport_error + relay_source" where
  "connect d s =
    (case dl_error d of
       Some (bad_handshake, e) \<Rightarrow>
         if bad_handshake \<or> dl_response d \<noteq> None then Inl (HandshakeFailure (status_code (dl_response d)) e)
         else Inl (DialFailure e)
     | None \<Rightarrow>
         (case validateHandshake (rs_chainID s) (dl_response d) of
            Some e \<Rightarrow> Inl (HandshakeRefused (status_code (dl_response d)) e)
          | None \<Rightarrow> Inr (s\<lparr>rs_connected := True\<rparr>)))"

datatype read_error = ReadFailed string | UnsupportedMessageType nat

definition TextMessage :: nat where "TextMessage = 1"
definition BinaryMessage :: nat where "BinaryMessage = 2"

definition readMessage :: "string option \<Rightarrow> string + nat \<times> u8 list \<Rightarrow> (string + read_error) + u8 list" where
  "readMessage ctx answer =
    (case ctx of
       Some e \<Rightarrow> Inl (Inl e)
     | None \<Rightarrow>
         (case answer of
            Inl e \<Rightarrow> Inl (Inr (ReadFailed e))
          | Inr (messageType, payload) \<Rightarrow>
              if messageType \<noteq> TextMessage \<and> messageType \<noteq> BinaryMessage
              then Inl (Inr (UnsupportedMessageType messageType)) else Inr payload))"

definition dropConn :: "relay_source \<Rightarrow> relay_source" where
  "dropConn s = s\<lparr>rs_connected := False\<rparr>"

text \<open>A duration is a 64-bit signed number of nanoseconds, and doubling it wraps.\<close>

definition nextBackoff :: "int \<Rightarrow> int \<Rightarrow> int" where
  "nextBackoff current limit =
    (let doubled = signed_take_bit 63 (current * 2) in if doubled > limit then limit else doubled)"

section \<open>The loop\<close>

datatype relay_lifecycle =
    LC_Connected bool u64
  | LC_Disconnected
  | LC_ReconnectAttempt u64 int

text \<open>What one turn of the loop meets: whether the context ends the wait before a reconnection, the dial and the
  context after a failed one, the context while reading and the read.\<close>

record turn =
  tn_sleep :: "string option"
  tn_dial :: dial
  tn_dial_ctx :: "string option"
  tn_read_ctx :: "string option"
  tn_read :: "string + nat \<times> u8 list"

datatype next_result = N_Message "u8 list" bool | N_Error string | N_Waiting

text \<open>The connection of a turn: the events, then an error of the context, a failed attempt, or the source connected.\<close>

datatype connect_result = C_Error string relay_source | C_Retry relay_source | C_Connected relay_source

definition connect_turn :: "turn \<Rightarrow> int \<Rightarrow> relay_source \<Rightarrow> relay_lifecycle list \<times> connect_result" where
  "connect_turn t backoff s =
    (if rs_connected s then ([], C_Connected s)
     else if 0 < rs_connectAttempts s \<and> tn_sleep t \<noteq> None then ([], C_Error (the (tn_sleep t)) s)
     else
       let events = (if 0 < rs_connectAttempts s then [LC_ReconnectAttempt (rs_connectAttempts s + 1) backoff] else []);
           s = s\<lparr>rs_connectAttempts := rs_connectAttempts s + 1\<rparr>;
           afterReconnect = rs_hadConnection s
       in case connect (tn_dial t) s of
         Inl e \<Rightarrow> (events, case tn_dial_ctx t of Some e \<Rightarrow> C_Error e s | None \<Rightarrow> C_Retry s)
       | Inr s \<Rightarrow>
           (events @ [LC_Connected afterReconnect (rs_connectAttempts s)],
            C_Connected (s\<lparr>rs_hadConnection := True, rs_nextMessageAfterReconnect := afterReconnect\<rparr>)))"

fun Next_loop ::
  "turn list \<Rightarrow> int \<Rightarrow> relay_source \<Rightarrow> relay_lifecycle list \<times> next_result \<times> turn list \<times> relay_source" where
  "Next_loop [] backoff s = ([], N_Waiting, [], s)"
| "Next_loop (t # ts) backoff s =
    (case connect_turn t backoff s of
       (es, C_Error e s) \<Rightarrow> (es, N_Error e, ts, s)
     | (es, C_Retry s) \<Rightarrow>
         (case Next_loop ts (nextBackoff backoff (rs_maxBackoff s)) s of (fs, r) \<Rightarrow> (es @ fs, r))
     | (es, C_Connected s1) \<Rightarrow>
         (case readMessage (tn_read_ctx t) (tn_read t) of
            Inr payload \<Rightarrow>
              (es, N_Message payload (rs_nextMessageAfterReconnect s1), ts, s1\<lparr>rs_nextMessageAfterReconnect := False\<rparr>)
          | Inl (Inl e) \<Rightarrow> (es, N_Error e, ts, dropConn s1)
          | Inl (Inr e) \<Rightarrow>
              (case Next_loop ts (if rs_connected s then backoff else rs_minBackoff s1) (dropConn s1) of
                 (fs, r) \<Rightarrow> (es @ LC_Disconnected # fs, r))))"

definition Next :: "turn list \<Rightarrow> relay_source \<Rightarrow> relay_lifecycle list \<times> next_result \<times> turn list \<times> relay_source" where
  "Next ts s = Next_loop ts (rs_minBackoff s) s"

text \<open>What the relay loop sees of its calls, up to an error: the events of each call, then its message.\<close>

datatype observation = O_Event relay_lifecycle | O_Message "u8 list" bool | O_Error string

lemma Next_loop_shorter: "Next_loop ts b s = (es, r, ts', s') \<Longrightarrow> length ts' \<le> length ts - 1"
proof (induction ts arbitrary: b s es)
  case (Cons t ts)
  have "length ts - 1 \<le> length ts" by simp
  with Cons show ?case by (fastforce split: prod.splits connect_result.splits sum.splits)
qed simp

lemma Next_waits: "Next_loop [] b s = ([], N_Waiting, [], s)"
  by simp

function Next_calls :: "turn list \<Rightarrow> relay_source \<Rightarrow> observation list" where
  "Next_calls ts s =
    (case Next ts s of (es, r, ts', s') \<Rightarrow> map O_Event es @
      (case r of
         N_Message payload afterReconnect \<Rightarrow> O_Message payload afterReconnect # Next_calls ts' s'
       | N_Error e \<Rightarrow> [O_Error e]
       | N_Waiting \<Rightarrow> []))"
  by pat_completeness auto
termination Next_calls
proof (relation "measure (\<lambda>(ts, s). length ts)", goal_cases)
  case (2 ts s es x r y ts' s')
  then have n: "Next_loop ts (rs_minBackoff s) s = (es, r, ts', s')" "r \<noteq> N_Waiting" by (simp_all add: Next_def)
  then have "ts \<noteq> []" by (auto simp: Next_waits)
  then show ?case using Next_loop_shorter [OF n(1)] by (cases ts) simp_all
qed simp

lemmas [simp del] = Next_loop.simps Next_calls.simps

section \<open>What a source shows\<close>









text \<open>From a wait of \<open>2 ^ 62\<close> nanoseconds on the next one is negative.\<close>

lemma nextBackoff_wraps: "nextBackoff (2 ^ 62) (2 ^ 62) = - (2 ^ 63)"
proof -
  have "signed_take_bit 63 (2 ^ 62 * 2 :: int) = - (2 ^ 63)" by code_simp
  then show ?thesis by (simp add: nextBackoff_def Let_def)
qed





end
