(* ===== verification/Feed_Line.thy ===== *)
theory Feed_Line
  imports Feed_Relay "HOL-Library.AList"
begin

text \<open>
  The other parts of the feed ingestor: the choice of the source from the environment and the loop over a
  source of lines (feed-ingestor/cmd/feed-ingestor/main.go), and the sampling of its log
  (feed-ingestor/cmd/feed-ingestor/issue_log.go).
\<close>

section \<open>The source\<close>

text \<open>Environment values are taken to be ASCII: then Go's case folding, lower-casing and trimming are these.\<close>

datatype source_config = RelayConfig string | FixtureConfig string | StdinConfig

datatype source_error =
    FixtureInProduction
  | ProductionSourceNotRelay
  | ProductionRelayURLRequired
  | RelayURLRequired
  | FixtureRequired
  | UnsupportedSource string

fun trim_left :: "string \<Rightarrow> string" where
  "trim_left [] = []"
| "trim_left (c # s) = (if is_go_space c then trim_left s else c # s)"

definition TrimSpace :: "string \<Rightarrow> string" where
  "TrimSpace s = rev (trim_left (rev (trim_left s)))"

definition ToLower :: "string \<Rightarrow> string" where
  "ToLower s = map to_ascii_lower s"

definition resolveSourceConfig :: "(string \<Rightarrow> string) \<Rightarrow> source_error + source_config" where
  "resolveSourceConfig getenv =
    (let production = (ToLower (getenv ''PHOENIX_ENV'') = ''production'');
         fixturePath = TrimSpace (getenv ''PHOENIX_FEED_FIXTURE'');
         source = ToLower (TrimSpace (getenv ''PHOENIX_FEED_SOURCE''));
         relayURL = TrimSpace (getenv ''PHOENIX_FEED_RELAY_URL'')
     in
     if production \<and> fixturePath \<noteq> [] then Inl FixtureInProduction
     else if production then
       if source \<noteq> ''relay'' then Inl ProductionSourceNotRelay
       else if relayURL = [] then Inl ProductionRelayURLRequired
       else Inr (RelayConfig relayURL)
     else if source = ''relay'' then
       if relayURL = [] then Inl RelayURLRequired
       else Inr (RelayConfig relayURL)
     else if source = ''fixture'' then
       if fixturePath = [] then Inl FixtureRequired
       else Inr (FixtureConfig fixturePath)
     else if source \<noteq> ''stdin'' \<and> source \<noteq> [] then Inl (UnsupportedSource source)
     else if fixturePath \<noteq> [] then Inr (FixtureConfig fixturePath)
     else Inr StdinConfig)"

text \<open>A production process reads the relay or does not start.\<close>

lemma production_reads_relay:
  assumes "ToLower (getenv ''PHOENIX_ENV'') = ''production''" "resolveSourceConfig getenv = Inr config"
  shows "config = RelayConfig (TrimSpace (getenv ''PHOENIX_FEED_RELAY_URL''))"
  using assms by (auto simp: resolveSourceConfig_def Let_def split: if_splits)

section \<open>The line source\<close>

datatype line_step = L_Line "u8 list" | L_EOF | L_Error string

datatype line_end = LineRunning | LineDone | LineFailed string | LinePublishFailed publish_error

definition line_start :: "ingest \<Rightarrow> ingest" where
  "line_start st = mark MarkSourceConnected (mark MarkAdapterInitialized (mark MarkSourceInitialized st))"

definition line_frame :: "marshal \<Rightarrow> network \<Rightarrow> decode_result \<Rightarrow> ingest \<Rightarrow> publish_error option \<times> ingest" where
  "line_frame marshal net r st =
    (let st = (if de_Gap r then mark MarkSequenceGap (recordSequenceGap (de_GapTo r - de_GapFrom r + 1) st)
               else count [M_Gauge ''feed_data_completeness'' (G_Bool True)] (mark ClearSequenceGap st));
         st = count [M_Gauge ''feed_last_sequence'' (G_U64 (de_Sequence r)),
           M_Gauge ''feed_last_message_timestamp'' (G_U64 (de_TimestampUnixMS r)),
           M_Add ''feed_normalized_transactions_total'' (length (de_Transactions r))] st
     in publishAndUpdateReadiness marshal net (de_Transactions r) st)"

fun runLineSource ::
  "(u8 list \<Rightarrow> string + relay_frame) \<Rightarrow> marshal \<Rightarrow> network \<Rightarrow> (nat \<Rightarrow> int) \<Rightarrow> line_step list \<Rightarrow> ordered_decoder \<Rightarrow> ingest
   \<Rightarrow> line_end \<times> ordered_decoder \<times> ingest" where
  "runLineSource unmarshal marshal net now [] d st = (LineRunning, d, st)"
| "runLineSource unmarshal marshal net now (L_EOF # steps) d st = (LineDone, d, st)"
| "runLineSource unmarshal marshal net now (L_Error e # steps) d st = (LineFailed e, d, mark (MarkFatal e) st)"
| "runLineSource unmarshal marshal net now (L_Line raw # steps) d st =
    (let st = count [M_Inc ''feed_messages_total''] st in
     case DecodeJSONFrame unmarshal now raw d of
       Inl e \<Rightarrow> runLineSource unmarshal marshal net now steps d (count [M_Inc ''feed_decode_failures_total''] st)
     | Inr (r, d) \<Rightarrow>
         if de_Duplicate r then
           runLineSource unmarshal marshal net now steps d
             (count [M_Inc ''feed_duplicates_total'', M_Inc ''feed_sequence_duplicates_total''] st)
         else case line_frame marshal net r st of
           (Some e, st) \<Rightarrow> (LinePublishFailed e, d, st)
         | (None, st) \<Rightarrow> runLineSource unmarshal marshal net now steps d st)"

lemma line_frame_published:
  "line_frame marshal net r st = (err, st') \<Longrightarrow> \<exists>n. ig_published st' = ig_published st @ take n (de_Transactions r)"
  by (auto simp: line_frame_def publishAndUpdateReadiness_def Let_def split: prod.splits option.splits if_splits
      dest!: publishTransactions_prefix intro: exI [of _ "length (de_Transactions r)"])

text \<open>No frame of the line source is published twice: the transactions a run adds carry sequence numbers that
  had not been seen before it.\<close>

lemma run_line_published:
  assumes "runLineSource unmarshal marshal net now steps d st = (e, d', st')" "ig_published st = []"
  shows "\<forall>n \<in> set (ig_published st'). nt_Sequence n \<notin> od_seen d"
proof -
  have "\<exists>ns. ig_published st' = ig_published st @ ns \<and> (\<forall>n \<in> set ns. nt_Sequence n \<notin> od_seen d)"
    using assms(1)
  proof (induction steps arbitrary: d st)
    case (Cons step steps)
    show ?case
    proof (cases step)
      case (L_Line raw)
      show ?thesis
      proof (cases "DecodeJSONFrame unmarshal now raw d")
        case (Inl e)
        then show ?thesis using Cons(2) Cons(1) [of d] by (fastforce simp: L_Line Let_def)
      next
        case (Inr x)
        obtain r d1 where x: "x = (r, d1)" by (rule prod.exhaust)
        note once = DecodeJSONFrame_once [OF Inr [unfolded x]]
        let ?st = "count [M_Inc ''feed_messages_total''] st"
        show ?thesis
        proof (cases "de_Duplicate r")
          case True
          then show ?thesis using Cons(2) Cons(1) [of d1] Inr x once(1) by (fastforce simp: L_Line Let_def)
        next
          case False
          obtain err t where f: "line_frame marshal net r ?st = (err, t)" by fastforce
          obtain k where k: "ig_published t = ig_published st @ take k (de_Transactions r)"
            using line_frame_published [OF f] by auto
          have fresh: "\<forall>n \<in> set (take k (de_Transactions r)). nt_Sequence n \<notin> od_seen d"
            using once(2) by (auto dest: in_set_takeD)
          show ?thesis
          proof (cases err)
            case None
            then obtain ns where "ig_published st' = ig_published t @ ns" "\<forall>n \<in> set ns. nt_Sequence n \<notin> od_seen d1"
              using Cons(2) Cons(1) [of d1 t] Inr x False f by (auto simp: L_Line Let_def)
            then show ?thesis using k fresh once(1) by (intro exI [of _ "take k (de_Transactions r) @ ns"]) auto
          next
            case (Some e)
            then show ?thesis using Cons(2) Inr x False f k fresh by (auto simp: L_Line Let_def)
          qed
        qed
      qed
    qed (use Cons(2) in auto)
  qed simp
  then show ?thesis using assms(2) by auto
qed

text \<open>The decoder takes the last frame for the greatest: after a late frame, the next frame in order is reported as
  a gap that includes a frame it has already delivered.\<close>

lemma decode_empty:
  assumes "unmarshal raw = Inr f" "rf_Transactions f = []" "rf_Sequence f \<noteq> 0" "rf_Sequence f \<notin> od_seen d"
    and "DecodeJSONFrame unmarshal now raw d = Inr (r, d')"
  shows "od_haveLast d'" "od_lastSequence d' = rf_Sequence f" "od_seen d' = insert (rf_Sequence f) (od_seen d)"
    and "od_haveLast d \<Longrightarrow> od_lastSequence d + 1 < rf_Sequence f \<Longrightarrow> de_Gap r \<and> de_GapTo r = rf_Sequence f - 1"
  using assms(5) assms(3,4) unfolding DecodeJSONFrame_def assms(1) and_then_simps Let_def
  by (auto simp: assms(2))

lemma late_frame_false_gap:
  assumes "od_haveLast d" "unmarshal late = Inr f" "unmarshal raw = Inr g" "rf_Transactions f = []" "rf_Transactions g = []"
    and "rf_Sequence f \<noteq> 0" "rf_Sequence f < od_lastSequence d" "rf_Sequence f \<notin> od_seen d"
    and "rf_Sequence g = od_lastSequence d + 1" "od_lastSequence d < - 1" "rf_Sequence g \<notin> od_seen d"
    and "DecodeJSONFrame unmarshal now late d = Inr (r1, d1)" "DecodeJSONFrame unmarshal now raw d1 = Inr (r2, d2)"
  shows "de_Gap r2 \<and> de_GapTo r2 = od_lastSequence d"
proof -
  let ?s = "rf_Sequence f" and ?l = "od_lastSequence d"
  note d1 = decode_empty(1-3) [OF assms(2,4,6,8,12)]
  have less: "unat ?s < unat ?l" "unat ?l + 1 < 2 ^ 64" using assms(7,10) by (simp_all add: word_less_nat_alt)
  then have l: "unat (?l + 1) = unat ?l + 1" "unat (?s + 1) = unat ?s + 1" by (simp_all add: unat_add_exact)
  have "unat (rf_Sequence g) = unat ?l + 1" unfolding assms(9) by (rule l(1))
  then have g: "rf_Sequence g \<noteq> 0" "rf_Sequence g \<noteq> ?s" "?s + 1 < rf_Sequence g"
    using less(1) l(2) by (auto simp: word_less_nat_alt)
  have "rf_Sequence g \<notin> od_seen d1" unfolding d1(3) using g(2) assms(11) by blast
  from decode_empty(4) [OF assms(3,5) g(1) this assms(13) d1(1)] g(3) d1(2) assms(9) show ?thesis by simp
qed

section \<open>The log\<close>

definition maxIssueLogStates :: nat where "maxIssueLogStates = 64"

text \<open>The key of the entries that do not fit cannot be the key of an issue.\<close>

definition overflowIssueLogKey :: string where
  "overflowIssueLogKey = CHR 0x00 # ''overflow''"

definition defaultIssueLogInterval :: int where "defaultIssueLogInterval = 30 * 10 ^ 9"

record issue_log_state =
  il_lastLogged :: "int option"
  il_suppressed :: u64

definition zeroIssueLogState :: issue_log_state where
  "zeroIssueLogState = \<lparr>il_lastLogged = None, il_suppressed = 0\<rparr>"

record sampled_issue_logger =
  sl_interval :: int
  sl_states :: "(string \<times> issue_log_state) list"

definition newSampledIssueLogger :: "int \<Rightarrow> sampled_issue_logger" where
  "newSampledIssueLogger interval =
    \<lparr>sl_interval = (if interval \<le> 0 then defaultIssueLogInterval else interval),
     sl_states = [(overflowIssueLogKey, zeroIssueLogState)]\<rparr>"

definition sample_key :: "string \<Rightarrow> sampled_issue_logger \<Rightarrow> string" where
  "sample_key key l =
    (if map_of (sl_states l) key = None \<and> maxIssueLogStates \<le> length (sl_states l) then overflowIssueLogKey else key)"

definition log_state :: "string \<Rightarrow> sampled_issue_logger \<Rightarrow> issue_log_state" where
  "log_state key l = (case map_of (sl_states l) key of None \<Rightarrow> zeroIssueLogState | Some s \<Rightarrow> s)"

definition sample :: "int \<Rightarrow> string \<Rightarrow> sampled_issue_logger \<Rightarrow> (u64 \<times> bool) \<times> sampled_issue_logger" where
  "sample now key l =
    (let key = sample_key key l;
         state = log_state key l;
         put = (\<lambda>s. l\<lparr>sl_states := AList.update key s (sl_states l)\<rparr>)
     in if (case il_lastLogged state of None \<Rightarrow> False | Some t \<Rightarrow> now - t < sl_interval l)
        then ((0, False), put (state\<lparr>il_suppressed := il_suppressed state + 1\<rparr>))
        else ((il_suppressed state, True), put (zeroIssueLogState\<lparr>il_lastLogged := Some now\<rparr>)))"

text \<open>A line of the log: the issue and how many like it were suppressed since the last one.\<close>

fun event_name :: "seq_event \<Rightarrow> string" where
  "event_name FirstMessage = ''FIRST_MESSAGE''"
| "event_name InOrder = ''IN_ORDER''"
| "event_name Duplicate = ''DUPLICATE''"
| "event_name Gap = ''GAP''"
| "event_name Regression = ''REGRESSION''"
| "event_name Reconnect = ''RECONNECT''"

fun issue_key :: "issue \<Rightarrow> string" where
  "issue_key (I_Payload class sequence reason) = class @ CHR 0x00 # reason"
| "issue_key (I_Sequence r) = ''sequence'' @ CHR 0x00 # event_name (sr_Event r)"

definition Log :: "int \<Rightarrow> issue \<Rightarrow> sampled_issue_logger \<Rightarrow> (issue \<times> u64) option \<times> sampled_issue_logger" where
  "Log now i l = (case sample now (issue_key i) l of ((suppressed, emit), l) \<Rightarrow> (if emit then Some (i, suppressed) else None, l))"

definition log_ok :: "sampled_issue_logger \<Rightarrow> bool" where
  "log_ok l \<longleftrightarrow> 0 < sl_interval l \<and> distinct (map fst (sl_states l)) \<and> length (sl_states l) \<le> maxIssueLogStates \<and>
     overflowIssueLogKey \<in> fst ` set (sl_states l)"

lemma length_update: "length (AList.update k v al) = (if k \<in> fst ` set al then length al else Suc (length al))"
  by (induction al) auto

lemma sample_update: "\<exists>v. snd (sample now key l) = l\<lparr>sl_states := AList.update (sample_key key l) v (sl_states l)\<rparr>"
  by (auto simp: sample_def Let_def split: if_splits)

text \<open>The log keeps a bounded number of entries, whatever is reported.\<close>

lemma sample_ok:
  assumes "log_ok l"
  shows "log_ok (snd (sample now key l))"
proof -
  obtain v where v: "snd (sample now key l) = l\<lparr>sl_states := AList.update (sample_key key l) v (sl_states l)\<rparr>"
    using sample_update by blast
  have "sample_key key l \<in> fst ` set (sl_states l) \<or> length (sl_states l) < maxIssueLogStates"
    using assms by (auto simp: sample_key_def log_ok_def map_of_eq_None_iff)
  moreover have "overflowIssueLogKey \<in> fst ` set (AList.update (sample_key key l) v (sl_states l))"
    using assms by (simp add: log_ok_def dom_update update_conv' flip: dom_map_of_conv_image_fst)
  ultimately show ?thesis
    using assms by (auto simp: v log_ok_def length_update distinct_update split: if_splits)
qed

lemma newSampledIssueLogger_ok: "log_ok (newSampledIssueLogger interval)"
  by (simp add: log_ok_def newSampledIssueLogger_def maxIssueLogStates_def defaultIssueLogInterval_def)

text \<open>No two lines of a key are closer than the interval: after one, the key is silent until it has passed.\<close>

lemma sample_emits:
  assumes "sample now key l = ((n, True), l')"
  shows "il_lastLogged (log_state (sample_key key l) l') = Some now"
  using assms by (auto simp: sample_def Let_def log_state_def update_conv' split: if_splits)

lemma sample_silent:
  assumes "il_lastLogged (log_state (sample_key key l) l) = Some t" "now < t + sl_interval l"
  shows "\<exists>l'. sample now key l = ((0, False), l')" "il_lastLogged (log_state (sample_key key l) (snd (sample now key l))) = Some t"
  using assms by (simp_all add: sample_def Let_def log_state_def update_conv')

lemma sample_other:
  assumes "k \<noteq> sample_key key l"
  shows "log_state k (snd (sample now key l)) = log_state k l"
  using assms by (simp add: sample_def Let_def log_state_def update_conv')

end
