(* ===== verification/Feed_Witnesses.thy ===== *)
theory Feed_Witnesses
  imports Feed_Source Feed_Line
begin

text \<open>
  A feed, a stream and a source on which the hypotheses of the properties of the feed ingestor hold. Every message
  of the feed carries one signed transaction, which is normalised and published.
\<close>

section \<open>The feed\<close>

definition sample_hash :: string where
  "sample_hash = ''0x'' @ replicate 64 (CHR ''a'')"

definition sample_sender :: string where
  "sample_sender = ''0x'' @ replicate 40 (CHR ''b'')"

definition sample_ethereum :: "unit ethereum" where
  "sample_ethereum =
    \<lparr>et_unmarshal = (\<lambda>_. Inr ()), et_type = (\<lambda>_. 0), et_protected = (\<lambda>_. False), et_chain_id = (\<lambda>_. None),
     et_sender = (\<lambda>_ _. Inr sample_sender), et_hash = (\<lambda>_. sample_hash), et_to = (\<lambda>_. None), et_nonce = (\<lambda>_. 1),
     et_value = (\<lambda>_. 0), et_data = (\<lambda>_. []), et_gas = (\<lambda>_. 21000), et_fee_cap = (\<lambda>_. 1), et_tip_cap = (\<lambda>_. 0)\<rparr>"

text \<open>A broadcast of one signed transaction, whose sequence number is the first byte.\<close>

definition sample_unmarshal :: "u8 list \<Rightarrow> string + broadcast_message" where
  "sample_unmarshal raw =
    Inr \<lparr>bm_Version = 1,
      bm_Messages = [Some \<lparr>fm_SequenceNumber = ucast (hd raw),
        fm_Message = Some \<lparr>lm_Header = Some \<lparr>hd_Kind = 3, hd_Sender = [], hd_BlockNumber = 1, hd_Timestamp = 2,
          hd_RequestID = [], hd_BaseFeeL1 = None\<rparr>, lm_L2msg = [4, 0xc0]\<rparr>, fm_DelayedMessagesRead = 0\<rparr>],
      bm_ConfirmedSequence = None\<rparr>"

definition sample_ack :: pub_attempt where
  "sample_ack =
    \<lparr>pa_waited = True, pa_wait_deadline = False,
     pa_answer = Inr (Some \<lparr>ack_Stream = StreamName, ack_Sequence = 1, ack_Duplicate = False\<rparr>),
     pa_attempt_deadline = False, pa_budget_done = False\<rparr>"

definition sample_network :: network where
  "sample_network call attempt = sample_ack"

text \<open>A stream that is gone after its first acknowledgement.\<close>

definition sample_cut_network :: network where
  "sample_cut_network call attempt = (if call = 0 then sample_ack else sample_ack\<lparr>pa_answer := Inl AE_StreamNotFound\<rparr>)"

definition sample_marshal :: marshal where
  "sample_marshal tx = Some []"

definition sample_message :: "u8 \<Rightarrow> source_step" where
  "sample_message n = S_Message \<lparr>rm_Data = [n], rm_AfterReconnect = False, rm_Context = background, rm_ContextAfter = None\<rparr>"

definition sample_relay_tx :: "u64 \<Rightarrow> relay_tx" where
  "sample_relay_tx position = (relay_tx_of sample_ethereum [0xc0] () sample_sender)\<lparr>rt_SourceFeedOrderPosition := position\<rparr>"

definition sample_frame :: "u64 \<Rightarrow> relay_tx list \<Rightarrow> nitro_frame" where
  "sample_frame n txs = empty_frame\<lparr>fr_Sequence := n, fr_TimestampUnixMS := 2000, fr_Transactions := txs\<rparr>"

definition sample_tx :: "u64 \<Rightarrow> u64 \<Rightarrow> normalized_tx" where
  "sample_tx n position = (case Normalize n 2000 (sample_relay_tx position) 0 of Inr tx \<Rightarrow> tx)"

lemma sample_hex: "isHex sample_hash 32" "isHexAddress sample_sender"
proof -
  have "hex_decode (replicate (2 * k) c) \<noteq> None" if "hex_value c \<noteq> None" for k c
    using that by (induction k) auto
  from this [of "CHR ''a''" 32] this [of "CHR ''b''" 20] show "isHex sample_hash 32" "isHexAddress sample_sender"
    by (simp_all add: sample_hash_def sample_sender_def isHex_def isHexAddress_def starts_with_def hex_value_def of_char_def)
qed

lemma sample_eth: "et_hash sample_ethereum tx = sample_hash" "et_to sample_ethereum tx = None"
  by (simp_all add: sample_ethereum_def)

lemma sample_normalize:
  "Normalize n 2000 (sample_relay_tx position) 0 = Inr (sample_tx n position)"
  "nt_Sequence (sample_tx n position) = n" "nt_SourceFeedOrderPosition (sample_tx n position) = position"
  "nt_TxHash (sample_tx n position) = lowerHex sample_hash" "nt_RawTx (sample_tx n position) = [0xc0]"
proof -
  obtain tx where tx: "Normalize n 2000 (sample_relay_tx position) 0 = Inr tx" "nt_RawTx tx = [0xc0]"
    using Normalize_decoded [where eth = sample_ethereum and tx = "()" and sender = sample_sender and raw = "[0xc0]"
      and sequence = n and ts = 2000 and position = position and now = 0] sample_hex
    by (auto simp: sample_relay_tx_def sample_eth)
  then show "Normalize n 2000 (sample_relay_tx position) 0 = Inr (sample_tx n position)" "nt_RawTx (sample_tx n position) = [0xc0]"
    by (simp_all add: sample_tx_def)
  with Normalize_Inr [OF this(1)]
  show "nt_Sequence (sample_tx n position) = n" "nt_SourceFeedOrderPosition (sample_tx n position) = position"
    "nt_TxHash (sample_tx n position) = lowerHex sample_hash"
    by (simp_all add: sample_relay_tx_def sample_eth relay_tx_of_def)
qed

lemma sample_frame_normalized:
  "normalizeRelayTransactions (\<lambda>_. 0) (sample_frame n (map sample_relay_tx ps)) = (map (sample_tx n) ps, [])"
proof -
  have "normalize_loop n 2000 (\<lambda>_. 0) i (map sample_relay_tx ps) = (map (sample_tx n) ps, [])" for i
    by (induction ps arbitrary: i) (simp_all add: sample_normalize(1))
  then show ?thesis by (simp add: normalizeRelayTransactions_def sample_frame_def)
qed

section \<open>The stream\<close>

lemma sample_digits: "dec_string 5 = ''5''" "dec_string 7 = ''7''" "dec_string 8 = ''8''"
  by (simp_all add: dec_string.simps char_of_def bit_Suc_0_iff)

lemma sample_hash_lower: "lowerHex sample_hash = CHR ''0'' # CHR ''x'' # replicate 64 (CHR ''a'')"
  by (simp add: lowerHex_def sample_hash_def starts_with_def to_ascii_lower_def of_char_def)

lemma sample_identity:
  assumes "n \<in> {5, 7, 8}"
  shows "validMessageID (DurableMessageID (sample_tx n position))"
proof -
  have "validMessageID (c # CHR '':'' # CHR ''0'' # CHR ''x'' # replicate 64 (CHR ''a''))" if "c \<in> set ''578''" for c
    using that by (auto simp: validMessageID_def Let_def trimmed_def is_go_space_def PublishMaxMessageIDBytes_def of_char_def list_all_iff)
  from this [of "CHR ''5''"] this [of "CHR ''7''"] this [of "CHR ''8''"] show ?thesis
    using assms by (auto simp: DurableMessageID_def sample_normalize sample_hash_lower sample_digits)
qed

lemma sample_publish:
  assumes "n \<in> {5, 7, 8}"
  shows "Publish sample_marshal (sample_network call) (sample_tx n position) = (None, [], 1)"
    "Publish sample_marshal (sample_cut_network 0) (sample_tx n position) = (None, [], 1)"
    "0 < call \<Longrightarrow> Publish sample_marshal (sample_cut_network call) (sample_tx n position) = (Some ErrStreamUnavailable, [], 1)"
  using sample_identity [OF assms]
  by (simp_all add: Publish_def sample_marshal_def publish_loop.simps sample_network_def sample_cut_network_def sample_ack_def
    ack_valid_def PublishMaxAttempts_def attempt_timed_out_def stream_missing_def)

section \<open>The loop\<close>

lemma sample_frame_published:
  assumes "n \<in> {5, 7, 8}" "\<not> ss_haveLast (ig_sequence st) \<or> ss_lastSequence (ig_sequence st) < n"
  shows "\<exists>st'. processRelayFrame sample_marshal sample_network (\<lambda>_. 0) (sample_frame n [sample_relay_tx 0]) False st = (None, st') \<and>
    ig_sequence st' = snd (Observe n False (ig_sequence st)) \<and> committed st' = committed st @ [n] \<and>
    ig_published st' = ig_published st @ [sample_tx n 0]"
proof -
  obtain r s where obs: "Observe n False (ig_sequence st) = (r, s)" by fastforce
  have ev: "sr_Event r \<noteq> Duplicate" "sr_Event r \<noteq> Regression"
    using Observe_publishable(1,4) [OF obs] assms(2) by auto
  have pub: "\<exists>st'. publish_frame sample_marshal sample_network (\<lambda>_. 0) s (sample_frame n [sample_relay_tx 0]) t = (None, st') \<and>
      ig_sequence st' = s \<and> committed st' = committed t @ [n] \<and> ig_published st' = ig_published t @ [sample_tx n 0]" for t
    using sample_frame_normalized [of n "[0]"] sample_publish(1) [OF assms(1)]
    by (simp add: publish_frame_def publishAndUpdateReadiness_def Let_def) (simp add: sample_frame_def)
  have frame: "fr_Sequence (sample_frame n [sample_relay_tx 0]) = n" "fr_Malformed (sample_frame n [sample_relay_tx 0]) = []"
    by (simp_all add: sample_frame_def empty_frame_def)
  obtain t where "processRelayFrame sample_marshal sample_network (\<lambda>_. 0) (sample_frame n [sample_relay_tx 0]) False st =
      publish_frame sample_marshal sample_network (\<lambda>_. 0) s (sample_frame n [sample_relay_tx 0]) t"
      "committed t = committed st" "ig_published t = ig_published st"
    using ev obs frame by (cases "sr_Event r") (simp_all add: processRelayFrame_def Let_def)
  then show ?thesis using pub [of t] obs by simp
qed

lemma sample_broadcast:
  "\<exists>report. DecodeBroadcastContext sample_ethereum sample_unmarshal background [n] =
     Inr ([sample_frame (ucast n) [sample_relay_tx 0]], report)"
proof -
  have "decodeSignedEthereumTx sample_ethereum [0xc0] = Inr (relay_tx_of sample_ethereum [0xc0] () sample_sender)"
    by (simp add: decodeSignedEthereumTx_def AccessListTxType_def DynamicFeeTxType_def SetCodeTxType_def BlobTxType_def
      LegacyTxType_def) (simp add: sample_ethereum_def LegacyTxType_def BlobTxType_def)
  then show ?thesis
    by (simp add: DecodeBroadcastContext_def poll_def MaxBroadcastMessageSize_def sample_unmarshal_def BroadcastVersion_def
      decodeFeedMessage_def L1MessageTypeL2Message_def Let_def decodeL2Message.simps [of _ _ "[4, 0xc0]"] MaxL2MessageSize_def
      l2_kind_defs decode_plain_def decode_signed_def no_result_def frame_kept_def sample_frame_def empty_frame_def
      sample_relay_tx_def)
qed

lemma sample_run:
  "\<exists>st. runRelaySource sample_ethereum sample_unmarshal sample_marshal sample_network (\<lambda>_. 0) [sample_message 5, sample_message 8]
      False relay_start = (Running, st) \<and> committed st = [5, 8] \<and> ig_published st = [sample_tx 5 0, sample_tx 8 0]"
proof -
  let ?tick = "count [M_Inc ''feed_messages_total'']"
  have start: "committed relay_start = []" "ig_sequence relay_start = seq_New" "ig_published relay_start = []"
    by (simp_all add: relay_start_def committed_def)
  have five: "snd (Observe 5 False seq_New) = \<lparr>ss_lastSequence = 5, ss_haveLast = True, ss_unresolvedGap = False\<rparr>"
    by (simp add: Observe_def seq_New_def seq_accept_def)
  obtain a where a: "processRelayFrame sample_marshal sample_network (\<lambda>_. 0) (sample_frame 5 [sample_relay_tx 0]) False
      (?tick relay_start) = (None, a)"
      "ig_sequence a = snd (Observe 5 False seq_New)" "committed a = [5]" "ig_published a = [sample_tx 5 0]"
    using sample_frame_published [of 5 "?tick relay_start"] start by (auto simp: seq_New_def)
  obtain b where b: "processRelayFrame sample_marshal sample_network (\<lambda>_. 0) (sample_frame 8 [sample_relay_tx 0]) False
      (?tick (readinessGauge a)) = (None, b)" "committed b = [5, 8]" "ig_published b = [sample_tx 5 0, sample_tx 8 0]"
    using sample_frame_published [of 8 "?tick (readinessGauge a)"] a five by auto
  show ?thesis
    using sample_broadcast [of 5] sample_broadcast [of 8] a b by (auto simp: sample_message_def Let_def)
qed

theorem relay_published_in_order_witness:
  "\<exists>st. runRelaySource sample_ethereum sample_unmarshal sample_marshal sample_network (\<lambda>_. 0) [sample_message 5, sample_message 8]
      False relay_start = (Running, st) \<and> ig_published st = [sample_tx 5 0, sample_tx 8 0] \<and> sorted_wrt before (ig_published st)"
proof -
  obtain st where run: "runRelaySource sample_ethereum sample_unmarshal sample_marshal sample_network (\<lambda>_. 0)
      [sample_message 5, sample_message 8] False relay_start = (Running, st)" "ig_published st = [sample_tx 5 0, sample_tx 8 0]"
    using sample_run by blast
  then show ?thesis
    using relay_published_in_order [of sample_ethereum sample_unmarshal sample_marshal sample_network "\<lambda>_. 0"
      "[sample_message 5, sample_message 8]" False] by auto
qed

definition sample_two :: nitro_frame where
  "sample_two = sample_frame 7 [sample_relay_tx 0, sample_relay_tx 1]"

lemma sample_two_processed:
  "fst (processRelayFrame sample_marshal sample_network (\<lambda>_. 0) sample_two False relay_start) = None"
  "fst (processRelayFrame sample_marshal sample_cut_network (\<lambda>_. 0) sample_two False relay_start) = Some ErrStreamUnavailable"
  "ig_published (snd (processRelayFrame sample_marshal sample_cut_network (\<lambda>_. 0) sample_two False relay_start)) = [sample_tx 7 0]"
proof -
  have frame: "fr_Sequence sample_two = 7" "fr_Malformed sample_two = []"
    by (simp_all add: sample_two_def sample_frame_def empty_frame_def)
  have start: "ig_sequence relay_start = seq_New" "ig_calls relay_start = 0" "ig_published relay_start = []"
    by (simp_all add: relay_start_def)
  have calls: "ig_calls (recordFrameIssues f st) = ig_calls st" "ig_calls (count ms st) = ig_calls st"
    "ig_calls (report xs st) = ig_calls st" for f st ms xs
    by (simp_all add: recordFrameIssues_def report_def count_def)
  note eval = processRelayFrame_def frame start calls Observe_def seq_New_def seq_result_of_def publish_frame_def
    publishAndUpdateReadiness_def sample_frame_normalized [of 7 "[0, 1]", simplified, folded sample_two_def] sample_publish Let_def
  show "fst (processRelayFrame sample_marshal sample_network (\<lambda>_. 0) sample_two False relay_start) = None"
    "fst (processRelayFrame sample_marshal sample_cut_network (\<lambda>_. 0) sample_two False relay_start) = Some ErrStreamUnavailable"
    "ig_published (snd (processRelayFrame sample_marshal sample_cut_network (\<lambda>_. 0) sample_two False relay_start)) = [sample_tx 7 0]"
    by (simp_all add: eval)
qed

theorem frame_commit_witness:
  "let (err, st) = processRelayFrame sample_marshal sample_network (\<lambda>_. 0) sample_two False relay_start;
       (err', st') = processRelayFrame sample_marshal sample_cut_network (\<lambda>_. 0) sample_two False relay_start
   in err = None \<and> ss_lastSequence (ig_sequence st) = 7 \<and> ig_published st = [sample_tx 7 0, sample_tx 7 1] \<and>
      err' = Some ErrStreamUnavailable \<and> ig_sequence st' = ig_sequence relay_start \<and> ig_published st' = [sample_tx 7 0]"
proof -
  obtain err st where run: "processRelayFrame sample_marshal sample_network (\<lambda>_. 0) sample_two False relay_start = (err, st)"
    by fastforce
  obtain err' st' where cut: "processRelayFrame sample_marshal sample_cut_network (\<lambda>_. 0) sample_two False relay_start = (err', st')"
    by fastforce
  have "fr_Sequence sample_two = 7" "\<not> ss_haveLast (ig_sequence relay_start)" "ig_published relay_start = []"
    by (simp_all add: sample_two_def sample_frame_def relay_start_def seq_New_def)
  moreover have "fst (normalizeRelayTransactions (\<lambda>_. 0) sample_two) = [sample_tx 7 0, sample_tx 7 1]"
    using sample_frame_normalized [of 7 "[0, 1]"] by (simp add: sample_two_def)
  ultimately show ?thesis
    using frame_commit [OF run] frame_commit [OF cut] sample_two_processed run cut by (auto simp: Let_def)
qed

theorem relay_gap_accounting_witness:
  "\<exists>st. runRelaySource sample_ethereum sample_unmarshal sample_marshal sample_network (\<lambda>_. 0) [sample_message 5, sample_message 8]
      False relay_start = (Running, st) \<and> committed st = [5, 8] \<and> ig_published st = [sample_tx 5 0, sample_tx 8 0] \<and> missing st = 2"
proof -
  obtain st where run: "runRelaySource sample_ethereum sample_unmarshal sample_marshal sample_network (\<lambda>_. 0)
      [sample_message 5, sample_message 8] False relay_start = (Running, st)" "committed st = [5, 8]"
      "ig_published st = [sample_tx 5 0, sample_tx 8 0]"
    using sample_run by blast
  from relay_gap_accounting [OF run(1)] run(2) have "missing st = 2" by simp
  with run show ?thesis by blast
qed

text \<open>A process that is ready after a publication, and a frame that comes late.\<close>

definition sample_ready :: ingest where
  "sample_ready = snd (processRelayFrame sample_marshal sample_network (\<lambda>_. 0) (sample_frame 8 [sample_relay_tx 0]) False
     (relayLifecycleHandler RelayConnected relay_start))"

lemma sample_ready_state: "fst (Ready (ig_readiness sample_ready))" "ig_sequence sample_ready = snd (Observe 8 False seq_New)"
proof -
  have frame: "fr_Sequence (sample_frame 8 [sample_relay_tx 0]) = 8" "fr_Malformed (sample_frame 8 [sample_relay_tx 0]) = []"
    by (simp_all add: sample_frame_def empty_frame_def)
  have marks: "ig_readiness (recordFrameIssues f st) = ig_readiness st" "ig_readiness (count ms st) = ig_readiness st"
    "ig_readiness (report xs st) = ig_readiness st" "ig_readiness (mark g st) = g (ig_readiness st)"
    "ig_readiness (readinessGauge st) = ig_readiness st" for f st ms xs g
    by (simp_all add: recordFrameIssues_def report_def count_def mark_def readinessGauge_def)
  show "ig_sequence sample_ready = snd (Observe 8 False seq_New)"
    using sample_frame_published [of 8 "relayLifecycleHandler RelayConnected relay_start"]
    by (auto simp: sample_ready_def relay_start_def seq_New_def)
  show "fst (Ready (ig_readiness sample_ready))"
    by (simp add: sample_ready_def processRelayFrame_def frame Observe_def relay_start_def seq_New_def seq_result_of_def
      seq_accept_def publish_frame_def publishAndUpdateReadiness_def sample_frame_normalized [of 8 "[0]", simplified]
      sample_publish Let_def commitRelaySequence_def HasUnresolvedGap_def marks mark_defs new_readiness_def Ready_def)
qed

theorem integrity_failure_final_witness:
  "fst (Ready (ig_readiness sample_ready)) \<and>
   \<not> fst (Ready (ig_readiness (snd (runRelaySource sample_ethereum sample_unmarshal sample_marshal sample_network (\<lambda>_. 0)
     [S_Event RelayConnected, sample_message 9] False
     (snd (processRelayFrame sample_marshal sample_network (\<lambda>_. 0) (sample_frame 7 [sample_relay_tx 0]) False sample_ready))))))"
proof -
  let ?p = "processRelayFrame sample_marshal sample_network (\<lambda>_. 0) (sample_frame 7 [sample_relay_tx 0]) False sample_ready"
  have late: "ss_haveLast (ig_sequence sample_ready) \<and>
      fr_Sequence (sample_frame 7 [sample_relay_tx 0]) < ss_lastSequence (ig_sequence sample_ready)"
    by (simp add: sample_ready_state(2) sample_frame_def Observe_def seq_New_def seq_accept_def)
  obtain err st where run: "?p = (err, st)" by fastforce
  have "err = None" using frame_outcomes [OF run] late less_imp_le [OF conjunct2 [OF late]] by (simp add: Let_def)
  then have p: "?p = (None, snd ?p)" using run by simp
  show ?thesis using integrity_failure_final [OF p disjI2 [OF late] prod.collapse [symmetric]] sample_ready_state(1) by blast
qed












end
