(* ===== verification/Gateway_Schedule.thy ===== *)
theory Gateway_Schedule
  imports Phoenix_Prelude "HOL-Library.AList"
begin

text \<open>
  Admission in the RPC gateway: the token bucket of the request budget (rpc-gateway/src/budget.rs), the cache
  with expiry (cache.rs), the coalescer of equal requests (coalescer.rs), the order of queued requests
  (priority.rs), the readiness of the gateway (runtime_state.rs) and the identity of pinned reads
  (economic.rs). Instants and durations are nanoseconds; a hash map is a list of its entries.
\<close>

type_synonym instant = nat
type_synonym duration = nat

text \<open>A duration is less than this: its seconds are 64 bits wide.\<close>

definition DURATION_BOUND :: nat where "DURATION_BOUND = 2 ^ 94"

section \<open>Budget\<close>

definition TOKEN_SCALE :: u128 where "TOKEN_SCALE = 1000000000"

record token_bucket =
  tb_capacity_scaled :: u128
  tb_tokens_scaled :: u128
  tb_refill_tokens :: u32
  tb_refill_period :: duration
  tb_last_refill :: instant

definition TokenBucket_new :: "u32 \<Rightarrow> u32 \<Rightarrow> duration \<Rightarrow> instant \<Rightarrow> token_bucket" where
  "TokenBucket_new capacity refill_tokens refill_period now =
    (let capacity_scaled = ucast (max capacity 1) * TOKEN_SCALE in
     \<lparr>tb_capacity_scaled = capacity_scaled, tb_tokens_scaled = capacity_scaled,
      tb_refill_tokens = max refill_tokens 1, tb_refill_period = max refill_period 1, tb_last_refill = now\<rparr>)"

definition refill_added :: "instant \<Rightarrow> token_bucket \<Rightarrow> u128" where
  "refill_added now b =
    saturating_mul (saturating_mul (of_nat (now - tb_last_refill b)) (ucast (tb_refill_tokens b))) TOKEN_SCALE
      div of_nat (tb_refill_period b)"

definition refill :: "instant \<Rightarrow> token_bucket \<Rightarrow> token_bucket" where
  "refill now b =
    (let added = refill_added now b in
     if 0 < added
     then b\<lparr>tb_tokens_scaled := min (saturating_add (tb_tokens_scaled b) added) (tb_capacity_scaled b), tb_last_refill := now\<rparr>
     else b)"

definition try_take :: "instant \<Rightarrow> token_bucket \<Rightarrow> bool \<times> token_bucket" where
  "try_take now b =
    (let b = refill now b in
     if tb_tokens_scaled b < TOKEN_SCALE then (False, b)
     else (True, b\<lparr>tb_tokens_scaled := tb_tokens_scaled b - TOKEN_SCALE\<rparr>))"

definition bucket_available :: "token_bucket \<Rightarrow> u32" where
  "bucket_available b = ucast (min (tb_tokens_scaled b div TOKEN_SCALE) (ucast (- 1 :: u32)))"

definition budget_admit :: "instant \<Rightarrow> token_bucket \<Rightarrow> bool \<times> token_bucket" where
  "budget_admit now b = try_take now b"

definition budget_available :: "instant \<Rightarrow> token_bucket \<Rightarrow> u32 \<times> token_bucket" where
  "budget_available now b = (let b = refill now b in (bucket_available b, b))"

text \<open>The requests of a run, each with the instant it asks at.\<close>

fun admits :: "instant list \<Rightarrow> token_bucket \<Rightarrow> bool list \<times> token_bucket" where
  "admits [] b = ([], b)"
| "admits (t # ts) b =
    (let (ok, b) = budget_admit t b; (oks, b) = admits ts b in (ok # oks, b))"

abbreviation tokens :: "token_bucket \<Rightarrow> nat" where
  "tokens b \<equiv> unat (tb_tokens_scaled b)"

lemma unat_TOKEN_SCALE [simp]: "unat TOKEN_SCALE = 1000000000"
  by (simp add: TOKEN_SCALE_def)

lemma unat_div_word: "unat (a div b :: 'a::len word) = unat a div unat b"
  by (simp add: unat_div)

lemma unat_of_nat_le: "unat (of_nat n :: 'a::len word) \<le> n"
  by (simp add: unsigned_of_nat take_bit_eq_mod)

lemma unat_refill_added:
  assumes "tb_refill_period b < DURATION_BOUND"
  shows "unat (refill_added now b) * tb_refill_period b
    \<le> (now - tb_last_refill b) * unat (tb_refill_tokens b) * 1000000000"
proof -
  have p: "unat (of_nat (tb_refill_period b) :: u128) = tb_refill_period b"
    using assms by (intro unat_of_nat_exact) (simp add: DURATION_BOUND_def)
  let ?x = "saturating_mul (of_nat (now - tb_last_refill b)) (ucast (tb_refill_tokens b)) :: u128"
  have "unat ?x \<le> unat (of_nat (now - tb_last_refill b) :: u128) * unat (tb_refill_tokens b)" by simp
  also have "\<dots> \<le> (now - tb_last_refill b) * unat (tb_refill_tokens b)" by (rule mult_le_mono1 [OF unat_of_nat_le])
  finally have x: "unat ?x * 1000000000 \<le> (now - tb_last_refill b) * unat (tb_refill_tokens b) * 1000000000"
    by (rule mult_le_mono1)
  have "unat (saturating_mul ?x TOKEN_SCALE) \<le> unat ?x * 1000000000"
    by (simp only: unat_saturating_mul unat_TOKEN_SCALE min.cobounded1)
  then have "unat (saturating_mul ?x TOKEN_SCALE) \<le> (now - tb_last_refill b) * unat (tb_refill_tokens b) * 1000000000"
    using x by (rule order_trans)
  then show ?thesis
    unfolding refill_added_def unat_div_word p by (meson div_times_less_eq_dividend order_trans)
qed

lemma refill_fields [simp]:
  "tb_capacity_scaled (refill now b) = tb_capacity_scaled b" "tb_refill_tokens (refill now b) = tb_refill_tokens b"
  "tb_refill_period (refill now b) = tb_refill_period b"
  by (simp_all add: refill_def Let_def)

lemma refill_clock: "tb_last_refill b \<le> tb_last_refill (refill now b)" "tb_last_refill (refill now b) \<le> max (tb_last_refill b) now"
proof -
  have "tb_last_refill b < now" if "0 < refill_added now b"
    using that by (cases "now \<le> tb_last_refill b") (simp_all add: refill_added_def saturating_mul_def)
  then show "tb_last_refill b \<le> tb_last_refill (refill now b)" "tb_last_refill (refill now b) \<le> max (tb_last_refill b) now"
    by (auto simp: refill_def Let_def)
qed

lemma refill_tokens_bound:
  assumes "tb_refill_period b < DURATION_BOUND"
  shows "tokens (refill now b) * tb_refill_period b \<le> tokens b * tb_refill_period b
    + (tb_last_refill (refill now b) - tb_last_refill b) * unat (tb_refill_tokens b) * 1000000000"
proof (cases "0 < refill_added now b")
  case True
  then have "tokens (refill now b) \<le> tokens b + unat (refill_added now b)"
    by (auto simp: refill_def Let_def min_def word_le_nat_alt)
  then have "tokens (refill now b) * tb_refill_period b \<le> tokens b * tb_refill_period b + unat (refill_added now b) * tb_refill_period b"
    by (metis mult_le_mono1 add_mult_distrib)
  also have "\<dots> \<le> tokens b * tb_refill_period b + (now - tb_last_refill b) * unat (tb_refill_tokens b) * 1000000000"
    using unat_refill_added [OF assms] by simp
  finally show ?thesis using True by (simp add: refill_def Let_def)
qed (simp add: refill_def Let_def)

lemma fold_max_mono: "a \<le> b \<Longrightarrow> fold max ts a \<le> fold max ts (b :: nat)"
  by (induction ts arbitrary: a b) (auto intro: max.mono)

lemma admits_bound:
  assumes "admits ts b = (oks, b')" "tb_refill_period b < DURATION_BOUND"
  shows "length (filter (\<lambda>ok. ok) oks) * 1000000000 * tb_refill_period b + tokens b' * tb_refill_period b
      \<le> tokens b * tb_refill_period b
        + (tb_last_refill b' - tb_last_refill b) * unat (tb_refill_tokens b) * 1000000000 \<and>
    tb_last_refill b \<le> tb_last_refill b' \<and> tb_last_refill b' \<le> fold max ts (tb_last_refill b)"
  using assms
proof (induction ts arbitrary: b oks)
  case (Cons t ts)
  let ?r = "refill t b" and ?p = "tb_refill_period b" and ?k = "unat (tb_refill_tokens b) * 1000000000"
  obtain ok b1 where take: "budget_admit t b = (ok, b1)" by fastforce
  obtain oks1 where rest: "admits ts b1 = (oks1, b')" "oks = ok # oks1"
    using Cons(2) take by (auto split: prod.splits)
  have b1: "tb_refill_period b1 = ?p" "tb_refill_tokens b1 = tb_refill_tokens b" "tb_last_refill b1 = tb_last_refill ?r"
    using take by (auto simp: budget_admit_def try_take_def Let_def split: if_splits)
  have "tokens ?r = tokens b1 + (if ok then 1000000000 else 0)"
    using take unfolding budget_admit_def try_take_def Let_def
    by (auto simp: unat_sub not_less word_le_nat_alt split: if_splits)
  then have pay: "tokens ?r * ?p = tokens b1 * ?p + (if ok then 1000000000 * ?p else 0)"
    by (simp add: add_mult_distrib)
  have fill: "tokens ?r * ?p \<le> tokens b * ?p + (tb_last_refill b1 - tb_last_refill b) * ?k"
    using refill_tokens_bound [OF Cons(3), of t] b1(3) by (simp add: mult.assoc)
  have clock: "tb_last_refill b \<le> tb_last_refill b1" "tb_last_refill b1 \<le> max (tb_last_refill b) t"
    using refill_clock [where b = b and now = t] b1(3) by simp_all
  have IH: "length (filter (\<lambda>ok. ok) oks1) * 1000000000 * ?p + tokens b' * ?p
      \<le> tokens b1 * ?p + (tb_last_refill b' - tb_last_refill b1) * ?k"
    "tb_last_refill b1 \<le> tb_last_refill b'" "tb_last_refill b' \<le> fold max ts (tb_last_refill b1)"
    using Cons(1) [OF rest(1)] Cons(3) b1 by (simp_all add: mult.assoc)
  have "(tb_last_refill b' - tb_last_refill b) * ?k
      = (tb_last_refill b' - tb_last_refill b1) * ?k + (tb_last_refill b1 - tb_last_refill b) * ?k"
    using IH(2) clock(1) by (simp flip: add_mult_distrib)
  then have "length (filter (\<lambda>ok. ok) oks) * 1000000000 * ?p + tokens b' * ?p
      \<le> tokens b * ?p + (tb_last_refill b' - tb_last_refill b) * ?k"
    using IH(1) fill pay by (cases ok) (simp_all add: rest(2) add_mult_distrib)
  moreover have "fold max ts (tb_last_refill b1) \<le> fold max ts (max t (tb_last_refill b))"
    using clock(2) by (intro fold_max_mono) (simp add: max.commute)
  ultimately show ?case using IH(2,3) clock(1) by (simp add: mult.assoc)
qed simp

lemma scale_cancel:
  fixes n p c d e r x :: nat
  assumes "n * 1000000000 * p + x \<le> c * 1000000000 * p + d * r * 1000000000" "d \<le> e"
  shows "n * p \<le> c * p + e * r"
proof -
  have "d * r \<le> e * r" using assms(2) by (rule mult_le_mono1)
  moreover have "1000000000 * (n * p) \<le> 1000000000 * (c * p + d * r)"
    using assms(1) by (simp add: algebra_simps)
  then have "n * p \<le> c * p + d * r" by (simp only: mult_le_cancel1)
  ultimately show ?thesis by (meson add_left_mono order_trans)
qed

text \<open>C21: The budget bounds the request rate. Over any run of a fresh budget, whatever the order and spacing of
  the requests, the number of admitted requests is at most the capacity plus the tokens refilled between the
  start and the last request at the sustained rate.\<close>

theorem budget_rate_bounded:
  assumes "refill_period < DURATION_BOUND" "t0 \<le> T" "\<forall>t \<in> set ts. t \<le> T"
  shows "length (filter (\<lambda>ok. ok) (fst (admits ts (TokenBucket_new capacity refill_tokens refill_period t0)))) * max refill_period 1
    \<le> max (unat capacity) 1 * max refill_period 1 + (T - t0) * max (unat refill_tokens) 1"
proof -
  let ?b = "TokenBucket_new capacity refill_tokens refill_period t0"
  obtain oks b' where run: "admits ts ?b = (oks, b')" by fastforce
  have unat_max: "unat (max x (1 :: u32)) = max (unat x) 1" for x
    by (simp add: max_def word_le_nat_alt)
  have fields: "tb_refill_period ?b = max refill_period 1" "unat (tb_refill_tokens ?b) = max (unat refill_tokens) 1"
    "tb_last_refill ?b = t0"
    by (simp_all add: TokenBucket_new_def Let_def unat_max)
  have "max (unat capacity) 1 < 2 ^ 32" using unat_less_exp [of capacity] by simp
  then have "max (unat capacity) 1 * 1000000000 < 2 ^ 128" by (intro unat_mult_bound [of 32 30]) simp_all
  then have "unat (ucast (max capacity 1) * TOKEN_SCALE :: u128) = max (unat capacity) 1 * 1000000000"
    by (subst unat_mult_exact) (simp_all add: unat_max del: power_numeral)
  then have tokens: "tokens ?b = max (unat capacity) 1 * 1000000000"
    by (simp add: TokenBucket_new_def Let_def)
  have "tb_refill_period ?b < DURATION_BOUND" using assms(1) fields(1) by (simp add: DURATION_BOUND_def)
  note bound = admits_bound [OF run this, unfolded fields tokens]
  have "fold max ts t0 \<le> T"
    using assms(2,3) by (induction ts arbitrary: t0) auto
  then have clock: "tb_last_refill b' - t0 \<le> T - t0" using bound by linarith
  show ?thesis unfolding run fst_conv by (rule scale_cancel [OF conjunct1 [OF bound] clock])
qed

text \<open>A budget that has waited a whole period admits the next request.\<close>

lemma budget_recovers:
  assumes "0 < tb_refill_period b" "tb_refill_period b < DURATION_BOUND" "tb_last_refill b + tb_refill_period b \<le> now"
    "now - tb_last_refill b < DURATION_BOUND" "0 < tb_refill_tokens b" "TOKEN_SCALE \<le> tb_capacity_scaled b"
  shows "fst (budget_admit now b)"
proof -
  let ?e = "now - tb_last_refill b" and ?p = "tb_refill_period b"
  have e: "unat (of_nat ?e :: u128) = ?e" "unat (of_nat ?p :: u128) = ?p"
    using assms(2,4) by (auto intro!: unat_of_nat_exact simp: DURATION_BOUND_def)
  have r: "1 \<le> unat (tb_refill_tokens b)" using assms(5) by (simp add: word_less_nat_alt)
  have "?p * 1 \<le> ?e * unat (tb_refill_tokens b)" using assms(3) r by (intro mult_le_mono) auto
  then have "?p * 1000000000 \<le> min (?e * unat (tb_refill_tokens b)) (2 ^ 128 - 1) * 1000000000"
    using assms(2) by (simp add: DURATION_BOUND_def)
  moreover have "?p * 1000000000 \<le> 2 ^ 128 - 1" using assms(2) by (simp add: DURATION_BOUND_def)
  ultimately have "?p * 1000000000 \<le> unat (saturating_mul (saturating_mul (of_nat ?e) (ucast (tb_refill_tokens b))) TOKEN_SCALE)"
    by (simp add: e)
  then have "1000000000 \<le> unat (refill_added now b)"
    unfolding refill_added_def unat_div_word e using assms(1)
    by (metis div_le_mono mult.commute nonzero_mult_div_cancel_left not_gr0)
  then have "TOKEN_SCALE \<le> tb_tokens_scaled (refill now b)"
    using assms(6) by (auto simp: refill_def Let_def word_le_nat_alt word_less_nat_alt min_def)
  then show ?thesis by (simp add: budget_admit_def try_take_def Let_def)
qed

section \<open>Cache\<close>

record 'v cache_entry =
  ce_value :: 'v
  ce_expires_at :: instant
  ce_generation :: u64

record 'v ttl_cache =
  tc_entries :: "(string \<times> 'v cache_entry) list"
  tc_capacity :: nat
  tc_next_generation :: u64

definition TtlCache_new :: "nat \<Rightarrow> 'v ttl_cache" where
  "TtlCache_new capacity = \<lparr>tc_entries = [], tc_capacity = max capacity 1, tc_next_generation = 0\<rparr>"

definition evicted_before :: "string \<times> 'v cache_entry \<Rightarrow> string \<times> 'v cache_entry \<Rightarrow> bool" where
  "evicted_before l r \<longleftrightarrow>
     ce_expires_at (snd l) < ce_expires_at (snd r) \<or> ce_expires_at (snd l) = ce_expires_at (snd r) \<and>
       (ce_generation (snd l) < ce_generation (snd r) \<or> ce_generation (snd l) = ce_generation (snd r) \<and>
          string_less (fst l) (fst r))"

fun oldest :: "(string \<times> 'v cache_entry) list \<Rightarrow> (string \<times> 'v cache_entry) option" where
  "oldest [] = None"
| "oldest (x # xs) = (case oldest xs of None \<Rightarrow> Some x | Some y \<Rightarrow> if evicted_before y x then Some y else Some x)"

definition live :: "instant \<Rightarrow> 'v ttl_cache \<Rightarrow> (string \<times> 'v cache_entry) list" where
  "live now c = filter (\<lambda>(_, e). now < ce_expires_at e) (tc_entries c)"

definition evict :: "string \<Rightarrow> nat \<Rightarrow> (string \<times> 'v cache_entry) list \<Rightarrow> (string \<times> 'v cache_entry) list" where
  "evict key capacity entries =
    (if map_of entries key = None \<and> capacity \<le> length entries
     then case oldest entries of None \<Rightarrow> entries | Some (k, _) \<Rightarrow> AList.delete k entries
     else entries)"

definition cache_insert :: "string \<Rightarrow> 'v \<Rightarrow> duration \<Rightarrow> instant \<Rightarrow> 'v ttl_cache \<Rightarrow> 'v ttl_cache" where
  "cache_insert key v ttl now c =
    (let entries = evict key (tc_capacity c) (live now c);
         generation = saturating_add (tc_next_generation c) 1
     in c\<lparr>tc_next_generation := generation,
          tc_entries := AList.update key \<lparr>ce_value = v, ce_expires_at = now + ttl, ce_generation = generation\<rparr> entries\<rparr>)"

definition cache_len :: "'v ttl_cache \<Rightarrow> nat" where
  "cache_len c = length (tc_entries c)"

definition cache_retain :: "(string \<Rightarrow> 'v \<Rightarrow> bool) \<Rightarrow> 'v ttl_cache \<Rightarrow> 'v ttl_cache" where
  "cache_retain keep c = c\<lparr>tc_entries := filter (\<lambda>(k, e). keep k (ce_value e)) (tc_entries c)\<rparr>"

definition cache_get :: "string \<Rightarrow> instant \<Rightarrow> 'v ttl_cache \<Rightarrow> 'v option \<times> 'v ttl_cache" where
  "cache_get key now c =
    (case map_of (tc_entries c) key of
       None \<Rightarrow> (None, c)
     | Some e \<Rightarrow> if ce_expires_at e \<le> now then (None, c\<lparr>tc_entries := AList.delete key (tc_entries c)\<rparr>) else (Some (ce_value e), c))"

text \<open>The abstract cache: what a key holds at an instant.\<close>

definition cached :: "'v ttl_cache \<Rightarrow> instant \<Rightarrow> string \<Rightarrow> 'v option" where
  "cached c now key =
    (case map_of (tc_entries c) key of None \<Rightarrow> None | Some e \<Rightarrow> if now < ce_expires_at e then Some (ce_value e) else None)"

definition cache_ok :: "'v ttl_cache \<Rightarrow> bool" where
  "cache_ok c \<longleftrightarrow> 0 < tc_capacity c \<and> distinct (map fst (tc_entries c)) \<and> length (tc_entries c) \<le> tc_capacity c"

lemma cache_get_cached: "fst (cache_get key now c) = cached c now key"
  by (auto simp: cache_get_def cached_def split: option.splits)

lemma oldest_None: "oldest xs = None \<longleftrightarrow> xs = []"
  by (cases xs) (auto split: option.splits)

lemma oldest_in: "oldest xs = Some x \<Longrightarrow> x \<in> set xs"
  by (induction xs arbitrary: x) (auto split: option.splits if_splits)

lemma oldest_expires: "oldest xs = Some y \<Longrightarrow> x \<in> set xs \<Longrightarrow> ce_expires_at (snd y) \<le> ce_expires_at (snd x)"
proof (induction xs arbitrary: y)
  case (Cons z xs)
  show ?case
  proof (cases "oldest xs")
    case None
    then show ?thesis using Cons(2,3) by (auto simp: oldest_None)
  next
    case (Some w)
    then show ?thesis
      using Cons(1) [OF Some] Cons(2,3) by (fastforce simp: evicted_before_def split: if_splits)
  qed
qed simp

text \<open>The key an insertion evicts.\<close>

definition evicted_key :: "string \<Rightarrow> instant \<Rightarrow> 'v ttl_cache \<Rightarrow> string option" where
  "evicted_key key now c =
    (if map_of (live now c) key = None \<and> tc_capacity c \<le> length (live now c) then map_option fst (oldest (live now c)) else None)"

lemma map_of_filter_values:
  "distinct (map fst al) \<Longrightarrow>
     map_of (filter (\<lambda>(_, v). P v) al) k = (case map_of al k of None \<Rightarrow> None | Some v \<Rightarrow> if P v then Some v else None)"
  by (induction al) (auto simp: map_of_eq_None_iff split: option.splits)

lemma map_of_live:
  "distinct (map fst (tc_entries c)) \<Longrightarrow>
     map_of (live now c) k = (case map_of (tc_entries c) k of None \<Rightarrow> None | Some e \<Rightarrow> if now < ce_expires_at e then Some e else None)"
  unfolding live_def by (rule map_of_filter_values)

lemma evict_lookup:
  "map_of (evict key (tc_capacity c) (live now c)) k = (if evicted_key key now c = Some k then None else map_of (live now c) k)"
  by (auto simp: evict_def evicted_key_def delete_conv' split: option.splits)

lemma live_ok: "cache_ok c \<Longrightarrow> distinct (map fst (live now c)) \<and> length (live now c) \<le> tc_capacity c"
  by (auto simp: cache_ok_def live_def distinct_map_filter intro: le_trans [OF length_filter_le])

lemma length_delete: "distinct (map fst al) \<Longrightarrow> k \<in> fst ` set al \<Longrightarrow> Suc (length (AList.delete k al)) = length al"
  by (induction al) (auto simp: delete_idem)

lemma evict_ok:
  assumes "cache_ok c"
  shows "distinct (map fst (evict key (tc_capacity c) (live now c)))"
    and "map_of (live now c) key = None \<Longrightarrow> length (evict key (tc_capacity c) (live now c)) < tc_capacity c"
    and "length (evict key (tc_capacity c) (live now c)) \<le> tc_capacity c"
proof -
  note live = live_ok [OF assms, of now]
  show "distinct (map fst (evict key (tc_capacity c) (live now c)))"
    using live by (auto simp: evict_def distinct_delete split: option.splits)
  show less: "length (evict key (tc_capacity c) (live now c)) < tc_capacity c" if "map_of (live now c) key = None"
  proof (cases "tc_capacity c \<le> length (live now c)")
    case True
    then have "live now c \<noteq> []" using assms by (auto simp: cache_ok_def)
    then obtain k e where o: "oldest (live now c) = Some (k, e)" using oldest_None by fastforce
    then show ?thesis
      using length_delete [of "live now c" k] oldest_in [OF o] live that True by (force simp: evict_def)
  qed (simp add: evict_def)
  show "length (evict key (tc_capacity c) (live now c)) \<le> tc_capacity c"
    using less live by (cases "map_of (live now c) key") (simp_all add: evict_def less_imp_le)
qed

lemma length_alist_update: "length (AList.update k v al) = (if k \<in> fst ` set al then length al else Suc (length al))"
  by (induction al) auto

lemma cache_insert_ok:
  assumes "cache_ok c"
  shows "cache_ok (cache_insert key v ttl now c)"
proof -
  let ?es = "evict key (tc_capacity c) (live now c)"
  have "length ?es < tc_capacity c" if "key \<notin> fst ` set ?es"
  proof (cases "map_of (live now c) key")
    case (Some e)
    then have "map_of ?es key \<noteq> None" by (simp add: evict_lookup evicted_key_def)
    then show ?thesis using that by (auto dest: map_of_SomeD intro: rev_image_eqI)
  qed (use evict_ok(2) [OF assms] in blast)
  then show ?thesis
    using evict_ok(1,3) [OF assms] assms
    by (auto simp: cache_insert_def cache_ok_def Let_def length_alist_update distinct_update Suc_le_eq)
qed

text \<open>The cache keeps what it is given until it expires. After an insertion, a lookup at any later instant
  returns the value under its own key exactly while it has not expired; every other key holds what it held
  before, apart from at most one, which is evicted only when the cache is full of live entries and is one of
  those that expire first; and the cache never exceeds its capacity.\<close>

theorem cache_insert_get:
  assumes "cache_ok c" "now \<le> now'"
  shows "fst (cache_get k now' (cache_insert key v ttl now c)) =
      (if k = key then if now' < now + ttl then Some v else None
       else if evicted_key key now c = Some k then None else fst (cache_get k now' c)) \<and>
    (case evicted_key key now c of
       None \<Rightarrow> True
     | Some x \<Rightarrow> length (live now c) = tc_capacity c \<and>
         (\<exists>e. (x, e) \<in> set (live now c) \<and> list_all (\<lambda>(_, e'). ce_expires_at e \<le> ce_expires_at e') (live now c))) \<and>
    cache_ok (cache_insert key v ttl now c)"
proof (intro conjI)
  have d: "distinct (map fst (tc_entries c))" using assms(1) by (simp add: cache_ok_def)
  show "fst (cache_get k now' (cache_insert key v ttl now c)) =
      (if k = key then if now' < now + ttl then Some v else None
       else if evicted_key key now c = Some k then None else fst (cache_get k now' c))"
    using assms(2)
    by (auto simp: cache_get_cached cached_def cache_insert_def Let_def update_conv' evict_lookup map_of_live [OF d]
        split: option.splits)
  show "case evicted_key key now c of
       None \<Rightarrow> True
     | Some x \<Rightarrow> length (live now c) = tc_capacity c \<and>
         (\<exists>e. (x, e) \<in> set (live now c) \<and> list_all (\<lambda>(_, e'). ce_expires_at e \<le> ce_expires_at e') (live now c))"
    using live_ok [OF assms(1), of now]
    by (fastforce simp: evicted_key_def list_all_iff dest: oldest_in oldest_expires split: option.splits if_splits)
qed (rule cache_insert_ok [OF assms(1)])

section \<open>Coalescer\<close>

record coalescer =
  co_in_flight :: "string set"
  co_waiters :: "string \<rightharpoonup> u32"

datatype coalesce_decision = Leader | Follower

definition Coalescer_default :: coalescer where
  "Coalescer_default = \<lparr>co_in_flight = {}, co_waiters = Map.empty\<rparr>"

definition coalescer_enter :: "string \<Rightarrow> coalescer \<Rightarrow> coalesce_decision \<times> coalescer" where
  "coalescer_enter key c =
    (if key \<notin> co_in_flight c then (Leader, c\<lparr>co_in_flight := insert key (co_in_flight c)\<rparr>)
     else (Follower, c\<lparr>co_waiters := (co_waiters c)(key \<mapsto> (case co_waiters c key of None \<Rightarrow> 0 | Some n \<Rightarrow> n) + 1)\<rparr>))"

definition coalescer_finish :: "string \<Rightarrow> coalescer \<Rightarrow> u32 \<times> coalescer" where
  "coalescer_finish key c =
    ((case co_waiters c key of None \<Rightarrow> 0 | Some n \<Rightarrow> n),
     c\<lparr>co_in_flight := co_in_flight c - {key}, co_waiters := (co_waiters c)(key := None)\<rparr>)"

datatype coalesce_op = Enter string | Finish string

text \<open>A run: the decisions of the requests that enter, with their keys.\<close>

fun coalesce_run :: "coalesce_op list \<Rightarrow> coalescer \<Rightarrow> (string \<times> coalesce_decision) list \<times> coalescer" where
  "coalesce_run [] c = ([], c)"
| "coalesce_run (Enter k # ops) c =
    (let (d, c) = coalescer_enter k c; (ds, c) = coalesce_run ops c in ((k, d) # ds, c))"
| "coalesce_run (Finish k # ops) c = coalesce_run ops (snd (coalescer_finish k c))"

definition coalescer_ok :: "coalescer \<Rightarrow> bool" where
  "coalescer_ok c \<longleftrightarrow> dom (co_waiters c) \<subseteq> co_in_flight c"

lemma enter_ok: "coalescer_ok c \<Longrightarrow> coalescer_ok (snd (coalescer_enter k c))"
  by (auto simp: coalescer_ok_def coalescer_enter_def)

lemma finish_ok: "coalescer_ok c \<Longrightarrow> coalescer_ok (snd (coalescer_finish k c))"
  by (auto simp: coalescer_ok_def coalescer_finish_def dom_def)

lemma run_ok: "coalescer_ok c \<Longrightarrow> coalescer_ok (snd (coalesce_run ops c))"
proof (induction ops arbitrary: c)
  case (Cons x ops)
  show ?case
  proof (cases x)
    case (Enter k)
    obtain d c1 where e: "coalescer_enter k c = (d, c1)" by fastforce
    then show ?thesis using Cons(1) [of c1] enter_ok [OF Cons(2), of k] by (auto simp: Enter split: prod.splits)
  qed (use Cons(1) [OF finish_ok [OF Cons(2)]] in simp)
qed simp

abbreviation waiting :: "coalescer \<Rightarrow> string \<Rightarrow> u32" where
  "waiting c k \<equiv> (case co_waiters c k of None \<Rightarrow> 0 | Some n \<Rightarrow> n)"

lemma run_in_flight:
  assumes "k \<in> co_in_flight c" "Finish k \<notin> set ops" "coalesce_run ops c = (ds, c')"
  shows "k \<in> co_in_flight c' \<and> list_all (\<lambda>(k', d). k' \<noteq> k \<or> d = Follower) ds \<and>
    waiting c' k = waiting c k + of_nat (length (filter (\<lambda>x. x = Enter k) ops))"
  using assms
proof (induction ops arbitrary: c ds)
  case (Cons x ops)
  show ?case
  proof (cases x)
    case (Enter k')
    obtain d c1 where e: "coalescer_enter k' c = (d, c1)" by fastforce
    obtain ds1 where r: "coalesce_run ops c1 = (ds1, c')" "ds = (k', d) # ds1"
      using Cons(4) Enter e by (auto split: prod.splits)
    have "k \<in> co_in_flight c1" "waiting c1 k = waiting c k + of_bool (k' = k)" "k' \<noteq> k \<or> d = Follower"
      using e Cons(2) by (auto simp: coalescer_enter_def split: if_splits)
    then show ?thesis using Cons(1) [of c1 ds1] Cons(3) r Enter by (auto simp: add.assoc)
  next
    case (Finish k')
    let ?c = "snd (coalescer_finish k' c)"
    have "k \<in> co_in_flight ?c" "waiting ?c k = waiting c k"
      using Cons(2,3) Finish by (auto simp: coalescer_finish_def)
    then show ?thesis using Cons(1) [of ?c ds] Cons(3,4) Finish by auto
  qed
qed simp

text \<open>Equal requests fly once. From the start of the coalescer, after any operations, when a request for a
  key becomes the leader, every later request for that key is a follower until the key is finished, whatever
  happens to other keys, and finishing it returns the number of those followers.\<close>

theorem single_flight:
  assumes "coalesce_run before Coalescer_default = (ds, c)" "coalescer_enter k c = (Leader, c1)"
    and "Finish k \<notin> set ops" "coalesce_run ops c1 = (ds', c2)"
  shows "list_all (\<lambda>(k', d). k' \<noteq> k \<or> d = Follower) ds' \<and>
    fst (coalescer_finish k c2) = of_nat (length (filter (\<lambda>x. x = Enter k) ops))"
proof -
  have "coalescer_ok c"
    using run_ok [of Coalescer_default before] assms(1) by (simp add: coalescer_ok_def Coalescer_default_def)
  then have "k \<notin> co_in_flight c \<Longrightarrow> co_waiters c k = None" by (auto simp: coalescer_ok_def)
  then have "k \<in> co_in_flight c1" "waiting c1 k = 0"
    using assms(2) by (auto simp: coalescer_enter_def split: if_splits)
  then show ?thesis using run_in_flight [OF _ assms(3,4)] by (simp add: coalescer_finish_def)
qed

section \<open>Priorities\<close>

datatype priority = P0Reconciliation | P1PoolState | P2Bootstrap | P3Metadata | P4Dashboard

fun priority_index :: "priority \<Rightarrow> nat" where
  "priority_index P0Reconciliation = 0"
| "priority_index P1PoolState = 1"
| "priority_index P2Bootstrap = 2"
| "priority_index P3Metadata = 3"
| "priority_index P4Dashboard = 4"

lemma priority_index_inj: "priority_index a = priority_index b \<Longrightarrow> a = b"
  by (cases a; cases b) simp_all

instantiation priority :: linorder
begin

definition less_eq_priority :: "priority \<Rightarrow> priority \<Rightarrow> bool" where
  "less_eq_priority a b \<longleftrightarrow> priority_index a \<le> priority_index b"

definition less_priority :: "priority \<Rightarrow> priority \<Rightarrow> bool" where
  "less_priority a b \<longleftrightarrow> priority_index a < priority_index b"

instance
  by standard (auto simp: less_eq_priority_def less_priority_def dest: priority_index_inj)

end

datatype ordering = Less | Equal | Greater

definition cmp :: "'a::linorder \<Rightarrow> 'a \<Rightarrow> ordering" where
  "cmp a b = (if a < b then Less else if a = b then Equal else Greater)"

definition then_with :: "ordering \<Rightarrow> ordering \<Rightarrow> ordering" where
  "then_with a b = (case a of Equal \<Rightarrow> b | _ \<Rightarrow> a)"

record queued_request =
  qr_priority :: priority
  qr_enqueued_seq :: u64
  qr_method :: string
  qr_cache_key :: string

definition request_cmp :: "queued_request \<Rightarrow> queued_request \<Rightarrow> ordering" where
  "request_cmp a b = then_with (cmp (qr_priority b) (qr_priority a)) (cmp (qr_enqueued_seq b) (qr_enqueued_seq a))"

text \<open>The greatest request is the one of the most urgent priority that was queued first.\<close>

lemma request_cmp_Greater:
  "request_cmp a b = Greater \<longleftrightarrow> qr_priority a < qr_priority b \<or>
     qr_priority a = qr_priority b \<and> qr_enqueued_seq a < qr_enqueued_seq b"
  by (auto simp: request_cmp_def cmp_def then_with_def split: ordering.splits if_splits)

lemma request_cmp_Equal:
  "request_cmp a b = Equal \<longleftrightarrow> qr_priority a = qr_priority b \<and> qr_enqueued_seq a = qr_enqueued_seq b"
  by (auto simp: request_cmp_def cmp_def then_with_def split: ordering.splits if_splits)

section \<open>Readiness\<close>

record gateway_readiness =
  gr_event_loop_alive :: bool
  gr_configuration_valid :: bool
  gr_provider_healthy :: bool

datatype readiness_error = EventLoopStopped | ConfigurationInvalid | NoProviderProbed

definition GatewayReadiness_new :: "bool \<Rightarrow> gateway_readiness" where
  "GatewayReadiness_new configuration_valid =
    \<lparr>gr_event_loop_alive = True, gr_configuration_valid = configuration_valid, gr_provider_healthy = False\<rparr>"

definition set_provider_healthy :: "bool \<Rightarrow> gateway_readiness \<Rightarrow> gateway_readiness" where
  "set_provider_healthy v r = r\<lparr>gr_provider_healthy := v\<rparr>"

definition stop_event_loop :: "gateway_readiness \<Rightarrow> gateway_readiness" where
  "stop_event_loop r = r\<lparr>gr_event_loop_alive := False\<rparr>"

definition gateway_ready :: "gateway_readiness \<Rightarrow> readiness_error + unit" where
  "gateway_ready r =
    (if \<not> gr_event_loop_alive r then Inl EventLoopStopped
     else if \<not> gr_configuration_valid r then Inl ConfigurationInvalid
     else if \<not> gr_provider_healthy r then Inl NoProviderProbed
     else Inr ())"

section \<open>Pinned reads\<close>

record pinned_block =
  pb_number :: u64
  pb_hash :: string

datatype block_reference = Latest | Number pinned_block | Safe pinned_block | Finalized pinned_block

fun pinned :: "block_reference \<Rightarrow> pinned_block option" where
  "pinned Latest = None"
| "pinned (Number b) = Some b"
| "pinned (Safe b) = Some b"
| "pinned (Finalized b) = Some b"

datatype rpc_method =
    EthChainId | EthCall | EthGetBalance | EthGetBlockByNumber | EthGetCode | EthGetLogs | EthGetStorageAt
  | EthGetTransactionByHash | EthGetTransactionReceipt | DebugTraceTransaction

record economic_cache_key =
  ek_method :: rpc_method
  ek_normalized_params_hash :: string
  ek_block :: pinned_block

record economic_rpc_request =
  er_method :: rpc_method
  er_normalized_params_hash :: string
  er_block :: block_reference
  er_requires_archive :: bool

record provider_capabilities =
  pc_provider_id :: string
  pc_archive_reads :: bool

record provider_result =
  pr_provider_id :: string
  pr_block :: pinned_block
  pr_normalized_response_hash :: string
  pr_latency_ns :: u128
  pr_retry_count :: u16

datatype economic_rpc_error = UnpinnedBlock | ArchiveUnavailable | BlockMismatch | ProviderDisagreement

record method_timeouts =
  mt_eth_call :: duration
  mt_state_read :: duration
  mt_logs :: duration

definition timeout_for :: "method_timeouts \<Rightarrow> rpc_method \<Rightarrow> duration" where
  "timeout_for t m = (case m of EthCall \<Rightarrow> mt_eth_call t | EthGetLogs \<Rightarrow> mt_logs t | _ \<Rightarrow> mt_state_read t)"

definition cache_key :: "economic_rpc_request \<Rightarrow> provider_capabilities \<Rightarrow> economic_rpc_error + economic_cache_key" where
  "cache_key r provider =
    and_then (ok_or UnpinnedBlock (pinned (er_block r))) (\<lambda>block.
    if er_requires_archive r \<and> \<not> pc_archive_reads provider then Inl ArchiveUnavailable
    else Inr \<lparr>ek_method = er_method r, ek_normalized_params_hash = er_normalized_params_hash r, ek_block = block\<rparr>)"

definition compare_provider_results :: "pinned_block \<Rightarrow> provider_result \<Rightarrow> provider_result \<Rightarrow> economic_rpc_error + unit" where
  "compare_provider_results expected_block first second =
    (if pr_block first \<noteq> expected_block \<or> pr_block second \<noteq> expected_block \<or> pr_block first \<noteq> pr_block second
     then Inl BlockMismatch
     else if pr_normalized_response_hash first \<noteq> pr_normalized_response_hash second then Inl ProviderDisagreement
     else Inr ())"

end
