(* ===== verification/Gateway_Providers.thy ===== *)
theory Gateway_Providers
  imports Gateway_Schedule
begin

text \<open>
  The providers of the RPC gateway (rpc-gateway/src/providers.rs): their configuration, the health, cooldown
  and circuit breaker of each, and the choice of the one that serves a request. The validity of HTTP header
  names and values is a parameter.
\<close>

section \<open>A provider\<close>

datatype circuit_state = Closed | Open instant

type_synonym provider_header = "string \<times> string"

record provider =
  pv_name :: string
  pv_url :: string
  pv_header :: "provider_header option"
  pv_weight :: u32
  pv_health_score :: i32
  pv_circuit :: circuit_state
  pv_cooldown_until :: "instant option"
  pv_consecutive_failures :: u32

record provider_lease =
  le_provider_id :: string
  le_url :: string
  le_header :: "provider_header option"

definition with_header :: "string \<Rightarrow> string \<Rightarrow> provider_header option \<Rightarrow> u32 \<Rightarrow> provider" where
  "with_header name url header weight =
    \<lparr>pv_name = name, pv_url = url, pv_header = header, pv_weight = weight, pv_health_score = 100,
     pv_circuit = Closed, pv_cooldown_until = None, pv_consecutive_failures = 0\<rparr>"

definition refresh_cooldown :: "instant \<Rightarrow> provider \<Rightarrow> bool \<times> provider" where
  "refresh_cooldown now p =
    (case pv_cooldown_until p of
       None \<Rightarrow> (True, p)
     | Some until \<Rightarrow> if now < until then (False, p) else (True, p\<lparr>pv_cooldown_until := None\<rparr>))"

definition refresh_eligibility :: "instant \<Rightarrow> provider \<Rightarrow> bool \<times> provider" where
  "refresh_eligibility now p =
    (case pv_circuit p of
       Open until \<Rightarrow> if now < until then (False, p) else refresh_cooldown now (p\<lparr>pv_circuit := Closed\<rparr>)
     | Closed \<Rightarrow> refresh_cooldown now p)"

definition provider_available :: "instant \<Rightarrow> provider \<Rightarrow> bool \<times> provider" where
  "provider_available now p = refresh_eligibility now p"

definition provider_reserve :: "instant \<Rightarrow> provider \<Rightarrow> bool \<times> provider" where
  "provider_reserve now p = refresh_eligibility now p"

definition SECOND :: duration where "SECOND = 1000000000"

definition recovery_jitter :: "string \<Rightarrow> u32 \<Rightarrow> duration" where
  "recovery_jitter provider_id failure_count =
    (let folded = foldl (\<lambda>v byte. v * 131 + of_nat (of_char byte)) (ucast failure_count :: u64) provider_id
     in unat (folded mod 1000) * 1000000)"

definition provider_success :: "provider \<Rightarrow> provider" where
  "provider_success p =
    p\<lparr>pv_consecutive_failures := 0, pv_health_score := min (pv_health_score p + 1) 100, pv_cooldown_until := None\<rparr>"

definition backoff_secs :: "u32 \<Rightarrow> nat" where
  "backoff_secs failures = min (2 ^ min (unat (saturating_sub failures 1)) 5) 30"

definition provider_failure_at :: "instant \<Rightarrow> provider \<Rightarrow> provider" where
  "provider_failure_at now p =
    (let failures = pv_consecutive_failures p + 1;
         jitter = recovery_jitter (pv_name p) failures
     in p\<lparr>pv_consecutive_failures := failures, pv_health_score := max (pv_health_score p - 20) 0,
          pv_cooldown_until := Some (now + backoff_secs failures * SECOND + jitter),
          pv_circuit := (if 3 \<le> failures then Open (now + 30 * SECOND + jitter) else pv_circuit p)\<rparr>)"

definition provider_cooldown :: "instant \<Rightarrow> duration \<Rightarrow> provider \<Rightarrow> provider" where
  "provider_cooldown now d p = p\<lparr>pv_cooldown_until := Some (now + d)\<rparr>"

text \<open>A provider can serve when its circuit and its cooldown are over.\<close>

definition eligible :: "instant \<Rightarrow> provider \<Rightarrow> bool" where
  "eligible now p \<longleftrightarrow> (case pv_circuit p of Open until \<Rightarrow> until \<le> now | Closed \<Rightarrow> True) \<and>
     (case pv_cooldown_until p of Some until \<Rightarrow> until \<le> now | None \<Rightarrow> True)"

lemma refresh_eligible: "fst (refresh_eligibility now p) \<longleftrightarrow> eligible now p"
  by (auto simp: refresh_eligibility_def refresh_cooldown_def eligible_def split: circuit_state.splits option.splits)

lemma refresh_fields [simp]:
  "pv_name (snd (refresh_eligibility now p)) = pv_name p" "pv_url (snd (refresh_eligibility now p)) = pv_url p"
  "pv_header (snd (refresh_eligibility now p)) = pv_header p" "pv_weight (snd (refresh_eligibility now p)) = pv_weight p"
  by (auto simp: refresh_eligibility_def refresh_cooldown_def split: circuit_state.splits option.splits)

lemma refresh_twice: "fst (refresh_eligibility now (snd (refresh_eligibility now p))) = fst (refresh_eligibility now p)"
  by (auto simp: refresh_eligibility_def refresh_cooldown_def split: circuit_state.splits option.splits)

section \<open>The circuit breaker\<close>

datatype provider_op =
    OpSuccess
  | OpFailure instant
  | OpCooldown instant duration
  | OpReserve instant

text \<open>A run of operations on a provider, with the answers to the reservations.\<close>

fun run_op :: "provider_op \<Rightarrow> provider \<Rightarrow> bool list \<times> provider" where
  "run_op OpSuccess p = ([], provider_success p)"
| "run_op (OpFailure now) p = ([], provider_failure_at now p)"
| "run_op (OpCooldown now d) p = ([], provider_cooldown now d p)"
| "run_op (OpReserve now) p = (case provider_reserve now p of (ok, p) \<Rightarrow> ([ok], p))"

fun provider_run :: "provider_op list \<Rightarrow> provider \<Rightarrow> bool list \<times> provider" where
  "provider_run [] p = ([], p)"
| "provider_run (x # xs) p = (let (as, p) = run_op x p; (bs, p) = provider_run xs p in (as @ bs, p))"

fun op_within :: "instant \<Rightarrow> instant \<Rightarrow> provider_op \<Rightarrow> bool" where
  "op_within lo hi OpSuccess = True"
| "op_within lo hi (OpFailure t) = (lo \<le> t)"
| "op_within lo hi (OpCooldown t d) = True"
| "op_within lo hi (OpReserve t) = (t < hi)"

definition open_until :: "instant \<Rightarrow> provider \<Rightarrow> bool" where
  "open_until t p \<longleftrightarrow> (case pv_circuit p of Open until \<Rightarrow> t \<le> until | Closed \<Rightarrow> False)"

lemma run_op_open:
  assumes "run_op x p = (as, p')" "op_within t (t + 30 * SECOND) x" "open_until (t + 30 * SECOND) p"
  shows "list_all Not as \<and> open_until (t + 30 * SECOND) p'"
  using assms
  by (cases x) (auto simp: provider_success_def provider_failure_at_def provider_cooldown_def provider_reserve_def
      refresh_eligibility_def open_until_def Let_def split: circuit_state.splits if_splits)

lemma provider_run_open:
  "open_until (t + 30 * SECOND) p \<Longrightarrow> list_all (op_within t (t + 30 * SECOND)) ops \<Longrightarrow> list_all Not (fst (provider_run ops p))"
proof (induction ops arbitrary: p)
  case (Cons x xs)
  obtain as p1 where x: "run_op x p = (as, p1)" by fastforce
  have "list_all Not as" "open_until (t + 30 * SECOND) p1" using run_op_open [OF x, of t] Cons(2,3) by simp_all
  then show ?case using Cons(1) [of p1] Cons(3) by (auto simp: x split: prod.splits)
qed simp

text \<open>C22: An open circuit stays open. After a failure that is at least the third in a row, no reservation of
  that provider succeeds for thirty seconds, whatever successes, failures, cooldowns and reservations happen
  in the meantime.\<close>

theorem circuit_stays_open:
  assumes "3 \<le> pv_consecutive_failures (provider_failure_at t p)" "list_all (op_within t (t + 30 * SECOND)) ops"
  shows "list_all Not (fst (provider_run ops (provider_failure_at t p)))"
proof (rule provider_run_open [OF _ assms(2)])
  show "open_until (t + 30 * SECOND) (provider_failure_at t p)"
    using assms(1) by (simp add: open_until_def provider_failure_at_def Let_def)
qed

text \<open>The wait after a failure lies between one second and thirty-one.\<close>

lemma backoff_bounds:
  "t + SECOND \<le> the (pv_cooldown_until (provider_failure_at t p))"
  "the (pv_cooldown_until (provider_failure_at t p)) < t + 31 * SECOND"
proof -
  have "1 \<le> backoff_secs n" "backoff_secs n \<le> 30" for n
    by (simp_all add: backoff_secs_def Suc_le_eq)
  moreover have "recovery_jitter i n < SECOND" for i n
  proof -
    have "unat (w mod 1000 :: u64) < 1000" for w
      using word_mod_less_divisor [of 1000 w] by (simp add: word_less_nat_alt)
    then show ?thesis by (simp add: recovery_jitter_def Let_def SECOND_def)
  qed
  moreover define n where "n = pv_consecutive_failures p + 1"
  ultimately have "SECOND \<le> backoff_secs n * SECOND" "backoff_secs n * SECOND \<le> 30 * SECOND" "recovery_jitter (pv_name p) n < SECOND"
    by (simp_all add: Suc_le_eq)
  moreover have "the (pv_cooldown_until (provider_failure_at t p)) = t + backoff_secs n * SECOND + recovery_jitter (pv_name p) n"
    by (simp add: provider_failure_at_def Let_def n_def)
  ultimately show "t + SECOND \<le> the (pv_cooldown_until (provider_failure_at t p))"
    "the (pv_cooldown_until (provider_failure_at t p)) < t + 31 * SECOND"
    by linarith+
qed

section \<open>The pool\<close>

definition lease :: "provider \<Rightarrow> provider_lease" where
  "lease p = \<lparr>le_provider_id = pv_name p, le_url = pv_url p, le_header = pv_header p\<rparr>"

text \<open>The loop over the providers from an index on, with the best one so far and its weight.\<close>

fun best_loop ::
  "(string \<Rightarrow> bool) \<Rightarrow> instant \<Rightarrow> nat \<Rightarrow> provider list \<Rightarrow> (nat \<times> u32) option \<Rightarrow> provider list \<times> (nat \<times> u32) option" where
  "best_loop excluded now i [] best = ([], best)"
| "best_loop excluded now i (p # ps) best =
    (if excluded (pv_name p) then (case best_loop excluded now (Suc i) ps best of (ps, best) \<Rightarrow> (p # ps, best))
     else case provider_available now p of (ok, p) \<Rightarrow>
       (case best_loop excluded now (Suc i) ps
            (if ok \<and> (case best of None \<Rightarrow> True | Some (_, best_weight) \<Rightarrow> best_weight < pv_weight p)
             then Some (i, pv_weight p) else best) of
          (ps, best) \<Rightarrow> (p # ps, best)))"

definition reserve_at :: "instant \<Rightarrow> provider list \<Rightarrow> (nat \<times> u32) option \<Rightarrow> nat option \<times> provider list" where
  "reserve_at now ps best =
    (case best of
       None \<Rightarrow> (None, ps)
     | Some (i, _) \<Rightarrow> (case provider_reserve now (ps ! i) of (ok, p) \<Rightarrow> (if ok then Some i else None, ps[i := p])))"

definition choose_provider :: "instant \<Rightarrow> provider list \<Rightarrow> nat option \<times> provider list" where
  "choose_provider now ps = (case best_loop (\<lambda>_. False) now 0 ps None of (ps, best) \<Rightarrow> reserve_at now ps best)"

definition reserve_best :: "instant \<Rightarrow> (string \<Rightarrow> bool) \<Rightarrow> provider list \<Rightarrow> provider_lease option \<times> provider list" where
  "reserve_best now excluded ps =
    (case best_loop excluded now 0 ps None of (ps, best) \<Rightarrow>
      (case reserve_at now ps best of (i, ps) \<Rightarrow> (map_option (\<lambda>i. lease (ps ! i)) i, ps)))"

text \<open>The first provider of a name is updated; the flag says whether there is one.\<close>

fun update_named :: "string \<Rightarrow> (provider \<Rightarrow> provider) \<Rightarrow> provider list \<Rightarrow> bool \<times> provider list" where
  "update_named name f [] = (False, [])"
| "update_named name f (p # ps) =
    (if pv_name p = name then (True, f p # ps) else (case update_named name f ps of (found, ps) \<Rightarrow> (found, p # ps)))"

definition reserve_named :: "instant \<Rightarrow> string \<Rightarrow> provider list \<Rightarrow> provider_lease option \<times> provider list" where
  "reserve_named now name ps =
    (case find (\<lambda>p. pv_name p = name) ps of
       None \<Rightarrow> (None, ps)
     | Some p \<Rightarrow>
         ((if fst (provider_reserve now p) then Some (lease p) else None),
          snd (update_named name (\<lambda>p. snd (provider_reserve now p)) ps)))"

definition pool_success :: "string \<Rightarrow> provider list \<Rightarrow> bool \<times> provider list" where
  "pool_success name ps = update_named name provider_success ps"

definition pool_failure :: "string \<Rightarrow> instant \<Rightarrow> provider list \<Rightarrow> bool \<times> provider list" where
  "pool_failure name now ps = update_named name (provider_failure_at now) ps"

definition pool_cooldown :: "string \<Rightarrow> instant \<Rightarrow> duration \<Rightarrow> provider list \<Rightarrow> bool \<times> provider list" where
  "pool_cooldown name now d ps = update_named name (provider_cooldown now d) ps"

text \<open>The specification of the choice: the first of the heaviest candidates.\<close>

fun heaviest :: "provider list \<Rightarrow> provider option" where
  "heaviest [] = None"
| "heaviest (p # ps) =
    (case heaviest ps of None \<Rightarrow> Some p | Some q \<Rightarrow> if pv_weight p < pv_weight q then Some q else Some p)"

definition candidate :: "(string \<Rightarrow> bool) \<Rightarrow> instant \<Rightarrow> provider \<Rightarrow> bool" where
  "candidate excluded now p \<longleftrightarrow> \<not> excluded (pv_name p) \<and> eligible now p"

fun heavier :: "(nat \<times> u32) option \<Rightarrow> (nat \<times> u32) option \<Rightarrow> (nat \<times> u32) option" where
  "heavier None b = b"
| "heavier a None = a"
| "heavier (Some (i, v)) (Some (j, w)) = (if v < w then Some (j, w) else Some (i, v))"

fun first_best :: "(string \<Rightarrow> bool) \<Rightarrow> instant \<Rightarrow> nat \<Rightarrow> provider list \<Rightarrow> (nat \<times> u32) option" where
  "first_best excluded now i [] = None"
| "first_best excluded now i (p # ps) =
    heavier (if candidate excluded now p then Some (i, pv_weight p) else None) (first_best excluded now (Suc i) ps)"

lemma heavier_assoc: "heavier (heavier a b) c = heavier a (heavier b c)"
  by (cases a; cases b; cases c) auto

definition refreshed :: "(string \<Rightarrow> bool) \<Rightarrow> instant \<Rightarrow> provider \<Rightarrow> provider" where
  "refreshed excluded now p = (if excluded (pv_name p) then p else snd (refresh_eligibility now p))"

lemma heavier_None [simp]: "heavier a None = a"
  by (cases a) simp_all

lemma best_loop_exact:
  "best_loop excluded now i ps best = (map (refreshed excluded now) ps, heavier best (first_best excluded now i ps))"
proof (induction ps arbitrary: i best)
  case (Cons p ps)
  have step: "(if ok \<and> (case best of None \<Rightarrow> True | Some (_, w) \<Rightarrow> w < v) then Some (i, v) else best)
      = heavier best (if ok then Some (i, v) else None)" for ok v
    by (cases best) auto
  obtain ok q where r: "refresh_eligibility now p = (ok, q)" by fastforce
  then have q: "candidate excluded now p \<longleftrightarrow> \<not> excluded (pv_name p) \<and> ok" "pv_weight q = pv_weight p"
      "refreshed excluded now p = (if excluded (pv_name p) then p else q)"
    using refresh_eligible [of now p] refresh_fields(4) [of now p] by (simp_all add: candidate_def refreshed_def)
  show ?case
    by (simp add: q(1,3) provider_available_def r step Cons heavier_assoc) (simp add: q(2))
qed simp

lemma first_best_None: "first_best excluded now i ps = None \<longleftrightarrow> filter (candidate excluded now) ps = []"
proof (induction ps arbitrary: i)
  case (Cons p ps)
  then show ?case by (cases "first_best excluded now (Suc i) ps") auto
qed simp

lemma heaviest_None: "heaviest ps = None \<longleftrightarrow> ps = []"
  by (cases ps) (auto split: option.splits)

lemma first_best_Some:
  "first_best excluded now i ps = Some (j, w) \<Longrightarrow>
     \<exists>k. j = i + k \<and> k < length ps \<and> candidate excluded now (ps ! k) \<and> w = pv_weight (ps ! k) \<and>
       heaviest (filter (candidate excluded now) ps) = Some (ps ! k)"
proof (induction ps arbitrary: i j w)
  case (Cons p ps)
  show ?case
  proof (cases "first_best excluded now (Suc i) ps")
    case None
    then show ?thesis
      using Cons(2) first_best_None [of excluded now "Suc i" ps] by (auto split: if_splits)
  next
    case (Some x)
    obtain j' w' where x: "first_best excluded now (Suc i) ps = Some (j', w')" using Some by (cases x) simp
    obtain k where k: "j' = Suc i + k" "k < length ps" "candidate excluded now (ps ! k)" "w' = pv_weight (ps ! k)"
        "heaviest (filter (candidate excluded now) ps) = Some (ps ! k)"
      using Cons(1) [OF x] by blast
    show ?thesis
    proof (cases "candidate excluded now p \<and> \<not> pv_weight p < w'")
      case True
      then have "j = i" "w = pv_weight p" using Cons(2) x by auto
      then show ?thesis using True k by (intro exI [of _ 0]) simp
    next
      case False
      then have "j = j'" "w = w'" using Cons(2) x by (auto split: if_splits)
      then show ?thesis using False k by (intro exI [of _ "Suc k"]) auto
    qed
  qed
qed simp

lemma heaviest_max: "heaviest ps = Some p \<Longrightarrow> p \<in> set ps \<and> list_all (\<lambda>q. pv_weight q \<le> pv_weight p) ps"
proof (induction ps arbitrary: p)
  case (Cons q ps)
  show ?case
  proof (cases "heaviest ps")
    case None
    then show ?thesis using Cons(2) by (auto simp: heaviest_None)
  next
    case (Some x)
    then show ?thesis using Cons(1) [OF Some] Cons(2) by (auto simp: list_all_iff split: if_splits)
  qed
qed simp

text \<open>The pool serves the best provider it can. A reservation leases the first of the heaviest providers
  that are neither excluded nor cooling down nor behind an open circuit, and fails exactly when there is none.\<close>

theorem reserve_best_exact:
  "fst (reserve_best now excluded ps) = map_option lease (heaviest (filter (candidate excluded now) ps))"
proof (cases "first_best excluded now 0 ps")
  case None
  then show ?thesis
    by (simp add: reserve_best_def best_loop_exact reserve_at_def first_best_None [THEN iffD1])
next
  case (Some x)
  then obtain i w where x: "first_best excluded now 0 ps = Some (i, w)" by (cases x) simp
  then have i: "i < length ps" "candidate excluded now (ps ! i)"
      "heaviest (filter (candidate excluded now) ps) = Some (ps ! i)"
    using first_best_Some by fastforce+
  let ?p = "snd (refresh_eligibility now (ps ! i))"
  have p: "refreshed excluded now (ps ! i) = ?p" using i(2) by (simp add: refreshed_def candidate_def)
  obtain q where r: "refresh_eligibility now ?p = (True, q)"
    using i(2) refresh_twice [of now "ps ! i"] refresh_eligible by (cases "refresh_eligibility now ?p") (auto simp: candidate_def)
  then have "lease q = lease (ps ! i)"
    using refresh_fields [of now ?p] by (simp add: lease_def)
  then show ?thesis
    using i by (simp add: reserve_best_def best_loop_exact reserve_at_def provider_reserve_def x p r)
qed

section \<open>Configuration\<close>

text \<open>The environment values are taken to be ASCII, for which \<open>str::trim\<close> removes these characters.\<close>

record provider_spec =
  sp_name :: string
  sp_url :: string
  sp_priority :: u32
  sp_header :: "provider_header option"

datatype provider_config_error =
    EmptyProviderList
  | EmptyProviderUrl nat
  | InvalidProviderUrl nat
  | EmptyPriorityList
  | CountMismatch nat nat
  | InvalidPriority nat
  | ZeroPriority nat
  | EmptyProviderId nat
  | InvalidProviderId nat
  | DuplicateProviderId
  | InvalidHeaderName
  | InvalidHeaderValue

definition is_whitespace :: "char \<Rightarrow> bool" where
  "is_whitespace c \<longleftrightarrow> (of_char c :: nat) \<in> {9, 10, 11, 12, 13, 32}"

definition trim :: "string \<Rightarrow> string" where
  "trim s = rev (dropWhile is_whitespace (rev (dropWhile is_whitespace s)))"

fun split_on :: "char \<Rightarrow> string \<Rightarrow> string list" where
  "split_on d [] = [[]]"
| "split_on d (c # s) = (if c = d then [] # split_on d s else (case split_on d s of p # ps \<Rightarrow> (c # p) # ps | [] \<Rightarrow> [[c]]))"

fun str_contains :: "string \<Rightarrow> string \<Rightarrow> bool" where
  "str_contains [] p = (p = [])"
| "str_contains (c # s) p = (starts_with p (c # s) \<or> str_contains s p)"

definition host_from_http_url :: "string \<Rightarrow> string option" where
  "host_from_http_url url =
    (case (case strip_prefix ''https://'' url of Some rest \<Rightarrow> Some rest | None \<Rightarrow> strip_prefix ''http://'' url) of
       None \<Rightarrow> None
     | Some rest \<Rightarrow>
         let authority = takeWhile (\<lambda>c. c \<notin> {CHR ''/'', CHR ''?'', CHR ''#''}) rest;
             host_port = rev (takeWhile (\<lambda>c. c \<noteq> CHR ''@'') (rev authority));
             host = takeWhile (\<lambda>c. c \<noteq> CHR '':'') host_port
         in if host = [] then None else Some host)"

definition is_http_url :: "string \<Rightarrow> bool" where
  "is_http_url url \<longleftrightarrow> host_from_http_url url \<noteq> None"

definition safe_provider_name :: "nat \<Rightarrow> string \<Rightarrow> string" where
  "safe_provider_name index url =
    (case host_from_http_url url of
       None \<Rightarrow> ''provider_'' @ dec_string index
     | Some host \<Rightarrow>
         let host = map to_ascii_lower host in
         if str_contains host ''quicknode'' \<or> str_contains host ''quiknode'' then ''quicknode''
         else if str_contains host ''drpc'' then ''drpc''
         else if str_contains host ''publicnode'' then ''publicnode''
         else if host = ''arb1.arbitrum.io'' then ''arbitrum_public''
         else ''provider_'' @ dec_string index)"

text \<open>\<open>str::parse::<i64>()\<close>: an optional sign, at least one digit, only digits, and a value that fits.\<close>

definition parse_i64 :: "string \<Rightarrow> i64 option" where
  "parse_i64 s =
    (let (negative, ds) = (case s of CHR ''-'' # c # cs \<Rightarrow> (True, c # cs) | CHR ''+'' # c # cs \<Rightarrow> (False, c # cs) | _ \<Rightarrow> (False, s)) in
     if ds = [] then None
     else case parse_digits ds 0 of
       None \<Rightarrow> None
     | Some n \<Rightarrow> checked_signed 64 (if negative then - int n else int n))"

definition parse_priority :: "nat \<Rightarrow> string \<Rightarrow> provider_config_error + u32" where
  "parse_priority index v =
    and_then (ok_or (InvalidPriority index) (parse_i64 v)) (\<lambda>parsed.
    if parsed = 0 then Inl (ZeroPriority index)
    else if parsed < 0 \<or> 2 ^ 32 - 1 < parsed then Inl (InvalidPriority index)
    else Inr (of_int parsed))"

definition valid_provider_id :: "string \<Rightarrow> bool" where
  "valid_provider_id v \<longleftrightarrow> v \<noteq> [] \<and> length v \<le> 64 \<and>
     list_all (\<lambda>c. is_ascii_lowercase c \<or> is_ascii_digit c \<or> c = CHR ''-'') v"

fun parse_providers ::
  "nat \<Rightarrow> (string \<times> string) list \<Rightarrow> string set \<Rightarrow> provider_config_error + provider_spec list" where
  "parse_providers index [] names = Inr []"
| "parse_providers index ((url, priority) # rest) names =
    (if url = [] then Inl (EmptyProviderUrl index)
     else if \<not> is_http_url url then Inl (InvalidProviderUrl index)
     else
     and_then (parse_priority index priority) (\<lambda>priority.
     let name = safe_provider_name index url;
         name = (if name \<in> names then name @ ''_'' @ dec_string index else name)
     in
     and_then (parse_providers (Suc index) rest (insert name names)) (\<lambda>specs.
     Inr (\<lparr>sp_name = name, sp_url = url, sp_priority = priority, sp_header = None\<rparr> # specs))))"

definition parse_provider_config :: "string \<Rightarrow> string \<Rightarrow> provider_config_error + provider_spec list" where
  "parse_provider_config urls priorities =
    (if trim urls = [] then Inl EmptyProviderList
     else if trim priorities = [] then Inl EmptyPriorityList
     else
       let urls = map trim (split_on (CHR '','') urls);
           priorities = map trim (split_on (CHR '','') priorities)
       in if length urls \<noteq> length priorities then Inl (CountMismatch (length urls) (length priorities))
       else and_then (parse_providers 0 (zip urls priorities) {}) (\<lambda>specs.
         if specs = [] then Inl EmptyProviderList else Inr specs))"

fun assign_ids :: "nat \<Rightarrow> (provider_spec \<times> string) list \<Rightarrow> string set \<Rightarrow> provider_config_error + provider_spec list" where
  "assign_ids index [] unique = Inr []"
| "assign_ids index ((p, identity) # rest) unique =
    (if identity = [] then Inl (EmptyProviderId index)
     else if \<not> valid_provider_id identity then Inl (InvalidProviderId index)
     else if identity \<in> unique then Inl DuplicateProviderId
     else and_then (assign_ids (Suc index) rest (insert identity unique)) (\<lambda>specs. Inr (p\<lparr>sp_name := identity\<rparr> # specs)))"

definition parse_provider_config_with_ids ::
  "string \<Rightarrow> string \<Rightarrow> string \<Rightarrow> provider_config_error + provider_spec list" where
  "parse_provider_config_with_ids urls priorities identities =
    and_then (parse_provider_config urls priorities) (\<lambda>specs.
    let identities = map trim (split_on (CHR '','') identities) in
    if length identities \<noteq> length specs then Inl (CountMismatch (length specs) (length identities))
    else assign_ids 0 (zip specs identities) {})"

definition append_header_authenticated_provider ::
  "(string \<Rightarrow> bool) \<Rightarrow> (string \<Rightarrow> bool) \<Rightarrow> provider_spec list \<Rightarrow> string \<Rightarrow> string \<Rightarrow> u32 \<Rightarrow> string \<Rightarrow> string
   \<Rightarrow> provider_config_error + provider_spec list" where
  "append_header_authenticated_provider header_name_ok header_value_ok specs identity url priority header_name header_value =
    (if identity = [] \<or> \<not> valid_provider_id identity then Inl (InvalidProviderId (length specs))
     else if list_ex (\<lambda>p. sp_name p = identity) specs then Inl DuplicateProviderId
     else if \<not> is_http_url url then Inl (InvalidProviderUrl (length specs))
     else if priority = 0 then Inl (ZeroPriority (length specs))
     else if \<not> header_name_ok header_name then Inl InvalidHeaderName
     else if \<not> header_value_ok header_value then Inl InvalidHeaderValue
     else Inr (specs @ [\<lparr>sp_name = identity, sp_url = url, sp_priority = priority, sp_header = Some (header_name, header_value)\<rparr>]))"

definition into_pool :: "provider_spec list \<Rightarrow> provider list" where
  "into_pool specs = map (\<lambda>p. with_header (sp_name p) (sp_url p) (sp_header p) (sp_priority p)) specs"

section \<open>Names\<close>

definition specs_ok :: "provider_spec list \<Rightarrow> bool" where
  "specs_ok specs \<longleftrightarrow> specs \<noteq> [] \<and> distinct (map sp_name specs) \<and> list_all (\<lambda>p. is_http_url (sp_url p) \<and> 0 < sp_priority p) specs"

lemma parse_priority_pos: "parse_priority i v = Inr w \<Longrightarrow> 0 < w"
proof -
  assume "parse_priority i v = Inr w"
  then obtain z where "w = of_int z" "0 < z" "z < 2 ^ 32"
    by (auto simp: parse_priority_def result_simps split: if_splits)
  then have "uint w = z" by (simp add: unsigned_of_int take_bit_int_eq_self)
  then show "0 < w" using \<open>0 < z\<close> by (simp add: word_less_def)
qed

text \<open>A suffix of a number behind an underscore determines the number.\<close>

lemma digits_dec_string: "list_all is_ascii_digit (dec_string n)"
  by (induction n rule: dec_string.induct) (subst dec_string.simps, simp add: is_ascii_digit_digit)

lemma suffix_number_inj:
  assumes "a @ ''_'' @ dec_string m = b @ ''_'' @ dec_string n"
  shows "m = n"
proof -
  have tail: "takeWhile is_ascii_digit (rev (a @ ''_'' @ dec_string m)) = rev (dec_string m)" for a m
  proof -
    have "takeWhile is_ascii_digit (rev (dec_string m) @ rev (a @ ''_'')) = rev (dec_string m) @ takeWhile is_ascii_digit (rev (a @ ''_''))"
      using digits_dec_string [of m] by (intro takeWhile_append2) (simp add: list_all_iff)
    moreover have "\<not> is_ascii_digit (CHR ''_'')" by (simp add: is_ascii_digit_def)
    ultimately show ?thesis by simp
  qed
  have "rev (dec_string m) = rev (dec_string n)" using tail [of a m, unfolded assms tail] by (rule sym)
  then have "parse_digits (dec_string m @ []) 0 = parse_digits (dec_string n @ []) 0" by simp
  then show ?thesis by (simp only: parse_digits_dec_string) simp
qed

text \<open>The names given before an index: the known hosts, or a text with the number of an earlier provider.\<close>

definition known_names :: "string set" where
  "known_names = {''quicknode'', ''drpc'', ''publicnode'', ''arbitrum_public''}"

definition names_before :: "nat \<Rightarrow> string set" where
  "names_before index = known_names \<union> {a @ ''_'' @ dec_string n | a n. n < index}"

lemma safe_provider_name_cases: "safe_provider_name index url \<in> known_names \<or> safe_provider_name index url = ''provider_'' @ dec_string index"
  by (auto simp: safe_provider_name_def known_names_def Let_def split: option.splits)

lemma numbered_name_new: "a @ ''_'' @ dec_string index \<notin> names_before index"
proof -
  have "is_ascii_digit (last (a @ ''_'' @ dec_string index))"
    using digits_dec_string [of index] hd_dec_string(2) [of index] by (simp add: list_all_iff)
  moreover have "\<not> is_ascii_digit (last x)" if "x \<in> known_names" for x
    using that by (auto simp: known_names_def is_ascii_digit_def)
  ultimately have known: "a @ ''_'' @ dec_string index \<notin> known_names" by blast
  show ?thesis
  proof
    assume "a @ ''_'' @ dec_string index \<in> names_before index"
    then obtain b n where "a @ ''_'' @ dec_string index = b @ ''_'' @ dec_string n" "n < index"
      using known unfolding names_before_def by blast
    then show False using suffix_number_inj [of a index b n] by simp
  qed
qed

lemma names_before_Suc: "names_before index \<subseteq> names_before (Suc index)" "a @ ''_'' @ dec_string index \<in> names_before (Suc index)"
  "known_names \<subseteq> names_before index"
  by (auto simp: names_before_def less_Suc_eq)

definition given_name :: "nat \<Rightarrow> string \<Rightarrow> string set \<Rightarrow> string" where
  "given_name index url names =
    (let name = safe_provider_name index url in if name \<in> names then name @ ''_'' @ dec_string index else name)"

lemma given_name_new:
  assumes "names \<subseteq> names_before index"
  shows "given_name index url names \<notin> names" "given_name index url names \<in> names_before (Suc index)"
proof -
  show "given_name index url names \<notin> names"
    using numbered_name_new assms by (auto simp: given_name_def Let_def)
  show "given_name index url names \<in> names_before (Suc index)"
    using safe_provider_name_cases [of index url] names_before_Suc(2) [of _ index] names_before_Suc(2) [of "''provider''" index]
      names_before_Suc(3) [of "Suc index"]
    by (auto simp: given_name_def Let_def)
qed

lemma parse_providers_distinct:
  assumes "parse_providers index xs names = Inr specs" "names \<subseteq> names_before index"
  shows "distinct (map sp_name specs) \<and> names \<inter> sp_name ` set specs = {} \<and>
    list_all (\<lambda>p. is_http_url (sp_url p) \<and> 0 < sp_priority p) specs"
  using assms
proof (induction index xs names arbitrary: specs rule: parse_providers.induct)
  case (2 index url priority rest names)
  let ?name = "given_name index url names"
  obtain w ss where ss: "parse_priority index priority = Inr w" "parse_providers (Suc index) rest (insert ?name names) = Inr ss"
      "specs = \<lparr>sp_name = ?name, sp_url = url, sp_priority = w, sp_header = None\<rparr> # ss" "is_http_url url"
    using 2(2) by (auto simp: result_simps given_name_def Let_def split: if_splits)
  note new = given_name_new [OF 2(3), of url]
  have "insert ?name names \<subseteq> names_before (Suc index)" using new(2) 2(3) names_before_Suc(1) [of index] by blast
  then have "distinct (map sp_name ss)" "insert ?name names \<inter> sp_name ` set ss = {}"
      "list_all (\<lambda>p. is_http_url (sp_url p) \<and> 0 < sp_priority p) ss"
    using 2(1) [OF _ _ ss(1) refl refl, of ss] ss(2,4) 2(2) by (auto simp: given_name_def Let_def split: if_splits)
  then show ?case using ss(3,4) new(1) parse_priority_pos [OF ss(1)] by auto
qed simp

lemma assign_ids_distinct:
  "assign_ids index xs unique = Inr specs \<Longrightarrow>
     distinct (map sp_name specs) \<and> unique \<inter> sp_name ` set specs = {} \<and> map sp_url specs = map (sp_url \<circ> fst) xs \<and>
     map sp_priority specs = map (sp_priority \<circ> fst) xs"
proof (induction index xs unique arbitrary: specs rule: assign_ids.induct)
  case (2 index p identity rest unique)
  then obtain ss where "assign_ids (Suc index) rest (insert identity unique) = Inr ss" "specs = p\<lparr>sp_name := identity\<rparr> # ss"
      "identity \<notin> unique" "identity \<noteq> []" "valid_provider_id identity"
    by (auto simp: result_simps split: if_splits)
  then show ?case using 2(1) [of ss] by auto
qed simp

lemma parse_provider_config_ok: "parse_provider_config urls priorities = Inr specs \<Longrightarrow> specs_ok specs"
  using parse_providers_distinct [of 0 _ "{}" specs]
  by (auto simp: parse_provider_config_def specs_ok_def result_simps Let_def split: if_splits)

lemma with_ids_ok:
  assumes "parse_provider_config_with_ids urls priorities identities = Inr specs"
  shows "specs_ok specs"
proof -
  let ?ids = "map trim (split_on (CHR '','') identities)"
  obtain ss where ss: "parse_provider_config urls priorities = Inr ss" "length ?ids = length ss"
      "assign_ids 0 (zip ss ?ids) {} = Inr specs"
    using assms by (auto simp: parse_provider_config_with_ids_def result_simps Let_def split: if_splits)
  note old = parse_provider_config_ok [OF ss(1)] and new = assign_ids_distinct [OF ss(3)]
  have eq: "map sp_url specs = map sp_url ss" "map sp_priority specs = map sp_priority ss"
    using new ss(2) by (simp_all only: map_map [symmetric] map_fst_zip)
  have "list_all is_http_url (map sp_url specs)" "list_all (\<lambda>w. 0 < w) (map sp_priority specs)"
    using old unfolding eq by (simp_all add: specs_ok_def list_all_iff)
  then have "list_all (\<lambda>p. is_http_url (sp_url p) \<and> 0 < sp_priority p) specs" by (simp add: list_all_iff)
  moreover have "specs \<noteq> []" using old eq(1) by (auto simp: specs_ok_def)
  ultimately show ?thesis using new by (simp add: specs_ok_def)
qed

text \<open>A pool never has two providers of one name. Every configuration that is accepted, with derived names or
  with given identities and with an authenticated provider appended or not, has at least one provider, and
  its providers have distinct names, http(s) URLs and positive weights; so each lease, success, failure and
  cooldown reaches the provider it names.\<close>

theorem provider_config_sound:
  assumes "parse_provider_config urls priorities = Inr specs \<or> parse_provider_config_with_ids urls priorities identities = Inr specs"
    and "specs' = specs \<or>
      append_header_authenticated_provider name_ok value_ok specs identity url priority header header_value = Inr specs'"
  shows "specs' \<noteq> [] \<and> distinct (map pv_name (into_pool specs')) \<and>
    list_all (\<lambda>p. is_http_url (pv_url p) \<and> 0 < pv_weight p) (into_pool specs')"
proof -
  have "specs_ok specs" using assms(1) parse_provider_config_ok with_ids_ok by blast
  then have "specs_ok specs'"
    using assms(2)
    by (auto simp: append_header_authenticated_provider_def specs_ok_def list_ex_iff word_neq_0_conv split: if_splits)
  then show ?thesis by (simp add: specs_ok_def into_pool_def with_header_def comp_def list_all_iff)
qed

end
