(* ===== verification/Gateway_Witnesses.thy ===== *)
theory Gateway_Witnesses
  imports Gateway_Providers
begin

text \<open>The properties of the RPC gateway at concrete inputs.\<close>

theorem budget_rate_bounded_witness:
  "length (filter (\<lambda>ok. ok) (fst (admits [0, 0, 0, 500] (TokenBucket_new 2 1 1000 0)))) * max 1000 1
    \<le> max (unat (2 :: u32)) 1 * max 1000 1 + (500 - 0) * max (unat (1 :: u32)) 1"
  by (rule budget_rate_bounded) (simp_all add: DURATION_BOUND_def)

definition sample_cache :: "nat ttl_cache" where
  "sample_cache = cache_insert ''a'' 1 10 0 (TtlCache_new 1)"

theorem cache_insert_get_witness:
  "fst (cache_get ''b'' 3 (cache_insert ''b'' 2 5 1 sample_cache)) = Some 2 \<and>
   fst (cache_get ''a'' 3 (cache_insert ''b'' 2 5 1 sample_cache)) = None \<and>
   evicted_key ''b'' 1 sample_cache = Some ''a''"
proof -
  have ok: "cache_ok sample_cache"
    unfolding sample_cache_def by (rule cache_insert_ok) (simp add: cache_ok_def TtlCache_new_def)
  have e: "evicted_key ''b'' 1 sample_cache = Some ''a''"
    by (simp add: sample_cache_def cache_insert_def TtlCache_new_def evict_def live_def evicted_key_def Let_def)
  show ?thesis
    using cache_insert_get [OF ok, of 1 3 "''b''" "''b''" 2 5] cache_insert_get [OF ok, of 1 3 "''a''" "''b''" 2 5] e
    by simp
qed

definition sample_ops :: "coalesce_op list" where
  "sample_ops = [Enter ''k'', Enter ''x'', Finish ''x'', Enter ''k'']"

theorem single_flight_witness:
  "fst (coalesce_run sample_ops (snd (coalescer_enter ''k'' Coalescer_default))) =
     [(''k'', Follower), (''x'', Leader), (''k'', Follower)] \<and>
   fst (coalescer_finish ''k'' (snd (coalesce_run sample_ops (snd (coalescer_enter ''k'' Coalescer_default))))) = of_nat 2"
proof -
  have 1: "coalesce_run [] Coalescer_default = ([], Coalescer_default)" by simp
  have 2: "coalescer_enter ''k'' Coalescer_default = (Leader, snd (coalescer_enter ''k'' Coalescer_default))"
    by (simp add: coalescer_enter_def Coalescer_default_def)
  have 3: "fst (coalesce_run sample_ops (snd (coalescer_enter ''k'' Coalescer_default))) =
     [(''k'', Follower), (''x'', Leader), (''k'', Follower)]"
    by (simp add: sample_ops_def coalescer_enter_def coalescer_finish_def Coalescer_default_def)
  have "Finish ''k'' \<notin> set sample_ops" "length (filter (\<lambda>x. x = Enter ''k'') sample_ops) = 2"
    by (simp_all add: sample_ops_def)
  then show ?thesis using single_flight [OF 1 2 _ prod.collapse [symmetric], of sample_ops] 3 by simp
qed

definition sample_provider :: provider where
  "sample_provider = provider_failure_at 5 (provider_failure_at 0 (with_header ''drpc'' ''https://drpc'' None 1))"

theorem circuit_stays_open_witness:
  "list_all Not (fst (provider_run [OpReserve 10, OpSuccess, OpReserve 11, OpFailure 12, OpCooldown 12 0, OpReserve 13]
     (provider_failure_at 9 sample_provider)))"
  by (rule circuit_stays_open)
    (simp_all add: sample_provider_def provider_failure_at_def with_header_def Let_def SECOND_def)

definition sample_specs :: "provider_spec list" where
  "sample_specs = [\<lparr>sp_name = ''drpc'', sp_url = ''http://drpc'', sp_priority = 2, sp_header = None\<rparr>,
     \<lparr>sp_name = ''drpc_1'', sp_url = ''http://drpc/b'', sp_priority = 1, sp_header = None\<rparr>]"

theorem provider_config_sound_witness:
  "parse_provider_config ''http://drpc, http://drpc/b'' ''2,1'' = Inr sample_specs \<and>
   sample_specs \<noteq> [] \<and> distinct (map pv_name (into_pool sample_specs)) \<and>
   list_all (\<lambda>p. is_http_url (pv_url p) \<and> 0 < pv_weight p) (into_pool sample_specs)"
proof -
  have "parse_provider_config ''http://drpc, http://drpc/b'' ''2,1'' = Inr sample_specs" by code_simp
  then show ?thesis
    using provider_config_sound [of "''http://drpc, http://drpc/b''" "''2,1''" sample_specs "[]" sample_specs] by simp
qed

end
