(* ===== verification/Spec2Isabelle.thy ===== *)
theory Spec2Isabelle
  imports Money_Path_Witnesses Amm_Swap Economics Optimizer Decision Executor_Recovery Contract_Witnesses Feed_Keccak Feed_Witnesses Gateway_Witnesses
begin

text \<open>
  Verification library of Phoenix, an arbitrage and liquidation system for the Arbitrum chain.

  \<^bold>\<open>The program.\<close> A feed ingestor in Go reads the sequencer feed, decodes and normalises the transactions in it
  and publishes them to a stream. A classifier in Rust tells which of them swap through a reviewed pool. An
  engine in Rust looks for profitable cycles of pools, prices them and decides; an RPC gateway in Rust serves
  its reads of the chain. A live executor in Rust takes an approved request from a Postgres database, signs and
  sends one transaction at a time, and records what came of it.
  The transaction calls the Solidity contract PhoenixExecutor, which borrows, swaps or liquidates, repays and
  must end with its minimum profit. The development follows that path: each component is modelled on its
  own, and the contracts between them are locales.

  \<^bold>\<open>Base.\<close> \<open>Phoenix_Prelude\<close>: machine integers as words with Rust's checked and saturating operations, results
  as sums with the operator \<open>?\<close> as \<open>and_then\<close>, ASCII text, decimal numbers, and the collections
  \<open>checked_simps\<close> and \<open>result_simps\<close> that the other theories use.

  \<^bold>\<open>Engine (phoenix-engine/src).\<close>
  \<^item> \<open>Domain\<close>: addresses, pools, routes and the pool graph (domain, state, graph, profit, execution). The locale
    \<open>route_index\<close> is what the engine relies on of the graph; the graph interprets it.
  \<^item> \<open>Amm_V3\<close>, \<open>Amm_Chain\<close>, \<open>Amm_Ticks\<close>, \<open>Amm_Swap\<close>: the concentrated-liquidity arithmetic (amm/v3). The tick
    ratio is total and in range, a swap inside the current tick range never panics and never pays more than
    the exact curve.
  \<^item> \<open>Economics\<close>, \<open>Optimizer\<close>, \<open>Opportunity\<close>, \<open>Decision\<close>: the cost model and its scenarios, the grid of sizes
    and the two passes over it, the evidence of an opportunity, and the decision. The grids end, the optimum is
    the best of the grid, and a decision accepts exactly when no finding speaks against it.

  \<^bold>\<open>Live executor (live-executor/src).\<close>
  \<^item> \<open>Executor_Model\<close>, \<open>Executor_Request\<close>: requests, routes and approvals (model.rs), what validation guarantees
    and that an approval determines its request.
  \<^item> \<open>Executor_Abi\<close>, \<open>Executor_Settlement\<close>: calldata and settlement events (abi.rs, aave.rs), with the round trip
    of an encoded liquidation.
  \<^item> \<open>Economic_Control\<close>: the ladder of sizes (economic_control.rs).
  \<^item> \<open>Executor_Store\<close>, \<open>Executor_Store_Ops\<close>: the tables of the store as records and its transactions as
    functions on them (store.rs), each statement with its condition and its row count, and the checks of the
    schema that can abort it.
  \<^item> \<open>Executor_Engine\<close>: the step of the engine (engine.rs), with the signer, the RPC client and the clock as a
    parameter that answers each call.
  \<^item> \<open>Executor_Safety\<close>: the locale \<open>nonce_store\<close> is the contract of the engine with its store, and the safety of
    a step is proved from it alone. \<open>Executor_Store_Laws\<close> interprets it by the Postgres store, gives the life
    cycle of an attempt, exclusive claims and the closed state after a disarm, and derives that a run of the
    executor sends each nonce once. \<open>Executor_Outcomes\<close> has the bounds of a request, the recorded results, the
    refinement of an abstract nonce ledger, and two settlements the code can never complete;
    \<open>Executor_Progress\<close> that an undisturbed step submits; \<open>Executor_Recovery\<close> what a finished attempt leaves.
    \<open>Executor_Samples\<close> and \<open>Executor_Witnesses\<close> hold a concrete database and environment.

  \<^bold>\<open>Contract (contracts/src/PhoenixExecutor.sol).\<close>
  \<^item> \<open>Contract_Model\<close>: storage, modifiers and every function, as programs over external calls.
  \<^item> \<open>Contract_Semantics\<close>: how a program runs when the environment may, during every call, move tokens, spend
    allowances and call the contract again. The locale \<open>rely\<close> says what is preserved across a call if every
    entry of the contract preserves it.
  \<^item> \<open>Contract_Safety\<close>, \<open>Contract_Invariants\<close>: interpretations of \<open>rely\<close> for the execution lock and the
    configuration; a liquidation, an arbitrage and an Atlas call pay their minimum or revert, external calls
    are authorised, the contract is idle between transactions, and outsiders are refused.
    \<open>Contract_Witnesses\<close> has an environment in which each execution succeeds.

  \<^bold>\<open>Feed ingestor (feed-ingestor).\<close>
  \<^item> \<open>Feed_Rlp\<close>, \<open>Feed_Keccak\<close>: the RLP reader accepts exactly the canonical encodings, and the in-place Keccak is
    the function of FIPS 202 (internal/nitro/rlp.go, keccak.go).
  \<^item> \<open>Feed_Nitro\<close>, \<open>Feed_Normalizer\<close>: broadcasts, batches and signed transactions with cancellation
    (adapter.go), normalisation, the sequence tracker and the line decoder (tx.go, sequence.go, decoder.go).
  \<^item> \<open>Feed_Pipeline\<close>: the publisher with its retries (nats.go), the readiness (metrics.go) and the relay loop
    (cmd/feed-ingestor/main.go). \<open>Feed_Source\<close> is the websocket source with its reconnections
    (websocket_source.go), \<open>Feed_Line\<close> the choice of a source, the line loop and the sampled log.
  \<^item> \<open>Feed_Relay\<close>: the locale \<open>relay_invariant\<close> reduces an invariant of the loop to its steps; its three
    interpretations give the order of publication, the accounting of gaps and the finality of a breach of
    integrity. \<open>Feed_Witnesses\<close> has a feed, a stream and a source.

  \<^bold>\<open>RPC gateway (rpc-gateway/src).\<close>
  \<^item> \<open>Gateway_Schedule\<close>: the request budget, the cache, the coalescer, the order of requests, readiness and the
    identity of pinned reads (budget.rs, cache.rs, coalescer.rs, priority.rs, runtime_state.rs, economic.rs).
  \<^item> \<open>Gateway_Providers\<close>: providers, their circuit breakers, the choice of one and their configuration
    (providers.rs). \<open>Gateway_Witnesses\<close> has the instances.

  \<^bold>\<open>Money-path classifier (money-path-classifier/src).\<close> \<open>Money_Path\<close>: the decoder of calls to the reviewed routers
  (uniswap.rs) and the classification of a transaction by the pools it touches (lib.rs, domain.rs). A pool
  identifier stands for an unordered pair of tokens and a fee; a supported swap is well formed and is the only
  swap of its call; a transaction is relevant exactly when such a swap has a hop on a leg of the reviewed
  registry. \<open>Money_Path_Witnesses\<close> has a release and two calls.

  \<^bold>\<open>Conventions.\<close> Unsigned integers are words of their width; signed ones are integers with the range test of
  each operation written out. A raise, a revert or an error return is a value of a sum, a panic a value of its
  own. Loops are recursive functions with a termination proof, so every definition is total and no fuel is
  used; a loop of a service that never ends by itself runs over the list of what it meets and stops where the
  list does, and its properties hold for every list. The runs of the contract are an inductive relation in
  which the environment may call back at any time and to any depth. Third-party code (cryptography, JSON, ABI
  and hexadecimal codecs, go-ethereum, the NATS and websocket clients, the chain itself) is a parameter; what is
  used of it is a named hypothesis, and the witnesses instantiate it.

  \<^bold>\<open>Approximations.\<close> Text is ASCII, so the predicates of Rust on characters are those on ASCII. The store is a
  superset of the database: the trigger on the transitions of a candidate, the CHECK constraints of
  execution_requests and the format of a transaction hash are not modelled, and the control epochs of the lock
  and of the risk feedback are unbounded. So what is proved of every committed transaction holds of those the
  database commits, while the progress of a step assumes that the constraints left out are met. The evaluator
  given to the optimizer is a function of the size; a closure whose answers change between calls is not covered.

  \<^bold>\<open>Not modelled.\<close> The SQL of the recorder, of the atlas observer and of the migration runner, the HTTP and
  metrics servers, dashboards, release scripts and operations bots are input and output around calls of
  libraries. Of the executor, the owner bootstrap, the contract rotation, the approval tool and the autonomous
  control service are not modelled, nor the parts of the store that only they use. Of the engine, the hunter,
  the enrichment, the persistence and the process around the modelled decision are not modelled; of the
  gateway, the request runtime, the state readers built on third-party ABI codecs, and the transport. The
  replay and fork tools rerun the modelled engine and are not modelled. Timing inside one step is not: a change
  of a connection is seen between two messages, and database transactions are atomic.
\<close>

end
